(* ===== verification/Prelude.thy ===== *)
theory Prelude
  imports Main "HOL-Library.AList" "HOL-Library.Sublist" "HOL-Library.Word"
    "HOL-Library.Option_ord" "HOL-Library.Product_Lexorder" "HOL-Library.Code_Target_Nat"
begin

text \<open>
  Shared vocabulary of the development: identifiers, clocks and durations, UTF-8 strings with the
  operations of \<^verbatim>\<open>std::str\<close> the sources use, hash maps as association lists, the iterator
  adaptors \<^verbatim>\<open>max_by\<close> and \<^verbatim>\<open>min_by_key\<close>, and saturating 64/128-bit arithmetic.
  The lemmas are generic facts about these that the component theories share.
\<close>

named_theorems hm_simps "lookup, size and key-set facts of the hash-map operations"
named_theorems sat_simps "unfolding rules of saturating machine arithmetic"

section \<open>Identifiers, clocks and durations\<close>

text \<open>
  A UUID is its 128-bit value; \<^verbatim>\<open>Uuid\<close>'s \<^verbatim>\<open>Ord\<close> compares the bytes in order,
  which is the order of that number.
  A \<^verbatim>\<open>std::time::Instant\<close> is a number of nanoseconds since an arbitrary origin and a
  \<^verbatim>\<open>Duration\<close> a number of nanoseconds; a \<^verbatim>\<open>DateTime<Utc>\<close> is a signed number of
  nanoseconds since the Unix epoch.
\<close>

type_synonym uuid = nat
type_synonym instant = nat
type_synonym duration = nat
type_synonym timestamp = int

definition from_secs :: "nat \<Rightarrow> duration" where
  "from_secs s = s * 1000000000"

definition from_millis :: "nat \<Rightarrow> duration" where
  "from_millis ms = ms * 1000000"

definition as_secs :: "duration \<Rightarrow> nat" where
  "as_secs d = d div 1000000000"

lemma as_secs_from_secs [simp]: "as_secs (from_secs s) = s"
  by (simp add: as_secs_def from_secs_def)

lemma from_secs_le [simp]: "from_secs a \<le> from_secs b \<longleftrightarrow> a \<le> b"
  by (simp add: from_secs_def)

lemma from_secs_pos [simp]: "0 < from_secs s \<longleftrightarrow> 0 < s"
  by (simp add: from_secs_def)

text \<open>\<^verbatim>\<open>Ord::clamp\<close> for \<^term>\<open>lo \<le> hi\<close>.\<close>

definition clamp :: "'a::linorder \<Rightarrow> 'a \<Rightarrow> 'a \<Rightarrow> 'a" where
  "clamp x lo hi = (if x < lo then lo else if hi < x then hi else x)"

lemma clamp_bounds: "lo \<le> hi \<Longrightarrow> lo \<le> clamp x lo hi \<and> clamp x lo hi \<le> hi"
  by (auto simp: clamp_def)

lemma clamp_id: "lo \<le> x \<Longrightarrow> x \<le> hi \<Longrightarrow> clamp x lo hi = x"
  by (auto simp: clamp_def)

lemma clamp_mono: "lo \<le> hi \<Longrightarrow> x \<le> y \<Longrightarrow> clamp x lo hi \<le> clamp y lo hi"
  by (auto simp: clamp_def)

section \<open>Machine integers\<close>

text \<open>
  \<^verbatim>\<open>i64\<close> and \<^verbatim>\<open>i128\<close> values are integers; the saturating operations write out the
  cut-off. Counters that wrap (\<^verbatim>\<open>AtomicU64\<close>, \<^verbatim>\<open>AtomicUsize\<close>) are 64-bit words.
\<close>

type_synonym u64 = "64 word"

definition i64_min :: int where "i64_min = - 9223372036854775808"
definition i64_max :: int where "i64_max = 9223372036854775807"
definition i128_min :: int where "i128_min = - 170141183460469231731687303715884105728"
definition i128_max :: int where "i128_max = 170141183460469231731687303715884105727"
definition u64_max :: nat where "u64_max = 18446744073709551615"

definition is_i64 :: "int \<Rightarrow> bool" where
  "is_i64 x \<longleftrightarrow> i64_min \<le> x \<and> x \<le> i64_max"

definition sat_i64 :: "int \<Rightarrow> int" where
  "sat_i64 x = max i64_min (min i64_max x)"

definition sat_i128 :: "int \<Rightarrow> int" where
  "sat_i128 x = max i128_min (min i128_max x)"

lemmas int_limits [sat_simps] =
  i64_min_def i64_max_def i128_min_def i128_max_def u64_max_def

lemma sat_i64_id: "is_i64 x \<Longrightarrow> sat_i64 x = x"
  by (auto simp: sat_i64_def is_i64_def)

lemma is_i64_sat [simp]: "is_i64 (sat_i64 x)"
  by (auto simp: sat_i64_def is_i64_def sat_simps)

lemma sat_i64_mono: "x \<le> y \<Longrightarrow> sat_i64 x \<le> sat_i64 y"
  by (auto simp: sat_i64_def)

lemma sat_i64_nonneg: "0 \<le> x \<Longrightarrow> 0 \<le> sat_i64 x"
  by (auto simp: sat_i64_def sat_simps)

section \<open>UTF-8 strings\<close>

text \<open>
  A Rust string is its UTF-8 byte sequence, so \<^const>\<open>length\<close> is \<^verbatim>\<open>str::len\<close> and prefix,
  suffix and substring tests are bytewise, as in Rust. \<^verbatim>\<open>str::trim\<close> removes the characters with
  the Unicode property White\_Space at both ends: the ones listed here, each as its UTF-8 encoding.
\<close>

definition utf8_whitespace :: "string list" where
  "utf8_whitespace =
     [[CHR 0x09], [CHR 0x0A], [CHR 0x0B], [CHR 0x0C], [CHR 0x0D], [CHR 0x20],
      [CHR 0xC2, CHR 0x85], [CHR 0xC2, CHR 0xA0], [CHR 0xE1, CHR 0x9A, CHR 0x80],
      [CHR 0xE2, CHR 0x80, CHR 0x80], [CHR 0xE2, CHR 0x80, CHR 0x81],
      [CHR 0xE2, CHR 0x80, CHR 0x82], [CHR 0xE2, CHR 0x80, CHR 0x83],
      [CHR 0xE2, CHR 0x80, CHR 0x84], [CHR 0xE2, CHR 0x80, CHR 0x85],
      [CHR 0xE2, CHR 0x80, CHR 0x86], [CHR 0xE2, CHR 0x80, CHR 0x87],
      [CHR 0xE2, CHR 0x80, CHR 0x88], [CHR 0xE2, CHR 0x80, CHR 0x89],
      [CHR 0xE2, CHR 0x80, CHR 0x8A], [CHR 0xE2, CHR 0x80, CHR 0xA8],
      [CHR 0xE2, CHR 0x80, CHR 0xA9], [CHR 0xE2, CHR 0x80, CHR 0xAF],
      [CHR 0xE2, CHR 0x81, CHR 0x9F], [CHR 0xE3, CHR 0x80, CHR 0x80]]"

lemma utf8_whitespace_nonempty: "w \<in> set utf8_whitespace \<Longrightarrow> w \<noteq> []"
  by (auto simp: utf8_whitespace_def)

text \<open>Stripping the patterns \<open>ws\<close> from the front as long as one of them is a prefix.\<close>

function strip_front :: "'a list list \<Rightarrow> 'a list \<Rightarrow> 'a list" where
  "strip_front ws s =
     (case find (\<lambda>w. w \<noteq> [] \<and> prefix w s) ws of
        None \<Rightarrow> s
      | Some w \<Rightarrow> strip_front ws (drop (length w) s))"
  by pat_completeness auto
termination
  by (relation "measure (\<lambda>(ws, s). length s)")
    (auto simp: find_Some_iff prefix_def)

declare strip_front.simps [simp del]

definition trim_start :: "string \<Rightarrow> string" where
  "trim_start s = strip_front utf8_whitespace s"

definition trim_end :: "string \<Rightarrow> string" where
  "trim_end s = rev (strip_front (map rev utf8_whitespace) (rev s))"

definition trim :: "string \<Rightarrow> string" where
  "trim s = trim_end (trim_start s)"

lemma strip_front_done: "find (\<lambda>w. w \<noteq> [] \<and> prefix w (strip_front ws s)) ws = None"
proof (induction ws s rule: strip_front.induct)
  case (1 ws s)
  then show ?case
    by (cases "find (\<lambda>w. w \<noteq> [] \<and> prefix w s) ws") (simp_all add: strip_front.simps [of ws s])
qed

lemma strip_front_idem [simp]: "strip_front ws (strip_front ws s) = strip_front ws s"
  by (simp add: strip_front.simps [of ws "strip_front ws s"] strip_front_done)

lemma strip_front_suffix: "suffix (strip_front ws s) s"
proof (induction ws s rule: strip_front.induct)
  case (1 ws s)
  show ?case
  proof (cases "find (\<lambda>w. w \<noteq> [] \<and> prefix w s) ws")
    case None
    then show ?thesis by (simp add: strip_front.simps [of ws s])
  next
    case (Some w)
    with 1 have "suffix (strip_front ws (drop (length w) s)) (drop (length w) s)" by simp
    moreover have "suffix (drop (length w) s) s" by (rule suffix_drop)
    ultimately have "suffix (strip_front ws (drop (length w) s)) s"
      by (rule suffix_order.trans)
    with Some show ?thesis by (simp add: strip_front.simps [of ws s])
  qed
qed

lemma strip_front_Nil [simp]: "strip_front ws [] = []"
  using strip_front_suffix [of ws "[]"] by simp

lemma strip_front_fixed:
  "(\<And>w. w \<in> set ws \<Longrightarrow> w \<noteq> [] \<Longrightarrow> \<not> prefix w s) \<Longrightarrow> strip_front ws s = s"
proof -
  assume "\<And>w. w \<in> set ws \<Longrightarrow> w \<noteq> [] \<Longrightarrow> \<not> prefix w s"
  then have "find (\<lambda>w. w \<noteq> [] \<and> prefix w s) ws = None" by (auto simp: find_None_iff)
  then show ?thesis by (simp add: strip_front.simps [of ws s])
qed

lemma trim_end_prefix: "prefix (trim_end s) s"
  using strip_front_suffix [of "map rev utf8_whitespace" "rev s"]
  by (simp add: trim_end_def suffix_to_prefix)

lemma trim_end_idem [simp]: "trim_end (trim_end s) = trim_end s"
  by (simp add: trim_end_def)

lemma trim_start_of_trim: "trim_start (trim s) = trim s"
  unfolding trim_start_def
proof (rule strip_front_fixed)
  fix w assume w: "w \<in> set utf8_whitespace" "w \<noteq> []"
  have "find (\<lambda>w. w \<noteq> [] \<and> prefix w (trim_start s)) utf8_whitespace = None"
    unfolding trim_start_def by (rule strip_front_done)
  with w have "\<not> prefix w (trim_start s)" by (auto simp: find_None_iff)
  moreover have "prefix (trim s) (trim_start s)" by (simp add: trim_def trim_end_prefix)
  ultimately show "\<not> prefix w (trim s)" using prefix_order.trans by blast
qed

lemma trim_idem [simp]: "trim (trim s) = trim s"
proof -
  have "trim (trim s) = trim_end (trim_start (trim s))" by (simp add: trim_def)
  also have "\<dots> = trim_end (trim s)" by (simp add: trim_start_of_trim)
  also have "\<dots> = trim s" by (simp add: trim_def)
  finally show ?thesis .
qed

lemma trim_Nil [simp]: "trim [] = []"
  by (simp add: trim_def trim_start_def trim_end_def)

text \<open>
  The idiom \<^verbatim>\<open>.map(str::trim).filter(|value| !value.is_empty())\<close>, which occurs throughout the
  sources.
\<close>

definition trim_nonempty :: "string \<Rightarrow> string option" where
  "trim_nonempty s = (let t = trim s in if t = [] then None else Some t)"

lemma trim_nonempty_Some:
  "trim_nonempty s = Some t \<longleftrightarrow> t = trim s \<and> t \<noteq> []"
  by (auto simp: trim_nonempty_def Let_def)

lemma trim_nonempty_idem: "trim_nonempty s = Some t \<Longrightarrow> trim_nonempty t = Some t"
  by (auto simp: trim_nonempty_Some)

definition ascii_lower :: "char \<Rightarrow> char" where
  "ascii_lower c =
     (if 65 \<le> (of_char c :: nat) \<and> of_char c \<le> (90 :: nat) then char_of (of_char c + 32 :: nat) else c)"

definition to_ascii_lowercase :: "string \<Rightarrow> string" where
  "to_ascii_lowercase s = map ascii_lower s"

definition eq_ignore_ascii_case :: "string \<Rightarrow> string \<Rightarrow> bool" where
  "eq_ignore_ascii_case a b \<longleftrightarrow> to_ascii_lowercase a = to_ascii_lowercase b"

lemma ascii_lower_idem [simp]: "ascii_lower (ascii_lower c) = ascii_lower c"
  by (auto simp: ascii_lower_def)

lemma to_ascii_lowercase_idem [simp]:
  "to_ascii_lowercase (to_ascii_lowercase s) = to_ascii_lowercase s"
  by (simp add: to_ascii_lowercase_def)

text \<open>\<^verbatim>\<open>s.contains(p)\<close>, \<^verbatim>\<open>chars().count()\<close> (every byte that is not a UTF-8
  continuation byte starts a character) and \<^verbatim>\<open>trim_end_matches(c)\<close>.\<close>

definition str_contains :: "string \<Rightarrow> string \<Rightarrow> bool" where
  "str_contains s p \<longleftrightarrow> sublist p s"

definition chars_count :: "string \<Rightarrow> nat" where
  "chars_count s = length (filter (\<lambda>c. (of_char c :: nat) < 128 \<or> 192 \<le> (of_char c :: nat)) s)"

definition trim_end_matches :: "char \<Rightarrow> string \<Rightarrow> string" where
  "trim_end_matches c s = rev (dropWhile (\<lambda>d. d = c) (rev s))"

definition trim_start_matches :: "char \<Rightarrow> string \<Rightarrow> string" where
  "trim_start_matches c s = dropWhile (\<lambda>d. d = c) s"

text \<open>Decimal notation of natural numbers.\<close>

fun to_decimal :: "nat \<Rightarrow> string" where
  "to_decimal n = (if n < 10 then [char_of (48 + n)] else to_decimal (n div 10) @ [char_of (48 + n mod 10)])"

declare to_decimal.simps [simp del]

section \<open>Hash maps\<close>

text \<open>
  A \<^verbatim>\<open>HashMap\<close> is an association list with distinct keys; the list order stands for the
  iteration order, which Rust leaves unspecified. \<^const>\<open>map_of\<close> is \<^verbatim>\<open>get\<close>,
  \<^const>\<open>AList.update\<close> is \<^verbatim>\<open>insert\<close>, \<^const>\<open>AList.delete\<close> is \<^verbatim>\<open>remove\<close>.
\<close>

type_synonym ('k, 'v) hash_map = "('k \<times> 'v) list"

abbreviation hm_ok :: "('k, 'v) hash_map \<Rightarrow> bool" where
  "hm_ok m \<equiv> distinct (map fst m)"

abbreviation hm_insert :: "'k \<Rightarrow> 'v \<Rightarrow> ('k, 'v) hash_map \<Rightarrow> ('k, 'v) hash_map" where
  "hm_insert \<equiv> AList.update"

abbreviation hm_remove :: "'k \<Rightarrow> ('k, 'v) hash_map \<Rightarrow> ('k, 'v) hash_map" where
  "hm_remove \<equiv> AList.delete"

definition hm_retain :: "('k \<Rightarrow> 'v \<Rightarrow> bool) \<Rightarrow> ('k, 'v) hash_map \<Rightarrow> ('k, 'v) hash_map" where
  "hm_retain P m = filter (\<lambda>(k, v). P k v) m"

text \<open>Collecting an iterator of pairs into a map: later pairs replace earlier ones.\<close>

definition hm_collect :: "('k \<times> 'v) list \<Rightarrow> ('k, 'v) hash_map" where
  "hm_collect kvs = fold (\<lambda>(k, v) m. hm_insert k v m) kvs []"

lemma map_of_hm_insert [hm_simps]: "map_of (hm_insert k v m) k' = (if k' = k then Some v else map_of m k')"
  by (simp add: update_conv')

lemma map_of_hm_remove [hm_simps]: "map_of (hm_remove k m) k' = (if k' = k then None else map_of m k')"
  by (simp add: delete_conv')

lemma map_of_hm_retain [hm_simps]:
  "hm_ok m \<Longrightarrow> map_of (hm_retain P m) k =
     (case map_of m k of None \<Rightarrow> None | Some v \<Rightarrow> if P k v then Some v else None)"
  by (induction m) (auto simp: hm_retain_def map_of_eq_None_iff image_iff split: option.splits)

lemma hm_ok_insert [simp]: "hm_ok m \<Longrightarrow> hm_ok (hm_insert k v m)"
  by (rule distinct_update)

lemma hm_ok_remove [simp]: "hm_ok m \<Longrightarrow> hm_ok (hm_remove k m)"
  by (rule distinct_delete)

lemma hm_ok_retain [simp]: "hm_ok m \<Longrightarrow> hm_ok (hm_retain P m)"
  by (simp add: hm_retain_def distinct_map_filter)

lemma hm_ok_collect [simp]: "hm_ok (hm_collect kvs)"
proof -
  have "hm_ok m \<Longrightarrow> hm_ok (fold (\<lambda>(k, v) m. hm_insert k v m) kvs m)" for m
    by (induction kvs arbitrary: m) (auto simp: distinct_update)
  then show ?thesis by (simp add: hm_collect_def)
qed

lemma keys_hm_insert [hm_simps]: "fst ` set (hm_insert k v m) = insert k (fst ` set m)"
  by (simp add: dom_update)

lemma keys_hm_remove [hm_simps]: "fst ` set (hm_remove k m) = fst ` set m - {k}"
  by (auto simp: AList.delete_eq)

lemma set_hm_retain [hm_simps]: "set (hm_retain P m) = {(k, v). (k, v) \<in> set m \<and> P k v}"
  by (auto simp: hm_retain_def)

lemma set_hm_remove_subset: "set (hm_remove k m) \<subseteq> set m"
  by (auto simp: AList.delete_eq)

lemma set_hm_insert_subset: "set (hm_insert k v m) \<subseteq> insert (k, v) (set m)"
  by (induction m) auto

lemma keys_hm_collect [hm_simps]: "fst ` set (hm_collect kvs) = fst ` set kvs"
proof -
  have "fst ` set (fold (\<lambda>(k, v) m. hm_insert k v m) kvs m) = fst ` set kvs \<union> fst ` set m" for m
    by (induction kvs arbitrary: m)
      (auto simp del: image_set simp add: keys_hm_insert split_beta)
  then show ?thesis by (simp add: hm_collect_def)
qed

lemma set_hm_collect_subset: "set (hm_collect kvs) \<subseteq> set kvs"
proof -
  have "set (fold (\<lambda>(k, v) m. hm_insert k v m) kvs m) \<subseteq> set kvs \<union> set m" for m
  proof (induction kvs arbitrary: m)
    case (Cons kv kvs)
    obtain k v where [simp]: "kv = (k, v)" by (cases kv)
    from Cons.IH [of "hm_insert k v m"] set_hm_insert_subset [of k v m] show ?case by auto
  qed simp
  from this [of "[]"] show ?thesis by (simp add: hm_collect_def)
qed

lemma length_hm_insert [hm_simps]:
  "length (hm_insert k v m) = (if k \<in> fst ` set m then length m else Suc (length m))"
  by (induction m) auto

lemma length_hm_remove_le: "length (hm_remove k m) \<le> length m"
  by (rule length_delete_le)

lemma length_hm_remove_less: "k \<in> fst ` set m \<Longrightarrow> length (hm_remove k m) < length m"
proof (induction m)
  case (Cons kv m)
  with length_hm_remove_le [of k m] show ?case by (cases "fst kv = k") auto
qed simp

lemma length_hm_retain_le: "length (hm_retain P m) \<le> length m"
  by (simp add: hm_retain_def)

lemma map_of_Some_key: "map_of m k = Some v \<Longrightarrow> k \<in> fst ` set m"
  by (force dest: map_of_SomeD)

section \<open>Iterator adaptors\<close>

text \<open>
  \<^verbatim>\<open>max_by\<close> keeps the last of several maxima, \<^verbatim>\<open>min_by_key\<close> the first of several
  minima; both are given here through the key that is compared.
\<close>

fun max_by_key_from :: "('a \<Rightarrow> 'k::linorder) \<Rightarrow> 'a \<Rightarrow> 'a list \<Rightarrow> 'a" where
  "max_by_key_from f acc [] = acc"
| "max_by_key_from f acc (x # xs) = max_by_key_from f (if f acc \<le> f x then x else acc) xs"

definition max_by_key :: "('a \<Rightarrow> 'k::linorder) \<Rightarrow> 'a list \<Rightarrow> 'a option" where
  "max_by_key f xs = (case xs of [] \<Rightarrow> None | x # ys \<Rightarrow> Some (max_by_key_from f x ys))"

fun min_by_key_from :: "('a \<Rightarrow> 'k::linorder) \<Rightarrow> 'a \<Rightarrow> 'a list \<Rightarrow> 'a" where
  "min_by_key_from f acc [] = acc"
| "min_by_key_from f acc (x # xs) = min_by_key_from f (if f x < f acc then x else acc) xs"

definition min_by_key :: "('a \<Rightarrow> 'k::linorder) \<Rightarrow> 'a list \<Rightarrow> 'a option" where
  "min_by_key f xs = (case xs of [] \<Rightarrow> None | x # ys \<Rightarrow> Some (min_by_key_from f x ys))"

lemma max_by_key_from_in: "max_by_key_from f acc xs \<in> insert acc (set xs)"
  by (induction f acc xs rule: max_by_key_from.induct) auto

lemma max_by_key_from_ge:
  fixes f :: "'a \<Rightarrow> 'k::linorder"
  shows "y \<in> insert acc (set xs) \<Longrightarrow> f y \<le> f (max_by_key_from f acc xs)"
proof (induction xs arbitrary: acc y)
  case (Cons x xs)
  define acc' where "acc' = (if f acc \<le> f x then x else acc)"
  have acc': "f acc \<le> f acc'" "f x \<le> f acc'" by (auto simp: acc'_def)
  have "f acc' \<le> f (max_by_key_from f acc' xs)" by (rule Cons.IH) simp
  with acc' Cons.prems Cons.IH [of y acc'] have "f y \<le> f (max_by_key_from f acc' xs)"
    by (auto intro: order_trans)
  then show ?case by (simp add: acc'_def)
qed simp

lemma by_key_Nil [simp]: "max_by_key f [] = None" "min_by_key f [] = None"
  by (simp_all add: max_by_key_def min_by_key_def)

lemma max_by_key_None [simp]: "max_by_key f xs = None \<longleftrightarrow> xs = []"
  by (simp add: max_by_key_def split: list.split)

lemma max_by_key_Some:
  assumes "max_by_key f xs = Some x"
  shows "x \<in> set xs \<and> (\<forall>y \<in> set xs. f y \<le> f x)"
proof -
  from assms obtain z zs where xs: "xs = z # zs" "x = max_by_key_from f z zs"
    by (auto simp: max_by_key_def split: list.splits)
  then show ?thesis
    using max_by_key_from_in [of f z zs] max_by_key_from_ge [of _ z zs f] by auto
qed

lemma max_by_key_in: "max_by_key f xs = Some x \<Longrightarrow> x \<in> set xs"
  using max_by_key_Some [of f xs x] by simp

lemma min_by_key_from_in: "min_by_key_from f acc xs \<in> insert acc (set xs)"
  by (induction f acc xs rule: min_by_key_from.induct) auto

lemma min_by_key_from_le:
  fixes f :: "'a \<Rightarrow> 'k::linorder"
  shows "y \<in> insert acc (set xs) \<Longrightarrow> f (min_by_key_from f acc xs) \<le> f y"
proof (induction xs arbitrary: acc y)
  case (Cons x xs)
  define acc' where "acc' = (if f x < f acc then x else acc)"
  have acc': "f acc' \<le> f acc" "f acc' \<le> f x" by (auto simp: acc'_def)
  have "f (min_by_key_from f acc' xs) \<le> f acc'" by (rule Cons.IH) simp
  with acc' Cons.prems Cons.IH [of y acc'] have "f (min_by_key_from f acc' xs) \<le> f y"
    by (auto intro: order_trans)
  then show ?case by (simp add: acc'_def)
qed simp

lemma min_by_key_None [simp]: "min_by_key f xs = None \<longleftrightarrow> xs = []"
  by (simp add: min_by_key_def split: list.split)

lemma min_by_key_Some:
  assumes "min_by_key f xs = Some x"
  shows "x \<in> set xs \<and> (\<forall>y \<in> set xs. f x \<le> f y)"
proof -
  from assms obtain z zs where xs: "xs = z # zs" "x = min_by_key_from f z zs"
    by (auto simp: min_by_key_def split: list.splits)
  then show ?thesis
    using min_by_key_from_in [of f z zs] min_by_key_from_le [of _ z zs f] by auto
qed

lemma set_map_filter: "y \<in> set (List.map_filter f xs) \<longleftrightarrow> (\<exists>x \<in> set xs. f x = Some y)"
  by (force simp: map_filter_def)

lemma map_of_distinct_Some: "hm_ok m \<Longrightarrow> map_of m k = Some v \<longleftrightarrow> (k, v) \<in> set m"
  by (rule map_of_eq_Some_iff)

end
