(* ===== verification/Core_Model.thy ===== *)
theory Core_Model
  imports Prelude
begin

text \<open>
  The shared data model of \<^verbatim>\<open>crates/codex-pool-core\<close>: the records and enumerations of
  \<^verbatim>\<open>model.rs\<close>, \<^verbatim>\<open>snapshot.rs\<close> and \<^verbatim>\<open>runtime_contract.rs\<close> that the data plane and
  the control plane exchange, and the product editions of \<^verbatim>\<open>edition.rs\<close> with the capabilities
  each one has. Fields carry a short prefix of their structure, because record fields are global
  names.
\<close>

section \<open>Accounts and keys\<close>

record tenant =
  t_id :: uuid
  t_name :: string
  t_created_at :: timestamp

record api_key =
  ak_id :: uuid
  ak_tenant_id :: uuid
  ak_name :: string
  ak_key_prefix :: string
  ak_key_hash :: string
  ak_enabled :: bool
  ak_created_at :: timestamp

datatype upstream_mode = OpenAiApiKey | ChatGptSession | CodexOauth

datatype upstream_auth_provider = LegacyBearer | OAuthRefreshToken

record upstream_account =
  ua_id :: uuid
  ua_label :: string
  ua_mode :: upstream_mode
  ua_base_url :: string
  ua_bearer_token :: string
  ua_chatgpt_account_id :: "string option"
  ua_enabled :: bool
  ua_priority :: int
  ua_created_at :: timestamp

section \<open>Outbound proxies\<close>

datatype proxy_fail_mode = StrictProxy | AllowDirectFallback

record outbound_proxy_pool_settings =
  ops_enabled :: bool
  ops_fail_mode :: proxy_fail_mode
  ops_updated_at :: timestamp

definition default_outbound_proxy_pool_settings :: "timestamp \<Rightarrow> outbound_proxy_pool_settings" where
  "default_outbound_proxy_pool_settings now =
     \<lparr>ops_enabled = False, ops_fail_mode = StrictProxy, ops_updated_at = now\<rparr>"

record outbound_proxy_node =
  opn_id :: uuid
  opn_label :: string
  opn_proxy_url :: string
  opn_enabled :: bool
  opn_weight :: nat
  opn_last_test_status :: "string option"
  opn_last_latency_ms :: "nat option"
  opn_last_error :: "string option"
  opn_last_tested_at :: "timestamp option"
  opn_created_at :: timestamp
  opn_updated_at :: timestamp

section \<open>Routing profiles, policies and plans\<close>

record routing_profile_selector =
  rps_plan_types :: "string list"
  rps_modes :: "upstream_mode list"
  rps_auth_providers :: "upstream_auth_provider list"
  rps_include_account_ids :: "uuid list"
  rps_exclude_account_ids :: "uuid list"

record routing_profile =
  rp_id :: uuid
  rp_name :: string
  rp_description :: "string option"
  rp_enabled :: bool
  rp_priority :: int
  rp_selector :: routing_profile_selector
  rp_created_at :: timestamp
  rp_updated_at :: timestamp

record model_routing_policy =
  mrp_id :: uuid
  mrp_name :: string
  mrp_family :: string
  mrp_exact_models :: "string list"
  mrp_model_prefixes :: "string list"
  mrp_fallback_profile_ids :: "uuid list"
  mrp_enabled :: bool
  mrp_priority :: int
  mrp_created_at :: timestamp
  mrp_updated_at :: timestamp

datatype health_freshness = UnknownFreshness | Stale | Fresh

record account_routing_traits =
  art_account_id :: uuid
  art_plan_type :: "string option"
  art_auth_provider :: "upstream_auth_provider option"
  art_supported_models :: "string list"
  art_health_freshness :: "health_freshness option"
  art_last_probe_at :: "timestamp option"
  art_blocked_until :: "timestamp option"
  art_hard_block_reason :: "string option"

record compiled_routing_profile =
  crp_id :: uuid
  crp_name :: string
  crp_account_ids :: "uuid list"

record compiled_model_routing_policy =
  cmp_id :: uuid
  cmp_name :: string
  cmp_family :: string
  cmp_exact_models :: "string list"
  cmp_model_prefixes :: "string list"
  cmp_fallback_segments :: "compiled_routing_profile list"

record compiled_routing_plan =
  plan_version_id :: uuid
  plan_published_at :: timestamp
  plan_trigger_reason :: "string option"
  plan_default_route :: "compiled_routing_profile list"
  plan_policies :: "compiled_model_routing_policy list"

section \<open>Claude Code routing settings\<close>

text \<open>A \<^verbatim>\<open>BTreeMap\<close> is an association list; only lookups by key are made.\<close>

datatype claude_code_effort_fallback_mode = ClampDown | Omit

record claude_code_family_effort_routing =
  ccf_source_to_target :: "(string, string option) hash_map"
  ccf_default_target_effort :: "string option"

record claude_code_effort_routing_settings =
  cce_fallback_mode :: claude_code_effort_fallback_mode
  cce_opus :: claude_code_family_effort_routing
  cce_sonnet :: claude_code_family_effort_routing
  cce_haiku :: claude_code_family_effort_routing

definition default_claude_code_opus_effort_routing :: claude_code_family_effort_routing where
  "default_claude_code_opus_effort_routing =
     \<lparr>ccf_source_to_target = [(''low'', Some ''low''), (''medium'', Some ''medium''),
        (''high'', Some ''high''), (''max'', Some ''xhigh'')],
      ccf_default_target_effort = Some ''xhigh''\<rparr>"

definition default_claude_code_sonnet_effort_routing :: claude_code_family_effort_routing where
  "default_claude_code_sonnet_effort_routing =
     \<lparr>ccf_source_to_target = [(''low'', Some ''low''), (''medium'', Some ''medium''),
        (''high'', Some ''high'')],
      ccf_default_target_effort = Some ''high''\<rparr>"

definition default_claude_code_haiku_effort_routing :: claude_code_family_effort_routing where
  "default_claude_code_haiku_effort_routing =
     \<lparr>ccf_source_to_target = [], ccf_default_target_effort = None\<rparr>"

definition default_claude_code_effort_routing_settings :: claude_code_effort_routing_settings where
  "default_claude_code_effort_routing_settings =
     \<lparr>cce_fallback_mode = ClampDown,
      cce_opus = default_claude_code_opus_effort_routing,
      cce_sonnet = default_claude_code_sonnet_effort_routing,
      cce_haiku = default_claude_code_haiku_effort_routing\<rparr>"

record claude_code_routing_settings =
  ccr_enabled :: bool
  ccr_opus_target_model :: "string option"
  ccr_sonnet_target_model :: "string option"
  ccr_haiku_target_model :: "string option"
  ccr_effort_routing :: claude_code_effort_routing_settings
  ccr_updated_at :: timestamp

definition default_claude_code_routing_settings :: "timestamp \<Rightarrow> claude_code_routing_settings" where
  "default_claude_code_routing_settings now =
     \<lparr>ccr_enabled = False, ccr_opus_target_model = Some ''gpt-5.4'',
      ccr_sonnet_target_model = Some ''gpt-5.4-mini'',
      ccr_haiku_target_model = Some ''gpt-5.4-mini'',
      ccr_effort_routing = default_claude_code_effort_routing_settings,
      ccr_updated_at = now\<rparr>"

section \<open>Error templates\<close>

record ai_error_learning_settings =
  ael_enabled :: bool
  ael_first_seen_timeout_ms :: nat
  ael_review_hit_threshold :: nat
  ael_updated_at :: "timestamp option"

definition default_ai_error_learning_settings :: ai_error_learning_settings where
  "default_ai_error_learning_settings =
     \<lparr>ael_enabled = False, ael_first_seen_timeout_ms = 2000, ael_review_hit_threshold = 10,
      ael_updated_at = None\<rparr>"

record localized_error_templates =
  let_en :: "string option"
  let_zh_cn :: "string option"
  let_zh_tw :: "string option"
  let_ja :: "string option"
  let_ru :: "string option"

datatype upstream_error_action = ReturnFailure | RetrySameAccount | RetryCrossAccount

datatype upstream_error_retry_scope = ScopeNone | ScopeSameAccount | ScopeCrossAccount

datatype builtin_error_template_kind = GatewayError | HeuristicUpstream

datatype upstream_error_template_status = ProvisionalLive | ReviewPending | Approved | Rejected

record upstream_error_template_record =
  uet_id :: uuid
  uet_fingerprint :: string
  uet_provider :: string
  uet_normalized_status_code :: nat
  uet_semantic_error_code :: string
  uet_action :: upstream_error_action
  uet_retry_scope :: upstream_error_retry_scope
  uet_status :: upstream_error_template_status
  uet_templates :: localized_error_templates
  uet_representative_samples :: "string list"
  uet_hit_count :: nat
  uet_first_seen_at :: timestamp
  uet_last_seen_at :: timestamp
  uet_updated_at :: timestamp

record builtin_error_template_record =
  bet_kind :: builtin_error_template_kind
  bet_code :: string
  bet_templates :: localized_error_templates
  bet_default_templates :: localized_error_templates
  bet_action :: "upstream_error_action option"
  bet_retry_scope :: "upstream_error_retry_scope option"
  bet_is_overridden :: bool
  bet_updated_at :: "timestamp option"

section \<open>Snapshots and the key-validation contract\<close>

record data_plane_snapshot =
  sn_revision :: nat
  sn_cursor :: nat
  sn_accounts :: "upstream_account list"
  sn_account_traits :: "account_routing_traits list"
  sn_compiled_routing_plan :: "compiled_routing_plan option"
  sn_ai_error_learning_settings :: ai_error_learning_settings
  sn_approved_upstream_error_templates :: "upstream_error_template_record list"
  sn_builtin_error_templates :: "builtin_error_template_record list"
  sn_outbound_proxy_pool_settings :: outbound_proxy_pool_settings
  sn_outbound_proxy_nodes :: "outbound_proxy_node list"
  sn_claude_code_routing_settings :: claude_code_routing_settings
  sn_issued_at :: timestamp

datatype snapshot_event_type = AccountUpsert | AccountDelete | RoutingPlanRefresh

record data_plane_snapshot_event =
  ev_id :: nat
  ev_event_type :: snapshot_event_type
  ev_account_id :: uuid
  ev_account :: "upstream_account option"
  ev_compiled_routing_plan :: "compiled_routing_plan option"
  ev_ai_error_learning_settings :: "ai_error_learning_settings option"
  ev_approved_upstream_error_templates :: "upstream_error_template_record list option"
  ev_builtin_error_templates :: "builtin_error_template_record list option"
  ev_outbound_proxy_pool_settings :: "outbound_proxy_pool_settings option"
  ev_outbound_proxy_nodes :: "outbound_proxy_node list option"
  ev_claude_code_routing_settings :: "claude_code_routing_settings option"
  ev_created_at :: timestamp

record data_plane_snapshot_events_response =
  evr_cursor :: nat
  evr_high_watermark :: nat
  evr_events :: "data_plane_snapshot_event list"

record api_key_group_status =
  kg_id :: uuid
  kg_name :: string
  kg_invalid :: bool

record api_key_policy =
  kp_ip_allowlist :: "string list"
  kp_model_allowlist :: "string list"

record validate_api_key_response =
  vr_tenant_id :: uuid
  vr_api_key_id :: uuid
  vr_enabled :: bool
  vr_group :: api_key_group_status
  vr_policy :: api_key_policy
  vr_tenant_status :: "string option"
  vr_tenant_expires_at :: "timestamp option"
  vr_balance_microcredits :: "int option"
  vr_cache_ttl_sec :: nat

section \<open>Product editions\<close>

datatype product_edition = Personal | Team | Business

definition edition_from_env_value :: "string option \<Rightarrow> product_edition" where
  "edition_from_env_value value =
     (case map_option (\<lambda>v. to_ascii_lowercase (trim v)) value of
        None \<Rightarrow> Business
      | Some normalized \<Rightarrow>
          if normalized = ''personal'' then Personal
          else if normalized = ''team'' then Team
          else if normalized = ''business'' then Business
          else Business)"

text \<open>
  \<^verbatim>\<open>Path::file_name\<close> on Unix: the last component of the path if it is a normal one. Empty and
  \<^verbatim>\<open>.\<close> components are skipped; \<^verbatim>\<open>..\<close> is not a file name.
\<close>

fun split_on :: "'a \<Rightarrow> 'a list \<Rightarrow> 'a list list" where
  "split_on c [] = [[]]"
| "split_on c (x # xs) =
     (if x = c then [] # split_on c xs
      else (case split_on c xs of [] \<Rightarrow> [[x]] | seg # segs \<Rightarrow> (x # seg) # segs))"

definition path_file_name :: "string \<Rightarrow> string option" where
  "path_file_name p =
     (case rev (filter (\<lambda>seg. seg \<noteq> [] \<and> seg \<noteq> ''.'') (split_on CHR ''/'' p)) of
        [] \<Rightarrow> None
      | seg # _ \<Rightarrow> if seg = ''..'' then None else Some seg)"

definition infer_from_binary_name :: "string option \<Rightarrow> product_edition option" where
  "infer_from_binary_name binary_name =
     (case Option.bind binary_name path_file_name of
        None \<Rightarrow> None
      | Some file_name \<Rightarrow>
          if file_name = ''codex-pool-personal'' then Some Personal
          else if file_name = ''codex-pool-team'' then Some Team
          else if file_name = ''codex-pool-business'' then Some Business
          else None)"

definition resolve_runtime_edition :: "string option \<Rightarrow> string option \<Rightarrow> product_edition" where
  "resolve_runtime_edition env_value binary_name =
     (if env_value \<noteq> None then edition_from_env_value env_value
      else case infer_from_binary_name binary_name of None \<Rightarrow> Business | Some e \<Rightarrow> e)"

datatype billing_mode = CostReportOnly | CreditEnforced

record edition_features =
  ef_multi_tenant :: bool
  ef_tenant_portal :: bool
  ef_tenant_self_service :: bool
  ef_tenant_recharge :: bool
  ef_credit_billing :: bool
  ef_cost_reports :: bool

record system_capabilities =
  sc_edition :: product_edition
  sc_billing_mode :: billing_mode
  sc_features :: edition_features

fun capabilities_for_edition :: "product_edition \<Rightarrow> system_capabilities" where
  "capabilities_for_edition Personal =
     \<lparr>sc_edition = Personal, sc_billing_mode = CostReportOnly,
      sc_features = \<lparr>ef_multi_tenant = False, ef_tenant_portal = False,
        ef_tenant_self_service = False, ef_tenant_recharge = False,
        ef_credit_billing = False, ef_cost_reports = True\<rparr>\<rparr>"
| "capabilities_for_edition Team =
     \<lparr>sc_edition = Team, sc_billing_mode = CostReportOnly,
      sc_features = \<lparr>ef_multi_tenant = True, ef_tenant_portal = True,
        ef_tenant_self_service = False, ef_tenant_recharge = False,
        ef_credit_billing = False, ef_cost_reports = True\<rparr>\<rparr>"
| "capabilities_for_edition Business =
     \<lparr>sc_edition = Business, sc_billing_mode = CreditEnforced,
      sc_features = \<lparr>ef_multi_tenant = True, ef_tenant_portal = True,
        ef_tenant_self_service = True, ef_tenant_recharge = True,
        ef_credit_billing = True, ef_cost_reports = True\<rparr>\<rparr>"

definition allows_credit_billing :: "system_capabilities \<Rightarrow> bool" where
  "allows_credit_billing c = ef_credit_billing (sc_features c)"

definition visible_balance_microcredits :: "system_capabilities \<Rightarrow> int option \<Rightarrow> int option" where
  "visible_balance_microcredits c balance = (if allows_credit_billing c then balance else None)"

end
