(* ===== verification/Router.thy ===== *)
theory Router
  imports Core_Model
begin

text \<open>
  The account router of the data plane, \<^verbatim>\<open>services/data-plane/src/router.rs\<close>
  (\<^verbatim>\<open>RoundRobinRouter\<close>): its state and every operation, in the order of the source.

  Each operation is atomic and reads the clock once: \<open>now\<close> is the value of
  \<^verbatim>\<open>Instant::now()\<close> during the call. Operations return their result with the new state. The
  cursor and the four counters are 64-bit words, so that \<^verbatim>\<open>fetch_add\<close> wraps as in Rust.
  Branches for a poisoned lock are not reachable without a panic in another thread and are left
  out.
\<close>

section \<open>State\<close>

record account_diagnostics =
  ad_id :: uuid
  ad_label :: string
  ad_mode :: upstream_mode
  ad_enabled :: bool
  ad_priority :: int
  ad_base_url :: string
  ad_chatgpt_account_id :: "string option"
  ad_temporarily_unhealthy :: bool

definition default_sticky_session_ttl :: duration where
  "default_sticky_session_ttl = from_secs (30 * 60)"

definition default_sticky_session_max_entries :: nat where
  "default_sticky_session_max_entries = 10000"

record sticky_session_entry =
  se_account_id :: uuid
  se_expires_at :: instant
  se_last_used_at :: instant

record router =
  r_accounts :: "upstream_account list"
  r_account_traits :: "(uuid, account_routing_traits) hash_map"
  r_compiled_routing_plan :: "compiled_routing_plan option"
  r_cursor :: u64
  r_health :: "(uuid, instant) hash_map"
  r_recent_success :: "(uuid, instant) hash_map"
  r_sticky_sessions :: "(string, sticky_session_entry) hash_map"
  r_sticky_session_ttl :: duration
  r_sticky_session_max_entries :: nat
  r_sticky_session_total :: u64
  r_sticky_hit_count :: u64
  r_sticky_miss_count :: u64
  r_sticky_rebind_count :: u64

record sticky_routing_stats =
  st_sticky_session_total :: u64
  st_sticky_hit_count :: u64
  st_sticky_miss_count :: u64
  st_sticky_rebind_count :: u64
  st_sticky_mapping_total :: nat

definition router_new_with_sticky_limits :: "upstream_account list \<Rightarrow> duration \<Rightarrow> nat \<Rightarrow> router" where
  "router_new_with_sticky_limits accounts ttl max_entries =
     \<lparr>r_accounts = accounts, r_account_traits = [], r_compiled_routing_plan = None, r_cursor = 0,
      r_health = [], r_recent_success = [], r_sticky_sessions = [],
      r_sticky_session_ttl = max ttl (from_millis 1),
      r_sticky_session_max_entries = max max_entries 1,
      r_sticky_session_total = 0, r_sticky_hit_count = 0, r_sticky_miss_count = 0,
      r_sticky_rebind_count = 0\<rparr>"

definition router_new :: "upstream_account list \<Rightarrow> router" where
  "router_new accounts =
     router_new_with_sticky_limits accounts default_sticky_session_ttl
       default_sticky_session_max_entries"

section \<open>Free functions\<close>

fun routing_health_freshness_rank :: "health_freshness option \<Rightarrow> nat" where
  "routing_health_freshness_rank (Some Fresh) = 2"
| "routing_health_freshness_rank (Some Stale) = 1"
| "routing_health_freshness_rank (Some UnknownFreshness) = 0"
| "routing_health_freshness_rank None = 0"

definition prune_expired_sticky_sessions ::
  "instant \<Rightarrow> (string, sticky_session_entry) hash_map \<Rightarrow> (string, sticky_session_entry) hash_map" where
  "prune_expired_sticky_sessions now items = hm_retain (\<lambda>_ entry. se_expires_at entry > now) items"

function enforce_sticky_capacity ::
  "nat \<Rightarrow> (string, sticky_session_entry) hash_map \<Rightarrow> (string, sticky_session_entry) hash_map" where
  "enforce_sticky_capacity max_entries items =
     (if length items \<ge> max_entries then
        (case min_by_key (\<lambda>kv. se_last_used_at (snd kv)) items of
           None \<Rightarrow> items
         | Some oldest \<Rightarrow> enforce_sticky_capacity max_entries (hm_remove (fst oldest) items))
      else items)"
  by pat_completeness auto
termination
  by (relation "measure (\<lambda>(_, items). length items)")
    (auto intro!: length_hm_remove_less imageI dest: min_by_key_Some)

declare enforce_sticky_capacity.simps [simp del]

definition account_diagnostics_for ::
  "upstream_account \<Rightarrow> (uuid, instant) hash_map \<Rightarrow> instant \<Rightarrow> account_diagnostics" where
  "account_diagnostics_for account health now =
     \<lparr>ad_id = ua_id account, ad_label = ua_label account, ad_mode = ua_mode account,
      ad_enabled = ua_enabled account, ad_priority = ua_priority account,
      ad_base_url = ua_base_url account, ad_chatgpt_account_id = ua_chatgpt_account_id account,
      ad_temporarily_unhealthy =
        (case map_of health (ua_id account) of None \<Rightarrow> False | Some until \<Rightarrow> until > now)\<rparr>"

definition normalize_sticky_key :: "string option \<Rightarrow> string option" where
  "normalize_sticky_key raw = Option.bind raw trim_nonempty"

section \<open>Health\<close>

text \<open>Asking whether an account is healthy drops its ejection once that has expired.\<close>

definition is_healthy :: "instant \<Rightarrow> uuid \<Rightarrow> router \<Rightarrow> bool \<times> router" where
  "is_healthy now account_id r =
     (case map_of (r_health r) account_id of
        None \<Rightarrow> (True, r)
      | Some until \<Rightarrow>
          if until > now then (False, r)
          else (True, r\<lparr>r_health := hm_remove account_id (r_health r)\<rparr>))"

definition find_account :: "uuid \<Rightarrow> router \<Rightarrow> upstream_account option" where
  "find_account account_id r = find (\<lambda>a. ua_id a = account_id) (r_accounts r)"

definition get_account_any_state :: "uuid \<Rightarrow> router \<Rightarrow> upstream_account option" where
  "get_account_any_state account_id r = find_account account_id r"

definition pick_specific :: "instant \<Rightarrow> uuid \<Rightarrow> router \<Rightarrow> upstream_account option \<times> router" where
  "pick_specific now account_id r =
     (case find_account account_id r of
        None \<Rightarrow> (None, r)
      | Some account \<Rightarrow>
          if \<not> ua_enabled account then (None, r)
          else (case is_healthy now (ua_id account) r of
                  (healthy, r1) \<Rightarrow> (if healthy then Some account else None, r1)))"

definition pick_account :: "instant \<Rightarrow> uuid \<Rightarrow> router \<Rightarrow> upstream_account option \<times> router" where
  "pick_account now account_id r = pick_specific now account_id r"

definition mark_unhealthy :: "instant \<Rightarrow> uuid \<Rightarrow> duration \<Rightarrow> router \<Rightarrow> router" where
  "mark_unhealthy now account_id ttl r =
     (if ttl = 0 then r else r\<lparr>r_health := hm_insert account_id (now + ttl) (r_health r)\<rparr>)"

definition account_exists :: "uuid \<Rightarrow> router \<Rightarrow> bool" where
  "account_exists account_id r = list_ex (\<lambda>a. ua_id a = account_id) (r_accounts r)"

definition clear_unhealthy :: "uuid \<Rightarrow> router \<Rightarrow> bool \<times> router" where
  "clear_unhealthy account_id r =
     (if \<not> account_exists account_id r then (False, r)
      else (True, r\<lparr>r_health := hm_remove account_id (r_health r)\<rparr>))"

definition clear_all_unhealthy :: "router \<Rightarrow> nat \<times> router" where
  "clear_all_unhealthy r = (length (r_health r), r\<lparr>r_health := []\<rparr>)"

definition record_success :: "instant \<Rightarrow> uuid \<Rightarrow> router \<Rightarrow> router" where
  "record_success now account_id r =
     (if list_ex (\<lambda>a. ua_id a = account_id \<and> ua_enabled a) (r_accounts r)
      then r\<lparr>r_recent_success := hm_insert account_id now (r_recent_success r)\<rparr>
      else r)"

section \<open>Picking without affinity\<close>

text \<open>
  The closures of the iterator chains ask \<^const>\<open>is_healthy\<close> of every enabled account that is not
  excluded, in list order, so the filter threads the state.
\<close>

fun filter_selectable ::
  "instant \<Rightarrow> uuid set \<Rightarrow> upstream_account list \<Rightarrow> router \<Rightarrow> upstream_account list \<times> router" where
  "filter_selectable now excluded [] r = ([], r)"
| "filter_selectable now excluded (a # as) r =
     (if ua_id a \<notin> excluded \<and> ua_enabled a then
        (case is_healthy now (ua_id a) r of
           (healthy, r1) \<Rightarrow>
             (case filter_selectable now excluded as r1 of
                (rest, r2) \<Rightarrow> (if healthy then a # rest else rest, r2)))
      else filter_selectable now excluded as r)"

definition success_entry :: "router \<Rightarrow> uuid \<Rightarrow> (uuid \<times> instant) option" where
  "success_entry r account_id =
     map_option (\<lambda>seen_at. (account_id, seen_at)) (map_of (r_recent_success r) account_id)"

definition probe_entry :: "router \<Rightarrow> uuid \<Rightarrow> (uuid \<times> nat \<times> timestamp option) option" where
  "probe_entry r account_id =
     (case map_of (r_account_traits r) account_id of
        None \<Rightarrow> None
      | Some traits \<Rightarrow>
          let freshness_rank = routing_health_freshness_rank (art_health_freshness traits)
          in if freshness_rank > 0
             then Some (account_id, freshness_rank, art_last_probe_at traits) else None)"

definition latest_success :: "(uuid \<times> instant) list \<Rightarrow> uuid option" where
  "latest_success es = map_option fst (max_by_key (\<lambda>(account_id, seen_at). (seen_at, account_id)) es)"

definition freshest_probe :: "(uuid \<times> nat \<times> timestamp option) list \<Rightarrow> uuid option" where
  "freshest_probe es =
     map_option fst (max_by_key (\<lambda>(account_id, rnk, probe_at). (rnk, probe_at, account_id)) es)"

definition preferred_recent_success_account_id ::
  "instant \<Rightarrow> uuid set \<Rightarrow> router \<Rightarrow> uuid option \<times> router" where
  "preferred_recent_success_account_id now excluded r =
     (case filter_selectable now excluded (r_accounts r) r of
        (selectable, r1) \<Rightarrow>
          (latest_success (List.map_filter (\<lambda>a. success_entry r (ua_id a)) selectable), r1))"

definition preferred_recent_probe_account_id ::
  "instant \<Rightarrow> uuid set \<Rightarrow> router \<Rightarrow> uuid option \<times> router" where
  "preferred_recent_probe_account_id now excluded r =
     (case filter_selectable now excluded (r_accounts r) r of
        (selectable, r1) \<Rightarrow>
          (freshest_probe (List.map_filter (\<lambda>a. probe_entry r (ua_id a)) selectable), r1))"

text \<open>
  The loop \<^verbatim>\<open>for _ in 0..accounts.len()\<close> of \<^verbatim>\<open>pick_excluding\<close> and of
  \<^verbatim>\<open>pick_avoiding_sticky_conflicts\<close>, which differ in the accounts they skip. Its body is not
  entered when the list of accounts is empty, so the index is in range.
\<close>

fun round_robin_loop ::
  "instant \<Rightarrow> (uuid \<Rightarrow> bool) \<Rightarrow> nat \<Rightarrow> router \<Rightarrow> upstream_account option \<times> router" where
  "round_robin_loop now skip 0 r = (None, r)"
| "round_robin_loop now skip (Suc n) r =
     (let idx = unat (r_cursor r) mod length (r_accounts r);
          r1 = r\<lparr>r_cursor := r_cursor r + 1\<rparr>;
          account = r_accounts r ! idx
      in if skip (ua_id account) then round_robin_loop now skip n r1
         else if ua_enabled account then
           (case is_healthy now (ua_id account) r1 of
              (healthy, r2) \<Rightarrow>
                if healthy then (Some account, r2) else round_robin_loop now skip n r2)
         else round_robin_loop now skip n r1)"

definition pick_excluding :: "instant \<Rightarrow> uuid set \<Rightarrow> router \<Rightarrow> upstream_account option \<times> router" where
  "pick_excluding now excluded r =
     (if r_accounts r = [] then (None, r)
      else case preferred_recent_success_account_id now excluded r of
        (success_id, r1) \<Rightarrow>
          (case Option.bind success_id (\<lambda>account_id. find_account account_id r1) of
             Some account \<Rightarrow> (Some account, r1)
           | None \<Rightarrow>
               (case preferred_recent_probe_account_id now excluded r1 of
                  (probe_id, r2) \<Rightarrow>
                    (case Option.bind probe_id (\<lambda>account_id. find_account account_id r2) of
                       Some account \<Rightarrow> (Some account, r2)
                     | None \<Rightarrow>
                         round_robin_loop now (\<lambda>i. i \<in> excluded) (length (r_accounts r2)) r2))))"

definition pick :: "instant \<Rightarrow> router \<Rightarrow> upstream_account option \<times> router" where
  "pick now r = pick_excluding now {} r"

section \<open>Sticky sessions\<close>

definition collect_conflict_account_ids :: "instant \<Rightarrow> string \<Rightarrow> router \<Rightarrow> uuid set \<times> router" where
  "collect_conflict_account_ids now sticky_key r =
     (let items = prune_expired_sticky_sessions now (r_sticky_sessions r)
      in (set (map (\<lambda>(_, entry). se_account_id entry) (filter (\<lambda>(key, _). key \<noteq> sticky_key) items)),
          r\<lparr>r_sticky_sessions := items\<rparr>))"

definition get_sticky_account_id :: "instant \<Rightarrow> string \<Rightarrow> router \<Rightarrow> uuid option \<times> router" where
  "get_sticky_account_id now sticky_key r =
     (let items = prune_expired_sticky_sessions now (r_sticky_sessions r)
      in case map_of items sticky_key of
           None \<Rightarrow> (None, r\<lparr>r_sticky_sessions := items\<rparr>)
         | Some entry \<Rightarrow>
             (Some (se_account_id entry),
              r\<lparr>r_sticky_sessions := hm_insert sticky_key
                  (entry\<lparr>se_last_used_at := now, se_expires_at := now + r_sticky_session_ttl r\<rparr>)
                  items\<rparr>))"

definition remove_sticky_mapping :: "string \<Rightarrow> router \<Rightarrow> router" where
  "remove_sticky_mapping sticky_key r =
     r\<lparr>r_sticky_sessions := hm_remove sticky_key (r_sticky_sessions r)\<rparr>"

definition insert_sticky_mapping :: "instant \<Rightarrow> string \<Rightarrow> uuid \<Rightarrow> router \<Rightarrow> bool \<times> router" where
  "insert_sticky_mapping now sticky_key account_id r =
     (let items = enforce_sticky_capacity (r_sticky_session_max_entries r)
                    (prune_expired_sticky_sessions now (r_sticky_sessions r));
          entry = \<lparr>se_account_id = account_id, se_expires_at = now + r_sticky_session_ttl r,
                   se_last_used_at = now\<rparr>
      in ((case map_of items sticky_key of
             None \<Rightarrow> False
           | Some previous \<Rightarrow> se_account_id previous \<noteq> account_id),
          r\<lparr>r_sticky_sessions := hm_insert sticky_key entry items\<rparr>))"

definition sticky_mapping_total :: "instant \<Rightarrow> router \<Rightarrow> nat \<times> router" where
  "sticky_mapping_total now r =
     (let items = prune_expired_sticky_sessions now (r_sticky_sessions r)
      in (length items, r\<lparr>r_sticky_sessions := items\<rparr>))"

definition insert_and_count_rebind :: "instant \<Rightarrow> string \<Rightarrow> uuid \<Rightarrow> router \<Rightarrow> router" where
  "insert_and_count_rebind now sticky_key account_id r =
     (case insert_sticky_mapping now sticky_key account_id r of
        (rebind, r1) \<Rightarrow>
          if rebind then r1\<lparr>r_sticky_rebind_count := r_sticky_rebind_count r1 + 1\<rparr> else r1)"

definition bind_sticky :: "instant \<Rightarrow> string \<Rightarrow> uuid \<Rightarrow> router \<Rightarrow> bool \<times> router" where
  "bind_sticky now sticky_key account_id r =
     (case normalize_sticky_key (Some sticky_key) of
        None \<Rightarrow> (False, r)
      | Some key \<Rightarrow>
          (case pick_specific now account_id r of
             (None, r1) \<Rightarrow> (False, r1)
           | (Some _, r1) \<Rightarrow> (True, insert_and_count_rebind now key account_id r1)))"

definition unbind_sticky :: "instant \<Rightarrow> string \<Rightarrow> router \<Rightarrow> bool \<times> router" where
  "unbind_sticky now sticky_key r =
     (case normalize_sticky_key (Some sticky_key) of
        None \<Rightarrow> (False, r)
      | Some key \<Rightarrow>
          let items = prune_expired_sticky_sessions now (r_sticky_sessions r)
          in (map_of items key \<noteq> None, r\<lparr>r_sticky_sessions := hm_remove key items\<rparr>))"

definition sticky_stats :: "instant \<Rightarrow> router \<Rightarrow> sticky_routing_stats \<times> router" where
  "sticky_stats now r =
     (case sticky_mapping_total now r of
        (mapping_total, r1) \<Rightarrow>
          (\<lparr>st_sticky_session_total = r_sticky_session_total r,
            st_sticky_hit_count = r_sticky_hit_count r,
            st_sticky_miss_count = r_sticky_miss_count r,
            st_sticky_rebind_count = r_sticky_rebind_count r,
            st_sticky_mapping_total = mapping_total\<rparr>, r1))"

section \<open>Routes from the compiled plan\<close>

definition candidate_account_ids_for_model :: "router \<Rightarrow> string option \<Rightarrow> uuid list option" where
  "candidate_account_ids_for_model r model =
     (case model of
        None \<Rightarrow> None
      | Some raw \<Rightarrow>
          let model = trim raw in
          if model = [] then None
          else case r_compiled_routing_plan r of
            None \<Rightarrow> None
          | Some plan \<Rightarrow>
              let exact_match = find (\<lambda>policy. model \<in> set (cmp_exact_models policy)) (plan_policies plan);
                  prefix_match = find (\<lambda>policy. list_ex (\<lambda>pre. prefix pre model)
                                                  (cmp_model_prefixes policy)) (plan_policies plan);
                  segments = (case (case exact_match of Some p \<Rightarrow> Some p | None \<Rightarrow> prefix_match) of
                                Some policy \<Rightarrow> cmp_fallback_segments policy
                              | None \<Rightarrow> plan_default_route plan)
              in if segments = [] then None
                 else let account_ids = concat (map crp_account_ids segments)
                      in if account_ids = [] then None else Some account_ids)"

definition account_matches_model_route :: "router \<Rightarrow> uuid \<Rightarrow> string option \<Rightarrow> bool" where
  "account_matches_model_route r account_id model =
     (case candidate_account_ids_for_model r model of
        None \<Rightarrow> True
      | Some candidate_ids \<Rightarrow> account_id \<in> set candidate_ids)"

text \<open>\<^verbatim>\<open>pick_specific\<close> on the ids of a list that are not skipped, up to the first success.\<close>

fun first_pickable ::
  "instant \<Rightarrow> (uuid \<Rightarrow> bool) \<Rightarrow> uuid list \<Rightarrow> router \<Rightarrow> upstream_account option \<times> router" where
  "first_pickable now skip [] r = (None, r)"
| "first_pickable now skip (i # is) r =
     (if skip i then first_pickable now skip is r
      else case pick_specific now i r of
             (Some account, r1) \<Rightarrow> (Some account, r1)
           | (None, r1) \<Rightarrow> first_pickable now skip is r1)"

definition try_pick ::
  "instant \<Rightarrow> uuid option \<Rightarrow> router \<Rightarrow> upstream_account option \<times> router" where
  "try_pick now id_opt r =
     (case id_opt of None \<Rightarrow> (None, r) | Some account_id \<Rightarrow> pick_specific now account_id r)"

definition preferred_candidate_success_account_id :: "uuid list \<Rightarrow> uuid set \<Rightarrow> router \<Rightarrow> uuid option" where
  "preferred_candidate_success_account_id candidate_ids excluded r =
     latest_success (List.map_filter (success_entry r) (filter (\<lambda>i. i \<notin> excluded) candidate_ids))"

definition preferred_candidate_probe_account_id :: "uuid list \<Rightarrow> uuid set \<Rightarrow> router \<Rightarrow> uuid option" where
  "preferred_candidate_probe_account_id candidate_ids excluded r =
     freshest_probe (List.map_filter (probe_entry r) (filter (\<lambda>i. i \<notin> excluded) candidate_ids))"

definition pick_candidate_account ::
  "instant \<Rightarrow> uuid list \<Rightarrow> uuid set \<Rightarrow> router \<Rightarrow> upstream_account option \<times> router" where
  "pick_candidate_account now candidate_ids excluded r =
     (case try_pick now (preferred_candidate_success_account_id candidate_ids excluded r) r of
        (Some account, r1) \<Rightarrow> (Some account, r1)
      | (None, r1) \<Rightarrow>
          (case try_pick now (preferred_candidate_probe_account_id candidate_ids excluded r1) r1 of
             (Some account, r2) \<Rightarrow> (Some account, r2)
           | (None, r2) \<Rightarrow> first_pickable now (\<lambda>i. i \<in> excluded) candidate_ids r2))"

definition pick_candidate_account_avoiding_conflicts ::
  "instant \<Rightarrow> string \<Rightarrow> uuid list \<Rightarrow> uuid set \<Rightarrow> router \<Rightarrow> upstream_account option \<times> router" where
  "pick_candidate_account_avoiding_conflicts now sticky_key candidate_ids excluded r =
     (case collect_conflict_account_ids now sticky_key r of
        (conflict_ids, r1) \<Rightarrow>
          first_pickable now (\<lambda>i. i \<in> excluded \<or> i \<in> conflict_ids) candidate_ids r1)"

definition pick_avoiding_sticky_conflicts ::
  "instant \<Rightarrow> string \<Rightarrow> uuid set \<Rightarrow> router \<Rightarrow> upstream_account option \<times> router" where
  "pick_avoiding_sticky_conflicts now sticky_key excluded r =
     (case collect_conflict_account_ids now sticky_key r of
        (conflict_ids, r1) \<Rightarrow>
          if r_accounts r1 = [] then (None, r1)
          else round_robin_loop now (\<lambda>i. i \<in> excluded \<or> i \<in> conflict_ids)
                 (length (r_accounts r1)) r1)"

section \<open>Picking with affinity\<close>

abbreviation count_session :: "router \<Rightarrow> router" where
  "count_session r \<equiv> r\<lparr>r_sticky_session_total := r_sticky_session_total r + 1\<rparr>"

abbreviation count_hit :: "router \<Rightarrow> router" where
  "count_hit r \<equiv> r\<lparr>r_sticky_hit_count := r_sticky_hit_count r + 1\<rparr>"

abbreviation count_miss :: "router \<Rightarrow> router" where
  "count_miss r \<equiv> r\<lparr>r_sticky_miss_count := r_sticky_miss_count r + 1\<rparr>"

definition pick_with_round_robin_policy ::
  "instant \<Rightarrow> string option \<Rightarrow> uuid set \<Rightarrow> bool \<Rightarrow> router \<Rightarrow> upstream_account option \<times> router" where
  "pick_with_round_robin_policy now sticky_key excluded prefer_non_conflicting r =
     (case normalize_sticky_key sticky_key of
        None \<Rightarrow> pick_excluding now excluded r
      | Some key \<Rightarrow>
          (let (sticky_id, r1) = get_sticky_account_id now key (count_session r);
               (hit, r2) =
                 (case sticky_id of
                    None \<Rightarrow> (None, r1)
                  | Some account_id \<Rightarrow>
                      if account_id \<in> excluded then (None, remove_sticky_mapping key r1)
                      else (case pick_specific now account_id r1 of
                              (Some account, r2) \<Rightarrow> (Some account, count_hit r2)
                            | (None, r2) \<Rightarrow> (None, remove_sticky_mapping key r2)))
           in case hit of
                Some account \<Rightarrow> (Some account, r2)
              | None \<Rightarrow>
                  (let r3 = count_miss r2;
                       (picked, r5) =
                         (if prefer_non_conflicting then
                            (case pick_avoiding_sticky_conflicts now key excluded r3 of
                               (Some account, r4) \<Rightarrow> (Some account, r4)
                             | (None, r4) \<Rightarrow> pick_excluding now excluded r4)
                          else pick_excluding now excluded r3)
                   in case picked of
                        None \<Rightarrow> (None, r5)
                      | Some account \<Rightarrow>
                          (Some account, insert_and_count_rebind now key (ua_id account) r5))))"

definition pick_from_ordered_candidates ::
  "instant \<Rightarrow> uuid list \<Rightarrow> string option \<Rightarrow> uuid set \<Rightarrow> bool \<Rightarrow> router
     \<Rightarrow> upstream_account option \<times> router" where
  "pick_from_ordered_candidates now candidate_ids sticky_key excluded prefer_non_conflicting r =
     (case normalize_sticky_key sticky_key of
        None \<Rightarrow> pick_candidate_account now candidate_ids excluded r
      | Some key \<Rightarrow>
          (let (sticky_id, r1) = get_sticky_account_id now key (count_session r);
               (hit, r2) =
                 (case sticky_id of
                    None \<Rightarrow> (None, r1)
                  | Some account_id \<Rightarrow>
                      if account_id \<in> excluded \<or> account_id \<notin> set candidate_ids
                      then (None, remove_sticky_mapping key r1)
                      else (case pick_specific now account_id r1 of
                              (Some account, r2) \<Rightarrow> (Some account, count_hit r2)
                            | (None, r2) \<Rightarrow> (None, remove_sticky_mapping key r2)))
           in case hit of
                Some account \<Rightarrow> (Some account, r2)
              | None \<Rightarrow>
                  (let r3 = count_miss r2;
                       (picked, r5) =
                         (if prefer_non_conflicting then
                            (case pick_candidate_account_avoiding_conflicts now key candidate_ids
                                    excluded r3 of
                               (Some account, r4) \<Rightarrow> (Some account, r4)
                             | (None, r4) \<Rightarrow> pick_candidate_account now candidate_ids excluded r4)
                          else pick_candidate_account now candidate_ids excluded r3)
                   in case picked of
                        None \<Rightarrow> (None, r5)
                      | Some account \<Rightarrow>
                          (Some account, insert_and_count_rebind now key (ua_id account) r5))))"

definition pick_for_model ::
  "instant \<Rightarrow> string option \<Rightarrow> string option \<Rightarrow> uuid set \<Rightarrow> bool \<Rightarrow> router
     \<Rightarrow> upstream_account option \<times> router" where
  "pick_for_model now model sticky_key excluded prefer_non_conflicting r =
     (case candidate_account_ids_for_model r model of
        Some candidate_ids \<Rightarrow>
          pick_from_ordered_candidates now candidate_ids sticky_key excluded prefer_non_conflicting r
      | None \<Rightarrow> pick_with_round_robin_policy now sticky_key excluded prefer_non_conflicting r)"

definition pick_with_sticky :: "instant \<Rightarrow> string option \<Rightarrow> router \<Rightarrow> upstream_account option \<times> router" where
  "pick_with_sticky now sticky_key r = pick_for_model now None sticky_key {} False r"

definition pick_with_policy ::
  "instant \<Rightarrow> string option \<Rightarrow> uuid set \<Rightarrow> bool \<Rightarrow> router \<Rightarrow> upstream_account option \<times> router" where
  "pick_with_policy now sticky_key excluded prefer_non_conflicting r =
     pick_for_model now None sticky_key excluded prefer_non_conflicting r"

section \<open>Configuration\<close>

definition replace_compiled_routing_plan :: "compiled_routing_plan option \<Rightarrow> router \<Rightarrow> router" where
  "replace_compiled_routing_plan plan r = r\<lparr>r_compiled_routing_plan := plan\<rparr>"

definition replace_accounts :: "upstream_account list \<Rightarrow> router \<Rightarrow> router" where
  "replace_accounts accounts r =
     (let valid_ids = set (map ua_id accounts)
      in r\<lparr>r_accounts := accounts, r_cursor := 0,
           r_account_traits := hm_retain (\<lambda>i _. i \<in> valid_ids) (r_account_traits r),
           r_health := hm_retain (\<lambda>i _. i \<in> valid_ids) (r_health r),
           r_recent_success := hm_retain (\<lambda>i _. i \<in> valid_ids) (r_recent_success r),
           r_sticky_sessions :=
             hm_retain (\<lambda>_ entry. se_account_id entry \<in> valid_ids) (r_sticky_sessions r)\<rparr>)"

definition replace_account_traits :: "account_routing_traits list \<Rightarrow> router \<Rightarrow> router" where
  "replace_account_traits traits r =
     (let valid_ids = set (map ua_id (r_accounts r))
      in r\<lparr>r_account_traits :=
             hm_collect (map (\<lambda>item. (art_account_id item, item))
               (filter (\<lambda>item. art_account_id item \<in> valid_ids) traits))\<rparr>)"

fun replace_first :: "('a \<Rightarrow> bool) \<Rightarrow> 'a \<Rightarrow> 'a list \<Rightarrow> 'a list" where
  "replace_first P y [] = []"
| "replace_first P y (x # xs) = (if P x then y # xs else x # replace_first P y xs)"

definition forget_account :: "uuid \<Rightarrow> router \<Rightarrow> router" where
  "forget_account account_id r =
     r\<lparr>r_account_traits := hm_remove account_id (r_account_traits r),
       r_health := hm_remove account_id (r_health r),
       r_recent_success := hm_remove account_id (r_recent_success r),
       r_sticky_sessions := hm_retain (\<lambda>_ entry. se_account_id entry \<noteq> account_id) (r_sticky_sessions r)\<rparr>"

definition upsert_account :: "upstream_account \<Rightarrow> router \<Rightarrow> router" where
  "upsert_account account r =
     (let account_id = ua_id account;
          replaced = account_exists account_id r;
          r1 = (if replaced
                then r\<lparr>r_accounts := replace_first (\<lambda>item. ua_id item = account_id) account (r_accounts r)\<rparr>
                else r\<lparr>r_accounts := r_accounts r @ [account]\<rparr>);
          r2 = (if replaced then r1 else r1\<lparr>r_cursor := 0\<rparr>)
      in if ua_enabled account then r2 else forget_account account_id r2)"

definition delete_account :: "uuid \<Rightarrow> router \<Rightarrow> bool \<times> router" where
  "delete_account account_id r =
     (let remaining = filter (\<lambda>account. ua_id account \<noteq> account_id) (r_accounts r);
          removed = (length remaining \<noteq> length (r_accounts r));
          r1 = r\<lparr>r_accounts := remaining\<rparr>
      in if \<not> removed then (False, r1) else (True, forget_account account_id r1))"

section \<open>Reporting\<close>

definition router_total :: "router \<Rightarrow> nat" where
  "router_total r = length (r_accounts r)"

definition enabled_total :: "router \<Rightarrow> nat" where
  "enabled_total r = length (filter ua_enabled (r_accounts r))"

definition list_account_diagnostics :: "instant \<Rightarrow> router \<Rightarrow> account_diagnostics list" where
  "list_account_diagnostics now r =
     map (\<lambda>account. account_diagnostics_for account (r_health r) now) (r_accounts r)"

definition account_diagnostics_of :: "instant \<Rightarrow> uuid \<Rightarrow> router \<Rightarrow> account_diagnostics option" where
  "account_diagnostics_of now account_id r =
     map_option (\<lambda>account. account_diagnostics_for account (r_health r) now) (find_account account_id r)"

end
