(* ===== verification/Router_Props.thy ===== *)
theory Router_Props
  imports Router
begin

text \<open>
  What the router promises: a selected account is known, enabled, healthy, not excluded and on the
  route of the model; an account is found whenever there is one; sessions keep their account;
  the sticky table stays within its capacity and never refers to an account the router does not
  know, in every state the operations can reach.
\<close>

section \<open>Health and availability as pure functions of the state\<close>

definition healthy_at :: "instant \<Rightarrow> router \<Rightarrow> uuid \<Rightarrow> bool" where
  "healthy_at now r i = (case map_of (r_health r) i of None \<Rightarrow> True | Some until \<Rightarrow> until \<le> now)"

definition available :: "instant \<Rightarrow> router \<Rightarrow> upstream_account \<Rightarrow> bool" where
  "available now r a \<longleftrightarrow>
     find_account (ua_id a) r = Some a \<and> ua_enabled a \<and> healthy_at now r (ua_id a)"

definition lookup_available :: "instant \<Rightarrow> router \<Rightarrow> uuid \<Rightarrow> upstream_account option" where
  "lookup_available now r i =
     (case find_account i r of
        None \<Rightarrow> None
      | Some a \<Rightarrow> if ua_enabled a \<and> healthy_at now r i then Some a else None)"

text \<open>Availability depends on the accounts and their ejections alone.\<close>

lemma view_cong:
  assumes "r_accounts r' = r_accounts r" "r_health r' = r_health r"
  shows "healthy_at t r' = healthy_at t r" "find_account i r' = find_account i r"
    "available t r' = available t r" "lookup_available t r' = lookup_available t r"
proof -
  show h: "healthy_at t r' = healthy_at t r" and f: "find_account i r' = find_account i r" for i
    using assms by (auto simp: healthy_at_def find_account_def fun_eq_iff)
  show "available t r' = available t r" "lookup_available t r' = lookup_available t r"
    by (auto simp: available_def lookup_available_def fun_eq_iff h f cong: option.case_cong)
qed

lemma healthy_at_update [simp]:
  "healthy_at t (r\<lparr>r_sticky_sessions := S\<rparr>) = healthy_at t r"
  "healthy_at t (r\<lparr>r_sticky_session_total := n\<rparr>) = healthy_at t r"
  "healthy_at t (r\<lparr>r_sticky_hit_count := n\<rparr>) = healthy_at t r"
  "healthy_at t (r\<lparr>r_sticky_miss_count := n\<rparr>) = healthy_at t r"
  "healthy_at t (r\<lparr>r_sticky_rebind_count := n\<rparr>) = healthy_at t r"
  by (rule view_cong; simp)+

lemma available_update [simp]:
  "available t (r\<lparr>r_sticky_sessions := S\<rparr>) = available t r"
  "available t (r\<lparr>r_sticky_session_total := n\<rparr>) = available t r"
  "available t (r\<lparr>r_sticky_hit_count := n\<rparr>) = available t r"
  "available t (r\<lparr>r_sticky_miss_count := n\<rparr>) = available t r"
  "available t (r\<lparr>r_sticky_rebind_count := n\<rparr>) = available t r"
  by (rule view_cong; simp)+

lemma lookup_available_update [simp]:
  "lookup_available t (r\<lparr>r_sticky_sessions := S\<rparr>) = lookup_available t r"
  "lookup_available t (r\<lparr>r_sticky_session_total := n\<rparr>) = lookup_available t r"
  "lookup_available t (r\<lparr>r_sticky_hit_count := n\<rparr>) = lookup_available t r"
  "lookup_available t (r\<lparr>r_sticky_miss_count := n\<rparr>) = lookup_available t r"
  "lookup_available t (r\<lparr>r_sticky_rebind_count := n\<rparr>) = lookup_available t r"
  by (rule view_cong; simp)+

text \<open>
  The bookkeeping a selection may do: advance the cursor and drop ejections that are over. Nothing
  else changes, and no ejection that is still running at \<open>now\<close> or later is affected.
\<close>

definition touched :: "instant \<Rightarrow> router \<Rightarrow> router \<Rightarrow> bool" where
  "touched now r r' \<longleftrightarrow>
     (\<exists>c h. r' = r\<lparr>r_cursor := c, r_health := h\<rparr>) \<and>
     (\<forall>t \<ge> now. healthy_at t r' = healthy_at t r) \<and>
     (hm_ok (r_health r) \<longrightarrow> hm_ok (r_health r'))"

lemma touched_upd:
  assumes "\<And>t i. now \<le> t \<Longrightarrow> healthy_at t (r\<lparr>r_cursor := c, r_health := h\<rparr>) i = healthy_at t r i"
    and "hm_ok (r_health r) \<Longrightarrow> hm_ok h"
  shows "touched now r (r\<lparr>r_cursor := c, r_health := h\<rparr>)"
  unfolding touched_def using assms by (intro conjI exI [of _ c] exI [of _ h]) (auto simp: fun_eq_iff)

lemma touched_refl [simp, intro]: "touched now r r"
  using touched_upd [where now = now and r = r and c = "r_cursor r" and h = "r_health r"] by simp

lemma touched_cursor [simp]: "touched now r (r\<lparr>r_cursor := c\<rparr>)"
  using touched_upd [where now = now and r = r and c = c and h = "r_health r"] by (simp add: healthy_at_def)

lemma touched_health:
  assumes "\<And>t i. now \<le> t \<Longrightarrow> healthy_at t (r\<lparr>r_health := h\<rparr>) i = healthy_at t r i"
    and "hm_ok (r_health r) \<Longrightarrow> hm_ok h"
  shows "touched now r (r\<lparr>r_health := h\<rparr>)"
  using touched_upd [where now = now and r = r and c = "r_cursor r" and h = h] assms by simp

lemma touched_trans: "touched now r r1 \<Longrightarrow> touched now r1 r2 \<Longrightarrow> touched now r r2"
  by (fastforce simp: touched_def)

lemma touched_fields:
  assumes "touched now r r'"
  shows "r_accounts r' = r_accounts r" "r_account_traits r' = r_account_traits r"
    "r_compiled_routing_plan r' = r_compiled_routing_plan r"
    "r_recent_success r' = r_recent_success r" "r_sticky_sessions r' = r_sticky_sessions r"
    "r_sticky_session_ttl r' = r_sticky_session_ttl r"
    "r_sticky_session_max_entries r' = r_sticky_session_max_entries r"
    "r_sticky_session_total r' = r_sticky_session_total r"
    "r_sticky_hit_count r' = r_sticky_hit_count r" "r_sticky_miss_count r' = r_sticky_miss_count r"
    "r_sticky_rebind_count r' = r_sticky_rebind_count r"
  using assms by (auto simp: touched_def)

lemma touched_healthy: "touched now r r' \<Longrightarrow> now \<le> t \<Longrightarrow> healthy_at t r' i = healthy_at t r i"
  by (simp add: touched_def)

lemma touched_find: "touched now r r' \<Longrightarrow> find_account i r' = find_account i r"
  by (simp add: find_account_def touched_fields)

lemma touched_available: "touched now r r' \<Longrightarrow> now \<le> t \<Longrightarrow> available t r' = available t r"
  by (auto simp: available_def fun_eq_iff touched_healthy touched_find)

lemma touched_lookup:
  "touched now r r' \<Longrightarrow> now \<le> t \<Longrightarrow> lookup_available t r' i = lookup_available t r i"
  by (simp add: lookup_available_def touched_healthy touched_find cong: option.case_cong)

lemmas touched_simps = touched_fields touched_healthy touched_find touched_available touched_lookup

lemma find_account_id: "find_account i r = Some a \<Longrightarrow> ua_id a = i \<and> a \<in> set (r_accounts r)"
  by (auto simp: find_account_def find_Some_iff)

lemma find_account_distinct:
  assumes "distinct (map ua_id (r_accounts r))" and "a \<in> set (r_accounts r)"
  shows "find_account (ua_id a) r = Some a"
proof -
  have "find_account (ua_id a) r \<noteq> None"
    using assms by (auto simp: find_account_def find_None_iff)
  then obtain b where b: "find_account (ua_id a) r = Some b" by blast
  with find_account_id [OF b] assms have "b = a" by (auto simp: distinct_map dest: inj_onD)
  with b show ?thesis by simp
qed

lemma available_member: "available now r a \<Longrightarrow> a \<in> set (r_accounts r)"
  by (auto simp: available_def dest: find_account_id)

lemma lookup_available_Some:
  "lookup_available now r i = Some a \<longleftrightarrow> available now r a \<and> ua_id a = i"
  by (auto simp: lookup_available_def available_def split: option.splits if_splits
      dest: find_account_id)

lemma available_iff:
  "distinct (map ua_id (r_accounts r)) \<Longrightarrow>
   available now r a \<longleftrightarrow> a \<in> set (r_accounts r) \<and> ua_enabled a \<and> healthy_at now r (ua_id a)"
  by (auto simp: available_def find_account_distinct dest: find_account_id)

lemma healthy_at_later: "healthy_at now r i \<Longrightarrow> now \<le> t \<Longrightarrow> healthy_at t r i"
  by (auto simp: healthy_at_def split: option.splits)

lemma available_later: "available now r a \<Longrightarrow> now \<le> t \<Longrightarrow> available t r a"
  by (auto simp: available_def healthy_at_later)

lemma find_cong_pred: "(\<And>x. x \<in> set xs \<Longrightarrow> P x = Q x) \<Longrightarrow> find P xs = find Q xs"
  by (induction xs) auto

section \<open>The selection primitives\<close>

lemma is_healthy_result [simp]: "fst (is_healthy now i r) = healthy_at now r i"
  by (auto simp: is_healthy_def healthy_at_def split: option.splits)

lemma is_healthy_touched [simp]: "touched now r (snd (is_healthy now i r))"
  by (auto simp: is_healthy_def healthy_at_def map_of_hm_remove split: option.splits if_splits
      intro!: touched_health)

lemma is_healthy_cursor [simp]: "r_cursor (snd (is_healthy now i r)) = r_cursor r"
  by (auto simp: is_healthy_def split: option.splits)

lemma pick_specific_result [simp]: "fst (pick_specific now i r) = lookup_available now r i"
  by (auto simp: pick_specific_def lookup_available_def split: option.splits prod.splits
      dest: find_account_id simp flip: is_healthy_result)

lemma pick_specific_touched [simp]: "touched now r (snd (pick_specific now i r))"
proof (cases "find_account i r")
  case (Some a)
  then show ?thesis
    using is_healthy_touched [of now r "ua_id a"]
    by (cases "is_healthy now (ua_id a) r") (auto simp: pick_specific_def)
qed (simp add: pick_specific_def)

lemma filter_selectable_touched: "touched now r (snd (filter_selectable now excluded as r))"
proof (induction as arbitrary: r)
  case (Cons a as)
  show ?case
  proof (cases "ua_id a \<notin> excluded \<and> ua_enabled a")
    case True
    obtain h r1 where h: "is_healthy now (ua_id a) r = (h, r1)" by fastforce
    have "touched now r r1" using is_healthy_touched [of now r "ua_id a"] h by simp
    then have "touched now r (snd (filter_selectable now excluded as r1))"
      using Cons.IH [of r1] by (rule touched_trans)
    with True h show ?thesis by (auto split: prod.split)
  qed (use Cons.IH in auto)
qed simp

lemma filter_selectable_result:
  "fst (filter_selectable now excluded as r) =
     filter (\<lambda>a. ua_id a \<notin> excluded \<and> ua_enabled a \<and> healthy_at now r (ua_id a)) as"
proof (induction as arbitrary: r)
  case (Cons a as)
  show ?case
  proof (cases "ua_id a \<notin> excluded \<and> ua_enabled a")
    case True
    obtain h r1 where h: "is_healthy now (ua_id a) r = (h, r1)" by fastforce
    have t: "touched now r r1" using is_healthy_touched [of now r "ua_id a"] h by simp
    have "h = healthy_at now r (ua_id a)" using is_healthy_result [of now "ua_id a" r] h by simp
    with True h Cons.IH [of r1] touched_healthy [OF t order_refl] show ?thesis
      by (auto split: prod.split)
  qed (use Cons.IH in auto)
qed simp

lemma first_pickable_touched: "touched now r (snd (first_pickable now skip is r))"
proof (induction "is" arbitrary: r)
  case (Cons i "is")
  obtain p r1 where p: "pick_specific now i r = (p, r1)" by fastforce
  have t: "touched now r r1" using pick_specific_touched [of now r i] p by simp
  show ?case
    using p t Cons.IH [of r] touched_trans [OF t Cons.IH [of r1]]
    by (auto split: option.split)
qed simp

lemma first_pickable_result:
  "fst (first_pickable now skip is r) =
     (case List.map_filter (lookup_available now r) (filter (\<lambda>i. \<not> skip i) is) of
        [] \<Rightarrow> None | a # _ \<Rightarrow> Some a)"
proof (induction "is" arbitrary: r)
  case (Cons i "is")
  obtain p r1 where p: "pick_specific now i r = (p, r1)" by fastforce
  have t: "touched now r r1" using pick_specific_touched [of now r i] p by simp
  have "p = lookup_available now r i" using pick_specific_result [of now i r] p by simp
  moreover have "lookup_available now r1 = lookup_available now r"
    using touched_lookup [OF t order_refl] by blast
  ultimately show ?case
    using p Cons.IH [of r] Cons.IH [of r1] by (auto simp: map_filter_simps split: option.split)
qed (simp add: map_filter_simps)

text \<open>
  The loop finds the first eligible account among those the cursor runs through, the cursor
  wrapping as a 64-bit word.
\<close>

definition eligible :: "instant \<Rightarrow> (uuid \<Rightarrow> bool) \<Rightarrow> router \<Rightarrow> upstream_account \<Rightarrow> bool" where
  "eligible now skip r a \<longleftrightarrow> \<not> skip (ua_id a) \<and> ua_enabled a \<and> healthy_at now r (ua_id a)"

definition cursor_order :: "router \<Rightarrow> nat \<Rightarrow> upstream_account list" where
  "cursor_order r n =
     map (\<lambda>k. r_accounts r ! (unat (r_cursor r + of_nat k) mod length (r_accounts r))) [0..<n]"

lemma cursor_order_Suc:
  "cursor_order r (Suc n) =
     r_accounts r ! (unat (r_cursor r) mod length (r_accounts r))
       # cursor_order (r\<lparr>r_cursor := r_cursor r + 1\<rparr>) n"
  by (simp add: cursor_order_def upt_conv_Cons map_Suc_upt [symmetric] o_def algebra_simps
      del: upt_Suc)

lemma round_robin_loop_touched: "touched now r (snd (round_robin_loop now skip n r))"
proof (induction n arbitrary: r)
  case (Suc n)
  let ?r1 = "r\<lparr>r_cursor := r_cursor r + 1\<rparr>"
  let ?a = "r_accounts r ! (unat (r_cursor r) mod length (r_accounts r))"
  obtain h r2 where h: "is_healthy now (ua_id ?a) ?r1 = (h, r2)" by fastforce
  have t1: "touched now r ?r1" by simp
  moreover have "touched now ?r1 r2" using is_healthy_touched [of now ?r1 "ua_id ?a"] h by simp
  ultimately have t2: "touched now r r2" by (rule touched_trans)
  show ?case
    using h t2 touched_trans [OF t1 Suc.IH] touched_trans [OF t2 Suc.IH] by (auto simp: Let_def)
qed simp

lemma round_robin_loop_result:
  "fst (round_robin_loop now skip n r) = find (eligible now skip r) (cursor_order r n)"
proof (induction n arbitrary: r)
  case (Suc n)
  let ?r1 = "r\<lparr>r_cursor := r_cursor r + 1\<rparr>"
  let ?a = "r_accounts r ! (unat (r_cursor r) mod length (r_accounts r))"
  obtain h r2 where h: "is_healthy now (ua_id ?a) ?r1 = (h, r2)" by fastforce
  have t1: "touched now r ?r1" by simp
  have t12: "touched now ?r1 r2" using is_healthy_touched [of now ?r1 "ua_id ?a"] h by simp
  have heq: "h = healthy_at now r (ua_id ?a)"
    using is_healthy_result [of now "ua_id ?a" ?r1] h touched_healthy [OF t1 order_refl] by simp
  have el1: "eligible now skip ?r1 = eligible now skip r"
    using touched_healthy [OF t1 order_refl] by (auto simp: eligible_def fun_eq_iff)
  have el2: "eligible now skip r2 = eligible now skip r"
    using touched_healthy [OF touched_trans [OF t1 t12] order_refl]
    by (auto simp: eligible_def fun_eq_iff)
  have co: "cursor_order r2 n = cursor_order ?r1 n"
    using touched_fields [OF t12] is_healthy_cursor [of now "ua_id ?a" ?r1] h
    by (simp add: cursor_order_def)
  show ?case
    using h heq Suc.IH [of ?r1] Suc.IH [of r2]
    by (simp add: Let_def cursor_order_Suc el1 el2 co) (simp add: eligible_def)
qed (simp add: cursor_order_def)

lemma cursor_order_members: "r_accounts r \<noteq> [] \<Longrightarrow> set (cursor_order r n) \<subseteq> set (r_accounts r)"
  by (auto simp: cursor_order_def)

text \<open>
  The cursor has room for \<open>k\<close> rounds if it does not wrap around during them, or if wrapping around
  does not disturb the sequence of indices.
\<close>

definition cursor_room :: "nat \<Rightarrow> router \<Rightarrow> bool" where
  "cursor_room k r \<longleftrightarrow>
     unat (r_cursor r) + k * length (r_accounts r) \<le> 2 ^ 64 \<or> length (r_accounts r) dvd 2 ^ 64"

lemma cursor_index:
  fixes c :: u64
  assumes "unat c + n \<le> 2 ^ 64 \<or> len dvd 2 ^ 64" and "k < n"
  shows "unat (c + of_nat k) mod len = (unat c + k) mod len"
proof -
  have eq: "unat (c + of_nat k) = (unat c + k) mod 2 ^ 64"
    by (simp add: unat_word_ariths unat_of_nat mod_add_right_eq)
  show ?thesis
  proof (cases "len dvd 2 ^ 64")
    case True
    then show ?thesis unfolding eq by (rule mod_mod_cancel)
  next
    case False
    with assms have "unat c + k < 2 ^ 64" by linarith
    then show ?thesis unfolding eq by simp
  qed
qed

lemma rotation_hits:
  fixes c len i :: nat
  assumes "i < len"
  shows "\<exists>k < len. (c + k) mod len = i"
proof (intro exI conjI)
  let ?k = "(i + (len - c mod len)) mod len"
  show "?k < len" using assms by simp
  have "c mod len < len" using assms by simp
  have "(c + ?k) mod len = (c mod len + (i + (len - c mod len))) mod len"
    by (simp add: mod_add_left_eq mod_add_right_eq)
  also have "c mod len + (i + (len - c mod len)) = i + len" using \<open>c mod len < len\<close> by simp
  finally show "(c + ?k) mod len = i" using assms by simp
qed

lemma cursor_order_complete:
  assumes "cursor_room 1 r" and "a \<in> set (r_accounts r)"
  shows "a \<in> set (cursor_order r (length (r_accounts r)))"
proof -
  let ?len = "length (r_accounts r)"
  from assms(2) obtain i where i: "i < ?len" "a = r_accounts r ! i" by (auto simp: in_set_conv_nth)
  then obtain k where k: "k < ?len" "(unat (r_cursor r) + k) mod ?len = i"
    using rotation_hits by blast
  have "unat (r_cursor r + of_nat k) mod ?len = i"
    using cursor_index [of "r_cursor r" ?len ?len k] assms(1) k by (simp add: cursor_room_def)
  with i k show ?thesis by (force simp: cursor_order_def)
qed

lemma round_robin_loop_cursor:
  "unat (r_cursor r) + n \<le> 2 ^ 64 \<Longrightarrow>
   fst (round_robin_loop now skip n r) = None \<Longrightarrow>
   r_cursor (snd (round_robin_loop now skip n r)) = r_cursor r + of_nat n"
proof (induction n arbitrary: r)
  case (Suc n)
  let ?r1 = "r\<lparr>r_cursor := r_cursor r + 1\<rparr>"
  let ?a = "r_accounts r ! (unat (r_cursor r) mod length (r_accounts r))"
  obtain h r2 where h: "is_healthy now (ua_id ?a) ?r1 = (h, r2)" by fastforce
  have c2: "r_cursor r2 = r_cursor r + 1" using is_healthy_cursor [of now "ua_id ?a" ?r1] h by simp
  have u: "n = 0 \<or> unat (r_cursor r + 1) + n \<le> 2 ^ 64"
    using Suc.prems(1) by (auto simp: unat_word_ariths)
  show ?case
    using Suc.prems(2) h c2 u Suc.IH [of ?r1] Suc.IH [of r2]
    by (auto simp: Let_def add.assoc split: if_splits)
qed simp

section \<open>Selection without affinity\<close>

lemma latest_success_in: "latest_success es = Some i \<Longrightarrow> i \<in> fst ` set es"
  by (force simp: latest_success_def dest: max_by_key_in)

lemma freshest_probe_in: "freshest_probe es = Some i \<Longrightarrow> i \<in> fst ` set es"
  by (force simp: freshest_probe_def dest: max_by_key_in)

lemma success_entry_id: "success_entry r i = Some (j, t) \<Longrightarrow> j = i"
  by (auto simp: success_entry_def)

lemma probe_entry_id: "probe_entry r i = Some (j, t) \<Longrightarrow> j = i"
  by (auto simp: probe_entry_def Let_def split: option.splits if_splits)

lemma preferred_success_touched:
  "touched now r (snd (preferred_recent_success_account_id now excluded r))"
  using filter_selectable_touched [of now r excluded "r_accounts r"]
  by (auto simp: preferred_recent_success_account_id_def split: prod.split)

lemma preferred_probe_touched:
  "touched now r (snd (preferred_recent_probe_account_id now excluded r))"
  using filter_selectable_touched [of now r excluded "r_accounts r"]
  by (auto simp: preferred_recent_probe_account_id_def split: prod.split)

lemma filter_selectable_cursor: "r_cursor (snd (filter_selectable now excluded as r)) = r_cursor r"
proof (induction as arbitrary: r)
  case (Cons a as)
  obtain h r1 where h: "is_healthy now (ua_id a) r = (h, r1)" by fastforce
  with is_healthy_cursor [of now "ua_id a" r] Cons.IH [of r1] Cons.IH [of r] show ?case
    by (auto split: prod.split)
qed simp

lemma preferred_cursor:
  "r_cursor (snd (preferred_recent_success_account_id now excluded r)) = r_cursor r"
  "r_cursor (snd (preferred_recent_probe_account_id now excluded r)) = r_cursor r"
  using filter_selectable_cursor [of now excluded "r_accounts r" r]
  by (auto simp: preferred_recent_success_account_id_def preferred_recent_probe_account_id_def
      split: prod.split)

lemma preferred_success_result:
  "fst (preferred_recent_success_account_id now excluded r) =
     latest_success (List.map_filter (\<lambda>a. success_entry r (ua_id a))
       (filter (eligible now (\<lambda>i. i \<in> excluded) r) (r_accounts r)))"
  using filter_selectable_result [of now excluded "r_accounts r" r]
  by (auto simp: preferred_recent_success_account_id_def eligible_def [abs_def] split: prod.splits)

lemma preferred_probe_result:
  "fst (preferred_recent_probe_account_id now excluded r) =
     freshest_probe (List.map_filter (\<lambda>a. probe_entry r (ua_id a))
       (filter (eligible now (\<lambda>i. i \<in> excluded) r) (r_accounts r)))"
  using filter_selectable_result [of now excluded "r_accounts r" r]
  by (auto simp: preferred_recent_probe_account_id_def eligible_def [abs_def] split: prod.splits)

lemma preferred_success_eligible:
  assumes "fst (preferred_recent_success_account_id now excluded r) = Some i"
  shows "\<exists>a \<in> set (r_accounts r). ua_id a = i \<and> eligible now (\<lambda>i. i \<in> excluded) r a"
  using latest_success_in [OF assms [unfolded preferred_success_result]] success_entry_id
  by (fastforce simp: set_map_filter)

lemma preferred_probe_eligible:
  assumes "fst (preferred_recent_probe_account_id now excluded r) = Some i"
  shows "\<exists>a \<in> set (r_accounts r). ua_id a = i \<and> eligible now (\<lambda>i. i \<in> excluded) r a"
  using freshest_probe_in [OF assms [unfolded preferred_probe_result]] probe_entry_id
  by (fastforce simp: set_map_filter)

lemma eligible_available:
  "distinct (map ua_id (r_accounts r)) \<Longrightarrow> a \<in> set (r_accounts r) \<Longrightarrow>
   eligible now skip r a \<longleftrightarrow> available now r a \<and> \<not> skip (ua_id a)"
  by (auto simp: eligible_def available_iff)

text \<open>
  \<^const>\<open>pick_excluding\<close> as a choice among pure functions of the state: the latest success, else the
  freshest probe, else the first eligible account in cursor order.
\<close>

lemma pick_excluding_cases:
  assumes "distinct (map ua_id (r_accounts r))"
  obtains (empty) "r_accounts r = []" "pick_excluding now excluded r = (None, r)"
  | (preferred) a r' where "pick_excluding now excluded r = (Some a, r')" "touched now r r'"
      "available now r a" "ua_id a \<notin> excluded"
      "fst (preferred_recent_success_account_id now excluded r) = Some (ua_id a) \<or>
       fst (preferred_recent_success_account_id now excluded r) = None \<and>
       fst (preferred_recent_probe_account_id now excluded r) = Some (ua_id a)"
  | (loop) r2 where
      "pick_excluding now excluded r =
         round_robin_loop now (\<lambda>i. i \<in> excluded) (length (r_accounts r)) r2"
      "touched now r r2" "r_cursor r2 = r_cursor r" "r_accounts r \<noteq> []"
      "fst (preferred_recent_success_account_id now excluded r) = None"
      "fst (preferred_recent_probe_account_id now excluded r) = None"
proof (cases "r_accounts r = []")
  case True
  then show ?thesis using empty by (simp add: pick_excluding_def)
next
  case False
  obtain s r1 where s: "preferred_recent_success_account_id now excluded r = (s, r1)" by fastforce
  obtain p r2 where p: "preferred_recent_probe_account_id now excluded r1 = (p, r2)" by fastforce
  have t1: "touched now r r1" using preferred_success_touched [of now r excluded] s by simp
  have t12: "touched now r1 r2" using preferred_probe_touched [of now r1 excluded] p by simp
  from t1 t12 have t2: "touched now r r2" by (rule touched_trans)
  have p_eq: "p = fst (preferred_recent_probe_account_id now excluded r)"
  proof -
    have "eligible now (\<lambda>i. i \<in> excluded) r1 = eligible now (\<lambda>i. i \<in> excluded) r"
      using touched_healthy [OF t1 order_refl] by (simp add: eligible_def fun_eq_iff)
    moreover have "probe_entry r1 = probe_entry r"
      by (simp add: probe_entry_def fun_eq_iff touched_fields [OF t1])
    ultimately show ?thesis
      using preferred_probe_result [of now excluded r1] p
      by (simp add: preferred_probe_result touched_fields [OF t1])
  qed
  have found: "\<exists>a. find_account i r = Some a \<and> available now r a \<and> ua_id a = i \<and> i \<notin> excluded"
    if "\<exists>a \<in> set (r_accounts r). ua_id a = i \<and> eligible now (\<lambda>i. i \<in> excluded) r a" for i
  proof -
    from that obtain a where "a \<in> set (r_accounts r)" "ua_id a = i"
      "eligible now (\<lambda>i. i \<in> excluded) r a" by blast
    with eligible_available [OF assms, of a now "\<lambda>i. i \<in> excluded"]
    show ?thesis by (auto simp: available_def)
  qed
  show ?thesis
  proof (cases s)
    case (Some i)
    with s found preferred_success_eligible [of now excluded r i] obtain a where
      "find_account i r = Some a" "available now r a" "ua_id a = i" "i \<notin> excluded" by auto
    with Some s False t1 show ?thesis
      using preferred [of a r1] by (simp add: pick_excluding_def touched_find [OF t1])
  next
    case None
    show ?thesis
    proof (cases p)
      case (Some i)
      with p_eq found preferred_probe_eligible [of now excluded r i] obtain a where
        "find_account i r = Some a" "available now r a" "ua_id a = i" "i \<notin> excluded" by auto
      with None Some s p p_eq False t2 show ?thesis
        using preferred [of a r2] by (simp add: pick_excluding_def touched_find [OF t2])
    next
      case None' : None
      have "r_cursor r2 = r_cursor r"
        using s p preferred_cursor by (metis snd_conv)
      with None None' s p p_eq False t2 show ?thesis
        using loop [of r2] by (simp add: pick_excluding_def touched_fields [OF t2])
    qed
  qed
qed

lemma pick_excluding_touched:
  "touched now r (snd (pick_excluding now excluded r))"
proof -
  obtain s r1 where s: "preferred_recent_success_account_id now excluded r = (s, r1)" by fastforce
  obtain p r2 where p: "preferred_recent_probe_account_id now excluded r1 = (p, r2)" by fastforce
  have t1: "touched now r r1" using preferred_success_touched [of now r excluded] s by simp
  have "touched now r1 r2" using preferred_probe_touched [of now r1 excluded] p by simp
  with t1 have t2: "touched now r r2" by (rule touched_trans)
  from t1 t2 touched_trans [OF t2 round_robin_loop_touched] s p show ?thesis
    by (auto simp: pick_excluding_def split: option.split)
qed

lemma round_robin_loop_sound:
  assumes "fst (round_robin_loop now skip n r) = Some a" "r_accounts r \<noteq> []"
    and "distinct (map ua_id (r_accounts r))"
  shows "available now r a \<and> \<not> skip (ua_id a)"
proof -
  from assms(1) have "eligible now skip r a" "a \<in> set (cursor_order r n)"
    by (auto simp: round_robin_loop_result find_Some_iff)
  with cursor_order_members [OF assms(2)] eligible_available [OF assms(3)] show ?thesis by blast
qed

lemma round_robin_loop_complete:
  assumes "cursor_room 1 r" "available now r a" "\<not> skip (ua_id a)"
  shows "fst (round_robin_loop now skip (length (r_accounts r)) r) \<noteq> None"
proof -
  have "a \<in> set (cursor_order r (length (r_accounts r)))"
    using cursor_order_complete assms(1) available_member [OF assms(2)] by blast
  moreover have "eligible now skip r a" using assms by (auto simp: eligible_def available_def)
  ultimately show ?thesis by (auto simp: round_robin_loop_result find_None_iff)
qed

lemma pick_excluding_sound:
  assumes "distinct (map ua_id (r_accounts r))" and "fst (pick_excluding now excluded r) = Some a"
  shows "available now r a \<and> ua_id a \<notin> excluded"
  using assms(1)
proof (cases rule: pick_excluding_cases [of r now excluded])
  case (loop r2)
  with assms round_robin_loop_sound [of now "\<lambda>i. i \<in> excluded" "length (r_accounts r)" r2 a]
  show ?thesis by (simp add: touched_simps [OF loop(2)])
qed (use assms in auto)

lemma pick_excluding_complete:
  assumes "distinct (map ua_id (r_accounts r))" and "cursor_room 1 r"
    and "available now r a" and "ua_id a \<notin> excluded"
  shows "fst (pick_excluding now excluded r) \<noteq> None"
  using assms(1)
proof (cases rule: pick_excluding_cases [of r now excluded])
  case empty
  with available_member [OF assms(3)] show ?thesis by simp
next
  case (loop r2)
  have "cursor_room 1 r2"
    using assms(2) loop by (simp add: cursor_room_def touched_fields [OF loop(2)])
  moreover have "available now r2 a" using assms(3) by (simp add: touched_available [OF loop(2)])
  ultimately have "fst (round_robin_loop now (\<lambda>i. i \<in> excluded) (length (r_accounts r2)) r2) \<noteq> None"
    using assms(4) by (intro round_robin_loop_complete)
  with loop show ?thesis by (simp add: touched_fields [OF loop(2)])
qed simp

section \<open>Selection among candidates\<close>

lemma try_pick_touched: "touched now r (snd (try_pick now i r))"
  by (simp add: try_pick_def split: option.split)

lemma try_pick_result: "fst (try_pick now i r) = Option.bind i (lookup_available now r)"
  by (simp add: try_pick_def split: option.split)

lemma first_pickable_Some:
  "fst (first_pickable now skip is r) = Some a \<Longrightarrow>
   available now r a \<and> ua_id a \<in> set is \<and> \<not> skip (ua_id a)"
proof -
  assume "fst (first_pickable now skip is r) = Some a"
  then have "a \<in> set (List.map_filter (lookup_available now r) (filter (\<lambda>i. \<not> skip i) is))"
    by (auto simp: first_pickable_result split: list.splits)
  then show ?thesis by (auto simp: set_map_filter lookup_available_Some)
qed

lemma first_pickable_complete:
  assumes "available now r a" "ua_id a \<in> set is" "\<not> skip (ua_id a)"
  shows "fst (first_pickable now skip is r) \<noteq> None"
proof -
  have "lookup_available now r (ua_id a) = Some a" using assms by (simp add: lookup_available_Some)
  with assms have "a \<in> set (List.map_filter (lookup_available now r) (filter (\<lambda>i. \<not> skip i) is))"
    by (force simp: map_filter_def)
  then show ?thesis by (auto simp: first_pickable_result split: list.split)
qed

lemma preferred_candidate_in:
  "preferred_candidate_success_account_id is excluded r = Some i \<Longrightarrow> i \<in> set is \<and> i \<notin> excluded"
  "preferred_candidate_probe_account_id is excluded r = Some i \<Longrightarrow> i \<in> set is \<and> i \<notin> excluded"
  unfolding preferred_candidate_success_account_id_def preferred_candidate_probe_account_id_def
  by (auto dest!: latest_success_in freshest_probe_in simp: set_map_filter
      dest: success_entry_id probe_entry_id)

lemma pick_candidate_account_touched:
  "touched now r (snd (pick_candidate_account now is excluded r))"
proof -
  obtain p r1 where p: "try_pick now (preferred_candidate_success_account_id is excluded r) r = (p, r1)"
    by fastforce
  obtain q r2 where q: "try_pick now (preferred_candidate_probe_account_id is excluded r1) r1 = (q, r2)"
    by fastforce
  have t1: "touched now r r1" using try_pick_touched p by (metis snd_conv)
  have "touched now r1 r2" using try_pick_touched q by (metis snd_conv)
  with t1 have t2: "touched now r r2" by (rule touched_trans)
  from t1 t2 touched_trans [OF t2 first_pickable_touched] p q show ?thesis
    by (auto simp: pick_candidate_account_def split: option.split)
qed

lemma pick_candidate_account_result:
  "fst (pick_candidate_account now is excluded r) =
     (case Option.bind (preferred_candidate_success_account_id is excluded r) (lookup_available now r) of
        Some a \<Rightarrow> Some a
      | None \<Rightarrow>
          (case Option.bind (preferred_candidate_probe_account_id is excluded r) (lookup_available now r) of
             Some a \<Rightarrow> Some a
           | None \<Rightarrow> fst (first_pickable now (\<lambda>i. i \<in> excluded) is r)))"
proof -
  obtain p r1 where p: "try_pick now (preferred_candidate_success_account_id is excluded r) r = (p, r1)"
    by fastforce
  obtain q r2 where q: "try_pick now (preferred_candidate_probe_account_id is excluded r1) r1 = (q, r2)"
    by fastforce
  have t1: "touched now r r1" using try_pick_touched p by (metis snd_conv)
  have "touched now r1 r2" using try_pick_touched q by (metis snd_conv)
  with t1 have t2: "touched now r r2" by (rule touched_trans)
  have l: "lookup_available now r1 = lookup_available now r" "lookup_available now r2 = lookup_available now r"
    using touched_lookup [OF t1 order_refl] touched_lookup [OF t2 order_refl] by blast+
  have pe: "preferred_candidate_probe_account_id is excluded r1 =
            preferred_candidate_probe_account_id is excluded r"
    by (simp add: preferred_candidate_probe_account_id_def probe_entry_def [abs_def]
        touched_fields [OF t1])
  have "p = Option.bind (preferred_candidate_success_account_id is excluded r) (lookup_available now r)"
    using try_pick_result p by (metis fst_conv)
  moreover have "q = Option.bind (preferred_candidate_probe_account_id is excluded r) (lookup_available now r)"
    using try_pick_result q l pe by (metis fst_conv)
  moreover have "fst (first_pickable now (\<lambda>i. i \<in> excluded) is r2) =
                 fst (first_pickable now (\<lambda>i. i \<in> excluded) is r)"
    by (simp add: first_pickable_result l)
  ultimately show ?thesis
    using p q by (auto simp: pick_candidate_account_def split: option.split)
qed

lemma pick_candidate_account_sound:
  assumes "fst (pick_candidate_account now is excluded r) = Some a"
  shows "available now r a \<and> ua_id a \<in> set is \<and> ua_id a \<notin> excluded"
  using assms preferred_candidate_in [of "is" excluded r] first_pickable_Some [of now _ "is" r a]
  by (auto simp: pick_candidate_account_result bind_eq_Some_conv lookup_available_Some
      split: option.splits)

lemma pick_candidate_account_complete:
  assumes "available now r a" "ua_id a \<in> set is" "ua_id a \<notin> excluded"
  shows "fst (pick_candidate_account now is excluded r) \<noteq> None"
  using first_pickable_complete [of now r a "is" "\<lambda>i. i \<in> excluded"] assms
  by (auto simp: pick_candidate_account_result split: option.split)

end
