(* ===== verification/Sticky_Policy.thy ===== *)
theory Sticky_Policy
  imports Router_Props
begin

text \<open>
  Session affinity. The two policies of the router, \<^const>\<open>pick_with_round_robin_policy\<close> and
  \<^const>\<open>pick_from_ordered_candidates\<close>, follow one protocol around different selectors: look the
  session up, reuse its account if that may still be used, otherwise select afresh and remember the
  choice. The protocol is stated once, over the contract a selector has to meet, and interpreted on
  both policies.
\<close>

section \<open>The sticky table\<close>

abbreviation live :: "instant \<Rightarrow> router \<Rightarrow> (string, sticky_session_entry) hash_map" where
  "live now r \<equiv> prune_expired_sticky_sessions now (r_sticky_sessions r)"

definition bound_to :: "instant \<Rightarrow> router \<Rightarrow> string \<Rightarrow> uuid option" where
  "bound_to now r key = map_option se_account_id (map_of (live now r) key)"

lemma set_prune: "set (prune_expired_sticky_sessions now m) \<subseteq> set m"
  by (auto simp: prune_expired_sticky_sessions_def hm_retain_def)

lemma hm_ok_prune [simp]: "hm_ok m \<Longrightarrow> hm_ok (prune_expired_sticky_sessions now m)"
  by (simp add: prune_expired_sticky_sessions_def)

lemma prune_idem [simp]:
  "prune_expired_sticky_sessions now (prune_expired_sticky_sessions now m) =
   prune_expired_sticky_sessions now m"
  by (simp add: prune_expired_sticky_sessions_def hm_retain_def)

lemma length_prune: "length (prune_expired_sticky_sessions now m) \<le> length m"
  by (simp add: prune_expired_sticky_sessions_def length_hm_retain_le)

lemma prune_hm_remove:
  "prune_expired_sticky_sessions now (hm_remove k m) = hm_remove k (prune_expired_sticky_sessions now m)"
  by (simp add: prune_expired_sticky_sessions_def hm_retain_def AList.delete_eq conj_commute
      case_prod_unfold)

lemma enforce_sticky_capacity_bound:
  "0 < max_entries \<Longrightarrow> length (enforce_sticky_capacity max_entries items) < max_entries"
proof (induction max_entries items rule: enforce_sticky_capacity.induct)
  case (1 max_entries items)
  show ?case
  proof (cases "min_by_key (\<lambda>kv. se_last_used_at (snd kv)) items")
    case None
    with 1(2) show ?thesis by (simp add: enforce_sticky_capacity.simps [of max_entries "[]"])
  next
    case (Some oldest)
    with 1 show ?thesis by (auto simp: enforce_sticky_capacity.simps [of max_entries items])
  qed
qed

lemma enforce_sticky_capacity_subset:
  "set (enforce_sticky_capacity max_entries items) \<subseteq> set items \<and>
   (hm_ok items \<longrightarrow> hm_ok (enforce_sticky_capacity max_entries items))"
proof (induction max_entries items rule: enforce_sticky_capacity.induct)
  case (1 max_entries items)
  show ?case
  proof (cases "length items \<ge> max_entries \<and> items \<noteq> []")
    case True
    then obtain oldest where o: "min_by_key (\<lambda>kv. se_last_used_at (snd kv)) items = Some oldest"
      by (cases "min_by_key (\<lambda>kv. se_last_used_at (snd kv)) items") auto
    with True 1 [of oldest] set_hm_remove_subset [of "fst oldest" items] show ?thesis
      by (auto simp: enforce_sticky_capacity.simps [of max_entries items])
  next
    case False
    then show ?thesis by (auto simp: enforce_sticky_capacity.simps [of max_entries items])
  qed
qed

lemma enforce_sticky_capacity_id:
  "length items < max_entries \<Longrightarrow> enforce_sticky_capacity max_entries items = items"
  by (simp add: enforce_sticky_capacity.simps [of max_entries items])

section \<open>The protocol\<close>

definition sticky_pick ::
  "(uuid \<Rightarrow> bool) \<Rightarrow> (instant \<Rightarrow> router \<Rightarrow> upstream_account option \<times> router) \<Rightarrow>
   (instant \<Rightarrow> string \<Rightarrow> router \<Rightarrow> upstream_account option \<times> router) \<Rightarrow>
   instant \<Rightarrow> string \<Rightarrow> bool \<Rightarrow> router \<Rightarrow> upstream_account option \<times> router" where
  "sticky_pick admissible pick_any pick_avoiding now key prefer r =
     (let (sticky_id, r1) = get_sticky_account_id now key (count_session r);
          (hit, r2) =
            (case sticky_id of
               None \<Rightarrow> (None, r1)
             | Some account_id \<Rightarrow>
                 if \<not> admissible account_id then (None, remove_sticky_mapping key r1)
                 else (case pick_specific now account_id r1 of
                         (Some account, r2) \<Rightarrow> (Some account, count_hit r2)
                       | (None, r2) \<Rightarrow> (None, remove_sticky_mapping key r2)))
      in case hit of
           Some account \<Rightarrow> (Some account, r2)
         | None \<Rightarrow>
             (let r3 = count_miss r2;
                  (picked, r5) =
                    (if prefer then
                       (case pick_avoiding now key r3 of
                          (Some account, r4) \<Rightarrow> (Some account, r4)
                        | (None, r4) \<Rightarrow> pick_any now r4)
                     else pick_any now r3)
              in case picked of
                   None \<Rightarrow> (None, r5)
                 | Some account \<Rightarrow>
                     (Some account, insert_and_count_rebind now key (ua_id account) r5)))"

lemma round_robin_policy_eq:
  "pick_with_round_robin_policy now sticky_key excluded prefer r =
     (case normalize_sticky_key sticky_key of
        None \<Rightarrow> pick_excluding now excluded r
      | Some key \<Rightarrow>
          sticky_pick (\<lambda>i. i \<notin> excluded) (\<lambda>now. pick_excluding now excluded)
            (\<lambda>now key. pick_avoiding_sticky_conflicts now key excluded) now key prefer r)"
  unfolding pick_with_round_robin_policy_def sticky_pick_def not_not ..

lemma ordered_candidates_eq:
  "pick_from_ordered_candidates now is sticky_key excluded prefer r =
     (case normalize_sticky_key sticky_key of
        None \<Rightarrow> pick_candidate_account now is excluded r
      | Some key \<Rightarrow>
          sticky_pick (\<lambda>i. i \<notin> excluded \<and> i \<in> set is) (\<lambda>now. pick_candidate_account now is excluded)
            (\<lambda>now key. pick_candidate_account_avoiding_conflicts now key is excluded) now key prefer r)"
  unfolding pick_from_ordered_candidates_def sticky_pick_def de_Morgan_conj not_not ..

text \<open>The states the protocol passes through: after a hit and after a miss.\<close>

abbreviation with_sticky :: "(string, sticky_session_entry) hash_map \<Rightarrow> router \<Rightarrow> router" where
  "with_sticky S r \<equiv> r\<lparr>r_sticky_sessions := S\<rparr>"

definition refreshed :: "instant \<Rightarrow> router \<Rightarrow> sticky_session_entry \<Rightarrow> sticky_session_entry" where
  "refreshed now r e = e\<lparr>se_last_used_at := now, se_expires_at := now + r_sticky_session_ttl r\<rparr>"

definition hit_state :: "instant \<Rightarrow> string \<Rightarrow> sticky_session_entry \<Rightarrow> router \<Rightarrow> router" where
  "hit_state now key e r =
     count_hit (count_session (with_sticky (hm_insert key (refreshed now r e) (live now r)) r))"

definition miss_state :: "(string, sticky_session_entry) hash_map \<Rightarrow> router \<Rightarrow> router" where
  "miss_state S r = count_miss (count_session (with_sticky S r))"

lemma touched_commute:
  assumes "touched now r r'"
  shows "touched now (with_sticky S r) (with_sticky S r')"
    "touched now (count_hit r) (count_hit r')" "touched now (count_miss r) (count_miss r')"
    "touched now (count_session r) (count_session r')"
proof -
  from assms obtain c h where r': "r' = r\<lparr>r_cursor := c, r_health := h\<rparr>" by (auto simp: touched_def)
  have h: "healthy_at t (r0\<lparr>r_cursor := c, r_health := h\<rparr>) i = healthy_at t r0 i"
    if "now \<le> t" "r_health r0 = r_health r" for t i r0
    using assms that r' by (simp add: touched_def healthy_at_def fun_eq_iff)
  have ok: "hm_ok (r_health r) \<Longrightarrow> hm_ok h" using assms r' by (simp add: touched_def)
  have *: "touched now r0 (r0\<lparr>r_cursor := c, r_health := h\<rparr>)" if "r_health r0 = r_health r" for r0
    using h ok that by (intro touched_upd) auto
  have eqs: "with_sticky S r' = (with_sticky S r)\<lparr>r_cursor := c, r_health := h\<rparr>"
    "count_hit r' = (count_hit r)\<lparr>r_cursor := c, r_health := h\<rparr>"
    "count_miss r' = (count_miss r)\<lparr>r_cursor := c, r_health := h\<rparr>"
    "count_session r' = (count_session r)\<lparr>r_cursor := c, r_health := h\<rparr>"
    by (simp_all add: r')
  show "touched now (with_sticky S r) (with_sticky S r')"
    "touched now (count_hit r) (count_hit r')" "touched now (count_miss r) (count_miss r')"
    "touched now (count_session r) (count_session r')"
    unfolding eqs using * [of "with_sticky S r"] * [of "count_hit r"] * [of "count_miss r"] * [of "count_session r"]
    by simp_all
qed

lemma get_sticky_None:
  assumes "map_of (live now r) key = None"
  shows "get_sticky_account_id now key (count_session r) = (None, count_session (with_sticky (live now r) r))"
  using assms by (simp add: get_sticky_account_id_def Let_def)

lemma get_sticky_Some:
  assumes "map_of (live now r) key = Some e"
  shows "get_sticky_account_id now key (count_session r) =
    (Some (se_account_id e), count_session (with_sticky (hm_insert key (refreshed now r e) (live now r)) r))"
  using assms by (simp add: get_sticky_account_id_def refreshed_def Let_def)

lemma miss_state_cursor [simp]: "r_cursor (miss_state S r) = r_cursor r"
  by (simp add: miss_state_def)

lemma pick_specific_cursor [simp]: "r_cursor (snd (pick_specific now i r)) = r_cursor r"
proof (cases "find_account i r")
  case (Some a)
  then show ?thesis
    using is_healthy_cursor [of now "ua_id a" r]
    by (cases "is_healthy now (ua_id a) r") (auto simp: pick_specific_def)
qed (simp add: pick_specific_def)

section \<open>The invariant\<close>

text \<open>What every selection keeps: everything but cursor, expired ejections, sessions and counters.\<close>

definition same_config :: "instant \<Rightarrow> router \<Rightarrow> router \<Rightarrow> bool" where
  "same_config now r r' \<longleftrightarrow>
     r_accounts r' = r_accounts r \<and> r_account_traits r' = r_account_traits r \<and>
     r_compiled_routing_plan r' = r_compiled_routing_plan r \<and>
     r_recent_success r' = r_recent_success r \<and>
     r_sticky_session_ttl r' = r_sticky_session_ttl r \<and>
     r_sticky_session_max_entries r' = r_sticky_session_max_entries r \<and>
     (\<forall>t \<ge> now. healthy_at t r' = healthy_at t r) \<and> (hm_ok (r_health r) \<longrightarrow> hm_ok (r_health r'))"

lemma touched_same_config: "touched now r r' \<Longrightarrow> same_config now r r'"
  by (auto simp: same_config_def touched_fields touched_healthy) (auto simp: touched_def)

lemma same_config_available: "same_config now r r' \<Longrightarrow> now \<le> t \<Longrightarrow> available t r' = available t r"
  by (auto simp: same_config_def available_def find_account_def fun_eq_iff)

abbreviation account_ids :: "router \<Rightarrow> uuid set" where
  "account_ids r \<equiv> ua_id ` set (r_accounts r)"

definition sticky_inv :: "router \<Rightarrow> bool" where
  "sticky_inv r \<longleftrightarrow>
     hm_ok (r_sticky_sessions r) \<and>
     0 < r_sticky_session_max_entries r \<and>
     length (r_sticky_sessions r) \<le> r_sticky_session_max_entries r \<and>
     0 < r_sticky_session_ttl r \<and>
     (\<forall>(k, e) \<in> set (r_sticky_sessions r). se_account_id e \<in> account_ids r)"

definition counters_inv :: "router \<Rightarrow> bool" where
  "counters_inv r \<longleftrightarrow> r_sticky_session_total r = r_sticky_hit_count r + r_sticky_miss_count r"

definition router_inv :: "router \<Rightarrow> bool" where
  "router_inv r \<longleftrightarrow>
     distinct (map ua_id (r_accounts r)) \<and>
     hm_ok (r_account_traits r) \<and> fst ` set (r_account_traits r) \<subseteq> account_ids r \<and>
     hm_ok (r_recent_success r) \<and> fst ` set (r_recent_success r) \<subseteq> account_ids r \<and>
     hm_ok (r_health r) \<and> sticky_inv r \<and> counters_inv r"

lemma router_inv_same_config:
  "router_inv r \<Longrightarrow> same_config now r r' \<Longrightarrow> sticky_inv r' \<Longrightarrow> counters_inv r' \<Longrightarrow> router_inv r'"
  by (auto simp: router_inv_def same_config_def)

lemma sticky_inv_subset:
  assumes "sticky_inv r" "set S \<subseteq> set (r_sticky_sessions r)" "hm_ok S"
    and "r_sticky_sessions r' = S" "r_accounts r' = r_accounts r"
    and "r_sticky_session_ttl r' = r_sticky_session_ttl r"
    and "r_sticky_session_max_entries r' = r_sticky_session_max_entries r"
  shows "sticky_inv r'"
proof -
  have "length S \<le> length (r_sticky_sessions r)"
    using assms(1-3) card_mono [of "set (r_sticky_sessions r)" "set S"]
    by (simp add: sticky_inv_def distinct_map distinct_card)
  with assms show ?thesis by (fastforce simp: sticky_inv_def)
qed

lemma sticky_inv_insert:
  assumes "sticky_inv r" "i \<in> account_ids r"
  shows "sticky_inv (snd (insert_sticky_mapping now key i r))"
proof -
  let ?S = "enforce_sticky_capacity (r_sticky_session_max_entries r) (live now r)"
  let ?e = "\<lparr>se_account_id = i, se_expires_at = now + r_sticky_session_ttl r, se_last_used_at = now\<rparr>"
  have "length ?S < r_sticky_session_max_entries r"
    using assms(1) by (intro enforce_sticky_capacity_bound) (simp add: sticky_inv_def)
  then have "length (hm_insert key ?e ?S) \<le> r_sticky_session_max_entries r"
    by (simp add: length_hm_insert)
  moreover have "set ?S \<subseteq> set (r_sticky_sessions r)" "hm_ok ?S"
    using enforce_sticky_capacity_subset [of "r_sticky_session_max_entries r" "live now r"]
      set_prune [of now "r_sticky_sessions r"] assms(1) by (auto simp: sticky_inv_def)
  ultimately show ?thesis
    using assms set_hm_insert_subset [of key ?e ?S]
    by (fastforce simp: sticky_inv_def insert_sticky_mapping_def Let_def)
qed

lemma insert_and_count_rebind_state:
  "\<exists>n. insert_and_count_rebind now key i r =
    (snd (insert_sticky_mapping now key i r))\<lparr>r_sticky_rebind_count := n\<rparr>"
proof -
  obtain b r1 where b: "insert_sticky_mapping now key i r = (b, r1)" by fastforce
  show ?thesis
  proof (cases b)
    case True
    with b show ?thesis by (auto simp: insert_and_count_rebind_def)
  next
    case False
    with b show ?thesis
      by (intro exI [of _ "r_sticky_rebind_count r1"]) (simp add: insert_and_count_rebind_def)
  qed
qed

lemma insert_and_count_rebind_props:
  "same_config now r (insert_and_count_rebind now key i r)"
  "counters_inv r \<Longrightarrow> counters_inv (insert_and_count_rebind now key i r)"
  "sticky_inv r \<Longrightarrow> i \<in> account_ids r \<Longrightarrow> sticky_inv (insert_and_count_rebind now key i r)"
  "map_of (r_sticky_sessions (insert_and_count_rebind now key i r)) key =
     Some \<lparr>se_account_id = i, se_expires_at = now + r_sticky_session_ttl r, se_last_used_at = now\<rparr>"
proof -
  obtain n where n: "insert_and_count_rebind now key i r =
    (snd (insert_sticky_mapping now key i r))\<lparr>r_sticky_rebind_count := n\<rparr>"
    using insert_and_count_rebind_state by blast
  show "same_config now r (insert_and_count_rebind now key i r)"
    "counters_inv r \<Longrightarrow> counters_inv (insert_and_count_rebind now key i r)"
    "map_of (r_sticky_sessions (insert_and_count_rebind now key i r)) key =
     Some \<lparr>se_account_id = i, se_expires_at = now + r_sticky_session_ttl r, se_last_used_at = now\<rparr>"
    unfolding n
    by (auto simp: same_config_def counters_inv_def insert_sticky_mapping_def Let_def map_of_hm_insert)
  show "sticky_inv r \<Longrightarrow> i \<in> account_ids r \<Longrightarrow> sticky_inv (insert_and_count_rebind now key i r)"
    using sticky_inv_insert [of r i now key] unfolding n by (simp add: sticky_inv_def)
qed

section \<open>The contract of a selector\<close>

text \<open>
  What a selector owes the protocol: it only touches cursor and expired ejections, and what it
  selects is available and admissible; the selector that avoids conflicts drops expired sessions
  and selects no account another live session is bound to.
\<close>

locale sticky_selector =
  fixes admissible :: "uuid \<Rightarrow> bool"
    and pick_any :: "instant \<Rightarrow> router \<Rightarrow> upstream_account option \<times> router"
    and pick_avoiding :: "instant \<Rightarrow> string \<Rightarrow> router \<Rightarrow> upstream_account option \<times> router"
  assumes any_touched: "touched now r (snd (pick_any now r))"
    and any_sound: "distinct (map ua_id (r_accounts r)) \<Longrightarrow> fst (pick_any now r) = Some a \<Longrightarrow>
      available now r a \<and> admissible (ua_id a)"
    and avoiding_touched: "touched now (with_sticky (live now r) r) (snd (pick_avoiding now key r))"
    and avoiding_sound: "distinct (map ua_id (r_accounts r)) \<Longrightarrow>
      fst (pick_avoiding now key r) = Some a \<Longrightarrow>
      available now r a \<and> admissible (ua_id a) \<and>
      (\<forall>k e. k \<noteq> key \<longrightarrow> (k, e) \<in> set (live now r) \<longrightarrow> se_account_id e \<noteq> ua_id a)"
begin

abbreviation spick :: "instant \<Rightarrow> string \<Rightarrow> bool \<Rightarrow> router \<Rightarrow> upstream_account option \<times> router" where
  "spick \<equiv> sticky_pick admissible pick_any pick_avoiding"

definition fresh_pick :: "instant \<Rightarrow> string \<Rightarrow> bool \<Rightarrow> router \<Rightarrow> upstream_account option \<times> router" where
  "fresh_pick now key prefer r =
     (if prefer then
        (case pick_avoiding now key r of
           (Some account, r') \<Rightarrow> (Some account, r')
         | (None, r') \<Rightarrow> pick_any now r')
      else pick_any now r)"

definition remember :: "instant \<Rightarrow> string \<Rightarrow> upstream_account option \<times> router \<Rightarrow> upstream_account option \<times> router" where
  "remember now key pr =
     (case pr of
        (None, r) \<Rightarrow> (None, r)
      | (Some a, r) \<Rightarrow> (Some a, insert_and_count_rebind now key (ua_id a) r))"

lemma spick_hit:
  assumes "map_of (live now r) key = Some e" "admissible (se_account_id e)"
    and "lookup_available now r (se_account_id e) = Some a"
  shows "\<exists>r'. spick now key prefer r = (Some a, r') \<and> touched now (hit_state now key e r) r'"
proof -
  let ?r1 = "count_session (with_sticky (hm_insert key (refreshed now r e) (live now r)) r)"
  obtain p r2 where p: "pick_specific now (se_account_id e) ?r1 = (p, r2)" by fastforce
  have t: "touched now ?r1 r2" using pick_specific_touched p by (metis snd_conv)
  have "lookup_available now ?r1 (se_account_id e) = Some a"
    using assms(3) by simp
  then have "p = Some a" using pick_specific_result p by (metis fst_conv)
  with p assms get_sticky_Some [OF assms(1)] touched_commute(2) [OF t] show ?thesis
    by (simp add: sticky_pick_def hit_state_def)
qed

lemma spick_miss:
  assumes "\<And>e. map_of (live now r) key = Some e \<Longrightarrow> admissible (se_account_id e) \<Longrightarrow>
    lookup_available now r (se_account_id e) = None"
  shows "\<exists>S r3. spick now key prefer r = remember now key (fresh_pick now key prefer r3) \<and>
    touched now (miss_state S r) r3 \<and> r_cursor r3 = r_cursor r \<and> S = hm_remove key (live now r)"
proof (cases "map_of (live now r) key")
  case None
  then have "live now r = hm_remove key (live now r)"
    by (metis delete_id map_of_eq_None_iff)
  moreover have "spick now key prefer r =
      remember now key (fresh_pick now key prefer (miss_state (live now r) r))"
    using get_sticky_None [OF None]
    by (auto simp: sticky_pick_def remember_def fresh_pick_def miss_state_def Let_def
        split: prod.split option.split)
  ultimately show ?thesis by (metis touched_refl miss_state_cursor)
next
  case (Some e)
  let ?r1 = "count_session (with_sticky (hm_insert key (refreshed now r e) (live now r)) r)"
  have S: "hm_remove key (hm_insert key (refreshed now r e) (live now r)) = hm_remove key (live now r)"
    by (rule delete_update_same)
  show ?thesis
  proof (cases "admissible (se_account_id e)")
    case False
    have "remove_sticky_mapping key ?r1 = count_session (with_sticky (hm_remove key (live now r)) r)"
      by (simp add: remove_sticky_mapping_def S)
    with False get_sticky_Some [OF Some] show ?thesis
      by (intro exI [of _ "hm_remove key (live now r)"]
          exI [of _ "miss_state (hm_remove key (live now r)) r"])
        (auto simp: sticky_pick_def remember_def fresh_pick_def miss_state_def Let_def
          split: prod.split option.split)
  next
    case True
    obtain p r2 where p: "pick_specific now (se_account_id e) ?r1 = (p, r2)" by fastforce
    have t: "touched now ?r1 r2" using pick_specific_touched p by (metis snd_conv)
    have "lookup_available now ?r1 (se_account_id e) = None"
      using assms [OF Some True] by simp
    then have "p = None" using pick_specific_result p by (metis fst_conv)
    let ?S = "hm_remove key (live now r)" and ?r3 = "count_miss (remove_sticky_mapping key r2)"
    have "r_sticky_sessions r2 = hm_insert key (refreshed now r e) (live now r)"
      using touched_fields [OF t] by simp
    then have r2: "remove_sticky_mapping key r2 = with_sticky ?S r2"
      by (simp add: remove_sticky_mapping_def S)
    have ms: "count_miss (with_sticky ?S ?r1) = miss_state ?S r" by (simp add: miss_state_def)
    have "touched now (count_miss (with_sticky ?S ?r1)) (count_miss (with_sticky ?S r2))"
      by (intro touched_commute t)
    then have "touched now (miss_state ?S r) ?r3" by (simp only: ms r2)
    moreover have "r_cursor ?r3 = r_cursor r"
      using pick_specific_cursor [of now "se_account_id e" ?r1] unfolding p r2 by simp
    moreover have "spick now key prefer r = remember now key (fresh_pick now key prefer ?r3)"
      using get_sticky_Some [OF Some] True p \<open>p = None\<close>
      by (auto simp: sticky_pick_def remember_def fresh_pick_def Let_def
          split: prod.split option.split)
    ultimately show ?thesis by blast
  qed
qed

lemma fresh_pick_touched:
  assumes "live now r = r_sticky_sessions r"
  shows "touched now r (snd (fresh_pick now key prefer r))"
proof -
  obtain p r4 where p: "pick_avoiding now key r = (p, r4)" by fastforce
  have "with_sticky (live now r) r = r" using assms by simp
  then have t: "touched now r r4" using avoiding_touched [of now r key] p by simp
  show ?thesis
    using p t any_touched [of now r] touched_trans [OF t any_touched [of now r4]]
    by (auto simp: fresh_pick_def split: option.split)
qed

lemma fresh_pick_sound:
  assumes "live now r = r_sticky_sessions r" and d: "distinct (map ua_id (r_accounts r))"
    and "fst (fresh_pick now key prefer r) = Some a"
  shows "available now r a \<and> admissible (ua_id a)"
proof -
  obtain p r4 where p: "pick_avoiding now key r = (p, r4)" by fastforce
  have "with_sticky (live now r) r = r" using assms by simp
  then have t: "touched now r r4" using avoiding_touched [of now r key] p by simp
  have d4: "distinct (map ua_id (r_accounts r4))" using d by (simp add: touched_fields [OF t])
  show ?thesis
    using assms(3) p avoiding_sound [OF d, of now key a] any_sound [OF d, of now a]
      any_sound [OF d4, of now a] touched_available [OF t order_refl]
    by (auto simp: fresh_pick_def split: if_splits option.splits)
qed

text \<open>Every call is a hit on a usable binding or a fresh selection that is remembered.\<close>

lemma spick_cases:
  obtains (hit) e a r' where "map_of (live now r) key = Some e" "admissible (se_account_id e)"
      "lookup_available now r (se_account_id e) = Some a" "ua_id a = se_account_id e"
      "spick now key prefer r = (Some a, r')" "touched now (hit_state now key e r) r'"
  | (miss) p r' where
      "\<And>e. map_of (live now r) key = Some e \<Longrightarrow> admissible (se_account_id e) \<Longrightarrow>
        lookup_available now r (se_account_id e) = None"
      "spick now key prefer r = remember now key (p, r')"
      "touched now (miss_state (hm_remove key (live now r)) r) r'"
      "\<And>a. p = Some a \<Longrightarrow> distinct (map ua_id (r_accounts r)) \<Longrightarrow>
        available now r a \<and> admissible (ua_id a)"
proof (cases "\<exists>e a. map_of (live now r) key = Some e \<and> admissible (se_account_id e) \<and>
    lookup_available now r (se_account_id e) = Some a")
  case True
  then obtain e a where ea: "map_of (live now r) key = Some e" "admissible (se_account_id e)"
    "lookup_available now r (se_account_id e) = Some a" by blast
  with spick_hit [OF ea, of "prefer"] hit [of e a] show ?thesis
    by (auto simp: lookup_available_Some)
next
  case False
  then have no: "map_of (live now r) key = Some e \<Longrightarrow> admissible (se_account_id e) \<Longrightarrow>
    lookup_available now r (se_account_id e) = None" for e by fastforce
  from spick_miss [OF no] obtain r3 where r3:
    "spick now key prefer r = remember now key (fresh_pick now key prefer r3)"
    "touched now (miss_state (hm_remove key (live now r)) r) r3" by blast
  obtain p r' where p: "fresh_pick now key prefer r3 = (p, r')" by fastforce
  have l: "live now r3 = r_sticky_sessions r3"
    by (simp add: touched_fields [OF r3(2)] miss_state_def prune_hm_remove)
  have "touched now r3 r'" using fresh_pick_touched [OF l, of key "prefer"] p by simp
  with r3 have t: "touched now (miss_state (hm_remove key (live now r)) r) r'"
    using touched_trans by blast
  have "available now r a \<and> admissible (ua_id a)"
    if "p = Some a" "distinct (map ua_id (r_accounts r))" for a
    using fresh_pick_sound [OF l, of key "prefer" a] p that touched_available [OF r3(2) order_refl]
    by (simp add: touched_fields [OF r3(2)] miss_state_def)
  with no r3 p t show ?thesis by (intro miss [of p r']) auto
qed

lemma spick_sound:
  assumes "distinct (map ua_id (r_accounts r))" and "fst (spick now key prefer r) = Some a"
  shows "available now r a \<and> admissible (ua_id a)"
proof (cases rule: spick_cases [of now r key "prefer"])
  case (hit e a' r')
  with assms show ?thesis by (auto simp: lookup_available_Some)
next
  case (miss p r')
  with assms show ?thesis by (cases p) (auto simp: remember_def)
qed

lemma remember_config: "same_config now r (snd (remember now key (p, r)))"
  by (cases p) (auto simp: remember_def insert_and_count_rebind_props intro: touched_same_config)

lemma spick_config: "same_config now r (snd (spick now key prefer r))"
proof (cases rule: spick_cases [of now r key "prefer"])
  case (hit e a r')
  then show ?thesis
    using touched_same_config [OF hit(6)] by (simp add: same_config_def hit_state_def)
next
  case (miss p r')
  then show ?thesis
    using touched_same_config [OF miss(3)] remember_config [of now r' key p]
    by (simp add: same_config_def miss_state_def)
qed

text \<open>The session that was served is bound to the account it got, for a full time to live.\<close>

lemma spick_binds:
  assumes "fst (spick now key prefer r) = Some a"
  shows "\<exists>e. map_of (r_sticky_sessions (snd (spick now key prefer r))) key = Some e \<and>
    se_account_id e = ua_id a \<and> se_expires_at e = now + r_sticky_session_ttl r"
proof (cases rule: spick_cases [of now r key "prefer"])
  case (hit e a' r')
  with assms show ?thesis
    by (auto simp: touched_fields [OF hit(6)] hit_state_def refreshed_def map_of_hm_insert)
next
  case (miss p r')
  with assms have "p = Some a" by (cases p) (auto simp: remember_def)
  with miss show ?thesis
    using insert_and_count_rebind_props(4) [of now key "ua_id a" r']
    by (auto simp: remember_def touched_fields [OF miss(3)] miss_state_def)
qed

lemma remember_counters:
  "r_sticky_session_total (snd (remember now key (p, r))) = r_sticky_session_total r \<and>
   r_sticky_hit_count (snd (remember now key (p, r))) = r_sticky_hit_count r \<and>
   r_sticky_miss_count (snd (remember now key (p, r))) = r_sticky_miss_count r"
  by (auto simp: remember_def insert_and_count_rebind_def insert_sticky_mapping_def Let_def
      split: option.split prod.split if_splits)

lemma spick_counters:
  "r_sticky_session_total (snd (spick now key prefer r)) = r_sticky_session_total r + 1 \<and>
   r_sticky_hit_count (snd (spick now key prefer r)) + r_sticky_miss_count (snd (spick now key prefer r)) =
     r_sticky_hit_count r + r_sticky_miss_count r + 1"
proof (cases rule: spick_cases [of now r key "prefer"])
  case (hit e a r')
  then show ?thesis by (simp add: touched_fields [OF hit(6)] hit_state_def)
next
  case (miss p r')
  then show ?thesis
    using remember_counters [of now key p r'] by (simp add: touched_fields [OF miss(3)] miss_state_def)
qed

lemma spick_sticky_inv:
  assumes "sticky_inv r" and d: "distinct (map ua_id (r_accounts r))"
  shows "sticky_inv (snd (spick now key prefer r))"
proof (cases rule: spick_cases [of now r key "prefer"])
  case (hit e a r')
  let ?S = "hm_insert key (refreshed now r e) (live now r)"
  have key: "key \<in> fst ` set (live now r)" using hit(1) by (rule map_of_Some_key)
  have "length ?S \<le> r_sticky_session_max_entries r"
    using assms length_prune [of now "r_sticky_sessions r"] key
    by (simp add: length_hm_insert sticky_inv_def)
  moreover have "(key, e) \<in> set (r_sticky_sessions r)"
    using map_of_SomeD [OF hit(1)] set_prune [of now "r_sticky_sessions r"] by blast
  then have "se_account_id (refreshed now r e) \<in> account_ids r"
    using assms(1) by (auto simp: sticky_inv_def refreshed_def)
  then have "\<forall>(k, x) \<in> set ?S. se_account_id x \<in> account_ids r"
    using assms(1) set_hm_insert_subset [of key "refreshed now r e" "live now r"]
      set_prune [of now "r_sticky_sessions r"] unfolding sticky_inv_def by blast
  ultimately have "sticky_inv (hit_state now key e r)"
    using assms(1) by (simp add: sticky_inv_def hit_state_def)
  with hit show ?thesis by (simp add: sticky_inv_def touched_fields [OF hit(6)])
next
  case (miss p r')
  let ?S = "hm_remove key (live now r)"
  have "set ?S \<subseteq> set (r_sticky_sessions r)"
    using set_hm_remove_subset [of key "live now r"] set_prune [of now "r_sticky_sessions r"] by simp
  moreover have "hm_ok ?S" using assms(1) by (simp add: sticky_inv_def)
  ultimately have "sticky_inv (miss_state ?S r)"
    by (rule sticky_inv_subset [OF assms(1)]) (simp_all add: miss_state_def)
  then have inv: "sticky_inv r'" by (simp add: sticky_inv_def touched_fields [OF miss(3)])
  show ?thesis
  proof (cases p)
    case (Some a)
    have "a \<in> set (r_accounts r)" using miss(4) [OF Some d] available_member by blast
    then have "ua_id a \<in> account_ids r'" by (simp add: touched_fields [OF miss(3)] miss_state_def)
    with inv Some miss(2) show ?thesis
      by (simp add: remember_def insert_and_count_rebind_props)
  qed (use inv miss(2) in \<open>simp add: remember_def\<close>)
qed

lemma spick_inv: "router_inv r \<Longrightarrow> router_inv (snd (spick now key prefer r))"
  using router_inv_same_config [OF _ spick_config] spick_sticky_inv spick_counters [of now key "prefer" r]
  by (auto simp: router_inv_def counters_inv_def)

text \<open>A live binding to an account that may be used is honoured.\<close>

lemma spick_affinity:
  assumes "map_of (r_sticky_sessions r) key = Some e" "hm_ok (r_sticky_sessions r)"
    and "now < se_expires_at e" "admissible (se_account_id e)"
    and "available now r a" "ua_id a = se_account_id e"
  shows "fst (spick now key prefer r) = Some a \<and>
    r_sticky_hit_count (snd (spick now key prefer r)) = r_sticky_hit_count r + 1"
proof -
  have "map_of (live now r) key = Some e"
    using assms by (simp add: prune_expired_sticky_sessions_def map_of_hm_retain)
  moreover have "lookup_available now r (se_account_id e) = Some a"
    using assms by (simp add: lookup_available_Some)
  ultimately obtain r' where r': "spick now key prefer r = (Some a, r')"
    "touched now (hit_state now key e r) r'"
    using spick_hit assms(4) by blast
  then show ?thesis by (simp add: touched_fields [OF r'(2)] hit_state_def)
qed

text \<open>A fresh selection that prefers an account of its own gets one no other live session holds.\<close>

lemma spick_no_conflict:
  assumes d: "distinct (map ua_id (r_accounts r))"
    and fresh: "map_of (live now r) key = None"
    and free: "fst (pick_avoiding now key (miss_state (live now r) r)) \<noteq> None"
    and a: "fst (spick now key True r) = Some a"
  shows "ua_id a \<notin> {se_account_id e |k e. (k, e) \<in> set (live now r) \<and> k \<noteq> key}"
proof -
  let ?r3 = "miss_state (live now r) r"
  obtain b r4 where b: "pick_avoiding now key ?r3 = (Some b, r4)"
    using free by (cases "pick_avoiding now key ?r3") auto
  have "spick now key True r = remember now key (fresh_pick now key True ?r3)"
    using get_sticky_None [OF fresh]
    by (auto simp: sticky_pick_def remember_def fresh_pick_def miss_state_def Let_def
        split: prod.split option.split)
  with a b have "a = b" by (simp add: fresh_pick_def remember_def)
  moreover have "live now ?r3 = live now r" by (simp add: miss_state_def)
  ultimately have "\<forall>k e. k \<noteq> key \<longrightarrow> (k, e) \<in> set (live now r) \<longrightarrow> se_account_id e \<noteq> ua_id a"
    using avoiding_sound [of ?r3 now key b] b d by (simp add: miss_state_def)
  then show ?thesis by (intro notI) (elim CollectE exE conjE, metis)
qed

end

text \<open>
  A selector that finds an account whenever an admissible one is available. \<open>room\<close> is what it needs
  of the cursor for that; the selector that avoids conflicts may use up one round.
\<close>

locale complete_sticky_selector = sticky_selector +
  fixes room :: "nat \<Rightarrow> router \<Rightarrow> bool"
  assumes room_cong: "r_accounts r' = r_accounts r \<Longrightarrow> r_cursor r' = r_cursor r \<Longrightarrow> room k r' = room k r"
    and room_mono: "room 2 r \<Longrightarrow> room 1 r"
    and any_complete: "distinct (map ua_id (r_accounts r)) \<Longrightarrow> room 1 r \<Longrightarrow> available now r a \<Longrightarrow>
      admissible (ua_id a) \<Longrightarrow> fst (pick_any now r) \<noteq> None"
    and avoiding_room: "room 2 r \<Longrightarrow> fst (pick_avoiding now key r) = None \<Longrightarrow>
      room 1 (snd (pick_avoiding now key r))"
begin

lemma fresh_pick_complete:
  assumes d: "distinct (map ua_id (r_accounts r))" and "room 2 r" "available now r a" "admissible (ua_id a)"
  shows "fst (fresh_pick now key prefer r) \<noteq> None"
proof -
  obtain p r4 where p: "pick_avoiding now key r = (p, r4)" by fastforce
  have t: "touched now (with_sticky (live now r) r) r4" using avoiding_touched [of now r key] p by simp
  have "fst (pick_any now r4) \<noteq> None" if "p = None"
  proof (rule any_complete)
    show "distinct (map ua_id (r_accounts r4))" using d by (simp add: touched_fields [OF t])
    show "room 1 r4" using avoiding_room [of r now key] assms(2) p that by simp
    show "available now r4 a" using assms(3) touched_available [OF t order_refl] by simp
  qed (rule assms(4))
  moreover have "fst (pick_any now r) \<noteq> None"
    using any_complete [OF d room_mono [OF assms(2)] assms(3,4)] .
  ultimately show ?thesis using p by (cases p) (auto simp: fresh_pick_def)
qed

lemma spick_complete:
  assumes "distinct (map ua_id (r_accounts r))" "room 2 r" "available now r a" "admissible (ua_id a)"
  shows "fst (spick now key prefer r) \<noteq> None"
proof (cases "\<exists>e b. map_of (live now r) key = Some e \<and> admissible (se_account_id e) \<and>
    lookup_available now r (se_account_id e) = Some b")
  case True
  then obtain e b where "map_of (live now r) key = Some e" "admissible (se_account_id e)"
    "lookup_available now r (se_account_id e) = Some b" by blast
  from spick_hit [OF this, of "prefer"] show ?thesis by auto
next
  case False
  then have "map_of (live now r) key = Some e \<Longrightarrow> admissible (se_account_id e) \<Longrightarrow>
    lookup_available now r (se_account_id e) = None" for e by fastforce
  from spick_miss [OF this] obtain S r3 where r3:
    "spick now key prefer r = remember now key (fresh_pick now key prefer r3)"
    "touched now (miss_state S r) r3" "r_cursor r3 = r_cursor r" by blast
  have acc: "r_accounts r3 = r_accounts r" using touched_fields [OF r3(2)] by (simp add: miss_state_def)
  have "fst (fresh_pick now key prefer r3) \<noteq> None"
  proof (rule fresh_pick_complete)
    show "distinct (map ua_id (r_accounts r3))" using assms(1) acc by simp
    show "room 2 r3" using room_cong [OF acc r3(3)] assms(2) by simp
    show "available now r3 a"
      using assms(3) touched_available [OF r3(2) order_refl] by (simp add: miss_state_def)
  qed (rule assms(4))
  with r3(1) show ?thesis by (auto simp: remember_def split: option.split prod.split)
qed

end

section \<open>The two policies of the router meet the contract\<close>

lemma conflict_ids:
  "fst (collect_conflict_account_ids now key r) =
     {se_account_id e |k e. (k, e) \<in> set (live now r) \<and> k \<noteq> key}"
  by (force simp: collect_conflict_account_ids_def Let_def)

lemma conflict_state: "snd (collect_conflict_account_ids now key r) = with_sticky (live now r) r"
  by (simp add: collect_conflict_account_ids_def Let_def)

lemma avoiding_rr_eq:
  "pick_avoiding_sticky_conflicts now key excluded r =
     (if r_accounts r = [] then (None, with_sticky (live now r) r)
      else round_robin_loop now
        (\<lambda>i. i \<in> excluded \<or> i \<in> {se_account_id e |k e. (k, e) \<in> set (live now r) \<and> k \<noteq> key})
        (length (r_accounts r)) (with_sticky (live now r) r))"
  using conflict_ids [of now key r] conflict_state [of now key r]
  by (auto simp: pick_avoiding_sticky_conflicts_def split: prod.split)

lemma avoiding_candidates_eq:
  "pick_candidate_account_avoiding_conflicts now key is excluded r =
     first_pickable now
       (\<lambda>i. i \<in> excluded \<or> i \<in> {se_account_id e |k e. (k, e) \<in> set (live now r) \<and> k \<noteq> key})
       is (with_sticky (live now r) r)"
  using conflict_ids [of now key r] conflict_state [of now key r]
  by (auto simp: pick_candidate_account_avoiding_conflicts_def split: prod.split)

lemma cursor_room_after_loop:
  assumes "cursor_room 2 r" "fst (round_robin_loop now skip (length (r_accounts r)) r) = None"
    and "r_accounts r \<noteq> []"
  shows "cursor_room 1 (snd (round_robin_loop now skip (length (r_accounts r)) r))"
proof (cases "length (r_accounts r) dvd 2 ^ 64")
  case True
  then show ?thesis
    by (simp add: cursor_room_def touched_fields [OF round_robin_loop_touched])
next
  case False
  with assms have le: "unat (r_cursor r) + 2 * length (r_accounts r) \<le> 2 ^ 64"
    by (simp add: cursor_room_def)
  moreover have "0 < length (r_accounts r)" using assms(3) by simp
  ultimately have lt: "unat (r_cursor r) + length (r_accounts r) < 2 ^ 64" by linarith
  then have "unat (r_cursor r + of_nat (length (r_accounts r))) = unat (r_cursor r) + length (r_accounts r)"
    by (simp add: unat_word_ariths unat_of_nat mod_add_right_eq)
  with le lt assms(2) show ?thesis
    using round_robin_loop_cursor [of r "length (r_accounts r)" now skip]
    by (simp add: cursor_room_def touched_fields [OF round_robin_loop_touched])
qed

interpretation rr: complete_sticky_selector
  "\<lambda>i. i \<notin> excluded" "\<lambda>now. pick_excluding now excluded"
  "\<lambda>now key. pick_avoiding_sticky_conflicts now key excluded" cursor_room
  for excluded
proof
  fix now r key a
  let ?skip = "\<lambda>i. i \<in> excluded \<or> i \<in> {se_account_id e |k e. (k, e) \<in> set (live now r) \<and> k \<noteq> key}"
  let ?r1 = "with_sticky (live now r) r"
  show "touched now r (snd (pick_excluding now excluded r))" by (rule pick_excluding_touched)
  show "available now r a \<and> ua_id a \<notin> excluded"
    if "distinct (map ua_id (r_accounts r))" "fst (pick_excluding now excluded r) = Some a"
    using pick_excluding_sound [OF that] .
  show "touched now ?r1 (snd (pick_avoiding_sticky_conflicts now key excluded r))"
    by (simp add: avoiding_rr_eq round_robin_loop_touched)
  show "available now r a \<and> ua_id a \<notin> excluded \<and>
      (\<forall>k e. k \<noteq> key \<longrightarrow> (k, e) \<in> set (live now r) \<longrightarrow> se_account_id e \<noteq> ua_id a)"
    if "distinct (map ua_id (r_accounts r))"
      "fst (pick_avoiding_sticky_conflicts now key excluded r) = Some a"
    using that round_robin_loop_sound [of now ?skip "length (r_accounts r)" ?r1 a]
    by (auto simp: avoiding_rr_eq split: if_splits)
  show "cursor_room k r' = cursor_room k r"
    if "r_accounts r' = r_accounts r" "r_cursor r' = r_cursor r" for r' k
    using that by (simp add: cursor_room_def)
  show "cursor_room 2 r \<Longrightarrow> cursor_room 1 r" by (auto simp: cursor_room_def)
  show "fst (pick_excluding now excluded r) \<noteq> None"
    if "distinct (map ua_id (r_accounts r))" "cursor_room 1 r" "available now r a" "ua_id a \<notin> excluded"
    using pick_excluding_complete [OF that] .
  show "cursor_room 1 (snd (pick_avoiding_sticky_conflicts now key excluded r))"
    if "cursor_room 2 r" "fst (pick_avoiding_sticky_conflicts now key excluded r) = None"
  proof (cases "r_accounts r = []")
    case True
    with that(1) show ?thesis by (simp add: avoiding_rr_eq cursor_room_def)
  next
    case False
    with that cursor_room_after_loop [of ?r1 now ?skip] show ?thesis
      by (simp add: avoiding_rr_eq cursor_room_def)
  qed
qed

interpretation cand: complete_sticky_selector
  "\<lambda>i. i \<notin> excluded \<and> i \<in> set is" "\<lambda>now. pick_candidate_account now is excluded"
  "\<lambda>now key. pick_candidate_account_avoiding_conflicts now key is excluded" "\<lambda>_ _. True"
  for excluded "is"
proof
  fix now r key a
  let ?skip = "\<lambda>i. i \<in> excluded \<or> i \<in> {se_account_id e |k e. (k, e) \<in> set (live now r) \<and> k \<noteq> key}"
  let ?r1 = "with_sticky (live now r) r"
  show "touched now r (snd (pick_candidate_account now is excluded r))"
    by (rule pick_candidate_account_touched)
  show "available now r a \<and> ua_id a \<notin> excluded \<and> ua_id a \<in> set is"
    if "fst (pick_candidate_account now is excluded r) = Some a"
    using pick_candidate_account_sound [OF that] by simp
  show "touched now ?r1 (snd (pick_candidate_account_avoiding_conflicts now key is excluded r))"
    by (simp add: avoiding_candidates_eq first_pickable_touched)
  show "available now r a \<and> (ua_id a \<notin> excluded \<and> ua_id a \<in> set is) \<and>
      (\<forall>k e. k \<noteq> key \<longrightarrow> (k, e) \<in> set (live now r) \<longrightarrow> se_account_id e \<noteq> ua_id a)"
    if "fst (pick_candidate_account_avoiding_conflicts now key is excluded r) = Some a"
    using that first_pickable_Some [of now ?skip "is" ?r1 a] by (auto simp: avoiding_candidates_eq)
  show "fst (pick_candidate_account now is excluded r) \<noteq> None"
    if "available now r a" "ua_id a \<notin> excluded \<and> ua_id a \<in> set is"
    using pick_candidate_account_complete that by blast
qed auto

end
