(* ===== verification/Router_Correct.thy ===== *)
theory Router_Correct
  imports Sticky_Policy
begin

text \<open>
  The properties of the router: soundness and completeness of a selection, session affinity,
  avoidance of accounts other sessions use, fairness of the rotation, ejection and recovery, and the
  invariant of every reachable state.
\<close>

section \<open>Every operation keeps the invariant\<close>

lemma pick_for_model_cases:
  obtains (plain_rr) "normalize_sticky_key sticky_key = None"
      "candidate_account_ids_for_model r model = None"
      "pick_for_model now model sticky_key excluded prefer r = pick_excluding now excluded r"
  | (sticky_rr) key where "normalize_sticky_key sticky_key = Some key"
      "candidate_account_ids_for_model r model = None"
      "pick_for_model now model sticky_key excluded prefer r = rr.spick excluded now key prefer r"
  | (plain_cand) "is" where "normalize_sticky_key sticky_key = None"
      "candidate_account_ids_for_model r model = Some is"
      "pick_for_model now model sticky_key excluded prefer r = pick_candidate_account now is excluded r"
  | (sticky_cand) "is" key where "normalize_sticky_key sticky_key = Some key"
      "candidate_account_ids_for_model r model = Some is"
      "pick_for_model now model sticky_key excluded prefer r = cand.spick excluded is now key prefer r"
  by (cases "candidate_account_ids_for_model r model"; cases "normalize_sticky_key sticky_key")
    (auto simp: pick_for_model_def round_robin_policy_eq ordered_candidates_eq)

lemma touched_inv: "touched now r r' \<Longrightarrow> router_inv r \<Longrightarrow> router_inv r'"
  by (rule router_inv_same_config [of r now])
    (auto simp: touched_same_config router_inv_def sticky_inv_def counters_inv_def touched_fields)

lemma pick_for_model_inv:
  assumes "router_inv r"
  shows "router_inv (snd (pick_for_model now model sticky_key excluded prefer r))"
proof (cases rule: pick_for_model_cases [of sticky_key r model now excluded "prefer"])
  case plain_rr
  then show ?thesis using touched_inv [OF pick_excluding_touched assms] by simp
next
  case (sticky_rr key)
  then show ?thesis using rr.spick_inv [OF assms] by simp
next
  case (plain_cand "is")
  then show ?thesis using touched_inv [OF pick_candidate_account_touched assms] by simp
next
  case (sticky_cand "is" key)
  then show ?thesis using cand.spick_inv [OF assms] by simp
qed

lemma pick_for_model_config: "same_config now r (snd (pick_for_model now model sticky_key excluded prefer r))"
proof (cases rule: pick_for_model_cases [of sticky_key r model now excluded "prefer"])
  case plain_rr
  then show ?thesis using touched_same_config [OF pick_excluding_touched] by simp
next
  case (sticky_rr key)
  then show ?thesis using rr.spick_config by simp
next
  case (plain_cand "is")
  then show ?thesis using touched_same_config [OF pick_candidate_account_touched] by simp
next
  case (sticky_cand "is" key)
  then show ?thesis using cand.spick_config by simp
qed

lemma with_live_inv: "router_inv r \<Longrightarrow> router_inv (with_sticky (live now r) r)"
  using sticky_inv_subset [of r "live now r" "with_sticky (live now r) r"]
    set_prune [of now "r_sticky_sessions r"]
  by (simp add: router_inv_def counters_inv_def sticky_inv_def [of r])

lemma without_key_inv: "router_inv r \<Longrightarrow> router_inv (with_sticky (hm_remove key (r_sticky_sessions r)) r)"
  using sticky_inv_subset [of r "hm_remove key (r_sticky_sessions r)"
      "with_sticky (hm_remove key (r_sticky_sessions r)) r"]
    set_hm_remove_subset [of key "r_sticky_sessions r"]
  by (simp add: router_inv_def counters_inv_def sticky_inv_def [of r])

lemma bind_sticky_inv: "router_inv r \<Longrightarrow> router_inv (snd (bind_sticky now key i r))"
proof (cases "normalize_sticky_key (Some key)")
  case (Some k)
  assume inv: "router_inv r"
  obtain p r1 where p: "pick_specific now i r = (p, r1)" by fastforce
  have t: "touched now r r1" using pick_specific_touched p by (metis snd_conv)
  have inv1: "router_inv r1" using touched_inv [OF t inv] .
  have "i \<in> account_ids r1" if "p = Some a" for a
  proof -
    have "lookup_available now r i = Some a" using pick_specific_result [of now i r] p that by simp
    then have "available now r a" "ua_id a = i" by (simp_all add: lookup_available_Some)
    with available_member show ?thesis by (auto simp: touched_fields [OF t])
  qed
  with inv1 p Some show ?thesis
    using router_inv_same_config [OF inv1 insert_and_count_rebind_props(1) [of now r1 k i]]
      insert_and_count_rebind_props(2,3) [where now = now and r = r1 and key = k and i = i]
    by (auto simp: bind_sticky_def router_inv_def split: option.split)
qed (simp add: bind_sticky_def)

lemma unbind_sticky_inv: "router_inv r \<Longrightarrow> router_inv (snd (unbind_sticky now key r))"
  using without_key_inv [OF with_live_inv]
  by (auto simp: unbind_sticky_def Let_def split: option.split)

lemma sticky_stats_inv: "router_inv r \<Longrightarrow> router_inv (snd (sticky_stats now r))"
  using with_live_inv by (simp add: sticky_stats_def sticky_mapping_total_def Let_def)

lemma retain_length_le:
  "length m \<le> n \<Longrightarrow> length (hm_retain P m) \<le> n"
  using length_hm_retain_le order_trans by blast

lemma replace_accounts_inv:
  "router_inv r \<Longrightarrow> distinct (map ua_id accounts) \<Longrightarrow> router_inv (replace_accounts accounts r)"
  by (auto simp: router_inv_def replace_accounts_def Let_def sticky_inv_def counters_inv_def
      set_hm_retain intro!: retain_length_le)

lemma replace_account_traits_inv: "router_inv r \<Longrightarrow> router_inv (replace_account_traits traits r)"
  by (auto simp: router_inv_def replace_account_traits_def Let_def sticky_inv_def counters_inv_def
      keys_hm_collect image_image)

lemma replace_first_ids:
  "distinct (map ua_id as) \<Longrightarrow> list_ex (\<lambda>b. ua_id b = ua_id a) as \<Longrightarrow>
   map ua_id (replace_first (\<lambda>b. ua_id b = ua_id a) a as) = map ua_id as"
  by (induction as) auto

lemma forget_account_inv:
  assumes "router_inv r" "r_accounts r = as"
  shows "router_inv (forget_account i r)"
  using assms
  by (auto simp: router_inv_def forget_account_def sticky_inv_def counters_inv_def keys_hm_remove
      set_hm_retain intro!: retain_length_le)

lemma upsert_account_inv: "router_inv r \<Longrightarrow> router_inv (upsert_account a r)"
proof -
  assume inv: "router_inv r"
  let ?r2 = "if account_exists (ua_id a) r
    then r\<lparr>r_accounts := replace_first (\<lambda>item. ua_id item = ua_id a) a (r_accounts r)\<rparr>
    else r\<lparr>r_accounts := r_accounts r @ [a], r_cursor := 0\<rparr>"
  have "router_inv ?r2"
  proof (cases "account_exists (ua_id a) r")
    case True
    have ids: "map ua_id (replace_first (\<lambda>item. ua_id item = ua_id a) a (r_accounts r)) =
        map ua_id (r_accounts r)"
      using inv True by (intro replace_first_ids) (auto simp: router_inv_def account_exists_def)
    then have "ua_id ` set (replace_first (\<lambda>item. ua_id item = ua_id a) a (r_accounts r)) = account_ids r"
      by (metis set_map)
    with ids inv True show ?thesis
      by (simp add: router_inv_def sticky_inv_def counters_inv_def)
  next
    case False
    then have "ua_id a \<notin> account_ids r" by (auto simp: account_exists_def list_ex_iff)
    with inv False show ?thesis
      by (auto simp: router_inv_def sticky_inv_def counters_inv_def)
  qed
  then have "router_inv (forget_account (ua_id a) ?r2) \<and> router_inv ?r2"
    using forget_account_inv by blast
  then show ?thesis by (auto simp: upsert_account_def Let_def)
qed

lemma delete_account_inv: "router_inv r \<Longrightarrow> router_inv (snd (delete_account i r))"
proof (cases "list_ex (\<lambda>a. ua_id a = i) (r_accounts r)")
  case True
  assume inv: "router_inv r"
  from True have "length (filter (\<lambda>a. ua_id a \<noteq> i) (r_accounts r)) \<noteq> length (r_accounts r)"
    by (auto simp: list_ex_iff dest: length_filter_less [where P = "\<lambda>a. ua_id a \<noteq> i"])
  moreover have "router_inv (forget_account i (r\<lparr>r_accounts := filter (\<lambda>a. ua_id a \<noteq> i) (r_accounts r)\<rparr>))"
    using inv
    by (auto simp: router_inv_def forget_account_def sticky_inv_def counters_inv_def keys_hm_remove
        set_hm_retain distinct_map_filter intro!: retain_length_le)
  ultimately show ?thesis by (simp add: delete_account_def Let_def)
next
  case False
  assume inv: "router_inv r"
  from False have "filter (\<lambda>a. ua_id a \<noteq> i) (r_accounts r) = r_accounts r"
    by (auto simp: list_ex_iff filter_id_conv)
  with inv show ?thesis by (simp add: delete_account_def Let_def)
qed

lemma health_ops_inv:
  "router_inv r \<Longrightarrow> router_inv (mark_unhealthy now i d r)"
  "router_inv r \<Longrightarrow> router_inv (snd (clear_unhealthy i r))"
  "router_inv r \<Longrightarrow> router_inv (snd (clear_all_unhealthy r))"
  "router_inv r \<Longrightarrow> router_inv (record_success now i r)"
  by (auto simp: router_inv_def sticky_inv_def counters_inv_def mark_unhealthy_def clear_unhealthy_def
      clear_all_unhealthy_def record_success_def keys_hm_insert list_ex_iff)

section \<open>Reachable states\<close>

text \<open>
  One operation of the router at time \<open>now\<close>. Account lists with distinct ids are what the control
  plane sends: the id is the primary key of its account table.
\<close>

inductive router_step :: "instant \<Rightarrow> router \<Rightarrow> router \<Rightarrow> bool" for now r where
  step_pick: "router_step now r (snd (pick_for_model now model sticky_key excluded avoid r))"
| step_pick_excluding: "router_step now r (snd (pick_excluding now excluded r))"
| step_pick_account: "router_step now r (snd (pick_account now i r))"
| step_bind: "router_step now r (snd (bind_sticky now sticky i r))"
| step_unbind: "router_step now r (snd (unbind_sticky now sticky r))"
| step_stats: "router_step now r (snd (sticky_stats now r))"
| step_mark: "router_step now r (mark_unhealthy now i ttl r)"
| step_clear: "router_step now r (snd (clear_unhealthy i r))"
| step_clear_all: "router_step now r (snd (clear_all_unhealthy r))"
| step_success: "router_step now r (record_success now i r)"
| step_accounts: "distinct (map ua_id accounts) \<Longrightarrow> router_step now r (replace_accounts accounts r)"
| step_traits: "router_step now r (replace_account_traits traits r)"
| step_plan: "router_step now r (replace_compiled_routing_plan plan r)"
| step_upsert: "router_step now r (upsert_account account r)"
| step_delete: "router_step now r (snd (delete_account i r))"

inductive router_reachable :: "instant \<Rightarrow> router \<Rightarrow> bool" where
  reach_init: "distinct (map ua_id accounts) \<Longrightarrow>
    router_reachable now (router_new_with_sticky_limits accounts ttl max_entries)"
| reach_tick: "router_reachable now r \<Longrightarrow> now \<le> t \<Longrightarrow> router_reachable t r"
| reach_step: "router_reachable now r \<Longrightarrow> router_step now r r' \<Longrightarrow> router_reachable now r'"

lemma router_step_inv: "router_step now r r' \<Longrightarrow> router_inv r \<Longrightarrow> router_inv r'"
proof (induction rule: router_step.induct)
  case (step_pick_account i)
  then show ?case using touched_inv [OF pick_specific_touched] by (simp add: pick_account_def)
next
  case (step_pick_excluding excluded)
  then show ?case using touched_inv [OF pick_excluding_touched] by simp
next
  case (step_plan plan)
  then show ?case
    by (simp add: replace_compiled_routing_plan_def router_inv_def sticky_inv_def counters_inv_def)
qed (simp_all add: pick_for_model_inv bind_sticky_inv unbind_sticky_inv sticky_stats_inv health_ops_inv
    replace_accounts_inv replace_account_traits_inv upsert_account_inv delete_account_inv)

lemma router_new_inv:
  "distinct (map ua_id accounts) \<Longrightarrow> router_inv (router_new_with_sticky_limits accounts ttl max_entries)"
  by (simp add: router_new_with_sticky_limits_def router_inv_def sticky_inv_def counters_inv_def
      from_millis_def less_max_iff_disj)

lemma reachable_inv: "router_reachable now r \<Longrightarrow> router_inv r"
  by (induction rule: router_reachable.induct) (auto simp: router_new_inv router_step_inv)

section \<open>Properties\<close>

lemma pick_for_model_available:
  assumes "router_inv r"
    and "fst (pick_for_model now model sticky_key excluded prefer r) = Some a"
  shows "available now r a \<and> ua_id a \<notin> excluded \<and> account_matches_model_route r (ua_id a) model"
proof -
  have d: "distinct (map ua_id (r_accounts r))"
    using assms(1) by (simp add: router_inv_def)
  show ?thesis
  proof (cases rule: pick_for_model_cases [of sticky_key r model now excluded "prefer"])
    case plain_rr
    with assms(2) pick_excluding_sound [OF d, of now excluded a] show ?thesis
      by (simp add: account_matches_model_route_def)
  next
    case (sticky_rr key)
    with assms(2) rr.spick_sound [OF d, of excluded now key "prefer" a] show ?thesis
      by (simp add: account_matches_model_route_def)
  next
    case (plain_cand "is")
    with assms(2) pick_candidate_account_sound [of now "is" excluded r a] show ?thesis
      by (simp add: account_matches_model_route_def)
  next
    case (sticky_cand "is" key)
    with assms(2) cand.spick_sound [OF d, of excluded "is" now key "prefer" a] show ?thesis
      by (simp add: account_matches_model_route_def)
  qed
qed

text \<open>A router with two accounts, one of them ejected, on which the properties are tried.\<close>

definition demo_account :: "uuid \<Rightarrow> upstream_account" where
  "demo_account i =
     \<lparr>ua_id = i, ua_label = ''demo'', ua_mode = CodexOauth, ua_base_url = ''https://example'',
      ua_bearer_token = ''t'', ua_chatgpt_account_id = None, ua_enabled = True, ua_priority = 0,
      ua_created_at = 0\<rparr>"

definition demo_router :: router where
  "demo_router = mark_unhealthy 0 1 10 (router_new [demo_account 1, demo_account 2])"

lemma demo_router_reachable: "router_reachable t demo_router"
proof -
  have "router_reachable 0 (router_new [demo_account 1, demo_account 2])"
    unfolding router_new_def by (rule reach_init) (simp add: demo_account_def)
  then have "router_reachable 0 demo_router"
    unfolding demo_router_def by (rule reach_step) (rule step_mark)
  then show ?thesis by (rule reach_tick) simp
qed

text \<open>
  C2. Soundness of a selection. In every reachable state of the router, an account that
  \<^verbatim>\<open>pick_for_model\<close> returns is one of the router's accounts, is enabled, is not ejected at the
  time of the call, was not excluded by the caller, and lies on the route the compiled plan gives the
  model.
\<close>

theorem pick_for_model_sound:
  assumes "router_reachable now r"
    and "fst (pick_for_model now model sticky_key excluded prefer r) = Some a"
  shows "a \<in> set (r_accounts r) \<and> ua_enabled a \<and> fst (is_healthy now (ua_id a) r) \<and>
    ua_id a \<notin> excluded \<and> account_matches_model_route r (ua_id a) model"
  using pick_for_model_available [OF reachable_inv [OF assms(1)] assms(2)] available_member by (auto simp: available_def)

theorem pick_for_model_sound_witness:
  "fst (pick_for_model 5 (Some ''gpt-5'') (Some '' s1 '') {7} True demo_router) = Some (demo_account 2) \<and>
   demo_account 2 \<in> set (r_accounts demo_router) \<and> ua_enabled (demo_account 2) \<and>
   fst (is_healthy 5 2 demo_router) \<and> \<not> fst (is_healthy 5 1 demo_router)"
proof -
  have ev: "fst (pick_for_model 5 (Some ''gpt-5'') (Some '' s1 '') {7} True demo_router) =
      Some (demo_account 2)"
    by code_simp
  moreover have "\<not> fst (is_healthy 5 1 demo_router)" by code_simp
  moreover have "ua_id (demo_account 2) = 2" by (simp add: demo_account_def)
  ultimately show ?thesis using pick_for_model_sound [OF demo_router_reachable ev] by metis
qed







text \<open>
  A session of its own. When a request that asks for an account other sessions do not use
  starts a new session, and some available account on the route is used by no other live session,
  then the account it gets is used by no other live session.
\<close>

theorem pick_avoids_conflicts:
  assumes "router_reachable now r"
    and "normalize_sticky_key sticky_key = Some key" "fst (get_sticky_account_id now key r) = None"
    and "b \<in> set (r_accounts r)" "ua_enabled b" "fst (is_healthy now (ua_id b) r)"
    and "ua_id b \<notin> excluded" "account_matches_model_route r (ua_id b) model"
    and "ua_id b \<notin> fst (collect_conflict_account_ids now key r)"
    and "unat (r_cursor r) + length (r_accounts r) \<le> 2 ^ 64"
    and "fst (pick_for_model now model sticky_key excluded True r) = Some a"
  shows "ua_id a \<notin> fst (collect_conflict_account_ids now key r)"
proof -
  have d: "distinct (map ua_id (r_accounts r))"
    using reachable_inv [OF assms(1)] by (simp add: router_inv_def)
  have av: "available now r b" using assms(4-6) by (simp add: available_iff [OF d])
  have fresh: "map_of (live now r) key = None"
    using assms(3) by (auto simp: get_sticky_account_id_def Let_def split: option.splits)
  let ?r3 = "miss_state (live now r) r"
  have r3: "live now ?r3 = live now r" "r_accounts ?r3 = r_accounts r" "available now ?r3 = available now r"
    by (simp_all add: miss_state_def)
  let ?C = "{se_account_id e |k e. (k, e) \<in> set (live now r) \<and> k \<noteq> key}"
  have b: "\<not> (ua_id b \<in> excluded \<or> ua_id b \<in> ?C)" using assms(7,9) unfolding conflict_ids by blast
  have "ua_id a \<notin> ?C"
  proof (cases rule: pick_for_model_cases [of sticky_key r model now excluded True])
    case (sticky_rr k)
    let ?r4 = "with_sticky (live now ?r3) ?r3"
    have "r_accounts r \<noteq> []" using assms(4) by auto
    moreover have "fst (round_robin_loop now (\<lambda>i. i \<in> excluded \<or> i \<in> ?C) (length (r_accounts ?r4)) ?r4) \<noteq> None"
    proof (rule round_robin_loop_complete)
      show "cursor_room 1 ?r4" using assms(10) by (simp add: cursor_room_def miss_state_def)
      show "available now ?r4 b" using av by (simp add: r3)
    qed (rule b)
    ultimately have free: "fst (pick_avoiding_sticky_conflicts now key excluded ?r3) \<noteq> None"
      by (simp add: avoiding_rr_eq r3)
    have "fst (rr.spick excluded now key True r) = Some a"
      using sticky_rr(1,3) assms(2,11) by simp
    from rr.spick_no_conflict [OF d fresh free this] show ?thesis .
  next
    case (sticky_cand "is" k)
    let ?r4 = "with_sticky (live now ?r3) ?r3"
    have "ua_id b \<in> set is" using assms(8) sticky_cand(2) by (simp add: account_matches_model_route_def)
    then have "fst (first_pickable now (\<lambda>i. i \<in> excluded \<or> i \<in> ?C) is ?r4) \<noteq> None"
      using b av by (intro first_pickable_complete [of now _ b]) (simp_all add: r3)
    then have free: "fst (pick_candidate_account_avoiding_conflicts now key is excluded ?r3) \<noteq> None"
      by (simp add: avoiding_candidates_eq r3)
    have "fst (cand.spick excluded is now key True r) = Some a"
      using sticky_cand(1,3) assms(2,11) by simp
    from cand.spick_no_conflict [OF d fresh free this] show ?thesis .
  qed (use assms(2) in simp_all)
  then show ?thesis unfolding conflict_ids .
qed

theorem pick_avoids_conflicts_witness:
  "ua_id (demo_account 2) \<notin>
     fst (collect_conflict_account_ids 20 ''s2'' (snd (bind_sticky 20 ''s1'' 1 demo_router))) \<and>
   fst (collect_conflict_account_ids 20 ''s2'' (snd (bind_sticky 20 ''s1'' 1 demo_router))) = {1}"
proof -
  let ?r = "snd (bind_sticky 20 ''s1'' 1 demo_router)"
  have reach: "router_reachable 20 ?r" by (rule reach_step [OF demo_router_reachable step_bind])
  have "ua_id (demo_account 2) \<notin> fst (collect_conflict_account_ids 20 ''s2'' ?r)"
  proof (rule pick_avoids_conflicts [OF reach, where sticky_key = "Some ''s2''" and b = "demo_account 2"
        and excluded = "{}" and model = None])
    show "unat (r_cursor ?r) + length (r_accounts ?r) \<le> 2 ^ 64" by code_simp
  qed code_simp+
  moreover have "fst (collect_conflict_account_ids 20 ''s2'' ?r) = {1}" by code_simp
  ultimately show ?thesis by simp
qed

fun pick_seq :: "nat \<Rightarrow> instant \<Rightarrow> router \<Rightarrow> upstream_account option list" where
  "pick_seq 0 now r = []"
| "pick_seq (Suc n) now r = (case pick now r of (p, r') \<Rightarrow> p # pick_seq n now r')"

lemma pick_idle:
  assumes "r_recent_success r = []" "r_account_traits r = []" "r_health r = []"
    and "r_accounts r \<noteq> []" "list_all ua_enabled (r_accounts r)"
  shows "pick now r = (Some (r_accounts r ! (unat (r_cursor r) mod length (r_accounts r))),
    r\<lparr>r_cursor := r_cursor r + 1\<rparr>)"
proof -
  have fs: "snd (filter_selectable now {} as r) = r" for as
    by (induction as) (auto simp: is_healthy_def assms(3) split: prod.split)
  have pref: "preferred_recent_success_account_id now {} r = (None, r)"
    "preferred_recent_probe_account_id now {} r = (None, r)"
    using fs [of "r_accounts r"]
    by (auto simp: preferred_recent_success_account_id_def preferred_recent_probe_account_id_def
        success_entry_def probe_entry_def assms(1,2) latest_success_def freshest_probe_def map_filter_def
        split: prod.split)
  obtain n where n: "length (r_accounts r) = Suc n" using assms(4) by (cases "r_accounts r") auto
  have "ua_enabled (r_accounts r ! (unat (r_cursor r) mod length (r_accounts r)))"
    using assms(4,5) by (simp add: list_all_length)
  then show ?thesis
    using assms(4) pref by (simp add: pick_def pick_excluding_def n Let_def is_healthy_def assms(3))
qed

lemma pick_seq_idle:
  assumes "r_recent_success r = []" "r_account_traits r = []" "r_health r = []"
    and "r_accounts r \<noteq> []" "list_all ua_enabled (r_accounts r)"
  shows "pick_seq n now r = map Some (cursor_order r n)"
  using assms
proof (induction n arbitrary: r)
  case (Suc n)
  then show ?case using pick_idle [of r now] by (simp add: cursor_order_Suc)
qed (simp add: cursor_order_def)

text \<open>
  Fairness of the rotation. While nothing is known about the accounts (no recent success, no
  probe, no ejection) and all are enabled, as many successive picks as there are accounts return the
  list of accounts rotated to the cursor: every account is picked exactly once, in list order.
\<close>

theorem round_robin_fair:
  assumes "r_recent_success r = []" "r_account_traits r = []" "r_health r = []"
    and "list_all ua_enabled (r_accounts r)"
    and "unat (r_cursor r) + length (r_accounts r) \<le> 2 ^ 64"
  shows "pick_seq (length (r_accounts r)) now r =
    map Some (rotate (unat (r_cursor r) mod length (r_accounts r)) (r_accounts r))"
proof (cases "r_accounts r = []")
  case False
  have "cursor_order r (length (r_accounts r)) =
      rotate (unat (r_cursor r) mod length (r_accounts r)) (r_accounts r)"
    using cursor_index [of "r_cursor r" "length (r_accounts r)" "length (r_accounts r)"] assms(5)
    by (intro nth_equalityI) (simp_all add: cursor_order_def nth_rotate mod_add_left_eq)
  with False assms show ?thesis by (simp add: pick_seq_idle)
qed simp

theorem round_robin_fair_witness:
  "pick_seq 2 0 (snd (pick 0 (router_new [demo_account 1, demo_account 2]))) =
     [Some (demo_account 2), Some (demo_account 1)]"
proof -
  let ?r = "snd (pick 0 (router_new [demo_account 1, demo_account 2]))"
  have len: "length (r_accounts ?r) = 2" by code_simp
  have "pick_seq (length (r_accounts ?r)) 0 ?r =
    map Some (rotate (unat (r_cursor ?r) mod length (r_accounts ?r)) (r_accounts ?r))"
    by (rule round_robin_fair) code_simp+
  moreover have "map Some (rotate (unat (r_cursor ?r) mod length (r_accounts ?r)) (r_accounts ?r)) =
    [Some (demo_account 2), Some (demo_account 1)]" by code_simp
  ultimately show ?thesis by (simp only: len)
qed

text \<open>
  Ejection. An account marked unhealthy for a positive time is not selected before that time has
  passed, whatever the model, session and exclusions of the request, and counts as healthy again from
  then on.
\<close>

theorem mark_unhealthy_ejects:
  assumes "router_reachable now r" "0 < ttl" "now \<le> t"
  shows "(t < now + ttl \<longrightarrow>
      (\<forall>model sticky_key excluded avoid a.
        fst (pick_for_model t model sticky_key excluded avoid (mark_unhealthy now i ttl r)) = Some a \<longrightarrow>
        ua_id a \<noteq> i)) \<and>
    (fst (is_healthy t i (mark_unhealthy now i ttl r)) \<longleftrightarrow> now + ttl \<le> t)"
proof -
  let ?r = "mark_unhealthy now i ttl r"
  have h: "fst (is_healthy t i ?r) \<longleftrightarrow> now + ttl \<le> t"
    using assms(2) by (simp add: healthy_at_def mark_unhealthy_def map_of_hm_insert)
  have reach: "router_reachable t ?r"
    by (rule reach_tick [OF reach_step [OF assms(1) step_mark] assms(3)])
  have "ua_id a \<noteq> i"
    if "t < now + ttl" "fst (pick_for_model t model sticky_key excluded avoid ?r) = Some a"
    for model sticky_key excluded avoid a
    using pick_for_model_available [OF reachable_inv [OF reach] that(2)] h that(1) by (auto simp: available_def)
  with h show ?thesis by blast
qed

theorem mark_unhealthy_ejects_witness:
  "fst (is_healthy 12 2 (mark_unhealthy 3 2 9 demo_router)) \<and>
   \<not> fst (is_healthy 11 2 (mark_unhealthy 3 2 9 demo_router))"
  using mark_unhealthy_ejects [OF demo_router_reachable, of 9 3 12 2]
    mark_unhealthy_ejects [OF demo_router_reachable, of 9 3 11 2] by simp

text \<open>
  Success is preferred. If some account that may be selected has a recorded success, then
  \<^verbatim>\<open>pick_excluding\<close> returns one whose recorded success is the most recent among all accounts
  that may be selected.
\<close>

theorem pick_prefers_recent_success:
  assumes "router_reachable now r"
    and "b \<in> set (r_accounts r)" "ua_enabled b" "fst (is_healthy now (ua_id b) r)" "ua_id b \<notin> excluded"
    and "map_of (r_recent_success r) (ua_id b) = Some seen_b"
  shows "\<exists>a seen. fst (pick_excluding now excluded r) = Some a \<and>
    map_of (r_recent_success r) (ua_id a) = Some seen \<and> seen_b \<le> seen"
proof -
  have d: "distinct (map ua_id (r_accounts r))"
    using reachable_inv [OF assms(1)] by (simp add: router_inv_def)
  let ?es = "List.map_filter (\<lambda>a. success_entry r (ua_id a))
       (filter (eligible now (\<lambda>i. i \<in> excluded) r) (r_accounts r))"
  have "(ua_id b, seen_b) \<in> set ?es"
    using assms by (force simp: set_map_filter success_entry_def eligible_def)
  then obtain x where x: "max_by_key (\<lambda>(i, s). (s, i)) ?es = Some x"
    by (metis empty_iff list.set(1) max_by_key_None not_None_eq)
  have x1: "x \<in> set ?es" using max_by_key_in [OF x] .
  have "(case (ua_id b, seen_b) of (i, s) \<Rightarrow> (s, i)) \<le> (case x of (i, s) \<Rightarrow> (s, i))"
    using max_by_key_Some [OF x] \<open>(ua_id b, seen_b) \<in> set ?es\<close> by blast
  then have x2: "seen_b \<le> snd x" by (cases x) auto
  have "map_of (r_recent_success r) (fst x) = Some (snd x)"
    using x1 by (auto simp: set_map_filter success_entry_def)
  moreover have s: "fst (preferred_recent_success_account_id now excluded r) = Some (fst x)"
    using x by (simp add: preferred_success_result latest_success_def)
  have "\<exists>a. fst (pick_excluding now excluded r) = Some a \<and> ua_id a = fst x"
    by (cases rule: pick_excluding_cases [OF d, of now excluded]) (use s assms(2) in auto)
  ultimately show ?thesis using x2 by fastforce
qed

theorem pick_prefers_recent_success_witness:
  "\<exists>a seen. fst (pick_excluding 20 {} (record_success 15 2 demo_router)) = Some a \<and>
     map_of (r_recent_success (record_success 15 2 demo_router)) (ua_id a) = Some seen \<and> 15 \<le> seen"
proof (rule pick_prefers_recent_success)
  show "router_reachable 20 (record_success 15 2 demo_router)"
    by (rule reach_tick [OF reach_step [OF demo_router_reachable step_success]]) simp
  show "demo_account 2 \<in> set (r_accounts (record_success 15 2 demo_router))" by code_simp
qed code_simp+

end
