(* ===== verification/Ttl_Store.thy ===== *)
theory Ttl_Store
  imports Prelude
begin

text \<open>
  The contract of a store whose entries expire, which several caches of the data plane share: the
  sticky and the unhealthy tables of the routing cache and the positive and the negative cache of the
  key validator. The abstract value of a store at time \<open>t\<close> is a map from keys to the values that are
  still valid then; the operations of a client are related to it, and the laws clients rely on are
  derived once.
\<close>

locale expiring_store =
  fixes ok :: "'s \<Rightarrow> bool"
    and valid_at :: "instant \<Rightarrow> 's \<Rightarrow> 'k \<Rightarrow> 'v option"
    and get :: "instant \<Rightarrow> 'k \<Rightarrow> 's \<Rightarrow> 'v option \<times> 's"
    and put :: "instant \<Rightarrow> 'k \<Rightarrow> 'a \<Rightarrow> 's \<Rightarrow> 's"
    and del :: "'k \<Rightarrow> 's \<Rightarrow> 's"
    and val :: "'a \<Rightarrow> 'v"
    and life :: "'s \<Rightarrow> 'a \<Rightarrow> duration"
  assumes get_value: "ok s \<Longrightarrow> fst (get t k s) = valid_at t s k"
    and get_keeps: "ok s \<Longrightarrow> t \<le> t' \<Longrightarrow> valid_at t' (snd (get t k s)) = valid_at t' s"
    and get_ok: "ok s \<Longrightarrow> ok (snd (get t k s))"
    and put_valid: "ok s \<Longrightarrow> 0 < life s a \<Longrightarrow>
      valid_at t' (put t k a s) = (valid_at t' s)(k := if t' < t + life s a then Some (val a) else None)"
    and put_ok: "ok s \<Longrightarrow> ok (put t k a s)"
    and del_valid: "ok s \<Longrightarrow> valid_at t (del k s) = (valid_at t s)(k := None)"
    and del_ok: "ok s \<Longrightarrow> ok (del k s)"
    and fades: "ok s \<Longrightarrow> t \<le> t' \<Longrightarrow> valid_at t' s k = Some v \<Longrightarrow> valid_at t s k = Some v"
begin

lemma read_your_write:
  "ok s \<Longrightarrow> 0 < life s a \<Longrightarrow> t' < t + life s a \<Longrightarrow> fst (get t' k (put t k a s)) = Some (val a)"
  by (simp add: get_value put_ok put_valid)

lemma expires:
  "ok s \<Longrightarrow> 0 < life s a \<Longrightarrow> t + life s a \<le> t' \<Longrightarrow> fst (get t' k (put t k a s)) = None"
  by (simp add: get_value put_ok put_valid)

lemma frame: "ok s \<Longrightarrow> 0 < life s a \<Longrightarrow> k' \<noteq> k \<Longrightarrow> fst (get t' k' (put t k a s)) = fst (get t' k' s)"
  by (simp add: get_value put_ok put_valid)

lemma deleted: "ok s \<Longrightarrow> fst (get t k (del k s)) = None"
  by (simp add: get_value del_ok del_valid)

text \<open>Reading commutes with reading: a lookup at an earlier time does not disturb a later one.\<close>

lemma get_get: "ok s \<Longrightarrow> t \<le> t' \<Longrightarrow> fst (get t' k' (snd (get t k s))) = fst (get t' k' s)"
  by (simp add: get_value get_keeps get_ok)

text \<open>An entry that was not found is not found later either, unless it is written again.\<close>

lemma stays_gone: "ok s \<Longrightarrow> t \<le> t' \<Longrightarrow> fst (get t k s) = None \<Longrightarrow> fst (get t' k (snd (get t k s))) = None"
  by (metis (no_types, lifting) fades get_get get_value not_Some_eq)

text \<open>Any sequence of reads between a write and a later read leaves the answer as it was.\<close>

primrec gets :: "(instant \<times> 'k) list \<Rightarrow> 's \<Rightarrow> 's" where
  "gets [] s = s"
| "gets (q # qs) s = gets qs (snd (get (fst q) (snd q) s))"

lemma gets_transparent:
  "ok s \<Longrightarrow> (\<And>q. q \<in> set qs \<Longrightarrow> fst q \<le> t') \<Longrightarrow>
   ok (gets qs s) \<and> valid_at t' (gets qs s) = valid_at t' s"
  by (induction qs arbitrary: s) (simp_all add: get_ok get_keeps)

lemma read_your_write_after_reads:
  assumes "ok s" "0 < life s a" "t' < t + life s a" "\<And>q. q \<in> set qs \<Longrightarrow> fst q \<le> t'"
  shows "fst (get t' k (gets qs (put t k a s))) = Some (val a)"
  using gets_transparent [OF put_ok [OF assms(1)], of qs t'] assms
  by (simp add: get_value put_valid)

end

text \<open>
  The two representations the caches use: a map from keys to entries with an expiry, read by first
  dropping everything that has expired, or by dropping only the entry that is asked for.
\<close>

definition live_value :: "('e \<Rightarrow> instant) \<Rightarrow> instant \<Rightarrow> ('k, 'e) hash_map \<Rightarrow> 'k \<Rightarrow> 'e option" where
  "live_value expiry t m k =
     (case map_of m k of None \<Rightarrow> None | Some e \<Rightarrow> if t < expiry e then Some e else None)"

lemma live_value_retain:
  "hm_ok m \<Longrightarrow> t \<le> t' \<Longrightarrow>
   live_value expiry t' (hm_retain (\<lambda>_ e. t < expiry e) m) = live_value expiry t' m"
  by (auto simp: live_value_def map_of_hm_retain fun_eq_iff split: option.split)

lemma map_of_retain_live:
  "hm_ok m \<Longrightarrow> map_of (hm_retain (\<lambda>_ e. t < expiry e) m) k = live_value expiry t m k"
  by (auto simp: live_value_def map_of_hm_retain split: option.split)

lemma live_value_insert:
  "live_value expiry t (hm_insert k e m) =
   (live_value expiry t m)(k := if t < expiry e then Some e else None)"
  by (auto simp: live_value_def map_of_hm_insert fun_eq_iff split: option.split)

lemma live_value_remove: "live_value expiry t (hm_remove k m) = (live_value expiry t m)(k := None)"
  by (auto simp: live_value_def map_of_hm_remove fun_eq_iff split: option.split)

lemma live_value_remove_expired:
  assumes "map_of m k = Some e" "expiry e \<le> t" "t \<le> t'"
  shows "live_value expiry t' (hm_remove k m) = live_value expiry t' m"
  using assms by (auto simp: live_value_remove fun_eq_iff live_value_def)

lemma live_value_fades:
  "live_value expiry t' m k = Some e \<Longrightarrow> t \<le> t' \<Longrightarrow> live_value expiry t m k = Some e"
  by (auto simp: live_value_def split: option.splits if_splits)

lemmas live_value_simps =
  live_value_retain map_of_retain_live live_value_insert live_value_remove

end
