(* ===== verification/Routing_Cache.thy ===== *)
theory Routing_Cache
  imports Core_Model Ttl_Store
begin

text \<open>
  The routing cache of the data plane, \<^verbatim>\<open>services/data-plane/src/routing_cache.rs\<close>: the
  in-memory cache, the cache kept in Redis and the hybrid of both.

  The Redis server is a parameter: a record of the four commands the source sends, each taking the
  time and the state of the server and answering with a value or an error. An error stands for a
  failed connection as well as for a failed command. The text form of a UUID is a parameter too.
\<close>

section \<open>In memory\<close>

record sticky_entry =
  ste_account_id :: uuid
  ste_expires_at :: instant

record in_memory_routing_cache =
  mc_sticky :: "(string, sticky_entry) hash_map"
  mc_unhealthy :: "(uuid, instant) hash_map"

definition in_memory_new :: in_memory_routing_cache where
  "in_memory_new = \<lparr>mc_sticky = [], mc_unhealthy = []\<rparr>"

definition mem_get_sticky ::
  "instant \<Rightarrow> string \<Rightarrow> in_memory_routing_cache \<Rightarrow> uuid option \<times> in_memory_routing_cache" where
  "mem_get_sticky now sticky_key c =
     (let sticky = hm_retain (\<lambda>_ entry. ste_expires_at entry > now) (mc_sticky c)
      in (map_option ste_account_id (map_of sticky sticky_key), c\<lparr>mc_sticky := sticky\<rparr>))"

definition mem_set_sticky ::
  "instant \<Rightarrow> string \<Rightarrow> uuid \<Rightarrow> duration \<Rightarrow> in_memory_routing_cache \<Rightarrow> in_memory_routing_cache" where
  "mem_set_sticky now sticky_key account_id ttl c =
     (if ttl = 0 then c
      else c\<lparr>mc_sticky := hm_insert sticky_key
               \<lparr>ste_account_id = account_id, ste_expires_at = now + ttl\<rparr> (mc_sticky c)\<rparr>)"

definition mem_delete_sticky :: "string \<Rightarrow> in_memory_routing_cache \<Rightarrow> in_memory_routing_cache" where
  "mem_delete_sticky sticky_key c = c\<lparr>mc_sticky := hm_remove sticky_key (mc_sticky c)\<rparr>"

definition mem_set_unhealthy ::
  "instant \<Rightarrow> uuid \<Rightarrow> duration \<Rightarrow> in_memory_routing_cache \<Rightarrow> in_memory_routing_cache" where
  "mem_set_unhealthy now account_id ttl c =
     (if ttl = 0 then c
      else c\<lparr>mc_unhealthy := hm_insert account_id (now + ttl) (mc_unhealthy c)\<rparr>)"

definition mem_is_unhealthy ::
  "instant \<Rightarrow> uuid \<Rightarrow> in_memory_routing_cache \<Rightarrow> bool \<times> in_memory_routing_cache" where
  "mem_is_unhealthy now account_id c =
     (let unhealthy = hm_retain (\<lambda>_ until. until > now) (mc_unhealthy c)
      in (map_of unhealthy account_id \<noteq> None, c\<lparr>mc_unhealthy := unhealthy\<rparr>))"

definition mem_clear_unhealthy :: "uuid \<Rightarrow> in_memory_routing_cache \<Rightarrow> in_memory_routing_cache" where
  "mem_clear_unhealthy account_id c = c\<lparr>mc_unhealthy := hm_remove account_id (mc_unhealthy c)\<rparr>"

section \<open>In Redis\<close>

datatype shared_error = RedisError | InvalidStickyUuid

record 'w redis_server =
  rd_get :: "instant \<Rightarrow> string \<Rightarrow> 'w \<Rightarrow> (shared_error + string option) \<times> 'w"
  rd_set_ex :: "instant \<Rightarrow> string \<Rightarrow> string \<Rightarrow> nat \<Rightarrow> 'w \<Rightarrow> (shared_error + unit) \<times> 'w"
  rd_del :: "instant \<Rightarrow> string \<Rightarrow> 'w \<Rightarrow> (shared_error + unit) \<times> 'w"
  rd_exists :: "instant \<Rightarrow> string \<Rightarrow> 'w \<Rightarrow> (shared_error + bool) \<times> 'w"

record 'w redis_routing_cache =
  rc_server :: "'w redis_server"
  rc_uuid_to_string :: "uuid \<Rightarrow> string"
  rc_uuid_parse :: "string \<Rightarrow> uuid option"
  rc_key_prefix :: string

definition redis_sticky_key :: "'w redis_routing_cache \<Rightarrow> string \<Rightarrow> string" where
  "redis_sticky_key rc sticky_key = rc_key_prefix rc @ '':sticky:'' @ sticky_key"

definition redis_unhealthy_key :: "'w redis_routing_cache \<Rightarrow> uuid \<Rightarrow> string" where
  "redis_unhealthy_key rc account_id =
     rc_key_prefix rc @ '':unhealthy:'' @ rc_uuid_to_string rc account_id"

definition redis_get_sticky ::
  "'w redis_routing_cache \<Rightarrow> instant \<Rightarrow> string \<Rightarrow> 'w \<Rightarrow> (shared_error + uuid option) \<times> 'w" where
  "redis_get_sticky rc now sticky_key w =
     (case rd_get (rc_server rc) now (redis_sticky_key rc sticky_key) w of
        (Inl e, w1) \<Rightarrow> (Inl e, w1)
      | (Inr None, w1) \<Rightarrow> (Inr None, w1)
      | (Inr (Some raw), w1) \<Rightarrow>
          (case rc_uuid_parse rc raw of
             None \<Rightarrow> (Inl InvalidStickyUuid, w1)
           | Some u \<Rightarrow> (Inr (Some u), w1)))"

definition redis_set_sticky ::
  "'w redis_routing_cache \<Rightarrow> instant \<Rightarrow> string \<Rightarrow> uuid \<Rightarrow> duration \<Rightarrow> 'w \<Rightarrow> (shared_error + unit) \<times> 'w" where
  "redis_set_sticky rc now sticky_key account_id ttl w =
     (if ttl = 0 then (Inr (), w)
      else rd_set_ex (rc_server rc) now (redis_sticky_key rc sticky_key)
             (rc_uuid_to_string rc account_id) (max (as_secs ttl) 1) w)"

definition redis_delete_sticky ::
  "'w redis_routing_cache \<Rightarrow> instant \<Rightarrow> string \<Rightarrow> 'w \<Rightarrow> (shared_error + unit) \<times> 'w" where
  "redis_delete_sticky rc now sticky_key w = rd_del (rc_server rc) now (redis_sticky_key rc sticky_key) w"

definition redis_set_unhealthy ::
  "'w redis_routing_cache \<Rightarrow> instant \<Rightarrow> uuid \<Rightarrow> duration \<Rightarrow> 'w \<Rightarrow> (shared_error + unit) \<times> 'w" where
  "redis_set_unhealthy rc now account_id ttl w =
     (if ttl = 0 then (Inr (), w)
      else rd_set_ex (rc_server rc) now (redis_unhealthy_key rc account_id) ''1'' (max (as_secs ttl) 1) w)"

definition redis_is_unhealthy ::
  "'w redis_routing_cache \<Rightarrow> instant \<Rightarrow> uuid \<Rightarrow> 'w \<Rightarrow> (shared_error + bool) \<times> 'w" where
  "redis_is_unhealthy rc now account_id w = rd_exists (rc_server rc) now (redis_unhealthy_key rc account_id) w"

definition redis_clear_unhealthy ::
  "'w redis_routing_cache \<Rightarrow> instant \<Rightarrow> uuid \<Rightarrow> 'w \<Rightarrow> (shared_error + unit) \<times> 'w" where
  "redis_clear_unhealthy rc now account_id w = rd_del (rc_server rc) now (redis_unhealthy_key rc account_id) w"

section \<open>Hybrid\<close>

definition default_local_sticky_rehydrate_ttl :: duration where
  "default_local_sticky_rehydrate_ttl = from_secs (30 * 60)"

definition default_local_unhealthy_rehydrate_ttl :: duration where
  "default_local_unhealthy_rehydrate_ttl = from_secs 30"

record routing_cache_stats =
  local_sticky_hit_total :: u64
  local_sticky_miss_total :: u64
  shared_sticky_hit_total :: u64
  shared_sticky_miss_total :: u64
  shared_sticky_error_total :: u64
  local_unhealthy_hit_total :: u64
  local_unhealthy_miss_total :: u64
  shared_unhealthy_hit_total :: u64
  shared_unhealthy_miss_total :: u64
  shared_unhealthy_error_total :: u64
  shared_write_error_total :: u64

definition zero_stats :: routing_cache_stats where
  "zero_stats =
     \<lparr>local_sticky_hit_total = 0, local_sticky_miss_total = 0, shared_sticky_hit_total = 0,
      shared_sticky_miss_total = 0, shared_sticky_error_total = 0, local_unhealthy_hit_total = 0,
      local_unhealthy_miss_total = 0, shared_unhealthy_hit_total = 0,
      shared_unhealthy_miss_total = 0, shared_unhealthy_error_total = 0,
      shared_write_error_total = 0\<rparr>"

text \<open>
  The hybrid cache owns the local cache and the counters; the shared cache, if there is one, is the
  client of a server whose state \<open>w\<close> every operation threads, because other instances use it too.
\<close>

record 'w hybrid_routing_cache =
  hc_local :: in_memory_routing_cache
  hc_shared :: "'w redis_routing_cache option"
  hc_stats :: routing_cache_stats

definition hybrid_local_only :: "in_memory_routing_cache \<Rightarrow> 'w hybrid_routing_cache" where
  "hybrid_local_only loc = \<lparr>hc_local = loc, hc_shared = None, hc_stats = zero_stats\<rparr>"

definition hybrid_with_shared ::
  "in_memory_routing_cache \<Rightarrow> 'w redis_routing_cache \<Rightarrow> 'w hybrid_routing_cache" where
  "hybrid_with_shared loc shared = \<lparr>hc_local = loc, hc_shared = Some shared, hc_stats = zero_stats\<rparr>"

abbreviation bump :: "(routing_cache_stats \<Rightarrow> routing_cache_stats) \<Rightarrow> 'w hybrid_routing_cache \<Rightarrow> 'w hybrid_routing_cache" where
  "bump f h \<equiv> h\<lparr>hc_stats := f (hc_stats h)\<rparr>"

definition hybrid_get_sticky ::
  "instant \<Rightarrow> string \<Rightarrow> 'w hybrid_routing_cache \<Rightarrow> 'w \<Rightarrow> uuid option \<times> 'w hybrid_routing_cache \<times> 'w" where
  "hybrid_get_sticky now sticky_key h w =
     (case mem_get_sticky now sticky_key (hc_local h) of
        (Some account_id, l) \<Rightarrow>
          (Some account_id, bump (local_sticky_hit_total_update (\<lambda>n. n + 1)) (h\<lparr>hc_local := l\<rparr>), w)
      | (None, l) \<Rightarrow>
          let h1 = bump (local_sticky_miss_total_update (\<lambda>n. n + 1)) (h\<lparr>hc_local := l\<rparr>)
          in case hc_shared h of
               None \<Rightarrow> (None, h1, w)
             | Some shared \<Rightarrow>
                 (case redis_get_sticky shared now sticky_key w of
                    (Inr (Some account_id), w1) \<Rightarrow>
                      let h2 = bump (shared_sticky_hit_total_update (\<lambda>n. n + 1)) h1
                      in (Some account_id,
                          h2\<lparr>hc_local := mem_set_sticky now sticky_key account_id
                               default_local_sticky_rehydrate_ttl (hc_local h2)\<rparr>, w1)
                  | (Inr None, w1) \<Rightarrow> (None, bump (shared_sticky_miss_total_update (\<lambda>n. n + 1)) h1, w1)
                  | (Inl _, w1) \<Rightarrow> (None, bump (shared_sticky_error_total_update (\<lambda>n. n + 1)) h1, w1)))"

definition count_write_error ::
  "'w hybrid_routing_cache \<Rightarrow> (shared_error + unit) \<times> 'w \<Rightarrow> 'w hybrid_routing_cache \<times> 'w" where
  "count_write_error h res =
     (case res of
        (Inl _, w1) \<Rightarrow> (bump (shared_write_error_total_update (\<lambda>n. n + 1)) h, w1)
      | (Inr _, w1) \<Rightarrow> (h, w1))"

definition hybrid_set_sticky ::
  "instant \<Rightarrow> string \<Rightarrow> uuid \<Rightarrow> duration \<Rightarrow> 'w hybrid_routing_cache \<Rightarrow> 'w \<Rightarrow> 'w hybrid_routing_cache \<times> 'w" where
  "hybrid_set_sticky now sticky_key account_id ttl h w =
     (let h1 = h\<lparr>hc_local := mem_set_sticky now sticky_key account_id ttl (hc_local h)\<rparr>
      in case hc_shared h of
           None \<Rightarrow> (h1, w)
         | Some shared \<Rightarrow> count_write_error h1 (redis_set_sticky shared now sticky_key account_id ttl w))"

definition hybrid_delete_sticky ::
  "instant \<Rightarrow> string \<Rightarrow> 'w hybrid_routing_cache \<Rightarrow> 'w \<Rightarrow> 'w hybrid_routing_cache \<times> 'w" where
  "hybrid_delete_sticky now sticky_key h w =
     (let h1 = h\<lparr>hc_local := mem_delete_sticky sticky_key (hc_local h)\<rparr>
      in case hc_shared h of
           None \<Rightarrow> (h1, w)
         | Some shared \<Rightarrow> count_write_error h1 (redis_delete_sticky shared now sticky_key w))"

definition hybrid_set_unhealthy ::
  "instant \<Rightarrow> uuid \<Rightarrow> duration \<Rightarrow> 'w hybrid_routing_cache \<Rightarrow> 'w \<Rightarrow> 'w hybrid_routing_cache \<times> 'w" where
  "hybrid_set_unhealthy now account_id ttl h w =
     (let h1 = h\<lparr>hc_local := mem_set_unhealthy now account_id ttl (hc_local h)\<rparr>
      in case hc_shared h of
           None \<Rightarrow> (h1, w)
         | Some shared \<Rightarrow> count_write_error h1 (redis_set_unhealthy shared now account_id ttl w))"

definition hybrid_is_unhealthy ::
  "instant \<Rightarrow> uuid \<Rightarrow> 'w hybrid_routing_cache \<Rightarrow> 'w \<Rightarrow> bool \<times> 'w hybrid_routing_cache \<times> 'w" where
  "hybrid_is_unhealthy now account_id h w =
     (case mem_is_unhealthy now account_id (hc_local h) of
        (True, l) \<Rightarrow> (True, bump (local_unhealthy_hit_total_update (\<lambda>n. n + 1)) (h\<lparr>hc_local := l\<rparr>), w)
      | (False, l) \<Rightarrow>
          let h1 = bump (local_unhealthy_miss_total_update (\<lambda>n. n + 1)) (h\<lparr>hc_local := l\<rparr>)
          in case hc_shared h of
               None \<Rightarrow> (False, h1, w)
             | Some shared \<Rightarrow>
                 (case redis_is_unhealthy shared now account_id w of
                    (Inr True, w1) \<Rightarrow>
                      let h2 = bump (shared_unhealthy_hit_total_update (\<lambda>n. n + 1)) h1
                      in (True, h2\<lparr>hc_local := mem_set_unhealthy now account_id
                                   default_local_unhealthy_rehydrate_ttl (hc_local h2)\<rparr>, w1)
                  | (Inr False, w1) \<Rightarrow> (False, bump (shared_unhealthy_miss_total_update (\<lambda>n. n + 1)) h1, w1)
                  | (Inl _, w1) \<Rightarrow> (False, bump (shared_unhealthy_error_total_update (\<lambda>n. n + 1)) h1, w1)))"

definition hybrid_clear_unhealthy ::
  "instant \<Rightarrow> uuid \<Rightarrow> 'w hybrid_routing_cache \<Rightarrow> 'w \<Rightarrow> 'w hybrid_routing_cache \<times> 'w" where
  "hybrid_clear_unhealthy now account_id h w =
     (let h1 = h\<lparr>hc_local := mem_clear_unhealthy account_id (hc_local h)\<rparr>
      in case hc_shared h of
           None \<Rightarrow> (h1, w)
         | Some shared \<Rightarrow> count_write_error h1 (redis_clear_unhealthy shared now account_id w))"

section \<open>The in-memory tables are expiring stores\<close>

definition mem_ok :: "in_memory_routing_cache \<Rightarrow> bool" where
  "mem_ok c \<longleftrightarrow> hm_ok (mc_sticky c) \<and> hm_ok (mc_unhealthy c)"

definition mem_sticky_at :: "instant \<Rightarrow> in_memory_routing_cache \<Rightarrow> string \<Rightarrow> uuid option" where
  "mem_sticky_at t c k = map_option ste_account_id (live_value ste_expires_at t (mc_sticky c) k)"

definition mem_unhealthy_at :: "instant \<Rightarrow> in_memory_routing_cache \<Rightarrow> uuid \<Rightarrow> unit option" where
  "mem_unhealthy_at t c i = map_option (\<lambda>_. ()) (live_value (\<lambda>until. until) t (mc_unhealthy c) i)"

interpretation mem_sticky: expiring_store mem_ok mem_sticky_at mem_get_sticky
  "\<lambda>t k (i, ttl). mem_set_sticky t k i ttl" mem_delete_sticky fst "\<lambda>_. snd"
  by unfold_locales
    (auto simp: mem_ok_def mem_sticky_at_def mem_get_sticky_def mem_set_sticky_def mem_delete_sticky_def
      Let_def live_value_simps fun_eq_iff dest: live_value_fades)

interpretation mem_unhealthy: expiring_store mem_ok mem_unhealthy_at
  "\<lambda>t i c. (if fst (mem_is_unhealthy t i c) then Some () else None, snd (mem_is_unhealthy t i c))"
  "\<lambda>t i ttl. mem_set_unhealthy t i ttl" mem_clear_unhealthy "\<lambda>_. ()" "\<lambda>_ ttl. ttl"
  by unfold_locales
    (auto simp: mem_ok_def mem_unhealthy_at_def mem_is_unhealthy_def mem_set_unhealthy_def
      mem_clear_unhealthy_def Let_def live_value_simps fun_eq_iff dest: live_value_fades)

section \<open>Runs of the hybrid cache\<close>

datatype cache_op =
    GetSticky string
  | SetSticky string uuid duration
  | DeleteSticky string
  | SetUnhealthy uuid duration
  | IsUnhealthy uuid
  | ClearUnhealthy uuid

datatype cache_answer = StickyAnswer "uuid option" | UnhealthyAnswer bool | Done

fun hybrid_exec ::
  "instant \<Rightarrow> cache_op \<Rightarrow> 'w hybrid_routing_cache \<Rightarrow> 'w \<Rightarrow> cache_answer \<times> 'w hybrid_routing_cache \<times> 'w" where
  "hybrid_exec now (GetSticky k) h w = map_prod StickyAnswer id (hybrid_get_sticky now k h w)"
| "hybrid_exec now (SetSticky k i ttl) h w = (Done, hybrid_set_sticky now k i ttl h w)"
| "hybrid_exec now (DeleteSticky k) h w = (Done, hybrid_delete_sticky now k h w)"
| "hybrid_exec now (SetUnhealthy i ttl) h w = (Done, hybrid_set_unhealthy now i ttl h w)"
| "hybrid_exec now (IsUnhealthy i) h w = map_prod UnhealthyAnswer id (hybrid_is_unhealthy now i h w)"
| "hybrid_exec now (ClearUnhealthy i) h w = (Done, hybrid_clear_unhealthy now i h w)"

fun hybrid_run :: "(instant \<times> cache_op) list \<Rightarrow> 'w hybrid_routing_cache \<Rightarrow> 'w \<Rightarrow> cache_answer list" where
  "hybrid_run [] h w = []"
| "hybrid_run ((now, c) # cs) h w =
     (case hybrid_exec now c h w of (ans, h1, w1) \<Rightarrow> ans # hybrid_run cs h1 w1)"

text \<open>A server that is down: every command fails.\<close>

definition redis_down :: "'w redis_server \<Rightarrow> bool" where
  "redis_down srv \<longleftrightarrow>
     (\<forall>t k w. \<exists>e. fst (rd_get srv t k w) = Inl e) \<and>
     (\<forall>t k v n w. \<exists>e. fst (rd_set_ex srv t k v n w) = Inl e) \<and>
     (\<forall>t k w. \<exists>e. fst (rd_del srv t k w) = Inl e) \<and>
     (\<forall>t k w. \<exists>e. fst (rd_exists srv t k w) = Inl e)"

lemma redis_down_results:
  assumes "redis_down (rc_server rc)"
  shows "\<exists>e w'. redis_get_sticky rc t k w = (Inl e, w')"
    "\<exists>e w'. redis_is_unhealthy rc t i w = (Inl e, w')"
  using assms
  by (auto simp: redis_down_def redis_get_sticky_def redis_is_unhealthy_def prod_eq_iff
      split: prod.split sum.split option.split) (metis fst_conv old.sum.distinct(1))+

lemma count_write_error_local [simp]:
  "hc_local (fst (count_write_error h res)) = hc_local h"
  "hc_shared (fst (count_write_error h res)) = hc_shared h"
  by (auto simp: count_write_error_def split: prod.split sum.split)

lemma exec_outage:
  assumes "hc_shared h = Some rc" "redis_down (rc_server rc)"
    and "hc_shared g = None" "hc_local h = hc_local g"
  shows "fst (hybrid_exec now c h w) = fst (hybrid_exec now c g v) \<and>
    hc_shared (fst (snd (hybrid_exec now c h w))) = Some rc \<and>
    hc_shared (fst (snd (hybrid_exec now c g v))) = None \<and>
    hc_local (fst (snd (hybrid_exec now c h w))) = hc_local (fst (snd (hybrid_exec now c g v)))"
proof (cases c)
  case (GetSticky k)
  obtain e w' where "redis_get_sticky rc now k w = (Inl e, w')"
    using redis_down_results(1) [OF assms(2)] by blast
  with GetSticky assms show ?thesis
    by (auto simp: hybrid_get_sticky_def Let_def split: prod.split option.split)
next
  case (IsUnhealthy i)
  obtain e w' where "redis_is_unhealthy rc now i w = (Inl e, w')"
    using redis_down_results(2) [OF assms(2)] by blast
  with IsUnhealthy assms show ?thesis
    by (auto simp: hybrid_is_unhealthy_def Let_def split: prod.split bool.split)
qed (use assms in \<open>simp_all add: hybrid_set_sticky_def hybrid_delete_sticky_def hybrid_set_unhealthy_def
      hybrid_clear_unhealthy_def Let_def\<close>)

lemma run_outage:
  assumes "redis_down (rc_server rc)"
  shows "hc_shared h = Some rc \<Longrightarrow> hc_shared g = None \<Longrightarrow> hc_local h = hc_local g \<Longrightarrow>
    hybrid_run cs h w = hybrid_run cs g v"
proof (induction cs arbitrary: h g w v)
  case (Cons tc cs)
  obtain t c where tc: "tc = (t, c)" by fastforce
  obtain a1 h1 w1 where 1: "hybrid_exec t c h w = (a1, h1, w1)" by (metis prod_cases3)
  obtain a2 g1 v1 where 2: "hybrid_exec t c g v = (a2, g1, v1)" by (metis prod_cases3)
  from exec_outage [OF Cons.prems(1) assms Cons.prems(2,3), of t c w v] 1 2
  have "a1 = a2" "hc_shared h1 = Some rc" "hc_shared g1 = None" "hc_local h1 = hc_local g1" by simp_all
  with Cons.IH [of h1 g1 w1 v1] tc 1 2 show ?case by simp
qed simp

text \<open>
  An outage of the shared cache is invisible. While every Redis command fails, any sequence of
  operations on a hybrid cache gets exactly the answers it would get from the local cache alone; no
  operation fails.
\<close>

theorem hybrid_survives_outage:
  assumes "redis_down (rc_server shared)"
  shows "hybrid_run cs (hybrid_with_shared loc shared) w = hybrid_run cs (hybrid_local_only loc) w"
  by (rule run_outage [OF assms]) (simp_all add: hybrid_with_shared_def hybrid_local_only_def)

definition dead_redis :: "unit redis_server" where
  "dead_redis =
     \<lparr>rd_get = \<lambda>t k w. (Inl RedisError, w), rd_set_ex = \<lambda>t k v n w. (Inl RedisError, w),
      rd_del = \<lambda>t k w. (Inl RedisError, w), rd_exists = \<lambda>t k w. (Inl RedisError, w)\<rparr>"

definition demo_cache :: "'w redis_server \<Rightarrow> 'w redis_routing_cache" where
  "demo_cache srv =
     \<lparr>rc_server = srv, rc_uuid_to_string = (\<lambda>i. replicate i CHR ''x''),
      rc_uuid_parse = (\<lambda>s. Some (length s)), rc_key_prefix = ''cp''\<rparr>"

theorem hybrid_survives_outage_witness:
  "hybrid_run [(0, SetSticky ''s'' 3 10), (5, GetSticky ''s''), (6, SetUnhealthy 3 4), (9, IsUnhealthy 3)]
     (hybrid_with_shared in_memory_new (demo_cache dead_redis)) () =
   [Done, StickyAnswer (Some 3), Done, UnhealthyAnswer True]"
proof -
  have "redis_down (rc_server (demo_cache dead_redis))"
    by (simp add: redis_down_def demo_cache_def dead_redis_def)
  moreover have "hybrid_run [(0, SetSticky ''s'' 3 10), (5, GetSticky ''s''), (6, SetUnhealthy 3 4),
      (9, IsUnhealthy 3)] (hybrid_local_only in_memory_new) () =
    [Done, StickyAnswer (Some 3), Done, UnhealthyAnswer True]"
    by code_simp
  ultimately show ?thesis using hybrid_survives_outage by metis
qed

lemma hybrid_get_local_hit:
  "fst (mem_get_sticky t k (hc_local h)) = Some i \<Longrightarrow> fst (hybrid_get_sticky t k h w) = Some i"
  by (auto simp: hybrid_get_sticky_def split: prod.split)

text \<open>
  A session written through the hybrid cache is read back. After a mapping with a positive time
  to live was stored, a lookup of the session before that time has passed returns the account,
  whatever the Redis server answers and whatever other instances do to its state in between.
\<close>

theorem hybrid_read_your_write:
  assumes "mem_ok (hc_local h)" "0 < ttl" "t' < t + ttl"
  shows "fst (hybrid_get_sticky t' k (fst (hybrid_set_sticky t k i ttl h w)) w') = Some i"
proof -
  have loc: "hc_local (fst (hybrid_set_sticky t k i ttl h w)) = mem_set_sticky t k i ttl (hc_local h)"
    by (simp add: hybrid_set_sticky_def Let_def split: option.split)
  have "fst (mem_get_sticky t' k (mem_set_sticky t k i ttl (hc_local h))) = Some i"
    using mem_sticky.read_your_write [of "hc_local h" "(i, ttl)" t' t k] assms by simp
  with loc show ?thesis by (intro hybrid_get_local_hit) simp
qed

theorem hybrid_read_your_write_witness:
  "fst (hybrid_get_sticky 9 ''s''
     (fst (hybrid_set_sticky 0 ''s'' 3 10 (hybrid_with_shared in_memory_new (demo_cache dead_redis)) ())) ())
   = Some 3"
  by (rule hybrid_read_your_write) (simp_all add: mem_ok_def hybrid_with_shared_def in_memory_new_def)

text \<open>
  Sessions are shared between instances. If one instance stores a mapping and the write to Redis
  succeeds, another instance that has no valid mapping of its own for the session finds it until the
  time to live, rounded down to whole seconds but at least one, has passed, and keeps serving it
  locally from then on. The server is assumed to return a value set with an expiry until it expires,
  and the text form of a UUID to parse back.
\<close>

theorem hybrid_shares_sessions:
  assumes redis: "\<And>t t' key v n w. fst (rd_set_ex (rc_server shared) t key v n w) = Inr () \<Longrightarrow>
      t' < t + from_secs n \<Longrightarrow>
      fst (rd_get (rc_server shared) t' key (snd (rd_set_ex (rc_server shared) t key v n w))) = Inr (Some v)"
    and uuid: "\<And>u. rc_uuid_parse shared (rc_uuid_to_string shared u) = Some u"
    and a: "hc_shared a = Some shared" and b: "hc_shared b = Some shared" "mem_ok (hc_local b)"
    and empty: "fst (mem_get_sticky t' k (hc_local b)) = None"
    and wrote: "0 < ttl" "fst (redis_set_sticky shared t k i ttl w) = Inr ()"
    and time: "t' < t + from_secs (max (as_secs ttl) 1)"
  shows "\<exists>b' w'. hybrid_get_sticky t' k b (snd (hybrid_set_sticky t k i ttl a w)) = (Some i, b', w') \<and>
    (\<forall>s < default_local_sticky_rehydrate_ttl. \<forall>w''. fst (hybrid_get_sticky (t' + s) k b' w'') = Some i)"
proof -
  let ?w1 = "snd (redis_set_sticky shared t k i ttl w)"
  have w1: "snd (hybrid_set_sticky t k i ttl a w) = ?w1"
    using a by (auto simp: hybrid_set_sticky_def count_write_error_def Let_def split: prod.split sum.split)
  have set: "redis_set_sticky shared t k i ttl w =
      rd_set_ex (rc_server shared) t (redis_sticky_key shared k) (rc_uuid_to_string shared i)
        (max (as_secs ttl) 1) w"
    using wrote(1) by (simp add: redis_set_sticky_def)
  have "fst (rd_get (rc_server shared) t' (redis_sticky_key shared k) ?w1) =
      Inr (Some (rc_uuid_to_string shared i))"
    using redis [OF wrote(2) [unfolded set] time] by (simp only: set)
  then have "fst (redis_get_sticky shared t' k ?w1) = Inr (Some i)"
    by (auto simp: redis_get_sticky_def uuid split: prod.split)
  then obtain w2 where w2: "redis_get_sticky shared t' k ?w1 = (Inr (Some i), w2)"
    by (metis prod.collapse)
  obtain l where l: "mem_get_sticky t' k (hc_local b) = (None, l)"
    using empty by (metis prod.collapse)
  have okl: "mem_ok l" using mem_sticky.get_ok [OF b(2), of t' k] l by simp
  let ?b' = "fst (snd (hybrid_get_sticky t' k b ?w1))"
  have res: "hybrid_get_sticky t' k b ?w1 = (Some i, ?b', w2)"
    and loc: "hc_local ?b' = mem_set_sticky t' k i default_local_sticky_rehydrate_ttl l"
    using l w2 b(1) by (simp_all add: hybrid_get_sticky_def Let_def)
  have "fst (hybrid_get_sticky (t' + s) k ?b' w'') = Some i"
    if "s < default_local_sticky_rehydrate_ttl" for s w''
    using mem_sticky.read_your_write [OF okl, of "(i, default_local_sticky_rehydrate_ttl)" "t' + s" t' k] that
    by (intro hybrid_get_local_hit) (simp add: loc)
  with res w1 show ?thesis by metis
qed

text \<open>A server that keeps values with their expiry, on which the assumptions hold.\<close>

definition ideal_redis :: "(string, string \<times> instant) hash_map redis_server" where
  "ideal_redis =
     \<lparr>rd_get = \<lambda>t k w. (Inr (map_option fst (live_value snd t w k)), w),
      rd_set_ex = \<lambda>t k v n w. (Inr (), hm_insert k (v, t + from_secs n) w),
      rd_del = \<lambda>t k w. (Inr (), hm_remove k w),
      rd_exists = \<lambda>t k w. (Inr (live_value snd t w k \<noteq> None), w)\<rparr>"

theorem hybrid_shares_sessions_witness:
  "\<exists>b' w'. hybrid_get_sticky (from_secs 3) ''s'' (hybrid_with_shared in_memory_new (demo_cache ideal_redis))
       (snd (hybrid_set_sticky 0 ''s'' 7 (from_secs 4)
         (hybrid_with_shared in_memory_new (demo_cache ideal_redis)) [])) = (Some 7, b', w') \<and>
     (\<forall>s < default_local_sticky_rehydrate_ttl.
        \<forall>w''. fst (hybrid_get_sticky (from_secs 3 + s) ''s'' b' w'') = Some 7)"
  by (rule hybrid_shares_sessions [of "demo_cache ideal_redis"])
    (simp_all add: demo_cache_def ideal_redis_def live_value_insert hybrid_with_shared_def mem_ok_def
      in_memory_new_def mem_get_sticky_def hm_retain_def redis_set_sticky_def from_secs_def as_secs_def)

end
