(* ===== verification/Http.thy ===== *)
theory Http
  imports Prelude
begin

text \<open>
  The parts of the HTTP vocabulary the sources use: header maps and status codes. Header names are
  compared in lower case, as \<^verbatim>\<open>HeaderMap\<close> stores them; a header value is a byte sequence that
  \<^verbatim>\<open>to_str\<close> accepts if all its bytes are visible ASCII, space or tab.
\<close>

type_synonym header_map = "(string \<times> string) list"
type_synonym status_code = nat

definition header_get :: "header_map \<Rightarrow> string \<Rightarrow> string option" where
  "header_get hs name = map_of hs name"

definition visible_byte :: "char \<Rightarrow> bool" where
  "visible_byte c \<longleftrightarrow> (32 \<le> (of_char c :: nat) \<and> (of_char c :: nat) < 127) \<or> (of_char c :: nat) = 9"

definition to_str :: "string \<Rightarrow> string option" where
  "to_str v = (if list_all visible_byte v then Some v else None)"

definition header_str :: "header_map \<Rightarrow> string \<Rightarrow> string option" where
  "header_str hs name = Option.bind (header_get hs name) to_str"

definition strip_prefix :: "'a list \<Rightarrow> 'a list \<Rightarrow> 'a list option" where
  "strip_prefix p s = (if prefix p s then Some (drop (length p) s) else None)"

lemma strip_prefix_Some: "strip_prefix p s = Some t \<longleftrightarrow> s = p @ t"
  by (auto simp: strip_prefix_def prefix_def)

definition is_success :: "status_code \<Rightarrow> bool" where
  "is_success st \<longleftrightarrow> 200 \<le> st \<and> st < 300"

definition is_client_error :: "status_code \<Rightarrow> bool" where
  "is_client_error st \<longleftrightarrow> 400 \<le> st \<and> st < 500"

definition is_server_error :: "status_code \<Rightarrow> bool" where
  "is_server_error st \<longleftrightarrow> 500 \<le> st \<and> st < 600"

text \<open>Hexadecimal numerals, as \<^verbatim>\<open>{:x}\<close> prints them, and their value.\<close>

definition hex_digit :: "nat \<Rightarrow> char" where
  "hex_digit d = (if d < 10 then char_of (48 + d) else char_of (87 + d))"

fun to_hex :: "nat \<Rightarrow> string" where
  "to_hex n = (if n < 16 then [hex_digit n] else to_hex (n div 16) @ [hex_digit (n mod 16)])"

declare to_hex.simps [simp del]

definition hex_value :: "char \<Rightarrow> nat" where
  "hex_value c = (if of_char c < (58 :: nat) then of_char c - 48 else of_char c - 87)"

lemma hex_value_digit: "d < 16 \<Longrightarrow> hex_value (hex_digit d) = d"
  by (auto simp: hex_value_def hex_digit_def)

lemma to_hex_value: "foldl (\<lambda>n c. 16 * n + hex_value c) 0 (to_hex n) = n"
proof (induction n rule: to_hex.induct)
  case (1 n)
  then show ?case
    by (cases "n < 16") (simp_all add: to_hex.simps [of n] hex_value_digit)
qed

lemma to_hex_inj: "to_hex m = to_hex n \<Longrightarrow> m = n"
  by (metis to_hex_value)

end
