(* ===== verification/Auth.thy ===== *)
theory Auth
  imports Core_Model Http Ttl_Store
begin

text \<open>
  Authentication in the data plane: the caching client of the key-validation service,
  \<^verbatim>\<open>services/data-plane/src/auth/validator.rs\<close>, and the middleware that decides whether a request
  may pass, \<^verbatim>\<open>services/data-plane/src/auth.rs\<close>.

  The answer of the validation service is an argument of the operations that call it. So is the
  64-bit hash of the standard library that cache keys are made of: its algorithm is not specified.
\<close>

section \<open>Principals and errors\<close>

record api_principal =
  ap_token :: string
  ap_tenant_id :: "uuid option"
  ap_api_key_id :: "uuid option"
  ap_api_key_group_id :: "uuid option"
  ap_api_key_group_name :: "string option"
  ap_api_key_group_invalid :: bool
  ap_enabled :: bool
  ap_key_ip_allowlist :: "string list"
  ap_key_model_allowlist :: "string list"
  ap_tenant_status :: "string option"
  ap_tenant_expires_at :: "timestamp option"
  ap_balance_microcredits :: "int option"

text \<open>What \<^verbatim>\<open>reqwest::Error\<close> tells the middleware.\<close>

record reqwest_error =
  re_is_connect :: bool
  re_is_timeout :: bool
  re_is_request :: bool
  re_status :: "status_code option"

datatype validate_reply =
    SendFailure reqwest_error
  | HttpReply status_code "reqwest_error + validate_api_key_response"

section \<open>The validator\<close>

record cached_principal =
  cpr_principal :: api_principal
  cpr_expires_at :: instant

record auth_cache_stats =
  as_cache_hit_count :: u64
  as_cache_miss_count :: u64
  as_remote_validate_count :: u64
  as_negative_cache_hit_count :: u64
  as_negative_cache_store_count :: u64

record auth_validator =
  av_validate_url :: string
  av_internal_auth_token :: string
  av_default_cache_ttl :: duration
  av_default_negative_cache_ttl :: duration
  av_cache :: "(string, cached_principal) hash_map"
  av_negative_cache :: "(string, instant) hash_map"
  av_stats :: auth_cache_stats

record auth_cache_evict_result =
  evr_positive_evicted :: bool
  evr_negative_evicted :: bool

definition evicted :: "auth_cache_evict_result \<Rightarrow> bool" where
  "evicted res \<longleftrightarrow> evr_positive_evicted res \<or> evr_negative_evicted res"

datatype auth_cache_lookup_result = PositiveHit api_principal | NegativeHit | LookupMiss

definition zero_auth_stats :: auth_cache_stats where
  "zero_auth_stats =
     \<lparr>as_cache_hit_count = 0, as_cache_miss_count = 0, as_remote_validate_count = 0,
      as_negative_cache_hit_count = 0, as_negative_cache_store_count = 0\<rparr>"

definition auth_validator_new :: "string \<Rightarrow> nat \<Rightarrow> nat \<Rightarrow> string \<Rightarrow> auth_validator" where
  "auth_validator_new validate_url default_cache_ttl_sec default_negative_cache_ttl_sec internal_auth_token =
     \<lparr>av_validate_url = validate_url, av_internal_auth_token = internal_auth_token,
      av_default_cache_ttl = from_secs (max default_cache_ttl_sec 1),
      av_default_negative_cache_ttl = from_secs default_negative_cache_ttl_sec,
      av_cache = [], av_negative_cache = [], av_stats = zero_auth_stats\<rparr>"

definition hash_api_key_token :: "(string \<Rightarrow> u64) \<Rightarrow> string \<Rightarrow> string" where
  "hash_api_key_token default_hasher token = to_hex (unat (default_hasher token))"

definition get_cached_principal ::
  "instant \<Rightarrow> string \<Rightarrow> auth_validator \<Rightarrow> api_principal option \<times> auth_validator" where
  "get_cached_principal now cache_key v =
     (case map_of (av_cache v) cache_key of
        None \<Rightarrow> (None, v)
      | Some cached \<Rightarrow>
          if cpr_expires_at cached > now then (Some (cpr_principal cached), v)
          else (None, v\<lparr>av_cache := hm_remove cache_key (av_cache v)\<rparr>))"

definition is_cached_unauthorized :: "instant \<Rightarrow> string \<Rightarrow> auth_validator \<Rightarrow> bool \<times> auth_validator" where
  "is_cached_unauthorized now cache_key v =
     (case map_of (av_negative_cache v) cache_key of
        None \<Rightarrow> (False, v)
      | Some expires_at \<Rightarrow>
          if expires_at > now then (True, v)
          else (False, v\<lparr>av_negative_cache := hm_remove cache_key (av_negative_cache v)\<rparr>))"

definition insert_cache :: "instant \<Rightarrow> string \<Rightarrow> api_principal \<Rightarrow> nat \<Rightarrow> auth_validator \<Rightarrow> auth_validator" where
  "insert_cache now cache_key prin cache_ttl_sec v =
     (let ttl = (if cache_ttl_sec = 0 then av_default_cache_ttl v else from_secs cache_ttl_sec)
      in v\<lparr>av_cache := hm_insert cache_key
             \<lparr>cpr_principal = prin, cpr_expires_at = now + ttl\<rparr> (av_cache v)\<rparr>)"

definition insert_negative_cache :: "instant \<Rightarrow> string \<Rightarrow> auth_validator \<Rightarrow> auth_validator" where
  "insert_negative_cache now cache_key v =
     (if av_default_negative_cache_ttl v = 0 then v
      else v\<lparr>av_negative_cache := hm_insert cache_key (now + av_default_negative_cache_ttl v)
               (av_negative_cache v)\<rparr>)"

definition principal_of :: "string \<Rightarrow> validate_api_key_response \<Rightarrow> api_principal" where
  "principal_of token payload =
     \<lparr>ap_token = token, ap_tenant_id = Some (vr_tenant_id payload),
      ap_api_key_id = Some (vr_api_key_id payload),
      ap_api_key_group_id = Some (kg_id (vr_group payload)),
      ap_api_key_group_name = Some (kg_name (vr_group payload)),
      ap_api_key_group_invalid = kg_invalid (vr_group payload),
      ap_enabled = vr_enabled payload,
      ap_key_ip_allowlist = kp_ip_allowlist (vr_policy payload),
      ap_key_model_allowlist = kp_model_allowlist (vr_policy payload),
      ap_tenant_status = vr_tenant_status payload,
      ap_tenant_expires_at = vr_tenant_expires_at payload,
      ap_balance_microcredits = vr_balance_microcredits payload\<rparr>"

abbreviation bump_auth :: "(auth_cache_stats \<Rightarrow> auth_cache_stats) \<Rightarrow> auth_validator \<Rightarrow> auth_validator" where
  "bump_auth f v \<equiv> v\<lparr>av_stats := f (av_stats v)\<rparr>"

text \<open>
  \<^verbatim>\<open>error_for_status\<close> turns a reply with a client or server error into an error that carries the
  status and nothing else.
\<close>

definition status_error :: "status_code \<Rightarrow> reqwest_error" where
  "status_error st =
     \<lparr>re_is_connect = False, re_is_timeout = False, re_is_request = False, re_status = Some st\<rparr>"

definition handle_reply ::
  "instant \<Rightarrow> string \<Rightarrow> string \<Rightarrow> validate_reply \<Rightarrow> auth_validator
     \<Rightarrow> (reqwest_error + api_principal option) \<times> auth_validator" where
  "handle_reply now cache_key token reply v =
     (case reply of
        SendFailure err \<Rightarrow> (Inl err, v)
      | HttpReply st body \<Rightarrow>
          if st = 401 then
            (Inr None, bump_auth (as_negative_cache_store_count_update (\<lambda>n. n + 1))
                         (insert_negative_cache now cache_key v))
          else if is_client_error st \<or> is_server_error st then (Inl (status_error st), v)
          else case body of
            Inl err \<Rightarrow> (Inl err, v)
          | Inr payload \<Rightarrow>
              let prin = principal_of token payload
              in (Inr (Some prin), insert_cache now cache_key prin (vr_cache_ttl_sec payload) v))"

definition validate ::
  "(string \<Rightarrow> u64) \<Rightarrow> instant \<Rightarrow> string \<Rightarrow> validate_reply \<Rightarrow> auth_validator
     \<Rightarrow> (reqwest_error + api_principal option) \<times> auth_validator" where
  "validate default_hasher now token reply v =
     (let cache_key = hash_api_key_token default_hasher token
      in case get_cached_principal now cache_key v of
           (Some prin, v1) \<Rightarrow>
             (Inr (Some prin), bump_auth (as_cache_hit_count_update (\<lambda>n. n + 1)) v1)
         | (None, v1) \<Rightarrow>
             (case is_cached_unauthorized now cache_key v1 of
                (True, v2) \<Rightarrow> (Inr None, bump_auth (as_negative_cache_hit_count_update (\<lambda>n. n + 1)) v2)
              | (False, v2) \<Rightarrow>
                  handle_reply now cache_key token reply
                    (bump_auth (as_remote_validate_count_update (\<lambda>n. n + 1))
                      (bump_auth (as_cache_miss_count_update (\<lambda>n. n + 1)) v2))))"

definition cached_principal_total :: "instant \<Rightarrow> auth_validator \<Rightarrow> nat \<times> auth_validator" where
  "cached_principal_total now v =
     (let cache = hm_retain (\<lambda>_ cached. cpr_expires_at cached > now) (av_cache v)
      in (length cache, v\<lparr>av_cache := cache\<rparr>))"

definition cached_negative_total :: "instant \<Rightarrow> auth_validator \<Rightarrow> nat \<times> auth_validator" where
  "cached_negative_total now v =
     (let cache = hm_retain (\<lambda>_ expires_at. expires_at > now) (av_negative_cache v)
      in (length cache, v\<lparr>av_negative_cache := cache\<rparr>))"

definition clear_cache :: "auth_validator \<Rightarrow> nat \<times> auth_validator" where
  "clear_cache v = (length (av_cache v), v\<lparr>av_cache := [], av_negative_cache := []\<rparr>)"

definition evict_key :: "instant \<Rightarrow> string \<Rightarrow> auth_validator \<Rightarrow> auth_cache_evict_result \<times> auth_validator" where
  "evict_key now cache_key v =
     (let cache = (case map_of (av_cache v) cache_key of
                     Some cached \<Rightarrow> if cpr_expires_at cached \<le> now
                       then hm_remove cache_key (av_cache v) else av_cache v
                   | None \<Rightarrow> av_cache v);
          negative_cache = (case map_of (av_negative_cache v) cache_key of
                     Some expires_at \<Rightarrow> if expires_at \<le> now
                       then hm_remove cache_key (av_negative_cache v) else av_negative_cache v
                   | None \<Rightarrow> av_negative_cache v)
      in (\<lparr>evr_positive_evicted = (map_of cache cache_key \<noteq> None),
           evr_negative_evicted = (map_of negative_cache cache_key \<noteq> None)\<rparr>,
          v\<lparr>av_cache := hm_remove cache_key cache,
            av_negative_cache := hm_remove cache_key negative_cache\<rparr>))"

definition evict_token ::
  "(string \<Rightarrow> u64) \<Rightarrow> instant \<Rightarrow> string \<Rightarrow> auth_validator \<Rightarrow> auth_cache_evict_result \<times> auth_validator" where
  "evict_token default_hasher now token v = evict_key now (hash_api_key_token default_hasher token) v"

definition lookup_cached_token ::
  "(string \<Rightarrow> u64) \<Rightarrow> instant \<Rightarrow> string \<Rightarrow> auth_validator \<Rightarrow> auth_cache_lookup_result \<times> auth_validator" where
  "lookup_cached_token default_hasher now token v =
     (let cache_key = hash_api_key_token default_hasher token
      in case get_cached_principal now cache_key v of
           (Some prin, v1) \<Rightarrow> (PositiveHit prin, v1)
         | (None, v1) \<Rightarrow>
             (case is_cached_unauthorized now cache_key v1 of
                (True, v2) \<Rightarrow> (NegativeHit, v2)
              | (False, v2) \<Rightarrow> (LookupMiss, v2)))"

definition cache_stats :: "auth_validator \<Rightarrow> auth_cache_stats" where
  "cache_stats v = av_stats v"

definition reset_cache_stats :: "auth_validator \<Rightarrow> auth_cache_stats \<times> auth_validator" where
  "reset_cache_stats v = (av_stats v, v\<lparr>av_stats := zero_auth_stats\<rparr>)"

section \<open>The middleware\<close>

definition extract_bearer :: "header_map \<Rightarrow> string option" where
  "extract_bearer headers =
     (case header_str headers ''authorization'' of
        None \<Rightarrow> None
      | Some raw \<Rightarrow>
          (case (case strip_prefix ''Bearer '' raw of
                   Some token \<Rightarrow> Some token
                 | None \<Rightarrow> strip_prefix ''bearer '' raw) of
             None \<Rightarrow> None
           | Some token \<Rightarrow> if token = [] then None else Some token))"

definition extract_x_api_key :: "header_map \<Rightarrow> string option" where
  "extract_x_api_key headers = Option.bind (header_str headers ''x-api-key'') trim_nonempty"

definition extract_bearer_or_x_api_key :: "header_map \<Rightarrow> string option" where
  "extract_bearer_or_x_api_key headers =
     (case extract_bearer headers of Some token \<Rightarrow> Some token | None \<Rightarrow> extract_x_api_key headers)"

definition is_fail_open_eligible :: "reqwest_error \<Rightarrow> bool" where
  "is_fail_open_eligible err \<longleftrightarrow>
     re_is_connect err \<or> re_is_timeout err \<or> re_is_request err \<or>
     (case re_status err of None \<Rightarrow> False | Some st \<Rightarrow> is_server_error st)"

text \<open>
  The outcome of the middleware: a response with status, code and message, or the rest of the
  pipeline, run with a principal or without one.
\<close>

datatype auth_outcome = Reject status_code string string | Pass "api_principal option"

definition local_principal :: "string \<Rightarrow> api_principal" where
  "local_principal token =
     \<lparr>ap_token = token, ap_tenant_id = None, ap_api_key_id = None, ap_api_key_group_id = None,
      ap_api_key_group_name = None, ap_api_key_group_invalid = False, ap_enabled = True,
      ap_key_ip_allowlist = [], ap_key_model_allowlist = [], ap_tenant_status = None,
      ap_tenant_expires_at = None, ap_balance_microcredits = None\<rparr>"

definition authorize_with_local_mode ::
  "string set \<Rightarrow> string option \<Rightarrow> string option \<Rightarrow> string \<Rightarrow> auth_outcome" where
  "authorize_with_local_mode allowed_api_keys token extracted missing_token_message =
     (if allowed_api_keys = {} then Pass None
      else case (case token of Some tok \<Rightarrow> Some tok | None \<Rightarrow> extracted) of
             None \<Rightarrow> Reject 401 ''unauthorized'' missing_token_message
           | Some tok \<Rightarrow>
               if tok \<notin> allowed_api_keys then Reject 403 ''forbidden'' ''api key is not allowed''
               else Pass (Some (local_principal tok)))"

record auth_state =
  st_auth_validator :: "auth_validator option"
  st_auth_fail_open :: bool
  st_allowed_api_keys :: "string set"
  st_control_plane_internal_auth_token :: string

definition require_api_key_with_extractor ::
  "(string \<Rightarrow> u64) \<Rightarrow> instant \<Rightarrow> (string \<Rightarrow> validate_reply) \<Rightarrow> string option \<Rightarrow> string \<Rightarrow> auth_state
     \<Rightarrow> auth_outcome \<times> auth_state" where
  "require_api_key_with_extractor default_hasher now service extracted missing_token_message st =
     (case st_auth_validator st of
        None \<Rightarrow>
          (authorize_with_local_mode (st_allowed_api_keys st) None extracted missing_token_message, st)
      | Some v \<Rightarrow>
          (case extracted of
             None \<Rightarrow> (Reject 401 ''unauthorized'' missing_token_message, st)
           | Some token \<Rightarrow>
               (case validate default_hasher now token (service token) v of
                  (res, v1) \<Rightarrow>
                    let st1 = st\<lparr>st_auth_validator := Some v1\<rparr>
                    in case res of
                         Inr (Some prin) \<Rightarrow>
                           if \<not> ap_enabled prin
                           then (Reject 403 ''forbidden'' ''api key is disabled'', st1)
                           else (Pass (Some prin), st1)
                       | Inr None \<Rightarrow> (Reject 401 ''unauthorized'' ''api key is unauthorized'', st1)
                       | Inl err \<Rightarrow>
                           if st_auth_fail_open st \<and> is_fail_open_eligible err
                           then (authorize_with_local_mode (st_allowed_api_keys st) (Some token) extracted
                                   missing_token_message, st1)
                           else (Reject 503 ''service_unavailable'' ''auth validator is unavailable'', st1))))"

definition require_api_key ::
  "(string \<Rightarrow> u64) \<Rightarrow> instant \<Rightarrow> (string \<Rightarrow> validate_reply) \<Rightarrow> header_map \<Rightarrow> auth_state
     \<Rightarrow> auth_outcome \<times> auth_state" where
  "require_api_key default_hasher now service headers st =
     require_api_key_with_extractor default_hasher now service (extract_bearer headers)
       ''missing or invalid bearer token'' st"

definition require_anthropic_api_key ::
  "(string \<Rightarrow> u64) \<Rightarrow> instant \<Rightarrow> (string \<Rightarrow> validate_reply) \<Rightarrow> header_map \<Rightarrow> auth_state
     \<Rightarrow> auth_outcome \<times> auth_state" where
  "require_anthropic_api_key default_hasher now service headers st =
     require_api_key_with_extractor default_hasher now service (extract_bearer_or_x_api_key headers)
       ''missing or invalid api key'' st"

definition require_internal_service_token :: "header_map \<Rightarrow> auth_state \<Rightarrow> auth_outcome" where
  "require_internal_service_token headers st =
     (case extract_bearer headers of
        None \<Rightarrow> Reject 401 ''unauthorized'' ''missing or invalid bearer token''
      | Some token \<Rightarrow>
          if token \<noteq> st_control_plane_internal_auth_token st
          then Reject 401 ''unauthorized'' ''internal bearer token is unauthorized''
          else Pass None)"

end
