(* ===== verification/Auth_Props.thy ===== *)
theory Auth_Props
  imports Auth
begin

text \<open>
  What authentication promises: the two caches of the validator are expiring stores; a principal that
  is served was granted by the validation service for that key within its time to live; who passes the
  middleware, and what the fail-open switch lets through.
\<close>

section \<open>The caches are expiring stores\<close>

definition auth_ok :: "auth_validator \<Rightarrow> bool" where
  "auth_ok v \<longleftrightarrow> hm_ok (av_cache v) \<and> hm_ok (av_negative_cache v) \<and> 0 < av_default_cache_ttl v"

definition principal_at :: "instant \<Rightarrow> auth_validator \<Rightarrow> string \<Rightarrow> api_principal option" where
  "principal_at t v k = map_option cpr_principal (live_value cpr_expires_at t (av_cache v) k)"

definition unauthorized_at :: "instant \<Rightarrow> auth_validator \<Rightarrow> string \<Rightarrow> unit option" where
  "unauthorized_at t v k = map_option (\<lambda>_. ()) (live_value (\<lambda>e. e) t (av_negative_cache v) k)"

definition grant_life :: "auth_validator \<Rightarrow> nat \<Rightarrow> duration" where
  "grant_life v ttl_sec = (if ttl_sec = 0 then av_default_cache_ttl v else from_secs ttl_sec)"

lemma grant_life_pos: "auth_ok v \<Longrightarrow> 0 < grant_life v s"
  by (simp add: grant_life_def auth_ok_def)

lemma evict_key_state:
  "snd (evict_key now k v) =
     v\<lparr>av_cache := hm_remove k (av_cache v), av_negative_cache := hm_remove k (av_negative_cache v)\<rparr>"
  by (auto simp: evict_key_def Let_def delete_idem split: option.split)

lemma get_cached_principal_state:
  "fst (get_cached_principal now k v) = principal_at now v k \<and>
   (now \<le> t \<longrightarrow> principal_at t (snd (get_cached_principal now k v)) = principal_at t v) \<and>
   (\<exists>c. snd (get_cached_principal now k v) = v\<lparr>av_cache := c\<rparr> \<and> set c \<subseteq> set (av_cache v) \<and>
     (hm_ok (av_cache v) \<longrightarrow> hm_ok c))"
proof (cases "map_of (av_cache v) k")
  case None
  have "v = v\<lparr>av_cache := av_cache v\<rparr>" by simp
  with None show ?thesis
    by (auto simp: get_cached_principal_def principal_at_def live_value_def intro!: exI [of _ "av_cache v"])
next
  case (Some c)
  show ?thesis
  proof (cases "cpr_expires_at c > now")
    case True
    with Some show ?thesis
      by (auto simp: get_cached_principal_def principal_at_def live_value_def intro!: exI [of _ "av_cache v"])
  next
    case False
    with Some show ?thesis
      by (auto simp: get_cached_principal_def principal_at_def fun_eq_iff live_value_def map_of_hm_remove
          dest!: subsetD [OF set_hm_remove_subset] intro!: exI [of _ "hm_remove k (av_cache v)"])
  qed
qed

lemma is_cached_unauthorized_state:
  "fst (is_cached_unauthorized now k v) = (unauthorized_at now v k \<noteq> None) \<and>
   (now \<le> t \<longrightarrow> unauthorized_at t (snd (is_cached_unauthorized now k v)) = unauthorized_at t v) \<and>
   (\<exists>c. snd (is_cached_unauthorized now k v) = v\<lparr>av_negative_cache := c\<rparr> \<and>
     set c \<subseteq> set (av_negative_cache v) \<and> (hm_ok (av_negative_cache v) \<longrightarrow> hm_ok c))"
proof (cases "map_of (av_negative_cache v) k")
  case None
  then show ?thesis
    by (auto simp: is_cached_unauthorized_def unauthorized_at_def live_value_def
        intro!: exI [of _ "av_negative_cache v"])
next
  case (Some e)
  show ?thesis
  proof (cases "e > now")
    case True
    with Some show ?thesis
      by (auto simp: is_cached_unauthorized_def unauthorized_at_def live_value_def
          intro!: exI [of _ "av_negative_cache v"])
  next
    case False
    with Some show ?thesis
      by (auto simp: is_cached_unauthorized_def unauthorized_at_def fun_eq_iff live_value_def
          map_of_hm_remove dest!: subsetD [OF set_hm_remove_subset]
          intro!: exI [of _ "hm_remove k (av_negative_cache v)"])
  qed
qed

interpretation grants: expiring_store auth_ok principal_at get_cached_principal
  "\<lambda>t k (p, s). insert_cache t k p s" "\<lambda>k v. snd (evict_key 0 k v)" fst "\<lambda>v a. grant_life v (snd a)"
proof
  fix v t t' k a and p :: api_principal assume ok: "auth_ok v"
  show "fst (get_cached_principal t k v) = principal_at t v k"
    using get_cached_principal_state by blast
  show "principal_at t' (snd (get_cached_principal t k v)) = principal_at t' v" if "t \<le> t'"
    using get_cached_principal_state that by blast
  obtain c where "snd (get_cached_principal t k v) = v\<lparr>av_cache := c\<rparr>" "hm_ok c"
    using get_cached_principal_state [of t k v] ok by (auto simp: auth_ok_def)
  then show "auth_ok (snd (get_cached_principal t k v))" using ok by (simp add: auth_ok_def)
  show "principal_at t' ((case a of (p, s) \<Rightarrow> insert_cache t k p s) v) =
      (principal_at t' v)(k := if t' < t + grant_life v (snd a) then Some (fst a) else None)"
    by (auto simp: principal_at_def insert_cache_def grant_life_def Let_def live_value_insert fun_eq_iff
        split: prod.split)
  show "auth_ok ((case a of (p, s) \<Rightarrow> insert_cache t k p s) v)"
    using ok by (auto simp: insert_cache_def auth_ok_def Let_def split: prod.split)
  show "principal_at t (snd (evict_key 0 k v)) = (principal_at t v)(k := None)"
    by (simp add: evict_key_state principal_at_def live_value_remove fun_eq_iff)
  show "auth_ok (snd (evict_key 0 k v))" using ok by (simp add: evict_key_state auth_ok_def)
  show "principal_at t v k = Some p" if "t \<le> t'" "principal_at t' v k = Some p"
    using that by (auto simp: principal_at_def dest: live_value_fades)
qed

interpretation denials: expiring_store auth_ok unauthorized_at
  "\<lambda>t k v. (if fst (is_cached_unauthorized t k v) then Some () else None, snd (is_cached_unauthorized t k v))"
  "\<lambda>t k (_ :: unit). insert_negative_cache t k" "\<lambda>k v. snd (evict_key 0 k v)" "\<lambda>_. ()"
  "\<lambda>v _. av_default_negative_cache_ttl v"
proof
  fix v t t' k and a u :: unit assume ok: "auth_ok v"
  show "fst (if fst (is_cached_unauthorized t k v) then Some () else None,
      snd (is_cached_unauthorized t k v)) = unauthorized_at t v k"
    using is_cached_unauthorized_state [of t k v] by (cases "unauthorized_at t v k") auto
  show "unauthorized_at t' (snd (if fst (is_cached_unauthorized t k v) then Some () else None,
      snd (is_cached_unauthorized t k v))) = unauthorized_at t' v" if "t \<le> t'"
    using is_cached_unauthorized_state [of t k v t'] that by simp
  obtain c where "snd (is_cached_unauthorized t k v) = v\<lparr>av_negative_cache := c\<rparr>" "hm_ok c"
    using is_cached_unauthorized_state [of t k v] ok by (auto simp: auth_ok_def)
  then show "auth_ok (snd (if fst (is_cached_unauthorized t k v) then Some () else None,
      snd (is_cached_unauthorized t k v)))" using ok by (simp add: auth_ok_def)
  show "unauthorized_at t' (insert_negative_cache t k v) = (unauthorized_at t' v)
      (k := if t' < t + av_default_negative_cache_ttl v then Some () else None)"
    if "0 < av_default_negative_cache_ttl v"
    using that by (simp add: unauthorized_at_def insert_negative_cache_def live_value_insert fun_eq_iff)
  show "auth_ok (insert_negative_cache t k v)"
    using ok by (simp add: insert_negative_cache_def auth_ok_def)
  show "unauthorized_at t (snd (evict_key 0 k v)) = (unauthorized_at t v)(k := None)"
    by (simp add: evict_key_state unauthorized_at_def live_value_remove fun_eq_iff)
  show "auth_ok (snd (evict_key 0 k v))" using ok by (simp add: evict_key_state auth_ok_def)
  show "unauthorized_at t v k = Some u" if "t \<le> t'" "unauthorized_at t' v k = Some u"
    using that by (auto simp: unauthorized_at_def dest: live_value_fades)
qed

section \<open>Reachable states, with a record of what the service said\<close>

text \<open>
  \<open>auth_reachable H now G D v\<close>: the validator can be in state \<open>v\<close> at time \<open>now\<close>, when the service
  granted the keys of \<open>G\<close> and denied those of \<open>D\<close>, each with the time of the answer. \<open>H\<close> is the hash.
\<close>

fun granted_by :: "instant \<Rightarrow> string \<Rightarrow> validate_reply \<Rightarrow> (instant \<times> string \<times> validate_api_key_response) list" where
  "granted_by now token (HttpReply st (Inr payload)) =
     (if is_client_error st \<or> is_server_error st then [] else [(now, token, payload)])"
| "granted_by now token _ = []"

fun denied_by :: "instant \<Rightarrow> string \<Rightarrow> validate_reply \<Rightarrow> (instant \<times> string) list" where
  "denied_by now token (HttpReply st _) = (if st = 401 then [(now, token)] else [])"
| "denied_by now token _ = []"

inductive auth_reachable ::
  "(string \<Rightarrow> u64) \<Rightarrow> instant \<Rightarrow> (instant \<times> string \<times> validate_api_key_response) list \<Rightarrow>
   (instant \<times> string) list \<Rightarrow> auth_validator \<Rightarrow> bool" for H where
  auth_init: "auth_reachable H now [] [] (auth_validator_new url ttl_sec negative_ttl_sec secret)"
| auth_tick: "auth_reachable H now G D v \<Longrightarrow> now \<le> t \<Longrightarrow> auth_reachable H t G D v"
| auth_cached: "auth_reachable H now G D v \<Longrightarrow> fst (lookup_cached_token H now token v) \<noteq> LookupMiss \<Longrightarrow>
    auth_reachable H now G D (snd (validate H now token reply v))"
| auth_asked: "auth_reachable H now G D v \<Longrightarrow> fst (lookup_cached_token H now token v) = LookupMiss \<Longrightarrow>
    auth_reachable H now (granted_by now token reply @ G) (denied_by now token reply @ D)
      (snd (validate H now token reply v))"
| auth_evict: "auth_reachable H now G D v \<Longrightarrow> auth_reachable H now G D (snd (evict_token H now token v))"
| auth_clear: "auth_reachable H now G D v \<Longrightarrow> auth_reachable H now G D (snd (clear_cache v))"
| auth_total: "auth_reachable H now G D v \<Longrightarrow> auth_reachable H now G D (snd (cached_principal_total now v))"
| auth_negative_total: "auth_reachable H now G D v \<Longrightarrow> auth_reachable H now G D (snd (cached_negative_total now v))"
| auth_reset: "auth_reachable H now G D v \<Longrightarrow> auth_reachable H now G D (snd (reset_cache_stats v))"

definition granted_entry ::
  "(string \<Rightarrow> u64) \<Rightarrow> (instant \<times> string \<times> validate_api_key_response) list \<Rightarrow> duration \<Rightarrow>
   string \<times> cached_principal \<Rightarrow> bool" where
  "granted_entry H G dflt kc \<longleftrightarrow>
     (\<exists>t token payload. (t, token, payload) \<in> set G \<and>
        fst kc = hash_api_key_token H token \<and> cpr_principal (snd kc) = principal_of token payload \<and>
        cpr_expires_at (snd kc) =
          t + (if vr_cache_ttl_sec payload = 0 then dflt else from_secs (vr_cache_ttl_sec payload)))"

definition denied_entry ::
  "(string \<Rightarrow> u64) \<Rightarrow> (instant \<times> string) list \<Rightarrow> duration \<Rightarrow> string \<times> instant \<Rightarrow> bool" where
  "denied_entry H D dflt ke \<longleftrightarrow>
     (\<exists>t token. (t, token) \<in> set D \<and> fst ke = hash_api_key_token H token \<and> snd ke = t + dflt)"

definition auth_inv ::
  "(string \<Rightarrow> u64) \<Rightarrow> (instant \<times> string \<times> validate_api_key_response) list \<Rightarrow> (instant \<times> string) list \<Rightarrow>
   auth_validator \<Rightarrow> bool" where
  "auth_inv H G D v \<longleftrightarrow>
     auth_ok v \<and>
     (\<forall>kc \<in> set (av_cache v). granted_entry H G (av_default_cache_ttl v) kc) \<and>
     (\<forall>ke \<in> set (av_negative_cache v). denied_entry H D (av_default_negative_cache_ttl v) ke)"

lemma entries_mono:
  "set G \<subseteq> set G' \<Longrightarrow> granted_entry H G d kc \<Longrightarrow> granted_entry H G' d kc"
  "set D \<subseteq> set D' \<Longrightarrow> denied_entry H D d ke \<Longrightarrow> denied_entry H D' d ke"
  unfolding granted_entry_def denied_entry_def by blast+

lemma auth_inv_weaken:
  assumes "auth_inv H G D v" "set G \<subseteq> set G'" "set D \<subseteq> set D'"
    and "set (av_cache v') \<subseteq> set (av_cache v)" "set (av_negative_cache v') \<subseteq> set (av_negative_cache v)"
    and "auth_ok v'" "av_default_cache_ttl v' = av_default_cache_ttl v"
    and "av_default_negative_cache_ttl v' = av_default_negative_cache_ttl v"
  shows "auth_inv H G' D' v'"
  using assms entries_mono(1) [OF assms(2)] entries_mono(2) [OF assms(3)]
  unfolding auth_inv_def by (metis subsetD)

text \<open>A lookup leaves a state that differs by expired entries only.\<close>

definition looked_up :: "auth_validator \<Rightarrow> auth_validator \<Rightarrow> bool" where
  "looked_up v v' \<longleftrightarrow>
     set (av_cache v') \<subseteq> set (av_cache v) \<and> set (av_negative_cache v') \<subseteq> set (av_negative_cache v) \<and>
     (auth_ok v \<longrightarrow> auth_ok v') \<and> av_default_cache_ttl v' = av_default_cache_ttl v \<and>
     av_default_negative_cache_ttl v' = av_default_negative_cache_ttl v"

lemma looked_up_inv: "auth_inv H G D v \<Longrightarrow> looked_up v v' \<Longrightarrow> auth_inv H G D v'"
  by (rule auth_inv_weaken [of H G D v]) (auto simp: looked_up_def auth_inv_def)

lemma looked_up_stats [simp]: "looked_up v (v'\<lparr>av_stats := s\<rparr>) \<longleftrightarrow> looked_up v v'"
  by (simp add: looked_up_def auth_ok_def)

lemma looked_up_trans: "looked_up v v1 \<Longrightarrow> looked_up v1 v2 \<Longrightarrow> looked_up v v2"
  by (auto simp: looked_up_def)

lemma lookups_looked_up:
  "looked_up v (snd (get_cached_principal now k v))" "looked_up v (snd (is_cached_unauthorized now k v))"
proof -
  obtain c where "snd (get_cached_principal now k v) = v\<lparr>av_cache := c\<rparr>" "set c \<subseteq> set (av_cache v)"
    "hm_ok (av_cache v) \<longrightarrow> hm_ok c" using get_cached_principal_state by blast
  then show "looked_up v (snd (get_cached_principal now k v))"
    by (simp add: looked_up_def auth_ok_def)
  obtain c where "snd (is_cached_unauthorized now k v) = v\<lparr>av_negative_cache := c\<rparr>"
    "set c \<subseteq> set (av_negative_cache v)" "hm_ok (av_negative_cache v) \<longrightarrow> hm_ok c"
    using is_cached_unauthorized_state by blast
  then show "looked_up v (snd (is_cached_unauthorized now k v))"
    by (simp add: looked_up_def auth_ok_def)
qed

lemma validate_cases:
  obtains (hit) p v' where "principal_at now v (hash_api_key_token H token) = Some p"
      "fst (lookup_cached_token H now token v) = PositiveHit p"
      "validate H now token reply v = (Inr (Some p), v')" "looked_up v v'"
  | (negative) v' where "unauthorized_at now v (hash_api_key_token H token) \<noteq> None"
      "fst (lookup_cached_token H now token v) = NegativeHit"
      "validate H now token reply v = (Inr None, v')" "looked_up v v'"
  | (ask) v' where "fst (lookup_cached_token H now token v) = LookupMiss"
      "validate H now token reply v = handle_reply now (hash_api_key_token H token) token reply v'"
      "looked_up v v'"
proof -
  let ?k = "hash_api_key_token H token"
  obtain p v1 where 1: "get_cached_principal now ?k v = (p, v1)" by fastforce
  obtain d v2 where 2: "is_cached_unauthorized now ?k v1 = (d, v2)" by fastforce
  have l1: "looked_up v v1" using lookups_looked_up(1) [of v now ?k] 1 by simp
  have l2: "looked_up v v2" using looked_up_trans [OF l1 lookups_looked_up(2) [of v1 now ?k]] 2 by simp
  have p: "p = principal_at now v ?k" using get_cached_principal_state [of now ?k v] 1 by simp
  obtain c where "v1 = v\<lparr>av_cache := c\<rparr>"
    using get_cached_principal_state [of now ?k v now] 1 by auto
  then have "unauthorized_at now v1 = unauthorized_at now v"
    by (simp add: unauthorized_at_def fun_eq_iff)
  then have d: "d = (unauthorized_at now v ?k \<noteq> None)"
    using is_cached_unauthorized_state [of now ?k v1] 2 by simp
  show ?thesis
  proof (cases p)
    case (Some q)
    then show ?thesis
      by (intro hit [of q "snd (validate H now token reply v)"])
        (use 1 p l1 in \<open>simp_all add: lookup_cached_token_def validate_def Let_def\<close>)
  next
    case None
    show ?thesis
    proof (cases d)
      case True
      with None show ?thesis
        by (intro negative [of "snd (validate H now token reply v)"])
          (use 1 2 d l2 in \<open>simp_all add: lookup_cached_token_def validate_def Let_def\<close>)
    next
      case False
      with None show ?thesis
        by (intro ask [of "bump_auth (as_remote_validate_count_update (\<lambda>n. n + 1))
              (bump_auth (as_cache_miss_count_update (\<lambda>n. n + 1)) v2)"])
          (use 1 2 l2 in \<open>simp_all add: lookup_cached_token_def validate_def Let_def\<close>)
    qed
  qed
qed

lemma handle_reply_inv:
  assumes "auth_inv H G D v"
  shows "auth_inv H (granted_by now token reply @ G) (denied_by now token reply @ D)
    (snd (handle_reply now (hash_api_key_token H token) token reply v))"
proof -
  have keep: "auth_inv H G' D' v" if "set G \<subseteq> set G'" "set D \<subseteq> set D'" for G' D'
    by (rule auth_inv_weaken [OF assms that]) (use assms in \<open>simp_all add: auth_inv_def\<close>)
  show ?thesis
  proof (cases reply)
    case (HttpReply st body)
    consider "st = 401" | "st \<noteq> 401" "is_client_error st \<or> is_server_error st \<or> isl body"
      | payload where "st \<noteq> 401" "\<not> is_client_error st" "\<not> is_server_error st" "body = Inr payload"
      by (cases body) auto
    then show ?thesis
    proof cases
      case 1
      let ?e = "now + av_default_negative_cache_ttl v" and ?k = "hash_api_key_token H token"
      have "auth_inv H (granted_by now token reply @ G) ((now, token) # D) v" by (rule keep) auto
      moreover have "denied_entry H ((now, token) # D) (av_default_negative_cache_ttl v) (?k, ?e)"
        by (force simp: denied_entry_def)
      ultimately show ?thesis
        using 1 HttpReply set_hm_insert_subset [of ?k ?e "av_negative_cache v"]
        by (auto simp: handle_reply_def insert_negative_cache_def auth_inv_def auth_ok_def)
    next
      case 2
      then have "snd (handle_reply now (hash_api_key_token H token) token reply v) = v"
        using HttpReply by (cases body) (auto simp: handle_reply_def)
      with keep show ?thesis by simp
    next
      case 3
      let ?c = "\<lparr>cpr_principal = principal_of token payload,
        cpr_expires_at = now + grant_life v (vr_cache_ttl_sec payload)\<rparr>"
      let ?k = "hash_api_key_token H token"
      have inv: "auth_inv H ((now, token, payload) # G) (denied_by now token reply @ D) v"
        by (rule keep) auto
      have ent: "granted_entry H ((now, token, payload) # G) (av_default_cache_ttl v) (?k, ?c)"
        by (force simp: granted_entry_def grant_life_def)
      have st: "snd (handle_reply now ?k token reply v) = v\<lparr>av_cache := hm_insert ?k ?c (av_cache v)\<rparr>"
        using 3 HttpReply by (simp add: handle_reply_def insert_cache_def grant_life_def Let_def)
      have "granted_by now token reply @ G = (now, token, payload) # G"
        using 3 HttpReply by simp
      with inv ent show ?thesis
        using set_hm_insert_subset [of ?k ?c "av_cache v"] unfolding st auth_inv_def
        by (auto simp: auth_ok_def)
    qed
  qed (simp add: handle_reply_def assms)
qed

lemma auth_reachable_inv: "auth_reachable H now G D v \<Longrightarrow> auth_inv H G D v"
proof (induction rule: auth_reachable.induct)
  case (auth_init now url ttl_sec negative_ttl_sec secret)
  then show ?case by (auto simp: auth_inv_def auth_ok_def auth_validator_new_def less_max_iff_disj)
next
  case (auth_cached now G D v token reply)
  show ?case
    by (cases rule: validate_cases [of now v H token reply])
      (use auth_cached looked_up_inv in auto)
next
  case (auth_asked now G D v token reply)
  show ?case
  proof (cases rule: validate_cases [of now v H token reply])
    case (ask v')
    with auth_asked.IH looked_up_inv have "auth_inv H G D v'" by blast
    then show ?thesis using handle_reply_inv [of H G D v'] ask by simp
  qed (use auth_asked in auto)
next
  case (auth_evict now G D v token)
  have "looked_up v (snd (evict_token H now token v))"
    by (simp add: evict_token_def evict_key_state looked_up_def auth_ok_def set_hm_remove_subset)
  with auth_evict show ?case by (blast intro: looked_up_inv)
next
  case (auth_clear now G D v)
  then show ?case by (auto simp: clear_cache_def auth_inv_def auth_ok_def)
next
  case (auth_total now G D v)
  have "looked_up v (snd (cached_principal_total now v))"
    by (auto simp: cached_principal_total_def looked_up_def auth_ok_def Let_def set_hm_retain)
  with auth_total show ?case by (blast intro: looked_up_inv)
next
  case (auth_negative_total now G D v)
  have "looked_up v (snd (cached_negative_total now v))"
    by (auto simp: cached_negative_total_def looked_up_def auth_ok_def Let_def set_hm_retain)
  with auth_negative_total show ?case by (blast intro: looked_up_inv)
next
  case (auth_reset now G D v)
  then show ?case by (auto simp: reset_cache_stats_def auth_inv_def auth_ok_def grant_life_def)
qed

section \<open>Properties\<close>

text \<open>
  Only what the service granted is served, and not for longer than it said. If the validator
  accepts a key, then either the service was asked just now and granted it, or the cache holds a grant
  the service gave earlier for a key with the same hash whose time to live (the one the service named,
  or the default if it named none) has not passed; the principal is the one of that grant.
\<close>

theorem validate_authentic:
  assumes "auth_reachable H now G D v"
    and "validate H now token reply v = (Inr (Some p), v')"
  shows "(\<exists>st payload. reply = HttpReply st (Inr payload) \<and> \<not> is_client_error st \<and> \<not> is_server_error st \<and>
      p = principal_of token payload) \<or>
    (\<exists>t token' payload. (t, token', payload) \<in> set G \<and> H token' = H token \<and>
      p = principal_of token' payload \<and>
      now < t + (if vr_cache_ttl_sec payload = 0 then av_default_cache_ttl v
                 else from_secs (vr_cache_ttl_sec payload)))"
proof (cases rule: validate_cases [of now v H token reply])
  case (hit q v1)
  then obtain c where c: "map_of (av_cache v) (hash_api_key_token H token) = Some c"
    "now < cpr_expires_at c" "cpr_principal c = p"
    using assms(2) by (auto simp: principal_at_def live_value_def split: option.splits if_splits)
  have "granted_entry H G (av_default_cache_ttl v) (hash_api_key_token H token, c)"
    using auth_reachable_inv [OF assms(1)] map_of_SomeD [OF c(1)] by (auto simp: auth_inv_def)
  then show ?thesis
    using c(2,3) to_hex_inj word_unat_eq_iff
    unfolding granted_entry_def hash_api_key_token_def by (metis fst_conv snd_conv)
next
  case (ask v1)
  with assms(2) show ?thesis
    by (auto simp: handle_reply_def Let_def split: validate_reply.splits if_splits sum.splits)
qed (use assms in auto)

text \<open>
  Denials are not invented either. If the validator turns a key away as unauthorized, then the
  service has just answered 401, or it answered 401 for a key with the same hash less than the
  negative time to live ago.
\<close>

theorem validate_denial_authentic:
  assumes "auth_reachable H now G D v"
    and "validate H now token reply v = (Inr None, v')"
  shows "(\<exists>body. reply = HttpReply 401 body) \<or>
    (\<exists>t token'. (t, token') \<in> set D \<and> H token' = H token \<and> now < t + av_default_negative_cache_ttl v)"
proof (cases rule: validate_cases [of now v H token reply])
  case (negative v1)
  then obtain e where e: "map_of (av_negative_cache v) (hash_api_key_token H token) = Some e" "now < e"
    by (auto simp: unauthorized_at_def live_value_def split: option.splits if_splits)
  have "denied_entry H D (av_default_negative_cache_ttl v) (hash_api_key_token H token, e)"
    using auth_reachable_inv [OF assms(1)] map_of_SomeD [OF e(1)] by (auto simp: auth_inv_def)
  then show ?thesis
    using e(2) to_hex_inj word_unat_eq_iff
    unfolding denied_entry_def hash_api_key_token_def by (metis fst_conv snd_conv)
next
  case (ask v1)
  with assms(2) show ?thesis
    by (auto simp: handle_reply_def Let_def split: validate_reply.splits if_splits sum.splits)
qed (use assms in auto)

text \<open>A grant of the demo key, and the validator that has seen it at time 0.\<close>

definition demo_grant :: validate_api_key_response where
  "demo_grant =
     \<lparr>vr_tenant_id = 1, vr_api_key_id = 2, vr_enabled = True,
      vr_group = \<lparr>kg_id = 3, kg_name = ''default'', kg_invalid = False\<rparr>,
      vr_policy = \<lparr>kp_ip_allowlist = [], kp_model_allowlist = []\<rparr>,
      vr_tenant_status = None, vr_tenant_expires_at = None, vr_balance_microcredits = None,
      vr_cache_ttl_sec = 60\<rparr>"

definition demo_validator :: "(string \<Rightarrow> u64) \<Rightarrow> auth_validator" where
  "demo_validator H =
     snd (validate H 0 ''key'' (HttpReply 200 (Inr demo_grant)) (auth_validator_new ''u'' 30 10 ''s''))"

lemma demo_validator_reachable: "auth_reachable H now [(0, ''key'', demo_grant)] [] (demo_validator H)"
proof -
  have "auth_reachable H 0 (granted_by 0 ''key'' (HttpReply 200 (Inr demo_grant)) @ [])
      (denied_by 0 ''key'' (HttpReply 200 (Inr demo_grant)) @ []) (demo_validator H)"
    unfolding demo_validator_def
    by (rule auth_asked [OF auth_init])
      (simp add: lookup_cached_token_def get_cached_principal_def is_cached_unauthorized_def
        auth_validator_new_def Let_def)
  then have "auth_reachable H 0 [(0, ''key'', demo_grant)] [] (demo_validator H)"
    by (simp add: is_client_error_def is_server_error_def)
  then show ?thesis by (rule auth_tick) simp
qed

definition demo_hash :: "string \<Rightarrow> u64" where
  "demo_hash s = of_nat (length s)"

theorem validate_authentic_witness:
  "\<exists>t token' payload. (t, token', payload) \<in> set [(0, ''key'', demo_grant)] \<and>
     demo_hash token' = demo_hash ''key'' \<and> principal_of ''key'' demo_grant = principal_of token' payload \<and>
     from_secs 59 < t + (if vr_cache_ttl_sec payload = 0 then av_default_cache_ttl (demo_validator demo_hash)
       else from_secs (vr_cache_ttl_sec payload))"
proof -
  let ?v = "validate demo_hash (from_secs 59) ''key'' (HttpReply 500 (Inr demo_grant)) (demo_validator demo_hash)"
  have "?v = (Inr (Some (principal_of ''key'' demo_grant)), snd ?v)"
    by (rule prod_eqI) (simp_all, code_simp)
  from validate_authentic [OF demo_validator_reachable this] show ?thesis
    by (auto simp: is_server_error_def)
qed

theorem validate_denial_authentic_witness:
  "\<exists>body. HttpReply 401 (Inr demo_grant) = HttpReply 401 body"
proof -
  let ?v = "validate demo_hash (from_secs 70) ''key'' (HttpReply 401 (Inr demo_grant)) (demo_validator demo_hash)"
  have "?v = (Inr None, snd ?v)"
    by (rule prod_eqI) (simp_all, code_simp)
  from validate_denial_authentic [OF demo_validator_reachable this] show ?thesis by auto
qed

text \<open>
  The cache identifies a key by 64 bits of hash only: a key the service never saw is accepted as
  another key's principal when the hashes collide.
\<close>

lemma validate_hash_collision:
  assumes "H other = H ''key''"
  shows "fst (validate H 1 other (HttpReply 401 (Inr demo_grant)) (demo_validator H)) =
    Inr (Some (principal_of ''key'' demo_grant))"
  using assms
  by (simp add: demo_validator_def validate_def hash_api_key_token_def get_cached_principal_def
      is_cached_unauthorized_def handle_reply_def insert_cache_def auth_validator_new_def demo_grant_def
      is_client_error_def is_server_error_def from_secs_def Let_def)

text \<open>
  Who passes. With a validator configured, a request passes exactly if it carries a key and
  either the validator accepts the key and the key is enabled, or fail-open is on, the validator
  failed in a way that is eligible (connection, timeout, request, or a 5xx answer), and the local list
  of keys is empty or has the key. In the first case it passes as the validated principal.
\<close>

theorem require_api_key_passes:
  assumes "st_auth_validator st = Some v"
  shows "fst (require_api_key_with_extractor H now service extracted msg st) = Pass q \<longleftrightarrow>
    (\<exists>token. extracted = Some token \<and>
      ((\<exists>p. fst (validate H now token (service token) v) = Inr (Some p) \<and> ap_enabled p \<and> q = Some p) \<or>
       (\<exists>err. fst (validate H now token (service token) v) = Inl err \<and>
          st_auth_fail_open st \<and> is_fail_open_eligible err \<and>
          (if st_allowed_api_keys st = {} then q = None
           else token \<in> st_allowed_api_keys st \<and> q = Some (local_principal token)))))"
  using assms
  by (auto simp: require_api_key_with_extractor_def authorize_with_local_mode_def Let_def
      split: option.splits prod.splits sum.splits if_splits)

theorem require_api_key_passes_witness:
  "fst (require_api_key_with_extractor demo_hash 1 (\<lambda>_. HttpReply 503 (Inr demo_grant)) (Some ''key'') ''m''
     \<lparr>st_auth_validator = Some (demo_validator demo_hash), st_auth_fail_open = False,
      st_allowed_api_keys = {}, st_control_plane_internal_auth_token = ''s''\<rparr>) =
   Pass (Some (principal_of ''key'' demo_grant))"
proof -
  have "fst (validate demo_hash 1 ''key'' (HttpReply 503 (Inr demo_grant)) (demo_validator demo_hash)) =
      Inr (Some (principal_of ''key'' demo_grant))" by code_simp
  moreover have "ap_enabled (principal_of ''key'' demo_grant)" by code_simp
  ultimately show ?thesis
    by (subst require_api_key_passes [where v = "demo_validator demo_hash"]) simp_all
qed

end
