(* ===== verification/Cost.thy ===== *)
theory Cost
  imports Prelude
begin

text \<open>
  Cost of a request, \<^verbatim>\<open>services/control-plane/src/cost.rs\<close>: charges in millionths of a unit from
  token counts and prices per million tokens, computed in \<^verbatim>\<open>i128\<close> and rounded to the nearest
  millionth. Every value of type \<^verbatim>\<open>i64\<close> is an integer; the saturating operations are written out.
\<close>

record token_price_microusd =
  tp_input_price :: int
  tp_cached_input_price :: int
  tp_output_price :: int

definition price_per_million_tokens_scale :: int where
  "price_per_million_tokens_scale = 1000000"

definition charge_tokens_by_per_million_price :: "int \<Rightarrow> int \<Rightarrow> int" where
  "charge_tokens_by_per_million_price tokens price =
     (let normalized_tokens = max tokens 0;
          normalized_price = max price 0
      in if normalized_tokens = 0 \<or> normalized_price = 0 then 0
         else let numerator = sat_i128 (sat_i128 (normalized_tokens * normalized_price)
                                 + price_per_million_tokens_scale div 2);
                  charged = numerator div price_per_million_tokens_scale
              in clamp charged 0 i64_max)"

definition calculate_estimated_cost_microusd :: "int \<Rightarrow> int \<Rightarrow> int \<Rightarrow> token_price_microusd \<Rightarrow> int" where
  "calculate_estimated_cost_microusd input_tokens cached_input_tokens output_tokens pricing =
     (let normalized_input_tokens = max input_tokens 0;
          normalized_cached_input_tokens = min (max cached_input_tokens 0) normalized_input_tokens;
          billable_input_tokens = sat_i64 (normalized_input_tokens - normalized_cached_input_tokens);
          normalized_output_tokens = max output_tokens 0;
          input_charge = charge_tokens_by_per_million_price billable_input_tokens (tp_input_price pricing);
          cached_input_charge = charge_tokens_by_per_million_price normalized_cached_input_tokens
            (tp_cached_input_price pricing);
          output_charge = charge_tokens_by_per_million_price normalized_output_tokens (tp_output_price pricing)
      in sat_i64 (sat_i64 (input_charge + cached_input_charge) + output_charge))"

section \<open>Rounding\<close>

lemma mult_fits_i128:
  assumes "is_i64 a" "is_i64 b" "0 \<le> a" "0 \<le> b"
  shows "sat_i128 (a * b) = a * b \<and> sat_i128 (a * b + 500000) = a * b + 500000"
proof -
  have "a * b \<le> i64_max * i64_max"
    using assms by (intro mult_mono) (auto simp: is_i64_def)
  moreover have "0 \<le> a * b" using assms by simp
  ultimately show ?thesis by (auto simp: sat_i128_def sat_simps)
qed

lemma charge_eq:
  assumes "is_i64 tokens" "is_i64 price"
  shows "charge_tokens_by_per_million_price tokens price =
    min i64_max ((max tokens 0 * max price 0 + 500000) div 1000000)"
proof (cases "max tokens 0 = 0 \<or> max price 0 = 0")
  case True
  then show ?thesis
    by (auto simp: charge_tokens_by_per_million_price_def sat_simps Let_def)
next
  case False
  then have pos: "0 < tokens" "0 < price" by auto
  have "0 \<le> (tokens * price + 500000) div 1000000"
    using pos by (intro pos_imp_zdiv_nonneg_iff [THEN iffD2]) auto
  with pos mult_fits_i128 [OF assms] show ?thesis
    by (auto simp: charge_tokens_by_per_million_price_def price_per_million_tokens_scale_def clamp_def Let_def
        sat_simps)
qed

lemma charge_bounds:
  assumes "is_i64 tokens" "is_i64 price"
  shows "0 \<le> charge_tokens_by_per_million_price tokens price"
    "charge_tokens_by_per_million_price tokens price \<le> i64_max"
proof -
  have "0 \<le> (max tokens 0 * max price 0 + 500000) div 1000000"
    by (intro pos_imp_zdiv_nonneg_iff [THEN iffD2]) auto
  then show "0 \<le> charge_tokens_by_per_million_price tokens price"
    by (simp add: charge_eq [OF assms] sat_simps)
  show "charge_tokens_by_per_million_price tokens price \<le> i64_max"
    by (simp add: charge_eq [OF assms])
qed

lemma charge_mono:
  assumes "is_i64 t" "is_i64 t'" "is_i64 p" "is_i64 p'" "t \<le> t'" "p \<le> p'"
  shows "charge_tokens_by_per_million_price t p \<le> charge_tokens_by_per_million_price t' p'"
proof -
  have "max t 0 * max p 0 \<le> max t' 0 * max p' 0"
    using assms(5,6) by (intro mult_mono max.mono) simp_all
  then have "(max t 0 * max p 0 + 500000) div 1000000 \<le> (max t' 0 * max p' 0 + 500000) div 1000000"
    by (intro zdiv_mono1) auto
  then show ?thesis
    unfolding charge_eq [OF assms(1,3)] charge_eq [OF assms(2,4)] by (rule min.mono [OF order_refl])
qed

lemma round_div:
  fixes n :: int
  shows "\<bar>1000000 * ((n + 500000) div 1000000) - n\<bar> \<le> 500000"
proof -
  have "1000000 * ((n + 500000) div 1000000) = n + 500000 - (n + 500000) mod 1000000"
    by (simp add: minus_mod_eq_mult_div [symmetric])
  moreover have "0 \<le> (n + 500000) mod 1000000" "(n + 500000) mod 1000000 < 1000000" by simp_all
  ultimately show ?thesis by (simp add: abs_le_iff)
qed

text \<open>
  A charge is the exact price rounded to the nearest millionth. For all 64-bit token counts and
  prices, the charge differs from tokens times price per million by at most half a millionth, unless
  the exact value exceeds what 64 bits hold, in which case the charge is the largest 64-bit value;
  the intermediate 128-bit arithmetic never saturates.
\<close>

theorem charge_rounds_to_nearest:
  assumes "is_i64 tokens" "is_i64 price"
  shows "(let exact = max tokens 0 * max price 0;
              charge = charge_tokens_by_per_million_price tokens price
          in 0 \<le> charge \<and> charge \<le> i64_max \<and>
             (if exact + 500000 < 1000000 * (i64_max + 1) then \<bar>1000000 * charge - exact\<bar> \<le> 500000
              else charge = i64_max))"
proof -
  let ?e = "max tokens 0 * max price 0"
  have "charge_tokens_by_per_million_price tokens price = (?e + 500000) div 1000000"
    if "?e + 500000 < 1000000 * (i64_max + 1)"
  proof -
    have "(?e + 500000) div 1000000 < i64_max + 1" using that by (simp add: div_less_iff_less_mult)
    then show ?thesis by (simp add: charge_eq [OF assms])
  qed
  moreover have "charge_tokens_by_per_million_price tokens price = i64_max"
    if "\<not> ?e + 500000 < 1000000 * (i64_max + 1)"
  proof -
    have "i64_max + 1 \<le> (?e + 500000) div 1000000"
      using zdiv_mono1 [of "1000000 * (i64_max + 1)" "?e + 500000" 1000000] that by simp
    then show ?thesis by (simp add: charge_eq [OF assms])
  qed
  ultimately show ?thesis
    using round_div [of ?e] charge_bounds [OF assms] by (auto simp: Let_def)
qed

theorem charge_rounds_to_nearest_witness:
  "charge_tokens_by_per_million_price 1500 1250000 = 1875 \<and>
   \<bar>1000000 * charge_tokens_by_per_million_price 3 1500000 - 3 * 1500000\<bar> \<le> 500000 \<and>
   charge_tokens_by_per_million_price i64_max i64_max = i64_max"
  using charge_rounds_to_nearest [of 3 1500000] charge_rounds_to_nearest [of i64_max i64_max]
  by (simp add: charge_eq is_i64_def sat_simps Let_def)

lemma cost_eq:
  assumes "is_i64 i" "is_i64 c" "is_i64 out"
  shows "calculate_estimated_cost_microusd i c out pr =
    sat_i64 (sat_i64
      (charge_tokens_by_per_million_price (max i 0 - min (max c 0) (max i 0)) (tp_input_price pr) +
       charge_tokens_by_per_million_price (min (max c 0) (max i 0)) (tp_cached_input_price pr)) +
       charge_tokens_by_per_million_price (max out 0) (tp_output_price pr))"
proof -
  have "sat_i64 (max i 0 - min (max c 0) (max i 0)) = max i 0 - min (max c 0) (max i 0)"
    using assms by (intro sat_i64_id) (auto simp: is_i64_def sat_simps)
  then show ?thesis by (simp add: calculate_estimated_cost_microusd_def Let_def)
qed

definition price_ok :: "token_price_microusd \<Rightarrow> bool" where
  "price_ok pr \<longleftrightarrow> is_i64 (tp_input_price pr) \<and> is_i64 (tp_cached_input_price pr) \<and> is_i64 (tp_output_price pr)"

lemma i64_parts:
  assumes "is_i64 i" "is_i64 c"
  shows "is_i64 (max i 0 - min (max c 0) (max i 0))" "is_i64 (min (max c 0) (max i 0))" "is_i64 (max i 0)"
  using assms by (auto simp: is_i64_def sat_simps)

lemma cost_nonneg:
  assumes "is_i64 i" "is_i64 c" "is_i64 out" "price_ok pr"
  shows "0 \<le> calculate_estimated_cost_microusd i c out pr"
  using assms i64_parts [OF assms(1,2)] i64_parts(3) [OF assms(3,3)]
  by (simp add: cost_eq price_ok_def charge_bounds(1) sat_i64_nonneg add_nonneg_nonneg)

text \<open>
  The cost of a request is a non-negative 64-bit value that does not fall when the request has
  more input that is not cached or more output, or when a price rises.
\<close>

theorem cost_monotone:
  assumes "is_i64 i" "is_i64 i'" "is_i64 c" "is_i64 out" "is_i64 out'" "price_ok pr" "price_ok pr'"
    and "i \<le> i'" "min (max c 0) (max i' 0) = min (max c 0) (max i 0)" "out \<le> out'"
    and "tp_input_price pr \<le> tp_input_price pr'"
    and "tp_cached_input_price pr \<le> tp_cached_input_price pr'"
    and "tp_output_price pr \<le> tp_output_price pr'"
  shows "0 \<le> calculate_estimated_cost_microusd i c out pr \<and>
    calculate_estimated_cost_microusd i c out pr \<le> calculate_estimated_cost_microusd i' c out' pr' \<and>
    is_i64 (calculate_estimated_cost_microusd i' c out' pr')"
proof -
  note parts = i64_parts [OF assms(1,3)] i64_parts [OF assms(2,3)] i64_parts(3) [OF assms(4,4)]
    i64_parts(3) [OF assms(5,5)]
  have pr: "is_i64 (tp_input_price pr)" "is_i64 (tp_cached_input_price pr)" "is_i64 (tp_output_price pr)"
    "is_i64 (tp_input_price pr')" "is_i64 (tp_cached_input_price pr')" "is_i64 (tp_output_price pr')"
    using assms(6,7) by (simp_all add: price_ok_def)
  have le: "max i 0 - min (max c 0) (max i 0) \<le> max i' 0 - min (max c 0) (max i' 0)"
    "min (max c 0) (max i 0) \<le> min (max c 0) (max i' 0)" "max out 0 \<le> max out' 0"
    using assms(8-10) by simp_all
  have "charge_tokens_by_per_million_price (max i 0 - min (max c 0) (max i 0)) (tp_input_price pr) \<le>
      charge_tokens_by_per_million_price (max i' 0 - min (max c 0) (max i' 0)) (tp_input_price pr')"
    by (rule charge_mono [OF parts(1,4) pr(1,4) le(1) assms(11)])
  moreover have "charge_tokens_by_per_million_price (min (max c 0) (max i 0)) (tp_cached_input_price pr) \<le>
      charge_tokens_by_per_million_price (min (max c 0) (max i' 0)) (tp_cached_input_price pr')"
    by (rule charge_mono [OF parts(2,5) pr(2,5) le(2) assms(12)])
  moreover have "charge_tokens_by_per_million_price (max out 0) (tp_output_price pr) \<le>
      charge_tokens_by_per_million_price (max out' 0) (tp_output_price pr')"
    by (rule charge_mono [OF parts(7,8) pr(3,6) le(3) assms(13)])
  ultimately have "calculate_estimated_cost_microusd i c out pr \<le> calculate_estimated_cost_microusd i' c out' pr'"
    unfolding cost_eq [OF assms(1,3,4)] cost_eq [OF assms(2,3,5)] by (intro sat_i64_mono add_mono) assumption+
  with cost_nonneg [OF assms(1,3,4,6)] show ?thesis by (simp add: cost_eq [OF assms(2,3,5)])
qed

theorem cost_monotone_witness:
  "0 \<le> calculate_estimated_cost_microusd 1000 200 50 \<lparr>tp_input_price = 5000000, tp_cached_input_price = 500000, tp_output_price = 10000000\<rparr> \<and>
   calculate_estimated_cost_microusd 1000 200 50 \<lparr>tp_input_price = 5000000, tp_cached_input_price = 500000, tp_output_price = 10000000\<rparr>
     \<le> calculate_estimated_cost_microusd 1001 200 60 \<lparr>tp_input_price = 5000000, tp_cached_input_price = 600000, tp_output_price = 10000000\<rparr> \<and>
   is_i64 (calculate_estimated_cost_microusd 1001 200 60 \<lparr>tp_input_price = 5000000, tp_cached_input_price = 600000, tp_output_price = 10000000\<rparr>)"
  by (rule cost_monotone) (simp_all add: is_i64_def price_ok_def sat_simps)

end
