(* ===== verification/Pricing.thy ===== *)
theory Pricing
  imports Core_Model Cost Http
begin

text \<open>
  Resolution of the price of a request, \<^verbatim>\<open>services/control-plane/src/tenant/billing_core.rs\<close>,
  \<^verbatim>\<open>audit_and_utils.rs\<close> and \<^verbatim>\<open>api_key_groups.rs\<close>: base prices from overrides, the catalogue or
  the environment, long-context bands from rules, and the multipliers or absolute prices of a key
  group. The tables are records of the rows the queries read; the text \<^verbatim>\<open>source\<close>, which names
  where a price came from, is kept as the list of its parts.
\<close>

section \<open>Types\<close>

datatype source_part =
    ManualOverride string
  | OfficialSync
  | DefaultFallback
  | PricingRule uuid
  | GroupFormula uuid
  | GroupAbsolute uuid

record billing_pricing_resolved =
  bp_input_price :: int
  bp_cached_input_price :: int
  bp_output_price :: int
  bp_source :: "source_part list"

record api_key_group_resolved_pricing =
  gp_formula :: billing_pricing_resolved
  gp_final_pricing :: billing_pricing_resolved
  gp_uses_absolute_pricing :: bool

definition billing_multiplier_ppm_one :: int where
  "billing_multiplier_ppm_one = 1000000"

datatype billing_request_kind = AnyKind | ResponseKind | CompactKind | ChatKind | UnknownKind

definition kind_as_str :: "billing_request_kind \<Rightarrow> string" where
  "kind_as_str k =
     (case k of
        AnyKind \<Rightarrow> ''any'' | ResponseKind \<Rightarrow> ''response'' | CompactKind \<Rightarrow> ''compact''
      | ChatKind \<Rightarrow> ''chat'' | UnknownKind \<Rightarrow> ''unknown'')"

definition kind_from_optional :: "string option \<Rightarrow> billing_request_kind" where
  "kind_from_optional raw =
     (let s = to_ascii_lowercase (trim (case raw of None \<Rightarrow> ''unknown'' | Some r \<Rightarrow> r))
      in if s = ''any'' then AnyKind
         else if s = ''response'' then ResponseKind
         else if s = ''compact'' then CompactKind
         else if s = ''chat'' then ChatKind
         else UnknownKind)"

datatype billing_pricing_rule_scope = RequestScope | SessionScope

definition scope_from_str :: "string \<Rightarrow> billing_pricing_rule_scope" where
  "scope_from_str raw = (if to_ascii_lowercase (trim raw) = ''session'' then SessionScope else RequestScope)"

datatype billing_pricing_band = BaseBand | LongContext

definition band_as_str :: "billing_pricing_band \<Rightarrow> string" where
  "band_as_str b = (case b of BaseBand \<Rightarrow> ''base'' | LongContext \<Rightarrow> ''long_context'')"

definition band_from_optional :: "string option \<Rightarrow> billing_pricing_band" where
  "band_from_optional raw =
     (if to_ascii_lowercase (trim (case raw of None \<Rightarrow> ''base'' | Some r \<Rightarrow> r)) = ''long_context''
      then LongContext else BaseBand)"

datatype billing_resolution_phase = AuthorizePhase | CapturePhase

record billing_pricing_rule =
  br_id :: uuid
  br_model_pattern :: string
  br_request_kind :: string
  br_scope :: string
  br_threshold_input_tokens :: "int option"
  br_input_multiplier_ppm :: int
  br_cached_input_multiplier_ppm :: int
  br_output_multiplier_ppm :: int

record billing_pricing_decision =
  bd_pricing :: billing_pricing_resolved
  bd_band :: billing_pricing_band
  bd_matched_rule_id :: "uuid option"

record api_key_group_record =
  kgr_id :: uuid
  kgr_name :: string
  kgr_description :: "string option"
  kgr_is_default :: bool
  kgr_enabled :: bool
  kgr_allow_all_models :: bool
  kgr_input_multiplier_ppm :: int
  kgr_cached_input_multiplier_ppm :: int
  kgr_output_multiplier_ppm :: int
  kgr_deleted_at :: "timestamp option"

record api_key_group_model_policy =
  kgp_id :: uuid
  kgp_group_id :: uuid
  kgp_model_id :: string
  kgp_enabled :: bool
  kgp_input_multiplier_ppm :: int
  kgp_cached_input_multiplier_ppm :: int
  kgp_output_multiplier_ppm :: int
  kgp_input_price :: "int option"
  kgp_cached_input_price :: "int option"
  kgp_output_price :: "int option"

section \<open>Pure parts\<close>

definition normalize_cached_input_price_microcredits :: "int \<Rightarrow> int \<Rightarrow> int" where
  "normalize_cached_input_price_microcredits input_price cached_input_price =
     (if cached_input_price \<le> 0 then max input_price 0 else cached_input_price)"

definition normalize_billing_service_tier :: "string option \<Rightarrow> string" where
  "normalize_billing_service_tier raw =
     (let s = to_ascii_lowercase (trim (case raw of None \<Rightarrow> ''default'' | Some r \<Rightarrow> r))
      in if s = ''priority'' \<or> s = ''fast'' then ''priority''
         else if s = ''flex'' then ''flex''
         else ''default'')"

definition pricing_override_lookup_tiers :: "string \<Rightarrow> string list" where
  "pricing_override_lookup_tiers service_tier =
     (if service_tier = ''priority'' then [''priority'', ''default'']
      else if service_tier = ''flex'' then [''flex'', ''default'']
      else [''default''])"

definition apply_multiplier_ppm :: "int \<Rightarrow> int \<Rightarrow> int" where
  "apply_multiplier_ppm price multiplier_ppm =
     (let numerator = sat_i128 (sat_i128 (max price 0 * max multiplier_ppm 0) + billing_multiplier_ppm_one div 2)
      in clamp (numerator div billing_multiplier_ppm_one) 0 i64_max)"

definition billing_rule_matches_model :: "string \<Rightarrow> string \<Rightarrow> bool" where
  "billing_rule_matches_model model_pattern model =
     (let normalized_pattern = trim model_pattern
      in if normalized_pattern = [] then False
         else if normalized_pattern = model then True
         else if last normalized_pattern = CHR ''*'' then
           (let pre = butlast normalized_pattern in pre \<noteq> [] \<and> prefix pre model)
         else False)"

definition billing_rule_matches_request_kind :: "string \<Rightarrow> billing_request_kind \<Rightarrow> bool" where
  "billing_rule_matches_request_kind rule_request_kind request_kind =
     (let rule_kind = kind_from_optional (Some rule_request_kind)
      in rule_kind = AnyKind \<or> rule_kind = request_kind)"

definition rule_matches :: "string \<Rightarrow> billing_request_kind \<Rightarrow> billing_pricing_rule \<Rightarrow> bool" where
  "rule_matches model request_kind rule \<longleftrightarrow>
     billing_rule_matches_model (br_model_pattern rule) model \<and>
     billing_rule_matches_request_kind (br_request_kind rule) request_kind"

definition rule_threshold_reached ::
  "billing_resolution_phase \<Rightarrow> int option \<Rightarrow> billing_pricing_rule \<Rightarrow> bool" where
  "rule_threshold_reached phase actual_input_tokens rule =
     (let normalized_input_tokens = map_option (\<lambda>v. max v 0) actual_input_tokens;
          threshold = max (case br_threshold_input_tokens rule of None \<Rightarrow> 0 | Some t \<Rightarrow> t) 0;
          threshold_reached = ((case normalized_input_tokens of None \<Rightarrow> 0 | Some t \<Rightarrow> t) \<ge> threshold)
      in case scope_from_str (br_scope rule) of
           SessionScope \<Rightarrow> phase = CapturePhase \<and> threshold_reached
         | RequestScope \<Rightarrow> threshold_reached)"

definition apply_rule :: "billing_pricing_resolved \<Rightarrow> billing_pricing_rule \<Rightarrow> billing_pricing_resolved" where
  "apply_rule base rule =
     \<lparr>bp_input_price = apply_multiplier_ppm (bp_input_price base) (br_input_multiplier_ppm rule),
      bp_cached_input_price =
        apply_multiplier_ppm (bp_cached_input_price base) (br_cached_input_multiplier_ppm rule),
      bp_output_price = apply_multiplier_ppm (bp_output_price base) (br_output_multiplier_ppm rule),
      bp_source = bp_source base @ [PricingRule (br_id rule)]\<rparr>"

definition resolve_effective_pricing_for_band ::
  "billing_pricing_resolved \<Rightarrow> billing_pricing_rule list \<Rightarrow> string \<Rightarrow> billing_request_kind \<Rightarrow>
   billing_pricing_band option \<Rightarrow> int option \<Rightarrow> billing_resolution_phase \<Rightarrow> billing_pricing_decision" where
  "resolve_effective_pricing_for_band base rules model request_kind persisted_band actual_input_tokens phase =
     (let matching_rules = filter (rule_matches model request_kind) rules;
          band = (case persisted_band of
                    Some LongContext \<Rightarrow> LongContext
                  | _ \<Rightarrow> (case find (rule_threshold_reached phase actual_input_tokens) matching_rules of
                            Some _ \<Rightarrow> LongContext
                          | None \<Rightarrow> BaseBand));
          matched_rule = (if band = LongContext
                          then (case matching_rules of [] \<Rightarrow> None | rule # _ \<Rightarrow> Some rule)
                          else None)
      in \<lparr>bd_pricing = (case matched_rule of Some rule \<Rightarrow> apply_rule base rule | None \<Rightarrow> base),
          bd_band = band,
          bd_matched_rule_id = map_option br_id matched_rule\<rparr>)"

definition policy_has_absolute_pricing :: "api_key_group_model_policy option \<Rightarrow> bool" where
  "policy_has_absolute_pricing policy =
     (case policy of
        None \<Rightarrow> False
      | Some item \<Rightarrow>
          kgp_input_price item \<noteq> None \<and> kgp_cached_input_price item \<noteq> None \<and> kgp_output_price item \<noteq> None)"

definition apply_api_key_group_model_pricing ::
  "billing_pricing_resolved \<Rightarrow> api_key_group_record \<Rightarrow> api_key_group_model_policy option \<Rightarrow>
   api_key_group_resolved_pricing" where
  "apply_api_key_group_model_pricing base grp policy =
     (let formula =
        \<lparr>bp_input_price = apply_multiplier_ppm
           (apply_multiplier_ppm (bp_input_price base) (kgr_input_multiplier_ppm grp))
           (case policy of Some item \<Rightarrow> kgp_input_multiplier_ppm item | None \<Rightarrow> billing_multiplier_ppm_one),
         bp_cached_input_price = apply_multiplier_ppm
           (apply_multiplier_ppm (bp_cached_input_price base) (kgr_cached_input_multiplier_ppm grp))
           (case policy of Some item \<Rightarrow> kgp_cached_input_multiplier_ppm item | None \<Rightarrow> billing_multiplier_ppm_one),
         bp_output_price = apply_multiplier_ppm
           (apply_multiplier_ppm (bp_output_price base) (kgr_output_multiplier_ppm grp))
           (case policy of Some item \<Rightarrow> kgp_output_multiplier_ppm item | None \<Rightarrow> billing_multiplier_ppm_one),
         bp_source = bp_source base @ [GroupFormula (kgr_id grp)]\<rparr>
      in case policy of
           Some item \<Rightarrow>
             if policy_has_absolute_pricing policy then
               \<lparr>gp_formula = formula,
                gp_final_pricing =
                  \<lparr>bp_input_price = (case kgp_input_price item of Some p \<Rightarrow> p | None \<Rightarrow> 0),
                   bp_cached_input_price = (case kgp_cached_input_price item of Some p \<Rightarrow> p | None \<Rightarrow> 0),
                   bp_output_price = (case kgp_output_price item of Some p \<Rightarrow> p | None \<Rightarrow> 0),
                   bp_source = bp_source base @ [GroupAbsolute (kgp_id item)]\<rparr>,
                gp_uses_absolute_pricing = True\<rparr>
             else \<lparr>gp_formula = formula, gp_final_pricing = formula, gp_uses_absolute_pricing = False\<rparr>
         | None \<Rightarrow> \<lparr>gp_formula = formula, gp_final_pricing = formula, gp_uses_absolute_pricing = False\<rparr>)"

section \<open>Tables and queries\<close>

record price_row =
  pr_input :: int
  pr_cached_input :: int
  pr_output :: int

record pricing_rule_row =
  rr_rule :: billing_pricing_rule
  rr_enabled :: bool
  rr_priority :: int
  rr_created_at :: timestamp

text \<open>
  The rows the pricing queries read: enabled overrides by model and tier, the catalogue by model, the
  rules with their sort columns, the group of a key and the policies by group and model; and the
  prices the environment configures as a fallback.
\<close>

record pricing_tables =
  px_overrides :: "((string \<times> string) \<times> price_row) list"
  px_catalog :: "(string \<times> price_row) list"
  px_rules :: "pricing_rule_row list"
  px_key_groups :: "(uuid \<times> api_key_group_record) list"
  px_policies :: "((uuid \<times> string) \<times> api_key_group_model_policy) list"
  px_fallback_enabled :: bool
  px_default_input :: "int option"
  px_default_cached_input :: "int option"
  px_default_output :: "int option"

datatype billing_error =
    EmptyRequestId
  | EmptyModel
  | ReservedNotPositive
  | PricingNotConfigured
  | GroupNotFound
  | GroupUnavailable
  | ModelNotAllowed
  | InsufficientCredits
  | TenantNotFound
  | AuthorizationNotFound
  | InvalidStatus
  | AmountNotPositive
  | CheckinAlreadyClaimed
  | TransactionAborted
  | ForeignKeyViolation
  | ColumnNotFound string

definition resolve_base_model_pricing ::
  "pricing_tables \<Rightarrow> string \<Rightarrow> string option \<Rightarrow> billing_error + billing_pricing_resolved" where
  "resolve_base_model_pricing px model service_tier =
     (if trim model = [] then Inl EmptyModel
      else
        let tiers = pricing_override_lookup_tiers (normalize_billing_service_tier service_tier)
        in case List.map_filter
             (\<lambda>tier. map_option (\<lambda>row. (tier, row)) (map_of (px_overrides px) (model, tier))) tiers of
             (tier, row) # _ \<Rightarrow>
               Inr \<lparr>bp_input_price = pr_input row,
                    bp_cached_input_price =
                      normalize_cached_input_price_microcredits (pr_input row) (pr_cached_input row),
                    bp_output_price = pr_output row,
                    bp_source = [ManualOverride tier]\<rparr>
           | [] \<Rightarrow>
               (case map_of (px_catalog px) model of
                  Some row \<Rightarrow>
                    Inr \<lparr>bp_input_price = pr_input row, bp_cached_input_price = pr_cached_input row,
                         bp_output_price = pr_output row, bp_source = [OfficialSync]\<rparr>
                | None \<Rightarrow>
                    if px_fallback_enabled px then
                      (case (px_default_input px, px_default_output px) of
                         (Some inp, Some out) \<Rightarrow>
                           Inr \<lparr>bp_input_price = inp,
                                bp_cached_input_price =
                                  max (case px_default_cached_input px of
                                         Some c \<Rightarrow> c | None \<Rightarrow> inp div 10) 0,
                                bp_output_price = out, bp_source = [DefaultFallback]\<rparr>
                       | _ \<Rightarrow> Inl PricingNotConfigured)
                    else Inl PricingNotConfigured))"

text \<open>\<^verbatim>\<open>ORDER BY priority DESC, threshold_input_tokens DESC NULLS LAST, created_at ASC\<close>\<close>

definition rule_order_key :: "pricing_rule_row \<Rightarrow> int \<times> nat \<times> int \<times> timestamp" where
  "rule_order_key row =
     (- rr_priority row,
      (case br_threshold_input_tokens (rr_rule row) of None \<Rightarrow> 1 | Some _ \<Rightarrow> 0),
      (case br_threshold_input_tokens (rr_rule row) of None \<Rightarrow> 0 | Some t \<Rightarrow> - t),
      rr_created_at row)"

definition list_matching_billing_pricing_rules ::
  "pricing_tables \<Rightarrow> string \<Rightarrow> billing_request_kind \<Rightarrow> billing_pricing_rule list" where
  "list_matching_billing_pricing_rules px model request_kind =
     filter (rule_matches model request_kind)
       (map rr_rule (sort_key rule_order_key (filter rr_enabled (px_rules px))))"

definition ensure_api_key_group_is_usable :: "api_key_group_record \<Rightarrow> bool" where
  "ensure_api_key_group_is_usable grp \<longleftrightarrow> kgr_deleted_at grp = None \<and> kgr_enabled grp"

definition resolve_api_key_group_pricing ::
  "pricing_tables \<Rightarrow> uuid \<Rightarrow> string \<Rightarrow> billing_pricing_resolved \<Rightarrow> billing_error + api_key_group_resolved_pricing" where
  "resolve_api_key_group_pricing px api_key_id model base =
     (case map_of (px_key_groups px) api_key_id of
        None \<Rightarrow> Inl GroupNotFound
      | Some grp \<Rightarrow>
          if \<not> ensure_api_key_group_is_usable grp then Inl GroupUnavailable
          else
            let policy = map_of (px_policies px) (kgr_id grp, model);
                enabled_policy = (case policy of
                                    Some item \<Rightarrow> if kgp_enabled item then Some item else None
                                  | None \<Rightarrow> None)
            in if kgr_allow_all_models grp then
                 (if policy \<noteq> None \<and> enabled_policy = None then Inl ModelNotAllowed
                  else Inr (apply_api_key_group_model_pricing base grp enabled_policy))
               else (case enabled_policy of
                       None \<Rightarrow> Inl ModelNotAllowed
                     | Some item \<Rightarrow> Inr (apply_api_key_group_model_pricing base grp (Some item))))"

record billing_pricing_request_context =
  bc_service_tier :: "string option"
  bc_api_key_id :: "uuid option"
  bc_request_kind :: billing_request_kind
  bc_persisted_band :: "billing_pricing_band option"
  bc_actual_input_tokens :: "int option"
  bc_phase :: billing_resolution_phase

definition resolve_model_pricing_for_request ::
  "pricing_tables \<Rightarrow> string \<Rightarrow> billing_pricing_request_context \<Rightarrow> billing_error + billing_pricing_decision" where
  "resolve_model_pricing_for_request px model ctx =
     (case resolve_base_model_pricing px model (bc_service_tier ctx) of
        Inl e \<Rightarrow> Inl e
      | Inr base \<Rightarrow>
          let rules = list_matching_billing_pricing_rules px model (bc_request_kind ctx);
              resolved = resolve_effective_pricing_for_band base rules model (bc_request_kind ctx)
                (bc_persisted_band ctx) (bc_actual_input_tokens ctx) (bc_phase ctx)
          in case bc_api_key_id ctx of
               None \<Rightarrow> Inr resolved
             | Some api_key_id \<Rightarrow>
                 (case resolve_api_key_group_pricing px api_key_id model (bd_pricing resolved) of
                    Inl e \<Rightarrow> Inl e
                  | Inr group_pricing \<Rightarrow> Inr (resolved\<lparr>bd_pricing := gp_final_pricing group_pricing\<rparr>)))"

definition calculate_charged_microcredits :: "int \<Rightarrow> int \<Rightarrow> int \<Rightarrow> billing_pricing_resolved \<Rightarrow> int" where
  "calculate_charged_microcredits input_tokens cached_input_tokens output_tokens pricing =
     calculate_estimated_cost_microusd input_tokens cached_input_tokens output_tokens
       \<lparr>tp_input_price = bp_input_price pricing, tp_cached_input_price = bp_cached_input_price pricing,
        tp_output_price = bp_output_price pricing\<rparr>"

section \<open>Properties\<close>

lemma apply_multiplier_eq:
  assumes "is_i64 p" "is_i64 m"
  shows "apply_multiplier_ppm p m = min i64_max ((max p 0 * max m 0 + 500000) div 1000000)"
proof -
  have "is_i64 (max p 0)" "is_i64 (max m 0)" using assms by (auto simp: is_i64_def sat_simps)
  then have "sat_i128 (max p 0 * max m 0) = max p 0 * max m 0 \<and>
      sat_i128 (max p 0 * max m 0 + 500000) = max p 0 * max m 0 + 500000"
    by (intro mult_fits_i128) simp_all
  moreover have "0 \<le> (max p 0 * max m 0 + 500000) div 1000000"
    by (intro pos_imp_zdiv_nonneg_iff [THEN iffD2]) auto
  ultimately show ?thesis
    by (auto simp: apply_multiplier_ppm_def billing_multiplier_ppm_one_def clamp_def Let_def)
qed

text \<open>
  Multipliers in parts per million round to nearest and stay within 64 bits: a multiplier of one
  million leaves every non-negative price unchanged, a multiplier of zero makes it free, and a larger
  multiplier never gives a smaller price.
\<close>

theorem multiplier_laws:
  assumes "is_i64 p" "is_i64 m" "is_i64 m'" "0 \<le> p" "m \<le> m'"
  shows "apply_multiplier_ppm p billing_multiplier_ppm_one = p \<and> apply_multiplier_ppm p 0 = 0 \<and>
    0 \<le> apply_multiplier_ppm p m \<and> apply_multiplier_ppm p m \<le> apply_multiplier_ppm p m' \<and>
    is_i64 (apply_multiplier_ppm p m')"
proof -
  have one: "apply_multiplier_ppm p billing_multiplier_ppm_one = p"
    using assms(1,4) by (simp add: apply_multiplier_eq billing_multiplier_ppm_one_def is_i64_def sat_simps)
  have zero: "apply_multiplier_ppm p 0 = 0"
    using assms(1) by (simp add: apply_multiplier_eq is_i64_def sat_simps)
  have "max p 0 * max m 0 \<le> max p 0 * max m' 0" using assms(5) by (intro mult_left_mono max.mono) simp_all
  then have le: "(max p 0 * max m 0 + 500000) div 1000000 \<le> (max p 0 * max m' 0 + 500000) div 1000000"
    by (intro zdiv_mono1) simp_all
  have nonneg: "0 \<le> (max p 0 * max k 0 + 500000) div 1000000" for k
    by (intro pos_imp_zdiv_nonneg_iff [THEN iffD2]) auto
  have "apply_multiplier_ppm p m \<le> apply_multiplier_ppm p m'"
    unfolding apply_multiplier_eq [OF assms(1,2)] apply_multiplier_eq [OF assms(1,3)]
    by (rule min.mono [OF order_refl le])
  moreover have "0 \<le> apply_multiplier_ppm p m" "0 \<le> apply_multiplier_ppm p m'"
    using nonneg by (simp_all add: apply_multiplier_eq [OF assms(1,2)] apply_multiplier_eq [OF assms(1,3)] sat_simps)
  moreover have "apply_multiplier_ppm p m' \<le> i64_max" by (simp add: apply_multiplier_eq [OF assms(1,3)])
  ultimately show ?thesis using one zero by (simp add: is_i64_def sat_simps)
qed

theorem multiplier_laws_witness:
  "apply_multiplier_ppm 1250 billing_multiplier_ppm_one = 1250 \<and>
   apply_multiplier_ppm 1250 1500000 \<le> apply_multiplier_ppm 1250 2000000"
  using multiplier_laws [of 1250 1500000 2000000] by (simp add: is_i64_def sat_simps)

text \<open>
  The long-context band. A request is priced in the long-context band exactly if its session was
  already there or some rule for its model and kind has its threshold reached (a session rule only when
  the actual tokens are known); the band never falls back. In the base band, or when no rule matches,
  the price is the base price; otherwise the first matching rule in the order of the rules is applied.
\<close>

theorem pricing_band_spec:
  "(let matching = filter (rule_matches model kind) rules;
        d = resolve_effective_pricing_for_band base rules model kind persisted tokens phase
    in (bd_band d = LongContext \<longleftrightarrow>
          persisted = Some LongContext \<or> (\<exists>rule \<in> set matching. rule_threshold_reached phase tokens rule)) \<and>
       (if bd_band d = LongContext \<and> matching \<noteq> []
        then bd_pricing d = apply_rule base (hd matching) \<and> bd_matched_rule_id d = Some (br_id (hd matching))
        else bd_pricing d = base \<and> bd_matched_rule_id d = None))"
proof -
  let ?matching = "filter (rule_matches model kind) rules"
  let ?d = "resolve_effective_pricing_for_band base rules model kind persisted tokens phase"
  have band: "bd_band ?d = LongContext \<longleftrightarrow>
      persisted = Some LongContext \<or> (\<exists>rule \<in> set ?matching. rule_threshold_reached phase tokens rule)"
  proof -
    have "find (rule_threshold_reached phase tokens) ?matching = None \<longleftrightarrow>
        \<not> (\<exists>rule \<in> set ?matching. rule_threshold_reached phase tokens rule)"
      unfolding find_None_iff by blast
    then show ?thesis
      unfolding resolve_effective_pricing_for_band_def Let_def
      by (cases "find (rule_threshold_reached phase tokens) ?matching"; cases persisted;
          cases "the persisted") (simp_all, blast+)
  qed
  have price: "bd_pricing ?d =
      (if bd_band ?d = LongContext \<and> ?matching \<noteq> [] then apply_rule base (hd ?matching) else base)"
    and rule: "bd_matched_rule_id ?d =
      (if bd_band ?d = LongContext \<and> ?matching \<noteq> [] then Some (br_id (hd ?matching)) else None)"
    unfolding resolve_effective_pricing_for_band_def Let_def
    by (cases "?matching"; simp)+
  show ?thesis
    unfolding Let_def
  proof (rule conjI [OF band])
    show "if bd_band ?d = LongContext \<and> ?matching \<noteq> []
      then bd_pricing ?d = apply_rule base (hd ?matching) \<and> bd_matched_rule_id ?d = Some (br_id (hd ?matching))
      else bd_pricing ?d = base \<and> bd_matched_rule_id ?d = None"
      using price rule by (cases "bd_band ?d = LongContext \<and> ?matching \<noteq> []") simp_all
  qed
qed

text \<open>
  The rule that is applied need not be the one whose threshold was reached: with a rule for very long
  inputs sorted first, an input that only reaches the second rule is priced by the first.
\<close>

definition demo_rule :: "uuid \<Rightarrow> int \<Rightarrow> int \<Rightarrow> billing_pricing_rule" where
  "demo_rule i threshold multiplier =
     \<lparr>br_id = i, br_model_pattern = ''gpt-5*'', br_request_kind = ''any'', br_scope = ''request'',
      br_threshold_input_tokens = Some threshold, br_input_multiplier_ppm = multiplier,
      br_cached_input_multiplier_ppm = multiplier, br_output_multiplier_ppm = multiplier\<rparr>"

lemma wrong_rule_applied:
  "let d = resolve_effective_pricing_for_band
         \<lparr>bp_input_price = 100, bp_cached_input_price = 10, bp_output_price = 400, bp_source = [OfficialSync]\<rparr>
         [demo_rule 1 1000000 4000000, demo_rule 2 200000 2000000] ''gpt-5.4'' ResponseKind None
         (Some 300000) CapturePhase
   in \<not> rule_threshold_reached CapturePhase (Some 300000) (demo_rule 1 1000000 4000000) \<and>
      rule_threshold_reached CapturePhase (Some 300000) (demo_rule 2 200000 2000000) \<and>
      bd_matched_rule_id d = Some 1 \<and> bp_input_price (bd_pricing d) = 400"
  by code_simp

end
