(* ===== verification/Ledger.thy ===== *)
theory Ledger
  imports Pricing
begin

text \<open>
  The credit ledger of the control plane, \<^verbatim>\<open>services/control-plane/src/tenant/billing_reconcile.rs\<close>
  and the database helpers of \<^verbatim>\<open>audit_and_utils.rs\<close>: pre-check, authorization (a hold on the
  balance), capture, release and reconciliation.

  The database is a record of its tables. An operation runs in one transaction: it returns the new
  database, or, when it fails, an error and the database as it was. A statement that violates a unique
  index aborts the transaction, and every later statement of it fails, as in PostgreSQL. The foreign keys of the
  credit tables to \<^verbatim>\<open>tenants\<close> are checked; those to \<^verbatim>\<open>api_keys\<close> are not, that table being outside
  the model. Row locks make
  the transactions of one request serial, so they are atomic here. Identifiers drawn with
  \<^verbatim>\<open>Uuid::new_v4\<close>, the clock and the default time to live from the environment are arguments. Of the
  JSON columns the model keeps the members that are read back.
\<close>

section \<open>Tables\<close>

datatype ledger_event = AuthorizeHold | CaptureEvent | ReleaseEvent | AdjustEvent | RechargeEvent | CheckinEvent

record ledger_entry =
  le_tenant_id :: uuid
  le_api_key_id :: "uuid option"
  le_request_id :: "string option"
  le_event_type :: ledger_event
  le_delta :: int
  le_balance_after :: int
  le_input_tokens :: "int option"
  le_output_tokens :: "int option"
  le_model :: "string option"
  le_created_at :: timestamp

datatype authorization_status = Authorized | Captured | Released

record authorization_meta =
  am_session_key :: "string option"
  am_request_kind :: "string option"
  am_service_tier :: "string option"
  am_pricing_band :: "string option"

record authorization =
  au_id :: uuid
  au_tenant_id :: uuid
  au_request_id :: string
  au_api_key_id :: "uuid option"
  au_model :: "string option"
  au_reserved :: int
  au_captured :: int
  au_status :: authorization_status
  au_expires_at :: timestamp
  au_meta :: authorization_meta
  au_updated_at :: timestamp

record billing_session_row =
  bs_model :: string
  bs_pricing_band :: string
  bs_entered_band_at :: timestamp
  bs_last_seen_at :: timestamp
  bs_expires_at :: timestamp

record billing_db =
  db_tenants :: "(uuid \<times> string) list"
  db_accounts :: "(uuid, int) hash_map"
  db_ledger :: "ledger_entry list"
  db_authorizations :: "authorization list"
  db_sessions :: "(uuid \<times> string, billing_session_row) hash_map"
  db_pricing :: pricing_tables
  db_checkins :: "((uuid \<times> int) \<times> int) list"

record billing_tx =
  tx_db :: billing_db
  tx_aborted :: bool

definition secs :: "nat \<Rightarrow> int" where
  "secs n = int n * 1000000000"

definition default_billing_session_ttl_sec :: nat where
  "default_billing_session_ttl_sec = 24 * 60 * 60"

definition min_billing_authorization_ttl_sec :: nat where
  "min_billing_authorization_ttl_sec = 30"

definition max_billing_authorization_ttl_sec :: nat where
  "max_billing_authorization_ttl_sec = 6 * 60 * 60"

section \<open>Statements\<close>

definition statement :: "(billing_db \<Rightarrow> billing_db) \<Rightarrow> billing_tx \<Rightarrow> billing_error + billing_tx" where
  "statement f tx = (if tx_aborted tx then Inl TransactionAborted else Inr (tx\<lparr>tx_db := f (tx_db tx)\<rparr>))"

definition balance_of :: "billing_db \<Rightarrow> uuid \<Rightarrow> int" where
  "balance_of db tenant_id = (case map_of (db_accounts db) tenant_id of None \<Rightarrow> 0 | Some b \<Rightarrow> b)"

definition current_credit_balance_for_update :: "uuid \<Rightarrow> billing_db \<Rightarrow> int" where
  "current_credit_balance_for_update tenant_id db = balance_of db tenant_id"

definition fetch_authorization_for_update :: "uuid \<Rightarrow> string \<Rightarrow> billing_db \<Rightarrow> authorization option" where
  "fetch_authorization_for_update tenant_id request_id db =
     find (\<lambda>a. au_tenant_id a = tenant_id \<and> au_request_id a = request_id) (db_authorizations db)"

text \<open>
  The query of \<^verbatim>\<open>fetch_authorization\<close> does not select \<^verbatim>\<open>meta_json\<close>, but the row is then asked for
  that column: \<^verbatim>\<open>try_get\<close> fails for every row that is found.
\<close>

definition fetch_authorization :: "uuid \<Rightarrow> string \<Rightarrow> billing_db \<Rightarrow> billing_error + authorization option" where
  "fetch_authorization tenant_id request_id db =
     (case fetch_authorization_for_update tenant_id request_id db of
        None \<Rightarrow> Inr None
      | Some _ \<Rightarrow> Inl (ColumnNotFound ''meta_json''))"

definition update_authorization :: "uuid \<Rightarrow> (authorization \<Rightarrow> authorization) \<Rightarrow> billing_db \<Rightarrow> billing_db" where
  "update_authorization i f db =
     db\<lparr>db_authorizations := map (\<lambda>a. if au_id a = i then f a else a) (db_authorizations db)\<rparr>"

record credit_delta_params =
  cd_tenant_id :: uuid
  cd_api_key_id :: "uuid option"
  cd_event_type :: ledger_event
  cd_delta :: int
  cd_request_id :: "string option"
  cd_model :: "string option"
  cd_input_tokens :: "int option"
  cd_output_tokens :: "int option"
  cd_now :: timestamp

text \<open>The unique index on the ledger covers tenant and request id where the latter is not null.\<close>

definition ledger_conflict :: "credit_delta_params \<Rightarrow> billing_db \<Rightarrow> bool" where
  "ledger_conflict p db \<longleftrightarrow>
     cd_request_id p \<noteq> None \<and>
     list_ex (\<lambda>e. le_tenant_id e = cd_tenant_id p \<and> le_request_id e = cd_request_id p) (db_ledger db)"

definition apply_credit_delta_inner :: "credit_delta_params \<Rightarrow> billing_tx \<Rightarrow> (billing_error + int) \<times> billing_tx" where
  "apply_credit_delta_inner p tx =
     (if tx_aborted tx then (Inl TransactionAborted, tx)
      else
        let db = tx_db tx;
            existing_balance = balance_of db (cd_tenant_id p);
            next_balance = sat_i64 (existing_balance + cd_delta p)
        in if next_balance < 0 then (Inl InsufficientCredits, tx)
           else if map_of (db_tenants db) (cd_tenant_id p) = None
           then (Inl ForeignKeyViolation, tx\<lparr>tx_aborted := True\<rparr>)
           else
             let db1 = db\<lparr>db_accounts := hm_insert (cd_tenant_id p) next_balance (db_accounts db)\<rparr>;
                 entry = \<lparr>le_tenant_id = cd_tenant_id p, le_api_key_id = cd_api_key_id p,
                          le_request_id = cd_request_id p, le_event_type = cd_event_type p,
                          le_delta = cd_delta p, le_balance_after = next_balance,
                          le_input_tokens = cd_input_tokens p, le_output_tokens = cd_output_tokens p,
                          le_model = cd_model p, le_created_at = cd_now p\<rparr>
             in if ledger_conflict p db
                then (Inr existing_balance, tx\<lparr>tx_db := db1, tx_aborted := True\<rparr>)
                else (Inr next_balance, tx\<lparr>tx_db := db1\<lparr>db_ledger := entry # db_ledger db1\<rparr>\<rparr>))"

definition fetch_billing_session_for_update :: "timestamp \<Rightarrow> uuid \<Rightarrow> string \<Rightarrow> billing_db \<Rightarrow> string option" where
  "fetch_billing_session_for_update now tenant_id session_key db =
     (case trim_nonempty session_key of
        None \<Rightarrow> None
      | Some k \<Rightarrow>
          (case map_of (db_sessions db) (tenant_id, k) of
             None \<Rightarrow> None
           | Some row \<Rightarrow> if bs_expires_at row > now then Some (bs_pricing_band row) else None))"

definition upsert_billing_session ::
  "timestamp \<Rightarrow> uuid \<Rightarrow> string \<Rightarrow> string \<Rightarrow> billing_pricing_band \<Rightarrow> billing_db \<Rightarrow> billing_db" where
  "upsert_billing_session now tenant_id session_key model band db =
     (case trim_nonempty session_key of
        None \<Rightarrow> db
      | Some k \<Rightarrow>
          let entered = (case map_of (db_sessions db) (tenant_id, k) of
                           Some row \<Rightarrow> if bs_pricing_band row = band_as_str band
                             then bs_entered_band_at row else now
                         | None \<Rightarrow> now)
          in db\<lparr>db_sessions := hm_insert (tenant_id, k)
                 \<lparr>bs_model = model, bs_pricing_band = band_as_str band, bs_entered_band_at = entered,
                  bs_last_seen_at = now,
                  bs_expires_at = now + secs default_billing_session_ttl_sec\<rparr> (db_sessions db)\<rparr>)"

definition upsert_session_if ::
  "timestamp \<Rightarrow> uuid \<Rightarrow> string option \<Rightarrow> string \<Rightarrow> billing_pricing_band \<Rightarrow> billing_db \<Rightarrow> billing_db" where
  "upsert_session_if now tenant_id session_key model band db =
     (case session_key of None \<Rightarrow> db | Some k \<Rightarrow> upsert_billing_session now tenant_id k model band db)"

section \<open>What an authorization remembers\<close>

definition meta_string :: "string option \<Rightarrow> string option" where
  "meta_string raw = Option.bind raw trim_nonempty"

definition authorization_pricing_band :: "authorization_meta \<Rightarrow> billing_pricing_band option" where
  "authorization_pricing_band m =
     map_option (\<lambda>raw. band_from_optional (Some raw)) (meta_string (am_pricing_band m))"

definition authorization_request_kind :: "authorization_meta \<Rightarrow> billing_request_kind option" where
  "authorization_request_kind m =
     (let kind = kind_from_optional (meta_string (am_request_kind m))
      in if kind = UnknownKind then None else Some kind)"

definition authorization_session_key :: "authorization_meta \<Rightarrow> string option" where
  "authorization_session_key m = meta_string (am_session_key m)"

definition authorization_service_tier :: "authorization_meta \<Rightarrow> string option" where
  "authorization_service_tier m =
     map_option (\<lambda>raw. normalize_billing_service_tier (Some raw)) (meta_string (am_service_tier m))"

section \<open>Requests and responses\<close>

record billing_authorize_request =
  arq_tenant_id :: uuid
  arq_api_key_id :: "uuid option"
  arq_request_id :: string
  arq_model :: string
  arq_service_tier :: "string option"
  arq_session_key :: "string option"
  arq_request_kind :: "string option"
  arq_reserved :: int
  arq_ttl_sec :: "nat option"

record billing_response =
  brs_authorization_id :: uuid
  brs_tenant_id :: uuid
  brs_request_id :: string
  brs_status :: authorization_status
  brs_reserved :: int
  brs_captured :: int
  brs_amount :: int
  brs_balance :: int

record billing_capture_request =
  crq_tenant_id :: uuid
  crq_api_key_id :: "uuid option"
  crq_request_id :: string
  crq_model :: string
  crq_service_tier :: "string option"
  crq_session_key :: "string option"
  crq_request_kind :: "string option"
  crq_input_tokens :: int
  crq_cached_input_tokens :: int
  crq_output_tokens :: int
  crq_reasoning_tokens :: int

record billing_release_request =
  rrq_tenant_id :: uuid
  rrq_request_id :: string

definition response_of :: "authorization \<Rightarrow> int \<Rightarrow> int \<Rightarrow> billing_response" where
  "response_of a amount balance =
     \<lparr>brs_authorization_id = au_id a, brs_tenant_id = au_tenant_id a, brs_request_id = au_request_id a,
      brs_status = au_status a, brs_reserved = au_reserved a, brs_captured = au_captured a,
      brs_amount = amount, brs_balance = balance\<rparr>"

section \<open>Top-ups\<close>

definition top_up_delta :: "timestamp \<Rightarrow> ledger_event \<Rightarrow> uuid \<Rightarrow> int \<Rightarrow> credit_delta_params" where
  "top_up_delta now ev tenant_id amount =
     \<lparr>cd_tenant_id = tenant_id, cd_api_key_id = None, cd_event_type = ev, cd_delta = amount,
      cd_request_id = None, cd_model = None, cd_input_tokens = None, cd_output_tokens = None, cd_now = now\<rparr>"

definition admin_recharge_tenant ::
  "timestamp \<Rightarrow> uuid \<Rightarrow> int \<Rightarrow> billing_db \<Rightarrow> (billing_error + int) \<times> billing_db" where
  "admin_recharge_tenant now tenant_id amount db =
     (if amount \<le> 0 then (Inl AmountNotPositive, db)
      else case apply_credit_delta_inner (top_up_delta now RechargeEvent tenant_id amount)
                  \<lparr>tx_db = db, tx_aborted = False\<rparr> of
             (Inl e, _) \<Rightarrow> (Inl e, db)
           | (Inr balance, tx1) \<Rightarrow> (Inr balance, tx_db tx1))"

definition checkin_reward_min :: int where
  "checkin_reward_min = 50000000"

definition checkin_reward_max :: int where
  "checkin_reward_max = 150000000"

text \<open>\<open>seed tenant date\<close> is the number written by the first 16 hexadecimal digits of the SHA-256 digest.\<close>

definition deterministic_daily_reward_microcredits :: "(uuid \<Rightarrow> int \<Rightarrow> nat) \<Rightarrow> uuid \<Rightarrow> int \<Rightarrow> int" where
  "deterministic_daily_reward_microcredits seed tenant_id date =
     (let span = checkin_reward_max - checkin_reward_min + 1
      in checkin_reward_min + int (seed tenant_id date) mod span)"

definition date_of :: "timestamp \<Rightarrow> int" where
  "date_of now = now div secs (24 * 60 * 60)"

definition daily_checkin ::
  "(uuid \<Rightarrow> int \<Rightarrow> nat) \<Rightarrow> timestamp \<Rightarrow> uuid \<Rightarrow> billing_db \<Rightarrow> (billing_error + int \<times> int) \<times> billing_db" where
  "daily_checkin seed now tenant_id db =
     (let local_date = date_of now;
          reward = deterministic_daily_reward_microcredits seed tenant_id local_date
      in case map_of (db_checkins db) (tenant_id, local_date) of
           Some _ \<Rightarrow> (Inl CheckinAlreadyClaimed, db)
         | None \<Rightarrow>
             let db1 = db\<lparr>db_checkins := ((tenant_id, local_date), reward) # db_checkins db\<rparr>
             in case apply_credit_delta_inner (top_up_delta now CheckinEvent tenant_id reward)
                       \<lparr>tx_db = db1, tx_aborted = False\<rparr> of
                  (Inl e, _) \<Rightarrow> (Inl e, db)
                | (Inr balance, tx1) \<Rightarrow> (Inr (reward, balance), tx_db tx1))"

section \<open>Pre-check\<close>

record billing_precheck_response =
  pc_tenant_id :: uuid
  pc_tenant_status :: string
  pc_balance :: int
  pc_ok :: bool

definition billing_precheck :: "uuid \<Rightarrow> billing_db \<Rightarrow> billing_error + billing_precheck_response" where
  "billing_precheck tenant_id db =
     (case map_of (db_tenants db) tenant_id of
        None \<Rightarrow> Inl TenantNotFound
      | Some st \<Rightarrow>
          let balance = balance_of db tenant_id
          in Inr \<lparr>pc_tenant_id = tenant_id, pc_tenant_status = st, pc_balance = balance,
                  pc_ok = (st = ''active'' \<and> balance > 0)\<rparr>)"

section \<open>Authorize\<close>

definition authorization_reusable_for_authorize :: "authorization_status \<Rightarrow> bool" where
  "authorization_reusable_for_authorize st \<longleftrightarrow> st = Authorized"

definition billing_authorize ::
  "nat \<Rightarrow> timestamp \<Rightarrow> uuid \<Rightarrow> billing_authorize_request \<Rightarrow> billing_db \<Rightarrow> (billing_error + billing_response) \<times> billing_db" where
  "billing_authorize default_ttl now new_id req db =
     (let request_id = trim (arq_request_id req);
          model = trim (arq_model req)
      in if request_id = [] then (Inl EmptyRequestId, db)
         else if model = [] then (Inl EmptyModel, db)
         else if arq_reserved req \<le> 0 then (Inl ReservedNotPositive, db)
         else
           let ttl_sec = clamp (case arq_ttl_sec req of None \<Rightarrow> default_ttl | Some t \<Rightarrow> t)
                           min_billing_authorization_ttl_sec max_billing_authorization_ttl_sec;
               expires_at = now + secs ttl_sec;
               request_kind = kind_from_optional (arq_request_kind req);
               service_tier = normalize_billing_service_tier (arq_service_tier req);
               session_key = Option.bind (arq_session_key req) trim_nonempty
           in case fetch_authorization_for_update (arq_tenant_id req) request_id db of
                Some existing \<Rightarrow>
                  if \<not> authorization_reusable_for_authorize (au_status existing) then (Inl InvalidStatus, db)
                  else (Inr (response_of existing 0 (current_credit_balance_for_update (arq_tenant_id req) db)), db)
              | None \<Rightarrow>
                  let existing_session = Option.bind session_key
                        (\<lambda>k. fetch_billing_session_for_update now (arq_tenant_id req) k db)
                  in case resolve_model_pricing_for_request (db_pricing db) model
                       \<lparr>bc_service_tier = Some service_tier, bc_api_key_id = arq_api_key_id req,
                        bc_request_kind = request_kind,
                        bc_persisted_band = map_option (\<lambda>b. band_from_optional (Some b)) existing_session,
                        bc_actual_input_tokens = None, bc_phase = AuthorizePhase\<rparr> of
                       Inl e \<Rightarrow> (Inl e, db)
                     | Inr decision \<Rightarrow>
                         (case apply_credit_delta_inner
                            \<lparr>cd_tenant_id = arq_tenant_id req, cd_api_key_id = arq_api_key_id req,
                             cd_event_type = AuthorizeHold, cd_delta = - arq_reserved req,
                             cd_request_id = None, cd_model = Some model, cd_input_tokens = None,
                             cd_output_tokens = None, cd_now = now\<rparr>
                            \<lparr>tx_db = db, tx_aborted = False\<rparr> of
                            (Inl e, _) \<Rightarrow> (Inl e, db)
                          | (Inr balance, tx1) \<Rightarrow>
                              let a = \<lparr>au_id = new_id, au_tenant_id = arq_tenant_id req,
                                       au_request_id = request_id, au_api_key_id = arq_api_key_id req,
                                       au_model = Some model, au_reserved = arq_reserved req,
                                       au_captured = 0, au_status = Authorized,
                                       au_expires_at = expires_at,
                                       au_meta = \<lparr>am_session_key = session_key,
                                         am_request_kind = Some (kind_as_str request_kind),
                                         am_service_tier = Some service_tier,
                                         am_pricing_band = Some (band_as_str (bd_band decision))\<rparr>,
                                       au_updated_at = now\<rparr>
                              in case statement (\<lambda>d. upsert_session_if now (arq_tenant_id req) session_key model
                                   (bd_band decision)
                                   (d\<lparr>db_authorizations := a # db_authorizations d\<rparr>)) tx1 of
                                   Inl e \<Rightarrow> (Inl e, db)
                                 | Inr tx2 \<Rightarrow> (Inr (response_of a 0 balance), tx_db tx2)))"

section \<open>Capture\<close>

definition authorization_capture_is_idempotent :: "authorization_status \<Rightarrow> bool" where
  "authorization_capture_is_idempotent st \<longleftrightarrow> st = Captured"

definition or_else :: "'a option \<Rightarrow> 'a option \<Rightarrow> 'a option" where
  "or_else x y = (case x of Some _ \<Rightarrow> x | None \<Rightarrow> y)"

definition capture_session_key :: "billing_capture_request \<Rightarrow> authorization \<Rightarrow> string option" where
  "capture_session_key req a =
     or_else (Option.bind (crq_session_key req) trim_nonempty) (authorization_session_key (au_meta a))"

definition capture_service_tier :: "billing_capture_request \<Rightarrow> authorization \<Rightarrow> string" where
  "capture_service_tier req a =
     normalize_billing_service_tier (or_else (crq_service_tier req) (authorization_service_tier (au_meta a)))"

definition capture_request_kind :: "billing_capture_request \<Rightarrow> authorization \<Rightarrow> billing_request_kind" where
  "capture_request_kind req a =
     (case kind_from_optional (crq_request_kind req) of
        UnknownKind \<Rightarrow> (case authorization_request_kind (au_meta a) of None \<Rightarrow> UnknownKind | Some k \<Rightarrow> k)
      | k \<Rightarrow> k)"

definition capture_context ::
  "timestamp \<Rightarrow> billing_capture_request \<Rightarrow> authorization \<Rightarrow> billing_db \<Rightarrow> billing_pricing_request_context" where
  "capture_context now req a db =
     (let existing_session = Option.bind (capture_session_key req a)
            (\<lambda>k. fetch_billing_session_for_update now (crq_tenant_id req) k db)
      in \<lparr>bc_service_tier = Some (capture_service_tier req a), bc_api_key_id = crq_api_key_id req,
          bc_request_kind = capture_request_kind req a,
          bc_persisted_band =
            or_else (map_option (\<lambda>b. band_from_optional (Some b)) existing_session)
              (authorization_pricing_band (au_meta a)),
          bc_actual_input_tokens = Some (max (crq_input_tokens req) 0), bc_phase = CapturePhase\<rparr>)"

definition capture_charge :: "billing_capture_request \<Rightarrow> billing_pricing_resolved \<Rightarrow> int" where
  "capture_charge req pricing =
     (let input_tokens = max (crq_input_tokens req) 0;
          cached_input_tokens = min (max (crq_cached_input_tokens req) 0) input_tokens;
          output_tokens = max (crq_output_tokens req) 0;
          reasoning_tokens = max (crq_reasoning_tokens req) 0;
          billable_output_tokens = max output_tokens reasoning_tokens
      in calculate_charged_microcredits input_tokens cached_input_tokens billable_output_tokens pricing)"

definition capture_delta ::
  "timestamp \<Rightarrow> billing_capture_request \<Rightarrow> authorization \<Rightarrow> int \<Rightarrow> credit_delta_params" where
  "capture_delta now req a charged =
     (let extra_charge = max (sat_i64 (charged - au_reserved a)) 0
      in \<lparr>cd_tenant_id = crq_tenant_id req,
          cd_api_key_id = or_else (crq_api_key_id req) (au_api_key_id a),
          cd_event_type = CaptureEvent, cd_delta = - extra_charge,
          cd_request_id = Some (trim (crq_request_id req)), cd_model = Some (trim (crq_model req)),
          cd_input_tokens = Some (max (crq_input_tokens req) 0),
          cd_output_tokens = Some (max (crq_output_tokens req) 0), cd_now = now\<rparr>)"

definition capture_update ::
  "timestamp \<Rightarrow> billing_capture_request \<Rightarrow> authorization \<Rightarrow> int \<Rightarrow> billing_pricing_band \<Rightarrow>
   authorization \<Rightarrow> authorization" where
  "capture_update now req a charged band r =
     r\<lparr>au_api_key_id := or_else (au_api_key_id r) (or_else (crq_api_key_id req) (au_api_key_id a)),
       au_model := or_else (au_model r) (Some (case au_model a of Some m \<Rightarrow> m | None \<Rightarrow> trim (crq_model req))),
       au_captured := charged, au_status := Captured,
       au_meta := \<lparr>am_session_key = capture_session_key req a,
         am_request_kind = Some (kind_as_str (capture_request_kind req a)),
         am_service_tier = Some (capture_service_tier req a),
         am_pricing_band = Some (band_as_str band)\<rparr>,
       au_updated_at := now\<rparr>"

definition billing_capture ::
  "timestamp \<Rightarrow> billing_capture_request \<Rightarrow> billing_db \<Rightarrow> (billing_error + billing_response) \<times> billing_db" where
  "billing_capture now req db =
     (let request_id = trim (crq_request_id req);
          model = trim (crq_model req)
      in if request_id = [] then (Inl EmptyRequestId, db)
         else if model = [] then (Inl EmptyModel, db)
         else
           case fetch_authorization_for_update (crq_tenant_id req) request_id db of
             None \<Rightarrow> (Inl AuthorizationNotFound, db)
           | Some a \<Rightarrow>
               if authorization_capture_is_idempotent (au_status a) then
                 (Inr (response_of a (au_captured a)
                    (current_credit_balance_for_update (crq_tenant_id req) db)), db)
               else if au_status a \<noteq> Authorized then (Inl InvalidStatus, db)
               else
                 case resolve_model_pricing_for_request (db_pricing db) model (capture_context now req a db) of
                   Inl e \<Rightarrow> (Inl e, db)
                 | Inr decision \<Rightarrow>
                     let charged = capture_charge req (bd_pricing decision)
                     in case apply_credit_delta_inner (capture_delta now req a charged)
                          \<lparr>tx_db = db, tx_aborted = False\<rparr> of
                          (Inl e, _) \<Rightarrow> (Inl e, db)
                        | (Inr balance, tx1) \<Rightarrow>
                            (case statement (\<lambda>d. upsert_session_if now (crq_tenant_id req)
                                    (capture_session_key req a) model (bd_band decision)
                                    (update_authorization (au_id a)
                                      (capture_update now req a charged (bd_band decision)) d)) tx1 of
                               Inl e \<Rightarrow> (Inl e, db)
                             | Inr tx2 \<Rightarrow>
                                 (Inr \<lparr>brs_authorization_id = au_id a, brs_tenant_id = au_tenant_id a,
                                       brs_request_id = au_request_id a, brs_status = Captured,
                                       brs_reserved = au_reserved a, brs_captured = charged,
                                       brs_amount = charged, brs_balance = balance\<rparr>,
                                  tx_db tx2)))"

section \<open>Release\<close>

definition release_amount :: "authorization \<Rightarrow> int" where
  "release_amount a = max (sat_i64 (au_reserved a - au_captured a)) 0"

definition release_delta :: "timestamp \<Rightarrow> ledger_event \<Rightarrow> authorization \<Rightarrow> credit_delta_params" where
  "release_delta now ev a =
     \<lparr>cd_tenant_id = au_tenant_id a, cd_api_key_id = au_api_key_id a, cd_event_type = ev,
      cd_delta = release_amount a, cd_request_id = None, cd_model = au_model a,
      cd_input_tokens = None, cd_output_tokens = None, cd_now = now\<rparr>"

definition billing_release ::
  "timestamp \<Rightarrow> billing_release_request \<Rightarrow> billing_db \<Rightarrow> (billing_error + billing_response) \<times> billing_db" where
  "billing_release now req db =
     (let request_id = trim (rrq_request_id req)
      in if request_id = [] then (Inl EmptyRequestId, db)
         else case fetch_authorization_for_update (rrq_tenant_id req) request_id db of
                None \<Rightarrow> (Inl AuthorizationNotFound, db)
              | Some a \<Rightarrow>
                  if au_status a = Released then
                    (Inr (response_of a (release_amount a)
                       (current_credit_balance_for_update (rrq_tenant_id req) db)), db)
                  else
                    (case (if release_amount a > 0
                           then apply_credit_delta_inner (release_delta now ReleaseEvent a)
                                  \<lparr>tx_db = db, tx_aborted = False\<rparr>
                           else (Inr (current_credit_balance_for_update (rrq_tenant_id req) db),
                                 \<lparr>tx_db = db, tx_aborted = False\<rparr>)) of
                       (Inl e, _) \<Rightarrow> (Inl e, db)
                     | (Inr balance, tx1) \<Rightarrow>
                         (case statement (update_authorization (au_id a)
                                 (\<lambda>r. r\<lparr>au_status := Released, au_updated_at := now\<rparr>)) tx1 of
                            Inl e \<Rightarrow> (Inl e, db)
                          | Inr tx2 \<Rightarrow>
                              (Inr ((response_of a (release_amount a) balance)\<lparr>brs_status := Released\<rparr>),
                               tx_db tx2))))"

section \<open>Reconciliation\<close>

record billing_reconcile_stats =
  rs_scanned :: nat
  rs_adjusted :: nat
  rs_released :: nat
  rs_adjusted_total :: int

definition zero_reconcile_stats :: billing_reconcile_stats where
  "zero_reconcile_stats = \<lparr>rs_scanned = 0, rs_adjusted = 0, rs_released = 0, rs_adjusted_total = 0\<rparr>"

definition stale_authorizations ::
  "timestamp \<Rightarrow> timestamp \<Rightarrow> nat \<Rightarrow> billing_db \<Rightarrow> authorization list" where
  "stale_authorizations now stale_before batch_size db =
     take batch_size (sort_key au_updated_at
       (filter (\<lambda>a. (au_status a = Authorized \<and> au_expires_at a \<le> now) \<or>
                    (au_status a = Captured \<and> au_updated_at a \<le> stale_before))
         (db_authorizations db)))"

fun reconcile_rows ::
  "timestamp \<Rightarrow> authorization list \<Rightarrow> billing_tx \<Rightarrow> billing_reconcile_stats \<Rightarrow>
   billing_error + (billing_tx \<times> billing_reconcile_stats)" where
  "reconcile_rows now [] tx stats = Inr (tx, stats)"
| "reconcile_rows now (a # as) tx stats =
     (let stats1 = stats\<lparr>rs_scanned := rs_scanned stats + 1\<rparr>;
          (res, tx1, stats2) =
            (if release_amount a > 0 then
               (case apply_credit_delta_inner (release_delta now AdjustEvent a) tx of
                  (Inl e, tx1) \<Rightarrow> (Inl e, tx1, stats1)
                | (Inr _, tx1) \<Rightarrow>
                    (Inr (), tx1,
                     stats1\<lparr>rs_adjusted := rs_adjusted stats1 + 1,
                            rs_adjusted_total := sat_i64 (rs_adjusted_total stats1 + release_amount a)\<rparr>))
             else (Inr (), tx, stats1))
      in case res of
           Inl e \<Rightarrow> Inl e
         | Inr _ \<Rightarrow>
             (case statement (update_authorization (au_id a)
                     (\<lambda>r. r\<lparr>au_status := Released, au_updated_at := now\<rparr>)) tx1 of
                Inl e \<Rightarrow> Inl e
              | Inr tx2 \<Rightarrow> reconcile_rows now as tx2 (stats2\<lparr>rs_released := rs_released stats2 + 1\<rparr>)))"

definition billing_reconcile_once ::
  "timestamp \<Rightarrow> nat \<Rightarrow> nat \<Rightarrow> billing_db \<Rightarrow> (billing_error + billing_reconcile_stats) \<times> billing_db" where
  "billing_reconcile_once now stale_sec batch_size db =
     (let stale = clamp stale_sec 60 (30 * 24 * 60 * 60);
          batch = clamp batch_size 1 5000;
          rows = stale_authorizations now (now - secs stale) batch db
      in case reconcile_rows now rows \<lparr>tx_db = db, tx_aborted = False\<rparr> zero_reconcile_stats of
           Inl e \<Rightarrow> (Inl e, db)
         | Inr (tx, stats) \<Rightarrow> (Inr stats, tx_db tx))"

definition reconcile_adjust_captured_amount ::
  "timestamp \<Rightarrow> uuid \<Rightarrow> string \<Rightarrow> string \<Rightarrow> int \<Rightarrow> int \<Rightarrow> int \<Rightarrow> int \<Rightarrow> uuid option \<Rightarrow> string option \<Rightarrow>
   billing_db \<Rightarrow> (billing_error + bool) \<times> billing_db" where
  "reconcile_adjust_captured_amount now tenant_id request_id model input_tokens cached_input_tokens
     output_tokens reasoning_tokens api_key_id service_tier db =
     (let normalized_input = max input_tokens 0;
          normalized_cached = min (max cached_input_tokens 0) normalized_input;
          normalized_output = max output_tokens 0;
          billable_output = max normalized_output (max reasoning_tokens 0)
      in case fetch_authorization_for_update tenant_id request_id db of
           None \<Rightarrow> (Inr False, db)
         | Some a \<Rightarrow>
             let request_kind = (case authorization_request_kind (au_meta a) of
                                   None \<Rightarrow> UnknownKind | Some k \<Rightarrow> k);
                 effective_service_tier = normalize_billing_service_tier
                   (or_else service_tier (authorization_service_tier (au_meta a)))
             in case resolve_model_pricing_for_request (db_pricing db) model
                  \<lparr>bc_service_tier = Some effective_service_tier, bc_api_key_id = au_api_key_id a,
                   bc_request_kind = request_kind,
                   bc_persisted_band = authorization_pricing_band (au_meta a),
                   bc_actual_input_tokens = Some normalized_input, bc_phase = CapturePhase\<rparr> of
                  Inl e \<Rightarrow> (Inl e, db)
                | Inr decision \<Rightarrow>
                    let expected = calculate_charged_microcredits normalized_input normalized_cached
                          billable_output (bd_pricing decision)
                    in if au_captured a = expected then (Inr False, db)
                       else
                         let delta = sat_i64 (au_captured a - expected);
                             (res, tx1) =
                               (if delta \<noteq> 0 then
                                  apply_credit_delta_inner
                                    \<lparr>cd_tenant_id = tenant_id,
                                     cd_api_key_id = or_else api_key_id (au_api_key_id a),
                                     cd_event_type = AdjustEvent, cd_delta = delta, cd_request_id = None,
                                     cd_model = or_else (au_model a) (Some model),
                                     cd_input_tokens = Some normalized_input,
                                     cd_output_tokens = Some normalized_output, cd_now = now\<rparr>
                                    \<lparr>tx_db = db, tx_aborted = False\<rparr>
                                else (Inr 0, \<lparr>tx_db = db, tx_aborted = False\<rparr>))
                         in case res of
                              Inl e \<Rightarrow> (Inl e, db)
                            | Inr _ \<Rightarrow>
                                (case statement (update_authorization (au_id a)
                                        (\<lambda>r. r\<lparr>au_captured := expected,
                                             au_meta := (au_meta r)\<lparr>am_request_kind := Some (kind_as_str request_kind),
                                               am_service_tier := Some effective_service_tier,
                                               am_pricing_band := Some (band_as_str (bd_band decision))\<rparr>,
                                             au_updated_at := now\<rparr>)) tx1 of
                                   Inl e \<Rightarrow> (Inl e, db)
                                 | Inr tx2 \<Rightarrow> (Inr True, tx_db tx2)))"

record billing_reconcile_fact_request =
  frq_tenant_id :: uuid
  frq_api_key_id :: "uuid option"
  frq_request_id :: string
  frq_model :: "string option"
  frq_service_tier :: "string option"
  frq_input_tokens :: "int option"
  frq_cached_input_tokens :: "int option"
  frq_output_tokens :: "int option"
  frq_reasoning_tokens :: "int option"

abbreviation tokens_or_zero :: "int option \<Rightarrow> int" where
  "tokens_or_zero v \<equiv> (case v of None \<Rightarrow> 0 | Some n \<Rightarrow> n)"

text \<open>The first step of a reconciliation from a request fact: capture, or adjust what was captured.\<close>

definition reconcile_fact_amount ::
  "timestamp \<Rightarrow> billing_reconcile_fact_request \<Rightarrow> string \<Rightarrow> authorization \<Rightarrow> billing_db \<Rightarrow>
   (billing_error + bool) \<times> billing_db" where
  "reconcile_fact_amount now req request_id a db =
     (let model = or_else (Option.bind (frq_model req) trim_nonempty) (Option.bind (au_model a) trim_nonempty);
          input_tokens = map_option (\<lambda>v. max v 0) (frq_input_tokens req);
          cached_input_tokens = map_option (\<lambda>v. max v 0) (frq_cached_input_tokens req);
          output_tokens = map_option (\<lambda>v. max v 0) (frq_output_tokens req);
          reasoning_tokens = map_option (\<lambda>v. max v 0) (frq_reasoning_tokens req);
          tier = or_else (frq_service_tier req) (authorization_service_tier (au_meta a))
      in case (model, input_tokens, output_tokens) of
           (Some m, Some inp, Some out) \<Rightarrow>
             if au_status a = Authorized then
               (case billing_capture now
                  \<lparr>crq_tenant_id = frq_tenant_id req,
                   crq_api_key_id = or_else (frq_api_key_id req) (au_api_key_id a),
                   crq_request_id = request_id, crq_model = m, crq_service_tier = tier,
                   crq_session_key = authorization_session_key (au_meta a),
                   crq_request_kind = map_option kind_as_str (authorization_request_kind (au_meta a)),
                   crq_input_tokens = inp, crq_cached_input_tokens = tokens_or_zero cached_input_tokens,
                   crq_output_tokens = out, crq_reasoning_tokens = tokens_or_zero reasoning_tokens\<rparr> db of
                  (Inl e, db1) \<Rightarrow> (Inl e, db1)
                | (Inr _, db1) \<Rightarrow> (Inr False, db1))
             else reconcile_adjust_captured_amount now (frq_tenant_id req) request_id m inp
                    (tokens_or_zero cached_input_tokens) out (tokens_or_zero reasoning_tokens)
                    (frq_api_key_id req) tier db
         | _ \<Rightarrow> (Inr False, db))"

definition billing_reconcile_request_fact ::
  "timestamp \<Rightarrow> billing_reconcile_fact_request \<Rightarrow> billing_db \<Rightarrow> (billing_error + billing_reconcile_stats) \<times> billing_db" where
  "billing_reconcile_request_fact now req db =
     (let request_id = trim (frq_request_id req);
          stats = zero_reconcile_stats
      in if request_id = [] then (Inr stats, db)
         else case fetch_authorization (frq_tenant_id req) request_id db of
                Inl e \<Rightarrow> (Inl e, db)
              | Inr None \<Rightarrow> (Inr stats, db)
              | Inr (Some a) \<Rightarrow>
                  let stats1 = stats\<lparr>rs_scanned := 1\<rparr>
                  in case reconcile_fact_amount now req request_id a db of
                       (Inl e, db1) \<Rightarrow> (Inl e, db1)
                     | (Inr adjusted, db1) \<Rightarrow>
                         let stats2 = (if adjusted then stats1\<lparr>rs_adjusted := rs_adjusted stats1 + 1\<rparr> else stats1)
                         in case fetch_authorization (frq_tenant_id req) request_id db1 of
                              Inl e \<Rightarrow> (Inl e, db1)
                            | Inr None \<Rightarrow> (Inr stats2, db1)
                            | Inr (Some latest) \<Rightarrow>
                                if au_status latest \<noteq> Released then
                                  (case billing_release now
                                     \<lparr>rrq_tenant_id = frq_tenant_id req, rrq_request_id = request_id\<rparr> db1 of
                                     (Inl e, db2) \<Rightarrow> (Inl e, db2)
                                   | (Inr _, db2) \<Rightarrow>
                                       (Inr (stats2\<lparr>rs_released := rs_released stats2 + 1\<rparr>), db2))
                                else (Inr stats2, db1))"

end
