(* ===== verification/Ledger_Props.thy ===== *)
theory Ledger_Props
  imports Ledger
begin

text \<open>
  What the ledger promises: balances never go negative, no credit is created or lost by holds,
  captures, releases and the reconciliation of stale holds, every balance is the sum of its ledger
  entries, the operations can be retried, and a session that reached the long-context band stays there.
\<close>

section \<open>Prices are 64-bit values\<close>

definition row_ok :: "price_row \<Rightarrow> bool" where
  "row_ok row \<longleftrightarrow> is_i64 (pr_input row) \<and> is_i64 (pr_cached_input row) \<and> is_i64 (pr_output row)"

definition opt_i64 :: "int option \<Rightarrow> bool" where
  "opt_i64 v = (case v of None \<Rightarrow> True | Some n \<Rightarrow> is_i64 n)"

definition px_ok :: "pricing_tables \<Rightarrow> bool" where
  "px_ok px \<longleftrightarrow>
     list_all (\<lambda>(_, row). row_ok row) (px_overrides px) \<and> list_all (\<lambda>(_, row). row_ok row) (px_catalog px) \<and>
     list_all (\<lambda>(_, p). opt_i64 (kgp_input_price p) \<and> opt_i64 (kgp_cached_input_price p) \<and>
       opt_i64 (kgp_output_price p)) (px_policies px) \<and>
     opt_i64 (px_default_input px) \<and> opt_i64 (px_default_cached_input px) \<and> opt_i64 (px_default_output px)"

definition pricing_ok :: "billing_pricing_resolved \<Rightarrow> bool" where
  "pricing_ok p \<longleftrightarrow> is_i64 (bp_input_price p) \<and> is_i64 (bp_cached_input_price p) \<and> is_i64 (bp_output_price p)"

lemma is_i64_multiplier [simp]: "is_i64 (apply_multiplier_ppm p m)"
  by (auto simp: apply_multiplier_ppm_def Let_def clamp_def is_i64_def sat_simps)

lemma is_i64_max: "is_i64 a \<Longrightarrow> is_i64 b \<Longrightarrow> is_i64 (max a b)"
  by (auto simp: is_i64_def)

lemma is_i64_0 [simp]: "is_i64 0"
  by (simp add: is_i64_def sat_simps)

lemma is_i64_tenth: "is_i64 x \<Longrightarrow> is_i64 (max (x div 10) 0)"
  by (auto simp: is_i64_def sat_simps)

lemma base_pricing_ok:
  assumes "px_ok px" "resolve_base_model_pricing px model tier = Inr p"
  shows "pricing_ok p"
proof -
  let ?hits = "List.map_filter (\<lambda>t. map_option (\<lambda>row. (t, row)) (map_of (px_overrides px) (model, t)))
      (pricing_override_lookup_tiers (normalize_billing_service_tier tier))"
  have nonempty: "trim model \<noteq> []" using assms(2) by (auto simp: resolve_base_model_pricing_def)
  show ?thesis
  proof (cases ?hits)
    case (Cons h hs)
    obtain t row where h: "h = (t, row)" by fastforce
    then have "(t, row) \<in> set ?hits" using Cons by simp
    then have "((model, t), row) \<in> set (px_overrides px)"
      unfolding set_map_filter by (auto dest: map_of_SomeD)
    then have "row_ok row" using assms(1) by (auto simp: px_ok_def list_all_iff)
    with Cons h assms(2) nonempty show ?thesis
      by (auto simp: resolve_base_model_pricing_def Let_def pricing_ok_def row_ok_def
          normalize_cached_input_price_microcredits_def is_i64_max)
  next
    case Nil
    show ?thesis
    proof (cases "map_of (px_catalog px) model")
      case (Some row)
      then have "row_ok row" using assms(1) by (auto simp: px_ok_def list_all_iff dest: map_of_SomeD)
      with Some Nil assms(2) nonempty show ?thesis
        by (auto simp: resolve_base_model_pricing_def Let_def pricing_ok_def row_ok_def)
    next
      case None
      then obtain inp out where io: "px_default_input px = Some inp" "px_default_output px = Some out"
        and p: "p = \<lparr>bp_input_price = inp, bp_cached_input_price =
            max (case px_default_cached_input px of Some c \<Rightarrow> c | None \<Rightarrow> inp div 10) 0,
            bp_output_price = out, bp_source = [DefaultFallback]\<rparr>"
        using Nil assms(2) nonempty
        by (simp add: resolve_base_model_pricing_def Let_def split: if_splits option.splits)
      have "is_i64 inp" "is_i64 out" "opt_i64 (px_default_cached_input px)"
        using assms(1) io by (simp_all add: px_ok_def opt_i64_def)
      then show ?thesis
        by (auto simp: p pricing_ok_def opt_i64_def is_i64_tenth is_i64_max split: option.split)
    qed
  qed
qed

lemma band_pricing_ok:
  "pricing_ok base \<Longrightarrow>
   pricing_ok (bd_pricing (resolve_effective_pricing_for_band base rules model kind band tokens phase))"
  by (auto simp: resolve_effective_pricing_for_band_def Let_def apply_rule_def pricing_ok_def
      split: option.split)

lemma group_pricing_ok:
  assumes "px_ok px" "resolve_api_key_group_pricing px k model base = Inr g"
  shows "pricing_ok (gp_final_pricing g)"
proof -
  have formula: "pricing_ok (gp_final_pricing (apply_api_key_group_model_pricing base grp policy))"
    if "\<And>item. policy = Some item \<Longrightarrow> opt_i64 (kgp_input_price item) \<and> opt_i64 (kgp_cached_input_price item) \<and>
       opt_i64 (kgp_output_price item)" for grp policy
    using that
    by (cases policy)
      (auto simp: apply_api_key_group_model_pricing_def Let_def pricing_ok_def policy_has_absolute_pricing_def
        opt_i64_def)
  obtain grp where grp: "map_of (px_key_groups px) k = Some grp"
    using assms(2) by (auto simp: resolve_api_key_group_pricing_def split: option.splits)
  obtain policy where g: "g = apply_api_key_group_model_pricing base grp policy"
    and policy: "\<And>item. policy = Some item \<Longrightarrow> map_of (px_policies px) (kgr_id grp, model) = Some item"
    using assms(2) grp
    by (auto simp: resolve_api_key_group_pricing_def Let_def split: option.splits if_splits)
  have "opt_i64 (kgp_input_price item) \<and> opt_i64 (kgp_cached_input_price item) \<and> opt_i64 (kgp_output_price item)"
    if "policy = Some item" for item
    using policy [OF that] assms(1) by (auto simp: px_ok_def list_all_iff dest!: map_of_SomeD)
  with formula g show ?thesis by blast
qed

lemma request_pricing_ok:
  assumes "px_ok px" "resolve_model_pricing_for_request px model ctx = Inr d"
  shows "pricing_ok (bd_pricing d)"
  using assms base_pricing_ok [OF assms(1)] band_pricing_ok group_pricing_ok [OF assms(1)]
  by (auto simp: resolve_model_pricing_for_request_def Let_def split: sum.splits option.splits)

lemma charged_bounds:
  assumes "pricing_ok p" "is_i64 i" "is_i64 c" "is_i64 out"
  shows "0 \<le> calculate_charged_microcredits i c out p" "calculate_charged_microcredits i c out p \<le> i64_max"
proof -
  let ?pr = "\<lparr>tp_input_price = bp_input_price p, tp_cached_input_price = bp_cached_input_price p,
    tp_output_price = bp_output_price p\<rparr>"
  have "price_ok ?pr" using assms(1) by (simp add: price_ok_def pricing_ok_def)
  then show "0 \<le> calculate_charged_microcredits i c out p"
    using cost_nonneg [OF assms(2-4)] by (simp add: calculate_charged_microcredits_def)
  show "calculate_charged_microcredits i c out p \<le> i64_max"
    using is_i64_sat by (simp add: calculate_charged_microcredits_def cost_eq [OF assms(2-4)] is_i64_def)
qed

section \<open>The invariant\<close>

text \<open>What an authorization costs its tenant at the moment: the hold, or what was captured.\<close>

definition spent :: "authorization \<Rightarrow> int" where
  "spent a = (if au_status a = Released then au_captured a else max (au_reserved a) (au_captured a))"

definition spent_by :: "billing_db \<Rightarrow> uuid \<Rightarrow> int" where
  "spent_by db t = sum_list (map spent (filter (\<lambda>a. au_tenant_id a = t) (db_authorizations db)))"

definition ledger_sum :: "billing_db \<Rightarrow> uuid \<Rightarrow> int" where
  "ledger_sum db t = sum_list (map le_delta (filter (\<lambda>e. le_tenant_id e = t) (db_ledger db)))"

definition authorization_ok :: "authorization \<Rightarrow> bool" where
  "authorization_ok a \<longleftrightarrow>
     0 < au_reserved a \<and> au_reserved a \<le> i64_max \<and> 0 \<le> au_captured a \<and> au_captured a \<le> i64_max \<and>
     (au_status a = Authorized \<longrightarrow> au_captured a = 0)"

abbreviation request_of :: "authorization \<Rightarrow> uuid \<times> string" where
  "request_of a \<equiv> (au_tenant_id a, au_request_id a)"

definition rows_ok :: "billing_db \<Rightarrow> bool" where
  "rows_ok db \<longleftrightarrow>
     distinct (map au_id (db_authorizations db)) \<and> distinct (map request_of (db_authorizations db)) \<and>
     list_all authorization_ok (db_authorizations db) \<and>
     list_all (\<lambda>a. map_of (db_tenants db) (au_tenant_id a) \<noteq> None) (db_authorizations db) \<and>
     px_ok (db_pricing db)"

text \<open>
  \<open>F\<close> are the funds of the tenants: what they were ever credited. Money is conserved when every
  balance is the funds less what the authorizations cost, and is also what the ledger says.
\<close>

definition money_ok :: "(uuid \<Rightarrow> int) \<Rightarrow> (uuid \<Rightarrow> int) \<Rightarrow> billing_db \<Rightarrow> bool" where
  "money_ok F L db \<longleftrightarrow>
     (\<forall>t. 0 \<le> balance_of db t \<and> balance_of db t + spent_by db t = F t \<and>
          balance_of db t = L t + ledger_sum db t)"

text \<open>A ledger entry with a request id belongs to an authorization that is no longer merely held.\<close>

definition keyed_ok :: "billing_db \<Rightarrow> bool" where
  "keyed_ok db \<longleftrightarrow>
     (\<forall>e \<in> set (db_ledger db). \<forall>q. le_request_id e = Some q \<longrightarrow>
        (\<exists>a \<in> set (db_authorizations db). request_of a = (le_tenant_id e, q) \<and> au_status a \<noteq> Authorized))"

definition ledger_inv :: "(uuid \<Rightarrow> int) \<Rightarrow> (uuid \<Rightarrow> int) \<Rightarrow> billing_db \<Rightarrow> bool" where
  "ledger_inv F L db \<longleftrightarrow> rows_ok db \<and> money_ok F L db \<and> keyed_ok db \<and> (\<forall>t. F t \<le> i64_max)"

lemma ledger_invD:
  assumes "ledger_inv F L db"
  shows "rows_ok db" "money_ok F L db" "keyed_ok db" "F t \<le> i64_max"
  using assms by (simp_all add: ledger_inv_def)

lemma money_okD:
  assumes "money_ok F L db"
  shows "0 \<le> balance_of db t" "balance_of db t + spent_by db t = F t" "balance_of db t = L t + ledger_sum db t"
  using assms unfolding money_ok_def by blast+

lemma spent_nonneg: "authorization_ok a \<Longrightarrow> 0 \<le> spent a"
  by (auto simp: spent_def authorization_ok_def)

lemma spent_by_nonneg: "list_all authorization_ok (db_authorizations db) \<Longrightarrow> 0 \<le> spent_by db t"
  unfolding spent_by_def by (rule sum_list_nonneg) (auto simp: list_all_iff intro: spent_nonneg)

lemma spent_le_spent_by:
  assumes "list_all authorization_ok (db_authorizations db)" "a \<in> set (db_authorizations db)"
  shows "spent a \<le> spent_by db (au_tenant_id a)"
  unfolding spent_by_def
  using assms by (intro member_le_sum_list) (auto simp: list_all_iff intro: spent_nonneg)

lemma balance_le_max:
  assumes "ledger_inv F L db"
  shows "balance_of db t \<le> i64_max"
proof -
  have "0 \<le> spent_by db t"
    using ledger_invD(1) [OF assms] by (intro spent_by_nonneg) (simp add: rows_ok_def)
  then show ?thesis
    using money_okD(2) [OF ledger_invD(2) [OF assms], of t] ledger_invD(4) [OF assms, of t] by linarith
qed

section \<open>Effect of the statements\<close>

definition credited :: "credit_delta_params \<Rightarrow> billing_db \<Rightarrow> billing_db" where
  "credited p db =
     db\<lparr>db_accounts := hm_insert (cd_tenant_id p) (balance_of db (cd_tenant_id p) + cd_delta p) (db_accounts db),
       db_ledger := \<lparr>le_tenant_id = cd_tenant_id p, le_api_key_id = cd_api_key_id p,
                     le_request_id = cd_request_id p, le_event_type = cd_event_type p, le_delta = cd_delta p,
                     le_balance_after = balance_of db (cd_tenant_id p) + cd_delta p,
                     le_input_tokens = cd_input_tokens p, le_output_tokens = cd_output_tokens p,
                     le_model = cd_model p, le_created_at = cd_now p\<rparr> # db_ledger db\<rparr>"

lemma apply_credit_delta_effect:
  assumes "\<not> tx_aborted tx" "\<not> ledger_conflict p (tx_db tx)"
    and "is_i64 (balance_of (tx_db tx) (cd_tenant_id p) + cd_delta p)"
  shows "apply_credit_delta_inner p tx =
    (if balance_of (tx_db tx) (cd_tenant_id p) + cd_delta p < 0 then (Inl InsufficientCredits, tx)
     else if map_of (db_tenants (tx_db tx)) (cd_tenant_id p) = None
     then (Inl ForeignKeyViolation, tx\<lparr>tx_aborted := True\<rparr>)
     else (Inr (balance_of (tx_db tx) (cd_tenant_id p) + cd_delta p), tx\<lparr>tx_db := credited p (tx_db tx)\<rparr>))"
  using assms by (simp add: apply_credit_delta_inner_def credited_def sat_i64_id Let_def)

lemma balance_credited [simp]:
  "balance_of (credited p db) t = balance_of db t + (if t = cd_tenant_id p then cd_delta p else 0)"
  by (auto simp: credited_def balance_of_def map_of_hm_insert)

lemma credited_fields [simp]:
  "db_authorizations (credited p db) = db_authorizations db" "db_pricing (credited p db) = db_pricing db"
  "db_sessions (credited p db) = db_sessions db" "db_tenants (credited p db) = db_tenants db"
  "db_checkins (credited p db) = db_checkins db"
  by (simp_all add: credited_def)

lemma ledger_sum_credited [simp]:
  "ledger_sum (credited p db) t = ledger_sum db t + (if t = cd_tenant_id p then cd_delta p else 0)"
  by (auto simp: ledger_sum_def credited_def)

lemma spent_by_credited [simp]: "spent_by (credited p db) t = spent_by db t"
  by (simp add: spent_by_def)

lemma update_fields [simp]:
  "db_accounts (update_authorization i f db) = db_accounts db"
  "db_ledger (update_authorization i f db) = db_ledger db"
  "db_pricing (update_authorization i f db) = db_pricing db"
  "db_sessions (update_authorization i f db) = db_sessions db"
  "db_tenants (update_authorization i f db) = db_tenants db"
  "balance_of (update_authorization i f db) t = balance_of db t"
  "ledger_sum (update_authorization i f db) t = ledger_sum db t"
  by (simp_all add: update_authorization_def balance_of_def ledger_sum_def)

lemma session_fields [simp]:
  "db_accounts (upsert_session_if now t k m b db) = db_accounts db"
  "db_ledger (upsert_session_if now t k m b db) = db_ledger db"
  "db_pricing (upsert_session_if now t k m b db) = db_pricing db"
  "db_tenants (upsert_session_if now t k m b db) = db_tenants db"
  "db_authorizations (upsert_session_if now t k m b db) = db_authorizations db"
  by (auto simp: upsert_session_if_def upsert_billing_session_def Let_def split: option.split)

lemma ledger_inv_session [simp]:
  "ledger_inv F L (upsert_session_if now t k m b db) = ledger_inv F L db"
  by (simp add: ledger_inv_def rows_ok_def money_ok_def keyed_ok_def balance_of_def spent_by_def ledger_sum_def)

lemma spent_by_update:
  assumes "distinct (map au_id (db_authorizations db))" "a \<in> set (db_authorizations db)"
    and "au_tenant_id (f a) = au_tenant_id a"
  shows "spent_by (update_authorization (au_id a) f db) t =
    spent_by db t + (if t = au_tenant_id a then spent (f a) - spent a else 0)"
proof -
  have "sum_list (map spent (filter (\<lambda>r. au_tenant_id r = t) (map (\<lambda>r. if au_id r = au_id a then f r else r) as))) =
    sum_list (map spent (filter (\<lambda>r. au_tenant_id r = t) as)) +
    (if au_tenant_id a = t then spent (f a) - spent a else 0)"
    if "distinct (map au_id as)" "a \<in> set as" for as
    using that
  proof (induction as)
    case (Cons x xs)
    show ?case
    proof (cases "au_id x = au_id a")
      case True
      then have "x = a" using Cons.prems by (auto simp: image_iff)
      moreover have "map (\<lambda>r. if au_id r = au_id a then f r else r) xs = xs"
        using Cons.prems True by (intro map_idI) (auto simp: image_iff)
      ultimately show ?thesis using assms(3) by simp
    next
      case False
      with Cons show ?thesis by auto
    qed
  qed simp
  from this [OF assms(1,2)] show ?thesis by (auto simp: spent_by_def update_authorization_def)
qed

text \<open>Money moves between the balance and what the authorizations cost, never elsewhere.\<close>

lemma money_ok_shift:
  assumes "money_ok F L db" "0 \<le> balance_of db u + d"
    and "\<And>t. balance_of db' t = balance_of db t + (if t = u then d else 0)"
    and "\<And>t. ledger_sum db' t = ledger_sum db t + (if t = u then d else 0)"
    and "\<And>t. spent_by db' t = spent_by db t - (if t = u then d else 0)"
  shows "money_ok F L db'"
  unfolding money_ok_def
proof (intro allI)
  fix t
  have "0 \<le> balance_of db t" "balance_of db t + spent_by db t = F t" "balance_of db t = L t + ledger_sum db t"
    by (rule money_okD [OF assms(1)])+
  then show "0 \<le> balance_of db' t \<and> balance_of db' t + spent_by db' t = F t \<and> balance_of db' t = L t + ledger_sum db' t"
    unfolding assms(3-5) using assms(2) by (cases "t = u") auto
qed

text \<open>
  A settlement step: the balance of the tenant changes by \<open>d\<close>, with at most a ledger entry for the
  request, and the authorization is updated so that its cost changes by the opposite amount.
\<close>

lemma settle_inv:
  assumes inv: "ledger_inv F L db" and a: "a \<in> set (db_authorizations db)"
    and f: "\<And>r. au_id (f r) = au_id r" "\<And>r. request_of (f r) = request_of r" "authorization_ok (f a)"
    and st: "au_status (f a) \<noteq> Authorized"
    and db1: "db_authorizations db1 = db_authorizations db" "db_pricing db1 = db_pricing db"
      "db_tenants db1 = db_tenants db"
      "\<And>t. balance_of db1 t = balance_of db t + (if t = au_tenant_id a then d else 0)"
      "\<And>t. ledger_sum db1 t = ledger_sum db t + (if t = au_tenant_id a then d else 0)"
    and entries: "\<And>e. e \<in> set (db_ledger db1) \<Longrightarrow> e \<in> set (db_ledger db) \<or>
      (le_tenant_id e = au_tenant_id a \<and> le_request_id e \<in> {None, Some (au_request_id a)})"
    and delta: "spent (f a) = spent a - d" "0 \<le> balance_of db (au_tenant_id a) + d"
  shows "ledger_inv F L (update_authorization (au_id a) f db1)"
proof -
  let ?g = "\<lambda>r. if au_id r = au_id a then f r else r"
  let ?db = "update_authorization (au_id a) f db1"
  note rows = ledger_invD(1) [OF inv] and money = ledger_invD(2) [OF inv] and keyed = ledger_invD(3) [OF inv]
  have auths: "db_authorizations ?db = map ?g (db_authorizations db)"
    by (simp add: update_authorization_def db1)
  have only: "r = a" if "r \<in> set (db_authorizations db)" "au_id r = au_id a" for r
    using that a rows by (auto simp: rows_ok_def distinct_map dest: inj_onD)
  have ids: "map au_id (map ?g as) = map au_id as" "map request_of (map ?g as) = map request_of as" for as
    using f by auto
  have "rows_ok ?db"
    using rows f only unfolding rows_ok_def auths ids by (auto simp: list_all_iff db1)
  moreover have "money_ok F L ?db"
    using money delta(2)
  proof (rule money_ok_shift)
    show "spent_by ?db t = spent_by db t - (if t = au_tenant_id a then d else 0)" for t
      using spent_by_update [of db1 a f t] a f(2) [of a] rows delta(1) db1(1)
      by (auto simp: rows_ok_def spent_by_def)
  qed (simp_all add: db1)
  moreover have "keyed_ok ?db"
    unfolding keyed_ok_def
  proof (intro ballI allI impI)
    fix e q assume e: "e \<in> set (db_ledger ?db)" and q: "le_request_id e = Some q"
    have fa: "f a \<in> set (db_authorizations ?db)" using a unfolding auths by force
    show "\<exists>b \<in> set (db_authorizations ?db). request_of b = (le_tenant_id e, q) \<and> au_status b \<noteq> Authorized"
    proof (cases "e \<in> set (db_ledger db)")
      case True
      then obtain b where b: "b \<in> set (db_authorizations db)" "request_of b = (le_tenant_id e, q)"
        "au_status b \<noteq> Authorized" using keyed q by (auto simp: keyed_ok_def)
      show ?thesis
      proof (cases "au_id b = au_id a")
        case True
        then have "b = a" using only b(1) by blast
        with b f(2) [of a] st fa show ?thesis by (intro bexI [of _ "f a"]) auto
      next
        case False
        with b show ?thesis unfolding auths by (intro bexI [of _ b]) force+
      qed
    next
      case False
      with e entries [of e] q have "request_of a = (le_tenant_id e, q)" by auto
      with f(2) [of a] st fa show ?thesis by (intro bexI [of _ "f a"]) auto
    qed
  qed
  ultimately show ?thesis using inv by (simp add: ledger_inv_def)
qed

end
