(* ===== verification/Ledger_Correct.thy ===== *)
theory Ledger_Correct
  imports Ledger_Props
begin

text \<open>
  The operations of the ledger keep its invariant, as one step relation, and what follows for balances,
  charges, retries and reconciliation.
\<close>

section \<open>Look-up of authorizations\<close>

lemma fetch_SomeD:
  assumes "fetch_authorization_for_update t q db = Some a"
  shows "a \<in> set (db_authorizations db)" "au_tenant_id a = t" "au_request_id a = q"
  using assms by (auto simp: fetch_authorization_for_update_def find_Some_iff)

lemma fetch_NoneD:
  "fetch_authorization_for_update t q db = None \<Longrightarrow> a \<in> set (db_authorizations db) \<Longrightarrow> request_of a \<noteq> (t, q)"
  by (auto simp: fetch_authorization_for_update_def find_None_iff)

lemma same_request:
  "rows_ok db \<Longrightarrow> a \<in> set (db_authorizations db) \<Longrightarrow> b \<in> set (db_authorizations db) \<Longrightarrow>
   request_of a = request_of b \<Longrightarrow> a = b"
  unfolding rows_ok_def distinct_map by (blast dest: inj_onD)

lemma fetch_member:
  assumes "rows_ok db" "a \<in> set (db_authorizations db)"
  shows "fetch_authorization_for_update (au_tenant_id a) (au_request_id a) db = Some a"
proof (cases "fetch_authorization_for_update (au_tenant_id a) (au_request_id a) db")
  case None
  from fetch_NoneD [OF this assms(2)] show ?thesis by simp
next
  case (Some b)
  from fetch_SomeD [OF Some] same_request [OF assms(1) _ assms(2)] Some show ?thesis by simp
qed

lemma authorization_okD:
  assumes "ledger_inv F L db" "a \<in> set (db_authorizations db)"
  shows "authorization_ok a" "map_of (db_tenants db) (au_tenant_id a) \<noteq> None"
  using ledger_invD(1) [OF assms(1)] assms(2) by (auto simp: rows_ok_def list_all_iff)

section \<open>Credits and debits of a sound ledger\<close>

lemma no_conflict_None [simp]: "cd_request_id p = None \<Longrightarrow> \<not> ledger_conflict p db"
  by (simp add: ledger_conflict_def)

text \<open>Only a capture writes a ledger entry with a request id, so a hold that is not captured has none.\<close>

lemma no_conflict_authorized:
  assumes "ledger_inv F L db" "a \<in> set (db_authorizations db)" "au_status a = Authorized"
    and "cd_tenant_id p = au_tenant_id a" "cd_request_id p = Some (au_request_id a)"
  shows "\<not> ledger_conflict p db"
proof
  assume "ledger_conflict p db"
  then obtain e where "e \<in> set (db_ledger db)" "le_tenant_id e = au_tenant_id a"
    "le_request_id e = Some (au_request_id a)"
    using assms(4,5) by (auto simp: ledger_conflict_def list_ex_iff)
  then obtain b where "b \<in> set (db_authorizations db)" "request_of b = request_of a" "au_status b \<noteq> Authorized"
    using ledger_invD(3) [OF assms(1)] by (fastforce simp: keyed_ok_def)
  with same_request [OF ledger_invD(1) [OF assms(1)] _ assms(2)] assms(3) show False by auto
qed

lemma debit_effect:
  assumes "ledger_inv F L db" "\<not> ledger_conflict p db" "- i64_max \<le> cd_delta p" "cd_delta p \<le> 0"
  shows "apply_credit_delta_inner p \<lparr>tx_db = db, tx_aborted = False\<rparr> =
    (if balance_of db (cd_tenant_id p) + cd_delta p < 0
     then (Inl InsufficientCredits, \<lparr>tx_db = db, tx_aborted = False\<rparr>)
     else if map_of (db_tenants db) (cd_tenant_id p) = None
     then (Inl ForeignKeyViolation, \<lparr>tx_db = db, tx_aborted = True\<rparr>)
     else (Inr (balance_of db (cd_tenant_id p) + cd_delta p), \<lparr>tx_db = credited p db, tx_aborted = False\<rparr>))"
proof -
  have "is_i64 (balance_of db (cd_tenant_id p) + cd_delta p)"
    using balance_le_max [OF assms(1), of "cd_tenant_id p"] assms(3,4)
      money_okD(1) [OF ledger_invD(2) [OF assms(1)], of "cd_tenant_id p"]
    by (auto simp: is_i64_def sat_simps)
  then show ?thesis using assms(2) by (subst apply_credit_delta_effect) simp_all
qed

lemma release_amount_spent:
  assumes "authorization_ok a" "au_status a \<noteq> Released"
  shows "release_amount a = max 0 (au_reserved a - au_captured a)"
    "spent a = au_captured a + release_amount a"
proof -
  have "is_i64 (au_reserved a - au_captured a)"
    using assms(1) by (auto simp: authorization_ok_def is_i64_def sat_simps)
  then show "release_amount a = max 0 (au_reserved a - au_captured a)"
    by (simp add: release_amount_def sat_i64_id max.commute)
  then show "spent a = au_captured a + release_amount a" using assms(2) by (simp add: spent_def)
qed

lemma refund_effect:
  assumes inv: "ledger_inv F L db" and a: "a \<in> set (db_authorizations db)" "au_status a \<noteq> Released"
  shows "apply_credit_delta_inner (release_delta now ev a) \<lparr>tx_db = db, tx_aborted = False\<rparr> =
    (Inr (balance_of db (au_tenant_id a) + release_amount a),
     \<lparr>tx_db = credited (release_delta now ev a) db, tx_aborted = False\<rparr>)"
proof -
  have ok: "authorization_ok a" "map_of (db_tenants db) (au_tenant_id a) \<noteq> None"
    by (rule authorization_okD [OF inv a(1)])+
  have "release_amount a \<le> spent a" "0 \<le> release_amount a"
    using release_amount_spent [OF ok(1) a(2)] ok(1) by (auto simp: authorization_ok_def)
  moreover have "spent a \<le> spent_by db (au_tenant_id a)"
    using ledger_invD(1) [OF inv] a(1) by (intro spent_le_spent_by) (simp_all add: rows_ok_def)
  moreover have "balance_of db (au_tenant_id a) + spent_by db (au_tenant_id a) \<le> i64_max"
    using money_okD(2) [OF ledger_invD(2) [OF inv]] ledger_invD(4) [OF inv] by metis
  moreover have "0 \<le> balance_of db (au_tenant_id a)"
    by (rule money_okD(1) [OF ledger_invD(2) [OF inv]])
  ultimately have "is_i64 (balance_of db (au_tenant_id a) + release_amount a)"
    "0 \<le> balance_of db (au_tenant_id a) + release_amount a"
    by (auto simp: is_i64_def sat_simps)
  then show ?thesis using ok(2) by (subst apply_credit_delta_effect) (auto simp: release_delta_def)
qed

section \<open>Release\<close>

abbreviation mark_released :: "timestamp \<Rightarrow> authorization \<Rightarrow> authorization" where
  "mark_released now \<equiv> (\<lambda>r. r\<lparr>au_status := Released, au_updated_at := now\<rparr>)"

text \<open>What releasing one authorization does to the database, with or without a refund.\<close>

definition released_db :: "timestamp \<Rightarrow> ledger_event \<Rightarrow> authorization \<Rightarrow> billing_db \<Rightarrow> billing_db" where
  "released_db now ev a db =
     update_authorization (au_id a) (mark_released now)
       (if release_amount a > 0 then credited (release_delta now ev a) db else db)"

lemma release_delta_fields [simp]:
  "cd_tenant_id (release_delta now ev a) = au_tenant_id a" "cd_request_id (release_delta now ev a) = None"
  "cd_delta (release_delta now ev a) = release_amount a"
  by (simp_all add: release_delta_def)

lemma released_db_inv:
  assumes inv: "ledger_inv F L db" and a: "a \<in> set (db_authorizations db)" "au_status a \<noteq> Released"
  shows "ledger_inv F L (released_db now ev a db)"
  unfolding released_db_def
proof (rule settle_inv [OF inv a(1), where d = "release_amount a"])
  have ok: "authorization_ok a" by (rule authorization_okD [OF inv a(1)])
  note amount = release_amount_spent [OF ok a(2)]
  show "authorization_ok (mark_released now a)" using ok by (simp add: authorization_ok_def)
  show "spent (mark_released now a) = spent a - release_amount a" using amount(2) by (simp add: spent_def)
  show "0 \<le> balance_of db (au_tenant_id a) + release_amount a"
    using money_okD(1) [OF ledger_invD(2) [OF inv], of "au_tenant_id a"] amount(1) by simp
  have "release_amount a = 0" if "\<not> release_amount a > 0" using that amount(1) by simp
  then show "balance_of (if release_amount a > 0 then credited (release_delta now ev a) db else db) t =
      balance_of db t + (if t = au_tenant_id a then release_amount a else 0)"
    and "ledger_sum (if release_amount a > 0 then credited (release_delta now ev a) db else db) t =
      ledger_sum db t + (if t = au_tenant_id a then release_amount a else 0)" for t
    by simp_all
qed (auto simp: credited_def split: if_splits)

lemma billing_release_eq:
  assumes "ledger_inv F L db"
  shows "billing_release now req db =
    (if trim (rrq_request_id req) = [] then (Inl EmptyRequestId, db)
     else case fetch_authorization_for_update (rrq_tenant_id req) (trim (rrq_request_id req)) db of
            None \<Rightarrow> (Inl AuthorizationNotFound, db)
          | Some a \<Rightarrow>
              if au_status a = Released
              then (Inr (response_of a (release_amount a) (balance_of db (rrq_tenant_id req))), db)
              else (Inr ((response_of a (release_amount a) (balance_of db (rrq_tenant_id req) + release_amount a))
                           \<lparr>brs_status := Released\<rparr>), released_db now ReleaseEvent a db))"
proof -
  have "0 \<le> release_amount a" for a by (simp add: release_amount_def)
  then have zero: "\<not> 0 < release_amount a \<Longrightarrow> release_amount a = 0" for a by (metis antisym_conv1)
  show ?thesis
  proof (cases "fetch_authorization_for_update (rrq_tenant_id req) (trim (rrq_request_id req)) db")
    case (Some a)
    note found = fetch_SomeD [OF Some]
    have "apply_credit_delta_inner (release_delta now ReleaseEvent a) \<lparr>tx_db = db, tx_aborted = False\<rparr> =
      (Inr (balance_of db (rrq_tenant_id req) + release_amount a),
       \<lparr>tx_db = credited (release_delta now ReleaseEvent a) db, tx_aborted = False\<rparr>)" if "au_status a \<noteq> Released"
      using refund_effect [OF assms found(1) that] found(2) by simp
    with Some zero [of a] show ?thesis
      by (cases "0 < release_amount a") (simp_all add: billing_release_def Let_def current_credit_balance_for_update_def statement_def released_db_def)
  qed (simp add: billing_release_def)
qed

lemma billing_release_inv:
  assumes "ledger_inv F L db"
  shows "ledger_inv F L (snd (billing_release now req db))"
  using assms by (auto simp: billing_release_eq [OF assms] intro: released_db_inv dest: fetch_SomeD split: option.split)


section \<open>Authorize\<close>

lemma new_authorization_inv:
  assumes inv: "ledger_inv F L db" and a: "authorization_ok a" "au_status a = Authorized"
    and fresh: "au_id a \<notin> au_id ` set (db_authorizations db)"
      "fetch_authorization_for_update (au_tenant_id a) (au_request_id a) db = None"
    and p: "cd_tenant_id p = au_tenant_id a" "cd_request_id p = None" "cd_delta p = - au_reserved a"
    and ok: "0 \<le> balance_of db (au_tenant_id a) - au_reserved a" "map_of (db_tenants db) (au_tenant_id a) \<noteq> None"
  shows "ledger_inv F L ((credited p db)\<lparr>db_authorizations := a # db_authorizations db\<rparr>)" (is "ledger_inv F L ?db")
proof -
  note rows = ledger_invD(1) [OF inv]
  have "request_of a \<notin> request_of ` set (db_authorizations db)"
  proof
    assume "request_of a \<in> request_of ` set (db_authorizations db)"
    then obtain b where "request_of a = request_of b" "b \<in> set (db_authorizations db)" by (rule imageE)
    with fetch_NoneD [OF fresh(2), of b] show False by simp
  qed
  then have "rows_ok ?db" using rows a fresh(1) ok(2) by (auto simp: rows_ok_def)
  moreover have "money_ok F L ?db"
  proof (rule money_ok_shift [OF ledger_invD(2) [OF inv], where d = "- au_reserved a"])
    have cost: "spent a = au_reserved a" using a by (simp add: spent_def authorization_ok_def)
    show "spent_by ?db t = spent_by db t - (if t = au_tenant_id a then - au_reserved a else 0)" for t
      by (simp add: spent_by_def cost)
    have same: "balance_of ?db t = balance_of (credited p db) t" "ledger_sum ?db t = ledger_sum (credited p db) t" for t
      by (simp_all add: balance_of_def ledger_sum_def)
    show "balance_of ?db t = balance_of db t + (if t = au_tenant_id a then - au_reserved a else 0)"
      "ledger_sum ?db t = ledger_sum db t + (if t = au_tenant_id a then - au_reserved a else 0)" for t
      unfolding same by (simp_all add: p)
  qed (use ok in simp)
  moreover have "keyed_ok ?db"
    using ledger_invD(3) [OF inv] p(2) by (auto simp: keyed_ok_def credited_def)
  ultimately show ?thesis using inv by (simp add: ledger_inv_def)
qed

definition authorize_request_ok :: "billing_authorize_request \<Rightarrow> bool" where
  "authorize_request_ok req \<longleftrightarrow> arq_reserved req \<le> i64_max"

lemma billing_authorize_cases:
  assumes inv: "ledger_inv F L db" and id: "new_id \<notin> au_id ` set (db_authorizations db)"
    and req: "authorize_request_ok req"
  obtains
    (unchanged) "snd (billing_authorize ttl now new_id req db) = db"
      "\<And>r. fst (billing_authorize ttl now new_id req db) = Inr r \<Longrightarrow>
         \<exists>a. fetch_authorization_for_update (arq_tenant_id req) (trim (arq_request_id req)) db = Some a \<and>
             au_status a = Authorized \<and> r = response_of a 0 (balance_of db (arq_tenant_id req))"
  | (hold) a p k b where
      "fetch_authorization_for_update (arq_tenant_id req) (trim (arq_request_id req)) db = None"
      "au_id a = new_id" "request_of a = (arq_tenant_id req, trim (arq_request_id req))"
      "au_reserved a = arq_reserved req" "au_captured a = 0" "au_status a = Authorized" "authorization_ok a"
      "cd_tenant_id p = au_tenant_id a" "cd_request_id p = None" "cd_delta p = - au_reserved a"
      "cd_event_type p = AuthorizeHold"
      "0 \<le> balance_of db (au_tenant_id a) - au_reserved a" "map_of (db_tenants db) (au_tenant_id a) \<noteq> None"
      "billing_authorize ttl now new_id req db =
         (Inr (response_of a 0 (balance_of db (au_tenant_id a) - au_reserved a)),
          upsert_session_if now (arq_tenant_id req) k (trim (arq_model req)) b
            ((credited p db)\<lparr>db_authorizations := a # db_authorizations db\<rparr>))"
proof (cases "trim (arq_request_id req) = [] \<or> trim (arq_model req) = [] \<or> arq_reserved req \<le> 0 \<or>
    fetch_authorization_for_update (arq_tenant_id req) (trim (arq_request_id req)) db \<noteq> None")
  case True
  then show thesis
    by (intro unchanged) (auto simp: billing_authorize_def Let_def current_credit_balance_for_update_def
        authorization_reusable_for_authorize_def split: if_splits)
next
  case False
  let ?ctx = "\<lparr>bc_service_tier = Some (normalize_billing_service_tier (arq_service_tier req)),
      bc_api_key_id = arq_api_key_id req, bc_request_kind = kind_from_optional (arq_request_kind req),
      bc_persisted_band = map_option (\<lambda>b. band_from_optional (Some b))
        (Option.bind (Option.bind (arq_session_key req) trim_nonempty)
           (\<lambda>k. fetch_billing_session_for_update now (arq_tenant_id req) k db)),
      bc_actual_input_tokens = None, bc_phase = AuthorizePhase\<rparr>"
  let ?p = "\<lparr>cd_tenant_id = arq_tenant_id req, cd_api_key_id = arq_api_key_id req,
      cd_event_type = AuthorizeHold, cd_delta = - arq_reserved req, cd_request_id = None,
      cd_model = Some (trim (arq_model req)), cd_input_tokens = None, cd_output_tokens = None, cd_now = now\<rparr>"
  have effect: "apply_credit_delta_inner ?p \<lparr>tx_db = db, tx_aborted = False\<rparr> =
    (if balance_of db (arq_tenant_id req) - arq_reserved req < 0
     then (Inl InsufficientCredits, \<lparr>tx_db = db, tx_aborted = False\<rparr>)
     else if map_of (db_tenants db) (arq_tenant_id req) = None
     then (Inl ForeignKeyViolation, \<lparr>tx_db = db, tx_aborted = True\<rparr>)
     else (Inr (balance_of db (arq_tenant_id req) - arq_reserved req), \<lparr>tx_db = credited ?p db, tx_aborted = False\<rparr>))"
    using False req by (subst debit_effect [OF inv]) (simp_all add: authorize_request_ok_def)
  let ?a = "\<lambda>band. \<lparr>au_id = new_id, au_tenant_id = arq_tenant_id req, au_request_id = trim (arq_request_id req),
      au_api_key_id = arq_api_key_id req, au_model = Some (trim (arq_model req)), au_reserved = arq_reserved req,
      au_captured = 0, au_status = Authorized,
      au_expires_at = now + secs (clamp (case arq_ttl_sec req of None \<Rightarrow> ttl | Some t \<Rightarrow> t)
        min_billing_authorization_ttl_sec max_billing_authorization_ttl_sec),
      au_meta = \<lparr>am_session_key = Option.bind (arq_session_key req) trim_nonempty,
        am_request_kind = Some (kind_as_str (kind_from_optional (arq_request_kind req))),
        am_service_tier = Some (normalize_billing_service_tier (arq_service_tier req)),
        am_pricing_band = Some (band_as_str band)\<rparr>, au_updated_at = now\<rparr>"
  show thesis
  proof (cases "resolve_model_pricing_for_request (db_pricing db) (trim (arq_model req)) ?ctx")
    case (Inl e)
    with False show thesis by (intro unchanged) (simp_all add: billing_authorize_def Let_def)
  next
    case (Inr decision)
    show thesis
    proof (cases "balance_of db (arq_tenant_id req) - arq_reserved req < 0 \<or>
        map_of (db_tenants db) (arq_tenant_id req) = None")
      case True
      with False Inr effect show thesis
        by (intro unchanged) (auto simp: billing_authorize_def Let_def split: if_splits)
    next
      case funded: False
      show thesis
        by (rule hold [where p = ?p and b = "bd_band decision" and a = "?a (bd_band decision)"])
          (use False Inr effect funded req in
            \<open>simp_all add: billing_authorize_def Let_def statement_def authorization_ok_def authorize_request_ok_def\<close>)
    qed
  qed
qed

lemma billing_authorize_inv:
  assumes "ledger_inv F L db" "new_id \<notin> au_id ` set (db_authorizations db)" "authorize_request_ok req"
  shows "ledger_inv F L (snd (billing_authorize ttl now new_id req db))"
  using assms
proof (cases rule: billing_authorize_cases [where ttl = ttl and now = now])
  case (hold a p k b)
  with assms show ?thesis by (simp add: new_authorization_inv)
qed (use assms in simp)


section \<open>Capture\<close>

definition capture_request_ok :: "billing_capture_request \<Rightarrow> bool" where
  "capture_request_ok req \<longleftrightarrow>
     is_i64 (crq_input_tokens req) \<and> is_i64 (crq_cached_input_tokens req) \<and>
     is_i64 (crq_output_tokens req) \<and> is_i64 (crq_reasoning_tokens req)"

lemma capture_charge_bounds:
  assumes "capture_request_ok req" "px_ok px" "resolve_model_pricing_for_request px m ctx = Inr d"
  shows "0 \<le> capture_charge req (bd_pricing d)" "capture_charge req (bd_pricing d) \<le> i64_max"
proof -
  have "is_i64 (max (crq_input_tokens req) 0)"
    "is_i64 (min (max (crq_cached_input_tokens req) 0) (max (crq_input_tokens req) 0))"
    "is_i64 (max (max (crq_output_tokens req) 0) (max (crq_reasoning_tokens req) 0))"
    using assms(1) by (simp_all add: capture_request_ok_def is_i64_max min_def)
  from charged_bounds [OF request_pricing_ok [OF assms(2,3)] this]
  show "0 \<le> capture_charge req (bd_pricing d)" "capture_charge req (bd_pricing d) \<le> i64_max"
    by (simp_all add: capture_charge_def Let_def)
qed

lemma capture_delta_fields:
  assumes "0 \<le> c" "c \<le> i64_max" "authorization_ok a"
  shows "cd_delta (capture_delta now req a c) = - max 0 (c - au_reserved a)"
    and "cd_tenant_id (capture_delta now req a c) = crq_tenant_id req"
    and "cd_request_id (capture_delta now req a c) = Some (trim (crq_request_id req))"
    and "cd_event_type (capture_delta now req a c) = CaptureEvent"
proof -
  have "is_i64 (c - au_reserved a)"
    using assms by (auto simp: is_i64_def sat_simps authorization_ok_def)
  then show "cd_delta (capture_delta now req a c) = - max 0 (c - au_reserved a)"
    by (simp add: capture_delta_def sat_i64_id max.commute)
qed (simp_all add: capture_delta_def)

lemma capture_update_fields [simp]:
  "au_id (capture_update now req a c b r) = au_id r" "au_tenant_id (capture_update now req a c b r) = au_tenant_id r"
  "au_request_id (capture_update now req a c b r) = au_request_id r"
  "au_reserved (capture_update now req a c b r) = au_reserved r"
  "au_captured (capture_update now req a c b r) = c" "au_status (capture_update now req a c b r) = Captured"
  "au_updated_at (capture_update now req a c b r) = now"
  by (simp_all add: capture_update_def)

text \<open>A capture either leaves the database alone or settles a hold at the price of the tokens.\<close>

lemma billing_capture_cases:
  assumes inv: "ledger_inv F L db" and req: "capture_request_ok req"
  obtains
    (unchanged) "snd (billing_capture now req db) = db"
      "\<And>r. fst (billing_capture now req db) = Inr r \<Longrightarrow>
         \<exists>a. fetch_authorization_for_update (crq_tenant_id req) (trim (crq_request_id req)) db = Some a \<and>
             au_status a = Captured \<and> r = response_of a (au_captured a) (balance_of db (crq_tenant_id req))"
  | (captured) a d c where
      "fetch_authorization_for_update (crq_tenant_id req) (trim (crq_request_id req)) db = Some a"
      "au_status a = Authorized"
      "resolve_model_pricing_for_request (db_pricing db) (trim (crq_model req)) (capture_context now req a db) = Inr d"
      "c = capture_charge req (bd_pricing d)" "0 \<le> c" "c \<le> i64_max"
      "0 \<le> balance_of db (au_tenant_id a) - max 0 (c - au_reserved a)"
      "billing_capture now req db =
         (Inr \<lparr>brs_authorization_id = au_id a, brs_tenant_id = au_tenant_id a, brs_request_id = au_request_id a,
               brs_status = Captured, brs_reserved = au_reserved a, brs_captured = c, brs_amount = c,
               brs_balance = balance_of db (au_tenant_id a) - max 0 (c - au_reserved a)\<rparr>,
          upsert_session_if now (crq_tenant_id req) (capture_session_key req a) (trim (crq_model req)) (bd_band d)
            (update_authorization (au_id a) (capture_update now req a c (bd_band d))
              (credited (capture_delta now req a c) db)))"
proof (cases "fetch_authorization_for_update (crq_tenant_id req) (trim (crq_request_id req)) db")
  case None
  then show thesis by (intro unchanged) (auto simp: billing_capture_def Let_def split: if_splits)
next
  case (Some a)
  note found = fetch_SomeD [OF Some]
  let ?res = "resolve_model_pricing_for_request (db_pricing db) (trim (crq_model req)) (capture_context now req a db)"
  show thesis
  proof (cases "trim (crq_request_id req) = [] \<or> trim (crq_model req) = [] \<or> au_status a \<noteq> Authorized \<or>
      (\<exists>e. ?res = Inl e)")
    case True
    with Some show thesis
      by (intro unchanged) (auto simp: billing_capture_def Let_def authorization_capture_is_idempotent_def
          current_credit_balance_for_update_def split: if_splits)
  next
    case False
    then obtain d where d: "?res = Inr d" by (cases ?res) auto
    define c where "c = capture_charge req (bd_pricing d)"
    have px: "px_ok (db_pricing db)" using ledger_invD(1) [OF inv] by (simp add: rows_ok_def)
    note charge = capture_charge_bounds [OF req px d, folded c_def]
    have ok: "authorization_ok a" "map_of (db_tenants db) (au_tenant_id a) \<noteq> None"
      by (rule authorization_okD [OF inv found(1)])+
    note fields = capture_delta_fields [OF charge ok(1)]
    have "\<not> ledger_conflict (capture_delta now req a c) db"
      by (rule no_conflict_authorized [OF inv found(1)]) (use False found fields in auto)
    moreover have "- i64_max \<le> cd_delta (capture_delta now req a c)" "cd_delta (capture_delta now req a c) \<le> 0"
      using charge ok(1) by (auto simp: fields authorization_ok_def sat_simps)
    ultimately have effect: "apply_credit_delta_inner (capture_delta now req a c) \<lparr>tx_db = db, tx_aborted = False\<rparr> =
      (if balance_of db (au_tenant_id a) - max 0 (c - au_reserved a) < 0
       then (Inl InsufficientCredits, \<lparr>tx_db = db, tx_aborted = False\<rparr>)
       else (Inr (balance_of db (au_tenant_id a) - max 0 (c - au_reserved a)),
             \<lparr>tx_db = credited (capture_delta now req a c) db, tx_aborted = False\<rparr>))"
      using ok(2) found(2) fields by (subst debit_effect [OF inv]) auto
    show thesis
    proof (cases "balance_of db (au_tenant_id a) - max 0 (c - au_reserved a) < 0")
      case True
      with False Some d effect show thesis
        by (intro unchanged)
          (simp_all add: billing_capture_def Let_def authorization_capture_is_idempotent_def flip: c_def)
    next
      case funded: False
      with False Some d effect have result: "billing_capture now req db =
         (Inr \<lparr>brs_authorization_id = au_id a, brs_tenant_id = au_tenant_id a, brs_request_id = au_request_id a,
               brs_status = Captured, brs_reserved = au_reserved a, brs_captured = c, brs_amount = c,
               brs_balance = balance_of db (au_tenant_id a) - max 0 (c - au_reserved a)\<rparr>,
          upsert_session_if now (crq_tenant_id req) (capture_session_key req a) (trim (crq_model req)) (bd_band d)
            (update_authorization (au_id a) (capture_update now req a c (bd_band d))
              (credited (capture_delta now req a c) db)))"
        by (simp add: billing_capture_def Let_def statement_def authorization_capture_is_idempotent_def flip: c_def)
      show thesis by (rule captured [OF Some _ d c_def charge _ result]) (use False funded in auto)
    qed
  qed
qed

lemma billing_capture_inv:
  assumes "ledger_inv F L db" "capture_request_ok req"
  shows "ledger_inv F L (snd (billing_capture now req db))"
  using assms
proof (cases rule: billing_capture_cases [where now = now])
  case (captured a d c)
  note found = fetch_SomeD [OF captured(1)]
  have ok: "authorization_ok a" by (rule authorization_okD [OF assms(1) found(1)])
  note fields = capture_delta_fields [OF captured(5,6) ok]
  have "ledger_inv F L (update_authorization (au_id a) (capture_update now req a c (bd_band d))
      (credited (capture_delta now req a c) db))"
  proof (rule settle_inv [OF assms(1) found(1), where d = "- max 0 (c - au_reserved a)"])
    show "authorization_ok (capture_update now req a c (bd_band d) a)"
      using ok captured(5,6) by (simp add: authorization_ok_def)
    show "spent (capture_update now req a c (bd_band d) a) = spent a - - max 0 (c - au_reserved a)"
      using ok captured(2) by (auto simp: spent_def authorization_ok_def)
    show "e \<in> set (db_ledger db) \<or> le_tenant_id e = au_tenant_id a \<and> le_request_id e \<in> {None, Some (au_request_id a)}"
      if "e \<in> set (db_ledger (credited (capture_delta now req a c) db))" for e
      using that fields found(2,3) by (auto simp: credited_def)
  qed (use captured(7) found(2) fields in simp_all)
  with captured(8) show ?thesis by simp
qed (use assms in simp)


section \<open>Reconciliation of stale holds\<close>

lemma released_db_authorizations:
  "db_authorizations (released_db now ev a db) =
   map (\<lambda>r. if au_id r = au_id a then mark_released now r else r) (db_authorizations db)"
  by (simp add: released_db_def update_authorization_def)

definition release_rows :: "timestamp \<Rightarrow> authorization list \<Rightarrow> billing_db \<Rightarrow> billing_db" where
  "release_rows now as db = fold (released_db now AdjustEvent) as db"

text \<open>The loop over the stale rows never fails on a sound ledger: it releases every row it was given.\<close>

lemma reconcile_rows_eq:
  assumes "ledger_inv F L db" "set as \<subseteq> set (db_authorizations db)" "distinct (map au_id as)"
    and "\<And>a. a \<in> set as \<Longrightarrow> au_status a \<noteq> Released"
  shows "\<exists>stats'. reconcile_rows now as \<lparr>tx_db = db, tx_aborted = False\<rparr> stats =
      Inr (\<lparr>tx_db = release_rows now as db, tx_aborted = False\<rparr>, stats') \<and>
      rs_scanned stats' = rs_scanned stats + length as \<and> rs_released stats' = rs_released stats + length as"
    and "ledger_inv F L (release_rows now as db)"
  using assms
proof (induction as arbitrary: db stats)
  case Nil
  { case 1 show ?case by (simp add: release_rows_def) }
  { case 2 then show ?case by (simp add: release_rows_def) }
next
  case (Cons a as)
  have step: "ledger_inv F L (released_db now AdjustEvent a db)"
    if "ledger_inv F L db" "set (a # as) \<subseteq> set (db_authorizations db)"
      "\<And>b. b \<in> set (a # as) \<Longrightarrow> au_status b \<noteq> Released" for db
    using that by (intro released_db_inv) auto
  have rest: "set as \<subseteq> set (db_authorizations (released_db now AdjustEvent a db))"
    if "set (a # as) \<subseteq> set (db_authorizations db)" "distinct (map au_id (a # as))" for db
    using that unfolding released_db_authorizations by (force simp: image_iff)
  { case 1
    have inv: "ledger_inv F L (released_db now AdjustEvent a db)" using 1 by (intro step) auto
    have sub: "set as \<subseteq> set (db_authorizations (released_db now AdjustEvent a db))" using 1 by (intro rest) auto
    have refund: "apply_credit_delta_inner (release_delta now AdjustEvent a) \<lparr>tx_db = db, tx_aborted = False\<rparr> =
      (Inr (balance_of db (au_tenant_id a) + release_amount a),
       \<lparr>tx_db = credited (release_delta now AdjustEvent a) db, tx_aborted = False\<rparr>)"
      using 1 by (intro refund_effect [OF 1(1)]) auto
    obtain st where st: "rs_scanned st = rs_scanned stats + 1" "rs_released st = rs_released stats + 1"
      and head: "reconcile_rows now (a # as) \<lparr>tx_db = db, tx_aborted = False\<rparr> stats =
        reconcile_rows now as \<lparr>tx_db = released_db now AdjustEvent a db, tx_aborted = False\<rparr> st"
    proof (cases "release_amount a > 0")
      case True
      with refund show thesis
        by (intro that [where st = "stats\<lparr>rs_scanned := rs_scanned stats + 1, rs_adjusted := rs_adjusted stats + 1,
            rs_adjusted_total := sat_i64 (rs_adjusted_total stats + release_amount a),
            rs_released := rs_released stats + 1\<rparr>"])
          (simp_all add: Let_def statement_def released_db_def)
    next
      case False
      then show thesis
        by (intro that [where st = "stats\<lparr>rs_scanned := rs_scanned stats + 1, rs_released := rs_released stats + 1\<rparr>"])
          (simp_all add: Let_def statement_def released_db_def)
    qed
    show ?case
      using Cons.IH(1) [OF inv sub, of st] 1 st unfolding head by (auto simp: release_rows_def) }
  { case 2
    have inv: "ledger_inv F L (released_db now AdjustEvent a db)" using 2 by (intro step) auto
    have sub: "set as \<subseteq> set (db_authorizations (released_db now AdjustEvent a db))" using 2 by (intro rest) auto
    show ?case using Cons.IH(2) [OF inv sub] 2 by (auto simp: release_rows_def) }
qed

lemma stale_authorizations_members:
  "set (stale_authorizations now before n db) \<subseteq> set (db_authorizations db)"
  "a \<in> set (stale_authorizations now before n db) \<Longrightarrow> au_status a \<noteq> Released"
  unfolding stale_authorizations_def by (auto dest!: in_set_takeD)

lemma stale_authorizations_distinct:
  assumes "rows_ok db"
  shows "distinct (map au_id (stale_authorizations now before n db))"
proof -
  have "distinct (map au_id (filter P (db_authorizations db)))" for P
    using assms unfolding rows_ok_def by (blast intro: distinct_map_filter)
  then have "distinct (map au_id (sort_key au_updated_at (filter P (db_authorizations db))))" for P
    by (simp add: distinct_map)
  then show ?thesis unfolding stale_authorizations_def take_map [symmetric] by (rule distinct_take)
qed

lemma billing_reconcile_once_eq:
  fixes now stale_sec batch_size
  assumes inv: "ledger_inv F L db"
  defines "rows \<equiv> stale_authorizations now (now - secs (clamp stale_sec 60 (30 * 24 * 60 * 60)))
    (clamp batch_size 1 5000) db"
  shows "\<exists>stats. billing_reconcile_once now stale_sec batch_size db = (Inr stats, release_rows now rows db) \<and>
      rs_scanned stats = length rows \<and> rs_released stats = length rows"
    and "ledger_inv F L (release_rows now rows db)"
proof -
  have rows: "set rows \<subseteq> set (db_authorizations db)" "distinct (map au_id rows)"
    "\<And>a. a \<in> set rows \<Longrightarrow> au_status a \<noteq> Released"
    unfolding rows_def using stale_authorizations_members stale_authorizations_distinct [OF ledger_invD(1) [OF inv]]
    by blast+
  show "ledger_inv F L (release_rows now rows db)" by (rule reconcile_rows_eq(2) [OF inv rows])
  show "\<exists>stats. billing_reconcile_once now stale_sec batch_size db = (Inr stats, release_rows now rows db) \<and>
      rs_scanned stats = length rows \<and> rs_released stats = length rows"
    using reconcile_rows_eq(1) [OF inv rows, of now zero_reconcile_stats]
    unfolding billing_reconcile_once_def Let_def rows_def [symmetric] by (auto simp: zero_reconcile_stats_def)
qed

section \<open>Top-ups\<close>

lemma ledger_inv_top_up:
  assumes inv: "ledger_inv F L db" and p: "cd_request_id p = None" "0 \<le> cd_delta p"
    and le: "F (cd_tenant_id p) + cd_delta p \<le> i64_max"
  shows "ledger_inv (F(cd_tenant_id p := F (cd_tenant_id p) + cd_delta p)) L (credited p db)"
proof -
  have "money_ok (F(cd_tenant_id p := F (cd_tenant_id p) + cd_delta p)) L (credited p db)"
    unfolding money_ok_def
  proof (intro allI)
    fix t
    have "0 \<le> balance_of db t" "balance_of db t + spent_by db t = F t" "balance_of db t = L t + ledger_sum db t"
      by (rule money_okD [OF ledger_invD(2) [OF inv]])+
    then show "0 \<le> balance_of (credited p db) t \<and>
        balance_of (credited p db) t + spent_by (credited p db) t = (F(cd_tenant_id p := F (cd_tenant_id p) + cd_delta p)) t \<and>
        balance_of (credited p db) t = L t + ledger_sum (credited p db) t"
      using p(2) by auto
  qed
  moreover have "keyed_ok (credited p db)"
    using ledger_invD(3) [OF inv] p(1) by (auto simp: keyed_ok_def credited_def)
  ultimately show ?thesis using inv le by (simp add: ledger_inv_def rows_ok_def)
qed

lemma top_up_effect:
  assumes inv: "ledger_inv F L db" and p: "cd_request_id p = None" "0 \<le> cd_delta p"
    and le: "F (cd_tenant_id p) + cd_delta p \<le> i64_max"
  shows "apply_credit_delta_inner p \<lparr>tx_db = db, tx_aborted = False\<rparr> =
    (if map_of (db_tenants db) (cd_tenant_id p) = None
     then (Inl ForeignKeyViolation, \<lparr>tx_db = db, tx_aborted = True\<rparr>)
     else (Inr (balance_of db (cd_tenant_id p) + cd_delta p), \<lparr>tx_db = credited p db, tx_aborted = False\<rparr>))"
proof -
  have "0 \<le> balance_of db (cd_tenant_id p)" "balance_of db (cd_tenant_id p) + spent_by db (cd_tenant_id p) = F (cd_tenant_id p)"
    using money_okD [OF ledger_invD(2) [OF inv]] by blast+
  moreover have "0 \<le> spent_by db (cd_tenant_id p)"
    using ledger_invD(1) [OF inv] by (intro spent_by_nonneg) (simp add: rows_ok_def)
  ultimately have "is_i64 (balance_of db (cd_tenant_id p) + cd_delta p)" "0 \<le> balance_of db (cd_tenant_id p) + cd_delta p"
    using le p(2) by (auto simp: is_i64_def sat_simps)
  then show ?thesis using p(1) by (subst apply_credit_delta_effect) auto
qed

end
