(* ===== verification/Ledger_Claims.thy ===== *)
theory Ledger_Claims
  imports Ledger_Correct
begin

text \<open>
  The ledger as a transition system and its properties: soundness of the balances, exact charges over
  the life of a request, charges that are final, retries, reconciliation, failed operations, and the
  pricing band of sessions.
\<close>

section \<open>The transition system\<close>

datatype billing_op =
    OpAuthorize nat timestamp uuid billing_authorize_request
  | OpCapture timestamp billing_capture_request
  | OpRelease timestamp billing_release_request
  | OpReconcile timestamp nat nat
  | OpReconcileFact timestamp billing_reconcile_fact_request
  | OpRecharge timestamp uuid int
  | OpCheckin timestamp uuid

fun exec_op :: "(uuid \<Rightarrow> int \<Rightarrow> nat) \<Rightarrow> billing_op \<Rightarrow> billing_db \<Rightarrow> billing_db" where
  "exec_op seed (OpAuthorize ttl now i req) db = snd (billing_authorize ttl now i req db)"
| "exec_op seed (OpCapture now req) db = snd (billing_capture now req db)"
| "exec_op seed (OpRelease now req) db = snd (billing_release now req db)"
| "exec_op seed (OpReconcile now stale batch) db = snd (billing_reconcile_once now stale batch db)"
| "exec_op seed (OpReconcileFact now req) db = snd (billing_reconcile_request_fact now req db)"
| "exec_op seed (OpRecharge now t amount) db = snd (admin_recharge_tenant now t amount db)"
| "exec_op seed (OpCheckin now t) db = snd (daily_checkin seed now t db)"

text \<open>A new identifier is unused, and the numbers of a request are 64-bit integers.\<close>

fun op_ok :: "billing_op \<Rightarrow> billing_db \<Rightarrow> bool" where
  "op_ok (OpAuthorize ttl now i req) db \<longleftrightarrow> i \<notin> au_id ` set (db_authorizations db) \<and> authorize_request_ok req"
| "op_ok (OpCapture now req) db \<longleftrightarrow> capture_request_ok req"
| "op_ok _ db \<longleftrightarrow> True"

definition is_top_up :: "ledger_event \<Rightarrow> bool" where
  "is_top_up ev \<longleftrightarrow> ev = RechargeEvent \<or> ev = CheckinEvent"

definition topped_up :: "billing_db \<Rightarrow> uuid \<Rightarrow> int" where
  "topped_up db t =
     sum_list (map le_delta (filter (\<lambda>e. le_tenant_id e = t \<and> is_top_up (le_event_type e)) (db_ledger db)))"

definition opening_ok :: "billing_db \<Rightarrow> bool" where
  "opening_ok db \<longleftrightarrow>
     db_ledger db = [] \<and> db_authorizations db = [] \<and> px_ok (db_pricing db) \<and>
     list_all (\<lambda>(_, b). 0 \<le> b \<and> b \<le> i64_max) (db_accounts db)"

text \<open>
  Runs from an opening database \<open>db0\<close>. What a tenant is granted over time, its opening balance and every
  top-up, stays within 64 bits.
\<close>

definition grants_in_range :: "billing_db \<Rightarrow> billing_db \<Rightarrow> bool" where
  "grants_in_range db0 db \<longleftrightarrow> (\<forall>t. balance_of db0 t + topped_up db t \<le> i64_max)"

inductive ledger_run :: "(uuid \<Rightarrow> int \<Rightarrow> nat) \<Rightarrow> billing_db \<Rightarrow> billing_db \<Rightarrow> billing_db \<Rightarrow> bool"
  for seed db0 db where
  run_refl: "ledger_run seed db0 db db"
| run_step: "ledger_run seed db0 db db' \<Longrightarrow> op_ok op db' \<Longrightarrow> grants_in_range db0 (exec_op seed op db') \<Longrightarrow>
    ledger_run seed db0 db (exec_op seed op db')"

section \<open>The invariant along a run\<close>

lemma topped_up_credited [simp]:
  "topped_up (credited p db) t =
   topped_up db t + (if t = cd_tenant_id p \<and> is_top_up (cd_event_type p) then cd_delta p else 0)"
  by (auto simp: topped_up_def credited_def)

lemma topped_up_fields [simp]:
  "topped_up (update_authorization i f db) t = topped_up db t"
  "topped_up (upsert_session_if now u k m b db) t = topped_up db t"
  "topped_up (db\<lparr>db_authorizations := as\<rparr>) t = topped_up db t"
  "topped_up (db\<lparr>db_checkins := cs\<rparr>) t = topped_up db t"
  by (simp_all add: topped_up_def)

lemma topped_up_released_db [simp]: "\<not> is_top_up ev \<Longrightarrow> topped_up (released_db now ev a db) t = topped_up db t"
  by (simp add: released_db_def release_delta_def)

lemma topped_up_release_rows [simp]: "topped_up (release_rows now as db) t = topped_up db t"
  unfolding release_rows_def by (induction as arbitrary: db) (simp_all add: is_top_up_def)

lemma is_top_up_simps [simp]:
  "\<not> is_top_up AuthorizeHold" "\<not> is_top_up CaptureEvent" "\<not> is_top_up ReleaseEvent" "\<not> is_top_up AdjustEvent"
  "is_top_up RechargeEvent" "is_top_up CheckinEvent"
  by (simp_all add: is_top_up_def)

text \<open>\<open>fetch_authorization\<close> fails on every row, so reconciliation from a request fact changes nothing.\<close>

lemma reconcile_request_fact_eq:
  "billing_reconcile_request_fact now req db =
   (if trim (frq_request_id req) = [] then (Inr zero_reconcile_stats, db)
    else case fetch_authorization_for_update (frq_tenant_id req) (trim (frq_request_id req)) db of
           None \<Rightarrow> (Inr zero_reconcile_stats, db)
         | Some _ \<Rightarrow> (Inl (ColumnNotFound ''meta_json''), db))"
  by (simp add: billing_reconcile_request_fact_def fetch_authorization_def Let_def split: option.split)

lemma ledger_inv_checkins [simp]: "ledger_inv F L (db\<lparr>db_checkins := cs\<rparr>) = ledger_inv F L db"
  by (simp add: ledger_inv_def rows_ok_def money_ok_def keyed_ok_def balance_of_def spent_by_def ledger_sum_def)

lemma daily_reward_bounds:
  "checkin_reward_min \<le> deterministic_daily_reward_microcredits seed t d"
  "deterministic_daily_reward_microcredits seed t d \<le> checkin_reward_max"
  using pos_mod_bound [of "100000001 :: int" "int (seed t d)"]
  by (simp_all add: deterministic_daily_reward_microcredits_def checkin_reward_min_def checkin_reward_max_def)

lemma top_up_delta_fields [simp]:
  "cd_tenant_id (top_up_delta now ev t d) = t" "cd_delta (top_up_delta now ev t d) = d"
  "cd_request_id (top_up_delta now ev t d) = None" "cd_event_type (top_up_delta now ev t d) = ev"
  by (simp_all add: top_up_delta_def)

text \<open>What the code grants is what is recorded, also when the balance would saturate.\<close>

lemma apply_top_up_recorded:
  assumes "apply_credit_delta_inner (top_up_delta now ev t d) \<lparr>tx_db = db, tx_aborted = False\<rparr> = (Inr b, tx)"
    and "is_top_up ev"
  shows "topped_up (tx_db tx) t = topped_up db t + d"
  using assms by (auto simp: apply_credit_delta_inner_def Let_def topped_up_def top_up_delta_def split: if_splits)

lemma top_up_step:
  assumes inv: "ledger_inv (\<lambda>t. balance_of db0 t + topped_up db t) (balance_of db0) db"
    and ap: "apply_credit_delta_inner (top_up_delta now ev t d) \<lparr>tx_db = db, tx_aborted = False\<rparr> = (Inr b, tx)"
    and ev: "is_top_up ev" "0 \<le> d" and range: "grants_in_range db0 (tx_db tx)"
  shows "ledger_inv (\<lambda>t. balance_of db0 t + topped_up (tx_db tx) t) (balance_of db0) (tx_db tx)"
proof -
  let ?p = "top_up_delta now ev t d"
  have le: "balance_of db0 t + topped_up db t + d \<le> i64_max"
    using apply_top_up_recorded [OF ap ev(1)] range unfolding grants_in_range_def
    by (metis add.assoc)
  have tx: "tx_db tx = credited ?p db"
    using ap top_up_effect [OF inv, of ?p] le ev(2) by (auto split: if_splits)
  have F: "(\<lambda>t. balance_of db0 t + topped_up db t)(t := balance_of db0 t + topped_up db t + d) =
      (\<lambda>t. balance_of db0 t + topped_up (tx_db tx) t)"
    using ev(1) by (auto simp: tx)
  show ?thesis
    using ledger_inv_top_up [OF inv, of ?p] le ev(2) unfolding F [symmetric] by (simp add: tx)
qed

lemma exec_op_inv:
  assumes inv: "ledger_inv (\<lambda>t. balance_of db0 t + topped_up db t) (balance_of db0) db" (is "ledger_inv (?F db) ?L db")
    and op: "op_ok op db" and range: "grants_in_range db0 (exec_op seed op db)"
  shows "ledger_inv (?F (exec_op seed op db)) ?L (exec_op seed op db)"
proof (cases op)
  case (OpAuthorize ttl now i req)
  have ok: "i \<notin> au_id ` set (db_authorizations db)" "authorize_request_ok req" using op OpAuthorize by simp_all
  have "topped_up (snd (billing_authorize ttl now i req db)) t = topped_up db t" for t
    by (cases rule: billing_authorize_cases [OF inv ok, where ttl = ttl and now = now]) auto
  then show ?thesis using billing_authorize_inv [OF inv] op OpAuthorize by simp
next
  case (OpCapture now req)
  have "topped_up (snd (billing_capture now req db)) t = topped_up db t" for t
    using inv op [unfolded OpCapture, simplified]
    by (cases rule: billing_capture_cases [where now = now]) (auto simp: capture_delta_def Let_def)
  then show ?thesis using billing_capture_inv [OF inv] op OpCapture by simp
next
  case (OpRelease now req)
  have "topped_up (snd (billing_release now req db)) t = topped_up db t" for t
    by (simp add: billing_release_eq [OF inv] split: option.split)
  then show ?thesis using billing_release_inv [OF inv] OpRelease by simp
next
  case (OpReconcile now stale batch)
  with billing_reconcile_once_eq [OF inv, of now stale batch] show ?thesis by auto
next
  case (OpReconcileFact now req)
  then have "exec_op seed op db = db" by (simp add: reconcile_request_fact_eq split: option.split)
  with inv show ?thesis by simp
next
  case (OpRecharge now t d)
  then show ?thesis
    using top_up_step [OF inv, of now RechargeEvent t d] inv range
    by (auto simp: admin_recharge_tenant_def split: prod.splits sum.splits)
next
  case (OpCheckin now t)
  have inv': "ledger_inv (?F (db\<lparr>db_checkins := cs\<rparr>)) ?L (db\<lparr>db_checkins := cs\<rparr>)" for cs
    using inv by simp
  have pos: "0 \<le> deterministic_daily_reward_microcredits seed t (date_of now)"
    using daily_reward_bounds(1) [of seed t "date_of now"] by (simp add: checkin_reward_min_def)
  show ?thesis
    using top_up_step [OF inv', of now CheckinEvent t "deterministic_daily_reward_microcredits seed t (date_of now)"]
      inv range pos unfolding OpCheckin
    by (auto simp: daily_checkin_def Let_def split: option.splits prod.splits sum.splits)
qed

lemma opening_inv:
  assumes "opening_ok db"
  shows "ledger_inv (\<lambda>t. balance_of db t + topped_up db t) (balance_of db) db"
proof -
  have "0 \<le> balance_of db t \<and> balance_of db t \<le> i64_max" for t
    using assms by (auto simp: opening_ok_def balance_of_def list_all_iff sat_simps dest!: map_of_SomeD split: option.split)
  with assms show ?thesis
    by (simp add: opening_ok_def ledger_inv_def rows_ok_def money_ok_def keyed_ok_def spent_by_def ledger_sum_def
        topped_up_def)
qed

lemma run_inv:
  assumes "ledger_run seed db0 db db'" "ledger_inv (\<lambda>t. balance_of db0 t + topped_up db t) (balance_of db0) db"
  shows "ledger_inv (\<lambda>t. balance_of db0 t + topped_up db' t) (balance_of db0) db'"
  using assms by (induction rule: ledger_run.induct) (auto intro: exec_op_inv)

lemmas reached_inv = run_inv [OF _ opening_inv]


section \<open>Effects of whole operations\<close>

lemma hold_effect:
  assumes inv: "ledger_inv F L db" and ok: "i \<notin> au_id ` set (db_authorizations db)" "authorize_request_ok req"
    and none: "fetch_authorization_for_update (arq_tenant_id req) (trim (arq_request_id req)) db = None"
    and res: "billing_authorize ttl now i req db = (Inr r, db')"
  shows "\<exists>a. db_authorizations db' = a # db_authorizations db \<and> au_id a = i \<and>
      request_of a = (arq_tenant_id req, trim (arq_request_id req)) \<and> au_reserved a = arq_reserved req \<and>
      au_captured a = 0 \<and> au_status a = Authorized \<and>
      (\<forall>t. balance_of db' t = balance_of db t - (if t = arq_tenant_id req then arq_reserved req else 0)) \<and>
      r = response_of a 0 (balance_of db' (arq_tenant_id req))"
  using inv ok
proof (cases rule: billing_authorize_cases [where ttl = ttl and now = now])
  case unchanged
  from unchanged(2) [of r] res none show ?thesis by simp
next
  case (hold a p k b)
  have "balance_of db' t = balance_of (credited p db) t" for t
    using hold(14) res by (auto simp: balance_of_def)
  with hold res show ?thesis by (intro exI [of _ a]) auto
qed

lemma fetch_updated:
  assumes rows: "rows_ok db" and a: "a \<in> set (db_authorizations db)"
    and f: "request_of (f a) = request_of a" and db': "rows_ok db'"
      "db_authorizations db' = map (\<lambda>r. if au_id r = au_id a then f r else r) (db_authorizations db)"
  shows "fetch_authorization_for_update (au_tenant_id a) (au_request_id a) db' = Some (f a)"
proof -
  have "f a \<in> set (db_authorizations db')" using a unfolding db'(2) by force
  from fetch_member [OF db'(1) this] f show ?thesis by simp
qed

lemma capture_effect:
  assumes inv: "ledger_inv F L db" and ok: "capture_request_ok req"
    and found: "fetch_authorization_for_update (crq_tenant_id req) (trim (crq_request_id req)) db = Some a"
      "au_status a = Authorized"
    and res: "billing_capture now req db = (Inr r, db')"
  shows "\<exists>b. fetch_authorization_for_update (crq_tenant_id req) (trim (crq_request_id req)) db' = Some b \<and>
      au_id b = au_id a \<and> au_reserved b = au_reserved a \<and> au_captured b = brs_captured r \<and> au_status b = Captured \<and>
      (\<forall>t. balance_of db' t =
         balance_of db t - (if t = crq_tenant_id req then max 0 (brs_captured r - au_reserved a) else 0)) \<and>
      r = response_of b (au_captured b) (balance_of db' (crq_tenant_id req))"
  using inv ok
proof (cases rule: billing_capture_cases [where now = now])
  case unchanged
  from unchanged(2) [of r] res found show ?thesis by simp
next
  case (captured a' d c)
  then have a': "a' = a" using found by simp
  note mem = fetch_SomeD [OF found(1)]
  have inv': "ledger_inv F L db'" using billing_capture_inv [OF inv ok, of now] res by simp
  let ?b = "capture_update now req a c (bd_band d) a"
  have db': "db' = upsert_session_if now (crq_tenant_id req) (capture_session_key req a) (trim (crq_model req))
      (bd_band d) (update_authorization (au_id a) (capture_update now req a c (bd_band d))
        (credited (capture_delta now req a c) db))"
    and r: "r = \<lparr>brs_authorization_id = au_id a, brs_tenant_id = au_tenant_id a, brs_request_id = au_request_id a,
      brs_status = Captured, brs_reserved = au_reserved a, brs_captured = c, brs_amount = c,
      brs_balance = balance_of db (au_tenant_id a) - max 0 (c - au_reserved a)\<rparr>"
    using captured(8) res a' by simp_all
  have "fetch_authorization_for_update (au_tenant_id a) (au_request_id a) db' = Some ?b"
    by (rule fetch_updated [OF ledger_invD(1) [OF inv] mem(1) _ ledger_invD(1) [OF inv']])
      (simp_all add: db' update_authorization_def)
  moreover have "balance_of db' t = balance_of (credited (capture_delta now req a c) db) t" for t
    by (simp add: db' balance_of_def)
  ultimately show ?thesis
    using capture_delta_fields [OF captured(5,6) authorization_okD(1) [OF inv mem(1)]] mem
    by (intro exI [of _ ?b]) (auto simp: r response_of_def)
qed

lemma balance_released_db:
  assumes "authorization_ok a" "au_status a \<noteq> Released"
  shows "balance_of (released_db now ev a db) t = balance_of db t + (if t = au_tenant_id a then release_amount a else 0)"
  using release_amount_spent(1) [OF assms] by (auto simp: released_db_def)

lemma release_effect:
  assumes inv: "ledger_inv F L db"
    and found: "fetch_authorization_for_update (rrq_tenant_id req) (trim (rrq_request_id req)) db = Some a"
      "au_status a \<noteq> Released" and q: "trim (rrq_request_id req) \<noteq> []"
  shows "\<exists>db'. billing_release now req db =
      (Inr (response_of (mark_released now a) (release_amount a) (balance_of db' (rrq_tenant_id req))), db') \<and>
      fetch_authorization_for_update (rrq_tenant_id req) (trim (rrq_request_id req)) db' = Some (mark_released now a) \<and>
      (\<forall>t. balance_of db' t = balance_of db t + (if t = rrq_tenant_id req then release_amount a else 0))"
proof -
  note mem = fetch_SomeD [OF found(1)]
  let ?db = "released_db now ReleaseEvent a db"
  have ok: "authorization_ok a" by (rule authorization_okD [OF inv mem(1)])
  have "fetch_authorization_for_update (au_tenant_id a) (au_request_id a) ?db = Some (mark_released now a)"
    by (rule fetch_updated [OF ledger_invD(1) [OF inv] mem(1) _ ledger_invD(1) [OF released_db_inv [OF inv mem(1) found(2)]]])
      (simp_all add: released_db_authorizations)
  with mem show ?thesis
    using balance_released_db [OF ok found(2), of now ReleaseEvent db]
    by (auto simp: billing_release_eq [OF inv] found q response_of_def)
qed

section \<open>Charges that are settled\<close>

definition settled_as :: "authorization \<Rightarrow> billing_db \<Rightarrow> bool" where
  "settled_as a db \<longleftrightarrow>
     (\<exists>b \<in> set (db_authorizations db). au_id b = au_id a \<and> request_of b = request_of a \<and>
        au_reserved b = au_reserved a \<and> au_captured b = au_captured a \<and> au_status b \<noteq> Authorized)"

lemma settled_as_released_db: "settled_as a db \<Longrightarrow> settled_as a (released_db now ev x db)"
  unfolding settled_as_def released_db_authorizations
proof (elim bexE conjE)
  fix b assume "b \<in> set (db_authorizations db)" "au_id b = au_id a" "request_of b = request_of a"
    "au_reserved b = au_reserved a" "au_captured b = au_captured a" "au_status b \<noteq> Authorized"
  then show "\<exists>b \<in> set (map (\<lambda>r. if au_id r = au_id x then mark_released now r else r) (db_authorizations db)).
      au_id b = au_id a \<and> request_of b = request_of a \<and> au_reserved b = au_reserved a \<and>
      au_captured b = au_captured a \<and> au_status b \<noteq> Authorized"
    by (intro bexI [of _ "if au_id b = au_id x then mark_released now b else b"]) auto
qed

lemma settled_as_release_rows: "settled_as a db \<Longrightarrow> settled_as a (release_rows now as db)"
  unfolding release_rows_def by (induction as arbitrary: db) (simp_all add: settled_as_released_db)

lemma settled_as_mono: "settled_as a db \<Longrightarrow> set (db_authorizations db) \<subseteq> set (db_authorizations db') \<Longrightarrow> settled_as a db'"
  by (auto simp: settled_as_def)

lemma exec_op_settled:
  assumes inv: "ledger_inv F L db" and op: "op_ok op db" and a: "settled_as a db"
  shows "settled_as a (exec_op seed op db)"
proof (cases op)
  case (OpAuthorize ttl now i req)
  have ok: "i \<notin> au_id ` set (db_authorizations db)" "authorize_request_ok req" using op OpAuthorize by simp_all
  have "set (db_authorizations db) \<subseteq> set (db_authorizations (snd (billing_authorize ttl now i req db)))"
    by (cases rule: billing_authorize_cases [OF inv ok, where ttl = ttl and now = now]) auto
  with settled_as_mono [OF a] OpAuthorize show ?thesis by simp
next
  case (OpCapture now req)
  have ok: "capture_request_ok req" using op OpCapture by simp
  from inv ok have "settled_as a (snd (billing_capture now req db))"
  proof (cases rule: billing_capture_cases [where now = now])
    case unchanged
    with a show ?thesis by simp
  next
    case (captured x d c)
    obtain b where b: "b \<in> set (db_authorizations db)" "au_id b = au_id a" "request_of b = request_of a"
      "au_reserved b = au_reserved a" "au_captured b = au_captured a" "au_status b \<noteq> Authorized"
      using a by (auto simp: settled_as_def)
    have "au_id b \<noteq> au_id x"
      using b captured(2) fetch_SomeD(1) [OF captured(1)] ledger_invD(1) [OF inv]
      by (auto simp: rows_ok_def distinct_map dest: inj_onD)
    with b show ?thesis
      unfolding captured(8) settled_as_def by (intro bexI [of _ b]) (force simp: update_authorization_def)+
  qed
  then show ?thesis by (simp add: OpCapture)
next
  case (OpRelease now req)
  with a show ?thesis
    by (auto simp: billing_release_eq [OF inv] settled_as_released_db split: option.split)
next
  case (OpReconcile now stale batch)
  with a billing_reconcile_once_eq(1) [OF inv, of now stale batch] show ?thesis
    by (auto simp: settled_as_release_rows)
next
  case (OpReconcileFact now req)
  with a show ?thesis by (simp add: reconcile_request_fact_eq split: option.split)
next
  case (OpRecharge now t d)
  have "db_authorizations (exec_op seed op db) = db_authorizations db"
    unfolding OpRecharge by (auto simp: admin_recharge_tenant_def apply_credit_delta_inner_def Let_def)
  with settled_as_mono [OF a] show ?thesis by simp
next
  case (OpCheckin now t)
  have "db_authorizations (exec_op seed op db) = db_authorizations db"
    unfolding OpCheckin by (auto simp: daily_checkin_def apply_credit_delta_inner_def Let_def split: option.split)
  with settled_as_mono [OF a] show ?thesis by simp
qed

section \<open>What a reconciliation leaves\<close>

definition is_stale :: "timestamp \<Rightarrow> timestamp \<Rightarrow> authorization \<Rightarrow> bool" where
  "is_stale now before a \<longleftrightarrow>
     (au_status a = Authorized \<and> au_expires_at a \<le> now) \<or> (au_status a = Captured \<and> au_updated_at a \<le> before)"

definition stale_count :: "timestamp \<Rightarrow> timestamp \<Rightarrow> billing_db \<Rightarrow> nat" where
  "stale_count now before db = length (filter (is_stale now before) (db_authorizations db))"

lemma release_rows_authorizations:
  "db_authorizations (release_rows now as db) =
   map (\<lambda>r. if au_id r \<in> au_id ` set as then mark_released now r else r) (db_authorizations db)"
  unfolding release_rows_def
  by (induction as arbitrary: db) (auto simp: released_db_authorizations)

lemma stale_after_release:
  "filter (is_stale now before) (map (\<lambda>r. if P r then mark_released now r else r) as) =
   filter (\<lambda>r. \<not> P r) (filter (is_stale now before) as)"
  by (induction as) (auto simp: is_stale_def)

lemma stale_count_release_rows:
  fixes now before n db
  assumes "rows_ok db"
  defines "rows \<equiv> stale_authorizations now before n db"
  shows "stale_count now before (release_rows now rows db) = stale_count now before db - length rows"
    and "length rows = min n (stale_count now before db)"
proof -
  define S where "S = sort_key au_updated_at (filter (is_stale now before) (db_authorizations db))"
  have rows: "rows = take n S"
    unfolding rows_def stale_authorizations_def S_def is_stale_def by (rule refl)
  have len: "length S = stale_count now before db" by (simp add: S_def stale_count_def)
  have "distinct (map au_id (filter (is_stale now before) (db_authorizations db)))"
    using assms(1) unfolding rows_ok_def by (blast intro: distinct_map_filter)
  then have dist: "distinct (map au_id S)" by (simp add: S_def distinct_map)
  let ?left = "\<lambda>r. au_id r \<notin> au_id ` set rows"
  have "stale_count now before (release_rows now rows db) =
      length (filter ?left (filter (is_stale now before) (db_authorizations db)))"
    unfolding stale_count_def release_rows_authorizations stale_after_release by simp
  also have "\<dots> = length (filter ?left S)"
    by (simp add: S_def filter_sort)
  also have "S = rows @ drop n S" by (simp add: rows)
  also have "filter ?left (rows @ drop n S) = drop n S"
  proof -
    have "distinct (map au_id rows @ map au_id (drop n S))"
      using dist by (metis \<open>S = rows @ drop n S\<close> map_append)
    then have "filter ?left (drop n S) = drop n S" by (intro filter_True) auto
    then show ?thesis by (simp add: filter_empty_conv)
  qed
  finally show "stale_count now before (release_rows now rows db) = stale_count now before db - length rows"
    using len by (simp add: rows)
  show "length rows = min n (stale_count now before db)" using len by (simp add: rows)
qed

lemma balance_release_rows:
  assumes "\<And>a. a \<in> set as \<Longrightarrow> authorization_ok a \<and> au_status a \<noteq> Released"
  shows "balance_of (release_rows now as db) t =
    balance_of db t + sum_list (map release_amount (filter (\<lambda>a. au_tenant_id a = t) as))"
  using assms unfolding release_rows_def
  by (induction as arbitrary: db) (auto simp: balance_released_db)

section \<open>Sessions\<close>

lemma session_key_trimmed: "capture_session_key req a = Some k \<Longrightarrow> trim_nonempty k = Some k"
  by (auto simp: capture_session_key_def or_else_def authorization_session_key_def meta_string_def bind_eq_Some_conv
      dest: trim_nonempty_idem split: option.splits)

lemma fetch_after_upsert:
  assumes "trim_nonempty k = Some k"
  shows "fetch_billing_session_for_update now' t k (upsert_session_if now t (Some k) m b db) =
    (if now' < now + secs default_billing_session_ttl_sec then Some (band_as_str b) else None)"
  using assms
  by (simp add: fetch_billing_session_for_update_def upsert_session_if_def upsert_billing_session_def Let_def
      map_of_hm_insert)

lemma band_roundtrip: "band_from_optional (Some (band_as_str b)) = b"
  by (cases b) (simp_all add: band_from_optional_def band_as_str_def, code_simp+)

lemma long_context_kept:
  assumes "resolve_model_pricing_for_request px m ctx = Inr d" "bc_persisted_band ctx = Some LongContext"
  shows "bd_band d = LongContext"
  using assms
  by (auto simp: resolve_model_pricing_for_request_def Let_def resolve_effective_pricing_for_band_def
      split: sum.splits option.splits)

section \<open>An example\<close>

lemma grants_in_range_code [code]:
  "grants_in_range db0 db \<longleftrightarrow>
   list_all (\<lambda>t. balance_of db0 t + topped_up db t \<le> i64_max)
     (map fst (db_accounts db0) @ map le_tenant_id (db_ledger db))"
proof -
  have "balance_of db0 t + topped_up db t \<le> i64_max"
    if "t \<notin> set (map fst (db_accounts db0) @ map le_tenant_id (db_ledger db))" for t
  proof -
    have "balance_of db0 t = 0" using that by (simp add: balance_of_def map_of_eq_None_iff [THEN iffD2])
    moreover have "topped_up db t = 0"
    proof -
      have "filter (\<lambda>e. le_tenant_id e = t \<and> is_top_up (le_event_type e)) (db_ledger db) = []"
        using that by (auto simp: filter_empty_conv)
      then show ?thesis by (simp add: topped_up_def)
    qed
    ultimately show ?thesis by (simp add: sat_simps)
  qed
  then show ?thesis unfolding grants_in_range_def list_all_iff by blast
qed

definition demo_db :: billing_db where
  "demo_db =
     \<lparr>db_tenants = [(1, ''active'')], db_accounts = [(1, 1000)], db_ledger = [], db_authorizations = [],
      db_sessions = [],
      db_pricing = \<lparr>px_overrides = [((''gpt'', ''default''), \<lparr>pr_input = 1000000, pr_cached_input = 100000, pr_output = 2000000\<rparr>)],
        px_catalog = [], px_rules = [], px_key_groups = [], px_policies = [], px_fallback_enabled = False,
        px_default_input = None, px_default_cached_input = None, px_default_output = None\<rparr>,
      db_checkins = []\<rparr>"

definition demo_authorize :: billing_authorize_request where
  "demo_authorize = \<lparr>arq_tenant_id = 1, arq_api_key_id = None, arq_request_id = ''r1'', arq_model = ''gpt'',
     arq_service_tier = None, arq_session_key = Some ''s'', arq_request_kind = Some ''response'', arq_reserved = 300,
     arq_ttl_sec = None\<rparr>"

definition demo_capture :: billing_capture_request where
  "demo_capture = \<lparr>crq_tenant_id = 1, crq_api_key_id = None, crq_request_id = ''r1'', crq_model = ''gpt'',
     crq_service_tier = None, crq_session_key = None, crq_request_kind = None, crq_input_tokens = 100,
     crq_cached_input_tokens = 50, crq_output_tokens = 20, crq_reasoning_tokens = 10\<rparr>"

definition demo_release :: billing_release_request where
  "demo_release = \<lparr>rrq_tenant_id = 1, rrq_request_id = ''r1''\<rparr>"

abbreviation demo_seed :: "uuid \<Rightarrow> int \<Rightarrow> nat" where
  "demo_seed \<equiv> \<lambda>_ _. 7"

definition demo_meta :: authorization_meta where
  "demo_meta = \<lparr>am_session_key = Some ''s'', am_request_kind = Some ''response'', am_service_tier = Some ''default'',
     am_pricing_band = Some ''base''\<rparr>"

definition demo_hold :: authorization where
  "demo_hold = \<lparr>au_id = 77, au_tenant_id = 1, au_request_id = ''r1'', au_api_key_id = None, au_model = Some ''gpt'',
     au_reserved = 300, au_captured = 0, au_status = Authorized, au_expires_at = 600000000000, au_meta = demo_meta,
     au_updated_at = 0\<rparr>"

definition demo_session :: "timestamp \<Rightarrow> billing_session_row" where
  "demo_session now = \<lparr>bs_model = ''gpt'', bs_pricing_band = ''base'', bs_entered_band_at = 0, bs_last_seen_at = now,
     bs_expires_at = 86400000000000 + now\<rparr>"

definition demo_held :: billing_db where
  "demo_held = demo_db\<lparr>db_accounts := [(1, 700)],
     db_ledger := [\<lparr>le_tenant_id = 1, le_api_key_id = None, le_request_id = None, le_event_type = AuthorizeHold,
       le_delta = - 300, le_balance_after = 700, le_input_tokens = None, le_output_tokens = None,
       le_model = Some ''gpt'', le_created_at = 0\<rparr>],
     db_authorizations := [demo_hold], db_sessions := [((1, ''s''), demo_session 0)]\<rparr>"

definition demo_captured :: billing_db where
  "demo_captured = demo_held\<lparr>
     db_ledger := \<lparr>le_tenant_id = 1, le_api_key_id = None, le_request_id = Some ''r1'', le_event_type = CaptureEvent,
       le_delta = 0, le_balance_after = 700, le_input_tokens = Some 100, le_output_tokens = Some 20,
       le_model = Some ''gpt'', le_created_at = 5\<rparr> # db_ledger demo_held,
     db_authorizations := [demo_hold\<lparr>au_captured := 95, au_status := Captured, au_updated_at := 5\<rparr>],
     db_sessions := [((1, ''s''), demo_session 5)]\<rparr>"

definition demo_captured_response :: billing_response where
  "demo_captured_response = \<lparr>brs_authorization_id = 77, brs_tenant_id = 1, brs_request_id = ''r1'',
     brs_status = Captured, brs_reserved = 300, brs_captured = 95, brs_amount = 95, brs_balance = 700\<rparr>"

lemma demo_authorized:
  "billing_authorize 600 0 77 demo_authorize demo_db = (Inr (response_of demo_hold 0 700), demo_held)"
  by code_simp

lemma demo_captured:
  "billing_capture 5 demo_capture demo_held = (Inr demo_captured_response, demo_captured)"
  by code_simp

lemma demo_opening: "opening_ok demo_db"
  by code_simp

lemma demo_requests: "authorize_request_ok demo_authorize" "capture_request_ok demo_capture"
  by code_simp+

lemma demo_run_held: "ledger_run demo_seed demo_db demo_db demo_held"
proof -
  have "grants_in_range demo_db demo_held" by code_simp
  then have "ledger_run demo_seed demo_db demo_db (exec_op demo_seed (OpAuthorize 600 0 77 demo_authorize) demo_db)"
    by (intro run_step [OF run_refl]) (simp_all add: demo_authorized demo_requests, simp add: demo_db_def)
  then show ?thesis by (simp add: demo_authorized)
qed

lemma demo_run_captured: "ledger_run demo_seed demo_db demo_db demo_captured"
proof -
  have "grants_in_range demo_db demo_captured" by code_simp
  with run_step [OF demo_run_held, of "OpCapture 5 demo_capture"]
  show ?thesis by (simp add: demo_captured demo_requests)
qed

section \<open>Properties\<close>

text \<open>
  C1. However holds, captures, releases, reconciliations, recharges and check-ins follow each other, no
  balance becomes negative, a balance and the cost of the tenant's authorizations together are what the
  tenant was granted, and a balance is the opening balance plus the sum of its ledger entries.\<close>

theorem ledger_sound:
  assumes "ledger_run seed db0 db0 db" "opening_ok db0"
  shows "0 \<le> balance_of db t \<and>
    balance_of db t + spent_by db t = balance_of db0 t + topped_up db t \<and>
    balance_of db t = balance_of db0 t + ledger_sum db t"
proof -
  have "money_ok (\<lambda>t. balance_of db0 t + topped_up db t) (balance_of db0) db"
    using reached_inv [OF assms] by (rule ledger_invD(2))
  from money_okD [OF this, of t] show ?thesis by simp
qed

theorem ledger_sound_witness:
  "balance_of demo_captured 1 = 700 \<and> spent_by demo_captured 1 = 300 \<and> 0 \<le> balance_of demo_captured 1"
proof -
  have "balance_of demo_captured 1 = 700" "spent_by demo_captured 1 = 300" by code_simp+
  with ledger_sound [OF demo_run_captured demo_opening, of 1] show ?thesis by simp
qed

text \<open>
  C5. A request that is authorized, captured and released costs its tenant exactly what the capture
  charged: the release cannot fail, it refunds the rest of the hold, and no other balance changes.\<close>

theorem billing_cycle_exact:
  assumes "ledger_run seed db0 db0 db" "opening_ok db0"
    and "i \<notin> au_id ` set (db_authorizations db)" "authorize_request_ok areq" "capture_request_ok creq"
    and "fetch_authorization_for_update (arq_tenant_id areq) (trim (arq_request_id areq)) db = None"
    and "billing_authorize ttl now1 i areq db = (Inr ra, db1)"
    and "billing_capture now2 creq db1 = (Inr rc, db2)"
    and "crq_tenant_id creq = arq_tenant_id areq" "trim (crq_request_id creq) = trim (arq_request_id areq)"
    and "rrq_tenant_id rreq = arq_tenant_id areq" "trim (rrq_request_id rreq) = trim (arq_request_id areq)"
  shows "\<exists>rr db3. billing_release now3 rreq db2 = (Inr rr, db3) \<and>
    (\<forall>t. balance_of db3 t = balance_of db t - (if t = arq_tenant_id areq then brs_captured rc else 0)) \<and>
    brs_balance rr = balance_of db3 (arq_tenant_id areq)"
proof -
  note inv = reached_inv [OF assms(1,2)]
  have inv1: "ledger_inv (\<lambda>t. balance_of db0 t + topped_up db t) (balance_of db0) db1"
    using billing_authorize_inv [OF inv assms(3,4), of ttl now1] assms(7) by simp
  have inv2: "ledger_inv (\<lambda>t. balance_of db0 t + topped_up db t) (balance_of db0) db2"
    using billing_capture_inv [OF inv1 assms(5), of now2] assms(8) by simp
  obtain a where a: "db_authorizations db1 = a # db_authorizations db"
    "request_of a = (arq_tenant_id areq, trim (arq_request_id areq))" "au_reserved a = arq_reserved areq"
    "au_status a = Authorized"
    and bal1: "\<And>t. balance_of db1 t = balance_of db t - (if t = arq_tenant_id areq then arq_reserved areq else 0)"
    using hold_effect [OF inv assms(3,4,6,7)] by blast
  have fetch1: "fetch_authorization_for_update (crq_tenant_id creq) (trim (crq_request_id creq)) db1 = Some a"
    using fetch_member [OF ledger_invD(1) [OF inv1], of a] a assms(9,10) by simp
  obtain b where b: "fetch_authorization_for_update (rrq_tenant_id rreq) (trim (rrq_request_id rreq)) db2 = Some b"
    "au_reserved b = au_reserved a" "au_captured b = brs_captured rc" "au_status b = Captured"
    and bal2: "\<And>t. balance_of db2 t =
      balance_of db1 t - (if t = arq_tenant_id areq then max 0 (brs_captured rc - au_reserved a) else 0)"
    using capture_effect [OF inv1 assms(5) fetch1 a(4) assms(8)] assms(9-12) by auto
  have "trim (rrq_request_id rreq) \<noteq> []"
    using assms(7,12) by (auto simp: billing_authorize_def)
  then obtain db3 where db3: "billing_release now3 rreq db2 =
      (Inr (response_of (mark_released now3 b) (release_amount b) (balance_of db3 (rrq_tenant_id rreq))), db3)"
    and bal3: "\<And>t. balance_of db3 t = balance_of db2 t + (if t = rrq_tenant_id rreq then release_amount b else 0)"
    using release_effect [OF inv2 b(1), of now3] b(4) by auto
  have "release_amount b = max 0 (au_reserved b - au_captured b)"
    using release_amount_spent(1) [OF authorization_okD(1) [OF inv2 fetch_SomeD(1) [OF b(1)]]] b(4) by simp
  with db3 bal3 bal2 bal1 b a assms(11) show ?thesis by (auto simp: response_of_def)
qed

theorem billing_cycle_exact_witness:
  "\<exists>rr db3. billing_release 9 demo_release demo_captured = (Inr rr, db3) \<and>
     (\<forall>t. balance_of db3 t = balance_of demo_db t - (if t = 1 then 95 else 0))"
proof -
  have fields: "arq_tenant_id demo_authorize = 1" "arq_request_id demo_authorize = ''r1''"
    "crq_tenant_id demo_capture = 1" "crq_request_id demo_capture = ''r1''"
    "rrq_tenant_id demo_release = 1" "rrq_request_id demo_release = ''r1''"
    "brs_captured demo_captured_response = 95" "db_authorizations demo_db = []"
    by (simp_all add: demo_authorize_def demo_capture_def demo_release_def demo_captured_response_def demo_db_def)
  have "fetch_authorization_for_update 1 q demo_db = None" for q
    by (simp add: fetch_authorization_for_update_def fields)
  then have "\<exists>rr db3. billing_release 9 demo_release demo_captured = (Inr rr, db3) \<and>
     (\<forall>t. balance_of db3 t = balance_of demo_db t -
        (if t = arq_tenant_id demo_authorize then brs_captured demo_captured_response else 0)) \<and>
     brs_balance rr = balance_of db3 (arq_tenant_id demo_authorize)"
    by (intro billing_cycle_exact [OF run_refl demo_opening _ demo_requests _ demo_authorized demo_captured])
      (simp_all add: fields)
  then show ?thesis unfolding fields by blast
qed

text \<open>
  C13. What a request was charged is final: once it is captured or released, no later operation changes
  its charge or its hold, or opens it again.\<close>

theorem charge_is_final:
  assumes "ledger_run seed db0 db0 db" "opening_ok db0" "ledger_run seed db0 db db'"
    and "a \<in> set (db_authorizations db)" "au_status a \<noteq> Authorized"
  shows "\<exists>b \<in> set (db_authorizations db'). au_id b = au_id a \<and> request_of b = request_of a \<and>
    au_reserved b = au_reserved a \<and> au_captured b = au_captured a \<and> au_status b \<noteq> Authorized"
proof -
  have "settled_as a db" using assms(4,5) by (auto simp: settled_as_def)
  with assms(3) have "settled_as a db'"
  proof (induction rule: ledger_run.induct)
    case (run_step db' op)
    have "ledger_inv (\<lambda>t. balance_of db0 t + topped_up db' t) (balance_of db0) db'"
      by (rule run_inv [OF run_step.hyps(1) reached_inv [OF assms(1,2)]])
    then show ?case using run_step by (intro exec_op_settled) auto
  qed
  then show ?thesis by (simp add: settled_as_def)
qed

theorem charge_is_final_witness:
  "\<exists>b \<in> set (db_authorizations (exec_op demo_seed (OpReconcile 9000000000000000 60 10) demo_captured)).
     au_id b = 77 \<and> au_captured b = 95 \<and> au_status b \<noteq> Authorized"
proof -
  let ?a = "hd (db_authorizations demo_captured)"
  have "ledger_run demo_seed demo_db demo_captured (exec_op demo_seed (OpReconcile 9000000000000000 60 10) demo_captured)"
    by (rule run_step [OF run_refl]) code_simp+
  moreover have "?a \<in> set (db_authorizations demo_captured)" "au_status ?a \<noteq> Authorized" "au_id ?a = 77"
    "au_captured ?a = 95" by (simp_all add: demo_captured_def demo_held_def demo_hold_def)
  ultimately show ?thesis
    using charge_is_final [OF demo_run_captured demo_opening, where a = ?a] by fastforce
qed








text \<open>
  A session in the long-context band stays there: a capture for the session is priced in that band
  and keeps the session in it for another day.\<close>

theorem session_band_persists:
  assumes "fetch_billing_session_for_update now (crq_tenant_id req) k db = Some ''long_context''"
    and "ledger_inv F L db" "capture_request_ok req"
    and "fetch_authorization_for_update (crq_tenant_id req) (trim (crq_request_id req)) db = Some a"
    and "au_status a = Authorized" "capture_session_key req a = Some k"
    and "billing_capture now req db = (Inr r, db')" "now' < now + secs default_billing_session_ttl_sec"
  shows "bc_persisted_band (capture_context now req a db) = Some LongContext \<and>
    fetch_billing_session_for_update now' (crq_tenant_id req) k db' = Some ''long_context''"
proof -
  have persisted: "bc_persisted_band (capture_context now req a db) = Some LongContext"
    using assms(1,6) band_roundtrip [of LongContext]
    by (simp add: capture_context_def Let_def or_else_def band_as_str_def)
  obtain d db1 where d: "resolve_model_pricing_for_request (db_pricing db) (trim (crq_model req)) (capture_context now req a db) = Inr d"
    and db': "db' = upsert_session_if now (crq_tenant_id req) (Some k) (trim (crq_model req)) (bd_band d) db1"
    using assms(2,3)
  proof (cases rule: billing_capture_cases [where now = now])
    case unchanged
    from unchanged(2) [of r] assms show ?thesis by simp
  next
    case (captured a' d c)
    with assms that show ?thesis by auto
  qed
  have "fetch_billing_session_for_update now' (crq_tenant_id req) k db' = Some (band_as_str (bd_band d))"
    unfolding db' using fetch_after_upsert [OF session_key_trimmed [OF assms(6)]] assms(8) by simp
  with long_context_kept [OF d persisted] persisted show ?thesis by (simp add: band_as_str_def)
qed

theorem session_band_persists_witness:
  "fetch_billing_session_for_update 1000 1 ''s''
     (snd (billing_capture 5 demo_capture (upsert_session_if 0 1 (Some ''s'') ''gpt'' LongContext demo_held))) =
   Some ''long_context''"
proof -
  let ?db = "upsert_session_if 0 1 (Some ''s'') ''gpt'' LongContext demo_held"
  let ?res = "billing_capture 5 demo_capture ?db"
  have inv: "ledger_inv (\<lambda>t. balance_of demo_db t + topped_up demo_held t) (balance_of demo_db) ?db"
    using reached_inv [OF demo_run_held demo_opening] by simp
  have "fetch_billing_session_for_update 5 (crq_tenant_id demo_capture) ''s'' ?db = Some ''long_context''"
    "fetch_authorization_for_update (crq_tenant_id demo_capture) (trim (crq_request_id demo_capture)) ?db = Some demo_hold"
    "au_status demo_hold = Authorized" "capture_session_key demo_capture demo_hold = Some ''s''"
    "?res = (Inr (projr (fst ?res)), snd ?res)"
    "(1000 :: int) < 5 + secs default_billing_session_ttl_sec"
    by code_simp+
  with session_band_persists [OF this(1) inv demo_requests(2) this(2-6)] show ?thesis
    by (simp add: demo_capture_def)
qed

text \<open>
  Adjusting a captured charge that is not yet released moves the difference twice: the balance is
  changed by it at once, and the release then refunds the hold less the new charge. Here the charge is
  corrected from 95 to 105, and the tenant is left with 885 of 1000.
\<close>

lemma adjust_before_release_counts_twice:
  "let db1 = snd (reconcile_adjust_captured_amount 6 1 ''r1'' ''gpt'' 100 50 25 10 None None demo_captured);
       db2 = snd (billing_release 9 demo_release db1)
   in map au_captured (db_authorizations db2) = [105] \<and> balance_of demo_db 1 = 1000 \<and> balance_of db2 1 = 885"
  by code_simp

text \<open>
  A reconciliation from a request fact fails whenever the request has an authorization.
\<close>

lemma reconcile_request_fact_fails:
  assumes "trim (frq_request_id req) \<noteq> []"
    and "fetch_authorization_for_update (frq_tenant_id req) (trim (frq_request_id req)) db = Some a"
  shows "billing_reconcile_request_fact now req db = (Inl (ColumnNotFound ''meta_json''), db)"
  using assms by (simp add: reconcile_request_fact_eq)

end
