(* ===== verification/Outbound_Proxy.thy ===== *)
theory Outbound_Proxy
  imports Core_Model Ttl_Store
begin

text \<open>
  The pool of outbound proxies of the data plane, \<^verbatim>\<open>outbound_proxy_runtime.rs\<close>: which proxy an upstream
  request goes through, weighted by the configuration, with proxies that failed set aside for a while,
  and the cache of HTTP clients. An HTTP client and how \<^verbatim>\<open>reqwest\<close> builds one from the settings are
  parameters. Shown are what a selection may return, the fairness of the weights, and the laws of the
  set of unavailable proxies as an expiring store.
\<close>

section \<open>State\<close>

definition default_proxy_transport_failure_ttl :: duration where
  "default_proxy_transport_failure_ttl = from_secs 30"

record selected_upstream_route =
  sr_proxy_id :: "uuid option"
  sr_proxy_label :: "string option"
  sr_proxy_url :: "string option"
  sr_used_direct_fallback :: bool

record 'c outbound_proxy_runtime =
  opr_settings :: outbound_proxy_pool_settings
  opr_nodes :: "outbound_proxy_node list"
  opr_client_cache :: "(string, 'c) hash_map"
  opr_sequence :: u64
  opr_unavailable_until :: "(uuid, instant) hash_map"
  opr_allow_system_proxy :: bool

definition parse_allow_system_proxy :: "string option \<Rightarrow> bool" where
  "parse_allow_system_proxy raw =
     (case raw of
        None \<Rightarrow> False
      | Some value \<Rightarrow> to_ascii_lowercase (trim value) \<in> {''1'', ''true'', ''yes'', ''on''})"

definition outbound_proxy_runtime_new :: "timestamp \<Rightarrow> string option \<Rightarrow> 'c outbound_proxy_runtime" where
  "outbound_proxy_runtime_new now allow_system_proxy_env =
     \<lparr>opr_settings = default_outbound_proxy_pool_settings now, opr_nodes = [], opr_client_cache = [],
      opr_sequence = 0, opr_unavailable_until = [],
      opr_allow_system_proxy = parse_allow_system_proxy allow_system_proxy_env\<rparr>"

definition replace_config ::
  "outbound_proxy_pool_settings \<Rightarrow> outbound_proxy_node list \<Rightarrow> 'c outbound_proxy_runtime \<Rightarrow> 'c outbound_proxy_runtime" where
  "replace_config settings nodes rt =
     rt\<lparr>opr_settings := settings, opr_nodes := nodes,
        opr_unavailable_until := hm_retain (\<lambda>i _. i \<in> set (map opn_id nodes)) (opr_unavailable_until rt)\<rparr>"

section \<open>Health of the proxies\<close>

definition mark_proxy_transport_failure ::
  "instant \<Rightarrow> uuid option \<Rightarrow> 'c outbound_proxy_runtime \<Rightarrow> 'c outbound_proxy_runtime" where
  "mark_proxy_transport_failure now proxy_id rt =
     (case proxy_id of
        None \<Rightarrow> rt
      | Some i \<Rightarrow> rt\<lparr>opr_unavailable_until :=
          hm_insert i (now + default_proxy_transport_failure_ttl) (opr_unavailable_until rt)\<rparr>)"

definition mark_proxy_success :: "uuid option \<Rightarrow> 'c outbound_proxy_runtime \<Rightarrow> 'c outbound_proxy_runtime" where
  "mark_proxy_success proxy_id rt =
     (case proxy_id of
        None \<Rightarrow> rt
      | Some i \<Rightarrow> rt\<lparr>opr_unavailable_until := hm_remove i (opr_unavailable_until rt)\<rparr>)"

definition mark_proxy_http_status ::
  "instant \<Rightarrow> uuid option \<Rightarrow> nat \<Rightarrow> 'c outbound_proxy_runtime \<Rightarrow> 'c outbound_proxy_runtime" where
  "mark_proxy_http_status now proxy_id status rt =
     (if status = 407 then mark_proxy_transport_failure now proxy_id rt else mark_proxy_success proxy_id rt)"

section \<open>Selection\<close>

definition available_nodes :: "instant \<Rightarrow> 'c outbound_proxy_runtime \<Rightarrow> outbound_proxy_node list" where
  "available_nodes now rt =
     filter (\<lambda>n. opn_enabled n \<and> 0 < opn_weight n \<and>
        (case map_of (opr_unavailable_until rt) (opn_id n) of None \<Rightarrow> True | Some until \<Rightarrow> until \<le> now))
       (opr_nodes rt)"

fun pick_slot :: "nat \<Rightarrow> nat \<Rightarrow> outbound_proxy_node list \<Rightarrow> outbound_proxy_node option" where
  "pick_slot slot cursor [] = None"
| "pick_slot slot cursor (n # ns) =
     (let cursor' = min u64_max (cursor + max (opn_weight n) 1)
      in if slot < cursor' then Some n else pick_slot slot cursor' ns)"

definition pick_weighted ::
  "outbound_proxy_node list \<Rightarrow> 'c outbound_proxy_runtime \<Rightarrow> outbound_proxy_node option \<times> 'c outbound_proxy_runtime" where
  "pick_weighted nodes rt =
     (if nodes = [] then (None, rt)
      else
        let total_weight = max (sum_list (map (\<lambda>n. max (opn_weight n) 1) nodes)) 1;
            slot = unat (opr_sequence rt) mod total_weight
        in (pick_slot slot 0 nodes, rt\<lparr>opr_sequence := opr_sequence rt + 1\<rparr>))"

datatype proxy_error = NoAvailableProxy | ClientBuildError

definition direct_route :: "bool \<Rightarrow> selected_upstream_route" where
  "direct_route fallback =
     \<lparr>sr_proxy_id = None, sr_proxy_label = None, sr_proxy_url = None, sr_used_direct_fallback = fallback\<rparr>"

definition node_route :: "outbound_proxy_node \<Rightarrow> selected_upstream_route" where
  "node_route n =
     \<lparr>sr_proxy_id = Some (opn_id n), sr_proxy_label = Some (opn_label n), sr_proxy_url = Some (opn_proxy_url n),
      sr_used_direct_fallback = False\<rparr>"

definition select_route ::
  "instant \<Rightarrow> 'c outbound_proxy_runtime \<Rightarrow> (proxy_error + selected_upstream_route) \<times> 'c outbound_proxy_runtime" where
  "select_route now rt =
     (if \<not> ops_enabled (opr_settings rt) then (Inr (direct_route False), rt)
      else
        case pick_weighted (available_nodes now rt) rt of
          (Some n, rt') \<Rightarrow> (Inr (node_route n), rt')
        | (None, rt') \<Rightarrow>
            if ops_fail_mode (opr_settings rt) = AllowDirectFallback then (Inr (direct_route True), rt')
            else (Inl NoAvailableProxy, rt'))"

text \<open>\<open>build\<close> makes a client from the flag for system proxies, the timeout and the proxy.\<close>

definition client_cache_key :: "bool \<Rightarrow> string option \<Rightarrow> nat option \<Rightarrow> string" where
  "client_cache_key allow_system_proxy proxy_url timeout_ms =
     (let t = to_decimal (case timeout_ms of None \<Rightarrow> 0 | Some ms \<Rightarrow> ms)
      in case proxy_url of
           Some url \<Rightarrow> ''proxy:'' @ url @ ''|timeout_ms:'' @ t
         | None \<Rightarrow> ''direct|timeout_ms:'' @ t @ ''|allow_system_proxy:'' @
             (if allow_system_proxy then ''true'' else ''false''))"

definition cached_client ::
  "(bool \<Rightarrow> nat option \<Rightarrow> string option \<Rightarrow> proxy_error + 'c) \<Rightarrow> string option \<Rightarrow> nat option \<Rightarrow>
   'c outbound_proxy_runtime \<Rightarrow> (proxy_error + 'c) \<times> 'c outbound_proxy_runtime" where
  "cached_client build proxy_url timeout_ms rt =
     (let key = client_cache_key (opr_allow_system_proxy rt) proxy_url timeout_ms
      in case map_of (opr_client_cache rt) key of
           Some client \<Rightarrow> (Inr client, rt)
         | None \<Rightarrow>
             (case build (opr_allow_system_proxy rt) timeout_ms proxy_url of
                Inl e \<Rightarrow> (Inl e, rt)
              | Inr client \<Rightarrow>
                  (Inr client, rt\<lparr>opr_client_cache := hm_insert key client (opr_client_cache rt)\<rparr>)))"

definition select_http_client ::
  "(bool \<Rightarrow> nat option \<Rightarrow> string option \<Rightarrow> proxy_error + 'c) \<Rightarrow> instant \<Rightarrow> nat option \<Rightarrow> 'c outbound_proxy_runtime \<Rightarrow>
   (proxy_error + 'c \<times> selected_upstream_route) \<times> 'c outbound_proxy_runtime" where
  "select_http_client build now timeout_ms rt =
     (case select_route now rt of
        (Inl e, rt1) \<Rightarrow> (Inl e, rt1)
      | (Inr route, rt1) \<Rightarrow>
          (case cached_client build (sr_proxy_url route) timeout_ms rt1 of
             (Inl e, rt2) \<Rightarrow> (Inl e, rt2)
           | (Inr client, rt2) \<Rightarrow> (Inr (client, route), rt2)))"

section \<open>The expiring set of unavailable proxies\<close>

definition unavailable_at :: "instant \<Rightarrow> 'c outbound_proxy_runtime \<Rightarrow> uuid \<Rightarrow> unit option" where
  "unavailable_at t rt i = map_option (\<lambda>_. ()) (live_value (\<lambda>until. until) t (opr_unavailable_until rt) i)"

definition unavailable_lookup ::
  "instant \<Rightarrow> uuid \<Rightarrow> 'c outbound_proxy_runtime \<Rightarrow> unit option \<times> 'c outbound_proxy_runtime" where
  "unavailable_lookup t i rt = (unavailable_at t rt i, rt)"

lemma ttl_pos [simp]: "0 < default_proxy_transport_failure_ttl"
  by (simp add: default_proxy_transport_failure_ttl_def)

interpretation proxies: expiring_store "\<lambda>rt. True" unavailable_at unavailable_lookup
  "\<lambda>t i (_ :: unit) rt. mark_proxy_transport_failure t (Some i) rt" "\<lambda>i. mark_proxy_success (Some i)"
  "\<lambda>_. ()" "\<lambda>_ _. default_proxy_transport_failure_ttl"
  by unfold_locales
    (auto simp: unavailable_lookup_def unavailable_at_def mark_proxy_transport_failure_def mark_proxy_success_def
      live_value_simps fun_eq_iff dest: live_value_fades)

lemma available_nodes_iff:
  "n \<in> set (available_nodes t rt) \<longleftrightarrow>
   n \<in> set (opr_nodes rt) \<and> opn_enabled n \<and> 0 < opn_weight n \<and> unavailable_at t rt (opn_id n) = None"
  by (auto simp: available_nodes_def unavailable_at_def live_value_def split: option.splits)

section \<open>Weights\<close>

text \<open>The slots: each node as often as its weight.\<close>

definition weight_slots :: "outbound_proxy_node list \<Rightarrow> outbound_proxy_node list" where
  "weight_slots ns = concat (map (\<lambda>n. replicate (max (opn_weight n) 1) n) ns)"

lemma length_weight_slots: "length (weight_slots ns) = sum_list (map (\<lambda>n. max (opn_weight n) 1) ns)"
  by (simp add: weight_slots_def length_concat comp_def)

lemma weight_slots_Cons: "weight_slots (n # ns) = replicate (max (opn_weight n) 1) n @ weight_slots ns"
  by (simp add: weight_slots_def)

lemma pick_slot_eq:
  assumes "c \<le> slot" "c + length (weight_slots ns) \<le> u64_max"
  shows "pick_slot slot c ns =
    (if slot < c + length (weight_slots ns) then Some (weight_slots ns ! (slot - c)) else None)"
  using assms
proof (induction ns arbitrary: c)
  case (Cons n ns)
  let ?w = "max (opn_weight n) 1"
  have c': "min u64_max (c + ?w) = c + ?w" using Cons.prems by (simp add: weight_slots_Cons)
  show ?case
  proof (cases "slot < c + ?w")
    case True
    then have "slot - c < ?w" using Cons.prems by linarith
    then have "weight_slots (n # ns) ! (slot - c) = n" by (simp add: weight_slots_Cons nth_append)
    with True show ?thesis by (simp only: pick_slot.simps Let_def c') (simp add: weight_slots_Cons)
  next
    case False
    then have "pick_slot slot (c + ?w) ns =
      (if slot < c + ?w + length (weight_slots ns) then Some (weight_slots ns ! (slot - (c + ?w))) else None)"
      using Cons.prems by (intro Cons.IH) (simp_all add: weight_slots_Cons)
    with False show ?thesis
      by (simp only: pick_slot.simps Let_def c') (simp add: weight_slots_Cons nth_append add.assoc)
  qed
qed (simp add: weight_slots_def)

lemma pick_weighted_eq:
  assumes "length (weight_slots ns) \<le> u64_max" "ns \<noteq> []"
  shows "pick_weighted ns rt =
    (Some (weight_slots ns ! (unat (opr_sequence rt) mod length (weight_slots ns))),
     rt\<lparr>opr_sequence := opr_sequence rt + 1\<rparr>)"
proof -
  have pos: "0 < length (weight_slots ns)" using assms(2) by (cases ns) (simp_all add: weight_slots_Cons less_max_iff_disj)
  then have total: "max (sum_list (map (\<lambda>n. max (opn_weight n) 1) ns)) 1 = length (weight_slots ns)"
    by (simp add: length_weight_slots)
  show ?thesis
    using pick_slot_eq [of 0 "unat (opr_sequence rt) mod length (weight_slots ns)" ns] assms pos
    unfolding pick_weighted_def Let_def total by simp
qed

lemma pick_slot_in: "pick_slot slot c ns = Some n \<Longrightarrow> n \<in> set ns"
  by (induction slot c ns rule: pick_slot.induct) (auto simp: Let_def split: if_splits)

fun select_seq :: "nat \<Rightarrow> instant \<Rightarrow> 'c outbound_proxy_runtime \<Rightarrow> (proxy_error + selected_upstream_route) list" where
  "select_seq 0 now rt = []"
| "select_seq (Suc n) now rt = (let (res, rt') = select_route now rt in res # select_seq n now rt')"

lemma available_nodes_sequence [simp]: "available_nodes now (rt\<lparr>opr_sequence := s\<rparr>) = available_nodes now rt"
  by (simp add: available_nodes_def)

lemma select_seq_eq:
  assumes "ops_enabled (opr_settings rt)" "available_nodes now rt \<noteq> []"
    and "length (weight_slots (available_nodes now rt)) \<le> u64_max"
    and "unat (opr_sequence rt) + k \<le> 2 ^ 64"
  shows "select_seq k now rt =
    map (\<lambda>i. Inr (node_route (weight_slots (available_nodes now rt) !
      ((unat (opr_sequence rt) + i) mod length (weight_slots (available_nodes now rt)))))) [0..<k]"
  using assms
proof (induction k arbitrary: rt)
  case (Suc k)
  let ?rt = "rt\<lparr>opr_sequence := opr_sequence rt + 1\<rparr>"
  let ?S = "weight_slots (available_nodes now rt)"
  have head: "select_route now rt = (Inr (node_route (?S ! (unat (opr_sequence rt) mod length ?S))), ?rt)"
    using Suc.prems by (simp add: select_route_def pick_weighted_eq)
  have tail: "select_seq k now ?rt =
    map (\<lambda>i. Inr (node_route (?S ! ((unat (opr_sequence rt) + Suc i) mod length ?S)))) [0..<k]"
  proof (cases "k = 0")
    case False
    then have "unat (opr_sequence rt + 1) = Suc (unat (opr_sequence rt))"
      using Suc.prems(4) by (simp add: unat_word_ariths)
    then show ?thesis using Suc.IH [of ?rt] Suc.prems by simp
  qed simp
  show ?case by (simp add: head tail map_upt_Suc del: upt_Suc)
qed simp

section \<open>Properties\<close>

definition weights_ok :: "'c outbound_proxy_runtime \<Rightarrow> bool" where
  "weights_ok rt \<longleftrightarrow> sum_list (map (\<lambda>n. max (opn_weight n) 1) (opr_nodes rt)) \<le> u64_max"

lemma weights_ok_available:
  assumes "weights_ok rt"
  shows "length (weight_slots (available_nodes now rt)) \<le> u64_max"
proof -
  have "sum_list (map f (filter P xs)) \<le> sum_list (map f xs)" for f :: "outbound_proxy_node \<Rightarrow> nat" and P xs
    by (induction xs) auto
  with assms show ?thesis
    unfolding weights_ok_def length_weight_slots available_nodes_def by (meson le_trans)
qed

lemma pick_weighted_in:
  assumes "length (weight_slots ns) \<le> u64_max"
  shows "ns = [] \<and> pick_weighted ns rt = (None, rt) \<or> (\<exists>n \<in> set ns. fst (pick_weighted ns rt) = Some n)"
proof (cases "ns = []")
  case False
  have "0 < length (weight_slots ns)" using False by (cases ns) (simp_all add: weight_slots_Cons less_max_iff_disj)
  then have "weight_slots ns ! (unat (opr_sequence rt) mod length (weight_slots ns)) \<in> set (weight_slots ns)" by simp
  moreover have "set (weight_slots ns) \<subseteq> set ns" by (auto simp: weight_slots_def)
  ultimately show ?thesis using pick_weighted_eq [OF assms False, of rt] by auto
qed (simp add: pick_weighted_def)

text \<open>
  C36. What a selection returns. With the pool disabled traffic goes out directly. With the pool enabled
  it goes through a configured proxy that is enabled, has weight and has not failed within the last 30
  seconds without succeeding since; only if there is none does it go out directly, marked as fallback
  and if the pool allows that, and otherwise the selection fails.\<close>

theorem select_route_spec:
  assumes "weights_ok rt"
  shows "case fst (select_route now rt) of
      Inl e \<Rightarrow> ops_enabled (opr_settings rt) \<and> ops_fail_mode (opr_settings rt) = StrictProxy \<and>
        (\<forall>n \<in> set (opr_nodes rt). \<not> opn_enabled n \<or> opn_weight n = 0 \<or> unavailable_at now rt (opn_id n) \<noteq> None)
    | Inr route \<Rightarrow>
        if \<not> ops_enabled (opr_settings rt) then route = direct_route False
        else (\<exists>n \<in> set (opr_nodes rt). opn_enabled n \<and> 0 < opn_weight n \<and>
                unavailable_at now rt (opn_id n) = None \<and> route = node_route n) \<or>
             (route = direct_route True \<and> ops_fail_mode (opr_settings rt) = AllowDirectFallback \<and>
                (\<forall>n \<in> set (opr_nodes rt). \<not> opn_enabled n \<or> opn_weight n = 0 \<or>
                   unavailable_at now rt (opn_id n) \<noteq> None))"
proof -
  have none: "available_nodes now rt = [] \<longleftrightarrow>
      (\<forall>n \<in> set (opr_nodes rt). \<not> opn_enabled n \<or> opn_weight n = 0 \<or> unavailable_at now rt (opn_id n) \<noteq> None)"
    using available_nodes_iff [of _ now rt] by (metis length_greater_0_conv length_pos_if_in_set list.set_sel(1) neq0_conv)
  show ?thesis
  proof (cases "ops_enabled (opr_settings rt)")
    case True
    from pick_weighted_in [OF weights_ok_available [OF assms, of now], of rt] show ?thesis
    proof (elim disjE conjE bexE)
      assume "available_nodes now rt = []" "pick_weighted (available_nodes now rt) rt = (None, rt)"
      with True none show ?thesis
        by (cases "ops_fail_mode (opr_settings rt)") (simp_all add: select_route_def)
    next
      fix n assume n: "n \<in> set (available_nodes now rt)" "fst (pick_weighted (available_nodes now rt) rt) = Some n"
      then have "fst (select_route now rt) = Inr (node_route n)"
        using True by (auto simp: select_route_def split: prod.splits)
      with True n(1) show ?thesis by (auto simp: available_nodes_iff)
    qed
  qed (simp add: select_route_def)
qed

definition demo_node :: "uuid \<Rightarrow> nat \<Rightarrow> outbound_proxy_node" where
  "demo_node i w = \<lparr>opn_id = i, opn_label = ''p'', opn_proxy_url = ''http://p'', opn_enabled = True, opn_weight = w,
     opn_last_test_status = None, opn_last_latency_ms = None, opn_last_error = None, opn_last_tested_at = None,
     opn_created_at = 0, opn_updated_at = 0\<rparr>"

definition demo_pool :: "unit outbound_proxy_runtime" where
  "demo_pool = replace_config \<lparr>ops_enabled = True, ops_fail_mode = StrictProxy, ops_updated_at = 0\<rparr>
     [demo_node 1 2, demo_node 2 1] (outbound_proxy_runtime_new 0 None)"

theorem select_route_spec_witness:
  "(\<exists>n \<in> set (opr_nodes demo_pool). fst (select_route 0 demo_pool) = Inr (node_route n)) \<and>
   fst (select_route 5 (mark_proxy_transport_failure 0 (Some 2) (mark_proxy_transport_failure 0 (Some 1) demo_pool))) =
     Inl NoAvailableProxy"
proof -
  have "weights_ok demo_pool" "isl (fst (select_route 0 demo_pool)) = False" "ops_enabled (opr_settings demo_pool)"
    "ops_fail_mode (opr_settings demo_pool) = StrictProxy" by code_simp+
  with select_route_spec [of demo_pool 0] show ?thesis
    by (cases "fst (select_route 0 demo_pool)") (auto, code_simp)
qed

text \<open>
  Weights are kept. While the same proxies are available, as many successive selections as the sum
  of their weights choose every proxy exactly as often as its weight says: the selections are the list
  in which each proxy occurs that often, rotated to the sequence counter.\<close>

theorem proxy_weights_fair:
  fixes rt :: "'c outbound_proxy_runtime"
  assumes "ops_enabled (opr_settings rt)" "available_nodes now rt \<noteq> []" "weights_ok rt"
    and "unat (opr_sequence rt) + sum_list (map opn_weight (available_nodes now rt)) \<le> 2 ^ 64"
  shows "select_seq (sum_list (map opn_weight (available_nodes now rt))) now rt =
    map (\<lambda>n. Inr (node_route n))
      (rotate (unat (opr_sequence rt) mod sum_list (map opn_weight (available_nodes now rt)))
        (concat (map (\<lambda>n. replicate (opn_weight n) n) (available_nodes now rt))))"
proof -
  let ?ns = "available_nodes now rt" and ?s = "unat (opr_sequence rt)"
  have w: "max (opn_weight n) 1 = opn_weight n" if "n \<in> set ?ns" for n
    using that by (simp add: available_nodes_iff)
  have slots: "weight_slots ?ns = concat (map (\<lambda>n. replicate (opn_weight n) n) ?ns)"
    unfolding weight_slots_def using w by (intro arg_cong [of _ _ concat] map_cong) simp_all
  have len: "sum_list (map opn_weight ?ns) = length (weight_slots ?ns)"
    by (simp add: slots length_concat comp_def)
  have "map (\<lambda>i. Inr (node_route (weight_slots ?ns ! ((?s + i) mod length (weight_slots ?ns))))) [0..<length (weight_slots ?ns)] =
      map (\<lambda>n. Inr (node_route n)) (rotate (?s mod length (weight_slots ?ns)) (weight_slots ?ns))"
    by (intro nth_equalityI) (simp_all add: nth_rotate mod_add_left_eq)
  with select_seq_eq [OF assms(1,2) weights_ok_available [OF assms(3)], where k = "length (weight_slots ?ns)"] assms(4)
  show ?thesis unfolding slots [symmetric] len by simp
qed

theorem proxy_weights_fair_witness:
  "select_seq 3 0 demo_pool = map (\<lambda>n. Inr (node_route n)) [demo_node 1 2, demo_node 1 2, demo_node 2 1]"
proof -
  have "select_seq (sum_list (map opn_weight (available_nodes 0 demo_pool))) 0 demo_pool =
    map (\<lambda>n. Inr (node_route n))
      (rotate (unat (opr_sequence demo_pool) mod sum_list (map opn_weight (available_nodes 0 demo_pool)))
        (concat (map (\<lambda>n. replicate (opn_weight n) n) (available_nodes 0 demo_pool))))"
    by (rule proxy_weights_fair) code_simp+
  moreover have "sum_list (map opn_weight (available_nodes 0 demo_pool)) = 3" by code_simp
  moreover have "map (\<lambda>n. Inr (node_route n)) (rotate (unat (opr_sequence demo_pool) mod 3)
      (concat (map (\<lambda>n. replicate (opn_weight n) n) (available_nodes 0 demo_pool)))) =
    map (\<lambda>n. (Inr (node_route n) :: proxy_error + selected_upstream_route)) [demo_node 1 2, demo_node 1 2, demo_node 2 1]"
    by code_simp
  ultimately show ?thesis by simp
qed

end
