(* ===== verification/Snapshot.thy ===== *)
theory Snapshot
  imports Router_Correct Outbound_Proxy
begin

text \<open>
  How the data plane follows the configuration of the control plane, \<^verbatim>\<open>services/data-plane/src/snapshot.rs\<close>:
  applying full snapshots and batches of events, and the loop that polls for them. The state is the part
  of \<^verbatim>\<open>AppState\<close> that the configuration determines. Waking the tasks that wait for a route is counted.
  What the control plane answers is an argument of each round of the loop.
\<close>

section \<open>State\<close>

record 'c app_config =
  ac_router :: router
  ac_claude_code_routing_settings :: claude_code_routing_settings
  ac_ai_error_learning_settings :: ai_error_learning_settings
  ac_approved_templates :: "(string, upstream_error_template_record) hash_map"
  ac_builtin_templates :: "(string, builtin_error_template_record) hash_map"
  ac_outbound_proxy_runtime :: "'c outbound_proxy_runtime"
  ac_snapshot_revision :: nat
  ac_snapshot_cursor :: nat
  ac_snapshot_remote_cursor :: nat
  ac_snapshot_events_apply_total :: u64
  ac_cursor_gone_total :: u64
  ac_route_updates :: nat

definition notify_route_updated :: "'c app_config \<Rightarrow> 'c app_config" where
  "notify_route_updated st = st\<lparr>ac_route_updates := ac_route_updates st + 1\<rparr>"

definition builtin_error_template_key :: "builtin_error_template_kind \<Rightarrow> string \<Rightarrow> string" where
  "builtin_error_template_key kind code =
     (case kind of GatewayError \<Rightarrow> ''gateway_error'' | HeuristicUpstream \<Rightarrow> ''heuristic_upstream'') @ '':'' @ code"

definition approved_map :: "upstream_error_template_record list \<Rightarrow> (string, upstream_error_template_record) hash_map" where
  "approved_map ts = hm_collect (map (\<lambda>t. (uet_fingerprint t, t)) ts)"

definition builtin_map :: "builtin_error_template_record list \<Rightarrow> (string, builtin_error_template_record) hash_map" where
  "builtin_map ts = hm_collect (map (\<lambda>t. (builtin_error_template_key (bet_kind t) (bet_code t), t)) ts)"

section \<open>Full snapshots\<close>

definition apply_snapshot :: "data_plane_snapshot \<Rightarrow> 'c app_config \<Rightarrow> 'c app_config" where
  "apply_snapshot s st =
     (if sn_revision s < ac_snapshot_revision st \<or>
         (sn_revision s = ac_snapshot_revision st \<and> sn_cursor s \<le> ac_snapshot_cursor st)
      then st
      else notify_route_updated
        (st\<lparr>ac_router := replace_compiled_routing_plan (sn_compiled_routing_plan s)
              (replace_account_traits (sn_account_traits s) (replace_accounts (sn_accounts s) (ac_router st))),
            ac_claude_code_routing_settings := sn_claude_code_routing_settings s,
            ac_ai_error_learning_settings := sn_ai_error_learning_settings s,
            ac_approved_templates := approved_map (sn_approved_upstream_error_templates s),
            ac_builtin_templates := builtin_map (sn_builtin_error_templates s),
            ac_outbound_proxy_runtime := replace_config (sn_outbound_proxy_pool_settings s)
              (sn_outbound_proxy_nodes s) (ac_outbound_proxy_runtime st),
            ac_snapshot_revision := sn_revision s, ac_snapshot_cursor := sn_cursor s,
            ac_snapshot_remote_cursor := sn_cursor s\<rparr>))"

section \<open>Events\<close>

text \<open>
  One event, in the order of the code: settings and templates, the proxy pool, then the account or the
  plan. The flag says whether routing changed.
\<close>

definition apply_event_settings :: "data_plane_snapshot_event \<Rightarrow> 'c app_config \<Rightarrow> bool \<times> 'c app_config" where
  "apply_event_settings e st =
     (let (c1, st1) = (case ev_ai_error_learning_settings e of
            Some v \<Rightarrow> (True, st\<lparr>ac_ai_error_learning_settings := v\<rparr>) | None \<Rightarrow> (False, st));
          (c2, st2) = (case ev_claude_code_routing_settings e of
            Some v \<Rightarrow> (True, st1\<lparr>ac_claude_code_routing_settings := v\<rparr>) | None \<Rightarrow> (c1, st1));
          (c3, st3) = (case ev_approved_upstream_error_templates e of
            Some ts \<Rightarrow> (True, st2\<lparr>ac_approved_templates := approved_map ts\<rparr>) | None \<Rightarrow> (c2, st2))
      in case ev_builtin_error_templates e of
           Some ts \<Rightarrow> (True, st3\<lparr>ac_builtin_templates := builtin_map ts\<rparr>)
         | None \<Rightarrow> (c3, st3))"

definition apply_event_proxy :: "data_plane_snapshot_event \<Rightarrow> 'c app_config \<Rightarrow> bool \<times> 'c app_config" where
  "apply_event_proxy e st =
     (let rt = ac_outbound_proxy_runtime st
      in case ev_outbound_proxy_pool_settings e of
           Some settings \<Rightarrow>
             (True, st\<lparr>ac_outbound_proxy_runtime := replace_config settings
                (case ev_outbound_proxy_nodes e of Some nodes \<Rightarrow> nodes | None \<Rightarrow> opr_nodes rt) rt\<rparr>)
         | None \<Rightarrow>
             (case ev_outbound_proxy_nodes e of
                Some nodes \<Rightarrow> (True, st\<lparr>ac_outbound_proxy_runtime := replace_config (opr_settings rt) nodes rt\<rparr>)
              | None \<Rightarrow> (False, st)))"

definition apply_event_plan :: "data_plane_snapshot_event \<Rightarrow> bool \<times> router \<Rightarrow> bool \<times> router" where
  "apply_event_plan e cr =
     (if ev_compiled_routing_plan e \<noteq> None
      then (True, replace_compiled_routing_plan (ev_compiled_routing_plan e) (snd cr))
      else cr)"

definition apply_event_routing :: "data_plane_snapshot_event \<Rightarrow> router \<Rightarrow> bool \<times> router" where
  "apply_event_routing e r =
     (case ev_event_type e of
        AccountUpsert \<Rightarrow>
          apply_event_plan e
            (case ev_account e of
               Some account \<Rightarrow> (True, upsert_account account r)
             | None \<Rightarrow> delete_account (ev_account_id e) r)
      | AccountDelete \<Rightarrow> apply_event_plan e (delete_account (ev_account_id e) r)
      | RoutingPlanRefresh \<Rightarrow> (True, replace_compiled_routing_plan (ev_compiled_routing_plan e) r))"

definition apply_event :: "data_plane_snapshot_event \<Rightarrow> 'c app_config \<Rightarrow> bool \<times> 'c app_config" where
  "apply_event e st =
     (let (c1, st1) = apply_event_settings e st;
          (c2, st2) = apply_event_proxy e st1;
          (c3, r) = apply_event_routing e (ac_router st2)
      in (c1 \<or> c2 \<or> c3, st2\<lparr>ac_router := r\<rparr>))"

fun apply_events :: "data_plane_snapshot_event list \<Rightarrow> 'c app_config \<Rightarrow> bool \<times> 'c app_config" where
  "apply_events [] st = (False, st)"
| "apply_events (e # es) st =
     (let (c, st1) = apply_event e st; (c', st2) = apply_events es st1 in (c \<or> c', st2))"

definition apply_snapshot_events ::
  "data_plane_snapshot_events_response \<Rightarrow> 'c app_config \<Rightarrow> nat \<times> 'c app_config" where
  "apply_snapshot_events resp st =
     (let es = evr_events resp;
          max_cursor = fold (\<lambda>e c. max c (ev_id e)) es (evr_cursor resp);
          remote_cursor = fold (\<lambda>e c. max c (ev_id e)) es (max (evr_high_watermark resp) (evr_cursor resp));
          (routing_changed, st1) = apply_events es st;
          st2 = st1\<lparr>ac_snapshot_events_apply_total := ac_snapshot_events_apply_total st1 + of_nat (length es)\<rparr>;
          st3 = (if max_cursor > ac_snapshot_cursor st2 then st2\<lparr>ac_snapshot_cursor := max_cursor\<rparr> else st2);
          st4 = (if remote_cursor > ac_snapshot_remote_cursor st3
                 then st3\<lparr>ac_snapshot_remote_cursor := remote_cursor\<rparr> else st3);
          st5 = (if routing_changed then notify_route_updated st4 else st4)
      in (ac_snapshot_cursor st5, st5))"

section \<open>The poller\<close>

datatype events_reply = EventsReply data_plane_snapshot_events_response | CursorGone | EventsError

definition fetch_full_snapshot :: "data_plane_snapshot option \<Rightarrow> 'c app_config \<Rightarrow> nat option \<times> 'c app_config" where
  "fetch_full_snapshot reply st =
     (case reply of
        None \<Rightarrow> (None, st)
      | Some s \<Rightarrow> let st1 = apply_snapshot s st in (Some (ac_snapshot_cursor st1), st1))"

text \<open>
  One round of \<^verbatim>\<open>SnapshotPoller::run\<close>: the answers to the requests it makes, the cursor and the state
  give the new cursor, the new state and whether the round ended in a pause of the retry interval.
\<close>

definition poll_round ::
  "data_plane_snapshot option \<Rightarrow> events_reply \<Rightarrow> data_plane_snapshot option \<Rightarrow> nat \<Rightarrow> 'c app_config \<Rightarrow>
   nat \<times> 'c app_config \<times> bool" where
  "poll_round initial events reload cursor st =
     (case (if cursor = 0 then fetch_full_snapshot initial st else (Some cursor, st)) of
        (None, st1) \<Rightarrow> (cursor, st1, True)
      | (Some cursor1, st1) \<Rightarrow>
          (case events of
             EventsReply resp \<Rightarrow>
               let (next_cursor, st2) = apply_snapshot_events resp st1
               in (max next_cursor cursor1, st2, False)
           | CursorGone \<Rightarrow>
               let st2 = st1\<lparr>ac_cursor_gone_total := ac_cursor_gone_total st1 + 1\<rparr>
               in (case fetch_full_snapshot reload st2 of
                     (Some next_cursor, st3) \<Rightarrow> (next_cursor, st3, False)
                   | (None, st3) \<Rightarrow> (cursor1, st3, True))
           | EventsError \<Rightarrow> (cursor1, st1, True)))"

end
