(* ===== verification/Snapshot_Props.thy ===== *)
theory Snapshot_Props
  imports Snapshot
begin

text \<open>
  What following the control plane amounts to. The configuration a request can observe is a view: which
  account has an id, the plan, the settings, the templates and the proxy pool. Events act on the view
  alone, so following events is as good as loading a snapshot; and the router that results only selects
  accounts of the view.
\<close>

section \<open>The view\<close>

record config_view =
  cv_accounts :: "uuid \<Rightarrow> upstream_account option"
  cv_plan :: "compiled_routing_plan option"
  cv_ai_error_learning :: ai_error_learning_settings
  cv_claude_code_routing :: claude_code_routing_settings
  cv_approved :: "(string, upstream_error_template_record) hash_map"
  cv_builtin :: "(string, builtin_error_template_record) hash_map"
  cv_proxy_settings :: outbound_proxy_pool_settings
  cv_proxy_nodes :: "outbound_proxy_node list"

definition view :: "'c app_config \<Rightarrow> config_view" where
  "view st =
     \<lparr>cv_accounts = (\<lambda>i. find_account i (ac_router st)), cv_plan = r_compiled_routing_plan (ac_router st),
      cv_ai_error_learning = ac_ai_error_learning_settings st,
      cv_claude_code_routing = ac_claude_code_routing_settings st,
      cv_approved = ac_approved_templates st, cv_builtin = ac_builtin_templates st,
      cv_proxy_settings = opr_settings (ac_outbound_proxy_runtime st),
      cv_proxy_nodes = opr_nodes (ac_outbound_proxy_runtime st)\<rparr>"

definition view_of_snapshot :: "data_plane_snapshot \<Rightarrow> config_view" where
  "view_of_snapshot s =
     \<lparr>cv_accounts = (\<lambda>i. find (\<lambda>a. ua_id a = i) (sn_accounts s)), cv_plan = sn_compiled_routing_plan s,
      cv_ai_error_learning = sn_ai_error_learning_settings s,
      cv_claude_code_routing = sn_claude_code_routing_settings s,
      cv_approved = approved_map (sn_approved_upstream_error_templates s),
      cv_builtin = builtin_map (sn_builtin_error_templates s),
      cv_proxy_settings = sn_outbound_proxy_pool_settings s, cv_proxy_nodes = sn_outbound_proxy_nodes s\<rparr>"

text \<open>The abstract effect of an event: what it carries replaces what was there.\<close>

definition or_keep :: "'a option \<Rightarrow> 'a \<Rightarrow> 'a" where
  "or_keep new old = (case new of Some v \<Rightarrow> v | None \<Rightarrow> old)"

definition view_event :: "data_plane_snapshot_event \<Rightarrow> config_view \<Rightarrow> config_view" where
  "view_event e v =
     v\<lparr>cv_accounts :=
         (case (ev_event_type e, ev_account e) of
            (AccountUpsert, Some a) \<Rightarrow> (cv_accounts v)(ua_id a := Some a)
          | (AccountUpsert, None) \<Rightarrow> (cv_accounts v)(ev_account_id e := None)
          | (AccountDelete, _) \<Rightarrow> (cv_accounts v)(ev_account_id e := None)
          | (RoutingPlanRefresh, _) \<Rightarrow> cv_accounts v),
       cv_plan :=
         (if ev_event_type e = RoutingPlanRefresh \<or> ev_compiled_routing_plan e \<noteq> None
          then ev_compiled_routing_plan e else cv_plan v),
       cv_ai_error_learning := or_keep (ev_ai_error_learning_settings e) (cv_ai_error_learning v),
       cv_claude_code_routing := or_keep (ev_claude_code_routing_settings e) (cv_claude_code_routing v),
       cv_approved := or_keep (map_option approved_map (ev_approved_upstream_error_templates e)) (cv_approved v),
       cv_builtin := or_keep (map_option builtin_map (ev_builtin_error_templates e)) (cv_builtin v),
       cv_proxy_settings := or_keep (ev_outbound_proxy_pool_settings e) (cv_proxy_settings v),
       cv_proxy_nodes := or_keep (ev_outbound_proxy_nodes e) (cv_proxy_nodes v)\<rparr>"

section \<open>Router operations on the view\<close>

lemma find_replace_first:
  "\<exists>x \<in> set xs. ua_id x = ua_id a \<Longrightarrow>
   find (\<lambda>x. ua_id x = i) (replace_first (\<lambda>x. ua_id x = ua_id a) a xs) =
   (if i = ua_id a then Some a else find (\<lambda>x. ua_id x = i) xs)"
  by (induction xs) (auto, metis+)

lemma find_append_new:
  "\<not> (\<exists>x \<in> set xs. ua_id x = ua_id a) \<Longrightarrow>
   find (\<lambda>x. ua_id x = i) (xs @ [a]) = (if i = ua_id a then Some a else find (\<lambda>x. ua_id x = i) xs)"
  by (induction xs) auto

lemma find_filter_other:
  "find (\<lambda>x. ua_id x = i) (filter (\<lambda>x. ua_id x \<noteq> j) xs) = (if i = j then None else find (\<lambda>x. ua_id x = i) xs)"
  by (induction xs) auto

lemma forget_account_accounts [simp]:
  "r_accounts (forget_account i r) = r_accounts r" "r_compiled_routing_plan (forget_account i r) = r_compiled_routing_plan r"
  by (simp_all add: forget_account_def)

lemma find_upsert_account: "find_account i (upsert_account a r) = (if i = ua_id a then Some a else find_account i r)"
  by (auto simp: upsert_account_def Let_def find_account_def account_exists_def list_ex_iff find_replace_first
      find_append_new)

lemma find_delete_account: "find_account i (snd (delete_account j r)) = (if i = j then None else find_account i r)"
  by (auto simp: delete_account_def Let_def find_account_def find_filter_other)

lemma plan_account_ops [simp]:
  "r_compiled_routing_plan (upsert_account a r) = r_compiled_routing_plan r"
  "r_compiled_routing_plan (snd (delete_account j r)) = r_compiled_routing_plan r"
  by (simp_all add: upsert_account_def delete_account_def Let_def)

lemma plan_ops [simp]:
  "find_account i (replace_compiled_routing_plan p r) = find_account i r"
  "r_compiled_routing_plan (replace_compiled_routing_plan p r) = p"
  by (simp_all add: replace_compiled_routing_plan_def find_account_def)

lemma replace_config_fields [simp]:
  "opr_settings (replace_config s ns rt) = s" "opr_nodes (replace_config s ns rt) = ns"
  by (simp_all add: replace_config_def)

section \<open>Events refine the view\<close>

lemma routing_view:
  "find_account i (snd (apply_event_routing e r)) =
     (case (ev_event_type e, ev_account e) of
        (AccountUpsert, Some a) \<Rightarrow> if i = ua_id a then Some a else find_account i r
      | (AccountUpsert, None) \<Rightarrow> if i = ev_account_id e then None else find_account i r
      | (AccountDelete, _) \<Rightarrow> if i = ev_account_id e then None else find_account i r
      | (RoutingPlanRefresh, _) \<Rightarrow> find_account i r)"
  "r_compiled_routing_plan (snd (apply_event_routing e r)) =
     (if ev_event_type e = RoutingPlanRefresh \<or> ev_compiled_routing_plan e \<noteq> None
      then ev_compiled_routing_plan e else r_compiled_routing_plan r)"
  by (auto simp: apply_event_routing_def apply_event_plan_def find_upsert_account find_delete_account
      split: snapshot_event_type.split option.split)

lemma view_apply_event: "view (snd (apply_event e st)) = view_event e (view st)"
proof -
  obtain c1 st1 where s1: "apply_event_settings e st = (c1, st1)" by fastforce
  obtain c2 st2 where s2: "apply_event_proxy e st1 = (c2, st2)" by fastforce
  obtain c3 r where r: "apply_event_routing e (ac_router st2) = (c3, r)" by fastforce
  have router: "ac_router st2 = ac_router st"
    using s1 s2 by (auto simp: apply_event_settings_def apply_event_proxy_def Let_def split: option.splits)
  have keeps: "ac_ai_error_learning_settings st2 = or_keep (ev_ai_error_learning_settings e) (ac_ai_error_learning_settings st)"
    "ac_claude_code_routing_settings st2 = or_keep (ev_claude_code_routing_settings e) (ac_claude_code_routing_settings st)"
    "ac_approved_templates st2 =
       or_keep (map_option approved_map (ev_approved_upstream_error_templates e)) (ac_approved_templates st)"
    "ac_builtin_templates st2 = or_keep (map_option builtin_map (ev_builtin_error_templates e)) (ac_builtin_templates st)"
    using s1 s2
    by (auto simp: apply_event_settings_def apply_event_proxy_def Let_def or_keep_def split: option.splits)
  have rt: "ac_outbound_proxy_runtime st1 = ac_outbound_proxy_runtime st"
    using s1 by (auto simp: apply_event_settings_def Let_def split: option.splits)
  have proxy: "opr_settings (ac_outbound_proxy_runtime st2) =
      or_keep (ev_outbound_proxy_pool_settings e) (opr_settings (ac_outbound_proxy_runtime st))"
    "opr_nodes (ac_outbound_proxy_runtime st2) =
      or_keep (ev_outbound_proxy_nodes e) (opr_nodes (ac_outbound_proxy_runtime st))"
    using s2 rt by (auto simp: apply_event_proxy_def Let_def or_keep_def split: option.splits)
  have "snd (apply_event e st) = st2\<lparr>ac_router := r\<rparr>" by (simp add: apply_event_def s1 s2 r)
  moreover have "(\<lambda>i. find_account i r) = cv_accounts (view_event e (view st))"
    using routing_view(1) [of _ e "ac_router st"] r router
    by (auto simp: view_event_def view_def fun_eq_iff split: snapshot_event_type.split option.split)
  moreover have "r_compiled_routing_plan r = cv_plan (view_event e (view st))"
    using routing_view(2) [of e "ac_router st"] r router by (simp add: view_event_def view_def)
  ultimately show ?thesis by (simp add: view_def view_event_def keeps proxy)
qed

lemma view_apply_events: "view (snd (apply_events es st)) = fold view_event es (view st)"
  by (induction es arbitrary: st) (simp_all add: view_apply_event [symmetric] split_beta Let_def)

lemma view_bookkeeping [simp]:
  "view (st\<lparr>ac_snapshot_events_apply_total := n\<rparr>) = view st" "view (st\<lparr>ac_snapshot_cursor := c\<rparr>) = view st"
  "view (st\<lparr>ac_snapshot_remote_cursor := c\<rparr>) = view st" "view (notify_route_updated st) = view st"
  "view (st\<lparr>ac_cursor_gone_total := n\<rparr>) = view st"
  by (simp_all add: view_def notify_route_updated_def)

lemma view_apply_snapshot_events: "view (snd (apply_snapshot_events resp st)) = fold view_event (evr_events resp) (view st)"
  by (simp add: apply_snapshot_events_def Let_def split_beta view_apply_events)

definition snapshot_newer :: "data_plane_snapshot \<Rightarrow> 'c app_config \<Rightarrow> bool" where
  "snapshot_newer s st \<longleftrightarrow>
     ac_snapshot_revision st < sn_revision s \<or>
     (ac_snapshot_revision st = sn_revision s \<and> ac_snapshot_cursor st < sn_cursor s)"

lemma apply_snapshot_stale: "\<not> snapshot_newer s st \<Longrightarrow> apply_snapshot s st = st"
  by (auto simp: apply_snapshot_def snapshot_newer_def)

lemma view_apply_snapshot: "snapshot_newer s st \<Longrightarrow> view (apply_snapshot s st) = view_of_snapshot s"
  by (auto simp: apply_snapshot_def snapshot_newer_def view_def view_of_snapshot_def notify_route_updated_def
      find_account_def replace_account_traits_def replace_accounts_def replace_compiled_routing_plan_def Let_def)

section \<open>Routers along the way\<close>

lemma reachable_event_routing:
  assumes "router_reachable now r"
  shows "router_reachable now (snd (apply_event_routing e r))"
proof -
  have plan: "router_reachable now (snd (apply_event_plan e cr))" if "router_reachable now (snd cr)" for cr
    using reach_step [OF that step_plan] that by (simp add: apply_event_plan_def)
  show ?thesis
    using reach_step [OF assms step_upsert] reach_step [OF assms step_delete] reach_step [OF assms step_plan]
    by (auto simp: apply_event_routing_def intro!: plan split: snapshot_event_type.split option.split)
qed

lemma reachable_apply_events:
  "router_reachable now (ac_router st) \<Longrightarrow> router_reachable now (ac_router (snd (apply_events es st)))"
proof (induction es arbitrary: st)
  case (Cons e es)
  obtain c1 st1 where s1: "apply_event_settings e st = (c1, st1)" by fastforce
  obtain c2 st2 where s2: "apply_event_proxy e st1 = (c2, st2)" by fastforce
  have "ac_router st2 = ac_router st"
    using s1 s2 by (auto simp: apply_event_settings_def apply_event_proxy_def Let_def split: option.splits)
  then have "router_reachable now (ac_router (snd (apply_event e st)))"
    using reachable_event_routing [OF Cons.prems, of e] by (simp add: apply_event_def s1 s2 split_beta)
  from Cons.IH [OF this] show ?case by (simp add: split_beta Let_def)
qed simp

lemma reachable_apply_snapshot_events:
  "router_reachable now (ac_router st) \<Longrightarrow> router_reachable now (ac_router (snd (apply_snapshot_events resp st)))"
  using reachable_apply_events [of now st "evr_events resp"]
  by (simp add: apply_snapshot_events_def Let_def split_beta notify_route_updated_def)

lemma reachable_apply_snapshot:
  assumes "router_reachable now (ac_router st)" "distinct (map ua_id (sn_accounts s))"
  shows "router_reachable now (ac_router (apply_snapshot s st))"
  using reach_step [OF reach_step [OF reach_step [OF assms(1) step_accounts [OF assms(2)]] step_traits] step_plan] assms(1)
  by (simp add: apply_snapshot_def notify_route_updated_def)

section \<open>Progress of the poller\<close>

definition position :: "'c app_config \<Rightarrow> nat \<times> nat" where
  "position st = (ac_snapshot_revision st, ac_snapshot_cursor st)"

lemma position_apply_events: "position (snd (apply_events es st)) = position st"
proof (induction es arbitrary: st)
  case (Cons e es)
  have "position (snd (apply_event e st)) = position st"
    by (auto simp: position_def apply_event_def apply_event_settings_def apply_event_proxy_def Let_def split_beta
        split: option.split)
  with Cons.IH [of "snd (apply_event e st)"] show ?case by (simp add: split_beta Let_def)
qed simp

lemma position_apply_snapshot_events: "position st \<le> position (snd (apply_snapshot_events resp st))"
  using position_apply_events [of "evr_events resp" st]
  by (auto simp: apply_snapshot_events_def Let_def split_beta position_def notify_route_updated_def less_eq_prod_simp)

lemma position_apply_snapshot:
  "position (apply_snapshot s st) = (if snapshot_newer s st then (sn_revision s, sn_cursor s) else position st)"
  by (auto simp: apply_snapshot_def snapshot_newer_def position_def notify_route_updated_def)

lemma position_apply_snapshot_le: "position st \<le> position (apply_snapshot s st)"
  unfolding position_apply_snapshot by (auto simp: snapshot_newer_def position_def less_eq_prod_simp)

lemma position_fetch: "position st \<le> position (snd (fetch_full_snapshot reply st))"
  by (auto simp: fetch_full_snapshot_def Let_def position_apply_snapshot_le split: option.split)

section \<open>Properties\<close>


definition demo_state :: "unit app_config" where
  "demo_state =
     \<lparr>ac_router = demo_router, ac_claude_code_routing_settings = default_claude_code_routing_settings 0,
      ac_ai_error_learning_settings = default_ai_error_learning_settings, ac_approved_templates = [],
      ac_builtin_templates = [], ac_outbound_proxy_runtime = demo_pool, ac_snapshot_revision = 0,
      ac_snapshot_cursor = 0, ac_snapshot_remote_cursor = 0, ac_snapshot_events_apply_total = 0,
      ac_cursor_gone_total = 0, ac_route_updates = 0\<rparr>"


definition demo_snapshot :: "nat \<Rightarrow> upstream_account list \<Rightarrow> data_plane_snapshot" where
  "demo_snapshot c accounts =
     \<lparr>sn_revision = 1, sn_cursor = c, sn_accounts = accounts, sn_account_traits = [], sn_compiled_routing_plan = None,
      sn_ai_error_learning_settings = default_ai_error_learning_settings, sn_approved_upstream_error_templates = [],
      sn_builtin_error_templates = [],
      sn_outbound_proxy_pool_settings = default_outbound_proxy_pool_settings 0, sn_outbound_proxy_nodes = [],
      sn_claude_code_routing_settings = default_claude_code_routing_settings 0, sn_issued_at = 0\<rparr>"

definition demo_event :: "nat \<Rightarrow> snapshot_event_type \<Rightarrow> uuid \<Rightarrow> upstream_account option \<Rightarrow> data_plane_snapshot_event" where
  "demo_event n ty i a =
     \<lparr>ev_id = n, ev_event_type = ty, ev_account_id = i, ev_account = a, ev_compiled_routing_plan = None,
      ev_ai_error_learning_settings = None, ev_approved_upstream_error_templates = None,
      ev_builtin_error_templates = None, ev_outbound_proxy_pool_settings = None, ev_outbound_proxy_nodes = None,
      ev_claude_code_routing_settings = None, ev_created_at = 0\<rparr>"

definition demo_events :: data_plane_snapshot_events_response where
  "demo_events = \<lparr>evr_cursor = 7, evr_high_watermark = 7,
     evr_events = [demo_event 6 AccountUpsert 3 (Some (demo_account 3)), demo_event 7 AccountDelete 1 None]\<rparr>"

lemma demo_view_events:
  "view_of_snapshot (demo_snapshot 7 [demo_account 2, demo_account 3]) =
   fold view_event (evr_events demo_events) (view_of_snapshot (demo_snapshot 5 [demo_account 1, demo_account 2]))"
  by (auto simp: demo_snapshot_def demo_events_def demo_event_def view_of_snapshot_def view_event_def or_keep_def
      demo_account_def fun_eq_iff)


text \<open>
  C19. Routing follows the configuration. After any batch of events every selection of the router, for
  any model, session and exclusions, returns an account that is configured under its id by the events
  and enabled: an account that was deleted, disabled or replaced is not used again.\<close>

theorem routing_follows_events:
  assumes "router_reachable now (ac_router st)" "now \<le> t"
    and "fst (pick_for_model t model sticky_key excluded avoid (ac_router (snd (apply_snapshot_events resp st)))) = Some a"
  shows "cv_accounts (fold view_event (evr_events resp) (view st)) (ua_id a) = Some a \<and> ua_enabled a"
proof -
  have "router_reachable t (ac_router (snd (apply_snapshot_events resp st)))"
    by (rule reach_tick [OF reachable_apply_snapshot_events [OF assms(1)] assms(2)])
  from pick_for_model_available [OF reachable_inv [OF this] assms(3)]
  have "find_account (ua_id a) (ac_router (snd (apply_snapshot_events resp st))) = Some a" "ua_enabled a"
    by (simp_all add: available_def)
  then show ?thesis by (simp add: view_apply_snapshot_events [of resp st, symmetric]) (simp add: view_def)
qed

theorem routing_follows_events_witness:
  "\<exists>a. fst (pick_for_model 20 None None {} False (ac_router (snd (apply_snapshot_events demo_events demo_state)))) = Some a \<and>
     cv_accounts (fold view_event (evr_events demo_events) (view demo_state)) (ua_id a) = Some a \<and> ua_id a \<noteq> 1"
proof -
  have picked: "fst (pick_for_model 20 None None {} False (ac_router (snd (apply_snapshot_events demo_events demo_state)))) =
    Some (demo_account 2)" by code_simp
  have "router_reachable 0 (ac_router demo_state)" by (simp add: demo_state_def demo_router_reachable)
  from routing_follows_events [OF this _ picked]
  have "cv_accounts (fold view_event (evr_events demo_events) (view demo_state)) (ua_id (demo_account 2)) =
    Some (demo_account 2)" by simp
  with picked show ?thesis by (intro exI [of _ "demo_account 2"]) (simp add: demo_account_def)
qed

text \<open>
  The poller never goes back. Whatever the control plane answers in a round, the revision and cursor
  of the data plane do not decrease; and when the cursor has expired, a newer snapshot is loaded as a
  whole and polling continues from its cursor.\<close>

theorem poll_round_progress:
  "(case poll_round initial events reload cursor st of (cursor', st', paused) \<Rightarrow> position st \<le> position st') \<and>
   (cursor \<noteq> 0 \<and> snapshot_newer s st \<longrightarrow>
     (case poll_round initial CursorGone (Some s) cursor st of (cursor', st', paused) \<Rightarrow>
        view st' = view_of_snapshot s \<and> position st' = (sn_revision s, sn_cursor s) \<and> cursor' = sn_cursor s))"
proof (intro conjI impI)
  have gone: "position (st\<lparr>ac_cursor_gone_total := n\<rparr>) = position st" for n and st :: "'a app_config"
    by (simp add: position_def)
  obtain c1 st1 where first: "(if cursor = 0 then fetch_full_snapshot initial st else (Some cursor, st)) = (c1, st1)"
    by fastforce
  have le1: "position st \<le> position st1"
    using first position_fetch [of st initial] by (auto split: if_splits)
  have le2: "position st1 \<le> position (snd (fetch_full_snapshot reload (st1\<lparr>ac_cursor_gone_total := n\<rparr>)))" for n
    using position_fetch [of "st1\<lparr>ac_cursor_gone_total := n\<rparr>" reload] by (simp add: gone)
  show "case poll_round initial events reload cursor st of (cursor', st', paused) \<Rightarrow> position st \<le> position st'"
    using le1 order_trans [OF le1 le2] order_trans [OF le1 position_apply_snapshot_events]
    by (auto simp: poll_round_def first Let_def split_beta split: option.split events_reply.split)
next
  assume newer: "cursor \<noteq> 0 \<and> snapshot_newer s st"
  let ?st = "st\<lparr>ac_cursor_gone_total := ac_cursor_gone_total st + 1\<rparr>"
  have "snapshot_newer s ?st" using newer by (simp add: snapshot_newer_def)
  then have "view (apply_snapshot s ?st) = view_of_snapshot s"
    "position (apply_snapshot s ?st) = (sn_revision s, sn_cursor s)"
    by (simp_all add: view_apply_snapshot position_apply_snapshot)
  then show "case poll_round initial CursorGone (Some s) cursor st of (cursor', st', paused) \<Rightarrow>
      view st' = view_of_snapshot s \<and> position st' = (sn_revision s, sn_cursor s) \<and> cursor' = sn_cursor s"
    using newer by (simp add: poll_round_def fetch_full_snapshot_def Let_def position_def)
qed

theorem poll_round_progress_witness:
  "case poll_round None CursorGone (Some (demo_snapshot 9 [demo_account 4])) 3 demo_state of (cursor', st', paused) \<Rightarrow>
     position st' = (1, 9) \<and> cursor' = 9"
proof -
  let ?s = "demo_snapshot 9 [demo_account 4]"
  have "snapshot_newer ?s demo_state" "sn_revision ?s = 1" "sn_cursor ?s = 9"
    by (simp_all add: snapshot_newer_def demo_snapshot_def demo_state_def)
  with poll_round_progress [where st = demo_state and cursor = 3 and s = ?s and initial = None]
  show ?thesis by (auto split: prod.splits)
qed

text \<open>
  When the cursor has expired and the snapshot the control plane serves is not newer than what is
  loaded, for instance after its revision was reset, the snapshot is ignored and the next request is
  sent at once: no number of rounds changes the configuration or pauses.
\<close>

fun rounds :: "nat \<Rightarrow> data_plane_snapshot \<Rightarrow> nat \<Rightarrow> 'c app_config \<Rightarrow> 'c app_config \<times> bool" where
  "rounds 0 s c st = (st, False)"
| "rounds (Suc n) s c st =
     (let (c', st', paused) = poll_round (Some s) CursorGone (Some s) c st;
          (st'', p) = rounds n s c' st' in (st'', paused \<or> p))"

lemma older_snapshot_ignored_without_pause:
  assumes "\<not> snapshot_newer s st" "ac_snapshot_cursor st \<noteq> 0" "c \<noteq> 0"
  shows "view (fst (rounds n s c st)) = view st \<and> \<not> snd (rounds n s c st)"
  using assms
proof (induction n arbitrary: c st)
  case (Suc n)
  let ?st = "st\<lparr>ac_cursor_gone_total := ac_cursor_gone_total st + 1\<rparr>"
  have "\<not> snapshot_newer s ?st" using Suc.prems by (simp add: snapshot_newer_def)
  then have "poll_round (Some s) CursorGone (Some s) c st = (ac_snapshot_cursor st, ?st, False)"
    using Suc.prems by (simp add: poll_round_def fetch_full_snapshot_def Let_def apply_snapshot_stale)
  moreover have "view (fst (rounds n s (ac_snapshot_cursor st) ?st)) = view ?st \<and>
      \<not> snd (rounds n s (ac_snapshot_cursor st) ?st)"
    using \<open>\<not> snapshot_newer s ?st\<close> Suc.prems by (intro Suc.IH) simp_all
  ultimately show ?case by (simp add: split_beta)
qed simp

end
