(* ===== verification/Json.thy ===== *)
theory Json
  imports Http
begin

text \<open>
  What the sources use of \<^verbatim>\<open>serde_json::Value\<close> and of text decoding. The JSON parser and printer
  are third-party code and stay parameters of the definitions that call them; a value is the tree
  that \<^verbatim>\<open>Value\<close> documents. Integers are exact, other numbers keep the bits of their
  \<^verbatim>\<open>f64\<close>; an object lists its members with distinct keys.
\<close>

datatype json =
    JNull
  | JBool bool
  | JInt int
  | JFloat "64 word"
  | JString string
  | JArray "json list"
  | JObject "(string \<times> json) list"

fun json_get :: "json \<Rightarrow> string \<Rightarrow> json option" where
  "json_get (JObject members) key = map_of members key"
| "json_get _ _ = None"

fun as_str :: "json \<Rightarrow> string option" where
  "as_str (JString s) = Some s"
| "as_str _ = None"

fun as_bool :: "json \<Rightarrow> bool option" where
  "as_bool (JBool b) = Some b"
| "as_bool _ = None"

definition json_path :: "json \<Rightarrow> string list \<Rightarrow> json option" where
  "json_path value keys = fold (\<lambda>key v. Option.bind v (\<lambda>j. json_get j key)) keys (Some value)"

definition str_at :: "json \<Rightarrow> string list \<Rightarrow> string option" where
  "str_at value keys = Option.bind (json_path value keys) as_str"

text \<open>The first of several alternatives that is present: a chain of \<^verbatim>\<open>or_else\<close>.\<close>

fun first_some :: "'a option list \<Rightarrow> 'a option" where
  "first_some [] = None"
| "first_some (x # xs) = (case x of None \<Rightarrow> first_some xs | Some y \<Rightarrow> Some y)"

section \<open>Decoding UTF-8\<close>

text \<open>
  \<^verbatim>\<open>String::from_utf8_lossy\<close>: every maximal prefix of an ill-formed sequence becomes one
  U+FFFD. \<open>continuation_ranges\<close> lists the bytes allowed after a lead byte.
\<close>

definition byte :: "char \<Rightarrow> nat" where
  "byte c = of_char c"

definition in_range :: "nat \<times> nat \<Rightarrow> char \<Rightarrow> bool" where
  "in_range r c \<longleftrightarrow> fst r \<le> byte c \<and> byte c \<le> snd r"

definition continuation_ranges :: "char \<Rightarrow> (nat \<times> nat) list option" where
  "continuation_ranges c =
     (let b = byte c; cont = (0x80, 0xBF) in
      if b < 0x80 then Some []
      else if 0xC2 \<le> b \<and> b \<le> 0xDF then Some [cont]
      else if b = 0xE0 then Some [(0xA0, 0xBF), cont]
      else if b = 0xED then Some [(0x80, 0x9F), cont]
      else if 0xE1 \<le> b \<and> b \<le> 0xEF then Some [cont, cont]
      else if b = 0xF0 then Some [(0x90, 0xBF), cont, cont]
      else if 0xF1 \<le> b \<and> b \<le> 0xF3 then Some [cont, cont, cont]
      else if b = 0xF4 then Some [(0x80, 0x8F), cont, cont]
      else None)"

fun matching_prefix :: "(nat \<times> nat) list \<Rightarrow> string \<Rightarrow> nat" where
  "matching_prefix (r # rs) (c # cs) = (if in_range r c then Suc (matching_prefix rs cs) else 0)"
| "matching_prefix _ _ = 0"

definition replacement_char :: string where
  "replacement_char = [CHR 0xEF, CHR 0xBF, CHR 0xBD]"

function from_utf8_lossy :: "string \<Rightarrow> string" where
  "from_utf8_lossy [] = []"
| "from_utf8_lossy (c # cs) =
     (case continuation_ranges c of
        None \<Rightarrow> replacement_char @ from_utf8_lossy cs
      | Some ranges \<Rightarrow>
          let n = matching_prefix ranges cs
          in (if n = length ranges then c # take n cs else replacement_char) @ from_utf8_lossy (drop n cs))"
  by pat_completeness auto
termination
  by (relation "measure length") auto

lemma from_utf8_lossy_ascii: "list_all (\<lambda>c. byte c < 0x80) s \<Longrightarrow> from_utf8_lossy s = s"
  by (induction s) (auto simp: continuation_ranges_def)

text \<open>The slice pattern \<^verbatim>\<open>trim_ascii\<close> of the request code: ASCII white space at both ends.\<close>

definition ascii_whitespace :: "char \<Rightarrow> bool" where
  "ascii_whitespace c \<longleftrightarrow> byte c \<in> {0x20, 0x09, 0x0A, 0x0C, 0x0D}"

text \<open>\<^verbatim>\<open>chars().take(n)\<close>: the first characters with their continuation bytes.\<close>

fun take_chars :: "nat \<Rightarrow> string \<Rightarrow> string" where
  "take_chars n [] = []"
| "take_chars n (c # cs) =
     (if in_range (0x80, 0xBF) c then c # take_chars n cs
      else case n of 0 \<Rightarrow> [] | Suc m \<Rightarrow> c # take_chars m cs)"

text \<open>\<^verbatim>\<open>u64::from_str\<close>.\<close>

definition is_digit :: "char \<Rightarrow> bool" where
  "is_digit c \<longleftrightarrow> in_range (48, 57) c"

definition digits_value :: "string \<Rightarrow> nat" where
  "digits_value s = foldl (\<lambda>n c. 10 * n + (byte c - 48)) 0 s"

definition parse_u64 :: "string \<Rightarrow> nat option" where
  "parse_u64 s =
     (let digits = (case s of [] \<Rightarrow> [] | c # cs \<Rightarrow> if c = CHR ''+'' then cs else s)
      in if digits \<noteq> [] \<and> list_all is_digit digits \<and> digits_value digits \<le> u64_max
         then Some (digits_value digits) else None)"

lemma digits_value_append: "digits_value (s @ [c]) = 10 * digits_value s + (byte c - 48)"
  by (simp add: digits_value_def)

lemma decimal_digit: "d < 10 \<Longrightarrow> is_digit (char_of (48 + d)) \<and> byte (char_of (48 + d)) = 48 + d"
  by (simp add: is_digit_def in_range_def byte_def)

lemma to_decimal_digits: "to_decimal n \<noteq> [] \<and> list_all is_digit (to_decimal n) \<and> digits_value (to_decimal n) = n"
proof (induction n rule: to_decimal.induct)
  case (1 n)
  show ?case
  proof (cases "n < 10")
    case True
    then show ?thesis using decimal_digit [of n]
      by (simp add: to_decimal.simps [of n] digits_value_def)
  next
    case False
    with 1 have "to_decimal (n div 10) \<noteq> []" "list_all is_digit (to_decimal (n div 10))"
      "digits_value (to_decimal (n div 10)) = n div 10" by auto
    with False show ?thesis using decimal_digit [of "n mod 10"]
      by (simp add: to_decimal.simps [of n] digits_value_append)
  qed
qed

text \<open>Parsing undoes printing, in the range of the type.\<close>

lemma parse_u64_to_decimal: "n \<le> u64_max \<Longrightarrow> parse_u64 (to_decimal n) = Some n"
proof -
  assume n: "n \<le> u64_max"
  obtain c cs where s: "to_decimal n = c # cs" using to_decimal_digits [of n] by (cases "to_decimal n") auto
  have "c \<noteq> CHR ''+''" using to_decimal_digits [of n] by (auto simp: s is_digit_def in_range_def byte_def)
  with n to_decimal_digits [of n] show ?thesis by (simp add: parse_u64_def s)
qed

end
