(* ===== verification/Upstream_Errors.thy ===== *)
theory Upstream_Errors
  imports Core_Model Json
begin

text \<open>
  How the proxy reads an upstream failure, from \<^verbatim>\<open>proxy/request_utils.rs\<close>: the error context built
  from status, headers and body, its class, the decision whether the request may be retried on the same or
  on another account, how long the failing account is set aside, and which recovery is asked for. The JSON
  parser and the parser of RFC 2822 dates are parameters.
\<close>

section \<open>Data\<close>

datatype upstream_error_class =
    TokenInvalidated | AuthExpired | AccountDeactivated | QuotaExhausted | RateLimited | Overloaded
  | UpstreamUnavailable | TransientServer | NonRetryableClient | UnknownClass

record learned_template_resolution =
  lt_semantic_error_code :: string
  lt_localized_message :: string
  lt_action :: upstream_error_action
  lt_retry_scope :: upstream_error_retry_scope
  lt_fingerprint :: string

record upstream_error_context =
  uec_upstream_status :: status_code
  uec_status :: status_code
  uec_error_code :: "string option"
  uec_error_message :: "string option"
  uec_raw_error :: "string option"
  uec_retry_after :: "duration option"
  uec_upstream_request_id :: "string option"
  uec_class :: upstream_error_class
  uec_learned_resolution :: "learned_template_resolution option"

datatype upstream_error_source = HttpSource | WsHandshake | WsPrelude | SsePrelude

datatype retry_scope = RetryNone | SameAccount | CrossAccount

datatype proxy_recovery_action = RotateRefreshToken | DisableAccount

datatype proxy_recovery_outcome = NotApplied | RotateSucceeded | RotateFailed | DisableAttempted

record upstream_error_decision =
  ued_retry_scope :: retry_scope
  ued_allow_cross_account_failover :: bool
  ued_track_invalid_request :: bool
  ued_outward_code :: string
  ued_outward_message :: string
  ued_recovery_action :: "proxy_recovery_action option"
  ued_decision_rule :: string

section \<open>Decisions\<close>

definition upstream_error_source_supports_server_retries :: "upstream_error_source \<Rightarrow> bool" where
  "upstream_error_source_supports_server_retries source \<longleftrightarrow> source \<in> {HttpSource, WsHandshake, SsePrelude}"

definition recovery_action_for_upstream_error_class :: "upstream_error_class \<Rightarrow> proxy_recovery_action option" where
  "recovery_action_for_upstream_error_class c =
     (if c = TokenInvalidated \<or> c = AuthExpired then Some RotateRefreshToken
      else if c = AccountDeactivated then Some DisableAccount
      else None)"

definition recovery_action_for_upstream_error_code :: "string option \<Rightarrow> proxy_recovery_action option" where
  "recovery_action_for_upstream_error_code code =
     (if code = Some ''token_invalidated'' then Some RotateRefreshToken
      else if code = Some ''account_deactivated'' then Some DisableAccount
      else if code = Some ''refresh_token_reused'' \<or> code = Some ''refresh_token_revoked'' then Some DisableAccount
      else None)"

definition build_upstream_error_decision ::
  "retry_scope \<Rightarrow> bool \<Rightarrow> bool \<Rightarrow> string \<Rightarrow> string \<Rightarrow> proxy_recovery_action option \<Rightarrow> string
     \<Rightarrow> upstream_error_decision" where
  "build_upstream_error_decision scope failover invalid code message recovery rule =
     \<lparr>ued_retry_scope = scope, ued_allow_cross_account_failover = failover, ued_track_invalid_request = invalid,
      ued_outward_code = code, ued_outward_message = message, ued_recovery_action = recovery,
      ued_decision_rule = rule\<rparr>"

definition decide_upstream_status :: "upstream_error_source \<Rightarrow> status_code \<Rightarrow> upstream_error_decision" where
  "decide_upstream_status source status =
     (if status = 401 then
        build_upstream_error_decision CrossAccount True False ''auth_expired''
          ''upstream account authentication expired; retry later with another account'' None
          ''status_401_cross_account''
      else if status = 402 then
        build_upstream_error_decision CrossAccount True False ''quota_exhausted''
          ''upstream account quota is exhausted; retry later'' None ''status_402_cross_account''
      else if status = 429 then
        build_upstream_error_decision CrossAccount True False ''rate_limited''
          ''upstream account is rate limited; retry later'' None ''status_429_cross_account''
      else if status = 503 \<and> upstream_error_source_supports_server_retries source then
        build_upstream_error_decision SameAccount True False ''upstream_unavailable''
          ''upstream service is unavailable'' None ''status_503_same_then_cross''
      else if is_server_error status \<and> upstream_error_source_supports_server_retries source then
        build_upstream_error_decision SameAccount True False ''upstream_request_failed''
          ''upstream request failed'' None ''status_5xx_same_then_cross''
      else if is_client_error status then
        build_upstream_error_decision RetryNone False True ''upstream_request_failed''
          ''upstream request failed'' None ''status_4xx_no_failover''
      else
        build_upstream_error_decision RetryNone False False ''upstream_request_failed''
          ''upstream request failed'' None ''status_default_no_failover'')"

definition learned_retry_scope :: "learned_template_resolution \<Rightarrow> retry_scope" where
  "learned_retry_scope learned =
     (case lt_action learned of
        RetrySameAccount \<Rightarrow> SameAccount
      | RetryCrossAccount \<Rightarrow> CrossAccount
      | ReturnFailure \<Rightarrow>
          (case lt_retry_scope learned of
             ScopeSameAccount \<Rightarrow> SameAccount
           | ScopeCrossAccount \<Rightarrow> CrossAccount
           | ScopeNone \<Rightarrow> RetryNone))"

text \<open>The two match arms of a server-side class: with and without retries for the source.\<close>

definition decide_server_class ::
  "upstream_error_source \<Rightarrow> string \<Rightarrow> string \<Rightarrow> proxy_recovery_action option \<Rightarrow> string \<Rightarrow> string
     \<Rightarrow> upstream_error_decision" where
  "decide_server_class source code message recovery retry_rule stop_rule =
     (if upstream_error_source_supports_server_retries source
      then build_upstream_error_decision SameAccount True False code message recovery retry_rule
      else build_upstream_error_decision RetryNone False False code message recovery stop_rule)"

definition decide_upstream_error ::
  "upstream_error_source \<Rightarrow> upstream_error_context option \<Rightarrow> upstream_error_decision" where
  "decide_upstream_error source error_context =
     (case error_context of
        None \<Rightarrow> decide_upstream_status source 502
      | Some context \<Rightarrow>
          let recovery = first_some [recovery_action_for_upstream_error_code (uec_error_code context),
                                     recovery_action_for_upstream_error_class (uec_class context)]
          in if source = WsPrelude \<and> uec_error_code context = Some ''websocket_connection_limit_reached'' then
               build_upstream_error_decision SameAccount False False ''websocket_connection_limit_reached''
                 ''upstream websocket connection hit its lifetime limit'' recovery
                 ''ws_connection_limit_same_account_reconnect''
             else if source \<in> {HttpSource, SsePrelude, WsPrelude} \<and>
                     uec_error_code context = Some ''previous_response_not_found'' then
               build_upstream_error_decision SameAccount False False ''previous_response_not_found''
                 ''upstream continuation anchor expired'' recovery
                 ''previous_response_reset_same_account_retry''
             else case uec_learned_resolution context of
               Some learned \<Rightarrow>
                 let scope = learned_retry_scope learned
                 in build_upstream_error_decision scope (scope \<noteq> RetryNone)
                      (is_client_error (uec_status context) \<and> scope = RetryNone)
                      (lt_semantic_error_code learned) (lt_localized_message learned) recovery
                      ''learned_template''
             | None \<Rightarrow>
                 (case uec_class context of
                    TokenInvalidated \<Rightarrow>
                      build_upstream_error_decision CrossAccount True False ''token_invalidated''
                        ''upstream account token has been invalidated'' recovery
                        ''token_invalidated_cross_account''
                  | AuthExpired \<Rightarrow>
                      build_upstream_error_decision CrossAccount True False ''auth_expired''
                        ''upstream account authentication expired; retry later with another account''
                        recovery ''auth_expired_cross_account''
                  | AccountDeactivated \<Rightarrow>
                      build_upstream_error_decision CrossAccount True False ''account_deactivated''
                        ''upstream account is deactivated'' recovery ''account_deactivated_cross_account''
                  | QuotaExhausted \<Rightarrow>
                      build_upstream_error_decision CrossAccount True False ''quota_exhausted''
                        ''upstream account quota is exhausted; retry later'' recovery
                        ''quota_exhausted_cross_account''
                  | RateLimited \<Rightarrow>
                      build_upstream_error_decision CrossAccount True False ''rate_limited''
                        ''upstream account is rate limited; retry later'' recovery
                        ''rate_limited_cross_account''
                  | Overloaded \<Rightarrow>
                      decide_server_class source ''server_overloaded'' ''upstream service is overloaded''
                        recovery ''overloaded_same_then_cross'' ''overloaded_no_ws_session_rotation''
                  | UpstreamUnavailable \<Rightarrow>
                      decide_server_class source ''upstream_unavailable'' ''upstream service is unavailable''
                        recovery ''unavailable_same_then_cross'' ''unavailable_no_ws_session_rotation''
                  | TransientServer \<Rightarrow>
                      decide_server_class source ''upstream_request_failed'' ''upstream request failed''
                        recovery ''transient_same_then_cross'' ''transient_no_ws_session_rotation''
                  | NonRetryableClient \<Rightarrow>
                      build_upstream_error_decision RetryNone False True ''upstream_request_failed''
                        ''upstream request failed'' recovery ''non_retryable_client''
                  | UnknownClass \<Rightarrow>
                      (decide_upstream_status source (uec_status context))
                        \<lparr>ued_recovery_action := recovery,
                         ued_decision_rule := ''unknown_class_fallback_to_status''\<rparr>))"

fun retry_scope_label :: "retry_scope \<Rightarrow> string" where
  "retry_scope_label RetryNone = ''none''"
| "retry_scope_label SameAccount = ''same_account''"
| "retry_scope_label CrossAccount = ''cross_account''"

text \<open>The decision for a reply: by its context when there is one, by its status otherwise.\<close>

definition reply_decision ::
  "upstream_error_source \<Rightarrow> status_code \<Rightarrow> upstream_error_context option \<Rightarrow> upstream_error_decision" where
  "reply_decision source status error_context =
     (case error_context of
        Some context \<Rightarrow> decide_upstream_error source (Some context)
      | None \<Rightarrow> decide_upstream_status source status)"

definition is_failover_retryable_error ::
  "upstream_error_source \<Rightarrow> status_code \<Rightarrow> upstream_error_context option \<Rightarrow> bool" where
  "is_failover_retryable_error source status error_context =
     (let decision = reply_decision source status error_context
      in ued_allow_cross_account_failover decision \<or> ued_retry_scope decision = SameAccount)"

definition should_retry_same_account_on_transport :: "nat \<Rightarrow> nat \<Rightarrow> bool" where
  "should_retry_same_account_on_transport attempt quick_retry_max \<longleftrightarrow> attempt < quick_retry_max"

definition should_retry_same_account_on_status ::
  "upstream_error_source \<Rightarrow> status_code \<Rightarrow> nat \<Rightarrow> nat \<Rightarrow> upstream_error_context option \<Rightarrow> bool" where
  "should_retry_same_account_on_status source status attempt quick_retry_max error_context =
     (if quick_retry_max \<le> attempt then False
      else if ued_retry_scope (reply_decision source status error_context) \<noteq> SameAccount then False
      else if Option.bind error_context uec_error_code = Some ''previous_response_not_found'' then True
      else is_server_error status \<and> status \<noteq> 401 \<and> status \<noteq> 403)"

section \<open>Ejection times\<close>

definition auth_error_ejection_ttl :: "duration \<Rightarrow> duration" where
  "auth_error_ejection_ttl base = from_secs (clamp (min u64_max (as_secs base * 10)) 120 1800)"

definition server_error_ejection_ttl :: "duration \<Rightarrow> duration" where
  "server_error_ejection_ttl base = from_secs (clamp (max (as_secs base div 3) 5) 5 60)"

definition auth_expired_ejection_ttl :: "duration \<Rightarrow> duration" where
  "auth_expired_ejection_ttl base = from_secs (clamp (as_secs (auth_error_ejection_ttl base)) 600 3600)"

definition quota_exhausted_ejection_ttl :: "upstream_error_context \<Rightarrow> duration" where
  "quota_exhausted_ejection_ttl context =
     from_secs (clamp (case uec_retry_after context of None \<Rightarrow> 1800 | Some d \<Rightarrow> as_secs d) 1800 (24 * 60 * 60))"

definition rate_limited_ejection_ttl :: "duration \<Rightarrow> upstream_error_context \<Rightarrow> duration" where
  "rate_limited_ejection_ttl base context =
     from_secs (max (case uec_retry_after context of None \<Rightarrow> max (as_secs base) 30 | Some d \<Rightarrow> as_secs d) 30)"

definition ejection_ttl_for_status :: "status_code \<Rightarrow> duration \<Rightarrow> bool \<Rightarrow> duration option" where
  "ejection_ttl_for_status status base is_503_overloaded =
     (if status = 429 \<or> is_503_overloaded then Some base
      else if status = 401 \<or> status = 403 then Some (auth_error_ejection_ttl base)
      else if is_server_error status then Some (server_error_ejection_ttl base)
      else None)"

definition ejection_ttl_for_response ::
  "status_code \<Rightarrow> duration \<Rightarrow> bool \<Rightarrow> upstream_error_context option \<Rightarrow> proxy_recovery_outcome \<Rightarrow> duration option" where
  "ejection_ttl_for_response status base is_503_overloaded error_context outcome =
     (case error_context of
        None \<Rightarrow> ejection_ttl_for_status status base is_503_overloaded
      | Some context \<Rightarrow>
          (case uec_class context of
             TokenInvalidated \<Rightarrow>
               if outcome = RotateSucceeded then Some (from_secs (min 5 (max (as_secs base) 1)))
               else Some (auth_expired_ejection_ttl base)
           | AuthExpired \<Rightarrow>
               if outcome = RotateSucceeded then None else Some (auth_expired_ejection_ttl base)
           | AccountDeactivated \<Rightarrow> Some base
           | QuotaExhausted \<Rightarrow> Some (quota_exhausted_ejection_ttl context)
           | RateLimited \<Rightarrow> Some (rate_limited_ejection_ttl base context)
           | Overloaded \<Rightarrow> Some base
           | UpstreamUnavailable \<Rightarrow> Some base
           | TransientServer \<Rightarrow> Some (server_error_ejection_ttl base)
           | NonRetryableClient \<Rightarrow> None
           | UnknownClass \<Rightarrow> ejection_ttl_for_status (uec_status context) base is_503_overloaded))"

definition recovery_action_for_error_context :: "upstream_error_context option \<Rightarrow> proxy_recovery_action option" where
  "recovery_action_for_error_context error_context =
     ued_recovery_action (decide_upstream_error HttpSource error_context)"

section \<open>Reading a reply\<close>

definition extract_upstream_raw_error :: "string \<Rightarrow> string option" where
  "extract_upstream_raw_error body = trim_nonempty (from_utf8_lossy body)"

definition extract_upstream_error_details ::
  "(string \<Rightarrow> json option) \<Rightarrow> string \<Rightarrow> string option \<times> string option" where
  "extract_upstream_error_details parse body =
     (case parse body of
        Some value \<Rightarrow>
          (first_some [str_at value [''error'', ''code''], str_at value [''detail'', ''code''], str_at value [''code'']],
           first_some [str_at value [''error'', ''message''], str_at value [''detail'', ''message''],
             str_at value [''error'', ''detail''], str_at value [''message''], str_at value [''detail'']])
      | None \<Rightarrow> (None, extract_upstream_raw_error body))"

definition classify_upstream_error ::
  "status_code \<Rightarrow> string option \<Rightarrow> string option \<Rightarrow> upstream_error_class" where
  "classify_upstream_error status error_code error_message =
     (let code = to_ascii_lowercase (case error_code of None \<Rightarrow> [] | Some c \<Rightarrow> c);
          message = to_ascii_lowercase (case error_message of None \<Rightarrow> [] | Some m \<Rightarrow> m)
      in if code = ''token_invalidated'' then TokenInvalidated
         else if code \<in> {''account_deactivated'', ''deactivated_workspace''} then AccountDeactivated
         else if code \<in> {''refresh_token_reused'', ''refresh_token_revoked'', ''auth_expired'', ''token_expired'',
                         ''expired_token'', ''invalid_token''} then AuthExpired
         else if code \<in> {''usage_limit'', ''insufficient_quota'', ''quota_exceeded'', ''billing_hard_limit_reached''}
           then QuotaExhausted
         else if code \<in> {''rate_limited'', ''rate_limit_exceeded''} then RateLimited
         else if code \<in> {''server_is_overloaded'', ''server_overloaded'', ''engine_overloaded'', ''slow_down''}
           then Overloaded
         else if code \<in> {''previous_response_not_found'', ''websocket_connection_limit_reached''}
           then NonRetryableClient
         else if str_contains message ''usage limit'' \<or> str_contains message ''insufficient quota'' \<or>
                 str_contains message ''quota'' \<or> str_contains message ''billing details'' \<or>
                 str_contains message ''start a free trial of plus'' then QuotaExhausted
         else if str_contains message ''rate limit'' then RateLimited
         else if str_contains message ''access token could not be refreshed'' \<or>
                 str_contains message ''logged out'' \<or> str_contains message ''signed in to another account'' \<or>
                 str_contains message ''failed to extract accountid from token'' then AuthExpired
         else if str_contains message ''server is overloaded'' \<or>
                 str_contains message ''engine is currently overloaded'' \<or>
                 str_contains message ''slow_down'' then Overloaded
         else if status = 401 then AuthExpired
         else if status = 402 then QuotaExhausted
         else if status = 403 then NonRetryableClient
         else if status = 429 then RateLimited
         else if status = 503 then
           (if code \<in> {''server_is_overloaded'', ''slow_down''} then Overloaded else UpstreamUnavailable)
         else if is_server_error status then TransientServer
         else if is_client_error status then NonRetryableClient
         else UnknownClass)"

definition status_for_error_class :: "upstream_error_class \<Rightarrow> status_code \<Rightarrow> status_code" where
  "status_for_error_class c fallback =
     (if c = TokenInvalidated \<or> c = AuthExpired then 401
      else if c = AccountDeactivated then 403
      else if c = QuotaExhausted \<or> c = RateLimited then 429
      else if c = Overloaded \<or> c = UpstreamUnavailable then 503
      else if c = TransientServer then 502
      else fallback)"

text \<open>\<open>rfc2822\<close> is the parser of \<^verbatim>\<open>chrono\<close>; \<open>now\<close> the wall clock.\<close>

definition extract_retry_after ::
  "(string \<Rightarrow> timestamp option) \<Rightarrow> timestamp \<Rightarrow> header_map \<Rightarrow> duration option" where
  "extract_retry_after rfc2822 now headers =
     (case Option.bind (header_str headers ''retry-after'') trim_nonempty of
        None \<Rightarrow> None
      | Some raw \<Rightarrow>
          (case parse_u64 raw of
             Some seconds \<Rightarrow> Some (from_secs seconds)
           | None \<Rightarrow>
               (case rfc2822 raw of
                  None \<Rightarrow> None
                | Some target \<Rightarrow>
                    if target \<le> now then None
                    else Some (from_secs (nat (max ((target - now) div 1000000000) 0))))))"

definition extract_upstream_request_id :: "header_map \<Rightarrow> string option" where
  "extract_upstream_request_id headers = Option.bind (header_str headers ''x-request-id'') trim_nonempty"

definition build_upstream_error_context ::
  "(string \<Rightarrow> json option) \<Rightarrow> (string \<Rightarrow> timestamp option) \<Rightarrow> timestamp \<Rightarrow> status_code \<Rightarrow> header_map \<Rightarrow> string
     \<Rightarrow> upstream_error_context option" where
  "build_upstream_error_context parse rfc2822 now status headers body =
     (case extract_upstream_error_details parse body of
        (error_code, error_message) \<Rightarrow>
          let cls = classify_upstream_error status error_code error_message
          in if is_success status \<and> error_code = None \<and> error_message = None then None
             else if is_success status \<and> cls = UnknownClass then None
             else Some
               \<lparr>uec_upstream_status = status,
                uec_status = (if is_success status then status_for_error_class cls 502 else status),
                uec_error_code = error_code, uec_error_message = error_message,
                uec_raw_error = extract_upstream_raw_error body,
                uec_retry_after = extract_retry_after rfc2822 now headers,
                uec_upstream_request_id = extract_upstream_request_id headers,
                uec_class = cls, uec_learned_resolution = None\<rparr>)"

text \<open>The code and message of \<^verbatim>\<open>normalize_upstream_error_response\<close>, with the status it answers.\<close>

definition normalize_upstream_error_response ::
  "upstream_error_source \<Rightarrow> upstream_error_context \<Rightarrow> status_code \<times> string \<times> string" where
  "normalize_upstream_error_response source context =
     (let decision = decide_upstream_error source (Some context)
      in (uec_status context, ued_outward_code decision, ued_outward_message decision))"

section \<open>Recovery\<close>

record internal_oauth_refresh_payload =
  iop_last_refresh_status :: string
  iop_effective_enabled :: bool
  iop_has_access_token_fallback :: bool
  iop_refresh_credential_state :: "string option"

definition oauth_refresh_recovery_succeeded :: "internal_oauth_refresh_payload \<Rightarrow> bool" where
  "oauth_refresh_recovery_succeeded payload \<longleftrightarrow>
     iop_last_refresh_status payload = ''ok'' \<or>
     (iop_effective_enabled payload \<and> iop_has_access_token_fallback payload \<and>
      iop_refresh_credential_state payload = Some ''terminal_invalid'')"

text \<open>
  The control plane answers a refresh with a status and, for a decodable body, a payload;
  \<^verbatim>\<open>None\<close> is a failed request.
\<close>

definition trigger_internal_oauth_refresh ::
  "string option \<Rightarrow> (uuid \<Rightarrow> (status_code \<times> internal_oauth_refresh_payload option) option) \<Rightarrow> uuid \<Rightarrow> bool" where
  "trigger_internal_oauth_refresh control_plane_base_url refresh account_id =
     (case control_plane_base_url of
        None \<Rightarrow> False
      | Some _ \<Rightarrow>
          (case refresh account_id of
             None \<Rightarrow> False
           | Some (status, payload) \<Rightarrow>
               if \<not> is_success status then False
               else (case payload of None \<Rightarrow> False | Some p \<Rightarrow> oauth_refresh_recovery_succeeded p)))"

definition apply_recovery_action ::
  "string option \<Rightarrow> (uuid \<Rightarrow> (status_code \<times> internal_oauth_refresh_payload option) option) \<Rightarrow> uuid
     \<Rightarrow> upstream_error_context option \<Rightarrow> proxy_recovery_outcome" where
  "apply_recovery_action control_plane_base_url refresh account_id error_context =
     (case recovery_action_for_error_context error_context of
        Some RotateRefreshToken \<Rightarrow>
          if trigger_internal_oauth_refresh control_plane_base_url refresh account_id
          then RotateSucceeded else RotateFailed
      | Some DisableAccount \<Rightarrow> DisableAttempted
      | None \<Rightarrow> NotApplied)"

end
