(* ===== verification/Request_Guard_Props.thy ===== *)
theory Request_Guard_Props
  imports Request_Guard
begin

text \<open>
  The sliding window against its history: a block rests on enough failures of that client within one
  window, and enough failures within one window block the client.
\<close>

section \<open>The entry follows the history\<close>

lemma entry_of_run: "entry_of key (guard_run cfg ops g) = fold (entry_step cfg key) ops (entry_of key g)"
  unfolding guard_run_def by (induction ops arbitrary: g) (simp_all add: entry_of_exec)

lemma entry_of_new [simp]: "entry_of key guard_new = ([], None)"
  by (simp add: entry_of_def guard_new_def)

text \<open>Enough failures of a client fall in the window that ends at \<open>a\<close>.\<close>

definition enough_failures :: "guard_config \<Rightarrow> instant list \<Rightarrow> instant \<Rightarrow> bool" where
  "enough_failures cfg fails a \<longleftrightarrow>
     gc_threshold cfg \<le> length (filter (\<lambda>t. a \<le> t + gc_window cfg \<and> t \<le> a) fails)"

definition entry_justified ::
  "guard_config \<Rightarrow> instant \<Rightarrow> instant list \<Rightarrow> instant list \<times> instant option \<Rightarrow> bool" where
  "entry_justified cfg now fails e \<longleftrightarrow>
     subseq (fst e) fails \<and> sorted (fst e) \<and> (\<forall>t \<in> set fails. t \<le> now) \<and>
     (\<forall>until. snd e = Some until \<longrightarrow>
        (\<exists>a. until = a + gc_block_ttl cfg \<and> a \<le> now \<and> enough_failures cfg fails a))"

lemma subseq_set: "subseq xs ys \<Longrightarrow> set xs \<subseteq> set ys"
  by (auto dest: list_emb_set)

lemma prune_subseq: "subseq (prune_invalid_request_window hits now w) hits"
  unfolding prune_invalid_request_window_def by (intro suffix_imp_subseq suffix_dropWhile)

lemma prune_sorted: "sorted hits \<Longrightarrow> sorted (prune_invalid_request_window hits now w)"
  by (simp add: prune_invalid_request_window_def sorted_dropWhile)

lemma prune_recent:
  assumes "sorted hits" "t \<in> set (prune_invalid_request_window hits now w)"
  shows "now \<le> t + w"
proof -
  let ?kept = "prune_invalid_request_window hits now w"
  from assms(2) obtain h hs where kept: "?kept = h # hs" by (cases ?kept) auto
  then have "\<not> w < now - h"
    using hd_dropWhile [of "\<lambda>item. w < now - item" hits] by (auto simp: prune_invalid_request_window_def)
  moreover have "h \<le> t" using prune_sorted [OF assms(1), of now w] assms(2) kept by auto
  ultimately show ?thesis by linarith
qed

lemma enough_failures_append: "enough_failures cfg fails a \<Longrightarrow> enough_failures cfg (fails @ later) a"
  by (simp add: enough_failures_def)

text \<open>Kept hits that reach the threshold are enough failures.\<close>

lemma kept_enough:
  assumes "subseq hits fails" "sorted hits" "\<forall>t \<in> set fails. t \<le> now"
    and "gc_threshold cfg \<le> length (prune_invalid_request_window hits now (gc_window cfg) @ [now])"
  shows "enough_failures cfg (fails @ [now]) now"
proof -
  let ?kept = "prune_invalid_request_window hits now (gc_window cfg)"
  let ?recent = "\<lambda>t. now \<le> t + gc_window cfg \<and> t \<le> now"
  have sub: "subseq ?kept fails" using prune_subseq assms(1) by (rule subseq_order.trans)
  then have "set ?kept \<subseteq> set fails" by (rule subseq_set)
  then have "filter ?recent ?kept = ?kept"
    using assms(3) prune_recent [OF assms(2)] by (auto simp: filter_id_conv)
  moreover have "subseq (filter ?recent ?kept) (filter ?recent fails)" using sub by (rule subseq_filter)
  ultimately have "length ?kept \<le> length (filter ?recent fails)" by (metis list_emb_length)
  with assms(4) show ?thesis unfolding enough_failures_def by simp
qed

lemma lift_block_Some: "lift_block now b = Some u \<longleftrightarrow> b = Some u \<and> now < u"
  by (auto simp: lift_block_def split: option.splits)

lemma entry_step_justified:
  assumes j: "entry_justified cfg t0 fails e" and "t0 \<le> now"
  shows "entry_justified cfg now (fails @ failure_times key [(now, op)]) (entry_step cfg key (now, op) e)"
proof -
  let ?fails = "fails @ failure_times key [(now, op)]"
  let ?kept = "prune_invalid_request_window (fst e) now (gc_window cfg)"
  have old: "subseq (fst e) fails" "sorted (fst e)" "\<forall>t \<in> set fails. t \<le> now"
    using assms by (auto simp: entry_justified_def)
  have blk: "\<exists>a. until = a + gc_block_ttl cfg \<and> a \<le> now \<and> enough_failures cfg ?fails a"
    if "snd e = Some until" for until
    using assms that enough_failures_append by (fastforce simp: entry_justified_def)
  have fresh: "\<forall>t \<in> set ?fails. t \<le> now" using old by (auto simp: failure_times_def)
  have kept: "subseq ?kept ?fails" "sorted ?kept"
    using subseq_order.trans [OF prune_subseq old(1)] prune_sorted [OF old(2)]
    by (auto intro: list_emb_prefix)
  have unchanged: "subseq (fst e) ?fails" using old(1) by (rule list_emb_prefix)
  show ?thesis
  proof (cases "op = GuardFailure key \<and> lift_block now (snd e) = None")
    case True
    then have f: "?fails = fails @ [now]" by (simp add: failure_times_def)
    have "subseq (?kept @ [now]) ?fails"
      unfolding f using subseq_order.trans [OF prune_subseq old(1)] by simp
    moreover have "sorted (?kept @ [now])"
      using kept old(3) subseq_set [OF subseq_order.trans [OF prune_subseq old(1)]] by (auto simp: sorted_append)
    ultimately show ?thesis
      using True fresh kept_enough [OF old] f
      by (auto simp: entry_step_def Let_def entry_justified_def)
  next
    case False
    then show ?thesis
      using fresh blk kept old unchanged
      by (auto simp: entry_step_def Let_def entry_justified_def lift_block_Some)
  qed
qed


section \<open>Properties\<close>

definition in_order :: "(instant \<times> guard_op) list \<Rightarrow> bool" where
  "in_order ops \<longleftrightarrow> sorted (map fst ops)"

lemma failure_times_append: "failure_times key (xs @ ys) = failure_times key xs @ failure_times key ys"
  by (simp add: failure_times_def)

lemma run_justified:
  "in_order ops \<Longrightarrow> (\<And>t op. (t, op) \<in> set ops \<Longrightarrow> t \<le> now) \<Longrightarrow>
   entry_justified cfg now (failure_times key ops) (entry_of key (guard_run cfg ops guard_new))"
proof (induction ops arbitrary: now rule: rev_induct)
  case Nil
  show ?case by (simp add: entry_justified_def entry_of_run failure_times_def)
next
  case (snoc ev ops)
  obtain t op where ev: "ev = (t, op)" by (cases ev)
  have prem: "in_order ops" "\<And>u op. (u, op) \<in> set ops \<Longrightarrow> u \<le> t" "t \<le> now"
    using snoc.prems by (force simp: in_order_def ev sorted_append)+
  have "entry_justified cfg t (failure_times key ops) (entry_of key (guard_run cfg ops guard_new))"
    by (rule snoc.IH) (use prem in blast)+
  from entry_step_justified [OF this order_refl]
  have "entry_justified cfg t (failure_times key (ops @ [ev])) (entry_of key (guard_run cfg (ops @ [ev]) guard_new))"
    by (simp add: entry_of_run failure_times_append ev)
  with prem(3) show ?case by (fastforce simp: entry_justified_def)
qed


definition demo_guard :: guard_config where
  "demo_guard = \<lparr>gc_enabled = True, gc_window = 30, gc_threshold = 2, gc_block_ttl = 120\<rparr>"

definition demo_history :: "(instant \<times> guard_op) list" where
  "demo_history = [(5, GuardFailure ''a''), (6, GuardCheck ''a''), (7, GuardFailure ''b''), (20, GuardFailure ''a'')]"


section \<open>Enough failures block\<close>

text \<open>Either blocked since the stretch began, or all its failures are still counted.\<close>

definition stretch_ok ::
  "guard_config \<Rightarrow> instant \<Rightarrow> nat \<Rightarrow> instant list \<times> instant option \<Rightarrow> bool" where
  "stretch_ok cfg start n e \<longleftrightarrow>
     (\<exists>until. snd e = Some until \<and> start + gc_block_ttl cfg \<le> until) \<or>
     ((\<forall>until. snd e = Some until \<longrightarrow> until \<le> start) \<and>
      n \<le> length (filter (\<lambda>t. start \<le> t) (fst e)) \<and> n < gc_threshold cfg)"

lemma filter_dropWhile: "(\<And>x. P x \<Longrightarrow> \<not> Q x) \<Longrightarrow> filter Q (dropWhile P xs) = filter Q xs"
  by (induction xs) auto

lemma entry_step_stretch:
  assumes ok: "stretch_ok cfg start n e"
    and now: "start \<le> now" "now \<le> start + gc_window cfg" "now < start + gc_block_ttl cfg"
  shows "stretch_ok cfg start (n + length (failure_times key [(now, op)])) (entry_step cfg key (now, op) e)"
proof -
  let ?kept = "prune_invalid_request_window (fst e) now (gc_window cfg)"
  have kept: "filter (\<lambda>t. start \<le> t) ?kept = filter (\<lambda>t. start \<le> t) (fst e)"
    unfolding prune_invalid_request_window_def by (rule filter_dropWhile) (use now in linarith)
  show ?thesis
  proof (cases "\<exists>until. snd e = Some until \<and> start + gc_block_ttl cfg \<le> until")
    case True
    then obtain until where "snd e = Some until" "start + gc_block_ttl cfg \<le> until" by blast
    moreover from this now have "lift_block now (snd e) = Some until" by (simp add: lift_block_Some)
    ultimately show ?thesis by (auto simp: entry_step_def Let_def stretch_ok_def)
  next
    case False
    with ok have n: "\<forall>until. snd e = Some until \<longrightarrow> until \<le> start"
      "n \<le> length (filter (\<lambda>t. start \<le> t) (fst e))" "n < gc_threshold cfg"
      by (auto simp: stretch_ok_def)
    have lifted: "lift_block now (snd e) = None" using n(1) now(1) by (auto simp: lift_block_def split: option.splits)
    have "length (filter (\<lambda>t. start \<le> t) ?kept) \<le> length ?kept" by simp
    with n kept now lifted show ?thesis
      by (auto simp: entry_step_def Let_def stretch_ok_def failure_times_def)
  qed
qed

lemma run_stretch:
  assumes "\<forall>(t, op) \<in> set ops. start \<le> t \<and> t \<le> start + gc_window cfg \<and> t < start + gc_block_ttl cfg"
    and "stretch_ok cfg start n e"
  shows "stretch_ok cfg start (n + length (failure_times key ops)) (fold (entry_step cfg key) ops e)"
  using assms
proof (induction ops arbitrary: n e)
  case (Cons ev ops)
  obtain t op where ev: "ev = (t, op)" by (cases ev)
  from Cons.prems have "stretch_ok cfg start (n + length (failure_times key [ev])) (entry_step cfg key ev e)"
    by (auto simp: ev intro: entry_step_stretch)
  from Cons.IH [OF _ this] Cons.prems show ?case
    using failure_times_append [of key "[ev]" ops] by (simp add: ac_simps)
qed (simp add: failure_times_def)

text \<open>
  C38. Once a client that was not blocked has the threshold of failures within a stretch no longer than the
  window, it is refused until the block time after the start of that stretch, whatever checks and failures of
  other clients are interleaved.
\<close>

theorem guard_blocks_offender:
  assumes "gc_enabled cfg" "0 < gc_threshold cfg"
    and "\<not> fst (enforce_invalid_request_guard cfg start (Some key) (guard_run cfg before guard_new))"
    and "\<forall>(t, op) \<in> set stretch. start \<le> t \<and> t \<le> start + gc_window cfg \<and> t \<le> now"
    and "gc_threshold cfg \<le> length (failure_times key stretch)"
    and "now < start + gc_block_ttl cfg"
  shows "fst (enforce_invalid_request_guard cfg now (Some key) (guard_run cfg (before @ stretch) guard_new))"
proof -
  let ?e = "entry_of key (guard_run cfg before guard_new)"
  have "stretch_ok cfg start 0 ?e"
    using assms(1,2,3) by (auto simp: enforce_blocks stretch_ok_def lift_block_def split: option.splits if_splits)
  then have "stretch_ok cfg start (0 + length (failure_times key stretch)) (fold (entry_step cfg key) stretch ?e)"
    using assms(4,6) by (intro run_stretch) auto
  then obtain until where "snd (entry_of key (guard_run cfg (before @ stretch) guard_new)) = Some until"
    "start + gc_block_ttl cfg \<le> until"
    using assms(5) by (auto simp: stretch_ok_def entry_of_run)
  with assms(1,6) show ?thesis by (auto simp: enforce_blocks lift_block_def)
qed

theorem guard_blocks_offender_witness:
  "fst (enforce_invalid_request_guard demo_guard 100 (Some ''a'') (guard_run demo_guard ([] @ demo_history) guard_new))"
proof (rule guard_blocks_offender)
  show "gc_enabled demo_guard" "0 < gc_threshold demo_guard" "(100 :: nat) < 5 + gc_block_ttl demo_guard"
    by (simp_all add: demo_guard_def)
  show "\<not> fst (enforce_invalid_request_guard demo_guard 5 (Some ''a'') (guard_run demo_guard [] guard_new))"
    by (simp add: enforce_blocks entry_of_run lift_block_def)
  show "\<forall>(t, op) \<in> set demo_history. 5 \<le> t \<and> t \<le> 5 + gc_window demo_guard \<and> t \<le> 100"
    "gc_threshold demo_guard \<le> length (failure_times ''a'' demo_history)"
    by (simp_all add: demo_history_def demo_guard_def failure_times_def)
qed

text \<open>
  Clients without a key id are told apart by the length and the first eight characters of their token only:
  two different tokens can share one entry, and one is then blocked for the failures of the other.
\<close>

lemma guard_key_collision:
  assumes "ap_api_key_id p = None" "ap_api_key_id q = None" "ap_tenant_id p = ap_tenant_id q"
    and "length (ap_token p) = length (ap_token q)" "take_chars 8 (ap_token p) = take_chars 8 (ap_token q)"
  shows "invalid_request_guard_key show_uuid (Some p) = invalid_request_guard_key show_uuid (Some q)"
  using assms by (simp add: invalid_request_guard_key_def)

end
