(* ===== verification/Failover.thy ===== *)
theory Failover
  imports Router_Correct Routing_Cache Outbound_Proxy Request_Guard
begin

text \<open>
  The request loop of the proxy, \<^verbatim>\<open>proxy_handler\<close> of \<^verbatim>\<open>proxy/entry.rs\<close>: choosing an
  upstream account, trying it with bounded retries, setting failing accounts aside, failing over to
  other accounts, and holding and releasing the billing authorization of the request. One step is
  one pass of the outer loop (choosing) or of the inner loop (one attempt); between steps other requests may
  change the shared state. What the outside answers (the alive ring, the billing service, the
  upstream, the OAuth refresh) is the input of a step; all of a step happens at its time \<open>now\<close>.

  The state that the steps change is explicit: the router, the routing cache, the outbound
  proxies, the guard, the counters, and the local variables of the loop. Log records and system
  events are left out. Responses keep their status and error code, not their text.
\<close>

section \<open>State\<close>

record proxy_settings =
  ps_enable_request_failover :: bool
  ps_same_account_quick_retry_max :: nat
  ps_account_ejection_ttl :: duration
  ps_retry_poll_interval :: duration
  ps_sticky_prefer_non_conflicting :: bool
  ps_shared_routing_cache_enabled :: bool
  ps_control_plane_base_url :: "string option"
  ps_guard :: guard_config

record ('w, 'c) proxy_shared =
  sh_router :: router
  sh_cache :: "'w hybrid_routing_cache"
  sh_world :: 'w
  sh_proxies :: "'c outbound_proxy_runtime"
  sh_guard :: invalid_request_guard
  sh_same_account_retry_total :: u64
  sh_failover_attempt_total :: u64
  sh_failover_success_total :: u64
  sh_failover_exhausted_total :: u64

text \<open>The answers to the client: an error of the proxy, or the reply of an account.\<close>

datatype client_response =
    JsonError status_code string
  | Relayed uuid status_code
  | Streaming uuid status_code
  | FromModelsCache uuid

text \<open>Calls to the outside, in order: requests to accounts and billing operations on an authorization.\<close>

datatype proxy_action =
    SentTo uuid
  | Authorize uuid
  | Release uuid
  | Settle uuid
  | StreamSettles uuid

datatype proxy_phase =
    Selecting
  | Attempting upstream_account nat string
  | Finished client_response

record proxy_local =
  pl_tried :: "uuid set"
  pl_last_failure :: "(client_response \<times> status_code \<times> uuid) option"
  pl_did_failover :: bool
  pl_forced_round :: bool
  pl_hold :: "uuid option"
  pl_actions :: "proxy_action list"
  pl_phase :: proxy_phase

text \<open>The request, with what the loop computes of it beforehand.\<close>

record proxy_request =
  rq_model :: "string option"
  rq_sticky_key :: "string option"
  rq_forced_account :: "uuid option"
  rq_guard_key :: "string option"
  rq_stream :: bool
  rq_is_models :: bool
  rq_billable :: bool
  rq_deadline :: instant
  rq_body :: "upstream_account \<Rightarrow> string"
  rq_bridge :: "upstream_account \<Rightarrow> bool"
  rq_url_ok :: "upstream_account \<Rightarrow> bool"

datatype stream_prelude =
    StreamCommitted
  | EndOfStreamBeforeCommit
  | UpstreamReadFailed
  | UpstreamErrorResponse upstream_error_context

datatype upstream_reply =
    TransportError
  | Reply status_code header_map string stream_prelude

text \<open>
  The inputs of a step: the candidates of the alive ring, whether the cache of model lists answers, the
  billing authorization, the upstream reply, the OAuth refresh. The functions of third-party code
  (JSON, dates, HTTP clients) and the learned error templates are inputs as well.
\<close>

record 'c proxy_input =
  in_now :: instant
  in_wall_clock :: timestamp
  in_alive_ring :: "uuid list option"
  in_models_cached :: bool
  in_authorize :: "(status_code \<times> string) + uuid"
  in_build_client :: "bool \<Rightarrow> nat option \<Rightarrow> string option \<Rightarrow> proxy_error + 'c"
  in_reply :: upstream_reply
  in_refresh :: "uuid \<Rightarrow> (status_code \<times> internal_oauth_refresh_payload option) option"
  in_learn :: "upstream_error_context \<Rightarrow> learned_template_resolution option"
  in_parse_json :: "string \<Rightarrow> json option"
  in_print_json :: "json \<Rightarrow> string option"
  in_rfc2822 :: "string \<Rightarrow> timestamp option"

type_synonym ('w, 'c) proxy_state = "('w, 'c) proxy_shared \<times> proxy_local"

section \<open>Shared helpers\<close>

definition on_router :: "(router \<Rightarrow> router) \<Rightarrow> ('w, 'c) proxy_shared \<Rightarrow> ('w, 'c) proxy_shared" where
  "on_router f sh = sh\<lparr>sh_router := f (sh_router sh)\<rparr>"

definition on_cache ::
  "('w hybrid_routing_cache \<Rightarrow> 'w \<Rightarrow> 'w hybrid_routing_cache \<times> 'w) \<Rightarrow> ('w, 'c) proxy_shared \<Rightarrow> ('w, 'c) proxy_shared" where
  "on_cache f sh = (case f (sh_cache sh) (sh_world sh) of (h, w) \<Rightarrow> sh\<lparr>sh_cache := h, sh_world := w\<rparr>)"

definition mark_account_unhealthy_and_clear_sticky ::
  "instant \<Rightarrow> uuid \<Rightarrow> string option \<Rightarrow> duration \<Rightarrow> ('w, 'c) proxy_shared \<Rightarrow> ('w, 'c) proxy_shared" where
  "mark_account_unhealthy_and_clear_sticky now account_id sticky_key ttl sh =
     (let sh1 = on_router (mark_unhealthy now account_id ttl) sh;
          sh2 = on_cache (hybrid_set_unhealthy now account_id ttl) sh1
      in case sticky_key of
           None \<Rightarrow> sh2
         | Some key \<Rightarrow>
             on_cache (hybrid_delete_sticky now key) (on_router (\<lambda>r. snd (unbind_sticky now key r)) sh2))"

definition pick_alive_ring_candidate_from_ids ::
  "instant \<Rightarrow> uuid list \<Rightarrow> uuid set \<Rightarrow> string option \<Rightarrow> router \<Rightarrow> upstream_account option \<times> router" where
  "pick_alive_ring_candidate_from_ids now candidate_ids excluded model r =
     first_pickable now (\<lambda>i. i \<in> excluded \<or> \<not> account_matches_model_route r i model) candidate_ids r"

definition pick_account_from_alive_ring ::
  "instant \<Rightarrow> uuid list option \<Rightarrow> uuid set \<Rightarrow> string option \<Rightarrow> router \<Rightarrow> upstream_account option \<times> router" where
  "pick_account_from_alive_ring now ring excluded model r =
     (case ring of
        None \<Rightarrow> (None, r)
      | Some candidate_ids \<Rightarrow> pick_alive_ring_candidate_from_ids now candidate_ids excluded model r)"

definition has_untried_cross_account_candidate ::
  "proxy_settings \<Rightarrow> proxy_request \<Rightarrow> instant \<Rightarrow> uuid set \<Rightarrow> uuid \<Rightarrow> router \<Rightarrow> bool \<times> router" where
  "has_untried_cross_account_candidate cfg rq now tried current r =
     (case pick_for_model now (rq_model rq) (rq_sticky_key rq) (insert current tried)
             (ps_sticky_prefer_non_conflicting cfg) r of
        (picked, r1) \<Rightarrow> (picked \<noteq> None, r1))"

definition should_cross_account_failover ::
  "proxy_settings \<Rightarrow> proxy_request \<Rightarrow> instant \<Rightarrow> uuid set \<Rightarrow> uuid \<Rightarrow> bool \<Rightarrow> ('w, 'c) proxy_shared
     \<Rightarrow> bool \<times> ('w, 'c) proxy_shared" where
  "should_cross_account_failover cfg rq now tried current retryable sh =
     (if \<not> ps_enable_request_failover cfg \<or> \<not> retryable then (False, sh)
      else case has_untried_cross_account_candidate cfg rq now tried current (sh_router sh) of
        (has_candidate, r1) \<Rightarrow>
          (if \<not> has_candidate then False else if now < rq_deadline rq then True else has_candidate,
           sh\<lparr>sh_router := r1\<rparr>))"

definition rewrite_http_retry_request_body ::
  "(string \<Rightarrow> json option) \<Rightarrow> (json \<Rightarrow> string option) \<Rightarrow> string \<Rightarrow> upstream_error_context option \<Rightarrow> string option" where
  "rewrite_http_retry_request_body parse print body error_context =
     (if Option.bind error_context uec_error_code \<noteq> Some ''previous_response_not_found'' then Some body
      else case parse body of
        Some (JObject members) \<Rightarrow>
          if map_of members ''previous_response_id'' = None then Some body
          else print (JObject (hm_remove ''previous_response_id'' members))
      | _ \<Rightarrow> None)"

section \<open>Endings of a pass\<close>

definition record_failover_exhausted_if_needed :: "bool \<Rightarrow> ('w, 'c) proxy_shared \<Rightarrow> ('w, 'c) proxy_shared" where
  "record_failover_exhausted_if_needed did sh =
     (if did then sh\<lparr>sh_failover_exhausted_total := sh_failover_exhausted_total sh + 1\<rparr> else sh)"

definition record_failover_success_if_needed :: "bool \<Rightarrow> ('w, 'c) proxy_shared \<Rightarrow> ('w, 'c) proxy_shared" where
  "record_failover_success_if_needed did sh =
     (if did then sh\<lparr>sh_failover_success_total := sh_failover_success_total sh + 1\<rparr> else sh)"

definition release_billing_hold_best_effort :: "proxy_local \<Rightarrow> proxy_local" where
  "release_billing_hold_best_effort lo =
     (case pl_hold lo of
        None \<Rightarrow> lo
      | Some h \<Rightarrow> lo\<lparr>pl_hold := None, pl_actions := pl_actions lo @ [Release h]\<rparr>)"

definition finish :: "client_response \<Rightarrow> proxy_local \<Rightarrow> proxy_local" where
  "finish response lo = lo\<lparr>pl_phase := Finished response\<rparr>"

text \<open>Giving up: the exhaustion is counted and the hold released.\<close>

definition return_failure :: "client_response \<Rightarrow> ('w, 'c) proxy_state \<Rightarrow> ('w, 'c) proxy_state" where
  "return_failure response st =
     (case st of (sh, lo) \<Rightarrow>
        (record_failover_exhausted_if_needed (pl_did_failover lo) sh,
         finish response (release_billing_hold_best_effort lo)))"

text \<open>Success: the account is credited and the failover counted.\<close>

definition return_success ::
  "instant \<Rightarrow> uuid \<Rightarrow> client_response \<Rightarrow> ('w, 'c) proxy_state \<Rightarrow> ('w, 'c) proxy_state" where
  "return_success now account_id response st =
     (case st of (sh, lo) \<Rightarrow>
        (record_failover_success_if_needed (pl_did_failover lo) (on_router (record_success now account_id) sh),
         finish response lo))"

text \<open>\<^verbatim>\<open>settle_billing_if_needed\<close>: a successful reply ends the hold in every outcome.\<close>

definition settle_billing_if_needed :: "status_code \<Rightarrow> proxy_local \<Rightarrow> proxy_local" where
  "settle_billing_if_needed status lo =
     (case pl_hold lo of
        None \<Rightarrow> lo
      | Some h \<Rightarrow>
          if \<not> is_success status then lo
          else lo\<lparr>pl_hold := None, pl_actions := pl_actions lo @ [Settle h]\<rparr>)"

definition record_cross_account_failover_attempt ::
  "uuid \<Rightarrow> ('w, 'c) proxy_state \<Rightarrow> ('w, 'c) proxy_state" where
  "record_cross_account_failover_attempt account_id st =
     (case st of (sh, lo) \<Rightarrow>
        if account_id \<in> pl_tried lo then (sh, lo)
        else (sh\<lparr>sh_failover_attempt_total := sh_failover_attempt_total sh + 1\<rparr>,
              lo\<lparr>pl_tried := insert account_id (pl_tried lo), pl_did_failover := True\<rparr>))"

text \<open>Failing over: the hold is released, the account counts as tried, the failure is remembered.\<close>

definition fail_over ::
  "uuid \<Rightarrow> status_code \<Rightarrow> client_response \<Rightarrow> ('w, 'c) proxy_state \<Rightarrow> ('w, 'c) proxy_state" where
  "fail_over account_id status response st =
     (case record_cross_account_failover_attempt account_id
             (fst st, release_billing_hold_best_effort (snd st)) of
        (sh, lo) \<Rightarrow>
          (sh, lo\<lparr>pl_last_failure := Some (response, status, account_id), pl_phase := Selecting\<rparr>))"

definition retry_same_account ::
  "upstream_account \<Rightarrow> nat \<Rightarrow> string \<Rightarrow> ('w, 'c) proxy_state \<Rightarrow> ('w, 'c) proxy_state" where
  "retry_same_account account attempt body st =
     (case st of (sh, lo) \<Rightarrow>
        (sh\<lparr>sh_same_account_retry_total := sh_same_account_retry_total sh + 1\<rparr>,
         lo\<lparr>pl_phase := Attempting account (attempt + 1) body\<rparr>))"

section \<open>Choosing an account\<close>

definition no_account ::
  "proxy_settings \<Rightarrow> proxy_request \<Rightarrow> instant \<Rightarrow> ('w, 'c) proxy_state \<Rightarrow> ('w, 'c) proxy_state" where
  "no_account cfg rq now st =
     (case st of (sh, lo) \<Rightarrow>
        if ps_enable_request_failover cfg \<and> \<not> pl_forced_round lo \<and> pl_tried lo \<noteq> {} \<and>
           2 \<le> enabled_total (sh_router sh)
        then (sh, lo\<lparr>pl_forced_round := True, pl_tried := {}\<rparr>)
        else if ps_enable_request_failover cfg \<and> now < rq_deadline rq
        then (sh, lo\<lparr>pl_tried := {}\<rparr>)
        else case pl_last_failure lo of
          Some (response, status, account_id) \<Rightarrow>
            return_failure response (sh, lo\<lparr>pl_last_failure := None\<rparr>)
        | None \<Rightarrow> return_failure (JsonError 503 ''no_upstream_account'') (sh, lo))"

definition start_attempts ::
  "proxy_request \<Rightarrow> 'c proxy_input \<Rightarrow> upstream_account \<Rightarrow> ('w, 'c) proxy_state \<Rightarrow> ('w, 'c) proxy_state" where
  "start_attempts rq inp account st =
     (case st of (sh, lo) \<Rightarrow>
        if \<not> rq_url_ok rq account then return_failure (JsonError 502 ''invalid_upstream_url'') (sh, lo)
        else if rq_is_models rq \<and> in_models_cached inp then (sh, finish (FromModelsCache (ua_id account)) lo)
        else (sh, lo\<lparr>pl_phase := Attempting account 0 (rq_body rq account)\<rparr>))"

definition pick_account_for_request ::
  "proxy_settings \<Rightarrow> proxy_request \<Rightarrow> 'c proxy_input \<Rightarrow> uuid set \<Rightarrow> router \<Rightarrow> upstream_account option \<times> router" where
  "pick_account_for_request cfg rq inp tried r =
     (case (if rq_sticky_key rq = None
            then pick_account_from_alive_ring (in_now inp) (in_alive_ring inp) tried None r
            else (None, r)) of
        (Some account, r1) \<Rightarrow> (Some account, r1)
      | (None, r1) \<Rightarrow>
          pick_for_model (in_now inp) (rq_model rq) (rq_sticky_key rq) tried
            (ps_sticky_prefer_non_conflicting cfg) r1)"

definition remember_sticky ::
  "proxy_request \<Rightarrow> instant \<Rightarrow> uuid \<Rightarrow> ('w, 'c) proxy_shared \<Rightarrow> ('w, 'c) proxy_shared" where
  "remember_sticky rq now account_id sh =
     (case rq_sticky_key rq of
        None \<Rightarrow> sh
      | Some key \<Rightarrow> on_cache (hybrid_set_sticky now key account_id (from_secs (30 * 60))) sh)"

definition check_shared_health ::
  "proxy_settings \<Rightarrow> instant \<Rightarrow> uuid \<Rightarrow> ('w, 'c) proxy_shared \<Rightarrow> bool \<times> ('w, 'c) proxy_shared" where
  "check_shared_health cfg now account_id sh =
     (if \<not> ps_shared_routing_cache_enabled cfg then (False, sh)
      else case hybrid_is_unhealthy now account_id (sh_cache sh) (sh_world sh) of
        (unhealthy, h, w) \<Rightarrow> (unhealthy, sh\<lparr>sh_cache := h, sh_world := w\<rparr>))"

definition select_step ::
  "proxy_settings \<Rightarrow> proxy_request \<Rightarrow> 'c proxy_input \<Rightarrow> ('w, 'c) proxy_state \<Rightarrow> ('w, 'c) proxy_state" where
  "select_step cfg rq inp st =
     (case st of (sh, lo) \<Rightarrow>
        let now = in_now inp in
        case rq_forced_account rq of
          Some account_id \<Rightarrow>
            (case get_account_any_state account_id (sh_router sh) of
               None \<Rightarrow> return_failure (JsonError 404 ''not_found'') (sh, lo)
             | Some account \<Rightarrow> start_attempts rq inp account (sh, lo))
        | None \<Rightarrow>
            (case pick_account_for_request cfg rq inp (pl_tried lo) (sh_router sh) of
               (None, r1) \<Rightarrow> no_account cfg rq now (sh\<lparr>sh_router := r1\<rparr>, lo)
             | (Some account, r1) \<Rightarrow>
                 (case check_shared_health cfg now (ua_id account) (sh\<lparr>sh_router := r1\<rparr>) of
                    (True, sh1) \<Rightarrow>
                      (on_router (mark_unhealthy now (ua_id account)
                                    (max (ps_retry_poll_interval cfg) (from_millis 1))) sh1,
                       lo\<lparr>pl_tried := insert (ua_id account) (pl_tried lo)\<rparr>)
                  | (False, sh1) \<Rightarrow>
                      start_attempts rq inp account (remember_sticky rq now (ua_id account) sh1, lo))))"

end
