(* ===== verification/Proxy_Loop.thy ===== *)
theory Proxy_Loop
  imports Failover
begin

text \<open>
  The inner loop of \<^verbatim>\<open>proxy_handler\<close>: one attempt at the chosen account, with every ending the code
  has (proxy selection, transport, stream prelude, status), and the step function of the whole loop with
  its runs, in which other requests change the shared state between steps.
\<close>

section \<open>Failed attempts\<close>

definition wants_failover ::
  "proxy_settings \<Rightarrow> proxy_request \<Rightarrow> instant \<Rightarrow> proxy_local \<Rightarrow> uuid \<Rightarrow> bool \<Rightarrow> ('w, 'c) proxy_shared
     \<Rightarrow> bool \<times> ('w, 'c) proxy_shared" where
  "wants_failover cfg rq now lo account_id retryable sh =
     (if rq_forced_account rq \<noteq> None then (False, sh)
      else should_cross_account_failover cfg rq now (pl_tried lo) account_id retryable sh)"

definition may_retry :: "proxy_settings \<Rightarrow> proxy_request \<Rightarrow> instant \<Rightarrow> bool \<Rightarrow> bool" where
  "may_retry cfg rq now same_account_retryable \<longleftrightarrow>
     ps_enable_request_failover cfg \<and> same_account_retryable \<and> now < rq_deadline rq"

definition retry_body :: "'c proxy_input \<Rightarrow> string \<Rightarrow> upstream_error_context option \<Rightarrow> string" where
  "retry_body inp body ctx =
     (case rewrite_http_retry_request_body (in_parse_json inp) (in_print_json inp) body ctx of
        Some rewritten \<Rightarrow> rewritten
      | None \<Rightarrow> body)"

definition on_proxy_unavailable ::
  "proxy_settings \<Rightarrow> proxy_request \<Rightarrow> 'c proxy_input \<Rightarrow> upstream_account \<Rightarrow> nat \<Rightarrow> string
     \<Rightarrow> ('w, 'c) proxy_state \<Rightarrow> ('w, 'c) proxy_state" where
  "on_proxy_unavailable cfg rq inp account attempt body st =
     (if may_retry cfg rq (in_now inp)
           (should_retry_same_account_on_transport attempt (ps_same_account_quick_retry_max cfg))
      then retry_same_account account attempt body st
      else return_failure (JsonError 503 ''proxy_unavailable'') st)"

definition on_transport_error ::
  "proxy_settings \<Rightarrow> proxy_request \<Rightarrow> 'c proxy_input \<Rightarrow> upstream_account \<Rightarrow> nat \<Rightarrow> string
     \<Rightarrow> ('w, 'c) proxy_state \<Rightarrow> ('w, 'c) proxy_state" where
  "on_transport_error cfg rq inp account attempt body st =
     (case st of (sh, lo) \<Rightarrow>
        if may_retry cfg rq (in_now inp)
             (should_retry_same_account_on_transport attempt (ps_same_account_quick_retry_max cfg))
        then retry_same_account account attempt body (sh, lo)
        else
          let now = in_now inp;
              response = JsonError 502 ''upstream_transport_error'';
              sh1 = mark_account_unhealthy_and_clear_sticky now (ua_id account) (rq_sticky_key rq)
                      (ps_account_ejection_ttl cfg) sh
          in case wants_failover cfg rq now lo (ua_id account) True sh1 of
               (True, sh2) \<Rightarrow> fail_over (ua_id account) 502 response (sh2, lo)
             | (False, sh2) \<Rightarrow> return_failure response (sh2, lo))"

definition apply_upstream_error_learning ::
  "'c proxy_input \<Rightarrow> upstream_error_source \<Rightarrow> upstream_error_context
     \<Rightarrow> client_response \<times> upstream_error_context" where
  "apply_upstream_error_learning inp source context =
     (let learned = context\<lparr>uec_learned_resolution := in_learn inp context\<rparr>
      in case normalize_upstream_error_response source learned of
           (status, code, message) \<Rightarrow> (JsonError status code, learned))"

text \<open>A stream that failed before anything of it reached the client.\<close>

definition on_stream_error ::
  "proxy_settings \<Rightarrow> proxy_request \<Rightarrow> 'c proxy_input \<Rightarrow> upstream_account \<Rightarrow> nat \<Rightarrow> string
     \<Rightarrow> upstream_error_context option \<Rightarrow> ('w, 'c) proxy_state \<Rightarrow> ('w, 'c) proxy_state" where
  "on_stream_error cfg rq inp account attempt body prelude_context st =
     (case st of (sh, lo) \<Rightarrow>
        let now = in_now inp;
            retry_max = ps_same_account_quick_retry_max cfg;
            (response, ctx, status, same_account) =
              (case prelude_context of
                 None \<Rightarrow>
                   (JsonError 502 ''upstream_transport_error'', None, 502,
                    should_retry_same_account_on_transport attempt retry_max)
               | Some context \<Rightarrow>
                   (case apply_upstream_error_learning inp SsePrelude context of
                      (response, learned) \<Rightarrow>
                        (response, Some learned, uec_status learned,
                         should_retry_same_account_on_status SsePrelude (uec_status learned) attempt retry_max
                           (Some learned))))
        in if may_retry cfg rq now same_account
           then retry_same_account account attempt (retry_body inp body ctx) (sh, lo)
           else
             let outcome = apply_recovery_action (ps_control_plane_base_url cfg) (in_refresh inp) (ua_id account) ctx;
                 ttl = (case ejection_ttl_for_response status (ps_account_ejection_ttl cfg) False ctx outcome of
                          Some t \<Rightarrow> t | None \<Rightarrow> ps_account_ejection_ttl cfg);
                 sh1 = mark_account_unhealthy_and_clear_sticky now (ua_id account) (rq_sticky_key rq) ttl sh;
                 retryable = is_failover_retryable_error SsePrelude status ctx
             in case wants_failover cfg rq now lo (ua_id account) retryable sh1 of
                  (True, sh2) \<Rightarrow> fail_over (ua_id account) status response (sh2, lo)
                | (False, sh2) \<Rightarrow> return_failure response (sh2, lo))"

text \<open>A reply with a failure status.\<close>

definition on_failed_status ::
  "proxy_settings \<Rightarrow> proxy_request \<Rightarrow> 'c proxy_input \<Rightarrow> upstream_account \<Rightarrow> nat \<Rightarrow> string
     \<Rightarrow> status_code \<Rightarrow> upstream_error_context option \<Rightarrow> bool \<Rightarrow> client_response
     \<Rightarrow> ('w, 'c) proxy_state \<Rightarrow> ('w, 'c) proxy_state" where
  "on_failed_status cfg rq inp account attempt body status ctx is_503_overloaded response st =
     (case st of (sh, lo) \<Rightarrow>
        let now = in_now inp;
            retryable = is_failover_retryable_error HttpSource status ctx;
            same_account = should_retry_same_account_on_status HttpSource status attempt
                             (ps_same_account_quick_retry_max cfg) ctx
        in if may_retry cfg rq now (retryable \<and> same_account)
           then retry_same_account account attempt (retry_body inp body ctx) (sh, lo)
           else
             case wants_failover cfg rq now lo (ua_id account) retryable sh of
               (go, sh1) \<Rightarrow>
                 let outcome = (if go then NotApplied
                                else apply_recovery_action (ps_control_plane_base_url cfg) (in_refresh inp)
                                       (ua_id account) ctx);
                     sh2 = (case ejection_ttl_for_response status (ps_account_ejection_ttl cfg)
                                   is_503_overloaded ctx outcome of
                              None \<Rightarrow> sh1
                            | Some ttl \<Rightarrow>
                                mark_account_unhealthy_and_clear_sticky now (ua_id account)
                                  (rq_sticky_key rq) ttl sh1);
                     sh3 = sh2\<lparr>sh_guard := record_invalid_request_guard_failure (ps_guard cfg) now
                                  (rq_guard_key rq) HttpSource status ctx (sh_guard sh2)\<rparr>
                 in if go then fail_over (ua_id account) status response (sh3, lo)
                    else return_failure response (sh3, lo))"

text \<open>
  The recovery task that a failover over a failed status starts: it runs on its own, later.
\<close>

definition post_failover_recovery ::
  "proxy_settings \<Rightarrow> 'c proxy_input \<Rightarrow> uuid \<Rightarrow> upstream_error_context option
     \<Rightarrow> ('w, 'c) proxy_shared \<Rightarrow> ('w, 'c) proxy_shared" where
  "post_failover_recovery cfg inp account_id ctx sh =
     (case ctx of
        None \<Rightarrow> sh
      | Some context \<Rightarrow>
          if apply_recovery_action (ps_control_plane_base_url cfg) (in_refresh inp) account_id (Some context)
               = RotateSucceeded
          then on_cache (hybrid_clear_unhealthy (in_now inp) account_id)
                 (on_router (\<lambda>r. snd (clear_unhealthy account_id r)) sh)
          else sh)"

section \<open>Reading a reply\<close>

definition trim_ascii :: "string \<Rightarrow> string" where
  "trim_ascii raw = rev (dropWhile ascii_whitespace (rev (dropWhile ascii_whitespace raw)))"

definition completed_event :: "(string \<Rightarrow> json option) \<Rightarrow> string \<Rightarrow> json option" where
  "completed_event parse raw_line =
     (let line = trim_ascii raw_line;
          payload = (case strip_prefix ''data:'' line of Some rest \<Rightarrow> trim_ascii rest | None \<Rightarrow> line)
      in if line = [] \<or> payload = [] \<or> payload = ''[DONE]'' then None
         else case parse payload of
           None \<Rightarrow> None
         | Some value \<Rightarrow>
             if str_at value [''type''] \<in> {Some ''response.completed'', Some ''response.done''}
             then json_get value ''response'' else None)"

definition extract_codex_completed_response :: "(string \<Rightarrow> json option) \<Rightarrow> string \<Rightarrow> json option" where
  "extract_codex_completed_response parse body =
     (case parse body of
        Some value \<Rightarrow> Some value
      | None \<Rightarrow>
          fold (\<lambda>line completed. case completed_event parse line of None \<Rightarrow> completed | Some r \<Rightarrow> Some r)
            (split_on (CHR 0x0A) body) None)"

definition missing_completion_context :: "header_map \<Rightarrow> upstream_error_context" where
  "missing_completion_context headers =
     \<lparr>uec_upstream_status = 502, uec_status = 502, uec_error_code = None,
      uec_error_message = Some ''codex upstream stream missing completion event'', uec_raw_error = None,
      uec_retry_after = None, uec_upstream_request_id = extract_upstream_request_id headers,
      uec_class = TransientServer, uec_learned_resolution = None\<rparr>"

text \<open>\<^verbatim>\<open>buffered_codex_compat_response\<close> for a reply with a success status, as its only caller has it.\<close>

definition buffered_codex_compat_response ::
  "'c proxy_input \<Rightarrow> uuid \<Rightarrow> status_code \<Rightarrow> header_map \<Rightarrow> string
     \<Rightarrow> client_response \<times> upstream_error_context option" where
  "buffered_codex_compat_response inp account_id status headers body =
     (case Option.bind (extract_codex_completed_response (in_parse_json inp) body) (in_print_json inp) of
        Some _ \<Rightarrow> (Relayed account_id status, None)
      | None \<Rightarrow>
          (case apply_upstream_error_learning inp HttpSource (missing_completion_context headers) of
             (response, learned) \<Rightarrow> (response, Some learned)))"

definition upstream_context ::
  "'c proxy_input \<Rightarrow> status_code \<Rightarrow> header_map \<Rightarrow> string \<Rightarrow> upstream_error_context option" where
  "upstream_context inp status headers body =
     build_upstream_error_context (in_parse_json inp) (in_rfc2822 inp) (in_wall_clock inp) status headers body"

definition map_service_unavailable ::
  "'c proxy_input \<Rightarrow> header_map \<Rightarrow> string \<Rightarrow> client_response \<times> upstream_error_context" where
  "map_service_unavailable inp headers body =
     apply_upstream_error_learning inp HttpSource
       (case upstream_context inp 503 headers body of
          Some context \<Rightarrow> context
        | None \<Rightarrow>
            \<lparr>uec_upstream_status = 503, uec_status = 503, uec_error_code = None, uec_error_message = None,
             uec_raw_error = extract_upstream_raw_error body,
             uec_retry_after = extract_retry_after (in_rfc2822 inp) (in_wall_clock inp) headers,
             uec_upstream_request_id = extract_upstream_request_id headers,
             uec_class = UpstreamUnavailable, uec_learned_resolution = None\<rparr>)"

definition buffered_response ::
  "'c proxy_input \<Rightarrow> uuid \<Rightarrow> status_code \<Rightarrow> header_map \<Rightarrow> string
     \<Rightarrow> client_response \<times> upstream_error_context option" where
  "buffered_response inp account_id status headers body =
     (case (if 400 \<le> status then upstream_context inp status headers body else None) of
        Some context \<Rightarrow>
          (case apply_upstream_error_learning inp HttpSource context of
             (response, learned) \<Rightarrow> (response, Some learned))
      | None \<Rightarrow> (Relayed account_id status, None))"

definition reply_is_stream :: "proxy_request \<Rightarrow> status_code \<Rightarrow> header_map \<Rightarrow> bool" where
  "reply_is_stream rq status headers \<longleftrightarrow>
     (case header_str headers ''content-type'' of
        None \<Rightarrow> False | Some v \<Rightarrow> str_contains v ''text/event-stream'') \<or>
     (rq_stream rq \<and> is_success status)"

definition hand_hold_to_stream :: "proxy_local \<Rightarrow> proxy_local" where
  "hand_hold_to_stream lo =
     (case pl_hold lo of
        None \<Rightarrow> lo
      | Some h \<Rightarrow> lo\<lparr>pl_hold := None, pl_actions := pl_actions lo @ [StreamSettles h]\<rparr>)"

definition on_reply ::
  "proxy_settings \<Rightarrow> proxy_request \<Rightarrow> 'c proxy_input \<Rightarrow> upstream_account \<Rightarrow> nat \<Rightarrow> string
     \<Rightarrow> status_code \<Rightarrow> header_map \<Rightarrow> string \<Rightarrow> stream_prelude
     \<Rightarrow> ('w, 'c) proxy_state \<Rightarrow> ('w, 'c) proxy_state" where
  "on_reply cfg rq inp account attempt body status headers reply_body prelude st =
     (case st of (sh, lo) \<Rightarrow>
        let now = in_now inp; account_id = ua_id account in
        if rq_bridge rq account \<and> is_success status then
          return_success now account_id
            (fst (buffered_codex_compat_response inp account_id status headers reply_body))
            (sh, settle_billing_if_needed status lo)
        else if reply_is_stream rq status headers \<and> is_success status then
          (case prelude of
             StreamCommitted \<Rightarrow>
               return_success now account_id (Streaming account_id status) (sh, hand_hold_to_stream lo)
           | UpstreamErrorResponse context \<Rightarrow>
               on_stream_error cfg rq inp account attempt body (Some context) (sh, lo)
           | _ \<Rightarrow> on_stream_error cfg rq inp account attempt body None (sh, lo))
        else if status = 503 then
          (case map_service_unavailable inp headers reply_body of
             (response, context) \<Rightarrow>
               on_failed_status cfg rq inp account attempt body status (Some context)
                 (uec_class context = Overloaded) response (sh, lo))
        else
          (case buffered_response inp account_id status headers reply_body of
             (response, ctx) \<Rightarrow>
               let lo1 = settle_billing_if_needed status lo
               in if is_success status then return_success now account_id response (sh, lo1)
                  else on_failed_status cfg rq inp account attempt body status ctx False response (sh, lo1)))"

section \<open>One attempt, and the loop\<close>

definition authorize_hold :: "proxy_request \<Rightarrow> 'c proxy_input \<Rightarrow> proxy_local \<Rightarrow> client_response + proxy_local" where
  "authorize_hold rq inp lo =
     (if pl_hold lo = None \<and> rq_billable rq then
        (case in_authorize inp of
           Inl (status, code) \<Rightarrow> Inl (JsonError status code)
         | Inr authorization_id \<Rightarrow>
             Inr (lo\<lparr>pl_hold := Some authorization_id,
                    pl_actions := pl_actions lo @ [Authorize authorization_id]\<rparr>))
      else Inr lo)"

definition attempt_step ::
  "proxy_settings \<Rightarrow> proxy_request \<Rightarrow> 'c proxy_input \<Rightarrow> upstream_account \<Rightarrow> nat \<Rightarrow> string
     \<Rightarrow> ('w, 'c) proxy_state \<Rightarrow> ('w, 'c) proxy_state" where
  "attempt_step cfg rq inp account attempt body st =
     (case st of (sh, lo) \<Rightarrow>
        let now = in_now inp in
        case authorize_hold rq inp lo of
          Inl response \<Rightarrow> (sh, finish response lo)
        | Inr lo1 \<Rightarrow>
            (case select_http_client (in_build_client inp) now None (sh_proxies sh) of
               (Inl _, px) \<Rightarrow> on_proxy_unavailable cfg rq inp account attempt body (sh\<lparr>sh_proxies := px\<rparr>, lo1)
             | (Inr (client, route), px) \<Rightarrow>
                 let lo2 = lo1\<lparr>pl_actions := pl_actions lo1 @ [SentTo (ua_id account)]\<rparr>
                 in case in_reply inp of
                      TransportError \<Rightarrow>
                        on_transport_error cfg rq inp account attempt body
                          (sh\<lparr>sh_proxies := mark_proxy_transport_failure now (sr_proxy_id route) px\<rparr>, lo2)
                    | Reply status headers reply_body prelude \<Rightarrow>
                        on_reply cfg rq inp account attempt body status headers reply_body prelude
                          (sh\<lparr>sh_proxies := mark_proxy_http_status now (sr_proxy_id route) status px\<rparr>, lo2)))"

definition proxy_step ::
  "proxy_settings \<Rightarrow> proxy_request \<Rightarrow> 'c proxy_input \<Rightarrow> ('w, 'c) proxy_state \<Rightarrow> ('w, 'c) proxy_state" where
  "proxy_step cfg rq inp st =
     (case pl_phase (snd st) of
        Selecting \<Rightarrow> select_step cfg rq inp st
      | Attempting account attempt body \<Rightarrow> attempt_step cfg rq inp account attempt body st
      | Finished _ \<Rightarrow> st)"

definition proxy_local_start :: proxy_local where
  "proxy_local_start =
     \<lparr>pl_tried = {}, pl_last_failure = None, pl_did_failover = False, pl_forced_round = False,
      pl_hold = None, pl_actions = [], pl_phase = Selecting\<rparr>"

text \<open>Before the loop, the affinity another replica may know is copied into the router.\<close>

definition proxy_start :: "proxy_request \<Rightarrow> instant \<Rightarrow> ('w, 'c) proxy_shared \<Rightarrow> ('w, 'c) proxy_state" where
  "proxy_start rq now sh =
     (case rq_sticky_key rq of
        None \<Rightarrow> (sh, proxy_local_start)
      | Some key \<Rightarrow>
          (case hybrid_get_sticky now key (sh_cache sh) (sh_world sh) of
             (found, h, w) \<Rightarrow>
               let sh1 = sh\<lparr>sh_cache := h, sh_world := w\<rparr>
               in (case found of
                     None \<Rightarrow> sh1
                   | Some account_id \<Rightarrow> on_router (\<lambda>r. snd (bind_sticky now key account_id r)) sh1,
                   proxy_local_start)))"

fun proxy_run ::
  "proxy_settings \<Rightarrow> proxy_request \<Rightarrow> 'c proxy_input list \<Rightarrow> ('w, 'c) proxy_state \<Rightarrow> ('w, 'c) proxy_state" where
  "proxy_run cfg rq [] st = st"
| "proxy_run cfg rq (inp # inps) st = proxy_run cfg rq inps (proxy_step cfg rq inp st)"

text \<open>
  Runs with other requests: between two steps the shared state may become any other, as long as its
  router is one that the operations of the router can reach.
\<close>

inductive proxy_reaches ::
  "proxy_settings \<Rightarrow> proxy_request \<Rightarrow> ('w, 'c) proxy_state \<Rightarrow> bool"
  for cfg rq where
  start: "router_inv (sh_router sh) \<Longrightarrow> proxy_reaches cfg rq (proxy_start rq now sh)"
| own_step: "proxy_reaches cfg rq st \<Longrightarrow> proxy_reaches cfg rq (proxy_step cfg rq inp st)"
| other_requests: "proxy_reaches cfg rq (sh, lo) \<Longrightarrow> router_inv (sh_router sh') \<Longrightarrow> proxy_reaches cfg rq (sh', lo)"

end
