(* ===== verification/Proxy_Loop_Props.thy ===== *)
theory Proxy_Loop_Props
  imports Proxy_Loop
begin

text \<open>
  What the request loop guarantees: an authorization covers every upstream request and is closed at the end,
  accounts are chosen soundly and given up only after they were set aside, and the request is
  answered in bounded time once its deadline has passed. The proofs go through a description of how one
  attempt can end.
\<close>

section \<open>The shared state during a step\<close>

definition keeps :: "('w, 'c) proxy_shared \<Rightarrow> ('w, 'c) proxy_shared \<Rightarrow> bool" where
  "keeps sh sh' \<longleftrightarrow> r_accounts (sh_router sh') = r_accounts (sh_router sh) \<and>
     (router_inv (sh_router sh) \<longrightarrow> router_inv (sh_router sh'))"

lemma keeps_refl [simp]: "keeps sh sh"
  by (simp add: keeps_def)

lemma keeps_trans: "keeps a b \<Longrightarrow> keeps b c \<Longrightarrow> keeps a c"
  by (simp add: keeps_def)

lemma keeps_same_router: "sh_router sh' = sh_router sh \<Longrightarrow> keeps sh sh'"
  by (simp add: keeps_def)

lemma router_ops_accounts [simp]:
  "r_accounts (mark_unhealthy now i ttl r) = r_accounts r"
  "r_accounts (snd (unbind_sticky now key r)) = r_accounts r"
  "r_accounts (record_success now i r) = r_accounts r"
  "r_accounts (snd (clear_unhealthy i r)) = r_accounts r"
  by (auto simp: mark_unhealthy_def unbind_sticky_def record_success_def clear_unhealthy_def Let_def
    split: option.splits)

lemma bind_sticky_accounts [simp]: "r_accounts (snd (bind_sticky now key i r)) = r_accounts r"
proof -
  have "r_accounts (insert_and_count_rebind now k i q) = r_accounts q" for k q
    using insert_and_count_rebind_props(1) [of now q k i] by (simp add: same_config_def)
  moreover have "r_accounts (snd (pick_specific now i r)) = r_accounts r"
    by (simp add: touched_fields [OF pick_specific_touched])
  ultimately show ?thesis by (auto simp: bind_sticky_def split: option.splits prod.splits)
qed

lemma keeps_on_router:
  "r_accounts (f (sh_router sh)) = r_accounts (sh_router sh) \<Longrightarrow>
   (router_inv (sh_router sh) \<Longrightarrow> router_inv (f (sh_router sh))) \<Longrightarrow> keeps sh (on_router f sh)"
  by (simp add: keeps_def on_router_def)

lemma keeps_on_cache [simp]: "keeps sh (on_cache f sh)"
  by (simp add: keeps_def on_cache_def split: prod.split)

lemma on_cache_router [simp]: "sh_router (on_cache f sh) = sh_router sh"
  by (simp add: on_cache_def split: prod.split)

lemma keeps_unbind: "keeps sh (on_router (\<lambda>r. snd (unbind_sticky now key r)) sh)"
  by (rule keeps_on_router) (simp_all add: unbind_sticky_inv)

lemma keeps_mark: "keeps sh (mark_account_unhealthy_and_clear_sticky now i key ttl sh)"
proof -
  have "keeps sh (on_router (mark_unhealthy now i ttl) sh)"
    by (rule keeps_on_router) (simp_all add: health_ops_inv)
  from keeps_trans [OF this keeps_on_cache]
  have marked: "keeps sh (on_cache (hybrid_set_unhealthy now i ttl) (on_router (mark_unhealthy now i ttl) sh))" .
  show ?thesis
  proof (cases key)
    case None
    with marked show ?thesis by (simp add: mark_account_unhealthy_and_clear_sticky_def)
  next
    case (Some k)
    with keeps_trans [OF keeps_trans [OF marked keeps_unbind] keeps_on_cache] show ?thesis
      by (simp add: mark_account_unhealthy_and_clear_sticky_def Let_def)
  qed
qed

lemma keeps_probe: "keeps sh (snd (should_cross_account_failover cfg rq now tried i retryable sh))"
  using pick_for_model_config [of now "sh_router sh"] pick_for_model_inv [of "sh_router sh"]
  by (auto simp: should_cross_account_failover_def has_untried_cross_account_candidate_def keeps_def same_config_def
    split: prod.splits) (metis snd_conv)+

lemma keeps_wants: "keeps sh (snd (wants_failover cfg rq now lo i retryable sh))"
  using keeps_probe by (auto simp: wants_failover_def)

lemma keeps_failure: "keeps sh (fst (return_failure response (sh, lo)))"
  by (simp add: return_failure_def record_failover_exhausted_if_needed_def keeps_def)

lemma keeps_success: "keeps sh (fst (return_success now i response (sh, lo)))"
  by (auto simp: return_success_def record_failover_success_if_needed_def keeps_def on_router_def health_ops_inv)

lemma keeps_fail_over: "keeps sh (fst (fail_over i status response (sh, lo)))"
  by (simp add: fail_over_def record_cross_account_failover_attempt_def keeps_def)

lemma keeps_retry: "keeps sh (fst (retry_same_account a n body (sh, lo)))"
  by (simp add: retry_same_account_def keeps_def)

section \<open>How an attempt ends\<close>

text \<open>The request is answered, and the hold closed in one of the three ways.\<close>

definition closes :: "proxy_local \<Rightarrow> proxy_local \<Rightarrow> bool" where
  "closes lo lo' \<longleftrightarrow>
     (\<exists>response. pl_phase lo' = Finished response) \<and> pl_hold lo' = None \<and> pl_tried lo' = pl_tried lo \<and>
     pl_did_failover lo' = pl_did_failover lo \<and>
     (case pl_hold lo of
        None \<Rightarrow> pl_actions lo' = pl_actions lo
      | Some h \<Rightarrow> pl_actions lo' \<in> (\<lambda>c. pl_actions lo @ [c]) ` {Release h, Settle h, StreamSettles h})"

definition left_behind :: "uuid \<Rightarrow> status_code \<Rightarrow> client_response \<Rightarrow> proxy_local \<Rightarrow> proxy_local" where
  "left_behind i status response lo =
     (release_billing_hold_best_effort lo)
       \<lparr>pl_tried := insert i (pl_tried lo), pl_did_failover := (i \<notin> pl_tried lo \<or> pl_did_failover lo),
        pl_last_failure := Some (response, status, i), pl_phase := Selecting\<rparr>"

inductive attempt_ends ::
  "proxy_settings \<Rightarrow> proxy_request \<Rightarrow> instant \<Rightarrow> upstream_account \<Rightarrow> nat \<Rightarrow> proxy_local \<Rightarrow> proxy_local \<Rightarrow> bool"
  for cfg rq now a n lo where
  retried: "n < ps_same_account_quick_retry_max cfg \<Longrightarrow> now < rq_deadline rq \<Longrightarrow>
    attempt_ends cfg rq now a n lo (lo\<lparr>pl_phase := Attempting a (Suc n) body\<rparr>)"
| failed_over: "rq_forced_account rq = None \<Longrightarrow>
    attempt_ends cfg rq now a n lo (left_behind (ua_id a) status response lo)"
| answered: "closes lo lo' \<Longrightarrow> attempt_ends cfg rq now a n lo lo'"

lemma closes_failure: "closes lo (snd (return_failure response (sh, lo)))"
  by (simp add: closes_def return_failure_def finish_def release_billing_hold_best_effort_def split: option.split)

lemma closes_settled:
  "is_success status \<Longrightarrow> closes lo (snd (return_success now i response (sh, settle_billing_if_needed status lo)))"
  by (simp add: closes_def return_success_def finish_def settle_billing_if_needed_def split: option.split)

lemma closes_streaming: "closes lo (snd (return_success now i response (sh, hand_hold_to_stream lo)))"
  by (simp add: closes_def return_success_def finish_def hand_hold_to_stream_def split: option.split)

lemma retry_ends:
  assumes "may_retry cfg rq now same" "same \<Longrightarrow> n < ps_same_account_quick_retry_max cfg"
  shows "attempt_ends cfg rq now a n lo (snd (retry_same_account a n body (sh, lo)))"
  using assms by (auto simp: may_retry_def retry_same_account_def intro: retried)

lemma same_account_bound:
  "should_retry_same_account_on_status source status n m ctx \<Longrightarrow> n < m"
  by (auto simp: should_retry_same_account_on_status_def split: if_splits)

lemma wants_unforced: "fst (wants_failover cfg rq now lo i retryable sh) \<Longrightarrow> rq_forced_account rq = None"
  by (auto simp: wants_failover_def split: if_splits)

lemma fail_over_local: "snd (fail_over i status response (sh, lo)) = left_behind i status response lo"
  by (auto simp: fail_over_def left_behind_def record_cross_account_failover_attempt_def
    release_billing_hold_best_effort_def insert_absorb split: option.split)

lemma fail_over_ends:
  "rq_forced_account rq = None \<Longrightarrow>
   attempt_ends cfg rq now a n lo (snd (fail_over (ua_id a) status response (sh, lo)))"
  by (simp add: fail_over_local failed_over)

text \<open>The common end of the failure handlers.\<close>

lemma give_up_ends:
  assumes "wants_failover cfg rq now lo (ua_id a) retryable sh = (go, sh1)" "keeps sh0 sh" "keeps sh1 sh2"
  shows "attempt_ends cfg rq now a n lo
      (snd (if go then fail_over (ua_id a) status response (sh2, lo) else return_failure response (sh2, lo)))"
    "keeps sh0 (fst (if go then fail_over (ua_id a) status response (sh2, lo) else return_failure response (sh2, lo)))"
proof -
  have "keeps sh sh1" using keeps_wants assms(1) by (metis snd_conv)
  with assms have k: "keeps sh0 sh2" by (meson keeps_trans)
  from keeps_trans [OF k keeps_fail_over] keeps_trans [OF k keeps_failure]
  show "keeps sh0 (fst (if go then fail_over (ua_id a) status response (sh2, lo) else return_failure response (sh2, lo)))"
    by simp
  have "go \<Longrightarrow> rq_forced_account rq = None" using wants_unforced assms(1) by (metis fst_conv)
  then show "attempt_ends cfg rq now a n lo
      (snd (if go then fail_over (ua_id a) status response (sh2, lo) else return_failure response (sh2, lo)))"
    by (simp add: fail_over_ends answered closes_failure)
qed

lemma proxy_unavailable_ends:
  "attempt_ends cfg rq (in_now inp) a n lo (snd (on_proxy_unavailable cfg rq inp a n body (sh, lo)))"
  "keeps sh (fst (on_proxy_unavailable cfg rq inp a n body (sh, lo)))"
  by (simp_all add: on_proxy_unavailable_def should_retry_same_account_on_transport_def keeps_failure keeps_retry
    retry_ends [OF _ impI [THEN mp]] answered closes_failure)

lemma transport_error_ends:
  "attempt_ends cfg rq (in_now inp) a n lo (snd (on_transport_error cfg rq inp a n body (sh, lo)))"
  "keeps sh (fst (on_transport_error cfg rq inp a n body (sh, lo)))"
proof -
  let ?sh1 = "mark_account_unhealthy_and_clear_sticky (in_now inp) (ua_id a) (rq_sticky_key rq)
    (ps_account_ejection_ttl cfg) sh"
  obtain go sh2 where w: "wants_failover cfg rq (in_now inp) lo (ua_id a) True ?sh1 = (go, sh2)" by fastforce
  note ends = give_up_ends [OF w keeps_mark keeps_refl]
  have eq: "on_transport_error cfg rq inp a n body (sh, lo) =
    (if may_retry cfg rq (in_now inp) (should_retry_same_account_on_transport n (ps_same_account_quick_retry_max cfg))
     then retry_same_account a n body (sh, lo)
     else if go then fail_over (ua_id a) 502 (JsonError 502 ''upstream_transport_error'') (sh2, lo)
     else return_failure (JsonError 502 ''upstream_transport_error'') (sh2, lo))"
    using w by (simp add: on_transport_error_def split: bool.split)
  show "attempt_ends cfg rq (in_now inp) a n lo (snd (on_transport_error cfg rq inp a n body (sh, lo)))"
    using ends(1) by (auto simp: eq should_retry_same_account_on_transport_def intro: retry_ends)
  show "keeps sh (fst (on_transport_error cfg rq inp a n body (sh, lo)))"
    using ends(2) by (simp add: eq keeps_retry)
qed

lemma stream_error_ends:
  "attempt_ends cfg rq (in_now inp) a n lo (snd (on_stream_error cfg rq inp a n body prelude_context (sh, lo)))"
  "keeps sh (fst (on_stream_error cfg rq inp a n body prelude_context (sh, lo)))"
proof -
  let ?m = "ps_same_account_quick_retry_max cfg"
  obtain response ctx status same where view:
    "(case prelude_context of
        None \<Rightarrow> (JsonError 502 ''upstream_transport_error'', None, 502, should_retry_same_account_on_transport n ?m)
      | Some context \<Rightarrow>
          (case apply_upstream_error_learning inp SsePrelude context of
             (response, learned) \<Rightarrow>
               (response, Some learned, uec_status learned,
                should_retry_same_account_on_status SsePrelude (uec_status learned) n ?m (Some learned))))
     = (response, ctx, status, same)" by (rule prod_cases4)
  then have same: "same \<Longrightarrow> n < ?m"
    by (auto simp: should_retry_same_account_on_transport_def dest: same_account_bound split: option.splits prod.splits)
  define ttl where "ttl = (case ejection_ttl_for_response status (ps_account_ejection_ttl cfg) False ctx
      (apply_recovery_action (ps_control_plane_base_url cfg) (in_refresh inp) (ua_id a) ctx) of
    Some t \<Rightarrow> t | None \<Rightarrow> ps_account_ejection_ttl cfg)"
  let ?sh1 = "mark_account_unhealthy_and_clear_sticky (in_now inp) (ua_id a) (rq_sticky_key rq) ttl sh"
  obtain go sh2 where w: "wants_failover cfg rq (in_now inp) lo (ua_id a)
      (is_failover_retryable_error SsePrelude status ctx) ?sh1 = (go, sh2)" by fastforce
  note ends = give_up_ends [OF w keeps_mark keeps_refl]
  have eq: "on_stream_error cfg rq inp a n body prelude_context (sh, lo) =
    (if may_retry cfg rq (in_now inp) same then retry_same_account a n (retry_body inp body ctx) (sh, lo)
     else if go then fail_over (ua_id a) status response (sh2, lo) else return_failure response (sh2, lo))"
    unfolding on_stream_error_def Let_def prod.case view ttl_def [symmetric] using w by (simp split: bool.split)
  show "attempt_ends cfg rq (in_now inp) a n lo (snd (on_stream_error cfg rq inp a n body prelude_context (sh, lo)))"
    using ends(1) same by (auto simp: eq intro: retry_ends)
  show "keeps sh (fst (on_stream_error cfg rq inp a n body prelude_context (sh, lo)))"
    using ends(2) by (simp add: eq keeps_retry)
qed

lemma keeps_guard [simp]: "keeps sh (sh'\<lparr>sh_guard := g\<rparr>) = keeps sh sh'"
  by (simp add: keeps_def)

lemma failed_status_ends:
  "attempt_ends cfg rq (in_now inp) a n lo
     (snd (on_failed_status cfg rq inp a n body status ctx overloaded response (sh, lo)))"
  "keeps sh (fst (on_failed_status cfg rq inp a n body status ctx overloaded response (sh, lo)))"
proof -
  let ?m = "ps_same_account_quick_retry_max cfg"
  let ?retryable = "is_failover_retryable_error HttpSource status ctx"
  let ?same = "should_retry_same_account_on_status HttpSource status n ?m ctx"
  obtain go sh1 where w: "wants_failover cfg rq (in_now inp) lo (ua_id a) ?retryable sh = (go, sh1)" by fastforce
  define outcome where "outcome = (if go then NotApplied
    else apply_recovery_action (ps_control_plane_base_url cfg) (in_refresh inp) (ua_id a) ctx)"
  define sh2 where "sh2 = (case ejection_ttl_for_response status (ps_account_ejection_ttl cfg) overloaded ctx outcome of
      None \<Rightarrow> sh1
    | Some ttl \<Rightarrow> mark_account_unhealthy_and_clear_sticky (in_now inp) (ua_id a) (rq_sticky_key rq) ttl sh1)"
  let ?sh3 = "sh2\<lparr>sh_guard := record_invalid_request_guard_failure (ps_guard cfg) (in_now inp)
      (rq_guard_key rq) HttpSource status ctx (sh_guard sh2)\<rparr>"
  have "keeps sh1 sh2" using keeps_mark by (auto simp: sh2_def split: option.split)
  then have "keeps sh1 ?sh3" by simp
  note ends = give_up_ends [OF w keeps_refl this]
  have eq: "on_failed_status cfg rq inp a n body status ctx overloaded response (sh, lo) =
    (if may_retry cfg rq (in_now inp) (?retryable \<and> ?same)
     then retry_same_account a n (retry_body inp body ctx) (sh, lo)
     else if go then fail_over (ua_id a) status response (?sh3, lo) else return_failure response (?sh3, lo))"
    unfolding on_failed_status_def Let_def prod.case w outcome_def [symmetric] sh2_def [symmetric] by simp
  show "attempt_ends cfg rq (in_now inp) a n lo
     (snd (on_failed_status cfg rq inp a n body status ctx overloaded response (sh, lo)))"
    using ends(1) same_account_bound by (auto simp: eq intro: retry_ends)
  show "keeps sh (fst (on_failed_status cfg rq inp a n body status ctx overloaded response (sh, lo)))"
    using ends(2) by (simp add: eq keeps_retry)
qed

lemma settle_failed [simp]: "\<not> is_success status \<Longrightarrow> settle_billing_if_needed status lo = lo"
  by (simp add: settle_billing_if_needed_def split: option.split)

lemma success_ends:
  "is_success status \<Longrightarrow>
   attempt_ends cfg rq now a n lo (snd (return_success t i response (sh, settle_billing_if_needed status lo)))"
  "attempt_ends cfg rq now a n lo (snd (return_success t i response (sh, hand_hold_to_stream lo)))"
  by (simp_all add: answered closes_settled closes_streaming)

lemma reply_ends:
  "attempt_ends cfg rq (in_now inp) a n lo
     (snd (on_reply cfg rq inp a n body status headers reply_body prelude (sh, lo)))"
  "keeps sh (fst (on_reply cfg rq inp a n body status headers reply_body prelude (sh, lo)))"
  by (simp_all add: on_reply_def Let_def success_ends failed_status_ends stream_error_ends keeps_success
    split: prod.split stream_prelude.split)

section \<open>How a step changes the local state\<close>

lemma keeps_proxies [simp]: "keeps (sh\<lparr>sh_proxies := px\<rparr>) sh' = keeps sh sh'"
  by (simp add: keeps_def)

lemma holding_fields:
  assumes "authorize_hold rq inp lo = Inr lo1"
  shows "pl_phase lo1 = pl_phase lo" "pl_tried lo1 = pl_tried lo" "pl_did_failover lo1 = pl_did_failover lo"
    "pl_forced_round lo1 = pl_forced_round lo"
    "(pl_hold lo1 = pl_hold lo \<and> pl_actions lo1 = pl_actions lo \<and> (rq_billable rq \<longrightarrow> pl_hold lo \<noteq> None)) \<or>
     (pl_hold lo = None \<and> (\<exists>h. pl_hold lo1 = Some h \<and> pl_actions lo1 = pl_actions lo @ [Authorize h]))"
  using assms by (auto simp: authorize_hold_def split: if_splits sum.splits)

definition sent :: "uuid \<Rightarrow> proxy_local \<Rightarrow> proxy_local" where
  "sent i lo = lo\<lparr>pl_actions := pl_actions lo @ [SentTo i]\<rparr>"

inductive attempt_local ::
  "proxy_settings \<Rightarrow> proxy_request \<Rightarrow> 'c proxy_input \<Rightarrow> upstream_account \<Rightarrow> nat \<Rightarrow> proxy_local \<Rightarrow> proxy_local \<Rightarrow> bool"
  for cfg rq inp a n lo where
  refused: "pl_hold lo = None \<Longrightarrow> attempt_local cfg rq inp a n lo (finish response lo)"
| unsent: "authorize_hold rq inp lo = Inr lo1 \<Longrightarrow> attempt_ends cfg rq (in_now inp) a n lo1 lo' \<Longrightarrow>
    attempt_local cfg rq inp a n lo lo'"
| tried: "authorize_hold rq inp lo = Inr lo1 \<Longrightarrow> attempt_ends cfg rq (in_now inp) a n (sent (ua_id a) lo1) lo' \<Longrightarrow>
    attempt_local cfg rq inp a n lo lo'"

lemma attempt_step_local:
  "attempt_local cfg rq inp a n lo (snd (attempt_step cfg rq inp a n body (sh, lo)))"
  "keeps sh (fst (attempt_step cfg rq inp a n body (sh, lo)))"
proof -
  have "attempt_local cfg rq inp a n lo (snd (attempt_step cfg rq inp a n body (sh, lo))) \<and>
    keeps sh (fst (attempt_step cfg rq inp a n body (sh, lo)))"
  proof (cases "authorize_hold rq inp lo")
    case (Inl response)
    then have "pl_hold lo = None" by (auto simp: authorize_hold_def split: if_splits)
    with Inl show ?thesis by (simp add: attempt_step_def refused)
  next
    case (Inr lo1)
    note lo1 = Inr
    obtain res px where sel: "select_http_client (in_build_client inp) (in_now inp) None (sh_proxies sh) = (res, px)"
      by fastforce
    show ?thesis
    proof (cases res)
      case (Inl e)
      with lo1 sel unsent [OF lo1 proxy_unavailable_ends(1)] proxy_unavailable_ends(2) [of "sh\<lparr>sh_proxies := px\<rparr>"]
      show ?thesis by (simp add: attempt_step_def)
    next
      case (Inr cr)
      obtain client route where cr: "cr = (client, route)" by (cases cr)
      show ?thesis
      proof (cases "in_reply inp")
        case TransportError
        with lo1 sel Inr cr tried [OF lo1 transport_error_ends(1)]
          transport_error_ends(2) [of "sh\<lparr>sh_proxies := mark_proxy_transport_failure (in_now inp) (sr_proxy_id route) px\<rparr>"]
        show ?thesis by (simp add: attempt_step_def sent_def)
      next
        case (Reply status headers reply_body prelude)
        with lo1 sel Inr cr tried [OF lo1 reply_ends(1)]
          reply_ends(2) [of "sh\<lparr>sh_proxies := mark_proxy_http_status (in_now inp) (sr_proxy_id route) status px\<rparr>"]
        show ?thesis by (simp add: attempt_step_def sent_def)
      qed
    qed
  qed
  then show "attempt_local cfg rq inp a n lo (snd (attempt_step cfg rq inp a n body (sh, lo)))"
    "keeps sh (fst (attempt_step cfg rq inp a n body (sh, lo)))" by auto
qed

section \<open>Choosing\<close>

lemma ring_pick:
  "fst (pick_account_from_alive_ring now ring excluded model r) = Some a \<Longrightarrow>
   available now r a \<and> ua_id a \<notin> excluded"
  "touched now r (snd (pick_account_from_alive_ring now ring excluded model r))"
  using first_pickable_Some [of now _ _ r a] first_pickable_touched [of now r]
  by (auto simp: pick_account_from_alive_ring_def pick_alive_ring_candidate_from_ids_def split: option.splits)

lemma request_pick:
  assumes "router_inv r"
  shows "fst (pick_account_for_request cfg rq inp tried r) = Some a \<Longrightarrow>
      available (in_now inp) r a \<and> ua_id a \<notin> tried"
    "r_accounts (snd (pick_account_for_request cfg rq inp tried r)) = r_accounts r"
    "router_inv (snd (pick_account_for_request cfg rq inp tried r))"
proof -
  let ?now = "in_now inp"
  define ring where "ring = (if rq_sticky_key rq = None
    then pick_account_from_alive_ring ?now (in_alive_ring inp) tried None r else (None, r))"
  obtain p r1 where p: "ring = (p, r1)" by (cases ring)
  have t: "touched ?now r r1" using ring_pick(2) p by (auto simp: ring_def split: if_splits) (metis snd_conv)
  have inv: "router_inv r1" using touched_inv [OF t assms] .
  have ring_ok: "available ?now r b \<and> ua_id b \<notin> tried" if "p = Some b" for b
    using ring_pick(1) p that by (auto simp: ring_def split: if_splits) (metis fst_conv)+
  have eq: "pick_account_for_request cfg rq inp tried r =
    (case p of Some b \<Rightarrow> (Some b, r1)
     | None \<Rightarrow> pick_for_model ?now (rq_model rq) (rq_sticky_key rq) tried (ps_sticky_prefer_non_conflicting cfg) r1)"
    unfolding pick_account_for_request_def ring_def [symmetric] p by (simp split: option.split)
  show "fst (pick_account_for_request cfg rq inp tried r) = Some a \<Longrightarrow>
      available ?now r a \<and> ua_id a \<notin> tried"
    using ring_ok pick_for_model_available [OF inv, unfolded touched_available [OF t order_refl]]
      touched_available [OF t order_refl]
    by (fastforce simp: eq split: option.splits)
  show "r_accounts (snd (pick_account_for_request cfg rq inp tried r)) = r_accounts r"
    using touched_fields [OF t] pick_for_model_config by (auto simp: eq same_config_def split: option.splits)
  show "router_inv (snd (pick_account_for_request cfg rq inp tried r))"
    using inv pick_for_model_inv by (auto simp: eq split: option.splits)
qed

inductive select_local ::
  "proxy_settings \<Rightarrow> proxy_request \<Rightarrow> instant \<Rightarrow> router \<Rightarrow> proxy_local \<Rightarrow> proxy_local \<Rightarrow> bool"
  for cfg rq now r lo where
  forced: "rq_forced_account rq = Some (ua_id a) \<Longrightarrow> ua_id a \<in> account_ids r \<Longrightarrow>
    select_local cfg rq now r lo (lo\<lparr>pl_phase := Attempting a 0 body\<rparr>)"
| chosen: "rq_forced_account rq = None \<Longrightarrow> available now r a \<Longrightarrow> ua_id a \<notin> pl_tried lo \<Longrightarrow>
    select_local cfg rq now r lo (lo\<lparr>pl_phase := Attempting a 0 body\<rparr>)"
| skipped: "rq_forced_account rq = None \<Longrightarrow> available now r a \<Longrightarrow> ua_id a \<notin> pl_tried lo \<Longrightarrow>
    select_local cfg rq now r lo (lo\<lparr>pl_tried := insert (ua_id a) (pl_tried lo)\<rparr>)"
| new_round: "rq_forced_account rq = None \<Longrightarrow> \<not> pl_forced_round lo \<Longrightarrow>
    select_local cfg rq now r lo (lo\<lparr>pl_forced_round := True, pl_tried := {}\<rparr>)"
| waited: "rq_forced_account rq = None \<Longrightarrow> now < rq_deadline rq \<Longrightarrow>
    select_local cfg rq now r lo (lo\<lparr>pl_tried := {}\<rparr>)"
| ended: "closes lo lo' \<Longrightarrow> select_local cfg rq now r lo lo'"

lemma start_attempts_cases:
  assumes "pl_hold lo = None"
  shows "closes lo (snd (start_attempts rq inp a (sh, lo))) \<or>
    (\<exists>body. snd (start_attempts rq inp a (sh, lo)) = lo\<lparr>pl_phase := Attempting a 0 body\<rparr>)"
    "keeps sh (fst (start_attempts rq inp a (sh, lo)))"
  using assms closes_failure [of lo] keeps_failure [of sh]
  by (auto simp: start_attempts_def closes_def finish_def)

lemma no_account_local:
  assumes "pl_hold lo = None" "rq_forced_account rq = None"
  shows "select_local cfg rq now r lo (snd (no_account cfg rq now (sh, lo)))"
    "keeps sh (fst (no_account cfg rq now (sh, lo)))"
proof -
  have "closes lo (snd (return_failure response (s, lo\<lparr>pl_last_failure := None\<rparr>)))"
    for response and s :: "('a, 'b) proxy_shared"
    using assms(1) by (simp add: closes_def return_failure_def finish_def release_billing_hold_best_effort_def)
  then show "select_local cfg rq now r lo (snd (no_account cfg rq now (sh, lo)))"
    using assms(2) by (simp add: no_account_def select_local.new_round select_local.waited select_local.ended
      closes_failure split: option.split)
  show "keeps sh (fst (no_account cfg rq now (sh, lo)))"
    using keeps_failure by (auto simp: no_account_def split: option.split)
qed

lemma keeps_check: "keeps sh (snd (check_shared_health cfg now i sh))"
  by (simp add: check_shared_health_def keeps_def split: prod.split)

lemma keeps_remember: "keeps sh (remember_sticky rq now i sh)"
  by (simp add: remember_sticky_def split: option.split)

lemma select_step_local:
  assumes "pl_hold lo = None" "router_inv (sh_router sh)"
  shows "select_local cfg rq (in_now inp) (sh_router sh) lo (snd (select_step cfg rq inp (sh, lo))) \<and>
    keeps sh (fst (select_step cfg rq inp (sh, lo)))"
proof (cases "rq_forced_account rq")
  case (Some i)
  show ?thesis
  proof (cases "get_account_any_state i (sh_router sh)")
    case None
    with Some show ?thesis
      by (simp add: select_step_def keeps_failure closes_failure select_local.ended)
  next
    case (Some a)
    then have "rq_forced_account rq = Some (ua_id a)" "ua_id a \<in> account_ids (sh_router sh)"
      using \<open>rq_forced_account rq = Some i\<close> find_account_id [of i "sh_router sh" a]
      by (auto simp: get_account_any_state_def)
    then have "select_local cfg rq (in_now inp) (sh_router sh) lo (snd (start_attempts rq inp a (sh, lo)))"
      using start_attempts_cases(1) [OF assms(1), of rq inp a sh] select_local.ended select_local.forced by metis
    with Some \<open>rq_forced_account rq = Some i\<close> show ?thesis
      by (simp add: select_step_def start_attempts_cases [OF assms(1)])
  qed
next
  case None
  obtain p r1 where p: "pick_account_for_request cfg rq inp (pl_tried lo) (sh_router sh) = (p, r1)" by fastforce
  note pick = request_pick [OF assms(2), of cfg rq inp "pl_tried lo", unfolded p]
  have k1: "keeps sh (sh\<lparr>sh_router := r1\<rparr>)" using pick(2,3) by (simp add: keeps_def)
  show ?thesis
  proof (cases p)
    case None
    with p \<open>rq_forced_account rq = None\<close> keeps_trans [OF k1 no_account_local(2) [OF assms(1) \<open>rq_forced_account rq = None\<close>]]
    show ?thesis by (simp add: select_step_def no_account_local [OF assms(1) \<open>rq_forced_account rq = None\<close>])
  next
    case (Some a)
    have a: "available (in_now inp) (sh_router sh) a" "ua_id a \<notin> pl_tried lo" using pick(1) Some by auto
    obtain u sh1 where u: "check_shared_health cfg (in_now inp) (ua_id a) (sh\<lparr>sh_router := r1\<rparr>) = (u, sh1)" by fastforce
    have k2: "keeps sh sh1" using keeps_trans [OF k1 keeps_check] u by (metis snd_conv)
    have mark: "keeps sh1 (on_router (mark_unhealthy (in_now inp) (ua_id a) d) sh1)" for d
      by (rule keeps_on_router) (simp_all add: health_ops_inv)
    let ?sh2 = "remember_sticky rq (in_now inp) (ua_id a) sh1"
    have "select_local cfg rq (in_now inp) (sh_router sh) lo (snd (start_attempts rq inp a (?sh2, lo)))"
      using start_attempts_cases(1) [OF assms(1), of rq inp a ?sh2] select_local.ended
        select_local.chosen [OF \<open>rq_forced_account rq = None\<close> a] by metis
    then show ?thesis
      using p Some u \<open>rq_forced_account rq = None\<close> keeps_trans [OF k2 mark]
        keeps_trans [OF keeps_trans [OF k2 keeps_remember] start_attempts_cases(2) [OF assms(1)]]
        select_local.skipped [OF \<open>rq_forced_account rq = None\<close> a]
      by (simp add: select_step_def Let_def split: bool.split)
  qed
qed

end
