(* ===== verification/Upstream_Errors_Props.thy ===== *)
theory Upstream_Errors_Props
  imports Upstream_Errors
begin

text \<open>
  What the reading of upstream failures guarantees: error contexts carry an error status and the delay the
  upstream asked for, the decision is consistent with the class of the failure, and ejection times stay in
  their bands.
\<close>

section \<open>Bounds of the ejection times\<close>

lemma auth_error_ejection_bounds:
  "from_secs 120 \<le> auth_error_ejection_ttl base" "auth_error_ejection_ttl base \<le> from_secs 1800"
  using clamp_bounds [of "120 :: nat" 1800] by (simp_all add: auth_error_ejection_ttl_def)

lemma auth_expired_ejection_bounds:
  "from_secs 600 \<le> auth_expired_ejection_ttl base" "auth_expired_ejection_ttl base \<le> from_secs 1800"
proof -
  have "clamp (min u64_max (as_secs base * 10)) 120 1800 \<le> 1800" using clamp_bounds [of "120 :: nat" 1800] by simp
  then show "from_secs 600 \<le> auth_expired_ejection_ttl base" "auth_expired_ejection_ttl base \<le> from_secs 1800"
    by (simp_all add: auth_expired_ejection_ttl_def auth_error_ejection_ttl_def clamp_def)
qed

lemma quota_exhausted_ejection_bounds:
  "from_secs 1800 \<le> quota_exhausted_ejection_ttl c" "quota_exhausted_ejection_ttl c \<le> from_secs 86400"
  using clamp_bounds [of "1800 :: nat" 86400] by (simp_all add: quota_exhausted_ejection_ttl_def)

lemma server_error_ejection_bounds:
  "from_secs 5 \<le> server_error_ejection_ttl base" "server_error_ejection_ttl base \<le> from_secs 60"
  using clamp_bounds [of "5 :: nat" 60] by (simp_all add: server_error_ejection_ttl_def)

lemma rate_limited_ejection_bounds:
  "from_secs 30 \<le> rate_limited_ejection_ttl base c"
  "uec_retry_after c = Some d \<Longrightarrow> as_secs d \<le> as_secs (rate_limited_ejection_ttl base c)"
  by (simp_all add: rate_limited_ejection_ttl_def)

lemmas ejection_bounds = auth_error_ejection_bounds auth_expired_ejection_bounds quota_exhausted_ejection_bounds
  server_error_ejection_bounds rate_limited_ejection_bounds

section \<open>Built contexts\<close>

lemma build_contextE:
  assumes "build_upstream_error_context parse rfc2822 now status headers body = Some c"
  obtains code message where
    "extract_upstream_error_details parse body = (code, message)"
    "uec_error_code c = code" "uec_error_message c = message"
    "uec_class c = classify_upstream_error status code message"
    "uec_upstream_status c = status"
    "uec_status c = (if is_success status then status_for_error_class (uec_class c) 502 else status)"
    "uec_retry_after c = extract_retry_after rfc2822 now headers"
    "uec_learned_resolution c = None"
    "is_success status \<Longrightarrow> uec_class c \<noteq> UnknownClass"
  using assms
  by (auto simp: build_upstream_error_context_def Let_def split: prod.splits if_splits)

lemma error_status_not_success: "\<not> is_success (status_for_error_class c 502)"
  by (simp add: status_for_error_class_def is_success_def)

lemma lower_code: "to_ascii_lowercase ''previous_response_not_found'' = ''previous_response_not_found''"
  by (simp add: to_ascii_lowercase_def ascii_lower_def)

lemma anchor_class:
  "classify_upstream_error status (Some ''previous_response_not_found'') message = NonRetryableClient"
  by (simp add: classify_upstream_error_def Let_def lower_code)

lemma unknown_class_status:
  "classify_upstream_error status code message = UnknownClass \<Longrightarrow>
   \<not> is_server_error status \<and> \<not> is_client_error status"
  unfolding classify_upstream_error_def Let_def
  by (simp only: upstream_error_class.distinct simp_thms split: if_split_asm cong: if_cong)

lemma digit_bytes: "is_digit c \<Longrightarrow> visible_byte c \<and> 48 \<le> (of_char c :: nat) \<and> (of_char c :: nat) \<le> 57"
  by (simp add: is_digit_def in_range_def byte_def visible_byte_def)

text \<open>No pattern of white space begins or ends with a digit.\<close>

lemma whitespace_ends:
  "w \<in> set utf8_whitespace \<Longrightarrow>
   \<not> (48 \<le> (of_char (hd w) :: nat) \<and> (of_char (hd w) :: nat) \<le> 57) \<and>
   \<not> (48 \<le> (of_char (last w) :: nat) \<and> (of_char (last w) :: nat) \<le> 57)"
  by (auto simp: utf8_whitespace_def)

lemma prefix_hd: "prefix w s \<Longrightarrow> w \<noteq> [] \<Longrightarrow> s \<noteq> [] \<and> hd w = hd s"
  by (auto simp: prefix_def)

lemma trim_digits: "list_all is_digit s \<Longrightarrow> trim s = s"
proof -
  assume s: "list_all is_digit s"
  have hd: "is_digit (hd s)" "is_digit (hd (rev s))" if "s \<noteq> []"
    using s that by (auto simp: list_all_iff hd_rev)
  have "trim_start s = s"
    unfolding trim_start_def
    by (rule strip_front_fixed) (use hd digit_bytes whitespace_ends prefix_hd in metis)
  moreover have "strip_front (map rev utf8_whitespace) (rev s) = rev s"
  proof (rule strip_front_fixed)
    fix w assume w: "w \<in> set (map rev utf8_whitespace)" "w \<noteq> []"
    then obtain v where "v \<in> set utf8_whitespace" "w = rev v" by auto
    then have "\<not> (48 \<le> (of_char (hd w) :: nat) \<and> (of_char (hd w) :: nat) \<le> 57)"
      using whitespace_ends [of v] by (simp add: hd_rev)
    with hd digit_bytes prefix_hd [of w "rev s"] w show "\<not> prefix w (rev s)" by force
  qed
  ultimately show ?thesis by (simp add: trim_def trim_end_def)
qed

lemma retry_after_seconds:
  assumes "header_get headers ''retry-after'' = Some (to_decimal n)" "n \<le> u64_max"
  shows "extract_retry_after rfc2822 now headers = Some (from_secs n)"
proof -
  have digits: "to_decimal n \<noteq> []" "list_all is_digit (to_decimal n)" using to_decimal_digits [of n] by auto
  then have "list_all visible_byte (to_decimal n)" using digit_bytes by (auto simp: list_all_iff)
  then have "header_str headers ''retry-after'' = Some (to_decimal n)"
    using assms by (simp add: header_str_def to_str_def)
  moreover have "trim_nonempty (to_decimal n) = Some (to_decimal n)"
    using digits trim_digits by (simp add: trim_nonempty_Some)
  ultimately show ?thesis using parse_u64_to_decimal [OF assms(2)] by (simp add: extract_retry_after_def)
qed

section \<open>Decisions by class\<close>

definition account_fault :: "upstream_error_class \<Rightarrow> bool" where
  "account_fault c \<longleftrightarrow> c \<in> {TokenInvalidated, AuthExpired, AccountDeactivated, QuotaExhausted, RateLimited}"

definition server_fault :: "upstream_error_class \<Rightarrow> bool" where
  "server_fault c \<longleftrightarrow> c \<in> {Overloaded, UpstreamUnavailable, TransientServer}"

definition special_code :: "string option \<Rightarrow> bool" where
  "special_code code \<longleftrightarrow>
     code = Some ''previous_response_not_found'' \<or> code = Some ''websocket_connection_limit_reached''"

lemma decision_fields [simp]:
  "ued_retry_scope (build_upstream_error_decision s f i code message recovery rule) = s"
  "ued_allow_cross_account_failover (build_upstream_error_decision s f i code message recovery rule) = f"
  "ued_track_invalid_request (build_upstream_error_decision s f i code message recovery rule) = i"
  by (simp_all add: build_upstream_error_decision_def)

lemmas decision_defs = decide_upstream_error_def decide_server_class_def Let_def

lemma decide_account_fault:
  assumes "uec_learned_resolution c = None" "\<not> special_code (uec_error_code c)" "account_fault (uec_class c)"
  shows "ued_retry_scope (decide_upstream_error source (Some c)) = CrossAccount"
    "ued_allow_cross_account_failover (decide_upstream_error source (Some c))"
    "\<not> ued_track_invalid_request (decide_upstream_error source (Some c))"
  using assms by (auto simp: decision_defs special_code_def account_fault_def)

lemma decide_server_fault:
  assumes "uec_learned_resolution c = None" "\<not> special_code (uec_error_code c)" "server_fault (uec_class c)"
  shows "ued_retry_scope (decide_upstream_error source (Some c)) =
      (if upstream_error_source_supports_server_retries source then SameAccount else RetryNone)"
    "ued_allow_cross_account_failover (decide_upstream_error source (Some c)) =
      upstream_error_source_supports_server_retries source"
    "\<not> ued_track_invalid_request (decide_upstream_error source (Some c))"
  using assms by (auto simp: decision_defs special_code_def server_fault_def split: if_splits)

lemma decide_client_fault:
  assumes "uec_learned_resolution c = None" "\<not> special_code (uec_error_code c)" "uec_class c = NonRetryableClient"
  shows "ued_retry_scope (decide_upstream_error source (Some c)) = RetryNone"
    "\<not> ued_allow_cross_account_failover (decide_upstream_error source (Some c))"
    "ued_track_invalid_request (decide_upstream_error source (Some c))"
  using assms by (auto simp: decision_defs special_code_def)


section \<open>A rate-limited reply\<close>

definition demo_parse :: "string \<Rightarrow> json option" where
  "demo_parse body = Some (JObject [(''error'', JObject [(''code'', JString ''rate_limited'')])])"

definition demo_context :: upstream_error_context where
  "demo_context =
     \<lparr>uec_upstream_status = 429, uec_status = 429, uec_error_code = Some ''rate_limited'', uec_error_message = None,
      uec_raw_error = None, uec_retry_after = Some (from_secs 7), uec_upstream_request_id = None,
      uec_class = RateLimited, uec_learned_resolution = None\<rparr>"

lemma demo_context_built:
  "build_upstream_error_context demo_parse (\<lambda>_. None) 0 429 [(''retry-after'', ''7'')] [] = Some demo_context"
proof -
  have seven: "to_decimal 7 = ''7''" by code_simp
  have "extract_retry_after (\<lambda>_. None) 0 [(''retry-after'', ''7'')] = Some (from_secs 7)"
    by (rule retry_after_seconds) (simp_all add: header_get_def seven u64_max_def)
  moreover have "classify_upstream_error 429 (Some ''rate_limited'') None = RateLimited"
    by (simp add: classify_upstream_error_def to_ascii_lowercase_def ascii_lower_def)
  ultimately show ?thesis
    by (simp add: build_upstream_error_context_def extract_upstream_error_details_def demo_parse_def str_at_def
      json_path_def is_success_def extract_upstream_raw_error_def trim_nonempty_def extract_upstream_request_id_def
      header_str_def header_get_def demo_context_def)
qed

section \<open>Properties\<close>

text \<open>
  A reply gives no error context exactly when its status is a success and neither a code nor a message
  of its body names a known kind of failure. A context never carries a success status, keeps the
  status the upstream sent, and has no learned template yet; a
  \<^verbatim>\<open>Retry-After\<close> header in seconds is read back exactly.
\<close>

theorem error_context_spec:
  "(build_upstream_error_context parse rfc2822 now status headers body = None \<longleftrightarrow>
      is_success status \<and>
      (case extract_upstream_error_details parse body of
         (code, message) \<Rightarrow> (code = None \<and> message = None) \<or> classify_upstream_error status code message = UnknownClass)) \<and>
   (\<forall>c. build_upstream_error_context parse rfc2822 now status headers body = Some c \<longrightarrow>
      \<not> is_success (uec_status c) \<and> uec_upstream_status c = status \<and> uec_learned_resolution c = None \<and>
      (\<forall>n. header_get headers ''retry-after'' = Some (to_decimal n) \<longrightarrow> n \<le> u64_max \<longrightarrow>
         uec_retry_after c = Some (from_secs n)))"
proof (intro conjI allI impI)
  show "build_upstream_error_context parse rfc2822 now status headers body = None \<longleftrightarrow>
      is_success status \<and>
      (case extract_upstream_error_details parse body of
         (code, message) \<Rightarrow> (code = None \<and> message = None) \<or> classify_upstream_error status code message = UnknownClass)"
    by (auto simp: build_upstream_error_context_def Let_def split: prod.splits)
next
  fix c assume c: "build_upstream_error_context parse rfc2822 now status headers body = Some c"
  then show "\<not> is_success (uec_status c)" by (auto elim!: build_contextE simp: error_status_not_success split: if_splits)
  show "uec_upstream_status c = status" "uec_learned_resolution c = None" using c by (auto elim!: build_contextE)
  fix n assume "header_get headers ''retry-after'' = Some (to_decimal n)" "n \<le> u64_max"
  then show "uec_retry_after c = Some (from_secs n)"
    using c by (auto elim!: build_contextE simp: retry_after_seconds)
qed

theorem error_context_spec_witness:
  "uec_retry_after demo_context = Some (from_secs 7) \<and> \<not> is_success (uec_status demo_context)"
  using error_context_spec [of demo_parse "\<lambda>_. None" 0 429 "[(''retry-after'', ''7'')]" "[]"]
  by (simp add: demo_context_built demo_context_def)



text \<open>
  Bounds of the time an account is set aside: 1 to 5 seconds after its invalidated token was renewed, 10 to
  30 minutes while its credentials are expired, half an hour to a day for an exhausted quota, 5 to 60
  seconds for a transient server error, the configured time for an overloaded or deactivated upstream, and
  for a rate limit at least 30 seconds and at least what the upstream asked for.
\<close>

theorem ejection_time_bands:
  assumes "ejection_ttl_for_response status base overloaded (Some c) outcome = Some ttl"
  shows "(uec_class c = TokenInvalidated \<and> outcome = RotateSucceeded \<longrightarrow> from_secs 1 \<le> ttl \<and> ttl \<le> from_secs 5) \<and>
    (uec_class c \<in> {TokenInvalidated, AuthExpired} \<and> outcome \<noteq> RotateSucceeded \<longrightarrow>
       from_secs 600 \<le> ttl \<and> ttl \<le> from_secs 1800) \<and>
    (uec_class c = QuotaExhausted \<longrightarrow> from_secs 1800 \<le> ttl \<and> ttl \<le> from_secs 86400) \<and>
    (uec_class c = TransientServer \<longrightarrow> from_secs 5 \<le> ttl \<and> ttl \<le> from_secs 60) \<and>
    (uec_class c \<in> {AccountDeactivated, Overloaded, UpstreamUnavailable} \<longrightarrow> ttl = base) \<and>
    (uec_class c = RateLimited \<longrightarrow>
       from_secs 30 \<le> ttl \<and> (\<forall>d. uec_retry_after c = Some d \<longrightarrow> as_secs d \<le> as_secs ttl))"
  using assms
  by (cases "uec_class c")
    (auto simp: ejection_ttl_for_response_def ejection_bounds split: if_splits)

theorem ejection_time_bands_witness:
  "ejection_ttl_for_response 429 (from_secs 20) False (Some demo_context) NotApplied = Some (from_secs 30) \<and>
   from_secs 30 \<le> from_secs 30 \<and> uec_retry_after demo_context = Some (from_secs 7) \<and>
   as_secs (from_secs 7) \<le> as_secs (from_secs 30)"
proof -
  have ttl: "ejection_ttl_for_response 429 (from_secs 20) False (Some demo_context) NotApplied = Some (from_secs 30)"
    by (simp add: ejection_ttl_for_response_def rate_limited_ejection_ttl_def demo_context_def)
  from ejection_time_bands [OF ttl] ttl show ?thesis by (simp add: demo_context_def)
qed

text \<open>
  The rate-limit ejection has no upper bound: an upstream that answers 429 with the largest
  \<^verbatim>\<open>Retry-After\<close> sets the account aside for as many seconds.
\<close>

lemma rate_limited_ejection_unbounded:
  "uec_retry_after c = Some (from_secs n) \<Longrightarrow> 30 \<le> n \<Longrightarrow> rate_limited_ejection_ttl base c = from_secs n"
  by (simp add: rate_limited_ejection_ttl_def)

end
