(* ===== verification/Proxy_Loop_Correct.thy ===== *)
theory Proxy_Loop_Correct
  imports Proxy_Loop_Props Upstream_Errors_Props
begin

text \<open>
  The properties of the request loop: billing authorizations, bounded attempts, termination after the
  deadline, and the ejection of accounts that are left behind.
\<close>

section \<open>Authorizations over a trace\<close>

text \<open>
  The authorization that is open after a sequence of calls, or no value when the sequence breaks the
  protocol: one authorization at a time, closed once, and open during every request to an account of
  a billable request.
\<close>

fun hold_step :: "bool \<Rightarrow> proxy_action \<Rightarrow> uuid option \<Rightarrow> uuid option option" where
  "hold_step billable (SentTo i) h = (if billable \<and> h = None then None else Some h)"
| "hold_step billable (Authorize k) h = (if h = None then Some (Some k) else None)"
| "hold_step billable (Release k) h = (if h = Some k then Some None else None)"
| "hold_step billable (Settle k) h = (if h = Some k then Some None else None)"
| "hold_step billable (StreamSettles k) h = (if h = Some k then Some None else None)"

fun hold_after :: "bool \<Rightarrow> proxy_action list \<Rightarrow> uuid option \<Rightarrow> uuid option option" where
  "hold_after billable [] h = Some h"
| "hold_after billable (c # cs) h = Option.bind (hold_step billable c h) (hold_after billable cs)"

lemma hold_after_append [simp]:
  "hold_after billable (xs @ ys) h = Option.bind (hold_after billable xs h) (hold_after billable ys)"
  by (induction xs arbitrary: h) (auto split: bind_splits)

section \<open>The invariant\<close>

definition billing_ok :: "proxy_request \<Rightarrow> proxy_local \<Rightarrow> bool" where
  "billing_ok rq lo \<longleftrightarrow> hold_after (rq_billable rq) (pl_actions lo) None = Some (pl_hold lo)"

definition forced_ok :: "proxy_request \<Rightarrow> proxy_local \<Rightarrow> bool" where
  "forced_ok rq lo \<longleftrightarrow>
     (\<forall>i. rq_forced_account rq = Some i \<longrightarrow>
        pl_tried lo = {} \<and> \<not> pl_did_failover lo \<and> (\<forall>j. SentTo j \<in> set (pl_actions lo) \<longrightarrow> j = i))"

definition phase_ok :: "proxy_settings \<Rightarrow> proxy_request \<Rightarrow> proxy_local \<Rightarrow> bool" where
  "phase_ok cfg rq lo \<longleftrightarrow>
     (case pl_phase lo of
        Attempting a n body \<Rightarrow>
          n \<le> ps_same_account_quick_retry_max cfg \<and>
          (case rq_forced_account rq of None \<Rightarrow> ua_id a \<notin> pl_tried lo | Some i \<Rightarrow> ua_id a = i)
      | _ \<Rightarrow> pl_hold lo = None)"

definition local_inv :: "proxy_settings \<Rightarrow> proxy_request \<Rightarrow> proxy_local \<Rightarrow> bool" where
  "local_inv cfg rq lo \<longleftrightarrow> billing_ok rq lo \<and> forced_ok rq lo \<and> phase_ok cfg rq lo"

lemma closes_inv:
  "closes lo lo' \<Longrightarrow> billing_ok rq lo \<Longrightarrow> forced_ok rq lo \<Longrightarrow> local_inv cfg rq lo'"
  by (auto simp: closes_def local_inv_def billing_ok_def forced_ok_def phase_ok_def split: option.splits)

lemma attempt_ends_inv:
  assumes "attempt_ends cfg rq now a n lo lo'" "billing_ok rq lo" "forced_ok rq lo"
    and "pl_phase lo = Attempting a n body" "phase_ok cfg rq lo"
  shows "local_inv cfg rq lo'"
  using assms
proof (cases rule: attempt_ends.cases)
  case (retried body')
  with assms show ?thesis
    by (auto simp: local_inv_def billing_ok_def forced_ok_def phase_ok_def split: option.splits)
next
  case (failed_over status response)
  with assms show ?thesis
    by (auto simp: local_inv_def billing_ok_def forced_ok_def phase_ok_def left_behind_def
      release_billing_hold_best_effort_def split: option.splits)
next
  case answered
  with assms show ?thesis by (auto intro: closes_inv)
qed

lemma holding_inv:
  assumes "authorize_hold rq inp lo = Inr lo1" "local_inv cfg rq lo" "pl_phase lo = Attempting a n body"
  shows "billing_ok rq lo1" "forced_ok rq lo1" "phase_ok cfg rq lo1" "pl_phase lo1 = Attempting a n body"
    "rq_billable rq \<Longrightarrow> pl_hold lo1 \<noteq> None"
proof -
  note f = holding_fields [OF assms(1)]
  show "billing_ok rq lo1" using f(5) assms(2) by (auto simp: local_inv_def billing_ok_def)
  show "forced_ok rq lo1" using f(2,3,5) assms(2) by (auto simp: local_inv_def forced_ok_def)
  show "phase_ok cfg rq lo1" using f(1,2) assms(2,3)
    by (simp add: local_inv_def phase_ok_def split: option.splits)
  show "pl_phase lo1 = Attempting a n body" using f(1) assms(3) by simp
  show "rq_billable rq \<Longrightarrow> pl_hold lo1 \<noteq> None" using f(5) by auto
qed

lemma attempt_local_inv:
  assumes "attempt_local cfg rq inp a n lo lo'" "local_inv cfg rq lo" "pl_phase lo = Attempting a n body"
  shows "local_inv cfg rq lo'"
  using assms(1)
proof (cases rule: attempt_local.cases)
  case (refused response)
  with assms(2) show ?thesis by (auto simp: local_inv_def finish_def billing_ok_def forced_ok_def phase_ok_def)
next
  case (unsent lo1)
  note h = holding_inv [OF unsent(1) assms(2,3)]
  show ?thesis by (rule attempt_ends_inv [OF unsent(2) h(1,2,4,3)])
next
  case (tried lo1)
  let ?lo2 = "sent (ua_id a) lo1"
  note h = holding_inv [OF tried(1) assms(2,3)]
  have "rq_forced_account rq = Some i \<Longrightarrow> ua_id a = i" for i
    using assms(2,3) by (simp add: local_inv_def phase_ok_def)
  then have "forced_ok rq ?lo2" using h(2) by (auto simp: forced_ok_def sent_def)
  moreover have "billing_ok rq ?lo2" using h(1,5) by (auto simp: billing_ok_def sent_def)
  moreover have "phase_ok cfg rq ?lo2" "pl_phase ?lo2 = Attempting a n body"
    using h(3,4) by (simp_all add: phase_ok_def sent_def split: option.splits)
  ultimately show ?thesis using attempt_ends_inv [OF tried(2)] by blast
qed

lemma select_local_inv:
  assumes "select_local cfg rq now r lo lo'" "local_inv cfg rq lo" "pl_phase lo = Selecting"
  shows "local_inv cfg rq lo'"
  using assms(1)
proof (cases rule: select_local.cases)
  case ended
  with assms(2) closes_inv [OF ended] show ?thesis by (simp add: local_inv_def)
qed (use assms(2,3) in \<open>auto simp: local_inv_def billing_ok_def forced_ok_def phase_ok_def\<close>)

lemma step_inv:
  assumes "local_inv cfg rq lo" "router_inv (sh_router sh)"
  shows "local_inv cfg rq (snd (proxy_step cfg rq inp (sh, lo))) \<and> keeps sh (fst (proxy_step cfg rq inp (sh, lo)))"
proof (cases "pl_phase lo")
  case Selecting
  then have "pl_hold lo = None" using assms(1) by (simp add: local_inv_def phase_ok_def)
  from select_step_local [OF this assms(2)] Selecting assms show ?thesis
    by (auto simp: proxy_step_def intro: select_local_inv)
next
  case (Attempting a n body)
  show ?thesis
    by (simp add: proxy_step_def Attempting attempt_step_local(2)
      attempt_local_inv [OF attempt_step_local(1) assms(1) Attempting])
qed (simp add: proxy_step_def assms)

lemma start_inv:
  "router_inv (sh_router sh) \<Longrightarrow>
   local_inv cfg rq (snd (proxy_start rq now sh)) \<and> keeps sh (fst (proxy_start rq now sh))"
proof -
  assume inv: "router_inv (sh_router sh)"
  have bind: "keeps s (on_router (\<lambda>r. snd (bind_sticky now key i r)) s)" for key i and s :: "('a, 'b) proxy_shared"
    by (rule keeps_on_router) (simp_all add: bind_sticky_inv)
  have local: "local_inv cfg rq proxy_local_start"
    by (simp add: local_inv_def billing_ok_def forced_ok_def phase_ok_def proxy_local_start_def)
  have "keeps sh (sh\<lparr>sh_cache := h, sh_world := w\<rparr>)" for h w by (simp add: keeps_def)
  from local bind keeps_trans [OF this bind] this show ?thesis
    by (auto simp: proxy_start_def Let_def split: option.split prod.split)
qed

lemma reaches_inv:
  "proxy_reaches cfg rq st \<Longrightarrow> local_inv cfg rq (snd st) \<and> router_inv (sh_router (fst st))"
proof (induction rule: proxy_reaches.induct)
  case (start sh now)
  with start_inv [OF start] show ?case by (auto simp: keeps_def)
next
  case (own_step st inp)
  then show ?case using step_inv [of cfg rq "snd st" "fst st" inp] by (auto simp: keeps_def)
qed auto

section \<open>Progress after the deadline\<close>

definition steps_left :: "router \<Rightarrow> proxy_local \<Rightarrow> nat" where
  "steps_left r lo =
     (case pl_phase lo of
        Finished _ \<Rightarrow> 0
      | phase \<Rightarrow>
          (if pl_forced_round lo then 0 else 2 * card (account_ids r) + 2) +
          2 * card (account_ids r - pl_tried lo) + (if phase = Selecting then 1 else 0))"

text \<open>The account being tried is one the router knows.\<close>

definition attempt_known :: "router \<Rightarrow> proxy_local \<Rightarrow> bool" where
  "attempt_known r lo \<longleftrightarrow> (\<forall>a n body. pl_phase lo = Attempting a n body \<longrightarrow> ua_id a \<in> account_ids r)"

lemma card_untried: "finite A \<Longrightarrow> i \<in> A - T \<Longrightarrow> card (A - insert i T) < card (A - T)"
  by (intro psubset_card_mono) auto

lemma select_local_progress:
  assumes "select_local cfg rq now r lo lo'" "pl_phase lo = Selecting" "rq_deadline rq \<le> now"
  shows "steps_left r lo' < steps_left r lo \<and> attempt_known r lo'"
  using assms(1)
proof (cases rule: select_local.cases)
  case (skipped a)
  with assms(2) card_untried [of "account_ids r" "ua_id a" "pl_tried lo"] show ?thesis
    by (auto simp: steps_left_def attempt_known_def dest: available_member)
next
  case new_round
  with assms(2) show ?thesis by (simp add: steps_left_def attempt_known_def)
next
  case ended
  with assms(2) show ?thesis by (auto simp: steps_left_def attempt_known_def closes_def)
qed (use assms(2,3) in \<open>auto simp: steps_left_def attempt_known_def dest: available_member\<close>)

lemma attempt_ends_progress:
  assumes "attempt_ends cfg rq now a n lo lo'" "pl_phase lo = Attempting a n body" "rq_deadline rq \<le> now"
    and "ua_id a \<in> account_ids r" "ua_id a \<notin> pl_tried lo"
  shows "steps_left r lo' < steps_left r lo \<and> attempt_known r lo'"
proof -
  have u: "card (account_ids r - insert (ua_id a) (pl_tried lo)) < card (account_ids r - pl_tried lo)"
    using assms(4,5) by (intro card_untried) auto
  from assms(1) show ?thesis
  proof (cases rule: attempt_ends.cases)
    case (failed_over status response)
    have "pl_forced_round (left_behind (ua_id a) status response lo) = pl_forced_round lo"
      by (simp add: left_behind_def release_billing_hold_best_effort_def split: option.split)
    with failed_over u assms(2) show ?thesis
      by (auto simp: steps_left_def attempt_known_def left_behind_def)
  next
    case answered
    with u assms(2) show ?thesis by (auto simp: steps_left_def attempt_known_def closes_def)
  qed (use assms(3) in simp)
qed

lemma attempt_local_progress:
  assumes "attempt_local cfg rq inp a n lo lo'" "pl_phase lo = Attempting a n body" "rq_deadline rq \<le> in_now inp"
    and "ua_id a \<in> account_ids r" "ua_id a \<notin> pl_tried lo"
  shows "steps_left r lo' < steps_left r lo \<and> attempt_known r lo'"
  using assms(1)
proof (cases rule: attempt_local.cases)
  case (refused response)
  have "0 < card (account_ids r - pl_tried lo)" using assms(4,5) by (auto simp: card_gt_0_iff)
  with refused assms(2) show ?thesis by (auto simp: steps_left_def attempt_known_def finish_def)
next
  case (unsent lo1)
  note f = holding_fields [OF unsent(1)]
  have "steps_left r lo' < steps_left r lo1 \<and> attempt_known r lo'"
    using attempt_ends_progress [OF unsent(2)] f assms(2-) by simp
  moreover have "steps_left r lo1 = steps_left r lo" using f assms(2) by (simp add: steps_left_def)
  ultimately show ?thesis by simp
next
  case (tried lo1)
  note f = holding_fields [OF tried(1)]
  have "steps_left r lo' < steps_left r (sent (ua_id a) lo1) \<and> attempt_known r lo'"
    using attempt_ends_progress [OF tried(2)] f assms(2-) by (simp add: sent_def)
  moreover have "steps_left r (sent (ua_id a) lo1) = steps_left r lo"
    using f assms(2) by (simp add: steps_left_def sent_def)
  ultimately show ?thesis by simp
qed

lemma attempt_untried:
  assumes "local_inv cfg rq lo" "attempt_known r lo" "pl_phase lo = Attempting a n body"
  shows "ua_id a \<in> account_ids r - pl_tried lo"
  using assms by (auto simp: attempt_known_def local_inv_def phase_ok_def forced_ok_def split: option.splits)

lemma step_progress:
  assumes "local_inv cfg rq lo" "router_inv (sh_router sh)" "attempt_known (sh_router sh) lo"
    and "rq_deadline rq \<le> in_now inp" "\<forall>response. pl_phase lo \<noteq> Finished response"
  shows "steps_left (sh_router sh) (snd (proxy_step cfg rq inp (sh, lo))) < steps_left (sh_router sh) lo \<and>
    attempt_known (sh_router sh) (snd (proxy_step cfg rq inp (sh, lo)))"
proof (cases "pl_phase lo")
  case Selecting
  then have "pl_hold lo = None" using assms(1) by (simp add: local_inv_def phase_ok_def)
  from select_local_progress [OF conjunct1 [OF select_step_local [OF this assms(2)]] Selecting assms(4)]
  show ?thesis by (simp add: proxy_step_def Selecting)
next
  case (Attempting a n body)
  from attempt_untried [OF assms(1,3) Attempting]
  have "ua_id a \<in> account_ids (sh_router sh)" "ua_id a \<notin> pl_tried lo" by auto
  from attempt_local_progress [OF attempt_step_local(1) Attempting assms(4) this] show ?thesis
    by (simp add: proxy_step_def Attempting)
qed (use assms(5) in simp)

lemma run_progress:
  assumes "local_inv cfg rq lo" "router_inv (sh_router sh)" "attempt_known (sh_router sh) lo"
    and "\<forall>inp \<in> set inps. rq_deadline rq \<le> in_now inp" "steps_left (sh_router sh) lo \<le> length inps"
  shows "\<exists>response. pl_phase (snd (proxy_run cfg rq inps (sh, lo))) = Finished response"
  using assms
proof (induction inps arbitrary: sh lo)
  case Nil
  then have "\<not> (\<exists>a n body. pl_phase lo = Attempting a n body)"
    using attempt_untried [OF Nil.prems(1,3)] by (fastforce simp: steps_left_def)
  with Nil show ?case by (cases "pl_phase lo") (auto simp: steps_left_def)
next
  case (Cons inp inps)
  obtain sh' lo' where st: "proxy_step cfg rq inp (sh, lo) = (sh', lo')" by fastforce
  have inv: "local_inv cfg rq lo'" "r_accounts (sh_router sh') = r_accounts (sh_router sh)" "router_inv (sh_router sh')"
    using step_inv [OF Cons.prems(1,2), of inp] st Cons.prems(2) by (auto simp: keeps_def)
  have same: "steps_left (sh_router sh') = steps_left (sh_router sh)"
    "attempt_known (sh_router sh') = attempt_known (sh_router sh)"
    unfolding fun_eq_iff steps_left_def attempt_known_def inv(2) by simp_all
  have "steps_left (sh_router sh) lo' \<le> length inps \<and> attempt_known (sh_router sh) lo'"
  proof (cases "\<exists>response. pl_phase lo = Finished response")
    case True
    then have "lo' = lo" using st by (auto simp: proxy_step_def)
    with True show ?thesis by (auto simp: steps_left_def attempt_known_def)
  next
    case False
    then show ?thesis using step_progress [OF Cons.prems(1-3), of inp] Cons.prems(4,5) st by auto
  qed
  then show ?case using Cons.IH [of lo' sh'] inv Cons.prems(4) same st by simp
qed

lemma steps_left_bound:
  "router_inv r \<Longrightarrow> steps_left r lo \<le> 4 * length (r_accounts r) + 3"
proof -
  have "card (account_ids r) \<le> length (r_accounts r)" by (metis card_length length_map set_map)
  moreover have "card (account_ids r - pl_tried lo) \<le> card (account_ids r)" by (intro card_mono) auto
  ultimately show ?thesis by (auto simp: steps_left_def split: proxy_phase.split)
qed

section \<open>Accounts left behind\<close>

definition set_aside :: "instant \<Rightarrow> uuid \<Rightarrow> ('w, 'c) proxy_shared \<Rightarrow> bool" where
  "set_aside now i sh \<longleftrightarrow> (\<forall>t. now \<le> t \<longrightarrow> t < now + from_secs 1 \<longrightarrow> \<not> healthy_at t (sh_router sh) i)"

lemma mark_sets_aside:
  assumes "from_secs 1 \<le> ttl"
  shows "set_aside now i (mark_account_unhealthy_and_clear_sticky now i key ttl sh)"
proof -
  have pos: "0 < ttl" using assms by (simp add: from_secs_def)
  have marked: "\<not> healthy_at t (mark_unhealthy now i ttl r) i" if "t < now + from_secs 1" for t r
    using that assms pos by (simp add: healthy_at_def mark_unhealthy_def map_of_hm_insert)
  have unbind: "healthy_at t (snd (unbind_sticky now k r)) j = healthy_at t r j" for t k r j
    by (simp add: unbind_sticky_def Let_def healthy_at_def split: option.split)
  show ?thesis
    by (cases key) (simp_all add: set_aside_def mark_account_unhealthy_and_clear_sticky_def Let_def on_router_def
      marked unbind)
qed

lemma probe_keeps_aside:
  assumes "wants_failover cfg rq now lo i retryable sh = (go, sh')" "set_aside now j sh"
  shows "set_aside now j sh'"
proof -
  have "healthy_at t (sh_router sh') k = healthy_at t (sh_router sh) k" if "now \<le> t" for t k
    using assms(1) that pick_for_model_config [of now "sh_router sh" "rq_model rq" "rq_sticky_key rq"
      "insert i (pl_tried lo)" "ps_sticky_prefer_non_conflicting cfg"]
    by (auto simp: wants_failover_def should_cross_account_failover_def has_untried_cross_account_candidate_def
      same_config_def split: if_splits prod.splits)
  with assms(2) show ?thesis by (simp add: set_aside_def)
qed

lemma phase_after [simp]:
  "pl_phase (snd (retry_same_account a n body st)) = Attempting a (n + 1) body"
  "pl_phase (snd (return_failure response st)) = Finished response"
  "pl_phase (snd (return_success t i response st)) = Finished response"
  by (auto simp: retry_same_account_def return_failure_def return_success_def finish_def split: prod.split)

lemma set_aside_fail_over [simp]: "set_aside now j (fst (fail_over i status response (sh, lo))) = set_aside now j sh"
  by (simp add: fail_over_def record_cross_account_failover_attempt_def set_aside_def)

lemma set_aside_failure [simp]: "set_aside now i (fst (return_failure response (sh, lo))) = set_aside now i sh"
  by (simp add: return_failure_def record_failover_exhausted_if_needed_def set_aside_def)

lemma ejection_at_least:
  assumes "ejection_ttl_for_response status base overloaded ctx outcome = Some ttl" "from_secs 1 \<le> base"
  shows "from_secs 1 \<le> ttl"
proof -
  have le: "from_secs 1 \<le> from_secs k" if "1 \<le> k" for k using that by simp
  have status: "from_secs 1 \<le> t" if "ejection_ttl_for_status st base overloaded = Some t" for st t
    using that assms(2) order_trans [OF le ejection_bounds(1)] order_trans [OF le ejection_bounds(7)]
    by (auto simp: ejection_ttl_for_status_def split: if_splits)
  show ?thesis
    using assms status order_trans [OF le ejection_bounds(3)] order_trans [OF le ejection_bounds(5)]
      order_trans [OF le ejection_bounds(7)] order_trans [OF le ejection_bounds(9)]
    by (auto simp: ejection_ttl_for_response_def split: option.splits upstream_error_class.splits if_splits)
qed

lemma transport_error_sets_aside:
  assumes "from_secs 1 \<le> ps_account_ejection_ttl cfg"
    and "pl_phase (snd (on_transport_error cfg rq inp a n body (sh, lo))) = Selecting"
  shows "set_aside (in_now inp) (ua_id a) (fst (on_transport_error cfg rq inp a n body (sh, lo)))"
  using assms probe_keeps_aside [OF _ mark_sets_aside [OF assms(1)]]
  by (auto simp: on_transport_error_def Let_def split: prod.splits bool.splits if_splits)

lemma stream_error_sets_aside:
  assumes "from_secs 1 \<le> ps_account_ejection_ttl cfg"
    and "pl_phase (snd (on_stream_error cfg rq inp a n body prelude_context (sh, lo))) = Selecting"
  shows "set_aside (in_now inp) (ua_id a) (fst (on_stream_error cfg rq inp a n body prelude_context (sh, lo)))"
proof -
  have ttl: "from_secs 1 \<le> (case ejection_ttl_for_response status (ps_account_ejection_ttl cfg) False ctx outcome of
      Some t \<Rightarrow> t | None \<Rightarrow> ps_account_ejection_ttl cfg)" for status ctx outcome
    using assms(1) ejection_at_least [OF _ assms(1)] by (auto split: option.split)
  show ?thesis
    using assms(2) probe_keeps_aside [OF _ mark_sets_aside [OF ttl]]
    by (auto simp: on_stream_error_def Let_def split: prod.splits bool.splits if_splits)
qed

lemma failed_status_sets_aside:
  assumes "from_secs 1 \<le> ps_account_ejection_ttl cfg"
    and "pl_phase (snd (on_failed_status cfg rq inp a n body status ctx overloaded response (sh, lo))) = Selecting"
    and "ctx = Some c" "uec_class c \<notin> {NonRetryableClient, UnknownClass}"
  shows "set_aside (in_now inp) (ua_id a)
    (fst (on_failed_status cfg rq inp a n body status ctx overloaded response (sh, lo)))"
proof -
  obtain ttl where ttl: "ejection_ttl_for_response status (ps_account_ejection_ttl cfg) overloaded (Some c) NotApplied = Some ttl"
    using assms(4) by (cases "uec_class c") (auto simp: ejection_ttl_for_response_def)
  have aside: "set_aside now i (s\<lparr>sh_guard := g\<rparr>) = set_aside now i s" for now i g and s :: "('a, 'b) proxy_shared"
    by (simp add: set_aside_def)
  from mark_sets_aside [OF ejection_at_least [OF ttl assms(1)]] show ?thesis
    using assms(2,3) ttl
    by (auto simp: on_failed_status_def Let_def aside split: prod.splits if_splits)
qed

text \<open>Why a reply may leave an account behind without setting it aside: it blames the request.\<close>

definition blames_request :: "'c proxy_input \<Rightarrow> bool" where
  "blames_request inp \<longleftrightarrow>
     (\<exists>status headers reply_body prelude c. in_reply inp = Reply status headers reply_body prelude \<and>
        upstream_context inp status headers reply_body = Some c \<and> uec_class c \<in> {NonRetryableClient, UnknownClass})"

lemma learning_class:
  "uec_class (snd (apply_upstream_error_learning inp source c)) = uec_class c"
  by (simp add: apply_upstream_error_learning_def Let_def normalize_upstream_error_response_def)

lemma context_of_failure:
  "\<not> is_success status \<Longrightarrow> \<exists>c. upstream_context inp status headers body = Some c"
  by (simp add: upstream_context_def build_upstream_error_context_def Let_def split: prod.split)

lemma reply_sets_aside:
  assumes base: "from_secs 1 \<le> ps_account_ejection_ttl cfg"
    and reply: "in_reply inp = Reply status headers reply_body prelude" "\<not> blames_request inp"
    and "pl_phase (snd (on_reply cfg rq inp a n body status headers reply_body prelude (sh, lo))) = Selecting"
  shows "set_aside (in_now inp) (ua_id a)
    (fst (on_reply cfg rq inp a n body status headers reply_body prelude (sh, lo)))"
proof (cases "is_success status")
  case True
  then show ?thesis
    using assms(4) stream_error_sets_aside [OF base]
    by (auto simp: on_reply_def Let_def is_success_def split: stream_prelude.splits if_splits prod.splits)
next
  case False
  then obtain c where c: "upstream_context inp status headers reply_body = Some c" using context_of_failure by blast
  then have cls: "uec_class c \<notin> {NonRetryableClient, UnknownClass}" using reply by (auto simp: blames_request_def)
  show ?thesis
  proof (cases "status = 503")
    case True
    obtain response d where d: "map_service_unavailable inp headers reply_body = (response, d)" by fastforce
    then have "uec_class d = uec_class c"
      using c True learning_class [of inp HttpSource c] by (simp add: map_service_unavailable_def)
    with cls have "uec_class d \<notin> {NonRetryableClient, UnknownClass}" by simp
    from failed_status_sets_aside [OF base _ refl this] show ?thesis
      using assms(4) False True d by (simp add: on_reply_def Let_def)
  next
    case ne: False
    obtain response ctx where b: "buffered_response inp (ua_id a) status headers reply_body = (response, ctx)"
      by fastforce
    have eq: "on_reply cfg rq inp a n body status headers reply_body prelude (sh, lo) =
        on_failed_status cfg rq inp a n body status ctx False response (sh, lo)"
      using False ne b by (simp add: on_reply_def)
    show ?thesis
    proof (cases "400 \<le> status")
      case True
      then obtain d where "ctx = Some d" "uec_class d = uec_class c"
        using b c learning_class [of inp HttpSource c] by (auto simp: buffered_response_def split: prod.splits)
      with cls failed_status_sets_aside [OF base, of rq inp a n body status ctx False response sh lo d] show ?thesis
        using assms(4) by (simp add: eq)
    next
      case small: False
      then have "ctx = None" using b by (auto simp: buffered_response_def)
      moreover have "\<not> is_failover_retryable_error HttpSource status None"
        using small by (simp add: is_failover_retryable_error_def reply_decision_def decide_upstream_status_def
          is_server_error_def is_client_error_def build_upstream_error_decision_def)
      ultimately show ?thesis
        using assms(4) by (auto simp: eq on_failed_status_def Let_def wants_failover_def
          should_cross_account_failover_def may_retry_def split: prod.splits if_splits)
    qed
  qed
qed

section \<open>A request over two accounts\<close>

definition demo_settings :: proxy_settings where
  "demo_settings =
     \<lparr>ps_enable_request_failover = True, ps_same_account_quick_retry_max = 0,
      ps_account_ejection_ttl = from_secs 30, ps_retry_poll_interval = from_millis 100,
      ps_sticky_prefer_non_conflicting = False, ps_shared_routing_cache_enabled = False,
      ps_control_plane_base_url = None,
      ps_guard = \<lparr>gc_enabled = True, gc_window = from_secs 30, gc_threshold = 12, gc_block_ttl = from_secs 120\<rparr>\<rparr>"

definition demo_request :: proxy_request where
  "demo_request =
     \<lparr>rq_model = None, rq_sticky_key = None, rq_forced_account = None, rq_guard_key = None, rq_stream = False,
      rq_is_models = False, rq_billable = True, rq_deadline = 50, rq_body = (\<lambda>_. []),
      rq_bridge = (\<lambda>_. False), rq_url_ok = (\<lambda>_. True)\<rparr>"

definition demo_input :: "upstream_reply \<Rightarrow> unit proxy_input" where
  "demo_input reply =
     \<lparr>in_now = 100, in_wall_clock = 0, in_alive_ring = None, in_models_cached = False, in_authorize = Inr 77,
      in_build_client = (\<lambda>_ _ _. Inr ()), in_reply = reply, in_refresh = (\<lambda>_. None), in_learn = (\<lambda>_. None),
      in_parse_json = (\<lambda>_. None), in_print_json = (\<lambda>_. None), in_rfc2822 = (\<lambda>_. None)\<rparr>"

definition demo_shared :: "(unit, unit) proxy_shared" where
  "demo_shared =
     \<lparr>sh_router = demo_router, sh_cache = hybrid_local_only in_memory_new, sh_world = (),
      sh_proxies = outbound_proxy_runtime_new 0 None, sh_guard = guard_new, sh_same_account_retry_total = 0,
      sh_failover_attempt_total = 0, sh_failover_success_total = 0, sh_failover_exhausted_total = 0\<rparr>"

definition demo_run :: "nat \<Rightarrow> (unit, unit) proxy_state" where
  "demo_run k = proxy_run demo_settings demo_request (replicate k (demo_input TransportError))
     (proxy_start demo_request 100 demo_shared)"

lemma demo_router_inv: "router_inv (sh_router demo_shared)"
  using reachable_inv [OF demo_router_reachable] by (simp add: demo_shared_def)

lemma run_reaches: "proxy_reaches cfg rq st \<Longrightarrow> proxy_reaches cfg rq (proxy_run cfg rq inps st)"
proof (induction inps arbitrary: st)
  case (Cons inp inps)
  then show ?case using own_step [OF Cons.prems] by simp
qed simp

lemma demo_reaches: "proxy_reaches demo_settings demo_request (fst (demo_run k), snd (demo_run k))"
  unfolding demo_run_def prod.collapse by (rule run_reaches [OF start [OF demo_router_inv]])

lemma demo_runs:
  "pl_actions (snd (demo_run 4)) = [Authorize 77, SentTo 1, Release 77, Authorize 77, SentTo 2, Release 77]"
  "pl_hold (snd (demo_run 4)) = None"
  "pl_phase (snd (demo_run 1)) = Attempting (demo_account 1) 0 []"
  "pl_phase (snd (demo_run 2)) = Selecting"
  "pl_phase (snd (demo_run 0)) = Selecting" "pl_tried (snd (demo_run 0)) = {}"
  by code_simp+

section \<open>Properties\<close>

text \<open>
  C3. Billing of a request that may retry and fail over. Whatever the upstreams, the billing service and
  other requests do, the calls of a request follow the protocol: at most one authorization is open at a
  time, every request that goes to an upstream for a billable request is covered by an open one, each
  authorization is closed once (released, settled, or handed to the stream that will settle it), and none is
  open when the client has its answer.
\<close>

theorem billing_covers_requests:
  assumes "proxy_reaches cfg rq (sh, lo)"
  shows "hold_after (rq_billable rq) (pl_actions lo) None = Some (pl_hold lo) \<and>
    (\<forall>response. pl_phase lo = Finished response \<longrightarrow> pl_hold lo = None)"
  using reaches_inv [OF assms] by (auto simp: local_inv_def billing_ok_def phase_ok_def)

theorem billing_covers_requests_witness:
  "hold_after True [Authorize 77, SentTo 1, Release 77, Authorize 77, SentTo 2, Release 77] None = Some None"
  using billing_covers_requests [OF demo_reaches [of 4]] by (simp add: demo_runs demo_request_def)

text \<open>
  C8. Which account a request is sent to. A request bound to one account never goes to another one and never
  fails over. Any other request goes only to accounts that are configured, enabled and not ejected when
  they are chosen and that it has not given up in this round; and each account is tried at most one time more
  than the configured number of quick retries in a row.
\<close>

theorem account_choice_sound:
  assumes "proxy_reaches cfg rq (sh, lo)"
  shows "(\<forall>i. rq_forced_account rq = Some i \<longrightarrow>
        \<not> pl_did_failover lo \<and> (\<forall>j. SentTo j \<in> set (pl_actions lo) \<longrightarrow> j = i)) \<and>
    (\<forall>a n body. pl_phase lo = Attempting a n body \<longrightarrow>
        n \<le> ps_same_account_quick_retry_max cfg \<and> (rq_forced_account rq = None \<longrightarrow> ua_id a \<notin> pl_tried lo)) \<and>
    (\<forall>inp a n body. pl_phase lo = Selecting \<longrightarrow> rq_forced_account rq = None \<longrightarrow>
        pl_phase (snd (proxy_step cfg rq inp (sh, lo))) = Attempting a n body \<longrightarrow>
        available (in_now inp) (sh_router sh) a \<and> ua_id a \<notin> pl_tried lo \<and> n = 0)"
proof (intro conjI allI impI)
  note inv = reaches_inv [OF assms, simplified]
  show "\<not> pl_did_failover lo" if "rq_forced_account rq = Some i" for i
    using inv that by (simp add: local_inv_def forced_ok_def)
  show "j = i" if "rq_forced_account rq = Some i" "SentTo j \<in> set (pl_actions lo)" for i j
    using inv that by (auto simp: local_inv_def forced_ok_def)
  show "n \<le> ps_same_account_quick_retry_max cfg" if "pl_phase lo = Attempting a n body" for a n body
    using inv that by (simp add: local_inv_def phase_ok_def)
  show "ua_id a \<notin> pl_tried lo" if "pl_phase lo = Attempting a n body" "rq_forced_account rq = None" for a n body
    using inv that by (simp add: local_inv_def phase_ok_def)
  fix inp a n body
  assume sel: "pl_phase lo = Selecting" and free: "rq_forced_account rq = None"
    and chosen: "pl_phase (snd (proxy_step cfg rq inp (sh, lo))) = Attempting a n body"
  have "pl_hold lo = None" using inv sel by (simp add: local_inv_def phase_ok_def)
  with inv have "select_local cfg rq (in_now inp) (sh_router sh) lo (snd (select_step cfg rq inp (sh, lo)))"
    by (simp add: select_step_local)
  from this chosen sel have "available (in_now inp) (sh_router sh) a \<and> ua_id a \<notin> pl_tried lo \<and> n = 0"
    by (cases rule: select_local.cases) (auto simp: free closes_def proxy_step_def)
  then show "available (in_now inp) (sh_router sh) a" "ua_id a \<notin> pl_tried lo" "n = 0" by auto
qed

theorem account_choice_sound_witness:
  "available 100 (sh_router (fst (demo_run 0))) (demo_account 1) \<and> demo_account 1 \<in> set (r_accounts demo_router)"
proof -
  have "proxy_step demo_settings demo_request (demo_input TransportError) (demo_run 0) = demo_run 1"
    by (simp add: demo_run_def)
  then have "available 100 (sh_router (fst (demo_run 0))) (demo_account 1)"
    using account_choice_sound [OF demo_reaches [of 0]] demo_runs
    by (simp add: demo_request_def) (metis demo_input_def proxy_input.select_convs(1))
  then show ?thesis using available_member by (auto simp: demo_run_def proxy_start_def demo_request_def demo_shared_def)
qed

text \<open>
  C4. A request is answered. From any state it can be in, with other requests active until then, once the
  deadline has passed a request needs at most four steps per configured account and three more until the client
  has its answer, whatever the upstreams reply; the account being tried must still be configured.
\<close>

theorem answered_after_deadline:
  assumes "proxy_reaches cfg rq (sh, lo)"
    and "\<forall>a n body. pl_phase lo = Attempting a n body \<longrightarrow> ua_id a \<in> account_ids (sh_router sh)"
    and "\<forall>inp \<in> set inps. rq_deadline rq \<le> in_now inp"
    and "4 * length (r_accounts (sh_router sh)) + 3 \<le> length inps"
  shows "\<exists>response. pl_phase (snd (proxy_run cfg rq inps (sh, lo))) = Finished response"
proof -
  have inv: "local_inv cfg rq lo" "router_inv (sh_router sh)" using reaches_inv [OF assms(1)] by auto
  moreover have "attempt_known (sh_router sh) lo" using assms(2) by (auto simp: attempt_known_def)
  moreover have "steps_left (sh_router sh) lo \<le> length inps"
    using steps_left_bound [OF inv(2), of lo] assms(4) by linarith
  ultimately show ?thesis using run_progress assms(3) by blast
qed

theorem answered_after_deadline_witness:
  "\<exists>response. pl_phase (snd (proxy_run demo_settings demo_request (replicate 11 (demo_input TransportError))
    (fst (demo_run 0), snd (demo_run 0)))) = Finished response"
proof (rule answered_after_deadline [OF demo_reaches])
  have two: "length (r_accounts (sh_router (fst (demo_run 0)))) = 2" by code_simp
  then show "4 * length (r_accounts (sh_router (fst (demo_run 0)))) + 3 \<le>
    length (replicate 11 (demo_input TransportError))" by simp
  show "\<forall>inp \<in> set (replicate 11 (demo_input TransportError)). rq_deadline demo_request \<le> in_now inp"
    by (simp add: demo_input_def demo_request_def)
  show "\<forall>a n body. pl_phase (snd (demo_run 0)) = Attempting a n body \<longrightarrow>
    ua_id a \<in> account_ids (sh_router (fst (demo_run 0)))" by (simp add: demo_runs)
qed

text \<open>
  C14. An account is left behind only after it was set aside. When a request gives up an account to try
  another one, the router refuses that account to every request for at least a second from then on
  (the configured ejection time being at least that), unless the reply blamed the request itself.
\<close>

theorem left_behind_set_aside:
  assumes "pl_phase lo = Attempting a n body" "from_secs 1 \<le> ps_account_ejection_ttl cfg"
    and "pl_phase (snd (proxy_step cfg rq inp (sh, lo))) = Selecting" "\<not> blames_request inp"
    and "in_now inp \<le> t" "t < in_now inp + from_secs 1"
  shows "\<not> fst (is_healthy t (ua_id a) (sh_router (fst (proxy_step cfg rq inp (sh, lo)))))"
proof -
  have step: "proxy_step cfg rq inp (sh, lo) = attempt_step cfg rq inp a n body (sh, lo)"
    using assms(1) by (simp add: proxy_step_def)
  have "set_aside (in_now inp) (ua_id a) (fst (attempt_step cfg rq inp a n body (sh, lo)))"
    using assms(3) unfolding step
    by (auto simp: attempt_step_def Let_def on_proxy_unavailable_def finish_def
      intro: transport_error_sets_aside [OF assms(2)] reply_sets_aside [OF assms(2) _ assms(4)]
      split: sum.splits prod.splits upstream_reply.splits if_splits)
  then show ?thesis using assms(5,6) by (simp add: step set_aside_def)
qed

theorem left_behind_set_aside_witness:
  "\<not> fst (is_healthy 200 1 (sh_router (fst (demo_run 2))))"
proof -
  let ?inp = "demo_input TransportError"
  have step: "proxy_step demo_settings demo_request ?inp (demo_run 1) = demo_run 2"
    by (simp add: demo_run_def numeral_2_eq_2)
  have "from_secs 1 \<le> ps_account_ejection_ttl demo_settings" by (simp add: demo_settings_def)
  moreover have "\<not> blames_request ?inp" by (simp add: blames_request_def demo_input_def)
  moreover have "in_now ?inp \<le> 200" "200 < in_now ?inp + from_secs 1" by (simp_all add: demo_input_def from_secs_def)
  ultimately show ?thesis
    using left_behind_set_aside [OF demo_runs(3), of demo_settings demo_request ?inp "fst (demo_run 1)" 200]
      demo_runs(4) step by (simp add: demo_account_def)
qed

section \<open>Observations\<close>

text \<open>
  A bridged stream that ends without a completed response is answered with an error, but counts as a success
  of the account, is settled, and is neither retried nor failed over: the status that is tested afterwards is
  the one of the stream.
\<close>

lemma bridged_failure_counts_as_success:
  assumes "rq_bridge rq a" "is_success status" "extract_codex_completed_response (in_parse_json inp) reply_body = None"
  shows "\<exists>code. on_reply cfg rq inp a n body status headers reply_body prelude (sh, lo) =
    return_success (in_now inp) (ua_id a) (JsonError 502 code) (sh, settle_billing_if_needed status lo)"
  using assms
  by (auto simp: on_reply_def buffered_codex_compat_response_def apply_upstream_error_learning_def Let_def
    normalize_upstream_error_response_def missing_completion_context_def)

text \<open>
  A request that the upstream refuses inside a stream ejects the account, although the same refusal as a status
  does not (\<^verbatim>\<open>ejection_ttl_for_response\<close> gives no time, and the stream path falls back to the configured
  one).
\<close>

lemma stream_refusal_ejects:
  assumes "uec_class c = NonRetryableClient" "in_learn inp c = None" "\<not> special_code (uec_error_code c)"
    and "uec_learned_resolution c = None" "from_secs 1 \<le> ps_account_ejection_ttl cfg"
  shows "set_aside (in_now inp) (ua_id a) (fst (on_stream_error cfg rq inp a n body (Some c) (sh, lo)))"
proof -
  let ?c = "c\<lparr>uec_learned_resolution := None\<rparr>"
  have d: "ued_retry_scope (decide_upstream_error SsePrelude (Some ?c)) = RetryNone"
    "\<not> ued_allow_cross_account_failover (decide_upstream_error SsePrelude (Some ?c))"
    using decide_client_fault [of ?c SsePrelude] assms(1,3) by simp_all
  have "ejection_ttl_for_response status base False (Some ?c) outcome = None" for status base outcome
    using assms(1) by (simp add: ejection_ttl_for_response_def)
  with d show ?thesis
    by (simp add: on_stream_error_def Let_def apply_upstream_error_learning_def assms(2) may_retry_def
      normalize_upstream_error_response_def should_retry_same_account_on_status_def reply_decision_def
      is_failover_retryable_error_def wants_failover_def should_cross_account_failover_def
      mark_sets_aside [OF assms(5)])
qed

text \<open>
  Without a session key the alive ring decides before the routing plan is asked: its first live candidate is
  taken whatever model the request names.
\<close>

lemma alive_ring_ignores_route:
  assumes "rq_sticky_key rq = None" "in_alive_ring inp = Some (i # ids)" "i \<notin> tried"
    and "lookup_available (in_now inp) r i = Some a"
  shows "fst (pick_account_for_request cfg rq inp tried r) = Some a"
proof -
  obtain p r1 where p: "pick_specific (in_now inp) i r = (p, r1)" by fastforce
  then have "p = Some a" using assms(4) pick_specific_result [of "in_now inp" i r] by simp
  with p assms(1-3) show ?thesis
    by (simp add: pick_account_for_request_def pick_account_from_alive_ring_def pick_alive_ring_candidate_from_ids_def
      account_matches_model_route_def candidate_account_ids_for_model_def)
qed

end
