(* ===== verification/Pool_Signals.thy ===== *)
theory Pool_Signals
  imports Complex_Main Core_Model Json
begin

text \<open>
  The decision functions of the control plane's account pool
  (\<^verbatim>\<open>services/control-plane/src/store/defs.rs\<close> and the head of \<^verbatim>\<open>store/oauth_ops.rs\<close>):
  the settings read from the environment, the classification of error signals, the state of a refresh
  credential, the retry and back-off times, rate-limit blocks, health freshness, and whether an OAuth
  account is effectively enabled. They are pure; the operations of the store in \<open>Pool_Store\<close> and
  \<open>Pool_Vault\<close> call them.
\<close>

section \<open>Contract types\<close>

datatype oauth_refresh_status = RefreshNever | RefreshOk | RefreshFailed

datatype account_pool_state = PoolActive | PoolQuarantine | PoolPendingPurge

datatype oauth_vault_record_status = VaultQueued | VaultReady | VaultNeedsRefresh | VaultNoQuota | VaultFailed

datatype session_credential_kind = RefreshRotatable | OneTimeAccessToken

datatype refresh_credential_state = CredentialHealthy | CredentialTransientFailed | CredentialTerminalInvalid

datatype oauth_live_result_status = LiveOk | LiveFailed

datatype oauth_live_result_source = LiveActive | LivePassive

datatype account_probe_outcome = ProbeOk | ProbeQuota | ProbeTransient | ProbeFatal

datatype account_health_freshness = FreshHealth | StaleHealth | UnknownHealth

datatype oauth_inventory_failure_stage =
  AdmissionProbe | ActivationRefresh | ActivationRateLimits | RuntimeRefresh

datatype account_pool_reason_class = ReasonHealthy | ReasonQuota | ReasonFatal | ReasonTransient | ReasonAdmin

text \<open>
  A rate-limit window as the upstream reports it. The percentage is an \<^verbatim>\<open>f64\<close> read from JSON,
  so it is a finite number; only its comparison with 100 matters.
\<close>

record oauth_rate_limit_window =
  rlw_used_percent :: rat
  rlw_window_minutes :: "int option"
  rlw_resets_at :: "timestamp option"

record oauth_rate_limit_snapshot =
  rls_limit_id :: "string option"
  rls_limit_name :: "string option"
  rls_primary :: "oauth_rate_limit_window option"
  rls_secondary :: "oauth_rate_limit_window option"

section \<open>Time spans and settings from the environment\<close>

text \<open>\<^verbatim>\<open>chrono::Duration\<close> values, in nanoseconds like \<^typ>\<open>timestamp\<close>.\<close>

definition seconds :: "int \<Rightarrow> int" where
  "seconds n = n * 1000000000"

definition minutes :: "int \<Rightarrow> int" where
  "minutes n = seconds (60 * n)"

definition hours :: "int \<Rightarrow> int" where
  "hours n = seconds (3600 * n)"

lemma seconds_mono [simp]: "seconds a \<le> seconds b \<longleftrightarrow> a \<le> b" "seconds a < seconds b \<longleftrightarrow> a < b"
  by (auto simp: seconds_def)

lemma seconds_sign [simp]: "0 \<le> seconds a \<longleftrightarrow> 0 \<le> a" "0 < seconds a \<longleftrightarrow> 0 < a" "seconds 0 = 0"
  by (auto simp: seconds_def)

definition oauth_min_valid_sec :: int where "oauth_min_valid_sec = 60"
definition oauth_refresh_window_sec :: int where "oauth_refresh_window_sec = 300"
definition account_health_freshness_ttl_sec :: int where "account_health_freshness_ttl_sec = 15 * 60"
definition primary_rate_limit_window_minutes :: int where "primary_rate_limit_window_minutes = 300"
definition secondary_rate_limit_window_minutes :: int where "secondary_rate_limit_window_minutes = 10080"
definition oauth_vault_terminal_auth_retry_limit :: nat where "oauth_vault_terminal_auth_retry_limit = 3"

text \<open>
  \<^verbatim>\<open>std::env::var\<close> is a partial function of the variable's name. Every setting is parsed,
  replaced by its default when absent or malformed, and clamped.
\<close>

type_synonym env = "string \<Rightarrow> string option"

definition parse_i64 :: "string \<Rightarrow> int option" where
  "parse_i64 s =
     (let negative = (case s of [] \<Rightarrow> False | c # _ \<Rightarrow> c = CHR ''-'');
          digits = (case s of [] \<Rightarrow> [] | c # cs \<Rightarrow> if c = CHR ''+'' \<or> c = CHR ''-'' then cs else s);
          v = (if negative then - int (digits_value digits) else int (digits_value digits))
      in if digits \<noteq> [] \<and> list_all is_digit digits \<and> is_i64 v then Some v else None)"

definition parse_u32 :: "string \<Rightarrow> nat option" where
  "parse_u32 s = (case parse_u64 s of Some v \<Rightarrow> if v \<le> 4294967295 then Some v else None | None \<Rightarrow> None)"

definition env_setting :: "(string \<Rightarrow> 'a option) \<Rightarrow> env \<Rightarrow> string \<Rightarrow> 'a::linorder \<Rightarrow> 'a \<Rightarrow> 'a \<Rightarrow> 'a" where
  "env_setting parse env name dflt lo hi =
     clamp (case Option.bind (env name) parse of Some v \<Rightarrow> v | None \<Rightarrow> dflt) lo hi"

definition oauth_refresh_batch_size_from_env :: "env \<Rightarrow> nat" where
  "oauth_refresh_batch_size_from_env env =
     env_setting parse_u64 env ''CONTROL_PLANE_OAUTH_REFRESH_BATCH_SIZE'' 200 1 2000"

definition oauth_vault_activate_batch_size_from_env :: "env \<Rightarrow> nat" where
  "oauth_vault_activate_batch_size_from_env env =
     env_setting parse_u64 env ''CONTROL_PLANE_VAULT_ACTIVATE_BATCH_SIZE'' 200 1 2000"

definition active_pool_target_from_env :: "env \<Rightarrow> nat" where
  "active_pool_target_from_env env =
     env_setting parse_u64 env ''CONTROL_PLANE_ACTIVE_POOL_TARGET'' 5000 1 100000"

definition runtime_pool_cap_from_env :: "env \<Rightarrow> nat" where
  "runtime_pool_cap_from_env env =
     env_setting parse_u64 env ''CONTROL_PLANE_RUNTIME_POOL_CAP'' 100000 1 100000"

definition pending_purge_delay_sec_from_env :: "env \<Rightarrow> int" where
  "pending_purge_delay_sec_from_env env =
     env_setting parse_i64 env ''CONTROL_PLANE_PENDING_PURGE_DELAY_SEC'' 300 5 (7 * 24 * 60 * 60)"

definition pending_purge_batch_size_from_env :: "env \<Rightarrow> nat" where
  "pending_purge_batch_size_from_env env =
     env_setting parse_u64 env ''CONTROL_PLANE_PENDING_PURGE_BATCH_SIZE'' 200 1 5000"

definition token_invalidated_purge_window_sec_from_env :: "env \<Rightarrow> int" where
  "token_invalidated_purge_window_sec_from_env env =
     env_setting parse_i64 env ''CONTROL_PLANE_TOKEN_INVALIDATED_PURGE_WINDOW_SEC'' 3600 60 (7 * 24 * 60 * 60)"

fun token_invalidated_purge_threshold_for_provider :: "env \<Rightarrow> upstream_auth_provider \<Rightarrow> nat" where
  "token_invalidated_purge_threshold_for_provider env OAuthRefreshToken =
     env_setting parse_u32 env ''CONTROL_PLANE_TOKEN_INVALIDATED_OAUTH_PURGE_THRESHOLD'' 3 1 10"
| "token_invalidated_purge_threshold_for_provider env LegacyBearer =
     env_setting parse_u32 env ''CONTROL_PLANE_TOKEN_INVALIDATED_LEGACY_PURGE_THRESHOLD'' 2 1 10"

definition rate_limit_cache_ttl_sec_from_env :: "env \<Rightarrow> int" where
  "rate_limit_cache_ttl_sec_from_env env =
     env_setting parse_i64 env ''CONTROL_PLANE_RATE_LIMIT_CACHE_TTL_SEC'' 180 30 86400"

definition rate_limit_refresh_error_backoff_sec_from_env :: "env \<Rightarrow> int" where
  "rate_limit_refresh_error_backoff_sec_from_env env =
     env_setting parse_i64 env ''CONTROL_PLANE_RATE_LIMIT_REFRESH_ERROR_BACKOFF_SEC'' 60 5 3600"

definition active_patrol_batch_size_from_env :: "env \<Rightarrow> nat" where
  "active_patrol_batch_size_from_env env =
     env_setting parse_u64 env ''CONTROL_PLANE_ACTIVE_PATROL_BATCH_SIZE'' 5 1 100"

lemma env_setting_bounds: "lo \<le> hi \<Longrightarrow> lo \<le> env_setting p env n d lo hi \<and> env_setting p env n d lo hi \<le> hi"
  unfolding env_setting_def by (rule clamp_bounds)

lemma pending_purge_delay_pos: "0 < pending_purge_delay_sec_from_env env"
  using env_setting_bounds [of 5 "7 * 24 * 60 * 60" parse_i64 env _ 300]
  unfolding pending_purge_delay_sec_from_env_def by (smt (verit))

lemma purge_threshold_bounds:
  "1 \<le> token_invalidated_purge_threshold_for_provider env p \<and>
   token_invalidated_purge_threshold_for_provider env p \<le> 10"
  by (cases p) (simp_all add: env_setting_bounds)

section \<open>Error signals\<close>

definition normalize_health_error_code :: "string \<Rightarrow> string" where
  "normalize_health_error_code raw = to_ascii_lowercase (trim raw)"

definition contains_any :: "string \<Rightarrow> string list \<Rightarrow> bool" where
  "contains_any message needles = list_ex (str_contains message) needles"

definition is_quota_error_signal :: "string \<Rightarrow> string \<Rightarrow> bool" where
  "is_quota_error_signal error_code error_message \<longleftrightarrow>
     normalize_health_error_code error_code \<in>
       set [''quota_exhausted'', ''usage_limit'', ''insufficient_quota'', ''quota_exceeded'',
            ''billing_hard_limit_reached''] \<or>
     contains_any (to_ascii_lowercase error_message)
       [''usage limit'', ''insufficient quota'', ''quota exceeded'', ''billing hard limit'',
        ''start a free trial of plus'']"

definition is_auth_error_signal :: "string \<Rightarrow> string \<Rightarrow> bool" where
  "is_auth_error_signal error_code error_message \<longleftrightarrow>
     normalize_health_error_code error_code \<in>
       set [''auth_expired'', ''token_invalidated'', ''invalid_refresh_token'', ''refresh_token_reused'',
            ''refresh_token_revoked'', ''missing_client_id'', ''unauthorized_client''] \<or>
     contains_any (to_ascii_lowercase error_message)
       [''access token could not be refreshed'', ''logged out'', ''signed in to another account'',
        ''invalid refresh token'']"

definition normalized_auth_failure_reason_code :: "upstream_auth_provider \<Rightarrow> string \<Rightarrow> string \<Rightarrow> string" where
  "normalized_auth_failure_reason_code auth_provider error_code error_message =
     (let normalized = normalize_health_error_code error_code in
      if normalized = ''token_invalidated'' then normalized
      else if auth_provider = LegacyBearer \<and> is_auth_error_signal error_code error_message
      then ''token_invalidated''
      else if normalized = [] then ''invalid_refresh_token''
      else normalized)"

definition is_rate_limited_signal :: "string \<Rightarrow> string \<Rightarrow> bool" where
  "is_rate_limited_signal error_code error_message \<longleftrightarrow>
     normalize_health_error_code error_code = ''rate_limited'' \<or>
     contains_any (to_ascii_lowercase error_message) [''rate limit'', ''too many requests'']"

definition is_transient_upstream_error_signal :: "string \<Rightarrow> string \<Rightarrow> bool" where
  "is_transient_upstream_error_signal error_code error_message \<longleftrightarrow>
     normalize_health_error_code error_code \<in> set [''upstream_unavailable'', ''overloaded'', ''timeout''] \<or>
     contains_any (to_ascii_lowercase error_message)
       [''service unavailable'', ''temporarily unavailable'', ''upstream unavailable'', ''timed out'',
        ''timeout'', ''connection reset'']"

definition is_fatal_refresh_error_code :: "string option \<Rightarrow> bool" where
  "is_fatal_refresh_error_code error_code =
     (case error_code of
        None \<Rightarrow> False
      | Some code \<Rightarrow> normalize_health_error_code code \<in>
          set [''refresh_token_reused'', ''refresh_token_revoked'', ''invalid_refresh_token'',
               ''missing_client_id'', ''unauthorized_client''])"

definition has_refresh_credential :: "upstream_auth_provider \<Rightarrow> bool" where
  "has_refresh_credential auth_provider \<longleftrightarrow> auth_provider = OAuthRefreshToken"

definition refresh_credential_state_of ::
  "upstream_auth_provider \<Rightarrow> oauth_refresh_status \<Rightarrow> bool \<Rightarrow> string option \<Rightarrow> refresh_credential_state option" where
  "refresh_credential_state_of auth_provider last_refresh_status refresh_reused_detected last_refresh_error_code =
     (if \<not> has_refresh_credential auth_provider then None
      else if refresh_reused_detected \<or> is_fatal_refresh_error_code last_refresh_error_code
      then Some CredentialTerminalInvalid
      else if last_refresh_status = RefreshFailed then Some CredentialTransientFailed
      else Some CredentialHealthy)"

definition is_blocking_rate_limit_error :: "string option \<Rightarrow> string option \<Rightarrow> bool" where
  "is_blocking_rate_limit_error rate_limits_last_error_code rate_limits_last_error =
     (case rate_limits_last_error_code of
        None \<Rightarrow> False
      | Some error_code \<Rightarrow>
          let error_message = (case rate_limits_last_error of Some m \<Rightarrow> m | None \<Rightarrow> [])
          in is_quota_error_signal error_code error_message \<or>
             is_auth_error_signal error_code error_message \<or>
             normalize_health_error_code error_code \<in>
               set [''primary_window_exhausted'', ''secondary_window_exhausted''])"

definition has_active_rate_limit_block ::
  "timestamp \<Rightarrow> timestamp option \<Rightarrow> string option \<Rightarrow> string option \<Rightarrow> bool" where
  "has_active_rate_limit_block now rate_limits_expires_at rate_limits_last_error_code rate_limits_last_error \<longleftrightarrow>
     (case rate_limits_expires_at of Some expires_at \<Rightarrow> expires_at > now | None \<Rightarrow> False) \<and>
     is_blocking_rate_limit_error rate_limits_last_error_code rate_limits_last_error"

definition rate_limit_failure_backoff_seconds :: "env \<Rightarrow> string \<Rightarrow> string \<Rightarrow> int" where
  "rate_limit_failure_backoff_seconds env error_code error_message =
     (if is_quota_error_signal error_code error_message then 6 * 60 * 60
      else if is_auth_error_signal error_code error_message then 30 * 60
      else if is_rate_limited_signal error_code error_message then 120
      else rate_limit_refresh_error_backoff_sec_from_env env)"

definition admission_probe_retry_after :: "env \<Rightarrow> timestamp \<Rightarrow> string \<Rightarrow> string \<Rightarrow> timestamp option" where
  "admission_probe_retry_after env checked_at error_code error_message =
     (if is_quota_error_signal error_code error_message \<or> is_rate_limited_signal error_code error_message
      then Some (checked_at + seconds (rate_limit_failure_backoff_seconds env error_code error_message))
      else if is_transient_upstream_error_signal error_code error_message
      then Some (checked_at + minutes 5)
      else None)"

definition admission_probe_retry_after_with_budget ::
  "env \<Rightarrow> timestamp \<Rightarrow> string \<Rightarrow> string \<Rightarrow> nat \<Rightarrow> timestamp option" where
  "admission_probe_retry_after_with_budget env checked_at error_code error_message transient_retry_count =
     (if is_quota_error_signal error_code error_message \<or> is_rate_limited_signal error_code error_message
      then admission_probe_retry_after env checked_at error_code error_message
      else if \<not> is_transient_upstream_error_signal error_code error_message then None
      else let delay = (if transient_retry_count = 0 then minutes 5
                        else if transient_retry_count = 1 then minutes 30
                        else hours 6)
           in Some (checked_at + delay))"

definition can_retry_transient_admission_failure :: "nat \<Rightarrow> bool" where
  "can_retry_transient_admission_failure transient_retry_count \<longleftrightarrow>
     transient_retry_count < oauth_vault_terminal_auth_retry_limit"

definition can_retry_fatal_activation_failure :: "nat \<Rightarrow> bool" where
  "can_retry_fatal_activation_failure failure_count \<longleftrightarrow> failure_count < oauth_vault_terminal_auth_retry_limit"

definition should_refresh_rate_limit_cache_on_seen_ok ::
  "timestamp \<Rightarrow> timestamp option \<Rightarrow> oauth_refresh_status \<Rightarrow> bool \<Rightarrow> string option \<Rightarrow>
   timestamp option \<Rightarrow> string option \<Rightarrow> string option \<Rightarrow> bool" where
  "should_refresh_rate_limit_cache_on_seen_ok now token_expires_at last_refresh_status refresh_reused_detected
     last_refresh_error_code rate_limits_expires_at rate_limits_last_error_code rate_limits_last_error =
     (if \<not> (case token_expires_at of Some e \<Rightarrow> e > now + seconds oauth_min_valid_sec | None \<Rightarrow> False) then False
      else if refresh_reused_detected then False
      else if last_refresh_status = RefreshFailed \<and> is_fatal_refresh_error_code last_refresh_error_code then False
      else if has_active_rate_limit_block now rate_limits_expires_at rate_limits_last_error_code
                rate_limits_last_error then True
      else True)"

section \<open>Credentials in use\<close>

definition has_usable_access_token_fallback :: "bool \<Rightarrow> timestamp option \<Rightarrow> timestamp \<Rightarrow> bool" where
  "has_usable_access_token_fallback has_access_token_fallback fallback_token_expires_at now \<longleftrightarrow>
     has_access_token_fallback \<and>
     (case fallback_token_expires_at of
        Some expires_at \<Rightarrow> expires_at > now + seconds oauth_min_valid_sec
      | None \<Rightarrow> True)"

definition refresh_credential_is_terminal_invalid ::
  "oauth_refresh_status \<Rightarrow> bool \<Rightarrow> string option \<Rightarrow> bool" where
  "refresh_credential_is_terminal_invalid last_refresh_status refresh_reused_detected last_refresh_error_code \<longleftrightarrow>
     refresh_reused_detected \<or>
     (last_refresh_status = RefreshFailed \<and> is_fatal_refresh_error_code last_refresh_error_code)"

definition should_use_access_token_fallback_for_runtime ::
  "timestamp option \<Rightarrow> bool \<Rightarrow> timestamp option \<Rightarrow> oauth_refresh_status \<Rightarrow> bool \<Rightarrow> string option \<Rightarrow>
   timestamp \<Rightarrow> bool" where
  "should_use_access_token_fallback_for_runtime token_expires_at has_access_token_fallback
     fallback_token_expires_at last_refresh_status refresh_reused_detected last_refresh_error_code now \<longleftrightarrow>
     has_usable_access_token_fallback has_access_token_fallback fallback_token_expires_at now \<and>
     refresh_credential_is_terminal_invalid last_refresh_status refresh_reused_detected last_refresh_error_code \<and>
     \<not> (case token_expires_at of Some e \<Rightarrow> e > now + seconds oauth_min_valid_sec | None \<Rightarrow> False)"

definition oauth_effective_enabled ::
  "bool \<Rightarrow> upstream_auth_provider \<Rightarrow> session_credential_kind option \<Rightarrow> timestamp option \<Rightarrow> bool \<Rightarrow>
   timestamp option \<Rightarrow> oauth_refresh_status \<Rightarrow> bool \<Rightarrow> string option \<Rightarrow> timestamp option \<Rightarrow>
   string option \<Rightarrow> string option \<Rightarrow> timestamp \<Rightarrow> bool" where
  "oauth_effective_enabled enabled auth_provider credential_kind token_expires_at has_access_token_fallback
     fallback_token_expires_at last_refresh_status refresh_reused_detected last_refresh_error_code
     rate_limits_expires_at rate_limits_last_error_code rate_limits_last_error now =
     (let fallback_usable = has_usable_access_token_fallback has_access_token_fallback
                              fallback_token_expires_at now;
          base_enabled =
            (if auth_provider = OAuthRefreshToken
             then enabled \<and>
                  ((case token_expires_at of Some e \<Rightarrow> e > now + seconds oauth_min_valid_sec | None \<Rightarrow> False)
                   \<or> fallback_usable)
             else if credential_kind = Some OneTimeAccessToken
             then enabled \<and>
                  (case token_expires_at of Some e \<Rightarrow> e > now + seconds oauth_min_valid_sec | None \<Rightarrow> True)
             else enabled)
      in if \<not> base_enabled then False
         else if auth_provider = OAuthRefreshToken
         then if refresh_credential_is_terminal_invalid last_refresh_status refresh_reused_detected
                   last_refresh_error_code \<and> \<not> fallback_usable then False
              else if has_active_rate_limit_block now rate_limits_expires_at rate_limits_last_error_code
                        rate_limits_last_error then False
              else True
         else True)"

section \<open>Rate-limit blocks\<close>

definition window_blocked_until ::
  "bool \<Rightarrow> int option \<Rightarrow> timestamp \<Rightarrow> oauth_rate_limit_snapshot \<Rightarrow> timestamp option" where
  "window_blocked_until secondary window_minutes now snapshot =
     (case (if secondary then rls_secondary snapshot else rls_primary snapshot) of
        None \<Rightarrow> None
      | Some window \<Rightarrow>
          if rlw_used_percent window < 100 then None
          else if (case (window_minutes, rlw_window_minutes window) of
                     (Some expected, Some actual) \<Rightarrow> actual \<noteq> expected
                   | _ \<Rightarrow> False) then None
          else case rlw_resets_at window of
                 None \<Rightarrow> None
               | Some resets_at \<Rightarrow> if resets_at > now then Some resets_at else None)"

definition find_blocked_until_for_window ::
  "oauth_rate_limit_snapshot list \<Rightarrow> bool \<Rightarrow> int option \<Rightarrow> timestamp \<Rightarrow> timestamp option" where
  "find_blocked_until_for_window snapshots secondary window_minutes now =
     max_by_key id (List.map_filter (window_blocked_until secondary window_minutes now) snapshots)"

definition derive_rate_limit_block ::
  "oauth_rate_limit_snapshot list \<Rightarrow> timestamp \<Rightarrow> timestamp option \<times> string option" where
  "derive_rate_limit_block snapshots now =
     (case find_blocked_until_for_window snapshots True (Some secondary_rate_limit_window_minutes) now of
        Some blocked_until \<Rightarrow> (Some blocked_until, Some ''secondary_window_exhausted'')
      | None \<Rightarrow>
         (case find_blocked_until_for_window snapshots False (Some primary_rate_limit_window_minutes) now of
            Some blocked_until \<Rightarrow> (Some blocked_until, Some ''primary_window_exhausted'')
          | None \<Rightarrow> (None, None)))"

definition rate_limit_block_message :: "string \<Rightarrow> string" where
  "rate_limit_block_message block_reason =
     (if normalize_health_error_code block_reason = ''secondary_window_exhausted''
      then ''secondary rate limit window is exhausted until reset''
      else if normalize_health_error_code block_reason = ''primary_window_exhausted''
      then ''primary rate limit window is exhausted until reset''
      else ''rate limit window is exhausted until reset'')"

definition resolve_oauth_import_mode :: "upstream_mode option \<Rightarrow> string option \<Rightarrow> upstream_mode" where
  "resolve_oauth_import_mode mode source_type =
     (case mode of
        Some m \<Rightarrow> m
      | None \<Rightarrow>
          if (case source_type of Some raw \<Rightarrow> eq_ignore_ascii_case (trim raw) ''codex'' | None \<Rightarrow> False)
          then CodexOauth else ChatGptSession)"

lemma window_blocked_until_after_now: "window_blocked_until sec w now snapshot = Some t \<Longrightarrow> now < t"
  unfolding window_blocked_until_def by (simp split: option.splits if_splits)

lemma find_blocked_until_after_now:
  "find_blocked_until_for_window snapshots sec w now = Some t \<Longrightarrow> now < t"
  by (auto simp: find_blocked_until_for_window_def set_map_filter
      dest!: max_by_key_in dest: window_blocked_until_after_now)

lemma derive_rate_limit_block_after_now:
  "derive_rate_limit_block snapshots now = (Some t, reason) \<Longrightarrow> now < t \<and> reason \<noteq> None"
  by (auto simp: derive_rate_limit_block_def split: option.splits dest: find_blocked_until_after_now)

lemma derive_rate_limit_block_None:
  "fst (derive_rate_limit_block snapshots now) = None \<longleftrightarrow> snd (derive_rate_limit_block snapshots now) = None"
  by (auto simp: derive_rate_limit_block_def split: option.splits)

section \<open>Health freshness and reason classes\<close>

definition account_pool_reason_class_from_code ::
  "string option \<Rightarrow> account_pool_reason_class \<Rightarrow> account_pool_reason_class" where
  "account_pool_reason_class_from_code code fallback =
     (case map_option to_ascii_lowercase (Option.bind code trim_nonempty) of
        None \<Rightarrow> fallback
      | Some c \<Rightarrow>
          if c \<in> set [''token_invalidated'', ''account_deactivated'', ''invalid_refresh_token'',
                      ''refresh_token_revoked'', ''refresh_token_reused'', ''terminal_invalid'',
                      ''credential_cipher_missing''] then ReasonFatal
          else if c \<in> set [''rate_limited'', ''quota_exhausted'', ''no_quota''] then ReasonQuota
          else if c \<in> set [''upstream_unavailable'', ''transport_error'', ''overloaded'',
                           ''upstream_network_error''] then ReasonTransient
          else if prefix ''operator_'' c \<or> c = ''disabled_by_admin'' then ReasonAdmin
          else fallback)"

fun account_pool_reason_class_name :: "account_pool_reason_class \<Rightarrow> string" where
  "account_pool_reason_class_name ReasonHealthy = ''healthy''"
| "account_pool_reason_class_name ReasonQuota = ''quota''"
| "account_pool_reason_class_name ReasonFatal = ''fatal''"
| "account_pool_reason_class_name ReasonTransient = ''transient''"
| "account_pool_reason_class_name ReasonAdmin = ''admin''"

fun account_pool_state_event_name :: "account_pool_state \<Rightarrow> string" where
  "account_pool_state_event_name PoolActive = ''routable''"
| "account_pool_state_event_name PoolQuarantine = ''cooling''"
| "account_pool_state_event_name PoolPendingPurge = ''pending_delete''"

fun auth_provider_name :: "upstream_auth_provider \<Rightarrow> string" where
  "auth_provider_name OAuthRefreshToken = ''oauth_refresh_token''"
| "auth_provider_name LegacyBearer = ''legacy_bearer''"

text \<open>\<^verbatim>\<open>[a, b, ...].into_iter().flatten().max()\<close>\<close>

definition latest :: "timestamp option list \<Rightarrow> timestamp option" where
  "latest ts = max_by_key id (List.map_filter id ts)"

definition account_health_freshness_from_signals ::
  "timestamp \<Rightarrow> timestamp option \<Rightarrow> timestamp option \<Rightarrow> account_probe_outcome option \<Rightarrow>
   timestamp option \<Rightarrow> oauth_live_result_status option \<Rightarrow> account_health_freshness" where
  "account_health_freshness_from_signals now last_seen_ok_at last_probe_at last_probe_outcome
     last_live_result_at last_live_result_status =
     (let cutoff = now - seconds account_health_freshness_ttl_sec;
          last_success_at =
            latest [last_seen_ok_at,
                    (if last_probe_outcome = Some ProbeOk then last_probe_at else None),
                    (if last_live_result_status = Some LiveOk then last_live_result_at else None)];
          last_failure_at =
            latest [(if last_probe_outcome \<in> {Some ProbeFatal, Some ProbeQuota, Some ProbeTransient}
                     then last_probe_at else None),
                    (if last_live_result_status = Some LiveFailed then last_live_result_at else None)]
      in if last_success_at = None \<and> last_failure_at = None then UnknownHealth
         else if (case last_failure_at of
                    None \<Rightarrow> False
                  | Some failure \<Rightarrow> cutoff \<le> failure \<and>
                      (case last_success_at of None \<Rightarrow> True | Some success \<Rightarrow> success \<le> failure))
         then StaleHealth
         else if (case last_success_at of None \<Rightarrow> False | Some success \<Rightarrow> cutoff \<le> success) then FreshHealth
         else StaleHealth)"

fun routing_health_freshness_from_contract :: "account_health_freshness \<Rightarrow> health_freshness" where
  "routing_health_freshness_from_contract FreshHealth = Fresh"
| "routing_health_freshness_from_contract StaleHealth = Stale"
| "routing_health_freshness_from_contract UnknownHealth = UnknownFreshness"

section \<open>Vault activation\<close>

definition classify_vault_activation_error_code :: "string \<Rightarrow> string" where
  "classify_vault_activation_error_code message =
     (let lowered = to_ascii_lowercase message in
      if str_contains lowered ''refresh token reused'' then ''refresh_token_reused''
      else if str_contains lowered ''refresh token revoked'' then ''refresh_token_revoked''
      else if str_contains lowered ''invalid refresh token'' then ''invalid_refresh_token''
      else if str_contains lowered ''missing client id'' then ''missing_client_id''
      else if str_contains lowered ''unauthorized client'' then ''unauthorized_client''
      else if contains_any lowered [''rate_limited'', ''rate limit'', ''too many requests''] then ''rate_limited''
      else if contains_any lowered [''upstream unavailable'', ''service unavailable'', ''temporarily unavailable'']
      then ''upstream_unavailable''
      else ''vault_activation_failed'')"

definition vault_activation_backoff :: "nat \<Rightarrow> int" where
  "vault_activation_backoff failure_count =
     (if failure_count = 0 then seconds 30
      else if failure_count = 1 then seconds 60
      else if failure_count = 2 then seconds 120
      else seconds 300)"

definition derive_admission_rate_limits_expires_at ::
  "env \<Rightarrow> oauth_rate_limit_snapshot list \<Rightarrow> timestamp \<Rightarrow> timestamp option" where
  "derive_admission_rate_limits_expires_at env snapshots checked_at =
     (if snapshots = [] then None
      else Some (case fst (derive_rate_limit_block snapshots checked_at) of
                   Some blocked_until \<Rightarrow> blocked_until
                 | None \<Rightarrow> checked_at + seconds (rate_limit_cache_ttl_sec_from_env env)))"

fun oauth_vault_activation_priority :: "oauth_vault_record_status \<Rightarrow> nat" where
  "oauth_vault_activation_priority VaultReady = 0"
| "oauth_vault_activation_priority VaultNeedsRefresh = 1"
| "oauth_vault_activation_priority VaultQueued = 2"
| "oauth_vault_activation_priority VaultNoQuota = 3"
| "oauth_vault_activation_priority VaultFailed = 4"

fun oauth_vault_activation_fallback_status :: "oauth_vault_record_status \<Rightarrow> oauth_vault_record_status" where
  "oauth_vault_activation_fallback_status VaultReady = VaultNeedsRefresh"
| "oauth_vault_activation_fallback_status other = other"

text \<open>\<^verbatim>\<open>truncate_error_message\<close>: 256 characters when the message has more than 256 bytes.\<close>

definition truncate_error_message :: "string \<Rightarrow> string" where
  "truncate_error_message raw = (if length raw \<le> 256 then raw else take_chars 256 raw)"

definition classify_runtime_probe_failure ::
  "env \<Rightarrow> upstream_auth_provider \<Rightarrow> timestamp \<Rightarrow> string \<Rightarrow> string \<Rightarrow>
   account_probe_outcome \<times> string \<times> timestamp option" where
  "classify_runtime_probe_failure env auth_provider checked_at error_code error_message =
     (let normalized_code = normalize_health_error_code error_code;
          normalized_message = to_ascii_lowercase error_message;
          code_or = (\<lambda>alternative. if normalized_code = [] then alternative else normalized_code);
          backoff = (\<lambda>reason. Some (checked_at +
                       seconds (rate_limit_failure_backoff_seconds env reason error_message)))
      in if normalized_code = ''account_deactivated'' \<or> str_contains normalized_message ''account_deactivated''
         then (ProbeFatal, ''account_deactivated'', None)
         else if normalized_code = ''token_invalidated'' \<or> str_contains normalized_message ''token_invalidated''
         then (ProbeFatal, ''token_invalidated'', None)
         else if is_quota_error_signal error_code error_message
         then (ProbeQuota, code_or ''quota_exhausted'', backoff (code_or ''quota_exhausted''))
         else if is_rate_limited_signal error_code error_message
         then (ProbeQuota, code_or ''rate_limited'', backoff (code_or ''rate_limited''))
         else if is_fatal_refresh_error_code (Some error_code) \<or> is_auth_error_signal error_code error_message
         then (ProbeFatal, normalized_auth_failure_reason_code auth_provider error_code error_message, None)
         else if is_transient_upstream_error_signal error_code error_message
         then (ProbeTransient, code_or ''upstream_unavailable'', Some (checked_at + minutes 5))
         else (ProbeTransient, code_or ''upstream_unavailable'', Some (checked_at + minutes 5)))"

end
