(* ===== verification/Pool_Store.thy ===== *)
theory Pool_Store
  imports Pool_Signals
begin

text \<open>
  The account pool of the control plane's in-memory store
  (\<^verbatim>\<open>services/control-plane/src/store/in_memory_core.rs\<close>, the family operations of
  \<^verbatim>\<open>store/family_snapshot.rs\<close> and the runtime probes of \<^verbatim>\<open>store/oauth_ops.rs\<close>): upstream
  accounts with their credentials, session profiles, health states and rate-limit caches, and the
  operations that move an account between \<^const>\<open>PoolActive\<close>, \<^const>\<open>PoolQuarantine\<close> and
  \<^const>\<open>PoolPendingPurge\<close> until it is deleted.

  The record \<open>pool_store\<close> has the fields of \<^verbatim>\<open>InMemoryStore\<close> these operations read or write. Every
  operation takes the time it reads from \<^verbatim>\<open>Utc::now()\<close> as an argument; when one body reads the
  clock several times within one synchronous call, the readings are taken to be the same. A
  \<^verbatim>\<open>Result\<close> is a sum with the error's message on the left, and an operation that fails half-way
  keeps what it has written, as the code does.
\<close>

section \<open>Data\<close>

record oauth_credential_record =
  cr_access_token_enc :: string
  cr_refresh_token_enc :: string
  cr_fallback_access_token_enc :: "string option"
  cr_refresh_token_sha256 :: string
  cr_token_family_id :: string
  cr_token_version :: nat
  cr_token_expires_at :: timestamp
  cr_fallback_token_expires_at :: "timestamp option"
  cr_last_refresh_at :: "timestamp option"
  cr_last_refresh_status :: oauth_refresh_status
  cr_refresh_reused_detected :: bool
  cr_last_refresh_error_code :: "string option"
  cr_last_refresh_error :: "string option"
  cr_refresh_failure_count :: nat
  cr_refresh_backoff_until :: "timestamp option"

text \<open>
  Of a session profile the identity, plan and expiry fields are kept; the descriptive fields that are
  only copied through (subject, residency, subscription dates, organisations and groups) are left out, as
  in \<open>oauth_token_info\<close> below.
\<close>

record session_profile_record =
  sp_credential_kind :: session_credential_kind
  sp_token_expires_at :: "timestamp option"
  sp_email :: "string option"
  sp_chatgpt_plan_type :: "string option"
  sp_chatgpt_user_id :: "string option"
  sp_chatgpt_account_user_id :: "string option"
  sp_workspace_name :: "string option"
  sp_source_type :: "string option"

record upstream_account_health_state_record =
  hs_seen_ok_at :: "timestamp option"
  hs_last_probe_at :: "timestamp option"
  hs_last_probe_outcome :: "account_probe_outcome option"
  hs_last_live_result_at :: "timestamp option"
  hs_last_live_result_status :: "oauth_live_result_status option"
  hs_last_live_result_source :: "oauth_live_result_source option"
  hs_last_live_result_status_code :: "nat option"
  hs_last_live_error_code :: "string option"
  hs_last_live_error_message_preview :: "string option"
  hs_pool_state :: account_pool_state
  hs_quarantine_until :: "timestamp option"
  hs_quarantine_reason :: "string option"
  hs_pending_purge_at :: "timestamp option"
  hs_pending_purge_reason :: "string option"
  hs_last_pool_transition_at :: "timestamp option"
  hs_token_invalidated_strike_count :: nat
  hs_token_invalidated_first_at :: "timestamp option"

definition default_health_state :: upstream_account_health_state_record where
  "default_health_state =
     \<lparr>hs_seen_ok_at = None, hs_last_probe_at = None, hs_last_probe_outcome = None,
      hs_last_live_result_at = None, hs_last_live_result_status = None,
      hs_last_live_result_source = None, hs_last_live_result_status_code = None,
      hs_last_live_error_code = None, hs_last_live_error_message_preview = None,
      hs_pool_state = PoolActive, hs_quarantine_until = None, hs_quarantine_reason = None,
      hs_pending_purge_at = None, hs_pending_purge_reason = None, hs_last_pool_transition_at = None,
      hs_token_invalidated_strike_count = 0, hs_token_invalidated_first_at = None\<rparr>"

record oauth_rate_limit_cache_record =
  rlc_rate_limits :: "oauth_rate_limit_snapshot list"
  rlc_fetched_at :: "timestamp option"
  rlc_expires_at :: "timestamp option"
  rlc_last_error_code :: "string option"
  rlc_last_error :: "string option"

definition default_rate_limit_cache :: oauth_rate_limit_cache_record where
  "default_rate_limit_cache =
     \<lparr>rlc_rate_limits = [], rlc_fetched_at = None, rlc_expires_at = None,
      rlc_last_error_code = None, rlc_last_error = None\<rparr>"

record vault_record =
  va_id :: uuid
  va_label :: string
  va_email :: "string option"
  va_base_url :: string
  va_refresh_token_enc :: string
  va_fallback_access_token_enc :: "string option"
  va_fallback_token_expires_at :: "timestamp option"
  va_refresh_token_sha256 :: string
  va_chatgpt_account_id :: "string option"
  va_chatgpt_plan_type :: "string option"
  va_source_type :: "string option"
  va_desired_mode :: upstream_mode
  va_desired_enabled :: bool
  va_desired_priority :: int
  va_status :: oauth_vault_record_status
  va_failure_count :: nat
  va_backoff_until :: "timestamp option"
  va_next_attempt_at :: "timestamp option"
  va_last_error_code :: "string option"
  va_last_error_message :: "string option"
  va_admission_source :: "string option"
  va_admission_checked_at :: "timestamp option"
  va_admission_retry_after :: "timestamp option"
  va_admission_error_code :: "string option"
  va_admission_error_message :: "string option"
  va_admission_rate_limits :: "oauth_rate_limit_snapshot list"
  va_admission_rate_limits_expires_at :: "timestamp option"
  va_failure_stage :: "oauth_inventory_failure_stage option"
  va_attempt_count :: nat
  va_transient_retry_count :: nat
  va_next_retry_at :: "timestamp option"
  va_retryable :: bool
  va_terminal_reason :: "string option"
  va_created_at :: timestamp
  va_updated_at :: timestamp

text \<open>The fields of a system event that are not constant over the events of the pool.\<close>

datatype system_event_severity = SeverityInfo | SeverityWarn | SeverityError

record system_event =
  se_ts :: timestamp
  se_event_type :: string
  se_severity :: system_event_severity
  se_source :: string
  se_account_id :: "uuid option"
  se_account_label :: "string option"
  se_auth_provider :: "string option"
  se_operator_state_from :: "string option"
  se_operator_state_to :: "string option"
  se_reason_class :: "string option"
  se_reason_code :: "string option"
  se_next_action_at :: "timestamp option"
  se_message :: "string option"

record pool_store =
  ps_accounts :: "(uuid, upstream_account) hash_map"
  ps_auth_providers :: "(uuid, upstream_auth_provider) hash_map"
  ps_credentials :: "(uuid, oauth_credential_record) hash_map"
  ps_vault :: "(uuid, vault_record) hash_map"
  ps_session_profiles :: "(uuid, session_profile_record) hash_map"
  ps_health :: "(uuid, upstream_account_health_state_record) hash_map"
  ps_model_support :: "(uuid, string list) hash_map"
  ps_rate_limit_caches :: "(uuid, oauth_rate_limit_cache_record) hash_map"
  ps_routing_profiles :: "(uuid, routing_profile) hash_map"
  ps_model_routing_policies :: "(uuid, model_routing_policy) hash_map"
  ps_event_runtime :: bool
  ps_events :: "system_event list"
  ps_revision :: u64

section \<open>What the store is built with\<close>

text \<open>
  The errors of the OAuth client (\<^verbatim>\<open>oauth.rs\<close>), with the texts \<^verbatim>\<open>thiserror\<close> derives.
\<close>

datatype oauth_refresh_error_code =
  InvalidRefreshTokenCode | RefreshTokenReused | RefreshTokenRevoked | MissingClientId |
  UnauthorizedClient | OAuthRateLimited | OAuthUpstreamUnavailable | OAuthUnknown

fun oauth_error_code_str :: "oauth_refresh_error_code \<Rightarrow> string" where
  "oauth_error_code_str InvalidRefreshTokenCode = ''invalid_refresh_token''"
| "oauth_error_code_str RefreshTokenReused = ''refresh_token_reused''"
| "oauth_error_code_str RefreshTokenRevoked = ''refresh_token_revoked''"
| "oauth_error_code_str MissingClientId = ''missing_client_id''"
| "oauth_error_code_str UnauthorizedClient = ''unauthorized_client''"
| "oauth_error_code_str OAuthRateLimited = ''rate_limited''"
| "oauth_error_code_str OAuthUpstreamUnavailable = ''upstream_unavailable''"
| "oauth_error_code_str OAuthUnknown = ''unknown_oauth_error''"

datatype oauth_token_client_error =
  NotConfigured
| InvalidRefreshToken oauth_refresh_error_code string
| OAuthUpstream oauth_refresh_error_code string
| OAuthParse

fun oauth_error_code :: "oauth_token_client_error \<Rightarrow> oauth_refresh_error_code" where
  "oauth_error_code NotConfigured = OAuthUnknown"
| "oauth_error_code (InvalidRefreshToken code _) = code"
| "oauth_error_code (OAuthUpstream code _) = code"
| "oauth_error_code OAuthParse = OAuthUnknown"

fun oauth_error_text :: "oauth_token_client_error \<Rightarrow> string" where
  "oauth_error_text NotConfigured = ''oauth token endpoint is not configured''"
| "oauth_error_text (InvalidRefreshToken code message) =
     ''invalid refresh token ('' @ oauth_error_code_str code @ ''): '' @ message"
| "oauth_error_text (OAuthUpstream code message) =
     ''oauth token endpoint error ('' @ oauth_error_code_str code @ ''): '' @ message"
| "oauth_error_text OAuthParse = ''oauth token response parse error''"

record oauth_token_info =
  ti_access_token :: string
  ti_refresh_token :: string
  ti_expires_at :: timestamp
  ti_email :: "string option"
  ti_chatgpt_account_id :: "string option"
  ti_chatgpt_user_id :: "string option"
  ti_chatgpt_plan_type :: "string option"
  ti_chatgpt_account_user_id :: "string option"
  ti_workspace_name :: "string option"

record oauth_usage_snapshot =
  us_rate_limits :: "oauth_rate_limit_snapshot list"
  us_chatgpt_plan_type :: "string option"

text \<open>
  The collaborators are parameters: the environment, the credential cipher (AES-GCM, \<open>None\<close> when no key
  is configured), the HTTP client of the OAuth service, whose replies may depend on the moment of the
  call, the SHA-256 hash of a refresh token, the URL parser (the path of a URL, and a URL with query and
  fragment dropped and the path replaced) and the \<^verbatim>\<open>exp\<close> claim of a JWT's payload segment.
\<close>

record pool_deps =
  pd_env :: env
  pd_encrypt :: "string \<Rightarrow> string + string"
  pd_decrypt :: "string \<Rightarrow> string + string"
  pd_has_cipher :: bool
  pd_refresh_token :: "timestamp \<Rightarrow> string \<Rightarrow> string option \<Rightarrow> oauth_token_client_error + oauth_token_info"
  pd_fetch_rate_limits :: "timestamp \<Rightarrow> string \<Rightarrow> string option \<Rightarrow> string option \<Rightarrow>
                           oauth_token_client_error + oauth_rate_limit_snapshot list"
  pd_fetch_usage :: "timestamp \<Rightarrow> string \<Rightarrow> string option \<Rightarrow> string option \<Rightarrow>
                     oauth_token_client_error + oauth_usage_snapshot"
  pd_fetch_workspace_name :: "timestamp \<Rightarrow> string \<Rightarrow> string option \<Rightarrow> string option \<Rightarrow>
                     oauth_token_client_error + string option"
  pd_refresh_token_sha256 :: "string \<Rightarrow> string"
  pd_url_path :: "string \<Rightarrow> string option"
  pd_url_with_path :: "string \<Rightarrow> string \<Rightarrow> string"
  pd_jwt_exp :: "string \<Rightarrow> int option"

section \<open>Reading and writing single entries\<close>

definition health_of :: "pool_store \<Rightarrow> uuid \<Rightarrow> upstream_account_health_state_record" where
  "health_of s account_id =
     (case map_of (ps_health s) account_id of Some h \<Rightarrow> h | None \<Rightarrow> default_health_state)"

text \<open>\<^verbatim>\<open>states.entry(account_id).or_default()\<close> followed by assignments to its fields.\<close>

definition update_health ::
  "uuid \<Rightarrow> (upstream_account_health_state_record \<Rightarrow> upstream_account_health_state_record) \<Rightarrow>
   pool_store \<Rightarrow> pool_store" where
  "update_health account_id f s =
     s\<lparr>ps_health := hm_insert account_id (f (health_of s account_id)) (ps_health s)\<rparr>"

text \<open>\<^verbatim>\<open>accounts.get_mut(&account_id)\<close> followed by assignments, when the account exists.\<close>

definition update_account :: "uuid \<Rightarrow> (upstream_account \<Rightarrow> upstream_account) \<Rightarrow> pool_store \<Rightarrow> pool_store" where
  "update_account account_id f s =
     (case map_of (ps_accounts s) account_id of
        Some a \<Rightarrow> s\<lparr>ps_accounts := hm_insert account_id (f a) (ps_accounts s)\<rparr>
      | None \<Rightarrow> s)"

definition bump_revision :: "pool_store \<Rightarrow> pool_store" where
  "bump_revision s = s\<lparr>ps_revision := ps_revision s + 1\<rparr>"

definition account_auth_provider :: "pool_store \<Rightarrow> uuid \<Rightarrow> upstream_auth_provider" where
  "account_auth_provider s account_id =
     (case map_of (ps_auth_providers s) account_id of Some p \<Rightarrow> p | None \<Rightarrow> LegacyBearer)"

definition upsert_oauth_credential :: "uuid \<Rightarrow> oauth_credential_record \<Rightarrow> pool_store \<Rightarrow> pool_store" where
  "upsert_oauth_credential account_id credential s =
     s\<lparr>ps_credentials := hm_insert account_id credential (ps_credentials s)\<rparr>"

definition upsert_session_profile :: "uuid \<Rightarrow> session_profile_record \<Rightarrow> pool_store \<Rightarrow> pool_store" where
  "upsert_session_profile account_id profile s =
     s\<lparr>ps_session_profiles := hm_insert account_id profile (ps_session_profiles s)\<rparr>"

definition has_access_token_fallback :: "oauth_credential_record \<Rightarrow> bool" where
  "has_access_token_fallback credential \<longleftrightarrow> cr_fallback_access_token_enc credential \<noteq> None"

text \<open>The \<^verbatim>\<open>?\<close> operator: the rest of the body runs on success only.\<close>

definition and_then :: "(string + 'a) \<times> 's \<Rightarrow> ('a \<Rightarrow> 's \<Rightarrow> (string + 'b) \<times> 's) \<Rightarrow> (string + 'b) \<times> 's" where
  "and_then r f = (case r of (Inl e, s) \<Rightarrow> (Inl e, s) | (Inr x, s) \<Rightarrow> f x s)"

lemma and_then_simps [simp]: "and_then (Inl e, s) f = (Inl e, s)" "and_then (Inr x, s) f = f x s"
  by (simp_all add: and_then_def)

section \<open>System events\<close>

definition emit_system_event_inner :: "system_event \<Rightarrow> pool_store \<Rightarrow> pool_store" where
  "emit_system_event_inner event s =
     (if ps_event_runtime s then s\<lparr>ps_events := ps_events s @ [event]\<rparr> else s)"

definition emit_account_pool_state_transition_inner ::
  "timestamp \<Rightarrow> uuid \<Rightarrow> account_pool_state \<Rightarrow> account_pool_state \<Rightarrow> string option \<Rightarrow> timestamp option \<Rightarrow>
   string \<Rightarrow> string option \<Rightarrow> pool_store \<Rightarrow> pool_store" where
  "emit_account_pool_state_transition_inner now account_id from_state to_state reason_code next_action_at
     source message s =
     (let account = map_of (ps_accounts s) account_id;
          fallback_reason_class =
            (if to_state = PoolActive then ReasonHealthy
             else if to_state = PoolPendingPurge then ReasonFatal else ReasonTransient);
          reason_class = account_pool_reason_class_from_code reason_code fallback_reason_class
      in emit_system_event_inner
           \<lparr>se_ts = now, se_event_type = ''account_pool_state_transition'',
            se_severity = (case reason_class of
                             ReasonHealthy \<Rightarrow> SeverityInfo
                           | ReasonQuota \<Rightarrow> SeverityWarn | ReasonTransient \<Rightarrow> SeverityWarn
                           | ReasonFatal \<Rightarrow> SeverityError | ReasonAdmin \<Rightarrow> SeverityError),
            se_source = source, se_account_id = Some account_id,
            se_account_label = map_option ua_label account,
            se_auth_provider = map_option (\<lambda>_. auth_provider_name (account_auth_provider s account_id)) account,
            se_operator_state_from = Some (account_pool_state_event_name from_state),
            se_operator_state_to = Some (account_pool_state_event_name to_state),
            se_reason_class = Some (account_pool_reason_class_name reason_class),
            se_reason_code = reason_code, se_next_action_at = next_action_at, se_message = message\<rparr> s)"

definition emit_account_deleted_inner ::
  "timestamp \<Rightarrow> uuid \<Rightarrow> string \<Rightarrow> upstream_auth_provider \<Rightarrow> string option \<Rightarrow> string \<Rightarrow> pool_store \<Rightarrow> pool_store" where
  "emit_account_deleted_inner now account_id account_label auth_provider reason_code source s =
     (let reason_class = account_pool_reason_class_from_code reason_code ReasonFatal
      in emit_system_event_inner
           \<lparr>se_ts = now, se_event_type = ''account_deleted'', se_severity = SeverityError,
            se_source = source, se_account_id = Some account_id, se_account_label = Some account_label,
            se_auth_provider = Some (auth_provider_name auth_provider),
            se_operator_state_from = Some ''pending_delete'', se_operator_state_to = None,
            se_reason_class = Some (account_pool_reason_class_name reason_class),
            se_reason_code = reason_code, se_next_action_at = None,
            se_message = Some ''account deleted from pool''\<rparr> s)"

fun probe_event_class ::
  "account_probe_outcome \<Rightarrow> string \<times> system_event_severity \<times> account_pool_reason_class" where
  "probe_event_class ProbeOk = (''probe_succeeded'', SeverityInfo, ReasonHealthy)"
| "probe_event_class ProbeQuota = (''probe_failed'', SeverityWarn, ReasonQuota)"
| "probe_event_class ProbeFatal = (''probe_failed'', SeverityError, ReasonFatal)"
| "probe_event_class ProbeTransient = (''probe_failed'', SeverityWarn, ReasonTransient)"

definition emit_probe_result_event_inner ::
  "string \<Rightarrow> uuid \<Rightarrow> timestamp \<Rightarrow> account_probe_outcome \<Rightarrow> string option \<Rightarrow> timestamp option \<Rightarrow>
   string option \<Rightarrow> pool_store \<Rightarrow> pool_store" where
  "emit_probe_result_event_inner source account_id checked_at outcome reason_code next_action_at message s =
     (let account = map_of (ps_accounts s) account_id;
          (event_type, severity, reason_class) = probe_event_class outcome
      in emit_system_event_inner
           \<lparr>se_ts = checked_at, se_event_type = event_type, se_severity = severity,
            se_source = source, se_account_id = Some account_id,
            se_account_label = map_option ua_label account,
            se_auth_provider = map_option (\<lambda>_. auth_provider_name (account_auth_provider s account_id)) account,
            se_operator_state_from = None, se_operator_state_to = None,
            se_reason_class = Some (account_pool_reason_class_name reason_class),
            se_reason_code = reason_code, se_next_action_at = next_action_at, se_message = message\<rparr> s)"

section \<open>Pool states\<close>

definition set_account_pool_state_active_inner :: "uuid \<Rightarrow> timestamp \<Rightarrow> timestamp \<Rightarrow> pool_store \<Rightarrow> pool_store" where
  "set_account_pool_state_active_inner account_id at_time now s =
     (let h = health_of s account_id;
          should_emit = hs_pool_state h \<noteq> PoolActive \<or> hs_quarantine_reason h \<noteq> None \<or>
                        hs_pending_purge_reason h \<noteq> None;
          s1 = update_health account_id
                 (\<lambda>h. h\<lparr>hs_pool_state := PoolActive, hs_quarantine_until := None, hs_quarantine_reason := None,
                        hs_pending_purge_at := None, hs_pending_purge_reason := None,
                        hs_last_pool_transition_at := Some at_time\<rparr>) s
      in if should_emit
         then emit_account_pool_state_transition_inner now account_id (hs_pool_state h) PoolActive None None
                ''control_plane.account_pool'' (Some ''account returned to routable state'') s1
         else s1)"

definition set_account_pool_state_quarantine_inner ::
  "uuid \<Rightarrow> timestamp \<Rightarrow> timestamp option \<Rightarrow> string option \<Rightarrow> timestamp \<Rightarrow> pool_store \<Rightarrow>
   (string + unit) \<times> pool_store" where
  "set_account_pool_state_quarantine_inner account_id at_time until reason now s =
     (if map_of (ps_accounts s) account_id = None then (Inl ''upstream account not found'', s)
      else let normalized_reason = Option.bind reason trim_nonempty;
               h = health_of s account_id;
               should_emit = hs_pool_state h \<noteq> PoolQuarantine \<or> hs_quarantine_reason h \<noteq> normalized_reason \<or>
                             hs_quarantine_until h \<noteq> until;
               s1 = update_health account_id
                      (\<lambda>h. h\<lparr>hs_pool_state := PoolQuarantine, hs_quarantine_until := until,
                             hs_quarantine_reason := normalized_reason,
                             hs_pending_purge_at := None, hs_pending_purge_reason := None,
                             hs_last_pool_transition_at := Some at_time\<rparr>) s;
               s2 = (if should_emit
                     then emit_account_pool_state_transition_inner now account_id (hs_pool_state h)
                            PoolQuarantine normalized_reason until ''control_plane.account_pool''
                            (Some ''account entered cooling state'') s1
                     else s1)
           in (Inr (), bump_revision s2))"

definition mark_upstream_account_pending_purge_inner ::
  "pool_deps \<Rightarrow> uuid \<Rightarrow> string option \<Rightarrow> timestamp \<Rightarrow> pool_store \<Rightarrow> (string + upstream_account) \<times> pool_store" where
  "mark_upstream_account_pending_purge_inner d account_id reason now s =
     (case map_of (ps_accounts s) account_id of
        None \<Rightarrow> (Inl ''upstream account not found'', s)
      | Some account \<Rightarrow>
          let pending_purge_at = now + seconds (pending_purge_delay_sec_from_env (pd_env d));
              normalized_reason = Option.bind reason trim_nonempty;
              updated = account\<lparr>ua_enabled := False\<rparr>;
              s1 = s\<lparr>ps_accounts := hm_insert account_id updated (ps_accounts s)\<rparr>;
              h = health_of s1 account_id;
              scheduled_at = (case hs_pending_purge_at h of
                                Some existing \<Rightarrow> if existing > now then existing else pending_purge_at
                              | None \<Rightarrow> pending_purge_at);
              should_emit = hs_pool_state h \<noteq> PoolPendingPurge \<or>
                            hs_pending_purge_reason h \<noteq> normalized_reason \<or>
                            hs_pending_purge_at h \<noteq> Some scheduled_at;
              s2 = update_health account_id
                     (\<lambda>h. h\<lparr>hs_pool_state := PoolPendingPurge, hs_quarantine_until := None,
                            hs_quarantine_reason := None, hs_pending_purge_at := Some scheduled_at,
                            hs_pending_purge_reason :=
                              (case normalized_reason of Some r \<Rightarrow> Some r | None \<Rightarrow> hs_pending_purge_reason h),
                            hs_last_pool_transition_at := Some now\<rparr>) s1;
              s3 = (if should_emit
                    then emit_account_pool_state_transition_inner now account_id (hs_pool_state h)
                           PoolPendingPurge normalized_reason (Some scheduled_at) ''control_plane.account_pool''
                           (Some ''account scheduled for deletion'') s2
                    else s2)
          in (Inr updated, bump_revision s3))"

text \<open>Reading the state of an account ends a quarantine whose time is over.\<close>

definition account_pool_state_record_inner ::
  "timestamp \<Rightarrow> uuid \<Rightarrow> pool_store \<Rightarrow> upstream_account_health_state_record \<times> pool_store" where
  "account_pool_state_record_inner now account_id s =
     (let release = (\<lambda>h. if hs_pool_state h = PoolQuarantine \<and>
                            (case hs_quarantine_until h of Some u \<Rightarrow> u \<le> now | None \<Rightarrow> False)
                         then h\<lparr>hs_pool_state := PoolActive, hs_quarantine_until := None,
                                hs_quarantine_reason := None, hs_last_pool_transition_at := Some now\<rparr>
                         else h);
          s1 = update_health account_id release s
      in (health_of s1 account_id, s1))"

section \<open>Accounts\<close>

record create_upstream_account_request =
  cua_label :: string
  cua_mode :: upstream_mode
  cua_base_url :: string
  cua_bearer_token :: string
  cua_chatgpt_account_id :: "string option"
  cua_enabled :: "bool option"
  cua_priority :: "int option"

definition trim_base_url :: "string \<Rightarrow> string" where
  "trim_base_url raw = trim_end_matches (CHR ''/'') (trim raw)"

text \<open>\<^verbatim>\<open>trim_end_matches("/v1")\<close> removes every trailing occurrence.\<close>

definition trim_end_matches_str :: "string \<Rightarrow> string \<Rightarrow> string" where
  "trim_end_matches_str p s = rev (strip_front [rev p] (rev s))"

definition codex_account_base_path :: string where
  "codex_account_base_path = ''/backend-api/codex''"

definition normalize_upstream_account_base_url :: "pool_deps \<Rightarrow> upstream_mode \<Rightarrow> string \<Rightarrow> string" where
  "normalize_upstream_account_base_url d mode raw =
     (let trimmed = trim_base_url raw in
      if mode \<noteq> ChatGptSession \<and> mode \<noteq> CodexOauth then trimmed
      else if trimmed = [] then ''https://chatgpt.com/backend-api/codex''
      else case pd_url_path d trimmed of
             None \<Rightarrow> trimmed
           | Some path \<Rightarrow>
               let current_path = trim_end_matches (CHR ''/'') path;
                   normalized_path =
                     (if current_path = [] \<or> current_path = ''/'' \<or> current_path = ''/v1''
                      then codex_account_base_path
                      else if suffix codex_account_base_path current_path then current_path
                      else if suffix ''/v1'' current_path
                      then trim_end_matches_str ''/v1'' current_path @ codex_account_base_path
                      else current_path @ codex_account_base_path)
               in trim_base_url (pd_url_with_path d trimmed normalized_path))"

definition create_upstream_account_inner ::
  "pool_deps \<Rightarrow> uuid \<Rightarrow> timestamp \<Rightarrow> create_upstream_account_request \<Rightarrow> pool_store \<Rightarrow> upstream_account \<times> pool_store" where
  "create_upstream_account_inner d new_id now req s =
     (let account =
            \<lparr>ua_id = new_id, ua_label = cua_label req, ua_mode = cua_mode req,
             ua_base_url = normalize_upstream_account_base_url d (cua_mode req) (cua_base_url req),
             ua_bearer_token = cua_bearer_token req, ua_chatgpt_account_id = cua_chatgpt_account_id req,
             ua_enabled = (case cua_enabled req of Some b \<Rightarrow> b | None \<Rightarrow> True),
             ua_priority = (case cua_priority req of Some p \<Rightarrow> p | None \<Rightarrow> 100),
             ua_created_at = now\<rparr>
      in (account,
          bump_revision
            (s\<lparr>ps_accounts := hm_insert new_id account (ps_accounts s),
               ps_auth_providers := hm_insert new_id LegacyBearer (ps_auth_providers s)\<rparr>)))"

definition expired_one_time_ids :: "timestamp \<Rightarrow> pool_store \<Rightarrow> uuid list" where
  "expired_one_time_ids now s =
     List.map_filter
       (\<lambda>(account_id, profile).
          if sp_credential_kind profile \<noteq> OneTimeAccessToken then None
          else case sp_token_expires_at profile of
                 None \<Rightarrow> None
               | Some expires_at \<Rightarrow> if expires_at \<le> now then Some account_id else None)
       (ps_session_profiles s)"

definition remove_one_time_account :: "uuid \<Rightarrow> pool_store \<Rightarrow> pool_store" where
  "remove_one_time_account account_id s =
     s\<lparr>ps_accounts := hm_remove account_id (ps_accounts s),
       ps_auth_providers := hm_remove account_id (ps_auth_providers s),
       ps_credentials := hm_remove account_id (ps_credentials s),
       ps_session_profiles := hm_remove account_id (ps_session_profiles s),
       ps_rate_limit_caches := hm_remove account_id (ps_rate_limit_caches s)\<rparr>"

definition purge_expired_one_time_accounts_inner :: "timestamp \<Rightarrow> pool_store \<Rightarrow> pool_store" where
  "purge_expired_one_time_accounts_inner clock s =
     (let now = clock + seconds oauth_min_valid_sec;
          expired_ids = expired_one_time_ids now s
      in if expired_ids = [] then s
         else bump_revision (fold remove_one_time_account expired_ids s))"

definition list_upstream_accounts_inner :: "timestamp \<Rightarrow> pool_store \<Rightarrow> upstream_account list \<times> pool_store" where
  "list_upstream_accounts_inner now s =
     (let s1 = purge_expired_one_time_accounts_inner now s in (map snd (ps_accounts s1), s1))"

definition set_upstream_account_enabled_inner ::
  "uuid \<Rightarrow> bool \<Rightarrow> timestamp \<Rightarrow> pool_store \<Rightarrow> (string + upstream_account) \<times> pool_store" where
  "set_upstream_account_enabled_inner account_id enabled now s =
     (case map_of (ps_accounts s) account_id of
        None \<Rightarrow> (Inl ''upstream account not found'', s)
      | Some account \<Rightarrow>
          let updated = account\<lparr>ua_enabled := enabled\<rparr>;
              s1 = s\<lparr>ps_accounts := hm_insert account_id updated (ps_accounts s)\<rparr>;
              s2 = (if enabled then set_account_pool_state_active_inner account_id now now s1 else s1)
          in (Inr updated, bump_revision s2))"

definition delete_upstream_account_inner ::
  "uuid \<Rightarrow> timestamp \<Rightarrow> pool_store \<Rightarrow> (string + unit) \<times> pool_store" where
  "delete_upstream_account_inner account_id now s =
     (case map_of (ps_accounts s) account_id of
        None \<Rightarrow> (Inl ''upstream account not found'', s)
      | Some deleted \<Rightarrow>
          let auth_provider = account_auth_provider s account_id;
              pending_reason = Option.bind (map_of (ps_health s) account_id) hs_pending_purge_reason;
              s1 = s\<lparr>ps_accounts := hm_remove account_id (ps_accounts s),
                     ps_auth_providers := hm_remove account_id (ps_auth_providers s),
                     ps_credentials := hm_remove account_id (ps_credentials s),
                     ps_session_profiles := hm_remove account_id (ps_session_profiles s),
                     ps_health := hm_remove account_id (ps_health s),
                     ps_rate_limit_caches := hm_remove account_id (ps_rate_limit_caches s)\<rparr>;
              s2 = emit_account_deleted_inner now account_id (ua_label deleted) auth_provider pending_reason
                     ''control_plane.account_pool'' s1
          in (Inr (), bump_revision s2))"

end
