(* ===== verification/Pool_Health.thy ===== *)
theory Pool_Health
  imports Pool_Store
begin

text \<open>
  What the pool learns about its accounts (\<^verbatim>\<open>store/in_memory_core.rs\<close>,
  \<^verbatim>\<open>store/family_snapshot.rs\<close> and the probes of \<^verbatim>\<open>store/oauth_ops.rs\<close>): live results reported
  by the data plane, probes and patrols of the control plane, the rate-limit caches both fill, the
  purge of accounts whose deletion is due, and the operations on a whole family of tokens.
\<close>

section \<open>Live results\<close>

definition mark_account_seen_ok_inner ::
  "uuid \<Rightarrow> timestamp \<Rightarrow> int \<Rightarrow> pool_store \<Rightarrow> bool \<times> pool_store" where
  "mark_account_seen_ok_inner account_id seen_ok_at min_write_interval_sec s =
     (let h = health_of s account_id;
          min_interval = seconds (max min_write_interval_sec 0)
      in if (case hs_seen_ok_at h of Some previous \<Rightarrow> seen_ok_at - min_interval \<le> previous | None \<Rightarrow> False)
         then (False, update_health account_id id s)
         else (True, update_health account_id
                 (\<lambda>h. h\<lparr>hs_seen_ok_at := Some (case hs_seen_ok_at h of
                                                Some previous \<Rightarrow> max previous seen_ok_at
                                              | None \<Rightarrow> seen_ok_at),
                        hs_token_invalidated_strike_count := 0,
                        hs_token_invalidated_first_at := None\<rparr>) s))"

definition reset_token_invalidated_strikes_inner :: "uuid \<Rightarrow> pool_store \<Rightarrow> pool_store" where
  "reset_token_invalidated_strikes_inner account_id s =
     update_health account_id
       (\<lambda>h. h\<lparr>hs_token_invalidated_strike_count := 0, hs_token_invalidated_first_at := None\<rparr>) s"

text \<open>The strike counter is a \<^verbatim>\<open>u32\<close> with saturating addition.\<close>

definition sat_succ_u32 :: "nat \<Rightarrow> nat" where
  "sat_succ_u32 n = min (n + 1) 4294967295"

definition record_token_invalidated_strike_inner ::
  "pool_deps \<Rightarrow> uuid \<Rightarrow> timestamp \<Rightarrow> pool_store \<Rightarrow> (string + bool) \<times> pool_store" where
  "record_token_invalidated_strike_inner d account_id reported_at s =
     (if map_of (ps_accounts s) account_id = None then (Inl ''upstream account not found'', s)
      else let threshold = token_invalidated_purge_threshold_for_provider (pd_env d)
                             (account_auth_provider s account_id);
               window = seconds (token_invalidated_purge_window_sec_from_env (pd_env d));
               strike = (\<lambda>h.
                 if (case hs_token_invalidated_first_at h of
                       Some first_at \<Rightarrow> reported_at \<le> first_at + window
                     | None \<Rightarrow> False)
                 then h\<lparr>hs_token_invalidated_strike_count :=
                          max (sat_succ_u32 (hs_token_invalidated_strike_count h)) 1\<rparr>
                 else h\<lparr>hs_token_invalidated_first_at := Some reported_at,
                        hs_token_invalidated_strike_count := 1\<rparr>);
               s1 = update_health account_id strike s
           in (Inr (threshold \<le> hs_token_invalidated_strike_count (health_of s1 account_id)), s1))"

definition runtime_pool_account_count_inner :: "pool_store \<Rightarrow> nat" where
  "runtime_pool_account_count_inner s = length (ps_accounts s)"

definition normalize_live_error_code :: "string option \<Rightarrow> string option" where
  "normalize_live_error_code error_code =
     Option.bind error_code
       (\<lambda>value. let normalized = map (\<lambda>c. if c = CHR '' '' \<or> c = CHR ''-'' then CHR ''_'' else c)
                                   (to_ascii_lowercase (trim value))
                in if normalized = [] then None else Some normalized)"

definition note_live_result ::
  "timestamp \<Rightarrow> oauth_live_result_status \<Rightarrow> oauth_live_result_source \<Rightarrow> nat option \<Rightarrow> string option \<Rightarrow>
   string option \<Rightarrow> upstream_account_health_state_record \<Rightarrow> upstream_account_health_state_record" where
  "note_live_result reported_at status source status_code error_code error_message h =
     h\<lparr>hs_last_live_result_at := Some reported_at, hs_last_live_result_status := Some status,
       hs_last_live_result_source := Some source,
       hs_last_live_result_status_code :=
         Option.bind status_code (\<lambda>code. if 200 \<le> code \<and> code < 600 then Some code else None),
       hs_last_live_error_code := (if status = LiveFailed then error_code else None),
       hs_last_live_error_message_preview := (if status = LiveFailed then error_message else None)\<rparr>"

definition record_upstream_account_live_result_inner ::
  "pool_deps \<Rightarrow> uuid \<Rightarrow> timestamp \<Rightarrow> oauth_live_result_status \<Rightarrow> oauth_live_result_source \<Rightarrow> nat option \<Rightarrow>
   string option \<Rightarrow> string option \<Rightarrow> timestamp \<Rightarrow> pool_store \<Rightarrow> (string + bool) \<times> pool_store" where
  "record_upstream_account_live_result_inner d account_id reported_at status source status_code error_code
     error_message_preview now s =
     (if map_of (ps_accounts s) account_id = None then (Inl ''upstream account not found'', s)
      else
      let code = normalize_live_error_code error_code;
          message = map_option truncate_error_message (Option.bind error_message_preview trim_nonempty);
          s1 = update_health account_id
                 (note_live_result reported_at status source status_code code message) s;
          quarantine = (\<lambda>until reason s.
            and_then (set_account_pool_state_quarantine_inner account_id reported_at (Some until) reason now s)
              (\<lambda>_ s. (Inr True, s)));
          pending_purge = (\<lambda>reason s.
            and_then (mark_upstream_account_pending_purge_inner d account_id (Some reason) now s)
              (\<lambda>_ s. (Inr True, s)));
          reset = reset_token_invalidated_strikes_inner account_id;
          result =
            (case status of
               LiveOk \<Rightarrow>
                 (Inr True,
                  set_account_pool_state_active_inner account_id reported_at now
                    (snd (mark_account_seen_ok_inner account_id reported_at 0 s1)))
             | LiveFailed \<Rightarrow>
                 if code = Some ''account_deactivated'' then pending_purge ''account_deactivated'' (reset s1)
                 else if code = Some ''rate_limited'' \<or> code = Some ''quota_exhausted''
                 then quarantine (reported_at +
                        seconds (rate_limit_failure_backoff_seconds (pd_env d) (the code) [])) code (reset s1)
                 else if code = Some ''auth_expired''
                 then quarantine (reported_at + minutes 30) code (reset s1)
                 else if code = Some ''token_invalidated''
                 then and_then (record_token_invalidated_strike_inner d account_id reported_at s1)
                        (\<lambda>purge s2. if purge then pending_purge ''token_invalidated'' s2
                                   else quarantine (reported_at + minutes 30) code s2)
                 else (Inr False, reset s1))
      in and_then result (\<lambda>accepted s'. (Inr accepted, bump_revision s')))"

section \<open>Deletion of due accounts\<close>

text \<open>
  The candidates are the health states in pending purge that are due, ordered by due time (absent first),
  time of the transition and identifier.
\<close>

definition purge_due :: "timestamp \<Rightarrow> upstream_account_health_state_record \<Rightarrow> bool" where
  "purge_due now h \<longleftrightarrow>
     hs_pool_state h = PoolPendingPurge \<and>
     \<not> (case hs_pending_purge_at h of Some t \<Rightarrow> t > now | None \<Rightarrow> False)"

definition pending_purge_due_account_ids_inner :: "timestamp \<Rightarrow> nat \<Rightarrow> pool_store \<Rightarrow> uuid list" where
  "pending_purge_due_account_ids_inner now limit s =
     map fst (take limit
       (sort_key (\<lambda>(account_id, at_time, transition_at). (at_time, transition_at, account_id))
         (List.map_filter
           (\<lambda>(account_id, h). if purge_due now h
                              then Some (account_id, hs_pending_purge_at h, hs_last_pool_transition_at h)
                              else None)
           (ps_health s))))"

fun delete_accounts :: "timestamp \<Rightarrow> uuid list \<Rightarrow> nat \<Rightarrow> pool_store \<Rightarrow> nat \<times> pool_store" where
  "delete_accounts now [] purged s = (purged, s)"
| "delete_accounts now (account_id # ids) purged s =
     (case delete_upstream_account_inner account_id now s of
        (Inr _, s1) \<Rightarrow> delete_accounts now ids (purged + 1) s1
      | (Inl _, s1) \<Rightarrow> delete_accounts now ids purged s1)"

definition purge_pending_upstream_accounts_inner ::
  "pool_deps \<Rightarrow> timestamp \<Rightarrow> pool_store \<Rightarrow> nat \<times> pool_store" where
  "purge_pending_upstream_accounts_inner d now s =
     (let candidates = pending_purge_due_account_ids_inner now
                         (pending_purge_batch_size_from_env (pd_env d)) s;
          (purged, s1) = delete_accounts now candidates 0 s
      in (purged,
          if purged > 0
          then emit_system_event_inner
                 \<lparr>se_ts = now, se_event_type = ''pending_delete_batch_completed'',
                  se_severity = SeverityInfo, se_source = ''control_plane.pending_delete'',
                  se_account_id = None, se_account_label = None, se_auth_provider = None,
                  se_operator_state_from = None, se_operator_state_to = None,
                  se_reason_class = Some ''cleanup'',
                  se_reason_code = Some ''pending_delete_batch_completed'', se_next_action_at = None,
                  se_message = Some (''pending delete loop removed '' @ to_decimal purged @ '' accounts'')\<rparr> s1
          else s1))"

section \<open>Token families\<close>

definition family_account_ids :: "string \<Rightarrow> pool_store \<Rightarrow> uuid list" where
  "family_account_ids family_id s =
     List.map_filter (\<lambda>(account_id, credential).
       if cr_token_family_id credential = family_id then Some account_id else None) (ps_credentials s)"

definition mark_oauth_family_pending_purge_inner ::
  "pool_deps \<Rightarrow> string \<Rightarrow> string option \<Rightarrow> timestamp \<Rightarrow> pool_store \<Rightarrow> pool_store" where
  "mark_oauth_family_pending_purge_inner d family_id reason now s =
     fold (\<lambda>account_id s. snd (mark_upstream_account_pending_purge_inner d account_id reason now s))
       (family_account_ids family_id s) s"

definition clear_refresh_failure :: "uuid \<Rightarrow> pool_store \<Rightarrow> pool_store" where
  "clear_refresh_failure account_id s =
     (case map_of (ps_credentials s) account_id of
        Some credential \<Rightarrow>
          upsert_oauth_credential account_id
            (credential\<lparr>cr_refresh_reused_detected := False, cr_refresh_backoff_until := None\<rparr>) s
      | None \<Rightarrow> s)"

definition set_enabled_counting :: "bool \<Rightarrow> uuid \<Rightarrow> nat \<times> pool_store \<Rightarrow> nat \<times> pool_store" where
  "set_enabled_counting enabled account_id acc =
     (case map_of (ps_accounts (snd acc)) account_id of
        Some account \<Rightarrow>
          if ua_enabled account \<noteq> enabled
          then (fst acc + 1, update_account account_id (\<lambda>a. a\<lparr>ua_enabled := enabled\<rparr>) (snd acc))
          else acc
      | None \<Rightarrow> acc)"

definition disable_or_enable_oauth_family ::
  "string \<Rightarrow> bool \<Rightarrow> timestamp \<Rightarrow> pool_store \<Rightarrow> nat \<times> pool_store" where
  "disable_or_enable_oauth_family family_id enabled now s =
     (let account_ids = family_account_ids family_id s in
      if account_ids = [] then (0, s)
      else let s1 = (if enabled then fold clear_refresh_failure account_ids s else s);
               (affected, s2) = fold (set_enabled_counting enabled) account_ids (0, s1);
               s3 = (if enabled
                     then fold (\<lambda>account_id. set_account_pool_state_active_inner account_id now now)
                            account_ids s2
                     else s2)
           in (affected, s3))"

definition set_oauth_family_enabled_inner ::
  "uuid \<Rightarrow> bool \<Rightarrow> timestamp \<Rightarrow> pool_store \<Rightarrow> (string + (uuid \<times> string \<times> bool \<times> nat)) \<times> pool_store" where
  "set_oauth_family_enabled_inner account_id enabled now s =
     (if account_auth_provider s account_id \<noteq> OAuthRefreshToken
      then (Inl ''account is not an oauth account'', s)
      else case map_of (ps_credentials s) account_id of
             None \<Rightarrow> (Inl ''oauth credential not found'', s)
           | Some target \<Rightarrow>
               let family_id = cr_token_family_id target;
                   (affected, s1) = disable_or_enable_oauth_family family_id enabled now s;
                   s2 = (if affected > 0 then bump_revision s1 else s1)
               in (Inr (account_id, family_id, enabled, affected), s2))"

section \<open>Rate-limit caches\<close>

definition cache_of :: "pool_store \<Rightarrow> uuid \<Rightarrow> oauth_rate_limit_cache_record" where
  "cache_of s account_id =
     (case map_of (ps_rate_limit_caches s) account_id of Some c \<Rightarrow> c | None \<Rightarrow> default_rate_limit_cache)"

definition persist_rate_limit_cache_success_inner ::
  "pool_deps \<Rightarrow> uuid \<Rightarrow> oauth_rate_limit_snapshot list \<Rightarrow> timestamp \<Rightarrow> string option \<Rightarrow> pool_store \<Rightarrow> pool_store" where
  "persist_rate_limit_cache_success_inner d account_id rate_limits fetched_at chatgpt_plan_type s =
     (let (blocked_until, block_reason) = derive_rate_limit_block rate_limits fetched_at;
          expires_at = (case blocked_until of
                          Some t \<Rightarrow> t
                        | None \<Rightarrow> fetched_at + seconds (rate_limit_cache_ttl_sec_from_env (pd_env d)));
          s1 = s\<lparr>ps_rate_limit_caches := hm_insert account_id
                   \<lparr>rlc_rate_limits = rate_limits, rlc_fetched_at = Some fetched_at,
                    rlc_expires_at = Some expires_at, rlc_last_error_code = block_reason,
                    rlc_last_error = map_option rate_limit_block_message block_reason\<rparr>
                   (ps_rate_limit_caches s)\<rparr>;
          s2 = (case (Option.bind chatgpt_plan_type trim_nonempty, map_of (ps_session_profiles s1) account_id) of
                  (Some plan_type, Some profile) \<Rightarrow>
                    upsert_session_profile account_id (profile\<lparr>sp_chatgpt_plan_type := Some plan_type\<rparr>) s1
                | _ \<Rightarrow> s1)
      in bump_revision s2)"

definition persist_rate_limit_cache_failure_inner ::
  "pool_deps \<Rightarrow> uuid \<Rightarrow> string \<Rightarrow> string \<Rightarrow> timestamp \<Rightarrow> pool_store \<Rightarrow> string \<times> pool_store" where
  "persist_rate_limit_cache_failure_inner d account_id error_code error_message now s =
     (let backoff_sec = rate_limit_failure_backoff_seconds (pd_env d) error_code error_message;
          truncated_message = truncate_error_message error_message;
          normalized_error_code =
            (if is_auth_error_signal error_code error_message
             then normalized_auth_failure_reason_code (account_auth_provider s account_id) error_code error_message
             else error_code);
          cache = cache_of s account_id;
          cache' = cache\<lparr>rlc_fetched_at := (if rlc_rate_limits cache = [] then None else rlc_fetched_at cache),
                         rlc_expires_at := Some (now + seconds backoff_sec),
                         rlc_last_error_code := Some normalized_error_code,
                         rlc_last_error := Some truncated_message\<rparr>
      in (normalized_error_code,
          bump_revision (s\<lparr>ps_rate_limit_caches := hm_insert account_id cache' (ps_rate_limit_caches s)\<rparr>)))"

section \<open>Probes and patrols\<close>

datatype rate_limit_token_source = EncryptedAccessToken string | BearerToken string

definition build_live_rate_limit_token_source_inner ::
  "upstream_account \<Rightarrow> upstream_auth_provider \<Rightarrow> oauth_credential_record option \<Rightarrow>
   session_profile_record option \<Rightarrow> timestamp \<Rightarrow> rate_limit_token_source option" where
  "build_live_rate_limit_token_source_inner account provider credential session_profile now =
     (if \<not> ua_enabled account then None
      else case provider of
        OAuthRefreshToken \<Rightarrow>
          (case credential of
             None \<Rightarrow> None
           | Some c \<Rightarrow>
               if cr_token_expires_at c \<le> now + seconds oauth_min_valid_sec then None
               else if cr_refresh_reused_detected c then None
               else if cr_last_refresh_status c = RefreshFailed \<and>
                       is_fatal_refresh_error_code (cr_last_refresh_error_code c) then None
               else Some (EncryptedAccessToken (cr_access_token_enc c)))
      | LegacyBearer \<Rightarrow>
          (case session_profile of
             None \<Rightarrow> None
           | Some profile \<Rightarrow>
               if ua_mode account \<noteq> CodexOauth then None
               else if sp_credential_kind profile \<noteq> OneTimeAccessToken then None
               else case sp_token_expires_at profile of
                      None \<Rightarrow> None
                    | Some token_expires_at \<Rightarrow>
                        if token_expires_at \<le> now + seconds oauth_min_valid_sec then None
                        else map_option BearerToken (trim_nonempty (ua_bearer_token account))))"

definition record_account_probe_result_inner ::
  "uuid \<Rightarrow> timestamp \<Rightarrow> account_probe_outcome \<Rightarrow> pool_store \<Rightarrow> pool_store" where
  "record_account_probe_result_inner account_id checked_at outcome s =
     update_health account_id
       (\<lambda>h. h\<lparr>hs_last_probe_at := Some checked_at, hs_last_probe_outcome := Some outcome\<rparr>) s"

text \<open>What a probe with a usable access token does with the reply of the usage endpoint.\<close>

definition settle_runtime_probe ::
  "pool_deps \<Rightarrow> uuid \<Rightarrow> string \<Rightarrow> string \<Rightarrow> string \<Rightarrow> timestamp \<Rightarrow> upstream_auth_provider \<Rightarrow>
   oauth_token_client_error + oauth_usage_snapshot \<Rightarrow> pool_store \<Rightarrow> (string + account_probe_outcome) \<times> pool_store" where
  "settle_runtime_probe d account_id source success_message quota_message checked_at provider reply s =
     (case reply of
        Inr usage \<Rightarrow>
          let (blocked_until, block_reason) = derive_rate_limit_block (us_rate_limits usage) checked_at;
              s1 = persist_rate_limit_cache_success_inner d account_id (us_rate_limits usage) checked_at
                     (us_chatgpt_plan_type usage) s
          in (case block_reason of
                Some reason_code \<Rightarrow>
                  let s2 = record_account_probe_result_inner account_id checked_at ProbeQuota s1;
                      s3 = emit_probe_result_event_inner source account_id checked_at ProbeQuota
                             (Some reason_code) blocked_until (Some quota_message) s2
                  in and_then (set_account_pool_state_quarantine_inner account_id checked_at blocked_until
                                 (Some reason_code) checked_at s3)
                       (\<lambda>_ s. (Inr ProbeQuota, s))
              | None \<Rightarrow>
                  let s2 = record_account_probe_result_inner account_id checked_at ProbeOk s1;
                      s3 = emit_probe_result_event_inner source account_id checked_at ProbeOk None None
                             (Some success_message) s2
                  in (Inr ProbeOk, set_account_pool_state_active_inner account_id checked_at checked_at s3))
      | Inl err \<Rightarrow>
          let error_code = oauth_error_code_str (oauth_error_code err);
              error_message = truncate_error_message (oauth_error_text err);
              s1 = snd (persist_rate_limit_cache_failure_inner d account_id error_code error_message checked_at s);
              (outcome, reason_code, retry_after) =
                classify_runtime_probe_failure (pd_env d) provider checked_at error_code error_message;
              s2 = record_account_probe_result_inner account_id checked_at outcome s1;
              s3 = emit_probe_result_event_inner source account_id checked_at outcome (Some reason_code)
                     retry_after (Some error_message) s2
          in (case outcome of
                ProbeOk \<Rightarrow> (Inr outcome, set_account_pool_state_active_inner account_id checked_at checked_at s3)
              | ProbeFatal \<Rightarrow>
                  and_then (mark_upstream_account_pending_purge_inner d account_id (Some reason_code) checked_at s3)
                    (\<lambda>_ s. (Inr outcome, s))
              | _ \<Rightarrow>
                  and_then (set_account_pool_state_quarantine_inner account_id checked_at retry_after
                              (Some reason_code) checked_at s3)
                    (\<lambda>_ s. (Inr outcome, s))))"

definition probe_runtime_oauth_account_inner ::
  "pool_deps \<Rightarrow> uuid \<Rightarrow> string \<Rightarrow> string \<Rightarrow> string \<Rightarrow> string \<Rightarrow> timestamp \<Rightarrow> pool_store \<Rightarrow>
   (string + account_probe_outcome) \<times> pool_store" where
  "probe_runtime_oauth_account_inner d account_id source success_message quota_message
     decrypt_failure_message now s =
     (case map_of (ps_accounts s) account_id of
        None \<Rightarrow> (Inl ''account not found'', s)
      | Some account \<Rightarrow>
          let provider = account_auth_provider s account_id;
              probe_with = (\<lambda>access_token.
                settle_runtime_probe d account_id source success_message quota_message now provider
                  (pd_fetch_usage d now access_token (Some (ua_base_url account)) (ua_chatgpt_account_id account)) s)
          in (case build_live_rate_limit_token_source_inner account provider
                     (map_of (ps_credentials s) account_id) (map_of (ps_session_profiles s) account_id) now of
                None \<Rightarrow> (Inl ''unsupported account pool action'', s)
              | Some (BearerToken access_token) \<Rightarrow> probe_with access_token
              | Some (EncryptedAccessToken access_token_enc) \<Rightarrow>
                  if \<not> pd_has_cipher d
                  then (Inl ''oauth credential encryption key is missing: set CREDENTIALS_ENCRYPTION_KEY'', s)
                  else (case pd_decrypt d access_token_enc of
                          Inr access_token \<Rightarrow> probe_with access_token
                        | Inl err \<Rightarrow>
                            let s1 = record_account_probe_result_inner account_id now ProbeFatal s;
                                s2 = emit_probe_result_event_inner source account_id now ProbeFatal
                                       (Some ''credential_decrypt_failed'') None
                                       (Some decrypt_failure_message) s1
                            in and_then (mark_upstream_account_pending_purge_inner d account_id
                                           (Some ''credential_decrypt_failed'') now s2)
                                 (\<lambda>_ s3. (Inr ProbeFatal,
                                    snd (persist_rate_limit_cache_failure_inner d account_id
                                           ''credential_decrypt_failed'' (truncate_error_message err) now s3))))))"

definition reprobe_runtime_oauth_account_inner ::
  "pool_deps \<Rightarrow> uuid \<Rightarrow> timestamp \<Rightarrow> pool_store \<Rightarrow> (string + unit) \<times> pool_store" where
  "reprobe_runtime_oauth_account_inner d account_id now s =
     and_then (probe_runtime_oauth_account_inner d account_id ''control_plane.account_pool_reprobe''
                 ''manual reprobe succeeded'' ''manual reprobe observed a quota block''
                 ''failed to decrypt oauth access token for reprobe'' now s)
       (\<lambda>_ s. (Inr (), s))"

definition oauth_active_patrol_candidates_inner :: "timestamp \<Rightarrow> nat \<Rightarrow> pool_store \<Rightarrow> uuid list" where
  "oauth_active_patrol_candidates_inner now limit s =
     map fst (take limit
       (sort_key (\<lambda>(account_id, unknown, last_probe_at, seen_ok_at, created_at).
                    (\<not> unknown, last_probe_at, seen_ok_at, created_at, account_id))
         (List.map_filter
           (\<lambda>account.
              if \<not> ua_enabled account then None
              else case map_of (ps_auth_providers s) (ua_id account) of
                     None \<Rightarrow> None
                   | Some provider \<Rightarrow>
                       if build_live_rate_limit_token_source_inner account provider
                            (map_of (ps_credentials s) (ua_id account))
                            (map_of (ps_session_profiles s) (ua_id account)) now = None then None
                       else let state = health_of s (ua_id account) in
                         if hs_pool_state state \<noteq> PoolActive then None
                         else let freshness = account_health_freshness_from_signals now (hs_seen_ok_at state)
                                    (hs_last_probe_at state) (hs_last_probe_outcome state)
                                    (hs_last_live_result_at state) (hs_last_live_result_status state)
                              in if freshness = FreshHealth then None
                                 else Some (ua_id account, freshness = UnknownHealth, hs_last_probe_at state,
                                            hs_seen_ok_at state, ua_created_at account))
           (map snd (ps_accounts s)))))"

text \<open>
  A patrol probes its candidates one after the other; \<open>clock\<close> gives the time of each probe. The counts are
  of successful, quota, fatal and transient outcomes; a probe that fails to run is skipped.
\<close>

fun patrol_loop ::
  "pool_deps \<Rightarrow> (nat \<Rightarrow> timestamp) \<Rightarrow> nat \<Rightarrow> uuid list \<Rightarrow> account_probe_outcome list \<Rightarrow> pool_store \<Rightarrow>
   account_probe_outcome list \<times> pool_store" where
  "patrol_loop d clock i [] outcomes s = (outcomes, s)"
| "patrol_loop d clock i (account_id # ids) outcomes s =
     (case probe_runtime_oauth_account_inner d account_id ''control_plane.active_patrol''
             ''active patrol probe succeeded'' ''active patrol observed a quota block''
             ''failed to decrypt oauth access token for patrol'' (clock i) s of
        (Inr outcome, s1) \<Rightarrow> patrol_loop d clock (i + 1) ids (outcomes @ [outcome]) s1
      | (Inl _, s1) \<Rightarrow> patrol_loop d clock (i + 1) ids outcomes s1)"

definition outcome_count :: "account_probe_outcome \<Rightarrow> account_probe_outcome list \<Rightarrow> nat" where
  "outcome_count outcome outcomes = length (filter (\<lambda>x. x = outcome) outcomes)"

definition emit_active_patrol_batch_summary_inner ::
  "timestamp \<Rightarrow> account_probe_outcome list \<Rightarrow> pool_store \<Rightarrow> pool_store" where
  "emit_active_patrol_batch_summary_inner started_at outcomes s =
     emit_system_event_inner
       \<lparr>se_ts = started_at, se_event_type = ''active_patrol_batch_completed'',
        se_severity = (if outcome_count ProbeFatal outcomes > 0 then SeverityWarn else SeverityInfo),
        se_source = ''control_plane.active_patrol'', se_account_id = None, se_account_label = None,
        se_auth_provider = None, se_operator_state_from = None, se_operator_state_to = None,
        se_reason_class = None, se_reason_code = None, se_next_action_at = None,
        se_message = Some
          (''active patrol scanned '' @ to_decimal (length outcomes) @ '' accounts ('' @
           to_decimal (outcome_count ProbeOk outcomes) @ '' ok / '' @
           to_decimal (outcome_count ProbeQuota outcomes) @ '' quota / '' @
           to_decimal (outcome_count ProbeFatal outcomes) @ '' fatal / '' @
           to_decimal (outcome_count ProbeTransient outcomes) @ '' transient)'')\<rparr> s"

definition patrol_active_oauth_accounts_inner ::
  "pool_deps \<Rightarrow> (nat \<Rightarrow> timestamp) \<Rightarrow> pool_store \<Rightarrow> nat \<times> pool_store" where
  "patrol_active_oauth_accounts_inner d clock s =
     (let s1 = purge_expired_one_time_accounts_inner (clock 0) s;
          candidate_ids = oauth_active_patrol_candidates_inner (clock 0)
                            (active_patrol_batch_size_from_env (pd_env d)) s1
      in if candidate_ids = [] then (0, s1)
         else let (outcomes, s2) = patrol_loop d clock 1 candidate_ids [] s1
              in (length outcomes, emit_active_patrol_batch_summary_inner (clock 0) outcomes s2))"

end
