(* ===== verification/Pool_Vault.thy ===== *)
theory Pool_Vault
  imports Pool_Health
begin

text \<open>
  The vault of refresh tokens that are not yet in use, and the life of an OAuth credential
  (\<^verbatim>\<open>store/oauth_ops.rs\<close>): queueing, admission probes, activation into the pool, import and upsert with
  their matching rules, removal of duplicate accounts, one-time session accounts, and the refresh of
  tokens that are about to expire.
\<close>

section \<open>Inventory records\<close>

text \<open>\<^verbatim>\<open>vault.get_mut(&record_id)\<close> followed by assignments, when the record exists.\<close>

definition update_vault :: "uuid \<Rightarrow> (vault_record \<Rightarrow> vault_record) \<Rightarrow> pool_store \<Rightarrow> pool_store" where
  "update_vault record_id f s =
     (case map_of (ps_vault s) record_id of
        Some item \<Rightarrow> s\<lparr>ps_vault := hm_insert record_id (f item) (ps_vault s)\<rparr>
      | None \<Rightarrow> s)"

definition mark_item_failed :: "timestamp \<Rightarrow> timestamp \<Rightarrow> string option \<Rightarrow> vault_record \<Rightarrow> vault_record" where
  "mark_item_failed now delete_due_at reason item =
     item\<lparr>va_status := VaultFailed, va_admission_checked_at := Some now, va_admission_retry_after := None,
          va_next_retry_at := Some delete_due_at, va_retryable := False,
          va_terminal_reason :=
            (if va_terminal_reason item = None \<or> reason \<noteq> None
             then (case reason of
                     Some r \<Rightarrow> Some r
                   | None \<Rightarrow> (case va_terminal_reason item of
                                Some r \<Rightarrow> Some r
                              | None \<Rightarrow> va_admission_error_code item))
             else va_terminal_reason item),
          va_updated_at := now\<rparr>"

definition mark_oauth_inventory_record_failed_inner ::
  "pool_deps \<Rightarrow> uuid \<Rightarrow> string option \<Rightarrow> timestamp \<Rightarrow> pool_store \<Rightarrow> (string + unit) \<times> pool_store" where
  "mark_oauth_inventory_record_failed_inner d record_id reason now s =
     (let delete_due_at = now + seconds (pending_purge_delay_sec_from_env (pd_env d));
          reason = Option.bind reason trim_nonempty
      in if map_of (ps_vault s) record_id = None then (Inl ''oauth inventory record not found'', s)
         else (Inr (), bump_revision (update_vault record_id (mark_item_failed now delete_due_at reason) s)))"

definition mark_oauth_inventory_records_failed_inner ::
  "pool_deps \<Rightarrow> uuid list \<Rightarrow> string option \<Rightarrow> timestamp \<Rightarrow> pool_store \<Rightarrow> pool_store" where
  "mark_oauth_inventory_records_failed_inner d record_ids reason now s =
     (let delete_due_at = now + seconds (pending_purge_delay_sec_from_env (pd_env d));
          reason = Option.bind reason trim_nonempty;
          s1 = fold (\<lambda>record_id. update_vault record_id (mark_item_failed now delete_due_at reason)) record_ids s
      in if list_ex (\<lambda>record_id. map_of (ps_vault s) record_id \<noteq> None) record_ids then bump_revision s1 else s1)"

definition delete_oauth_inventory_record_inner :: "uuid \<Rightarrow> pool_store \<Rightarrow> (string + unit) \<times> pool_store" where
  "delete_oauth_inventory_record_inner record_id s =
     (if map_of (ps_vault s) record_id = None then (Inl ''oauth inventory record not found'', s)
      else (Inr (), bump_revision (s\<lparr>ps_vault := hm_remove record_id (ps_vault s)\<rparr>)))"

definition delete_oauth_inventory_records_inner :: "uuid list \<Rightarrow> pool_store \<Rightarrow> pool_store" where
  "delete_oauth_inventory_records_inner record_ids s =
     (let s1 = s\<lparr>ps_vault := fold hm_remove record_ids (ps_vault s)\<rparr>
      in if list_ex (\<lambda>record_id. map_of (ps_vault s) record_id \<noteq> None) record_ids then bump_revision s1 else s1)"

definition restore_item :: "timestamp \<Rightarrow> vault_record \<Rightarrow> vault_record" where
  "restore_item now item =
     item\<lparr>va_status := VaultQueued, va_failure_count := 0, va_backoff_until := None,
          va_next_attempt_at := Some now, va_last_error_code := None, va_last_error_message := None,
          va_admission_source := None, va_admission_checked_at := None, va_admission_retry_after := None,
          va_admission_error_code := None, va_admission_error_message := None,
          va_admission_rate_limits := [], va_admission_rate_limits_expires_at := None,
          va_failure_stage := None, va_attempt_count := 0, va_transient_retry_count := 0,
          va_next_retry_at := Some now, va_retryable := True, va_terminal_reason := None,
          va_updated_at := now\<rparr>"

definition restore_oauth_inventory_record_inner ::
  "uuid \<Rightarrow> timestamp \<Rightarrow> pool_store \<Rightarrow> (string + unit) \<times> pool_store" where
  "restore_oauth_inventory_record_inner record_id now s =
     (if map_of (ps_vault s) record_id = None then (Inl ''oauth inventory record not found'', s)
      else (Inr (), bump_revision (update_vault record_id (restore_item now) s)))"

definition restore_oauth_inventory_records_inner :: "uuid list \<Rightarrow> timestamp \<Rightarrow> pool_store \<Rightarrow> pool_store" where
  "restore_oauth_inventory_records_inner record_ids now s =
     (let s1 = fold (\<lambda>record_id. update_vault record_id (restore_item now)) record_ids s
      in if list_ex (\<lambda>record_id. map_of (ps_vault s) record_id \<noteq> None) record_ids then bump_revision s1 else s1)"

definition inventory_purge_due :: "pool_deps \<Rightarrow> timestamp \<Rightarrow> vault_record \<Rightarrow> bool" where
  "inventory_purge_due d now item \<longleftrightarrow>
     va_status item = VaultFailed \<and> \<not> va_retryable item \<and>
     (case va_next_retry_at item of
        Some t \<Rightarrow> t
      | None \<Rightarrow> va_updated_at item + seconds (pending_purge_delay_sec_from_env (pd_env d))) \<le> now"

definition purge_due_oauth_inventory_records_inner ::
  "pool_deps \<Rightarrow> timestamp \<Rightarrow> pool_store \<Rightarrow> nat \<times> pool_store" where
  "purge_due_oauth_inventory_records_inner d now s =
     (let due_record_ids = map va_id (filter (inventory_purge_due d now) (map snd (ps_vault s)))
      in (length due_record_ids, delete_oauth_inventory_records_inner due_record_ids s))"

section \<open>Admission\<close>

text \<open>\<^verbatim>\<open>parse_jwt_exp_from_access_token\<close>: the claim must be positive and within the range of
  \<^verbatim>\<open>DateTime::from_timestamp\<close>, which ends with the year 262142.\<close>

definition parse_jwt_exp_from_access_token :: "pool_deps \<Rightarrow> string \<Rightarrow> timestamp option" where
  "parse_jwt_exp_from_access_token d access_token =
     (if CHR ''.'' \<notin> set access_token then None
      else let payload = takeWhile (\<lambda>c. c \<noteq> CHR ''.'') (tl (dropWhile (\<lambda>c. c \<noteq> CHR ''.'') access_token))
           in case pd_jwt_exp d payload of
                None \<Rightarrow> None
              | Some e \<Rightarrow> if 0 < e \<and> e \<le> 8210266876799 then Some (seconds e) else None)"

record admission_result =
  ar_status :: oauth_vault_record_status
  ar_source :: "string option"
  ar_retry_after :: "timestamp option"
  ar_error_code :: "string option"
  ar_error_message :: "string option"
  ar_fallback_expires_at :: "timestamp option"
  ar_rate_limits :: "oauth_rate_limit_snapshot list"
  ar_rate_limits_expires_at :: "timestamp option"
  ar_failure_stage :: "oauth_inventory_failure_stage option"
  ar_retryable :: bool
  ar_terminal_reason :: "string option"
  ar_increment_transient :: bool

definition apply_admission_result :: "timestamp \<Rightarrow> admission_result \<Rightarrow> vault_record \<Rightarrow> vault_record" where
  "apply_admission_result checked_at r item =
     item\<lparr>va_status := ar_status r, va_admission_source := ar_source r,
          va_admission_checked_at := Some checked_at, va_admission_retry_after := ar_retry_after r,
          va_admission_error_code := ar_error_code r, va_admission_error_message := ar_error_message r,
          va_fallback_token_expires_at :=
            (if ar_fallback_expires_at r \<noteq> None then ar_fallback_expires_at r
             else va_fallback_token_expires_at item),
          va_admission_rate_limits := ar_rate_limits r,
          va_admission_rate_limits_expires_at := ar_rate_limits_expires_at r,
          va_failure_stage := ar_failure_stage r, va_attempt_count := sat_succ_u32 (va_attempt_count item),
          va_transient_retry_count :=
            (if ar_increment_transient r then sat_succ_u32 (va_transient_retry_count item)
             else va_transient_retry_count item),
          va_next_retry_at := ar_retry_after r, va_retryable := ar_retryable r,
          va_terminal_reason := ar_terminal_reason r, va_updated_at := checked_at\<rparr>"

definition update_oauth_vault_admission_result ::
  "uuid \<Rightarrow> timestamp \<Rightarrow> admission_result \<Rightarrow> pool_store \<Rightarrow> pool_store" where
  "update_oauth_vault_admission_result record_id checked_at r s =
     bump_revision (update_vault record_id (apply_admission_result checked_at r) s)"

text \<open>An admission that fails, or has to wait, before the upstream is asked.\<close>

definition admission_stop ::
  "oauth_vault_record_status \<Rightarrow> string option \<Rightarrow> string \<Rightarrow> string \<Rightarrow> bool \<Rightarrow> string option \<Rightarrow> admission_result" where
  "admission_stop status source error_code error_message retryable terminal_reason =
     \<lparr>ar_status = status, ar_source = source, ar_retry_after = None, ar_error_code = Some error_code,
      ar_error_message = Some error_message, ar_fallback_expires_at = None, ar_rate_limits = [],
      ar_rate_limits_expires_at = None, ar_failure_stage = Some AdmissionProbe, ar_retryable = retryable,
      ar_terminal_reason = terminal_reason, ar_increment_transient = False\<rparr>"

definition admission_of_rate_limits ::
  "pool_deps \<Rightarrow> timestamp \<Rightarrow> timestamp option \<Rightarrow> oauth_rate_limit_snapshot list \<Rightarrow> admission_result" where
  "admission_of_rate_limits d checked_at fallback_expires_at rate_limits =
     (let rate_limits_expires_at = derive_admission_rate_limits_expires_at (pd_env d) rate_limits checked_at;
          (blocked_until, block_reason) = derive_rate_limit_block rate_limits checked_at;
          base = (admission_stop VaultNeedsRefresh (Some ''fallback_access_token'') ''expiry_unknown''
                    ''fallback access token expiry is unknown'' True None)
                   \<lparr>ar_rate_limits := rate_limits, ar_rate_limits_expires_at := rate_limits_expires_at\<rparr>
      in if fallback_expires_at = None then base
         else case block_reason of
                Some reason \<Rightarrow>
                  base\<lparr>ar_status := VaultNoQuota, ar_retry_after := blocked_until,
                       ar_error_code := Some reason, ar_error_message := Some (rate_limit_block_message reason),
                       ar_fallback_expires_at := fallback_expires_at\<rparr>
              | None \<Rightarrow>
                  base\<lparr>ar_status := VaultReady, ar_error_code := None, ar_error_message := None,
                       ar_fallback_expires_at := fallback_expires_at, ar_failure_stage := None,
                       ar_retryable := False\<rparr>)"

definition admission_of_error ::
  "pool_deps \<Rightarrow> timestamp \<Rightarrow> timestamp option \<Rightarrow> nat \<Rightarrow> oauth_token_client_error \<Rightarrow> admission_result" where
  "admission_of_error d checked_at fallback_expires_at transient_retry_count err =
     (let error_code = oauth_error_code_str (oauth_error_code err);
          error_message = truncate_error_message (oauth_error_text err);
          transient_signal = is_transient_upstream_error_signal error_code error_message;
          with_budget = admission_probe_retry_after_with_budget (pd_env d) checked_at error_code error_message
                          transient_retry_count;
          retry_after =
            (if transient_signal \<and> can_retry_transient_admission_failure transient_retry_count then with_budget
             else if transient_signal then None
             else with_budget);
          fatal_auth = is_fatal_refresh_error_code (Some error_code);
          status =
            (if fatal_auth then VaultFailed
             else if retry_after \<noteq> None \<and> (is_quota_error_signal error_code error_message \<or>
                                            is_rate_limited_signal error_code error_message) then VaultNoQuota
             else if is_auth_error_signal error_code error_message then VaultNeedsRefresh
             else VaultFailed);
          retryable =
            (case status of
               VaultReady \<Rightarrow> False
             | VaultNeedsRefresh \<Rightarrow> True
             | VaultNoQuota \<Rightarrow> retry_after \<noteq> None
             | VaultFailed \<Rightarrow> retry_after \<noteq> None \<and> \<not> fatal_auth
             | VaultQueued \<Rightarrow> False)
      in \<lparr>ar_status = status, ar_source = Some ''fallback_access_token'', ar_retry_after = retry_after,
          ar_error_code = Some error_code, ar_error_message = Some error_message,
          ar_fallback_expires_at = fallback_expires_at, ar_rate_limits = [],
          ar_rate_limits_expires_at = retry_after, ar_failure_stage = Some AdmissionProbe,
          ar_retryable = retryable,
          ar_terminal_reason = (if retryable then None else Some error_code),
          ar_increment_transient = (transient_signal \<and> retry_after \<noteq> None)\<rparr>)"

definition admission_of_record :: "pool_deps \<Rightarrow> timestamp \<Rightarrow> vault_record \<Rightarrow> admission_result" where
  "admission_of_record d checked_at item =
     (if \<not> pd_has_cipher d
      then admission_stop VaultFailed None ''credential_cipher_missing''
             ''oauth credential cipher is not configured'' False (Some ''credential_cipher_missing'')
      else case va_fallback_access_token_enc item of
        None \<Rightarrow> admission_stop VaultNeedsRefresh None ''missing_access_token_fallback''
                  ''fallback access token is not available'' True None
      | Some fallback_token_enc \<Rightarrow>
          (case pd_decrypt d fallback_token_enc of
             Inl err \<Rightarrow> admission_stop VaultFailed (Some ''fallback_access_token'') ''credential_decrypt_failed''
                          (truncate_error_message err) False (Some ''credential_decrypt_failed'')
           | Inr token \<Rightarrow>
               if trim token = []
               then admission_stop VaultFailed (Some ''fallback_access_token'') ''credential_decrypt_failed''
                      ''fallback access token is empty'' False (Some ''credential_decrypt_failed'')
               else let fallback_expires_at =
                          (case va_fallback_token_expires_at item of
                             Some t \<Rightarrow> Some t
                           | None \<Rightarrow> parse_jwt_exp_from_access_token d token)
                    in case pd_fetch_rate_limits d checked_at token (Some (va_base_url item))
                              (va_chatgpt_account_id item) of
                         Inr rate_limits \<Rightarrow> admission_of_rate_limits d checked_at fallback_expires_at rate_limits
                       | Inl err \<Rightarrow> admission_of_error d checked_at fallback_expires_at
                                      (va_transient_retry_count item) err))"

definition probe_oauth_vault_admission_inner :: "pool_deps \<Rightarrow> uuid \<Rightarrow> timestamp \<Rightarrow> pool_store \<Rightarrow> pool_store" where
  "probe_oauth_vault_admission_inner d record_id now s =
     (case map_of (ps_vault s) record_id of
        None \<Rightarrow> s
      | Some item \<Rightarrow> update_oauth_vault_admission_result record_id now (admission_of_record d now item) s)"

definition reprobe_oauth_inventory_record_inner ::
  "pool_deps \<Rightarrow> uuid \<Rightarrow> timestamp \<Rightarrow> pool_store \<Rightarrow> (string + unit) \<times> pool_store" where
  "reprobe_oauth_inventory_record_inner d record_id now s =
     and_then (restore_oauth_inventory_record_inner record_id now s)
       (\<lambda>_ s. (Inr (), probe_oauth_vault_admission_inner d record_id now s))"

section \<open>Identity of accounts\<close>

text \<open>The key that \<^verbatim>\<open>dedupe_oauth_accounts_by_identity_inner\<close> groups by, of a profile and an account.\<close>

definition identity_key :: "string option \<Rightarrow> string option \<Rightarrow> string option \<Rightarrow> string option" where
  "identity_key chatgpt_account_user_id chatgpt_user_id chatgpt_account_id =
     (case Option.bind chatgpt_account_user_id trim_nonempty of
        Some value \<Rightarrow> Some (''account_user:'' @ value)
      | None \<Rightarrow>
          (case (Option.bind chatgpt_user_id trim_nonempty, Option.bind chatgpt_account_id trim_nonempty) of
             (Some user_id, Some account_id) \<Rightarrow> Some (''user_account:'' @ user_id @ '':'' @ account_id)
           | _ \<Rightarrow> None))"

definition account_identity :: "pool_store \<Rightarrow> upstream_account \<Rightarrow> string option" where
  "account_identity s account =
     (case map_of (ps_session_profiles s) (ua_id account) of
        None \<Rightarrow> None
      | Some profile \<Rightarrow> identity_key (sp_chatgpt_account_user_id profile) (sp_chatgpt_user_id profile)
                          (ua_chatgpt_account_id account))"

definition is_oauth_account :: "pool_store \<Rightarrow> upstream_account \<Rightarrow> bool" where
  "is_oauth_account s account \<longleftrightarrow> map_of (ps_auth_providers s) (ua_id account) = Some OAuthRefreshToken"

definition newest_first :: "upstream_account list \<Rightarrow> upstream_account list" where
  "newest_first items = sort_key (\<lambda>a. (- ua_created_at a, - int (ua_id a))) items"

definition group_by_identity ::
  "string option \<Rightarrow> pool_store \<Rightarrow> (string, upstream_account list) hash_map" where
  "group_by_identity target_key s =
     fold (\<lambda>account grouped.
             if \<not> is_oauth_account s account then grouped
             else case account_identity s account of
                    None \<Rightarrow> grouped
                  | Some key \<Rightarrow>
                      if target_key \<noteq> None \<and> target_key \<noteq> Some key then grouped
                      else hm_insert key
                             ((case map_of grouped key of Some items \<Rightarrow> items | None \<Rightarrow> []) @ [account]) grouped)
       (map snd (ps_accounts s)) []"

definition remove_duplicate_account :: "uuid \<Rightarrow> pool_store \<Rightarrow> pool_store" where
  "remove_duplicate_account account_id s =
     s\<lparr>ps_accounts := hm_remove account_id (ps_accounts s),
       ps_auth_providers := hm_remove account_id (ps_auth_providers s),
       ps_credentials := hm_remove account_id (ps_credentials s),
       ps_session_profiles := hm_remove account_id (ps_session_profiles s),
       ps_health := hm_remove account_id (ps_health s),
       ps_rate_limit_caches := hm_remove account_id (ps_rate_limit_caches s)\<rparr>"

definition duplicate_account_ids :: "string option \<Rightarrow> pool_store \<Rightarrow> uuid list" where
  "duplicate_account_ids target_key s =
     concat (map (\<lambda>(_, items). map ua_id (drop 1 (newest_first items))) (group_by_identity target_key s))"

definition dedupe_oauth_accounts_by_identity_inner ::
  "string option \<Rightarrow> string option \<Rightarrow> string option \<Rightarrow> pool_store \<Rightarrow> nat \<times> pool_store" where
  "dedupe_oauth_accounts_by_identity_inner target_chatgpt_account_user_id target_chatgpt_user_id
     target_chatgpt_account_id s =
     (let target_key = identity_key target_chatgpt_account_user_id target_chatgpt_user_id
                         target_chatgpt_account_id;
          duplicate_ids = duplicate_account_ids target_key s
      in if duplicate_ids = [] then (0, s)
         else (length duplicate_ids, bump_revision (fold remove_duplicate_account duplicate_ids s)))"

definition canonical_oauth_account_id_by_identity ::
  "string option \<Rightarrow> string option \<Rightarrow> string option \<Rightarrow> pool_store \<Rightarrow> uuid option" where
  "canonical_oauth_account_id_by_identity target_chatgpt_account_user_id target_chatgpt_user_id
     target_chatgpt_account_id s =
     (let account_user = Option.bind target_chatgpt_account_user_id trim_nonempty;
          user = Option.bind target_chatgpt_user_id trim_nonempty;
          acct = Option.bind target_chatgpt_account_id trim_nonempty;
          matches = (\<lambda>profile account.
            case account_user of
              Some target \<Rightarrow> map_option trim (sp_chatgpt_account_user_id profile) = Some target
            | None \<Rightarrow>
                (case (user, acct) of
                   (Some target_user, Some target_account) \<Rightarrow>
                     map_option trim (sp_chatgpt_user_id profile) = Some target_user \<and>
                     map_option trim (ua_chatgpt_account_id account) = Some target_account
                 | _ \<Rightarrow> False))
      in if account_user = None \<and> (user = None \<or> acct = None) then None
         else map_option ua_id
                (max_by_key (\<lambda>a. (ua_created_at a, ua_id a))
                  (filter (\<lambda>account. is_oauth_account s account \<and>
                             (case map_of (ps_session_profiles s) (ua_id account) of
                                Some profile \<Rightarrow> matches profile account
                              | None \<Rightarrow> False))
                     (map snd (ps_accounts s)))))"

definition matched_oauth_account_id_for_vault_record :: "vault_record \<Rightarrow> pool_store \<Rightarrow> uuid option" where
  "matched_oauth_account_id_for_vault_record item s =
     (let newest = max_by_key (\<lambda>a. (ua_created_at a, ua_id a));
          by_token = filter (\<lambda>a. is_oauth_account s a \<and>
                       (case map_of (ps_credentials s) (ua_id a) of
                          Some c \<Rightarrow> cr_refresh_token_sha256 c = va_refresh_token_sha256 item
                        | None \<Rightarrow> False)) (map snd (ps_accounts s))
      in case newest by_token of
           Some a \<Rightarrow> Some (ua_id a)
         | None \<Rightarrow>
             (case Option.bind (va_chatgpt_account_id item) trim_nonempty of
                None \<Rightarrow> None
              | Some target \<Rightarrow>
                  map_option ua_id
                    (newest (filter (\<lambda>a. is_oauth_account s a \<and>
                       map_option trim (ua_chatgpt_account_id a) = Some target) (map snd (ps_accounts s))))))"

end
