(* ===== verification/Pool_Tokens.thy ===== *)
theory Pool_Tokens
  imports Pool_Vault
begin

text \<open>
  The operations that make and renew OAuth accounts (\<^verbatim>\<open>store/oauth_ops.rs\<close>, with the constructors of
  \<^verbatim>\<open>store/defs.rs\<close> and the status view of \<^verbatim>\<open>store/in_memory_core.rs\<close>): queueing a refresh token,
  importing and upserting it, materialising an admitted vault record, one-time session accounts, the
  refresh of one account and of all that expire soon, and the activation of vault records up to the
  target size of the pool. Fresh UUIDs are arguments.
\<close>

section \<open>Credentials and session profiles\<close>

definition credential_from_token_info ::
  "pool_deps \<Rightarrow> string \<Rightarrow> timestamp \<Rightarrow> oauth_token_info \<Rightarrow> string + oauth_credential_record" where
  "credential_from_token_info d new_family now token_info =
     (case pd_encrypt d (ti_access_token token_info) of
        Inl e \<Rightarrow> Inl e
      | Inr access_enc \<Rightarrow>
          (case pd_encrypt d (ti_refresh_token token_info) of
             Inl e \<Rightarrow> Inl e
           | Inr refresh_enc \<Rightarrow>
               Inr \<lparr>cr_access_token_enc = access_enc, cr_refresh_token_enc = refresh_enc,
                    cr_fallback_access_token_enc = None,
                    cr_refresh_token_sha256 = pd_refresh_token_sha256 d (ti_refresh_token token_info),
                    cr_token_family_id = new_family, cr_token_version = 1,
                    cr_token_expires_at = ti_expires_at token_info, cr_fallback_token_expires_at = None,
                    cr_last_refresh_at = Some now, cr_last_refresh_status = RefreshOk,
                    cr_refresh_reused_detected = False, cr_last_refresh_error_code = None,
                    cr_last_refresh_error = None, cr_refresh_failure_count = 0,
                    cr_refresh_backoff_until = None\<rparr>))"

definition backoff_duration :: "oauth_credential_record \<Rightarrow> int" where
  "backoff_duration credential =
     (if cr_refresh_failure_count credential = 0 then seconds 0
      else if cr_refresh_failure_count credential = 1 then seconds 30
      else if cr_refresh_failure_count credential = 2 then seconds 60
      else if cr_refresh_failure_count credential = 3 then seconds 120
      else seconds 300)"

definition set_fallback_access_token ::
  "pool_deps \<Rightarrow> string option \<Rightarrow> timestamp option \<Rightarrow> oauth_credential_record \<Rightarrow> string + oauth_credential_record" where
  "set_fallback_access_token d fallback_access_token fallback_token_expires_at credential =
     (case Option.bind fallback_access_token trim_nonempty of
        None \<Rightarrow> Inr (credential\<lparr>cr_fallback_access_token_enc := None, cr_fallback_token_expires_at := None\<rparr>)
      | Some token \<Rightarrow>
          (case pd_encrypt d token of
             Inl e \<Rightarrow> Inl e
           | Inr enc \<Rightarrow> Inr (credential\<lparr>cr_fallback_access_token_enc := Some enc,
                                        cr_fallback_token_expires_at := fallback_token_expires_at\<rparr>)))"

text \<open>\<^verbatim>\<open>a.or(b)\<close> on options.\<close>

definition or_else :: "'a option \<Rightarrow> 'a option \<Rightarrow> 'a option" where
  "or_else a b = (case a of Some x \<Rightarrow> Some x | None \<Rightarrow> b)"

lemma or_else_simps [simp]: "or_else (Some x) b = Some x" "or_else None b = b"
  by (simp_all add: or_else_def)

definition profile_from_oauth_token_info ::
  "oauth_token_info \<Rightarrow> session_credential_kind \<Rightarrow> string option \<Rightarrow> string option \<Rightarrow> session_profile_record" where
  "profile_from_oauth_token_info token_info credential_kind chatgpt_plan_type source_type =
     \<lparr>sp_credential_kind = credential_kind, sp_token_expires_at = Some (ti_expires_at token_info),
      sp_email = ti_email token_info,
      sp_chatgpt_plan_type = or_else chatgpt_plan_type (ti_chatgpt_plan_type token_info),
      sp_chatgpt_user_id = ti_chatgpt_user_id token_info,
      sp_chatgpt_account_user_id = ti_chatgpt_account_user_id token_info,
      sp_workspace_name = ti_workspace_name token_info, sp_source_type = source_type\<rparr>"

definition profile_one_time_access_token ::
  "timestamp option \<Rightarrow> string option \<Rightarrow> string option \<Rightarrow> session_profile_record" where
  "profile_one_time_access_token token_expires_at chatgpt_plan_type source_type =
     \<lparr>sp_credential_kind = OneTimeAccessToken, sp_token_expires_at = token_expires_at, sp_email = None,
      sp_chatgpt_plan_type = chatgpt_plan_type, sp_chatgpt_user_id = None,
      sp_chatgpt_account_user_id = None, sp_workspace_name = None, sp_source_type = source_type\<rparr>"

definition merge_oauth_token_info ::
  "oauth_token_info \<Rightarrow> session_credential_kind \<Rightarrow> string option \<Rightarrow> string option \<Rightarrow>
   session_profile_record \<Rightarrow> session_profile_record" where
  "merge_oauth_token_info token_info credential_kind chatgpt_plan_type source_type profile =
     \<lparr>sp_credential_kind = credential_kind, sp_token_expires_at = Some (ti_expires_at token_info),
      sp_email = or_else (ti_email token_info) (sp_email profile),
      sp_chatgpt_plan_type = or_else (or_else chatgpt_plan_type (ti_chatgpt_plan_type token_info))
                               (sp_chatgpt_plan_type profile),
      sp_chatgpt_user_id = or_else (ti_chatgpt_user_id token_info) (sp_chatgpt_user_id profile),
      sp_chatgpt_account_user_id = or_else (ti_chatgpt_account_user_id token_info)
                                     (sp_chatgpt_account_user_id profile),
      sp_workspace_name = or_else (ti_workspace_name token_info) (sp_workspace_name profile),
      sp_source_type = or_else source_type (sp_source_type profile)\<rparr>"

section \<open>The status view\<close>

text \<open>
  \<^verbatim>\<open>OAuthAccountStatusResponse\<close>: the fields that are copied from the credential, the session profile, the
  health state and the rate-limit cache are represented by those records.
\<close>

record oauth_account_status =
  os_account_id :: uuid
  os_auth_provider :: upstream_auth_provider
  os_credential_kind :: "session_credential_kind option"
  os_has_refresh_credential :: bool
  os_has_access_token_fallback :: bool
  os_refresh_credential_state :: "refresh_credential_state option"
  os_token_expires_at :: "timestamp option"
  os_effective_enabled :: bool
  os_next_refresh_at :: "timestamp option"
  os_supported_models :: "string list"
  os_credential :: "oauth_credential_record option"
  os_session_profile :: "session_profile_record option"
  os_health :: upstream_account_health_state_record
  os_rate_limit_cache :: oauth_rate_limit_cache_record

definition oauth_status_from ::
  "upstream_account \<Rightarrow> upstream_auth_provider \<Rightarrow> oauth_credential_record option \<Rightarrow>
   session_profile_record option \<Rightarrow> timestamp \<Rightarrow> pool_store \<Rightarrow> oauth_account_status \<times> pool_store" where
  "oauth_status_from account provider credential session_profile now s =
     (let token_expires_at = or_else (map_option cr_token_expires_at credential)
                               (Option.bind session_profile sp_token_expires_at);
          credential_kind = or_else (map_option sp_credential_kind session_profile)
                              (if provider = OAuthRefreshToken then Some RefreshRotatable
                               else if ua_mode account = ChatGptSession \<or> ua_mode account = CodexOauth
                               then Some OneTimeAccessToken else None);
          now_guard = now + seconds oauth_min_valid_sec;
          cache = cache_of s (ua_id account);
          last_refresh_status = (case credential of Some c \<Rightarrow> cr_last_refresh_status c | None \<Rightarrow> RefreshNever);
          has_fallback = (case credential of Some c \<Rightarrow> has_access_token_fallback c | None \<Rightarrow> False);
          reused = (case credential of Some c \<Rightarrow> cr_refresh_reused_detected c | None \<Rightarrow> False);
          error_code = Option.bind credential cr_last_refresh_error_code;
          (pool_state_record, s1) = account_pool_state_record_inner now (ua_id account) s
      in (\<lparr>os_account_id = ua_id account, os_auth_provider = provider, os_credential_kind = credential_kind,
           os_has_refresh_credential = has_refresh_credential provider,
           os_has_access_token_fallback = has_fallback,
           os_refresh_credential_state = refresh_credential_state_of provider last_refresh_status reused error_code,
           os_token_expires_at = token_expires_at,
           os_effective_enabled =
             oauth_effective_enabled (ua_enabled account) provider credential_kind token_expires_at has_fallback
               (Option.bind credential cr_fallback_token_expires_at) last_refresh_status reused error_code
               (rlc_expires_at cache) (rlc_last_error_code cache) (rlc_last_error cache) now_guard,
           os_next_refresh_at = (if provider = OAuthRefreshToken
                                 then map_option (\<lambda>e. e - seconds oauth_refresh_window_sec) token_expires_at
                                 else None),
           os_supported_models = (case map_of (ps_model_support s) (ua_id account) of Some ms \<Rightarrow> ms | None \<Rightarrow> []),
           os_credential = credential, os_session_profile = session_profile,
           os_health = pool_state_record, os_rate_limit_cache = cache\<rparr>, s1))"

definition maybe_backfill_workspace_name_from_probe_inner ::
  "pool_deps \<Rightarrow> upstream_account \<Rightarrow> upstream_auth_provider \<Rightarrow> oauth_credential_record option \<Rightarrow>
   session_profile_record option \<Rightarrow> timestamp \<Rightarrow> pool_store \<Rightarrow> session_profile_record option \<times> pool_store" where
  "maybe_backfill_workspace_name_from_probe_inner d account provider oauth_credential session_profile now s =
     (case session_profile of
        None \<Rightarrow> (None, s)
      | Some profile \<Rightarrow>
          if provider \<noteq> OAuthRefreshToken then (Some profile, s)
          else if \<not> (case sp_chatgpt_plan_type profile of
                        Some plan \<Rightarrow> eq_ignore_ascii_case (trim plan) ''team'' | None \<Rightarrow> False) then (Some profile, s)
          else if Option.bind (sp_workspace_name profile) trim_nonempty \<noteq> None then (Some profile, s)
          else (case (Option.bind (ua_chatgpt_account_id account) trim_nonempty, oauth_credential) of
                  (Some chatgpt_account_id, Some credential) \<Rightarrow>
                    if \<not> pd_has_cipher d then (Some profile, s)
                    else (case pd_decrypt d (cr_access_token_enc credential) of
                            Inl _ \<Rightarrow> (Some profile, s)
                          | Inr token \<Rightarrow>
                              if trim token = [] then (Some profile, s)
                              else (case pd_fetch_workspace_name d now token (Some (ua_base_url account))
                                           (Some chatgpt_account_id) of
                                      Inr (Some name) \<Rightarrow>
                                        (case trim_nonempty name of
                                           None \<Rightarrow> (Some profile, s)
                                         | Some workspace_name \<Rightarrow>
                                             let profile' = profile\<lparr>sp_workspace_name := Some workspace_name\<rparr>
                                             in (Some profile', upsert_session_profile (ua_id account) profile' s))
                                    | _ \<Rightarrow> (Some profile, s)))
                | _ \<Rightarrow> (Some profile, s)))"

definition oauth_account_status_inner ::
  "pool_deps \<Rightarrow> uuid \<Rightarrow> timestamp \<Rightarrow> pool_store \<Rightarrow> (string + oauth_account_status) \<times> pool_store" where
  "oauth_account_status_inner d account_id now s =
     (case map_of (ps_accounts s) account_id of
        None \<Rightarrow> (Inl ''account not found'', s)
      | Some account \<Rightarrow>
          let provider = account_auth_provider s account_id;
              credential = map_of (ps_credentials s) account_id;
              (profile, s1) = maybe_backfill_workspace_name_from_probe_inner d account provider credential
                                (map_of (ps_session_profiles s) account_id) now s;
              (status, s2) = oauth_status_from account provider credential profile now s1
          in (Inr status, s2))"

section \<open>Import and upsert\<close>

record import_request =
  ir_label :: string
  ir_base_url :: string
  ir_refresh_token :: string
  ir_fallback_access_token :: "string option"
  ir_fallback_token_expires_at :: "timestamp option"
  ir_chatgpt_account_id :: "string option"
  ir_mode :: "upstream_mode option"
  ir_enabled :: "bool option"
  ir_priority :: "int option"
  ir_chatgpt_plan_type :: "string option"
  ir_source_type :: "string option"

definition oauth_managed_bearer_sentinel :: string where
  "oauth_managed_bearer_sentinel = ''__managed_oauth__''"

definition cipher_missing :: string where
  "cipher_missing = ''oauth credential encryption key is missing: set CREDENTIALS_ENCRYPTION_KEY''"

definition option_or :: "'a option \<Rightarrow> 'a \<Rightarrow> 'a" where
  "option_or x dflt = (case x of Some v \<Rightarrow> v | None \<Rightarrow> dflt)"

definition queue_oauth_refresh_token_inner ::
  "pool_deps \<Rightarrow> uuid \<Rightarrow> timestamp \<Rightarrow> import_request \<Rightarrow> pool_store \<Rightarrow> (string + bool) \<times> pool_store" where
  "queue_oauth_refresh_token_inner d new_id now req s =
     (if \<not> pd_has_cipher d then (Inl cipher_missing, s)
      else
      let desired_mode = resolve_oauth_import_mode (ir_mode req) (ir_source_type req);
          refresh_hash = pd_refresh_token_sha256 d (ir_refresh_token req);
          existing = find (\<lambda>(_, item). va_refresh_token_sha256 item = refresh_hash) (ps_vault s);
          fallback = (case Option.bind (ir_fallback_access_token req) trim_nonempty of
                        None \<Rightarrow> Inr None
                      | Some token \<Rightarrow> (case pd_encrypt d token of Inl e \<Rightarrow> Inl e | Inr enc \<Rightarrow> Inr (Some enc)))
      in case fallback of
           Inl e \<Rightarrow> (Inl e, s)
         | Inr fallback_enc \<Rightarrow>
             (case pd_encrypt d (ir_refresh_token req) of
                Inl e \<Rightarrow> (Inl e, s)
              | Inr refresh_enc \<Rightarrow>
                  let record_id = (case existing of Some (i, _) \<Rightarrow> i | None \<Rightarrow> new_id);
                      created_at = (case existing of Some (_, item) \<Rightarrow> va_created_at item | None \<Rightarrow> now);
                      item =
                        \<lparr>va_id = record_id, va_label = ir_label req, va_email = None,
                         va_base_url = normalize_upstream_account_base_url d desired_mode (ir_base_url req),
                         va_refresh_token_enc = refresh_enc, va_fallback_access_token_enc = fallback_enc,
                         va_fallback_token_expires_at = ir_fallback_token_expires_at req,
                         va_refresh_token_sha256 = refresh_hash,
                         va_chatgpt_account_id = ir_chatgpt_account_id req,
                         va_chatgpt_plan_type = ir_chatgpt_plan_type req,
                         va_source_type = ir_source_type req, va_desired_mode = desired_mode,
                         va_desired_enabled = option_or (ir_enabled req) True,
                         va_desired_priority = option_or (ir_priority req) 100,
                         va_status = VaultQueued, va_failure_count = 0, va_backoff_until = None,
                         va_next_attempt_at = Some now, va_last_error_code = None,
                         va_last_error_message = None, va_admission_source = None,
                         va_admission_checked_at = None, va_admission_retry_after = None,
                         va_admission_error_code = None, va_admission_error_message = None,
                         va_admission_rate_limits = [], va_admission_rate_limits_expires_at = None,
                         va_failure_stage = None, va_attempt_count = 0, va_transient_retry_count = 0,
                         va_next_retry_at = Some now, va_retryable = True, va_terminal_reason = None,
                         va_created_at = created_at, va_updated_at = now\<rparr>
                  in (Inr (existing = None), s\<lparr>ps_vault := hm_insert record_id item (ps_vault s)\<rparr>)))"

definition import_oauth_refresh_token_with_token_info_inner ::
  "pool_deps \<Rightarrow> uuid \<Rightarrow> string \<Rightarrow> timestamp \<Rightarrow> import_request \<Rightarrow> upstream_mode \<Rightarrow> string \<Rightarrow> oauth_token_info \<Rightarrow>
   pool_store \<Rightarrow> (string + upstream_account) \<times> pool_store" where
  "import_oauth_refresh_token_with_token_info_inner d new_id new_family now req resolved_mode base_url
     token_info s =
     (if \<not> pd_has_cipher d then (Inl cipher_missing, s)
      else case credential_from_token_info d new_family now token_info of
        Inl e \<Rightarrow> (Inl e, s)
      | Inr credential \<Rightarrow>
          (case set_fallback_access_token d (ir_fallback_access_token req) (ir_fallback_token_expires_at req)
                  credential of
             Inl e \<Rightarrow> (Inl e, s)
           | Inr credential' \<Rightarrow>
               let account =
                     \<lparr>ua_id = new_id, ua_label = ir_label req, ua_mode = resolved_mode, ua_base_url = base_url,
                      ua_bearer_token = oauth_managed_bearer_sentinel,
                      ua_chatgpt_account_id = or_else (ir_chatgpt_account_id req) (ti_chatgpt_account_id token_info),
                      ua_enabled = option_or (ir_enabled req) True,
                      ua_priority = option_or (ir_priority req) 100, ua_created_at = now\<rparr>;
                   profile = profile_from_oauth_token_info token_info RefreshRotatable
                               (ir_chatgpt_plan_type req) (ir_source_type req);
                   s1 = s\<lparr>ps_accounts := hm_insert new_id account (ps_accounts s),
                          ps_auth_providers := hm_insert new_id OAuthRefreshToken (ps_auth_providers s)\<rparr>;
                   s2 = upsert_session_profile new_id profile (upsert_oauth_credential new_id credential' s1)
               in (Inr account, bump_revision s2)))"

definition import_oauth_refresh_token_inner ::
  "pool_deps \<Rightarrow> uuid \<Rightarrow> string \<Rightarrow> timestamp \<Rightarrow> import_request \<Rightarrow> pool_store \<Rightarrow>
   (string + upstream_account) \<times> pool_store" where
  "import_oauth_refresh_token_inner d new_id new_family now req s =
     (let resolved_mode = resolve_oauth_import_mode (ir_mode req) (ir_source_type req);
          base_url = normalize_upstream_account_base_url d resolved_mode (ir_base_url req)
      in case pd_refresh_token d now (ir_refresh_token req) (Some base_url) of
           Inl err \<Rightarrow> (Inl (oauth_error_text err), s)
         | Inr token_info \<Rightarrow>
             import_oauth_refresh_token_with_token_info_inner d new_id new_family now req resolved_mode base_url
               token_info s)"

text \<open>The account an upsert updates: one with the same refresh token, or else of the same identity.\<close>

definition upsert_match :: "pool_deps \<Rightarrow> oauth_token_info \<Rightarrow> string option \<Rightarrow> pool_store \<Rightarrow> uuid option" where
  "upsert_match d token_info chatgpt_account_id s =
     (let refresh_hash = pd_refresh_token_sha256 d (ti_refresh_token token_info) in
      case find (\<lambda>(account_id, _).
             account_auth_provider s account_id = OAuthRefreshToken \<and>
             (case map_of (ps_credentials s) account_id of
                Some c \<Rightarrow> cr_refresh_token_sha256 c = refresh_hash
              | None \<Rightarrow> False)) (ps_accounts s) of
        Some (account_id, _) \<Rightarrow> Some account_id
      | None \<Rightarrow> canonical_oauth_account_id_by_identity (ti_chatgpt_account_user_id token_info)
                  (ti_chatgpt_user_id token_info) chatgpt_account_id s)"

definition upserted_credential ::
  "pool_deps \<Rightarrow> string \<Rightarrow> timestamp \<Rightarrow> import_request \<Rightarrow> oauth_token_info \<Rightarrow> oauth_credential_record option \<Rightarrow>
   string + oauth_credential_record" where
  "upserted_credential d new_family now req token_info existing =
     (case credential_from_token_info d new_family now token_info of
        Inl e \<Rightarrow> Inl e
      | Inr fresh \<Rightarrow>
          let credential =
                (case existing of
                   Some old \<Rightarrow> fresh\<lparr>cr_token_family_id := cr_token_family_id old,
                                     cr_token_version := min (cr_token_version old + 1) u64_max\<rparr>
                 | None \<Rightarrow> fresh)
          in if Option.bind (ir_fallback_access_token req) trim_nonempty \<noteq> None
             then set_fallback_access_token d (ir_fallback_access_token req) (ir_fallback_token_expires_at req)
                    credential
             else Inr (case existing of
                         Some old \<Rightarrow> credential\<lparr>cr_fallback_access_token_enc := cr_fallback_access_token_enc old,
                                                cr_fallback_token_expires_at := cr_fallback_token_expires_at old\<rparr>
                       | None \<Rightarrow> credential))"

definition upsert_oauth_refresh_token_inner ::
  "pool_deps \<Rightarrow> uuid \<Rightarrow> string \<Rightarrow> timestamp \<Rightarrow> import_request \<Rightarrow> pool_store \<Rightarrow>
   (string + upstream_account \<times> bool) \<times> pool_store" where
  "upsert_oauth_refresh_token_inner d new_id new_family now req s =
     (if \<not> pd_has_cipher d then (Inl cipher_missing, s)
      else
      let resolved_mode = resolve_oauth_import_mode (ir_mode req) (ir_source_type req);
          base_url = normalize_upstream_account_base_url d resolved_mode (ir_base_url req)
      in case pd_refresh_token d now (ir_refresh_token req) (Some base_url) of
           Inl err \<Rightarrow> (Inl (oauth_error_text err), s)
         | Inr token_info \<Rightarrow>
             let chatgpt_account_id = or_else (ir_chatgpt_account_id req) (ti_chatgpt_account_id token_info);
                 dedupe = (\<lambda>s. snd (dedupe_oauth_accounts_by_identity_inner
                             (ti_chatgpt_account_user_id token_info) (ti_chatgpt_user_id token_info)
                             chatgpt_account_id s))
             in (case upsert_match d token_info chatgpt_account_id s of
                   None \<Rightarrow>
                     and_then (import_oauth_refresh_token_with_token_info_inner d new_id new_family now req
                                 resolved_mode base_url token_info s)
                       (\<lambda>account s1. (Inr (account, True), dedupe s1))
                 | Some account_id \<Rightarrow>
                     (case map_of (ps_accounts s) account_id of
                        None \<Rightarrow> (Inl ''matched oauth account is missing'', s)
                      | Some account \<Rightarrow>
                          let updated = account\<lparr>ua_label := ir_label req, ua_mode := resolved_mode,
                                ua_base_url := base_url, ua_bearer_token := oauth_managed_bearer_sentinel,
                                ua_chatgpt_account_id := chatgpt_account_id,
                                ua_enabled := option_or (ir_enabled req) True,
                                ua_priority := option_or (ir_priority req) 100\<rparr>;
                              s1 = s\<lparr>ps_accounts := hm_insert account_id updated (ps_accounts s)\<rparr>
                          in (case upserted_credential d new_family now req token_info
                                     (map_of (ps_credentials s) account_id) of
                                Inl e \<Rightarrow> (Inl e, s1)
                              | Inr credential \<Rightarrow>
                                  let s2 = upsert_oauth_credential account_id credential
                                        (s1\<lparr>ps_auth_providers :=
                                              hm_insert account_id OAuthRefreshToken (ps_auth_providers s1)\<rparr>);
                                      profile = merge_oauth_token_info token_info RefreshRotatable
                                        (ir_chatgpt_plan_type req) (ir_source_type req)
                                        (option_or (map_of (ps_session_profiles s2) account_id)
                                          (profile_from_oauth_token_info token_info RefreshRotatable None None));
                                      s3 = bump_revision (upsert_session_profile account_id profile s2)
                                  in (Inr (updated, False), dedupe s3)))))"

record one_time_request =
  ot_label :: string
  ot_mode :: upstream_mode
  ot_base_url :: string
  ot_access_token :: string
  ot_chatgpt_account_id :: "string option"
  ot_enabled :: "bool option"
  ot_priority :: "int option"
  ot_token_expires_at :: "timestamp option"
  ot_chatgpt_plan_type :: "string option"
  ot_source_type :: "string option"

definition one_time_match ::
  "string option \<Rightarrow> string \<Rightarrow> upstream_mode \<Rightarrow> pool_store \<Rightarrow> uuid \<times> upstream_account \<Rightarrow> bool" where
  "one_time_match chatgpt_account_id label mode s entry =
     (case entry of (account_id, account) \<Rightarrow>
        if account_auth_provider s account_id \<noteq> LegacyBearer then False
        else if chatgpt_account_id \<noteq> None \<and> ua_chatgpt_account_id account = chatgpt_account_id then True
        else if ua_mode account \<noteq> mode then False
        else chatgpt_account_id = None \<and> ua_label account = label)"

definition upsert_one_time_session_account_inner ::
  "pool_deps \<Rightarrow> uuid \<Rightarrow> timestamp \<Rightarrow> one_time_request \<Rightarrow> pool_store \<Rightarrow>
   (string + upstream_account \<times> bool) \<times> pool_store" where
  "upsert_one_time_session_account_inner d new_id now req s =
     (let chatgpt_account_id = Option.bind (ot_chatgpt_account_id req) trim_nonempty;
          label = trim (ot_label req);
          base_url = normalize_upstream_account_base_url d (ot_mode req) (ot_base_url req);
          profile = profile_one_time_access_token (ot_token_expires_at req) (ot_chatgpt_plan_type req)
                      (ot_source_type req);
          found = find (one_time_match chatgpt_account_id label (ot_mode req) s) (ps_accounts s);
          account_id = (case found of Some (i, _) \<Rightarrow> i | None \<Rightarrow> new_id);
          created_at = (case found of Some (_, a) \<Rightarrow> ua_created_at a | None \<Rightarrow> now);
          record_id = (case found of Some (_, a) \<Rightarrow> ua_id a | None \<Rightarrow> new_id);
          account = \<lparr>ua_id = record_id, ua_label = label, ua_mode = ot_mode req, ua_base_url = base_url,
                     ua_bearer_token = ot_access_token req, ua_chatgpt_account_id = chatgpt_account_id,
                     ua_enabled = option_or (ot_enabled req) True, ua_priority = option_or (ot_priority req) 100,
                     ua_created_at = created_at\<rparr>
      in if label = [] then (Inl ''label is required'', s)
         else (Inr (account, found = None),
               bump_revision (upsert_session_profile account_id profile
                 (s\<lparr>ps_accounts := hm_insert account_id account (ps_accounts s),
                    ps_auth_providers := hm_insert account_id LegacyBearer (ps_auth_providers s)\<rparr>))))"

end
