(* ===== verification/Pool_Activation.thy ===== *)
theory Pool_Activation
  imports Pool_Tokens
begin

text \<open>
  The background work on the pool (\<^verbatim>\<open>store/oauth_ops.rs\<close>): the refresh of an account's token and of all
  tokens that expire soon, and the activation of vault records until the pool has its target size. The
  batches that the code runs concurrently are run one after the other; fresh identifiers and the clock are
  functions of the position in the batch.
\<close>

section \<open>Refreshing one account\<close>

definition refresh_failed :: "timestamp \<Rightarrow> oauth_token_client_error \<Rightarrow> oauth_credential_record \<Rightarrow> oauth_credential_record" where
  "refresh_failed now err credential =
     (let error_code = oauth_error_code_str (oauth_error_code err);
          counted = credential\<lparr>cr_last_refresh_status := RefreshFailed, cr_last_refresh_at := Some now,
            cr_refresh_reused_detected := (error_code = ''refresh_token_reused'' \<or>
                                           error_code = ''refresh_token_revoked''),
            cr_last_refresh_error_code := Some error_code,
            cr_last_refresh_error := Some (truncate_error_message (oauth_error_text err)),
            cr_refresh_failure_count := sat_succ_u32 (cr_refresh_failure_count credential)\<rparr>
      in counted\<lparr>cr_refresh_backoff_until := Some (now + backoff_duration counted)\<rparr>)"

definition usable_fallback :: "timestamp \<Rightarrow> oauth_credential_record \<Rightarrow> bool" where
  "usable_fallback now credential =
     has_usable_access_token_fallback (has_access_token_fallback credential)
       (cr_fallback_token_expires_at credential) now"

definition terminal_invalid :: "oauth_credential_record \<Rightarrow> bool" where
  "terminal_invalid credential =
     refresh_credential_is_terminal_invalid (cr_last_refresh_status credential)
       (cr_refresh_reused_detected credential) (cr_last_refresh_error_code credential)"

definition store_refreshed ::
  "pool_deps \<Rightarrow> uuid \<Rightarrow> string \<Rightarrow> timestamp \<Rightarrow> oauth_credential_record \<Rightarrow> oauth_token_info \<Rightarrow> pool_store \<Rightarrow>
   (string + oauth_credential_record) \<times> pool_store" where
  "store_refreshed d account_id new_family now previous token_info s =
     (case credential_from_token_info d new_family now token_info of
        Inl e \<Rightarrow> (Inl e, s)
      | Inr fresh \<Rightarrow>
          let credential = fresh\<lparr>cr_token_family_id := cr_token_family_id previous,
                                 cr_token_version := min (cr_token_version previous + 1) u64_max\<rparr>;
              s1 = upsert_oauth_credential account_id credential s;
              s2 = (if ti_chatgpt_account_id token_info \<noteq> None
                    then update_account account_id
                           (\<lambda>a. a\<lparr>ua_chatgpt_account_id := ti_chatgpt_account_id token_info\<rparr>) s1
                    else s1);
              profile = (case map_of (ps_session_profiles s2) account_id of
                           Some p \<Rightarrow> merge_oauth_token_info token_info RefreshRotatable None None p
                         | None \<Rightarrow> profile_from_oauth_token_info token_info RefreshRotatable None None)
          in (Inr credential, bump_revision (upsert_session_profile account_id profile s2)))"

definition punish_refresh_failure ::
  "pool_deps \<Rightarrow> uuid \<Rightarrow> timestamp \<Rightarrow> oauth_credential_record \<Rightarrow> pool_store \<Rightarrow> pool_store" where
  "punish_refresh_failure d account_id now credential s =
     (if cr_refresh_reused_detected credential
      then mark_oauth_family_pending_purge_inner d (cr_token_family_id credential)
             (cr_last_refresh_error_code credential) now s
      else if is_fatal_refresh_error_code (cr_last_refresh_error_code credential) \<and>
              \<not> usable_fallback now credential
      then snd (mark_upstream_account_pending_purge_inner d account_id
                  (cr_last_refresh_error_code credential) now s)
      else s)"

definition refresh_oauth_account_inner ::
  "pool_deps \<Rightarrow> uuid \<Rightarrow> bool \<Rightarrow> string \<Rightarrow> timestamp \<Rightarrow> pool_store \<Rightarrow> (string + oauth_account_status) \<times> pool_store" where
  "refresh_oauth_account_inner d account_id force new_family now s =
     (if account_auth_provider s account_id \<noteq> OAuthRefreshToken then oauth_account_status_inner d account_id now s
      else case (map_of (ps_accounts s) account_id, map_of (ps_credentials s) account_id) of
        (None, _) \<Rightarrow> (Inl ''account not found'', s)
      | (Some _, None) \<Rightarrow> (Inl ''oauth credential not found'', s)
      | (Some account, Some credential) \<Rightarrow>
          let status = (\<lambda>a c s. case oauth_status_from a OAuthRefreshToken (Some c)
                                     (map_of (ps_session_profiles s) account_id) now s of
                                  (r, s') \<Rightarrow> (Inr r, s'));
              old_profile = map_of (ps_session_profiles s) account_id
          in if terminal_invalid credential \<and> usable_fallback now credential then status account credential s
             else if \<not> (force \<or> cr_token_expires_at credential \<le> now + seconds oauth_refresh_window_sec)
             then status account credential s
             else if (case cr_refresh_backoff_until credential of Some until \<Rightarrow> until > now | None \<Rightarrow> False)
             then status account credential s
             else if \<not> pd_has_cipher d then (Inl cipher_missing, s)
             else case pd_decrypt d (cr_refresh_token_enc credential) of
               Inl e \<Rightarrow> (Inl e, s)
             | Inr refresh_token \<Rightarrow>
                 (case pd_refresh_token d now refresh_token (Some (ua_base_url account)) of
                    Inr token_info \<Rightarrow>
                      and_then (store_refreshed d account_id new_family now credential token_info s)
                        (\<lambda>credential' s1.
                           let account' = (if ti_chatgpt_account_id token_info \<noteq> None
                                           then account\<lparr>ua_chatgpt_account_id := ti_chatgpt_account_id token_info\<rparr>
                                           else account);
                               (r, s2) = oauth_status_from account' OAuthRefreshToken (Some credential')
                                           old_profile now s1
                           in (Inr r, s2))
                  | Inl err \<Rightarrow>
                      let credential' = refresh_failed now err credential;
                          s1 = punish_refresh_failure d account_id now credential'
                                 (upsert_oauth_credential account_id credential' s);
                          (r, s2) = oauth_status_from account OAuthRefreshToken (Some credential')
                                      old_profile now s1
                      in (Inr r, s2)))"

section \<open>Refreshing all tokens that expire soon\<close>

text \<open>
  One pass over the accounts picks at most \<open>limit\<close> of them; reading the pool state of an account on the way
  may end its quarantine. The batch is then refreshed, and the loop goes on as long as it was full.
\<close>

definition refresh_wanted :: "timestamp \<Rightarrow> oauth_credential_record \<Rightarrow> bool" where
  "refresh_wanted now credential \<longleftrightarrow>
     \<not> (case cr_refresh_backoff_until credential of Some until \<Rightarrow> until > now | None \<Rightarrow> False) \<and>
     cr_token_expires_at credential \<le> now + seconds oauth_refresh_window_sec"

fun select_expiring ::
  "timestamp \<Rightarrow> nat \<Rightarrow> (uuid \<times> upstream_account) list \<Rightarrow> pool_store \<Rightarrow> uuid list \<times> pool_store" where
  "select_expiring now limit [] s = ([], s)"
| "select_expiring now limit ((account_id, account) # entries) s =
     (if limit = 0 then ([], s)
      else if \<not> ua_enabled account then select_expiring now limit entries s
      else let (state, s1) = account_pool_state_record_inner now account_id s in
        if hs_pool_state state = PoolActive \<and> account_auth_provider s1 account_id = OAuthRefreshToken \<and>
           (case map_of (ps_credentials s1) account_id of
              Some credential \<Rightarrow> refresh_wanted now credential | None \<Rightarrow> False)
        then let (ids, s2) = select_expiring now (limit - 1) entries s1 in (account_id # ids, s2)
        else select_expiring now limit entries s1)"

definition refresh_batch ::
  "pool_deps \<Rightarrow> (nat \<Rightarrow> string) \<Rightarrow> timestamp \<Rightarrow> uuid list \<Rightarrow> pool_store \<Rightarrow> pool_store" where
  "refresh_batch d new_family now ids s =
     fold (\<lambda>(j, account_id) s. snd (refresh_oauth_account_inner d account_id False (new_family j) now s))
       (enumerate 0 ids) s"

partial_function (option) refresh_expiring_loop ::
  "pool_deps \<Rightarrow> (nat \<Rightarrow> timestamp) \<Rightarrow> (nat \<Rightarrow> nat \<Rightarrow> string) \<Rightarrow> nat \<Rightarrow> nat \<Rightarrow> pool_store \<Rightarrow> pool_store option" where
  "refresh_expiring_loop d clock new_family batch_size i s =
     (let sel = select_expiring (clock i) batch_size (ps_accounts s) s
      in if fst sel = [] then Some (snd sel)
         else let s2 = refresh_batch d (new_family i) (clock i) (fst sel) (snd sel)
              in if length (fst sel) < batch_size then Some s2
                 else refresh_expiring_loop d clock new_family batch_size (i + 1) s2)"

definition refresh_expiring_oauth_accounts_inner ::
  "pool_deps \<Rightarrow> (nat \<Rightarrow> timestamp) \<Rightarrow> (nat \<Rightarrow> nat \<Rightarrow> string) \<Rightarrow> pool_store \<Rightarrow> pool_store option" where
  "refresh_expiring_oauth_accounts_inner d clock new_family s =
     refresh_expiring_loop d clock new_family (oauth_refresh_batch_size_from_env (pd_env d)) 0
       (purge_expired_one_time_accounts_inner (clock 0) s)"

section \<open>Activating vault records\<close>

definition fail_activation :: "timestamp \<Rightarrow> oauth_vault_record_status \<Rightarrow> string \<Rightarrow> string \<Rightarrow> vault_record \<Rightarrow> vault_record" where
  "fail_activation now candidate_status error_code error_message item =
     (let fatal_auth = is_fatal_refresh_error_code (Some error_code);
          terminal_config_error = (normalize_health_error_code error_code = ''credential_cipher_missing'' \<or>
                                   normalize_health_error_code error_code = ''credential_decrypt_failed'');
          next_failure_count = sat_succ_u32 (va_failure_count item);
          allow_retry = (if terminal_config_error then False
                         else if fatal_auth then can_retry_fatal_activation_failure next_failure_count
                         else True);
          retry_at = now + vault_activation_backoff next_failure_count;
          retry = (if allow_retry then Some retry_at else None)
      in item\<lparr>va_status := (if allow_retry then oauth_vault_activation_fallback_status candidate_status
                             else VaultFailed),
              va_failure_count := next_failure_count, va_last_error_code := Some error_code,
              va_last_error_message := Some error_message, va_failure_stage := Some ActivationRefresh,
              va_attempt_count := sat_succ_u32 (va_attempt_count item), va_updated_at := now,
              va_retryable := allow_retry,
              va_terminal_reason := (if allow_retry then None else Some error_code),
              va_backoff_until := retry, va_next_attempt_at := retry, va_next_retry_at := retry\<rparr>)"

definition mark_oauth_vault_activation_failed_inner ::
  "uuid \<Rightarrow> oauth_vault_record_status \<Rightarrow> string \<Rightarrow> string \<Rightarrow> timestamp \<Rightarrow> pool_store \<Rightarrow> pool_store" where
  "mark_oauth_vault_activation_failed_inner record_id candidate_status error_code error_message now s =
     update_vault record_id (fail_activation now candidate_status error_code error_message) s"

definition ready_session_profile_from_vault_record :: "vault_record \<Rightarrow> timestamp \<Rightarrow> session_profile_record" where
  "ready_session_profile_from_vault_record item token_expires_at =
     \<lparr>sp_credential_kind = RefreshRotatable, sp_token_expires_at = Some token_expires_at,
      sp_email = va_email item, sp_chatgpt_plan_type = va_chatgpt_plan_type item, sp_chatgpt_user_id = None,
      sp_chatgpt_account_user_id = None, sp_workspace_name = None, sp_source_type = va_source_type item\<rparr>"

definition ready_token_expires_at :: "pool_deps \<Rightarrow> vault_record \<Rightarrow> string \<Rightarrow> string + timestamp" where
  "ready_token_expires_at d item access_token_enc =
     (case va_fallback_token_expires_at item of
        Some t \<Rightarrow> Inr t
      | None \<Rightarrow>
          if \<not> pd_has_cipher d then Inl cipher_missing
          else (case pd_decrypt d access_token_enc of
                  Inl e \<Rightarrow> Inl (truncate_error_message e)
                | Inr token \<Rightarrow> (case parse_jwt_exp_from_access_token d token of
                                  Some t \<Rightarrow> Inr t
                                | None \<Rightarrow> Inl ''ready access token expiry is unknown'')))"

definition ready_credential ::
  "vault_record \<Rightarrow> string \<Rightarrow> timestamp \<Rightarrow> oauth_credential_record option \<Rightarrow> oauth_credential_record" where
  "ready_credential item access_token_enc token_expires_at existing =
     \<lparr>cr_access_token_enc = access_token_enc, cr_refresh_token_enc = va_refresh_token_enc item,
      cr_fallback_access_token_enc = Some access_token_enc,
      cr_refresh_token_sha256 = va_refresh_token_sha256 item,
      cr_token_family_id = (case existing of Some c \<Rightarrow> cr_token_family_id c
                                           | None \<Rightarrow> ''vault:'' @ va_refresh_token_sha256 item),
      cr_token_version = (case existing of Some c \<Rightarrow> cr_token_version c | None \<Rightarrow> 0),
      cr_token_expires_at = token_expires_at, cr_fallback_token_expires_at = Some token_expires_at,
      cr_last_refresh_at = None, cr_last_refresh_status = RefreshNever, cr_refresh_reused_detected = False,
      cr_last_refresh_error_code = None, cr_last_refresh_error = None, cr_refresh_failure_count = 0,
      cr_refresh_backoff_until = None\<rparr>"

definition install_ready_account ::
  "uuid \<Rightarrow> vault_record \<Rightarrow> oauth_credential_record \<Rightarrow> timestamp \<Rightarrow> timestamp \<Rightarrow> uuid option \<Rightarrow> pool_store \<Rightarrow>
   (string + upstream_account) \<times> pool_store" where
  "install_ready_account new_id item credential token_expires_at now matched s =
     (let account_id = option_or matched new_id;
          base = \<lparr>ua_id = account_id, ua_label = va_label item, ua_mode = va_desired_mode item,
                  ua_base_url = va_base_url item, ua_bearer_token = oauth_managed_bearer_sentinel,
                  ua_chatgpt_account_id = va_chatgpt_account_id item, ua_enabled = va_desired_enabled item,
                  ua_priority = va_desired_priority item, ua_created_at = now\<rparr>;
          old_account = (if matched = None then None else map_of (ps_accounts s) account_id);
          account = (case old_account of
                       Some a \<Rightarrow> base\<lparr>ua_id := ua_id a, ua_created_at := ua_created_at a\<rparr> | None \<Rightarrow> base);
          old_profile = (if matched = None then None else map_of (ps_session_profiles s) account_id);
          profile = (case old_profile of
                       Some p \<Rightarrow> p\<lparr>sp_credential_kind := RefreshRotatable,
                                   sp_token_expires_at := Some token_expires_at,
                                   sp_email := or_else (va_email item) (sp_email p),
                                   sp_chatgpt_plan_type :=
                                     or_else (va_chatgpt_plan_type item) (sp_chatgpt_plan_type p),
                                   sp_source_type := or_else (va_source_type item) (sp_source_type p)\<rparr>
                     | None \<Rightarrow> ready_session_profile_from_vault_record item token_expires_at)
      in if matched \<noteq> None \<and> old_account = None then (Inl ''matched oauth account is missing'', s)
         else (Inr account,
               upsert_session_profile account_id profile
                 (upsert_oauth_credential account_id credential
                   (s\<lparr>ps_accounts := hm_insert account_id account (ps_accounts s),
                      ps_auth_providers := hm_insert account_id OAuthRefreshToken (ps_auth_providers s)\<rparr>))))"

definition materialize_ready_oauth_vault_record_inner ::
  "pool_deps \<Rightarrow> uuid \<Rightarrow> vault_record \<Rightarrow> timestamp \<Rightarrow> pool_store \<Rightarrow> (string + upstream_account) \<times> pool_store" where
  "materialize_ready_oauth_vault_record_inner d new_id item now s =
     (case va_fallback_access_token_enc item of
        None \<Rightarrow> (Inl ''ready access token is missing'', s)
      | Some access_token_enc \<Rightarrow>
          (case ready_token_expires_at d item access_token_enc of
             Inl e \<Rightarrow> (Inl e, s)
           | Inr token_expires_at \<Rightarrow>
               if token_expires_at \<le> now + seconds oauth_min_valid_sec
               then (Inl ''ready access token is already expired'', s)
               else
               let matched = matched_oauth_account_id_for_vault_record item s;
                   credential = ready_credential item access_token_enc token_expires_at
                                  (Option.bind matched (map_of (ps_credentials s)));
                   checked_at = option_or (va_admission_checked_at item) now
               in and_then (install_ready_account new_id item credential token_expires_at now matched s)
                    (\<lambda>account s1.
                       let s2 = (if va_admission_rate_limits item \<noteq> []
                                 then persist_rate_limit_cache_success_inner d (ua_id account)
                                        (va_admission_rate_limits item) checked_at None s1
                                 else s1);
                           s3 = record_account_probe_result_inner (ua_id account) checked_at ProbeOk s2;
                           s4 = set_account_pool_state_active_inner (ua_id account) now now s3
                       in (Inr account, bump_revision s4))))"

definition oauth_active_account_count_inner :: "timestamp \<Rightarrow> pool_store \<Rightarrow> nat" where
  "oauth_active_account_count_inner now s =
     length (filter (\<lambda>(account_id, account).
       ua_enabled account \<and> map_of (ps_auth_providers s) account_id = Some OAuthRefreshToken \<and>
       (let state = health_of s account_id in
        hs_pool_state state = PoolActive \<or>
        (hs_pool_state state = PoolQuarantine \<and>
         (case hs_quarantine_until state of Some u \<Rightarrow> u \<le> now | None \<Rightarrow> False)))) (ps_accounts s))"

definition activation_due :: "timestamp \<Rightarrow> vault_record \<Rightarrow> bool" where
  "activation_due now item \<longleftrightarrow>
     va_status item \<in> {VaultReady, VaultNeedsRefresh, VaultQueued} \<and>
     (case va_backoff_until item of Some t \<Rightarrow> t \<le> now | None \<Rightarrow> True) \<and>
     (case va_next_attempt_at item of Some t \<Rightarrow> t \<le> now | None \<Rightarrow> True)"

definition oauth_vault_activation_candidates_inner :: "timestamp \<Rightarrow> nat \<Rightarrow> pool_store \<Rightarrow> vault_record list" where
  "oauth_vault_activation_candidates_inner now limit s =
     take limit (sort_key (\<lambda>item. (oauth_vault_activation_priority (va_status item), va_created_at item, va_id item))
       (filter (activation_due now) (map snd (ps_vault s))))"

definition oauth_vault_admission_reprobe_candidates_inner :: "timestamp \<Rightarrow> nat \<Rightarrow> pool_store \<Rightarrow> uuid list" where
  "oauth_vault_admission_reprobe_candidates_inner now limit s =
     map va_id (take limit (sort_key (\<lambda>item. (va_admission_retry_after item, va_created_at item, va_id item))
       (filter (\<lambda>item. va_status item \<in> {VaultNoQuota, VaultFailed} \<and>
                  (case va_admission_retry_after item of Some t \<Rightarrow> t \<le> now | None \<Rightarrow> False))
          (map snd (ps_vault s)))))"

text \<open>
  One candidate: \<open>Inl\<close> ends the whole pass with that error, \<open>Inr\<close> says whether the record was activated.
\<close>

definition settle_activation ::
  "vault_record \<Rightarrow> timestamp \<Rightarrow> (string + upstream_account) \<times> pool_store \<Rightarrow> (string + bool) \<times> pool_store" where
  "settle_activation candidate now r =
     (case r of
        (Inr account, s) \<Rightarrow>
          let s1 = set_account_pool_state_active_inner (ua_id account) now now s
          in (Inr True, s1\<lparr>ps_vault := hm_remove (va_id candidate) (ps_vault s1)\<rparr>)
      | (Inl e, s) \<Rightarrow>
          let error_message = truncate_error_message e
          in (Inr False,
              mark_oauth_vault_activation_failed_inner (va_id candidate) (va_status candidate)
                (classify_vault_activation_error_code error_message) error_message now s))"

definition activate_by_refresh ::
  "pool_deps \<Rightarrow> uuid \<Rightarrow> string \<Rightarrow> vault_record \<Rightarrow> timestamp \<Rightarrow> pool_store \<Rightarrow> (string + bool) \<times> pool_store" where
  "activate_by_refresh d new_id new_family candidate now s =
     (if \<not> pd_has_cipher d then (Inl cipher_missing, s)
      else case pd_decrypt d (va_refresh_token_enc candidate) of
        Inl e \<Rightarrow>
          (Inr False, mark_oauth_vault_activation_failed_inner (va_id candidate) (va_status candidate)
                        ''vault_decrypt_failed'' (truncate_error_message e) now s)
      | Inr refresh_token \<Rightarrow>
          (case (case va_fallback_access_token_enc candidate of
                   None \<Rightarrow> Inr None
                 | Some token_enc \<Rightarrow> (case pd_decrypt d token_enc of Inl e \<Rightarrow> Inl e | Inr t \<Rightarrow> Inr (Some t))) of
             Inl e \<Rightarrow> (Inl e, s)
           | Inr fallback_access_token \<Rightarrow>
               settle_activation candidate now
                 (and_then
                   (upsert_oauth_refresh_token_inner d new_id new_family now
                      \<lparr>ir_label = va_label candidate, ir_base_url = va_base_url candidate,
                       ir_refresh_token = refresh_token, ir_fallback_access_token = fallback_access_token,
                       ir_fallback_token_expires_at = va_fallback_token_expires_at candidate,
                       ir_chatgpt_account_id = va_chatgpt_account_id candidate,
                       ir_mode = Some (va_desired_mode candidate),
                       ir_enabled = Some (va_desired_enabled candidate),
                       ir_priority = Some (va_desired_priority candidate),
                       ir_chatgpt_plan_type = va_chatgpt_plan_type candidate,
                       ir_source_type = va_source_type candidate\<rparr> s)
                   (\<lambda>r s. (Inr (fst r), s)))))"

definition activate_candidate ::
  "pool_deps \<Rightarrow> uuid \<Rightarrow> string \<Rightarrow> vault_record \<Rightarrow> timestamp \<Rightarrow> pool_store \<Rightarrow> (string + bool) \<times> pool_store" where
  "activate_candidate d new_id new_family candidate now s =
     (case va_status candidate of
        VaultReady \<Rightarrow>
          let s1 = probe_oauth_vault_admission_inner d (va_id candidate) now s
          in (case map_of (ps_vault s1) (va_id candidate) of
                None \<Rightarrow> (Inr False, s1)
              | Some updated \<Rightarrow>
                  if va_status updated \<noteq> VaultReady then (Inr False, s1)
                  else settle_activation updated now
                         (materialize_ready_oauth_vault_record_inner d new_id updated now s1))
      | VaultNeedsRefresh \<Rightarrow> activate_by_refresh d new_id new_family candidate now s
      | VaultQueued \<Rightarrow> activate_by_refresh d new_id new_family candidate now s
      | _ \<Rightarrow> (Inr False, s))"

fun activate_candidates ::
  "pool_deps \<Rightarrow> (nat \<Rightarrow> uuid) \<Rightarrow> (nat \<Rightarrow> string) \<Rightarrow> (nat \<Rightarrow> timestamp) \<Rightarrow> nat \<Rightarrow> vault_record list \<Rightarrow> nat \<Rightarrow>
   pool_store \<Rightarrow> (string + nat) \<times> pool_store" where
  "activate_candidates d new_id new_family clock i [] activated s = (Inr activated, s)"
| "activate_candidates d new_id new_family clock i (candidate # candidates) activated s =
     and_then (activate_candidate d (new_id i) (new_family i) candidate (clock i) s)
       (\<lambda>success s1. activate_candidates d new_id new_family clock (i + 1) candidates
                    (if success then activated + 1 else activated) s1)"

definition activate_oauth_refresh_token_vault_inner ::
  "pool_deps \<Rightarrow> (nat \<Rightarrow> uuid) \<Rightarrow> (nat \<Rightarrow> string) \<Rightarrow> timestamp \<Rightarrow> (nat \<Rightarrow> timestamp) \<Rightarrow> pool_store \<Rightarrow>
   (string + nat) \<times> pool_store" where
  "activate_oauth_refresh_token_vault_inner d new_id new_family now clock s =
     (let s0 = purge_expired_one_time_accounts_inner now s;
          batch_size = oauth_vault_activate_batch_size_from_env (pd_env d);
          s1 = fold (\<lambda>record_id. probe_oauth_vault_admission_inner d record_id now)
                 (oauth_vault_admission_reprobe_candidates_inner now batch_size s0) s0;
          active_count = oauth_active_account_count_inner now s1;
          target = active_pool_target_from_env (pd_env d);
          runtime_cap = runtime_pool_cap_from_env (pd_env d);
          runtime_count = runtime_pool_account_count_inner s1
      in if runtime_cap \<le> runtime_count then (Inr 0, s1)
         else if target \<le> active_count then (Inr 0, s1)
         else let limit = min (min (target - active_count) batch_size) (runtime_cap - runtime_count)
              in if limit = 0 then (Inr 0, s1)
                 else activate_candidates d new_id new_family clock 0
                        (oauth_vault_activation_candidates_inner now limit s1) 0 s1)"

end
