(* ===== verification/Route_Plan.thy ===== *)
theory Route_Plan
  imports Pool_Activation Router "HOL-Library.List_Lexorder" "HOL-Library.Char_ord"
begin

text \<open>
  What the data plane gets from the pool (\<^verbatim>\<open>store/family_snapshot.rs\<close>): the routing traits of the
  accounts, the routing plan compiled from profiles and model policies, and the snapshot that carries
  them together with the accounts and the tokens they are to use.
\<close>

section \<open>Routing traits\<close>

definition build_account_routing_traits ::
  "timestamp \<Rightarrow> pool_store \<Rightarrow> upstream_account list \<Rightarrow> (uuid, account_routing_traits) hash_map" where
  "build_account_routing_traits now s accounts =
     hm_collect (map (\<lambda>account.
       let i = ua_id account;
           (blocked_until, hard_block_reason) = derive_rate_limit_block (rlc_rate_limits (cache_of s i)) now;
           h = health_of s i;
           freshness = account_health_freshness_from_signals now (hs_seen_ok_at h) (hs_last_probe_at h)
                         (hs_last_probe_outcome h) (hs_last_live_result_at h) (hs_last_live_result_status h)
       in (i, \<lparr>art_account_id = i,
               art_plan_type = Option.bind (map_of (ps_session_profiles s) i) sp_chatgpt_plan_type,
               art_auth_provider = Some (account_auth_provider s i),
               art_supported_models = option_or (map_of (ps_model_support s) i) [],
               art_health_freshness = Some (routing_health_freshness_from_contract freshness),
               art_last_probe_at = hs_last_probe_at h, art_blocked_until = blocked_until,
               art_hard_block_reason = hard_block_reason\<rparr>)) accounts)"

section \<open>Compiling the plan\<close>

definition profile_matches_account ::
  "routing_profile \<Rightarrow> upstream_account \<Rightarrow> (uuid, account_routing_traits) hash_map \<Rightarrow> bool" where
  "profile_matches_account profile account account_traits =
     (let sel = rp_selector profile in
      if ua_id account \<in> set (rps_exclude_account_ids sel) then False
      else if ua_id account \<in> set (rps_include_account_ids sel) then True
      else case map_of account_traits (ua_id account) of
        None \<Rightarrow> False
      | Some traits \<Rightarrow>
          if rps_plan_types sel \<noteq> [] \<and>
             \<not> (case art_plan_type traits of
                  Some plan_type \<Rightarrow> list_ex (\<lambda>candidate. eq_ignore_ascii_case candidate plan_type) (rps_plan_types sel)
                | None \<Rightarrow> False) then False
          else if rps_modes sel \<noteq> [] \<and> ua_mode account \<notin> set (rps_modes sel) then False
          else if rps_auth_providers sel \<noteq> [] \<and>
             \<not> (case art_auth_provider traits of
                  Some provider \<Rightarrow> provider \<in> set (rps_auth_providers sel) | None \<Rightarrow> False) then False
          else True)"

definition not_blocked :: "timestamp \<Rightarrow> (uuid, account_routing_traits) hash_map \<Rightarrow> uuid \<Rightarrow> bool" where
  "not_blocked now account_traits account_id =
     (case Option.bind (map_of account_traits account_id) art_blocked_until of
        Some blocked_until \<Rightarrow> blocked_until \<le> now | None \<Rightarrow> True)"

definition compile_profile ::
  "timestamp \<Rightarrow> upstream_account list \<Rightarrow> (uuid, account_routing_traits) hash_map \<Rightarrow> routing_profile \<Rightarrow>
   compiled_routing_profile" where
  "compile_profile now accounts account_traits profile =
     \<lparr>crp_id = rp_id profile, crp_name = rp_name profile,
      crp_account_ids =
        map ua_id (sort_key (\<lambda>a. (- ua_priority a, ua_created_at a))
          (filter (\<lambda>a. profile_matches_account profile a account_traits \<and>
                       not_blocked now account_traits (ua_id a)) accounts))\<rparr>"

definition compile_profiles ::
  "timestamp \<Rightarrow> upstream_account list \<Rightarrow> (uuid, account_routing_traits) hash_map \<Rightarrow> pool_store \<Rightarrow>
   (uuid, compiled_routing_profile) hash_map" where
  "compile_profiles now accounts account_traits s =
     hm_collect (map (\<lambda>profile. (rp_id profile, compile_profile now accounts account_traits profile))
       (sort_key (\<lambda>p. (- rp_priority p, rp_created_at p))
         (filter rp_enabled (map snd (ps_routing_profiles s)))))"

definition source_policies :: "pool_store \<Rightarrow> model_routing_policy list" where
  "source_policies s =
     sort_key (\<lambda>p. (- mrp_priority p, mrp_created_at p))
       (filter mrp_enabled (map snd (ps_model_routing_policies s)))"

definition known_models ::
  "(uuid, account_routing_traits) hash_map \<Rightarrow> model_routing_policy list \<Rightarrow> string list" where
  "known_models account_traits policies =
     remdups_adj (sort (concat (map (\<lambda>(_, traits). art_supported_models traits) account_traits) @
                        concat (map mrp_exact_models policies)))"

definition is_default_policy :: "model_routing_policy \<Rightarrow> bool" where
  "is_default_policy policy \<longleftrightarrow> mrp_exact_models policy = [] \<and> mrp_model_prefixes policy = []"

definition policy_models :: "string list \<Rightarrow> model_routing_policy \<Rightarrow> string list" where
  "policy_models known policy =
     remdups_adj (sort (mrp_exact_models policy @
       filter (\<lambda>model. list_ex (\<lambda>p. prefix p model) (mrp_model_prefixes policy)) known))"

definition fallback_segments ::
  "(uuid, compiled_routing_profile) hash_map \<Rightarrow> model_routing_policy \<Rightarrow> compiled_routing_profile list" where
  "fallback_segments compiled policy =
     filter (\<lambda>profile. crp_account_ids profile \<noteq> [])
       (List.map_filter (map_of compiled) (mrp_fallback_profile_ids policy))"

definition compiled_policy ::
  "model_routing_policy \<Rightarrow> compiled_routing_profile list \<Rightarrow> string \<Rightarrow> compiled_model_routing_policy" where
  "compiled_policy policy segments model =
     \<lparr>cmp_id = mrp_id policy, cmp_name = mrp_name policy, cmp_family = mrp_family policy,
      cmp_exact_models = [model], cmp_model_prefixes = [], cmp_fallback_segments = segments\<rparr>"

text \<open>The two loops over models: routed models are remembered and skipped.\<close>

definition route_model ::
  "(uuid, compiled_routing_profile) hash_map \<Rightarrow> model_routing_policy \<Rightarrow> string \<Rightarrow>
   string list \<times> compiled_model_routing_policy list \<Rightarrow> string list \<times> compiled_model_routing_policy list" where
  "route_model compiled policy model acc =
     (case acc of (routed, policies) \<Rightarrow>
        if model \<in> set routed then acc
        else let segments = fallback_segments compiled policy in
          if segments = [] then acc
          else (routed @ [model], policies @ [compiled_policy policy segments model]))"

definition route_explicit ::
  "(uuid, compiled_routing_profile) hash_map \<Rightarrow> string list \<Rightarrow> model_routing_policy list \<Rightarrow>
   string list \<times> compiled_model_routing_policy list" where
  "route_explicit compiled known policies =
     fold (\<lambda>policy. fold (route_model compiled policy) (policy_models known policy))
       (filter (\<lambda>p. \<not> is_default_policy p) policies) ([], [])"

definition compile_routing_plan_from_state ::
  "uuid \<Rightarrow> timestamp \<Rightarrow> upstream_account list \<Rightarrow> (uuid, account_routing_traits) hash_map \<Rightarrow> pool_store \<Rightarrow>
   compiled_routing_plan option" where
  "compile_routing_plan_from_state new_id now accounts account_traits s =
     (let compiled = compile_profiles now accounts account_traits s;
          policies = source_policies s;
          known = known_models account_traits policies;
          default_policy = find is_default_policy policies;
          (routed, explicit) = route_explicit compiled known policies;
          default_route = (case default_policy of Some p \<Rightarrow> fallback_segments compiled p | None \<Rightarrow> []);
          rest = (case default_policy of
                    None \<Rightarrow> []
                  | Some p \<Rightarrow>
                      if fallback_segments compiled p = [] then []
                      else map (compiled_policy p (fallback_segments compiled p))
                             (filter (\<lambda>model. model \<notin> set routed) known));
          all = explicit @ rest
      in if default_route = [] \<and> all = [] then None
         else Some \<lparr>plan_version_id = new_id, plan_published_at = now,
                    plan_trigger_reason = Some ''in_memory_snapshot'',
                    plan_default_route = default_route, plan_policies = all\<rparr>)"

section \<open>The snapshot\<close>

definition disabled_without_token :: "upstream_account \<Rightarrow> upstream_account" where
  "disabled_without_token account = account\<lparr>ua_enabled := False, ua_bearer_token := []\<rparr>"

definition with_decrypted :: "upstream_account \<Rightarrow> (string + string) \<Rightarrow> upstream_account" where
  "with_decrypted account token =
     (case token of Inr t \<Rightarrow> account\<lparr>ua_bearer_token := t\<rparr> | Inl _ \<Rightarrow> disabled_without_token account)"

definition decrypt_fallback :: "pool_deps \<Rightarrow> oauth_credential_record \<Rightarrow> string + string" where
  "decrypt_fallback d credential =
     (case cr_fallback_access_token_enc credential of
        Some token \<Rightarrow> pd_decrypt d token | None \<Rightarrow> Inl [])"

definition credential_effective_enabled ::
  "timestamp \<Rightarrow> pool_store \<Rightarrow> upstream_account \<Rightarrow> oauth_credential_record \<Rightarrow> bool" where
  "credential_effective_enabled now s account credential =
     (let cache = cache_of s (ua_id account) in
      oauth_effective_enabled (ua_enabled account) OAuthRefreshToken
        (Some (case map_of (ps_session_profiles s) (ua_id account) of
                 Some profile \<Rightarrow> sp_credential_kind profile | None \<Rightarrow> RefreshRotatable))
        (Some (cr_token_expires_at credential)) (has_access_token_fallback credential)
        (cr_fallback_token_expires_at credential) (cr_last_refresh_status credential)
        (cr_refresh_reused_detected credential) (cr_last_refresh_error_code credential)
        (rlc_expires_at cache) (rlc_last_error_code cache) (rlc_last_error cache) now)"

definition prefer_fallback :: "timestamp \<Rightarrow> oauth_credential_record \<Rightarrow> bool" where
  "prefer_fallback now credential =
     should_use_access_token_fallback_for_runtime (Some (cr_token_expires_at credential))
       (has_access_token_fallback credential) (cr_fallback_token_expires_at credential)
       (cr_last_refresh_status credential) (cr_refresh_reused_detected credential)
       (cr_last_refresh_error_code credential) now"

definition snapshot_account :: "pool_deps \<Rightarrow> timestamp \<Rightarrow> pool_store \<Rightarrow> upstream_account \<Rightarrow> upstream_account" where
  "snapshot_account d now s account =
     (if account_auth_provider s (ua_id account) \<noteq> OAuthRefreshToken then account
      else case map_of (ps_credentials s) (ua_id account) of
        None \<Rightarrow> disabled_without_token account
      | Some credential \<Rightarrow>
          let account' = account\<lparr>ua_enabled := credential_effective_enabled now s account credential\<rparr>
          in if \<not> pd_has_cipher d then disabled_without_token account'
             else if prefer_fallback now credential then with_decrypted account' (decrypt_fallback d credential)
             else case pd_decrypt d (cr_access_token_enc credential) of
                    Inr token \<Rightarrow> account'\<lparr>ua_bearer_token := token\<rparr>
                  | Inl _ \<Rightarrow> if usable_fallback now credential
                             then with_decrypted account' (decrypt_fallback d credential)
                             else disabled_without_token account')"

text \<open>The accounts that are active; reading the states ends the quarantines that are over.\<close>

fun retain_active :: "timestamp \<Rightarrow> upstream_account list \<Rightarrow> pool_store \<Rightarrow> upstream_account list \<times> pool_store" where
  "retain_active now [] s = ([], s)"
| "retain_active now (account # accounts) s =
     (let (state, s1) = account_pool_state_record_inner now (ua_id account) s;
          (rest, s2) = retain_active now accounts s1
      in (if hs_pool_state state = PoolActive then account # rest else rest, s2))"

text \<open>
  \<^verbatim>\<open>snapshot_inner\<close>. The settings, templates and proxy nodes of the snapshot are copied from other tables
  of the store; they are taken from the argument \<open>other\<close>.
\<close>

definition snapshot_inner ::
  "pool_deps \<Rightarrow> uuid \<Rightarrow> timestamp \<Rightarrow> data_plane_snapshot \<Rightarrow> pool_store \<Rightarrow> data_plane_snapshot \<times> pool_store" where
  "snapshot_inner d new_id now other s =
     (let s0 = purge_expired_one_time_accounts_inner now s;
          (listed, s1) = list_upstream_accounts_inner now s0;
          (active, s2) = retain_active now listed s1;
          accounts = map (snapshot_account d now s0) active;
          traits = build_account_routing_traits now s2 accounts;
          plan = compile_routing_plan_from_state new_id now accounts traits s2;
          revision = max (unat (ps_revision s2)) 1
      in (other\<lparr>sn_revision := revision, sn_cursor := revision, sn_accounts := accounts,
                sn_account_traits := map snd traits, sn_compiled_routing_plan := plan, sn_issued_at := now\<rparr>, s2))"

end
