(* ===== verification/Pool_Props.thy ===== *)
theory Pool_Props
  imports Route_Plan
begin

text \<open>
  Invariants of the account pool. \<open>tables_inv\<close> ties the tables together: every account has exactly one
  provider, credentials and session profiles belong to accounts, every OAuth account has a credential, and
  records are stored under their own identifier. \<open>health_inv\<close> is the shape of a health state: a deletion
  time exactly in pending purge, quarantine data only in quarantine, and a strike count that is positive
  exactly when a first strike is remembered.
\<close>

named_theorems pool_frame "tables an operation leaves alone"
named_theorems pool_inv_intros "operations that keep the invariant"

section \<open>Frames of the primitive operations\<close>

lemma emit_frame [pool_frame, simp]:
  "ps_accounts (emit_system_event_inner e s) = ps_accounts s"
  "ps_auth_providers (emit_system_event_inner e s) = ps_auth_providers s"
  "ps_credentials (emit_system_event_inner e s) = ps_credentials s"
  "ps_vault (emit_system_event_inner e s) = ps_vault s"
  "ps_session_profiles (emit_system_event_inner e s) = ps_session_profiles s"
  "ps_health (emit_system_event_inner e s) = ps_health s"
  "ps_rate_limit_caches (emit_system_event_inner e s) = ps_rate_limit_caches s"
  by (simp_all add: emit_system_event_inner_def)

lemma bump_frame [pool_frame, simp]:
  "ps_accounts (bump_revision s) = ps_accounts s"
  "ps_auth_providers (bump_revision s) = ps_auth_providers s"
  "ps_credentials (bump_revision s) = ps_credentials s"
  "ps_vault (bump_revision s) = ps_vault s"
  "ps_session_profiles (bump_revision s) = ps_session_profiles s"
  "ps_health (bump_revision s) = ps_health s"
  "ps_rate_limit_caches (bump_revision s) = ps_rate_limit_caches s"
  by (simp_all add: bump_revision_def)

lemma health_of_frame: "ps_health s' = ps_health s \<Longrightarrow> health_of s' i = health_of s i"
  by (simp add: health_of_def)

lemma update_health_frame [pool_frame, simp]:
  "ps_accounts (update_health i f s) = ps_accounts s"
  "ps_auth_providers (update_health i f s) = ps_auth_providers s"
  "ps_credentials (update_health i f s) = ps_credentials s"
  "ps_vault (update_health i f s) = ps_vault s"
  "ps_session_profiles (update_health i f s) = ps_session_profiles s"
  "ps_rate_limit_caches (update_health i f s) = ps_rate_limit_caches s"
  by (simp_all add: update_health_def)

lemma health_of_update [simp]:
  "health_of (update_health i f s) j = (if j = i then f (health_of s i) else health_of s j)"
  by (simp add: update_health_def health_of_def map_of_hm_insert)

section \<open>The invariant\<close>

definition health_wf :: "upstream_account_health_state_record \<Rightarrow> bool" where
  "health_wf h \<longleftrightarrow>
     (hs_pool_state h = PoolPendingPurge \<longleftrightarrow> hs_pending_purge_at h \<noteq> None) \<and>
     (hs_pool_state h \<noteq> PoolPendingPurge \<longrightarrow> hs_pending_purge_reason h = None) \<and>
     (hs_pool_state h \<noteq> PoolQuarantine \<longrightarrow> hs_quarantine_until h = None \<and> hs_quarantine_reason h = None) \<and>
     (hs_token_invalidated_strike_count h = 0 \<longleftrightarrow> hs_token_invalidated_first_at h = None)"

definition health_inv :: "pool_store \<Rightarrow> bool" where
  "health_inv s \<longleftrightarrow> hm_ok (ps_health s) \<and> (\<forall>i. health_wf (health_of s i))"

text \<open>The links between accounts, providers, credentials, session profiles and vault records, as maps.\<close>

definition linked ::
  "(uuid \<rightharpoonup> upstream_account) \<Rightarrow> (uuid \<rightharpoonup> upstream_auth_provider) \<Rightarrow> (uuid \<rightharpoonup> oauth_credential_record) \<Rightarrow>
   (uuid \<rightharpoonup> session_profile_record) \<Rightarrow> (uuid \<rightharpoonup> vault_record) \<Rightarrow> bool" where
  "linked accounts providers credentials profiles vault \<longleftrightarrow>
     (\<forall>i a. accounts i = Some a \<longrightarrow> ua_id a = i) \<and> (\<forall>i v. vault i = Some v \<longrightarrow> va_id v = i) \<and>
     (\<forall>i. providers i = None \<longleftrightarrow> accounts i = None) \<and>
     (\<forall>i. accounts i = None \<longrightarrow> credentials i = None \<and> profiles i = None) \<and>
     (\<forall>i. providers i = Some OAuthRefreshToken \<longrightarrow> credentials i \<noteq> None)"

definition tables_inv :: "pool_store \<Rightarrow> bool" where
  "tables_inv s \<longleftrightarrow>
     hm_ok (ps_accounts s) \<and> hm_ok (ps_auth_providers s) \<and> hm_ok (ps_credentials s) \<and>
     hm_ok (ps_vault s) \<and> hm_ok (ps_session_profiles s) \<and> hm_ok (ps_rate_limit_caches s) \<and>
     linked (map_of (ps_accounts s)) (map_of (ps_auth_providers s)) (map_of (ps_credentials s))
       (map_of (ps_session_profiles s)) (map_of (ps_vault s))"

lemma linked_update:
  "linked A P C S V \<Longrightarrow> A i \<noteq> None \<Longrightarrow> ua_id a = i \<Longrightarrow> linked (A(i \<mapsto> a)) P C S V"
  "linked A P C S V \<Longrightarrow> A i \<noteq> None \<Longrightarrow> linked A P (C(i \<mapsto> c)) S V"
  "linked A P C S V \<Longrightarrow> A i \<noteq> None \<Longrightarrow> linked A P C (S(i \<mapsto> p)) V"
  "linked A P C S V \<Longrightarrow> va_id v = i \<Longrightarrow> linked A P C S (V(i \<mapsto> v))"
  "linked A P C S V \<Longrightarrow> linked A P C S (V(i := None))"
  by (auto simp: linked_def)

lemma linked_new:
  "linked A P C S V \<Longrightarrow> ua_id a = i \<Longrightarrow> C i \<noteq> None \<or> p \<noteq> OAuthRefreshToken \<Longrightarrow>
   linked (A(i \<mapsto> a)) (P(i \<mapsto> p)) C S V"
  "linked A P C S V \<Longrightarrow> ua_id a = i \<Longrightarrow> linked (A(i \<mapsto> a)) (P(i \<mapsto> p)) (C(i \<mapsto> c)) S V"
  by (auto simp: linked_def)

lemma linked_remove:
  "linked A P C S V \<Longrightarrow> linked (A(i := None)) (P(i := None)) (C(i := None)) (S(i := None)) V"
  by (auto simp: linked_def)

lemmas hm_maps = update_conv' delete_conv'

definition pool_inv :: "pool_store \<Rightarrow> bool" where
  "pool_inv s \<longleftrightarrow> tables_inv s \<and> health_inv s"

lemma health_wf_default [simp]: "health_wf default_health_state"
  by (simp add: health_wf_def default_health_state_def)

lemma pool_inv_cong:
  assumes "pool_inv s"
    and "ps_accounts s' = ps_accounts s" "ps_auth_providers s' = ps_auth_providers s"
    "ps_credentials s' = ps_credentials s" "ps_vault s' = ps_vault s"
    "ps_session_profiles s' = ps_session_profiles s" "ps_health s' = ps_health s"
    "ps_rate_limit_caches s' = ps_rate_limit_caches s"
  shows "pool_inv s'"
  using assms by (simp add: pool_inv_def tables_inv_def health_inv_def health_of_def)

lemma pool_inv_emit [pool_inv_intros]: "pool_inv s \<Longrightarrow> pool_inv (emit_system_event_inner e s)"
  by (erule pool_inv_cong) simp_all

lemma pool_inv_bump [pool_inv_intros]: "pool_inv s \<Longrightarrow> pool_inv (bump_revision s)"
  by (erule pool_inv_cong) simp_all

lemma pool_inv_update_health [pool_inv_intros]:
  "pool_inv s \<Longrightarrow> health_wf (f (health_of s i)) \<Longrightarrow> pool_inv (update_health i f s)"
  by (simp add: pool_inv_def tables_inv_def health_inv_def)
    (simp add: update_health_def distinct_update)

lemma pool_inv_health [dest]: "pool_inv s \<Longrightarrow> health_wf (health_of s i)"
  by (simp add: pool_inv_def health_inv_def)

text \<open>Replacing an account by one of the same identifier, and the tables that hang on it.\<close>

lemma pool_inv_set_account [pool_inv_intros]:
  "pool_inv s \<Longrightarrow> map_of (ps_accounts s) i \<noteq> None \<Longrightarrow> ua_id a = i \<Longrightarrow>
   pool_inv (s\<lparr>ps_accounts := hm_insert i a (ps_accounts s)\<rparr>)"
  unfolding pool_inv_def tables_inv_def health_inv_def health_of_def
  by (simp add: hm_maps distinct_update linked_update del: map_of_eq_Some_iff)

lemma pool_inv_set_credential [pool_inv_intros]:
  "pool_inv s \<Longrightarrow> map_of (ps_accounts s) i \<noteq> None \<Longrightarrow> pool_inv (upsert_oauth_credential i c s)"
  unfolding pool_inv_def tables_inv_def health_inv_def health_of_def upsert_oauth_credential_def
  by (simp add: hm_maps distinct_update linked_update del: map_of_eq_Some_iff)

lemma pool_inv_set_profile [pool_inv_intros]:
  "pool_inv s \<Longrightarrow> map_of (ps_accounts s) i \<noteq> None \<Longrightarrow> pool_inv (upsert_session_profile i p s)"
  unfolding pool_inv_def tables_inv_def health_inv_def health_of_def upsert_session_profile_def
  by (simp add: hm_maps distinct_update linked_update del: map_of_eq_Some_iff)

lemma pool_inv_set_cache [pool_inv_intros]:
  "pool_inv s \<Longrightarrow> pool_inv (s\<lparr>ps_rate_limit_caches := hm_insert i c (ps_rate_limit_caches s)\<rparr>)"
  by (simp add: pool_inv_def tables_inv_def health_inv_def health_of_def distinct_update)

lemma pool_inv_account_id: "pool_inv s \<Longrightarrow> map_of (ps_accounts s) i = Some a \<Longrightarrow> ua_id a = i"
  unfolding pool_inv_def tables_inv_def linked_def by blast

lemma pool_inv_vault_id: "pool_inv s \<Longrightarrow> map_of (ps_vault s) i = Some v \<Longrightarrow> va_id v = i"
  unfolding pool_inv_def tables_inv_def linked_def by blast

lemma pool_inv_update_account [pool_inv_intros]:
  "pool_inv s \<Longrightarrow> (\<And>a. ua_id (f a) = ua_id a) \<Longrightarrow> pool_inv (update_account i f s)"
  unfolding update_account_def
  by (simp split: option.split add: pool_inv_set_account pool_inv_account_id del: map_of_eq_Some_iff)

lemma pool_inv_set_vault [pool_inv_intros]:
  "pool_inv s \<Longrightarrow> va_id v = i \<Longrightarrow> pool_inv (s\<lparr>ps_vault := hm_insert i v (ps_vault s)\<rparr>)"
  unfolding pool_inv_def tables_inv_def health_inv_def health_of_def
  by (simp add: hm_maps distinct_update linked_update del: map_of_eq_Some_iff)

lemma pool_inv_update_vault [pool_inv_intros]:
  "pool_inv s \<Longrightarrow> (\<And>v. va_id (f v) = va_id v) \<Longrightarrow> pool_inv (update_vault i f s)"
  unfolding update_vault_def
  by (simp split: option.split add: pool_inv_set_vault pool_inv_vault_id del: map_of_eq_Some_iff)

lemma pool_inv_remove_vault [pool_inv_intros]:
  "pool_inv s \<Longrightarrow> pool_inv (s\<lparr>ps_vault := hm_remove i (ps_vault s)\<rparr>)"
  unfolding pool_inv_def tables_inv_def health_inv_def health_of_def
  by (simp add: hm_maps distinct_delete linked_update del: map_of_eq_Some_iff)

lemma pool_inv_fold [pool_inv_intros]:
  "pool_inv s \<Longrightarrow> (\<And>x s. pool_inv s \<Longrightarrow> pool_inv (f x s)) \<Longrightarrow> pool_inv (fold f xs s)"
  by (induction xs arbitrary: s) auto

section \<open>The operations keep the invariant\<close>

lemma pool_inv_transition [pool_inv_intros]:
  "pool_inv s \<Longrightarrow> pool_inv (emit_account_pool_state_transition_inner now i f t rc na src m s)"
  by (simp add: emit_account_pool_state_transition_inner_def Let_def pool_inv_emit)

lemma pool_inv_deleted_event [pool_inv_intros]:
  "pool_inv s \<Longrightarrow> pool_inv (emit_account_deleted_inner now i l ap rc src s)"
  by (simp add: emit_account_deleted_inner_def Let_def pool_inv_emit)

lemma pool_inv_probe_event [pool_inv_intros]:
  "pool_inv s \<Longrightarrow> pool_inv (emit_probe_result_event_inner src i at_time out rc na m s)"
  by (simp add: emit_probe_result_event_inner_def Let_def pool_inv_emit split: prod.split)

lemma transition_frame [pool_frame, simp]:
  "ps_accounts (emit_account_pool_state_transition_inner now i f t rc na src m s) = ps_accounts s"
  "ps_auth_providers (emit_account_pool_state_transition_inner now i f t rc na src m s) = ps_auth_providers s"
  "ps_credentials (emit_account_pool_state_transition_inner now i f t rc na src m s) = ps_credentials s"
  "ps_vault (emit_account_pool_state_transition_inner now i f t rc na src m s) = ps_vault s"
  "ps_session_profiles (emit_account_pool_state_transition_inner now i f t rc na src m s) = ps_session_profiles s"
  "ps_health (emit_account_pool_state_transition_inner now i f t rc na src m s) = ps_health s"
  "ps_rate_limit_caches (emit_account_pool_state_transition_inner now i f t rc na src m s) = ps_rate_limit_caches s"
  by (simp_all add: emit_account_pool_state_transition_inner_def Let_def)

lemma probe_event_frame [pool_frame, simp]:
  "ps_accounts (emit_probe_result_event_inner src i at_time out rc na m s) = ps_accounts s"
  "ps_auth_providers (emit_probe_result_event_inner src i at_time out rc na m s) = ps_auth_providers s"
  "ps_credentials (emit_probe_result_event_inner src i at_time out rc na m s) = ps_credentials s"
  "ps_vault (emit_probe_result_event_inner src i at_time out rc na m s) = ps_vault s"
  "ps_health (emit_probe_result_event_inner src i at_time out rc na m s) = ps_health s"
  by (simp_all add: emit_probe_result_event_inner_def Let_def split: prod.split)

lemma pool_inv_active [pool_inv_intros]:
  assumes "pool_inv s"
  shows "pool_inv (set_account_pool_state_active_inner i at_time now s)"
  using pool_inv_health [OF assms, of i]
  unfolding set_account_pool_state_active_inner_def Let_def
  by (auto intro!: pool_inv_intros assms simp: health_wf_def)

lemma pool_inv_quarantine [pool_inv_intros]:
  assumes "pool_inv s"
  shows "pool_inv (snd (set_account_pool_state_quarantine_inner i at_time until reason now s))"
  using pool_inv_health [OF assms, of i] assms
  unfolding set_account_pool_state_quarantine_inner_def Let_def
  by (auto intro!: pool_inv_intros simp: health_wf_def)

lemma pool_inv_pending_purge [pool_inv_intros]:
  assumes "pool_inv s"
  shows "pool_inv (snd (mark_upstream_account_pending_purge_inner d i reason now s))"
proof (cases "map_of (ps_accounts s) i")
  case None
  with assms show ?thesis by (simp add: mark_upstream_account_pending_purge_inner_def)
next
  case (Some a)
  let ?s1 = "s\<lparr>ps_accounts := hm_insert i (a\<lparr>ua_enabled := False\<rparr>) (ps_accounts s)\<rparr>"
  have s1: "pool_inv ?s1" using assms Some by (intro pool_inv_intros) (simp_all add: pool_inv_account_id)
  from pool_inv_health [OF this, of i] Some show ?thesis
    unfolding mark_upstream_account_pending_purge_inner_def Let_def
    by (auto intro!: pool_inv_intros s1 simp: health_wf_def)
qed

lemma pool_inv_state_record [pool_inv_intros]:
  assumes "pool_inv s" shows "pool_inv (snd (account_pool_state_record_inner now i s))"
  using pool_inv_health [OF assms, of i]
  unfolding account_pool_state_record_inner_def Let_def
  by (auto intro!: pool_inv_intros assms simp: health_wf_def split: if_splits)

lemma pool_inv_seen_ok [pool_inv_intros]:
  assumes "pool_inv s" shows "pool_inv (snd (mark_account_seen_ok_inner i at_time n s))"
  using pool_inv_health [OF assms, of i]
  unfolding mark_account_seen_ok_inner_def Let_def
  by (auto intro!: pool_inv_intros assms simp: health_wf_def split: option.splits)

lemma pool_inv_reset_strikes [pool_inv_intros]:
  assumes "pool_inv s" shows "pool_inv (reset_token_invalidated_strikes_inner i s)"
  using pool_inv_health [OF assms, of i]
  unfolding reset_token_invalidated_strikes_inner_def
  by (auto intro!: pool_inv_intros assms simp: health_wf_def)

lemma pool_inv_strike [pool_inv_intros]:
  assumes "pool_inv s" shows "pool_inv (snd (record_token_invalidated_strike_inner d i at_time s))"
  using pool_inv_health [OF assms, of i] assms
  unfolding record_token_invalidated_strike_inner_def Let_def
  by (auto intro!: pool_inv_intros simp: health_wf_def sat_succ_u32_def split: option.splits if_splits)

lemma pool_inv_probe_result [pool_inv_intros]:
  assumes "pool_inv s" shows "pool_inv (record_account_probe_result_inner i at_time out s)"
  using pool_inv_health [OF assms, of i]
  unfolding record_account_probe_result_inner_def
  by (auto intro!: pool_inv_intros assms simp: health_wf_def)

lemma pool_inv_and_then [pool_inv_intros]:
  "pool_inv (snd r) \<Longrightarrow> (\<And>x s. pool_inv s \<Longrightarrow> pool_inv (snd (f x s))) \<Longrightarrow> pool_inv (snd (and_then r f))"
  by (auto simp: and_then_def split: prod.splits sum.splits)

lemma pool_inv_live_result [pool_inv_intros]:
  assumes "pool_inv s"
  shows "pool_inv (snd (record_upstream_account_live_result_inner d i at_time status source sc ec em now s))"
proof -
  have "health_wf (note_live_result at_time status source sc c m (health_of s i))" for c m
    using pool_inv_health [OF assms, of i] by (auto simp: note_live_result_def health_wf_def)
  with assms show ?thesis
    unfolding record_upstream_account_live_result_inner_def Let_def
    by (cases status) (auto intro!: pool_inv_intros)
qed

text \<open>Creating and removing accounts.\<close>

lemma pool_inv_new_account:
  assumes "pool_inv s" "ua_id a = i" "p = OAuthRefreshToken \<Longrightarrow> map_of (ps_credentials s) i \<noteq> None"
  shows "pool_inv (s\<lparr>ps_accounts := hm_insert i a (ps_accounts s),
                     ps_auth_providers := hm_insert i p (ps_auth_providers s)\<rparr>)"
  using assms unfolding pool_inv_def tables_inv_def health_inv_def health_of_def
  by (cases "p = OAuthRefreshToken")
    (simp_all add: hm_maps distinct_update linked_new del: map_of_eq_Some_iff)

lemma pool_inv_new_oauth_account:
  assumes "pool_inv s" "ua_id a = i"
  shows "pool_inv (upsert_oauth_credential i c
     (s\<lparr>ps_accounts := hm_insert i a (ps_accounts s),
        ps_auth_providers := hm_insert i OAuthRefreshToken (ps_auth_providers s)\<rparr>))"
  using assms unfolding pool_inv_def tables_inv_def health_inv_def health_of_def upsert_oauth_credential_def
  by (simp add: hm_maps distinct_update linked_new del: map_of_eq_Some_iff)

lemma pool_inv_remove_one_time [pool_inv_intros]: "pool_inv s \<Longrightarrow> pool_inv (remove_one_time_account i s)"
  unfolding pool_inv_def tables_inv_def health_inv_def health_of_def remove_one_time_account_def
  by (simp add: hm_maps distinct_delete linked_remove del: map_of_eq_Some_iff)

lemma health_wf_after_remove:
  "(\<And>j. health_wf (case map_of m j of None \<Rightarrow> default_health_state | Some h \<Rightarrow> h)) \<Longrightarrow>
   health_wf (case map_of (hm_remove i m) j of None \<Rightarrow> default_health_state | Some h \<Rightarrow> h)"
  by (simp add: hm_maps)

lemma pool_inv_remove_duplicate [pool_inv_intros]: "pool_inv s \<Longrightarrow> pool_inv (remove_duplicate_account i s)"
  unfolding pool_inv_def tables_inv_def health_inv_def health_of_def remove_duplicate_account_def
  by (simp add: distinct_delete health_wf_after_remove del: map_of_eq_Some_iff)
    (simp add: hm_maps linked_remove)

lemma pool_inv_create_account [pool_inv_intros]:
  "pool_inv s \<Longrightarrow> pool_inv (snd (create_upstream_account_inner d i now req s))"
  by (auto simp: create_upstream_account_inner_def Let_def intro!: pool_inv_bump pool_inv_new_account)

lemma pool_inv_purge_one_time [pool_inv_intros]:
  "pool_inv s \<Longrightarrow> pool_inv (purge_expired_one_time_accounts_inner now s)"
  by (simp add: purge_expired_one_time_accounts_inner_def Let_def pool_inv_intros)

lemma pool_inv_set_enabled [pool_inv_intros]:
  "pool_inv s \<Longrightarrow> pool_inv (snd (set_upstream_account_enabled_inner i b now s))"
  by (cases "map_of (ps_accounts s) i")
    (auto simp: set_upstream_account_enabled_inner_def Let_def pool_inv_account_id intro!: pool_inv_intros)

lemma pool_inv_delete_account [pool_inv_intros]:
  "pool_inv s \<Longrightarrow> pool_inv (snd (delete_upstream_account_inner i now s))"
  by (cases "map_of (ps_accounts s) i")
    (auto simp: delete_upstream_account_inner_def Let_def
      simp flip: remove_duplicate_account_def intro!: pool_inv_intros)

lemma pool_inv_delete_accounts [pool_inv_intros]: "pool_inv s \<Longrightarrow> pool_inv (snd (delete_accounts now ids n s))"
proof (induction ids arbitrary: n s)
  case (Cons i ids)
  from pool_inv_delete_account [OF Cons.prems, of i now] Cons.IH show ?case
    by (auto split: prod.split sum.split)
qed simp

lemma pool_inv_purge_pending [pool_inv_intros]:
  "pool_inv s \<Longrightarrow> pool_inv (snd (purge_pending_upstream_accounts_inner d now s))"
  using pool_inv_delete_accounts [of s now]
  by (auto simp: purge_pending_upstream_accounts_inner_def Let_def split: prod.split intro!: pool_inv_intros)
    (metis snd_conv)+

text \<open>Families.\<close>

lemma pool_inv_family_purge [pool_inv_intros]:
  "pool_inv s \<Longrightarrow> pool_inv (mark_oauth_family_pending_purge_inner d f r now s)"
  unfolding mark_oauth_family_pending_purge_inner_def by (intro pool_inv_intros)

lemma pool_inv_credential_owner:
  "pool_inv s \<Longrightarrow> map_of (ps_credentials s) i = Some c \<Longrightarrow> map_of (ps_accounts s) i \<noteq> None"
  unfolding pool_inv_def tables_inv_def linked_def by fastforce

lemma pool_inv_clear_failure [pool_inv_intros]: "pool_inv s \<Longrightarrow> pool_inv (clear_refresh_failure i s)"
  by (auto simp: clear_refresh_failure_def split: option.split intro!: pool_inv_intros
      dest: pool_inv_credential_owner)

lemma pool_inv_set_enabled_counting:
  "pool_inv (snd acc) \<Longrightarrow> pool_inv (snd (set_enabled_counting b i acc))"
  by (auto simp: set_enabled_counting_def split: option.split intro!: pool_inv_intros)

lemma pool_inv_set_enabled_fold:
  "pool_inv (snd acc) \<Longrightarrow> pool_inv (snd (fold (set_enabled_counting b) ids acc))"
  by (induction ids arbitrary: acc) (simp_all add: pool_inv_set_enabled_counting)

lemma pool_inv_toggle_family [pool_inv_intros]:
  assumes "pool_inv s" shows "pool_inv (snd (disable_or_enable_oauth_family f b now s))"
proof -
  let ?ids = "family_account_ids f s"
  have "pool_inv (fold clear_refresh_failure ?ids s)" by (intro pool_inv_intros assms)
  then have "pool_inv (snd (fold (set_enabled_counting b) ?ids
      (0, if b then fold clear_refresh_failure ?ids s else s)))"
    using assms by (intro pool_inv_set_enabled_fold) simp
  with assms show ?thesis
    by (auto simp: disable_or_enable_oauth_family_def Let_def split: prod.split intro!: pool_inv_intros)
qed

lemma pool_inv_family_enabled [pool_inv_intros]:
  assumes "pool_inv s" shows "pool_inv (snd (set_oauth_family_enabled_inner i b now s))"
proof (cases "map_of (ps_credentials s) i")
  case (Some c)
  with pool_inv_toggle_family [OF assms, of "cr_token_family_id c" b now] assms show ?thesis
    by (auto simp: set_oauth_family_enabled_inner_def Let_def split: prod.split intro!: pool_inv_bump)
qed (simp add: set_oauth_family_enabled_inner_def assms)

text \<open>Rate-limit caches and probes.\<close>

lemma pool_inv_profile_owner:
  "pool_inv s \<Longrightarrow> map_of (ps_session_profiles s) i = Some p \<Longrightarrow> map_of (ps_accounts s) i \<noteq> None"
  unfolding pool_inv_def tables_inv_def linked_def by fastforce

lemma pool_inv_cache_success [pool_inv_intros]:
  assumes "pool_inv s"
  shows "pool_inv (persist_rate_limit_cache_success_inner d i limits at_time plan s)"
  using assms pool_inv_profile_owner [OF assms]
  unfolding persist_rate_limit_cache_success_inner_def Let_def
  by (auto split: prod.split option.split intro!: pool_inv_bump pool_inv_set_profile pool_inv_set_cache)

lemma pool_inv_cache_failure [pool_inv_intros]:
  "pool_inv s \<Longrightarrow> pool_inv (snd (persist_rate_limit_cache_failure_inner d i c m now s))"
  by (auto simp: persist_rate_limit_cache_failure_inner_def Let_def intro!: pool_inv_intros)

lemma pool_inv_settle_probe [pool_inv_intros]:
  assumes "pool_inv s"
  shows "pool_inv (snd (settle_runtime_probe d i src ok_m quota_m at_time p reply s))"
  unfolding settle_runtime_probe_def Let_def
  by (auto split: sum.split prod.split option.split account_probe_outcome.split
      intro!: pool_inv_intros assms)

lemma pool_inv_probe [pool_inv_intros]:
  assumes "pool_inv s"
  shows "pool_inv (snd (probe_runtime_oauth_account_inner d i src ok_m quota_m dec_m now s))"
  unfolding probe_runtime_oauth_account_inner_def Let_def
  by (auto split: sum.split option.split rate_limit_token_source.split intro!: pool_inv_intros assms)

lemma pool_inv_reprobe [pool_inv_intros]:
  "pool_inv s \<Longrightarrow> pool_inv (snd (reprobe_runtime_oauth_account_inner d i now s))"
  unfolding reprobe_runtime_oauth_account_inner_def by (intro pool_inv_intros) simp_all

lemma pool_inv_patrol_loop: "pool_inv s \<Longrightarrow> pool_inv (snd (patrol_loop d clock k ids outs s))"
proof (induction ids arbitrary: k outs s)
  case (Cons i ids)
  from pool_inv_probe [OF Cons.prems] Cons.IH show ?case
    by (auto split: prod.split sum.split) (metis snd_conv)+
qed simp

lemma pool_inv_patrol [pool_inv_intros]:
  assumes "pool_inv s" shows "pool_inv (snd (patrol_active_oauth_accounts_inner d clock s))"
proof -
  have "pool_inv (snd (patrol_loop d clock k ids outs (purge_expired_one_time_accounts_inner now s)))" for k ids outs now
    by (intro pool_inv_patrol_loop pool_inv_intros assms)
  moreover have "pool_inv (purge_expired_one_time_accounts_inner now s)" for now by (intro pool_inv_intros assms)
  ultimately show ?thesis
    by (auto simp: patrol_active_oauth_accounts_inner_def Let_def emit_active_patrol_batch_summary_inner_def
        split: prod.split intro!: pool_inv_emit) (metis snd_conv)+
qed

text \<open>The vault.\<close>

lemma vault_item_ids [simp]:
  "va_id (mark_item_failed now due r v) = va_id v" "va_id (restore_item now v) = va_id v"
  "va_id (apply_admission_result t ar v) = va_id v" "va_id (fail_activation now st ec em v) = va_id v"
  by (simp_all add: mark_item_failed_def restore_item_def apply_admission_result_def fail_activation_def Let_def)

lemma pool_inv_inventory [pool_inv_intros]:
  "pool_inv s \<Longrightarrow> pool_inv (snd (mark_oauth_inventory_record_failed_inner d i r now s))"
  "pool_inv s \<Longrightarrow> pool_inv (mark_oauth_inventory_records_failed_inner d ids r now s)"
  "pool_inv s \<Longrightarrow> pool_inv (snd (delete_oauth_inventory_record_inner i s))"
  "pool_inv s \<Longrightarrow> pool_inv (snd (restore_oauth_inventory_record_inner i now s))"
  "pool_inv s \<Longrightarrow> pool_inv (restore_oauth_inventory_records_inner ids now s)"
  "pool_inv s \<Longrightarrow> pool_inv (update_oauth_vault_admission_result i now ar s)"
  "pool_inv s \<Longrightarrow> pool_inv (mark_oauth_vault_activation_failed_inner i st ec em now s)"
  by (auto simp: mark_oauth_inventory_record_failed_inner_def mark_oauth_inventory_records_failed_inner_def
      delete_oauth_inventory_record_inner_def restore_oauth_inventory_record_inner_def
      restore_oauth_inventory_records_inner_def update_oauth_vault_admission_result_def
      mark_oauth_vault_activation_failed_inner_def Let_def intro!: pool_inv_intros)

lemma pool_inv_delete_inventory [pool_inv_intros]:
  assumes "pool_inv s" shows "pool_inv (delete_oauth_inventory_records_inner ids s)"
proof -
  have "pool_inv (s\<lparr>ps_vault := fold hm_remove ids (ps_vault s)\<rparr>)"
    using assms
  proof (induction ids arbitrary: s)
    case (Cons i ids)
    from Cons.IH [OF pool_inv_remove_vault [OF Cons.prems, of i]] show ?case by simp
  qed simp
  then show ?thesis by (simp add: delete_oauth_inventory_records_inner_def Let_def pool_inv_bump)
qed

lemma pool_inv_purge_inventory [pool_inv_intros]:
  "pool_inv s \<Longrightarrow> pool_inv (snd (purge_due_oauth_inventory_records_inner d now s))"
  by (simp add: purge_due_oauth_inventory_records_inner_def Let_def pool_inv_delete_inventory)

lemma pool_inv_admission [pool_inv_intros]:
  "pool_inv s \<Longrightarrow> pool_inv (probe_oauth_vault_admission_inner d i now s)"
  by (auto simp: probe_oauth_vault_admission_inner_def split: option.split intro!: pool_inv_intros)

lemma pool_inv_reprobe_inventory [pool_inv_intros]:
  "pool_inv s \<Longrightarrow> pool_inv (snd (reprobe_oauth_inventory_record_inner d i now s))"
  unfolding reprobe_oauth_inventory_record_inner_def by (auto intro!: pool_inv_intros)

lemma pool_inv_queue [pool_inv_intros]:
  assumes "pool_inv s" shows "pool_inv (snd (queue_oauth_refresh_token_inner d i now req s))"
  unfolding queue_oauth_refresh_token_inner_def Let_def
  by (auto split: sum.split option.split intro!: pool_inv_set_vault assms)

text \<open>Import, upsert and duplicates.\<close>

lemma pool_inv_dedupe [pool_inv_intros]:
  "pool_inv s \<Longrightarrow> pool_inv (snd (dedupe_oauth_accounts_by_identity_inner u v w s))"
  by (auto simp: dedupe_oauth_accounts_by_identity_inner_def Let_def intro!: pool_inv_intros)

lemma account_frames [simp]:
  "ps_accounts (upsert_oauth_credential i c s) = ps_accounts s"
  "ps_accounts (upsert_session_profile i p s) = ps_accounts s"
  "ps_session_profiles (upsert_oauth_credential i c s) = ps_session_profiles s"
  by (simp_all add: upsert_oauth_credential_def upsert_session_profile_def)

lemma pool_inv_import_info [pool_inv_intros]:
  assumes "pool_inv s"
  shows "pool_inv (snd (import_oauth_refresh_token_with_token_info_inner d i fam now req m url ti s))"
  unfolding import_oauth_refresh_token_with_token_info_inner_def Let_def
  by (auto split: sum.split intro!: pool_inv_bump pool_inv_set_profile pool_inv_new_oauth_account assms
      simp: hm_simps)

lemma pool_inv_import [pool_inv_intros]:
  "pool_inv s \<Longrightarrow> pool_inv (snd (import_oauth_refresh_token_inner d i fam now req s))"
  by (auto simp: import_oauth_refresh_token_inner_def Let_def split: sum.split intro!: pool_inv_intros)

lemma pool_inv_upsert [pool_inv_intros]:
  assumes "pool_inv s"
  shows "pool_inv (snd (upsert_oauth_refresh_token_inner d i fam now req s))"
  unfolding upsert_oauth_refresh_token_inner_def Let_def
  by (auto split: sum.split option.split simp: hm_simps pool_inv_account_id [OF assms]
      intro!: pool_inv_and_then pool_inv_dedupe pool_inv_bump pool_inv_set_profile pool_inv_import_info
        pool_inv_new_oauth_account pool_inv_set_account assms)

lemma pool_inv_member_id: "pool_inv s \<Longrightarrow> (i, a) \<in> set (ps_accounts s) \<Longrightarrow> ua_id a = i"
  by (rule pool_inv_account_id) (auto simp: pool_inv_def tables_inv_def intro: map_of_is_SomeI)

lemma find_SomeD: "find P xs = Some x \<Longrightarrow> x \<in> set xs"
  by (auto simp: find_Some_iff)

lemma pool_inv_one_time [pool_inv_intros]:
  assumes "pool_inv s"
  shows "pool_inv (snd (upsert_one_time_session_account_inner d i now req s))"
  unfolding upsert_one_time_session_account_inner_def Let_def
  by (auto split: option.split intro!: pool_inv_bump pool_inv_set_profile pool_inv_new_account assms
      simp: hm_maps dest!: find_SomeD pool_inv_member_id [OF assms])

text \<open>Status views and refreshes.\<close>

lemma status_from_store:
  "snd (oauth_status_from a p c sp now s) = snd (account_pool_state_record_inner now (ua_id a) s)"
  by (simp add: oauth_status_from_def Let_def split: prod.split)

lemma pool_inv_status_from [pool_inv_intros]: "pool_inv s \<Longrightarrow> pool_inv (snd (oauth_status_from a p c sp now s))"
  by (simp add: status_from_store pool_inv_state_record)

lemma pool_inv_backfill [pool_inv_intros]:
  "pool_inv s \<Longrightarrow> map_of (ps_accounts s) (ua_id a) \<noteq> None \<Longrightarrow>
   pool_inv (snd (maybe_backfill_workspace_name_from_probe_inner d a p c sp now s))"
  by (auto simp: maybe_backfill_workspace_name_from_probe_inner_def Let_def
      split: option.split sum.split intro!: pool_inv_set_profile)

lemma pool_inv_account_status [pool_inv_intros]:
  assumes "pool_inv s" shows "pool_inv (snd (oauth_account_status_inner d i now s))"
proof (cases "map_of (ps_accounts s) i")
  case (Some a)
  then have "map_of (ps_accounts s) (ua_id a) \<noteq> None" using assms by (simp add: pool_inv_account_id)
  from pool_inv_backfill [OF assms this] pool_inv_status_from Some show ?thesis
    by (auto simp: oauth_account_status_inner_def Let_def split: prod.split) (metis snd_conv)+
qed (simp add: oauth_account_status_inner_def assms)

lemma update_account_owner [simp]:
  "(\<exists>a. map_of (ps_accounts (update_account j f s)) i = Some a) \<longleftrightarrow> (\<exists>a. map_of (ps_accounts s) i = Some a)"
  by (auto simp: update_account_def hm_maps split: option.split)

lemma pool_inv_store_refreshed [pool_inv_intros]:
  "pool_inv s \<Longrightarrow> map_of (ps_accounts s) i \<noteq> None \<Longrightarrow> pool_inv (snd (store_refreshed d i fam now c ti s))"
  by (auto simp: store_refreshed_def Let_def split: sum.split
      intro!: pool_inv_bump pool_inv_set_profile pool_inv_update_account pool_inv_set_credential)

lemma pool_inv_punish [pool_inv_intros]: "pool_inv s \<Longrightarrow> pool_inv (punish_refresh_failure d i now c s)"
  by (auto simp: punish_refresh_failure_def intro!: pool_inv_intros)

lemma pool_inv_refresh [pool_inv_intros]:
  assumes "pool_inv s" shows "pool_inv (snd (refresh_oauth_account_inner d i force fam now s))"
proof (cases "account_auth_provider s i \<noteq> OAuthRefreshToken \<or> map_of (ps_accounts s) i = None \<or>
      map_of (ps_credentials s) i = None")
  case True
  with assms show ?thesis
    by (auto simp: refresh_oauth_account_inner_def pool_inv_account_status split: option.split)
next
  case False
  then obtain a c where found: "account_auth_provider s i = OAuthRefreshToken"
    "map_of (ps_accounts s) i = Some a" "map_of (ps_credentials s) i = Some c" by auto
  have status: "pool_inv s' \<Longrightarrow> pool_inv (snd (case oauth_status_from a' p' c' sp' now s' of (r, s'') \<Rightarrow> (Inr r, s'')))"
    for a' p' c' sp' s' using pool_inv_status_from by (auto split: prod.split) (metis snd_conv)
  have owner: "map_of (ps_accounts s) i \<noteq> None" using found by simp
  show ?thesis
    unfolding refresh_oauth_account_inner_def Let_def found prod.case option.case
    by (simp split: sum.split add: assms status owner found(1) pool_inv_punish pool_inv_set_credential
        pool_inv_store_refreshed pool_inv_and_then del: map_of_eq_Some_iff)
qed

lemma pool_inv_select_expiring:
  "pool_inv s \<Longrightarrow> pool_inv (snd (select_expiring now limit entries s))"
proof (induction now limit entries s rule: select_expiring.induct)
  case (2 now limit i a entries s)
  obtain st s1 where read: "account_pool_state_record_inner now i s = (st, s1)" by fastforce
  with pool_inv_state_record [OF "2.prems", of now i] have "pool_inv s1" by simp
  with 2 read show ?case by (auto split: prod.split)
qed simp

lemma pool_inv_refresh_batch: "pool_inv s \<Longrightarrow> pool_inv (refresh_batch d fam now ids s)"
  unfolding refresh_batch_def by (intro pool_inv_fold) (auto intro!: pool_inv_refresh)

lemma pool_inv_refresh_loop:
  assumes "refresh_expiring_loop d clock fam n k s = Some s'" "pool_inv s" shows "pool_inv s'"
proof -
  have "pool_inv s \<longrightarrow> pool_inv s'"
  proof (rule refresh_expiring_loop.raw_induct [OF _ assms(1), of "\<lambda>_ _ _ _ _ s s'. pool_inv s \<longrightarrow> pool_inv s'"])
    fix loop :: "_ \<Rightarrow> _ \<Rightarrow> _ \<Rightarrow> _ \<Rightarrow> _ \<Rightarrow> _ \<Rightarrow> pool_store option" and d clock fam n k s s'
    assume IH: "\<And>d clock fam n k s s'. loop d clock fam n k s = Some s' \<Longrightarrow> pool_inv s \<longrightarrow> pool_inv s'"
      and run: "(let sel = select_expiring (clock k) n (ps_accounts s) s
        in if fst sel = [] then Some (snd sel)
           else let s2 = refresh_batch d (fam k) (clock k) (fst sel) (snd sel)
                in if length (fst sel) < n then Some s2 else loop d clock fam n (k + 1) s2) = Some s'"
    show "pool_inv s \<longrightarrow> pool_inv s'"
    proof
      assume "pool_inv s"
      then have "pool_inv (refresh_batch d (fam k) (clock k) ids (snd (select_expiring (clock k) n (ps_accounts s) s)))"
        and "pool_inv (snd (select_expiring (clock k) n (ps_accounts s) s))" for ids
        by (simp_all add: pool_inv_select_expiring pool_inv_refresh_batch)
      with run IH show "pool_inv s'" by (auto simp: Let_def split: if_splits)
    qed
  qed
  with assms(2) show ?thesis by simp
qed

lemma pool_inv_refresh_expiring:
  "refresh_expiring_oauth_accounts_inner d clock fam s = Some s' \<Longrightarrow> pool_inv s \<Longrightarrow> pool_inv s'"
  unfolding refresh_expiring_oauth_accounts_inner_def
  by (erule pool_inv_refresh_loop) (rule pool_inv_purge_one_time)

text \<open>Activation.\<close>

lemma pool_inv_install [pool_inv_intros]:
  assumes "pool_inv s"
  shows "pool_inv (snd (install_ready_account i item c t now matched s))"
  unfolding install_ready_account_def Let_def option_or_def
  by (auto split: option.split simp: hm_maps pool_inv_account_id [OF assms]
      intro!: pool_inv_set_profile pool_inv_new_oauth_account assms)

lemma pool_inv_materialize [pool_inv_intros]:
  assumes "pool_inv s" shows "pool_inv (snd (materialize_ready_oauth_vault_record_inner d i item now s))"
  unfolding materialize_ready_oauth_vault_record_inner_def Let_def
  by (auto split: option.split sum.split intro!: pool_inv_intros assms)

lemma pool_inv_settle [pool_inv_intros]: "pool_inv (snd r) \<Longrightarrow> pool_inv (snd (settle_activation v now r))"
  by (auto simp: settle_activation_def Let_def split: prod.split sum.split intro!: pool_inv_intros)

lemma pool_inv_activate_by_refresh [pool_inv_intros]:
  assumes "pool_inv s" shows "pool_inv (snd (activate_by_refresh d i fam v now s))"
proof -
  have "pool_inv (snd (settle_activation v now
      (and_then (upsert_oauth_refresh_token_inner d i fam now req s) (\<lambda>r s. (Inr (fst r), s)))))" for req
    by (intro pool_inv_intros assms) simp
  with assms show ?thesis
    unfolding activate_by_refresh_def
    by (auto split: sum.split option.split intro!: pool_inv_inventory)
qed

lemma pool_inv_activate_candidate [pool_inv_intros]:
  assumes "pool_inv s" shows "pool_inv (snd (activate_candidate d i fam v now s))"
  unfolding activate_candidate_def Let_def
  by (auto split: oauth_vault_record_status.split option.split intro!: pool_inv_intros assms)

lemma pool_inv_activate_candidates:
  "pool_inv s \<Longrightarrow> pool_inv (snd (activate_candidates d ids fams clock k vs n s))"
proof (induction vs arbitrary: k n s)
  case (Cons v vs)
  from pool_inv_activate_candidate [OF Cons.prems, of d "ids k" "fams k" v "clock k"] Cons.IH show ?case
    unfolding activate_candidates.simps by (intro pool_inv_and_then)
qed simp

lemma pool_inv_activate [pool_inv_intros]:
  assumes "pool_inv s" shows "pool_inv (snd (activate_oauth_refresh_token_vault_inner d ids fams now clock s))"
proof -
  have "pool_inv (fold (\<lambda>i. probe_oauth_vault_admission_inner d i now) js
      (purge_expired_one_time_accounts_inner now s))" for js by (intro pool_inv_intros assms)
  then show ?thesis
    by (simp add: activate_oauth_refresh_token_vault_inner_def Let_def pool_inv_activate_candidates)
qed

text \<open>Reading the pool.\<close>

lemma pool_inv_list [pool_inv_intros]: "pool_inv s \<Longrightarrow> pool_inv (snd (list_upstream_accounts_inner now s))"
  by (simp add: list_upstream_accounts_inner_def Let_def pool_inv_purge_one_time)

lemma pool_inv_retain_active: "pool_inv s \<Longrightarrow> pool_inv (snd (retain_active now accounts s))"
proof (induction accounts arbitrary: s)
  case (Cons a accounts)
  obtain st s1 where read: "account_pool_state_record_inner now (ua_id a) s = (st, s1)" by fastforce
  with pool_inv_state_record [OF Cons.prems, of now "ua_id a"] have "pool_inv s1" by simp
  from Cons.IH [OF this] read show ?case by (cases "retain_active now accounts s1") simp
qed simp

lemma pool_inv_snapshot [pool_inv_intros]:
  assumes "pool_inv s" shows "pool_inv (snd (snapshot_inner d i now other s))"
proof -
  obtain accounts s1 where list: "list_upstream_accounts_inner now (purge_expired_one_time_accounts_inner now s) = (accounts, s1)"
    by fastforce
  have "pool_inv (snd (list_upstream_accounts_inner now (purge_expired_one_time_accounts_inner now s)))"
    by (intro pool_inv_intros assms)
  with list pool_inv_retain_active [of s1 now accounts] show ?thesis
    by (cases "retain_active now accounts s1") (simp add: snapshot_inner_def Let_def)
qed

section \<open>Histories of the pool\<close>

text \<open>
  The operations of the store that touch the pool, in any order and with any arguments, clock readings and
  fresh identifiers. A store starts empty; the routing tables and the model support are set by operations
  that are outside the pool.
\<close>

definition empty_pool :: "bool \<Rightarrow> pool_store" where
  "empty_pool event_runtime =
     \<lparr>ps_accounts = [], ps_auth_providers = [], ps_credentials = [], ps_vault = [], ps_session_profiles = [],
      ps_health = [], ps_model_support = [], ps_rate_limit_caches = [], ps_routing_profiles = [],
      ps_model_routing_policies = [], ps_event_runtime = event_runtime, ps_events = [], ps_revision = 1\<rparr>"

inductive pool_step :: "pool_deps \<Rightarrow> pool_store \<Rightarrow> pool_store \<Rightarrow> bool" for d where
  create: "pool_step d s (snd (create_upstream_account_inner d i now req s))"
| list: "pool_step d s (snd (list_upstream_accounts_inner now s))"
| set_enabled: "pool_step d s (snd (set_upstream_account_enabled_inner i b now s))"
| delete: "pool_step d s (snd (delete_upstream_account_inner i now s))"
| seen_ok: "pool_step d s (snd (mark_account_seen_ok_inner i at_time n s))"
| live: "pool_step d s (snd (record_upstream_account_live_result_inner d i at_time st src sc ec em now s))"
| pending_purge: "pool_step d s (snd (mark_upstream_account_pending_purge_inner d i reason now s))"
| purge: "pool_step d s (snd (purge_pending_upstream_accounts_inner d now s))"
| family: "pool_step d s (snd (set_oauth_family_enabled_inner i b now s))"
| cache_ok: "pool_step d s (persist_rate_limit_cache_success_inner d i limits at_time plan s)"
| cache_failed: "pool_step d s (snd (persist_rate_limit_cache_failure_inner d i ec em now s))"
| reprobe: "pool_step d s (snd (reprobe_runtime_oauth_account_inner d i now s))"
| patrol: "pool_step d s (snd (patrol_active_oauth_accounts_inner d clock s))"
| queue: "pool_step d s (snd (queue_oauth_refresh_token_inner d i now ireq s))"
| import_token: "pool_step d s (snd (import_oauth_refresh_token_inner d i fam now ireq s))"
| upsert: "pool_step d s (snd (upsert_oauth_refresh_token_inner d i fam now ireq s))"
| dedupe: "pool_step d s (snd (dedupe_oauth_accounts_by_identity_inner u v w s))"
| one_time: "pool_step d s (snd (upsert_one_time_session_account_inner d i now oreq s))"
| status: "pool_step d s (snd (oauth_account_status_inner d i now s))"
| refresh: "pool_step d s (snd (refresh_oauth_account_inner d i force fam now s))"
| refresh_expiring: "refresh_expiring_oauth_accounts_inner d clock fams s = Some s' \<Longrightarrow> pool_step d s s'"
| inventory_failed: "pool_step d s (snd (mark_oauth_inventory_record_failed_inner d i reason now s))"
| inventories_failed: "pool_step d s (mark_oauth_inventory_records_failed_inner d ids reason now s)"
| inventory_deleted: "pool_step d s (snd (delete_oauth_inventory_record_inner i s))"
| inventories_deleted: "pool_step d s (delete_oauth_inventory_records_inner ids s)"
| inventory_restored: "pool_step d s (snd (restore_oauth_inventory_record_inner i now s))"
| inventories_restored: "pool_step d s (restore_oauth_inventory_records_inner ids now s)"
| inventory_reprobed: "pool_step d s (snd (reprobe_oauth_inventory_record_inner d i now s))"
| inventory_purge: "pool_step d s (snd (purge_due_oauth_inventory_records_inner d now s))"
| admission: "pool_step d s (probe_oauth_vault_admission_inner d i now s)"
| activate: "pool_step d s (snd (activate_oauth_refresh_token_vault_inner d new_id new_family now clock s))"
| snapshot: "pool_step d s (snd (snapshot_inner d i now other s))"
| other_tables: "pool_step d s (s\<lparr>ps_model_support := ms, ps_routing_profiles := rps,
                                 ps_model_routing_policies := mrps, ps_revision := revision\<rparr>)"

inductive pool_reachable :: "pool_deps \<Rightarrow> pool_store \<Rightarrow> bool" for d where
  start: "pool_reachable d (empty_pool b)"
| step: "pool_reachable d s \<Longrightarrow> pool_step d s s' \<Longrightarrow> pool_reachable d s'"

lemma pool_inv_empty: "pool_inv (empty_pool b)"
  by (simp add: pool_inv_def tables_inv_def health_inv_def linked_def health_of_def empty_pool_def)

lemma pool_inv_step:
  assumes "pool_step d s s'" "pool_inv s" shows "pool_inv s'"
  using assms
proof cases
  case refresh_expiring
  then show ?thesis using assms(2) by (rule pool_inv_refresh_expiring)
next
  case other_tables
  with assms(2) show ?thesis by (auto intro: pool_inv_cong)
qed (auto intro!: pool_inv_intros)

lemma pool_inv_reachable: "pool_reachable d s \<Longrightarrow> pool_inv s"
  by (induction rule: pool_reachable.induct) (auto intro: pool_inv_empty pool_inv_step)

end
