(* ===== verification/Pool_Claims.thy ===== *)
theory Pool_Claims
  imports Pool_Props
begin

text \<open>
  What the account pool guarantees: its invariant in every history, the effect of live results and the
  strike rule, and the deletion of accounts that are due.
\<close>

section \<open>The invariant\<close>


section \<open>Live results\<close>

lemma health_of_emit [simp]: "health_of (emit_system_event_inner e s) j = health_of s j"
  by (simp add: health_of_def)

lemma health_of_bump [simp]: "health_of (bump_revision s) j = health_of s j"
  by (simp add: health_of_def)

lemma health_of_transition [simp]:
  "health_of (emit_account_pool_state_transition_inner now i f t rc na src m s) j = health_of s j"
  by (simp add: health_of_def)

lemma health_of_accounts [simp]: "health_of (s\<lparr>ps_accounts := a\<rparr>) j = health_of s j"
  by (simp add: health_of_def)

lemma provider_frame [simp]:
  "account_auth_provider (emit_account_pool_state_transition_inner now i f t rc na src m s) = account_auth_provider s"
  "account_auth_provider (bump_revision s) = account_auth_provider s"
  "account_auth_provider (update_health i g s) = account_auth_provider s"
  "account_auth_provider (s\<lparr>ps_accounts := a\<rparr>) = account_auth_provider s"
  by (simp_all add: account_auth_provider_def fun_eq_iff)

text \<open>Scheduling the deletion of an account, and putting it in quarantine.\<close>

lemma pending_purge_effect:
  fixes d reason now
  assumes "map_of (ps_accounts s) i = Some a"
  defines "s' \<equiv> snd (mark_upstream_account_pending_purge_inner d i reason now s)"
  shows "fst (mark_upstream_account_pending_purge_inner d i reason now s) = Inr (a\<lparr>ua_enabled := False\<rparr>)"
    and "map_of (ps_accounts s') = (map_of (ps_accounts s))(i \<mapsto> a\<lparr>ua_enabled := False\<rparr>)"
    and "hs_pool_state (health_of s' i) = PoolPendingPurge"
    and "\<exists>t. hs_pending_purge_at (health_of s' i) = Some t \<and> now < t"
    and "hs_token_invalidated_strike_count (health_of s' i) = hs_token_invalidated_strike_count (health_of s i)"
    and "hs_token_invalidated_first_at (health_of s' i) = hs_token_invalidated_first_at (health_of s i)"
    and "account_auth_provider s' = account_auth_provider s"
    and "j \<noteq> i \<Longrightarrow> health_of s' j = health_of s j"
    and "ps_credentials s' = ps_credentials s"
  using assms(1) pending_purge_delay_pos [of "pd_env d"] unfolding s'_def mark_upstream_account_pending_purge_inner_def
  by (auto simp: Let_def hm_maps seconds_def split: option.splits)

lemma quarantine_effect:
  fixes at_time until reason now
  assumes "map_of (ps_accounts s) i = Some a"
  defines "s' \<equiv> snd (set_account_pool_state_quarantine_inner i at_time until reason now s)"
  shows "fst (set_account_pool_state_quarantine_inner i at_time until reason now s) = Inr ()"
    and "ps_accounts s' = ps_accounts s"
    and "hs_pool_state (health_of s' i) = PoolQuarantine"
    and "hs_quarantine_until (health_of s' i) = until"
    and "hs_pending_purge_at (health_of s' i) = None"
    and "hs_token_invalidated_strike_count (health_of s' i) = hs_token_invalidated_strike_count (health_of s i)"
    and "hs_token_invalidated_first_at (health_of s' i) = hs_token_invalidated_first_at (health_of s i)"
    and "account_auth_provider s' = account_auth_provider s"
    and "j \<noteq> i \<Longrightarrow> health_of s' j = health_of s j"
  using assms(1) unfolding s'_def set_account_pool_state_quarantine_inner_def
  by (auto simp: Let_def)

text \<open>One report that a token is invalid.\<close>

definition report_token_invalidated ::
  "pool_deps \<Rightarrow> uuid \<Rightarrow> oauth_live_result_source \<Rightarrow> timestamp \<Rightarrow> timestamp \<Rightarrow> pool_store \<Rightarrow> pool_store" where
  "report_token_invalidated d i src now reported_at s =
     snd (record_upstream_account_live_result_inner d i reported_at LiveFailed src None
            (Some ''token_invalidated'') None now s)"

definition in_strike_window :: "pool_deps \<Rightarrow> timestamp \<Rightarrow> upstream_account_health_state_record \<Rightarrow> bool" where
  "in_strike_window d reported_at h \<longleftrightarrow>
     (case hs_token_invalidated_first_at h of
        Some first_at \<Rightarrow> reported_at \<le> first_at + seconds (token_invalidated_purge_window_sec_from_env (pd_env d))
      | None \<Rightarrow> False)"

definition strikes_after :: "pool_deps \<Rightarrow> timestamp \<Rightarrow> upstream_account_health_state_record \<Rightarrow> nat" where
  "strikes_after d reported_at h =
     (if in_strike_window d reported_at h
      then max (sat_succ_u32 (hs_token_invalidated_strike_count h)) 1 else 1)"

lemma normalize_token_invalidated:
  "normalize_live_error_code (Some ''token_invalidated'') = Some ''token_invalidated''"
  by code_simp

lemma token_invalidated_effect:
  fixes d src now reported_at
  assumes a: "map_of (ps_accounts s) i = Some a"
  defines "s' \<equiv> report_token_invalidated d i src now reported_at s"
    and "th \<equiv> token_invalidated_purge_threshold_for_provider (pd_env d) (account_auth_provider s i)"
    and "h \<equiv> health_of s i"
  shows "hs_token_invalidated_strike_count (health_of s' i) = strikes_after d reported_at h"
    and "hs_token_invalidated_first_at (health_of s' i) =
           (if in_strike_window d reported_at h then hs_token_invalidated_first_at h else Some reported_at)"
    and "hs_pool_state (health_of s' i) =
           (if th \<le> strikes_after d reported_at h then PoolPendingPurge else PoolQuarantine)"
    and "map_of (ps_accounts s') i =
           Some (if th \<le> strikes_after d reported_at h then a\<lparr>ua_enabled := False\<rparr> else a)"
    and "account_auth_provider s' = account_auth_provider s"
proof -
  let ?note = "note_live_result reported_at LiveFailed src None (Some ''token_invalidated'') None"
  define s1 where "s1 = update_health i ?note s"
  define strike where "strike = snd (record_token_invalidated_strike_inner d i reported_at s1)"
  have acc1: "map_of (ps_accounts s1) i = Some a" by (simp add: s1_def a)
  have h1: "hs_token_invalidated_first_at (health_of s1 i) = hs_token_invalidated_first_at h"
    "hs_token_invalidated_strike_count (health_of s1 i) = hs_token_invalidated_strike_count h"
    by (simp_all add: s1_def h_def note_live_result_def)
  have strike: "record_token_invalidated_strike_inner d i reported_at s1 =
      (Inr (th \<le> strikes_after d reported_at h), strike)"
    and s2: "hs_token_invalidated_strike_count (health_of strike i) = strikes_after d reported_at h"
    "hs_token_invalidated_first_at (health_of strike i) =
       (if in_strike_window d reported_at h then hs_token_invalidated_first_at h else Some reported_at)"
    "ps_accounts strike = ps_accounts s" "account_auth_provider strike = account_auth_provider s"
    using acc1 h1 unfolding strike_def record_token_invalidated_strike_inner_def th_def strikes_after_def
      in_strike_window_def Let_def
    by (auto simp: s1_def split: option.splits)
  have acc2: "map_of (ps_accounts strike) i = Some a" by (simp add: s2 a)
  have run: "s' = bump_revision (if th \<le> strikes_after d reported_at h
      then snd (mark_upstream_account_pending_purge_inner d i (Some ''token_invalidated'') now strike)
      else snd (set_account_pool_state_quarantine_inner i reported_at (Some (reported_at + minutes 30))
                  (Some ''token_invalidated'') now strike))"
    using a pending_purge_effect(1) [OF acc2, where d = d and reason = "Some ''token_invalidated''" and now = now]
      quarantine_effect(1) [OF acc2, where at_time = reported_at
      and until = "Some (reported_at + minutes 30)" and reason = "Some ''token_invalidated''" and now = now]
    unfolding s'_def report_token_invalidated_def record_upstream_account_live_result_inner_def Let_def
      normalize_token_invalidated
    by (auto simp: s1_def [symmetric] strike and_then_def split: prod.splits sum.splits)
  note eff = pending_purge_effect [OF acc2, where d = d and reason = "Some ''token_invalidated''" and now = now]
    quarantine_effect [OF acc2, where at_time = reported_at
      and until = "Some (reported_at + minutes 30)" and reason = "Some ''token_invalidated''" and now = now]
  show "hs_token_invalidated_strike_count (health_of s' i) = strikes_after d reported_at h"
    "hs_token_invalidated_first_at (health_of s' i) =
       (if in_strike_window d reported_at h then hs_token_invalidated_first_at h else Some reported_at)"
    "hs_pool_state (health_of s' i) =
       (if th \<le> strikes_after d reported_at h then PoolPendingPurge else PoolQuarantine)"
    "map_of (ps_accounts s') i =
       Some (if th \<le> strikes_after d reported_at h then a\<lparr>ua_enabled := False\<rparr> else a)"
    "account_auth_provider s' = account_auth_provider s"
    unfolding run by (simp_all add: eff s2 a)
qed

text \<open>
  C25. The strike rule: when an account with no strikes on record is reported as invalidated any number of
  times within the window that the first report opens, then it is scheduled for deletion and disabled
  exactly when the number of reports has reached the threshold of its kind; before that it is only put in
  quarantine and keeps its settings.
\<close>

theorem token_invalidated_strikes:
  assumes "map_of (ps_accounts s) i = Some a" "hs_token_invalidated_first_at (health_of s i) = None"
    and "\<forall>u \<in> set ts. u \<le> t + seconds (token_invalidated_purge_window_sec_from_env (pd_env d))"
    and "length ts < 4294967295"
  shows "let s' = fold (report_token_invalidated d i src now) (t # ts) s;
             purged = (token_invalidated_purge_threshold_for_provider (pd_env d) (account_auth_provider s i)
                         \<le> length (t # ts))
         in hs_token_invalidated_strike_count (health_of s' i) = length (t # ts) \<and>
            hs_pool_state (health_of s' i) = (if purged then PoolPendingPurge else PoolQuarantine) \<and>
            map_of (ps_accounts s') i = Some (if purged then a\<lparr>ua_enabled := False\<rparr> else a)"
proof -
  define th where "th = token_invalidated_purge_threshold_for_provider (pd_env d) (account_auth_provider s i)"
  define run where "run us = fold (report_token_invalidated d i src now) (t # us) s" for us
  have "hs_token_invalidated_strike_count (health_of (run us) i) = Suc (length us) \<and>
      hs_token_invalidated_first_at (health_of (run us) i) = Some t \<and>
      hs_pool_state (health_of (run us) i) = (if th \<le> Suc (length us) then PoolPendingPurge else PoolQuarantine) \<and>
      map_of (ps_accounts (run us)) i = Some (if th \<le> Suc (length us) then a\<lparr>ua_enabled := False\<rparr> else a) \<and>
      account_auth_provider (run us) = account_auth_provider s"
    if "\<forall>u \<in> set us. u \<le> t + seconds (token_invalidated_purge_window_sec_from_env (pd_env d))"
      "length us < 4294967295" for us
    using that
  proof (induction us rule: rev_induct)
    case Nil
    have "\<not> in_strike_window d t (health_of s i)" using assms(2) by (simp add: in_strike_window_def)
    then show ?case
      unfolding run_def th_def
      by (simp add: token_invalidated_effect [OF assms(1)] strikes_after_def)
  next
    case (snoc u us)
    then have IH: "hs_token_invalidated_strike_count (health_of (run us) i) = Suc (length us)"
      "hs_token_invalidated_first_at (health_of (run us) i) = Some t"
      "map_of (ps_accounts (run us)) i = Some (if th \<le> Suc (length us) then a\<lparr>ua_enabled := False\<rparr> else a)"
      "account_auth_provider (run us) = account_auth_provider s" by simp_all
    have "in_strike_window d u (health_of (run us) i)" using IH snoc.prems by (simp add: in_strike_window_def)
    moreover have "strikes_after d u (health_of (run us) i) = Suc (Suc (length us))"
      using IH snoc.prems \<open>in_strike_window d u (health_of (run us) i)\<close>
      by (simp add: strikes_after_def sat_succ_u32_def)
    moreover have "run (us @ [u]) = report_token_invalidated d i src now u (run us)" by (simp add: run_def)
    ultimately show ?case
      using token_invalidated_effect [OF IH(3), where d = d and src = src and now = now and reported_at = u] IH
      by (simp add: th_def [symmetric])
  qed
  from this [OF assms(3, 4)] show ?thesis unfolding run_def th_def Let_def by simp
qed

section \<open>Deletion of due accounts\<close>

definition due_ids :: "timestamp \<Rightarrow> pool_store \<Rightarrow> uuid set" where
  "due_ids now s = {i. \<exists>h. map_of (ps_health s) i = Some h \<and> purge_due now h}"

lemma due_entries:
  "map fst (List.map_filter (\<lambda>(i, h). if purge_due now h then Some (i, f h) else None) hs) =
   map fst (filter (\<lambda>(i, h). purge_due now h) hs)"
  by (induction hs) (auto simp: map_filter_simps)

lemma due_ids_entries:
  "hm_ok (ps_health s) \<Longrightarrow> due_ids now s = set (map fst (filter (\<lambda>(i, h). purge_due now h) (ps_health s)))"
  by (force simp: due_ids_def)

lemma due_candidates:
  fixes now limit
  assumes "hm_ok (ps_health s)"
  defines "ids \<equiv> pending_purge_due_account_ids_inner now limit s"
  shows "set ids \<subseteq> due_ids now s" "length ids \<le> limit" "distinct ids"
    and "card (due_ids now s) \<le> limit \<Longrightarrow> set ids = due_ids now s"
proof -
  let ?due = "List.map_filter (\<lambda>(i, h). if purge_due now h
                 then Some (i, hs_pending_purge_at h, hs_last_pool_transition_at h) else None) (ps_health s)"
  define xs where "xs = sort_key (\<lambda>(i, at_time, transition_at). (at_time, transition_at, i)) ?due"
  have ids: "ids = take limit (map fst xs)"
    by (simp add: ids_def pending_purge_due_account_ids_inner_def xs_def take_map)
  have set: "set (map fst xs) = due_ids now s"
    unfolding due_ids_entries [OF assms(1)]
    by (simp only: xs_def set_map set_sort) (simp only: set_map [symmetric] due_entries)
  have "distinct (map fst ?due)" unfolding due_entries using assms(1) by (rule distinct_map_filter)
  then have dist: "distinct (map fst xs)"
    unfolding xs_def distinct_map by (simp only: set_sort distinct_sort simp_thms)
  show "set ids \<subseteq> due_ids now s" unfolding ids set [symmetric] by (rule set_take_subset)
  show "length ids \<le> limit" "distinct ids" using dist by (simp_all add: ids)
  show "set ids = due_ids now s" if "card (due_ids now s) \<le> limit"
    using that set dist distinct_card [OF dist] by (simp add: ids)
qed

text \<open>Deleting a list of accounts: a table keeps exactly the rows of the accounts that were not deleted.\<close>

definition without_deleted :: "uuid list \<Rightarrow> pool_store \<Rightarrow> (uuid \<rightharpoonup> 'a) \<Rightarrow> uuid \<rightharpoonup> 'a" where
  "without_deleted ids s m = (\<lambda>j. if j \<in> set ids \<and> map_of (ps_accounts s) j \<noteq> None then None else m j)"

lemma deleted_frame [simp]:
  "ps_accounts (emit_account_deleted_inner now i l p rc src s) = ps_accounts s"
  "ps_auth_providers (emit_account_deleted_inner now i l p rc src s) = ps_auth_providers s"
  "ps_credentials (emit_account_deleted_inner now i l p rc src s) = ps_credentials s"
  "ps_session_profiles (emit_account_deleted_inner now i l p rc src s) = ps_session_profiles s"
  "ps_health (emit_account_deleted_inner now i l p rc src s) = ps_health s"
  "ps_rate_limit_caches (emit_account_deleted_inner now i l p rc src s) = ps_rate_limit_caches s"
  by (simp_all add: emit_account_deleted_inner_def Let_def)

lemma delete_account_missing:
  "map_of (ps_accounts s) i = None \<Longrightarrow>
   delete_upstream_account_inner i now s = (Inl ''upstream account not found'', s)"
  by (simp add: delete_upstream_account_inner_def)

lemma delete_account_tables:
  assumes "map_of (ps_accounts s) i = Some a"
  shows "fst (delete_upstream_account_inner i now s) = Inr ()"
    and "ps_accounts (snd (delete_upstream_account_inner i now s)) = hm_remove i (ps_accounts s)"
    and "ps_auth_providers (snd (delete_upstream_account_inner i now s)) = hm_remove i (ps_auth_providers s)"
    and "ps_credentials (snd (delete_upstream_account_inner i now s)) = hm_remove i (ps_credentials s)"
    and "ps_session_profiles (snd (delete_upstream_account_inner i now s)) = hm_remove i (ps_session_profiles s)"
    and "ps_health (snd (delete_upstream_account_inner i now s)) = hm_remove i (ps_health s)"
    and "ps_rate_limit_caches (snd (delete_upstream_account_inner i now s)) = hm_remove i (ps_rate_limit_caches s)"
  using assms by (simp_all add: delete_upstream_account_inner_def Let_def)

text \<open>
  The tables whose rows belong to accounts. Their contract: a row goes when its account is deleted, and when
  it is removed as a duplicate; for all of them but the health states also when it is removed as an expired
  one-time account.
\<close>

locale account_table =
  fixes tab :: "pool_store \<Rightarrow> (uuid \<times> 'b) list"
  assumes delete_row: "map_of (ps_accounts s) i = Some a \<Longrightarrow>
      tab (snd (delete_upstream_account_inner i now s)) = hm_remove i (tab s)"
    and duplicate_row: "tab (remove_duplicate_account i s) = hm_remove i (tab s)"
begin

lemma deleted_rows: "map_of (tab (snd (delete_accounts now ids n s))) = without_deleted ids s (map_of (tab s))"
proof (induction ids arbitrary: n s)
  case (Cons i ids)
  show ?case
  proof (cases "map_of (ps_accounts s) i")
    case None
    with Cons show ?thesis by (auto simp: delete_account_missing without_deleted_def fun_eq_iff)
  next
    case (Some a)
    obtain s' where del: "delete_upstream_account_inner i now s = (Inr (), s')"
      using delete_account_tables(1) [OF Some, of now] by (metis surjective_pairing)
    have "tab s' = hm_remove i (tab s)" "ps_accounts s' = hm_remove i (ps_accounts s)"
      using delete_row [OF Some, of now] delete_account_tables(2) [OF Some, of now] del by simp_all
    with Cons.IH [of "n + 1" s'] del Some show ?thesis
      by (auto simp: without_deleted_def hm_maps fun_eq_iff)
  qed
qed (simp add: without_deleted_def)

lemma duplicate_rows:
  "map_of (tab (fold remove_duplicate_account ids s)) i = (if i \<in> set ids then None else map_of (tab s) i)"
  by (induction ids arbitrary: s) (auto simp: duplicate_row hm_maps)

end

locale one_time_table = account_table +
  assumes one_time_row: "tab (remove_one_time_account i s) = hm_remove i (tab s)"
begin

lemma one_time_rows:
  "map_of (tab (fold remove_one_time_account ids s)) i = (if i \<in> set ids then None else map_of (tab s) i)"
  by (induction ids arbitrary: s) (auto simp: one_time_row hm_maps)

end

interpretation account_rows: one_time_table ps_accounts
  by unfold_locales (simp_all add: delete_account_tables remove_duplicate_account_def remove_one_time_account_def)

interpretation provider_rows: one_time_table ps_auth_providers
  by unfold_locales (simp_all add: delete_account_tables remove_duplicate_account_def remove_one_time_account_def)

interpretation credential_rows: one_time_table ps_credentials
  by unfold_locales (simp_all add: delete_account_tables remove_duplicate_account_def remove_one_time_account_def)

interpretation profile_rows: one_time_table ps_session_profiles
  by unfold_locales (simp_all add: delete_account_tables remove_duplicate_account_def remove_one_time_account_def)

interpretation cache_rows: one_time_table ps_rate_limit_caches
  by unfold_locales (simp_all add: delete_account_tables remove_duplicate_account_def remove_one_time_account_def)

interpretation health_rows: account_table ps_health
  by unfold_locales (simp_all add: delete_account_tables remove_duplicate_account_def)

lemmas all_deleted_rows = account_rows.deleted_rows provider_rows.deleted_rows credential_rows.deleted_rows
  profile_rows.deleted_rows cache_rows.deleted_rows health_rows.deleted_rows

lemmas all_one_time_rows = account_rows.one_time_rows provider_rows.one_time_rows credential_rows.one_time_rows
  cache_rows.one_time_rows

lemma length_hm_remove:
  assumes "hm_ok m" "map_of m i \<noteq> None"
  shows "length (hm_remove i m) + 1 = length m"
proof -
  have keys: "length m' = card (fst ` set m')" if "hm_ok m'" for m' :: "('a \<times> 'b) list"
    using distinct_card [OF that] by simp
  have "i \<in> fst ` set m" using assms(2) by (simp add: map_of_eq_None_iff)
  then have "0 < card (fst ` set m)" by (auto simp: card_gt_0_iff)
  with \<open>i \<in> fst ` set m\<close> show ?thesis
    using keys [OF assms(1)] keys [of "hm_remove i m"] assms(1)
    by (simp add: keys_hm_remove card_Diff_singleton)
qed

lemma delete_accounts_count:
  "hm_ok (ps_accounts s) \<Longrightarrow>
     length (ps_accounts (snd (delete_accounts now ids n s))) + fst (delete_accounts now ids n s) =
       length (ps_accounts s) + n \<and>
     fst (delete_accounts now ids n s) \<le> n + length ids"
proof (induction ids arbitrary: n s)
  case (Cons i ids)
  show ?case
  proof (cases "map_of (ps_accounts s) i")
    case None
    from Cons.IH [OF Cons.prems, of n] None show ?thesis by (simp add: delete_account_missing)
  next
    case (Some a)
    obtain s' where del: "delete_upstream_account_inner i now s = (Inr (), s')"
      using delete_account_tables(1) [OF Some, of now] by (metis surjective_pairing)
    have rem: "ps_accounts s' = hm_remove i (ps_accounts s)"
      using delete_account_tables(2) [OF Some, of now] del by simp
    then have "hm_ok (ps_accounts s')" "length (ps_accounts s') + 1 = length (ps_accounts s)"
      using Cons.prems Some length_hm_remove [of "ps_accounts s" i] by simp_all
    with Cons.IH [of s' "n + 1"] del show ?thesis by simp
  qed
qed simp

text \<open>
  C26. Deletion of accounts: a pass removes only accounts whose deletion is due, and leaves every row of every
  other account alone; it counts what it removes and never exceeds its batch; and when the states that are
  due fit into a batch, no account that is due is left in any table.
\<close>

theorem purge_pending_correct:
  assumes "pool_reachable d s"
  shows "let n = fst (purge_pending_upstream_accounts_inner d now s);
             s' = snd (purge_pending_upstream_accounts_inner d now s);
             batch = pending_purge_batch_size_from_env (pd_env d)
         in (\<forall>i. i \<notin> due_ids now s \<longrightarrow>
               map_of (ps_accounts s') i = map_of (ps_accounts s) i \<and>
               map_of (ps_auth_providers s') i = map_of (ps_auth_providers s) i \<and>
               map_of (ps_credentials s') i = map_of (ps_credentials s) i \<and>
               map_of (ps_session_profiles s') i = map_of (ps_session_profiles s) i \<and>
               map_of (ps_health s') i = map_of (ps_health s) i \<and>
               map_of (ps_rate_limit_caches s') i = map_of (ps_rate_limit_caches s) i) \<and>
            length (ps_accounts s') + n = length (ps_accounts s) \<and> n \<le> batch \<and>
            (card (due_ids now s) \<le> batch \<longrightarrow>
               (\<forall>i \<in> due_ids now s.
                  map_of (ps_accounts s') i = None \<and> map_of (ps_auth_providers s') i = None \<and>
                  map_of (ps_credentials s') i = None \<and> map_of (ps_session_profiles s') i = None))"
proof -
  have inv: "pool_inv s" using assms by (rule pool_inv_reachable)
  then have ok: "hm_ok (ps_accounts s)" "hm_ok (ps_health s)"
    by (simp_all add: pool_inv_def tables_inv_def health_inv_def)
  define ids where "ids = pending_purge_due_account_ids_inner now (pending_purge_batch_size_from_env (pd_env d)) s"
  note due = due_candidates [OF ok(2), of now "pending_purge_batch_size_from_env (pd_env d)", folded ids_def]
  define r where "r = delete_accounts now ids 0 s"
  have frame: "T (snd (purge_pending_upstream_accounts_inner d now s)) = T (snd r)"
    if "\<And>e s. T (emit_system_event_inner e s) = T s" for T :: "pool_store \<Rightarrow> (uuid \<times> 'z) list"
    by (simp add: purge_pending_upstream_accounts_inner_def Let_def ids_def [symmetric] r_def [symmetric]
        that split: prod.split)
  have n: "fst (purge_pending_upstream_accounts_inner d now s) = fst r"
    by (simp add: purge_pending_upstream_accounts_inner_def Let_def ids_def [symmetric] r_def [symmetric]
        split: prod.split)
  note tables = all_deleted_rows [where now = now and ids = ids and n = 0 and s = s, folded r_def]
  have owned: "map_of (ps_accounts s) i = None \<Longrightarrow> map_of (ps_auth_providers s) i = None \<and>
      map_of (ps_credentials s) i = None \<and> map_of (ps_session_profiles s) i = None" for i
    using inv by (simp add: pool_inv_def tables_inv_def linked_def)
  from delete_accounts_count [OF ok(1), of now ids 0, folded r_def] due(2) show ?thesis
    unfolding Let_def n
    by (intro conjI allI impI ballI)
      (use due owned in \<open>auto simp: frame tables without_deleted_def\<close>)
qed

section \<open>A concrete pool\<close>

text \<open>A pool with one account, with a service that answers nothing and a cipher that keeps text as it is.\<close>

definition sample_deps :: pool_deps where
  "sample_deps =
     \<lparr>pd_env = (\<lambda>_. None), pd_encrypt = Inr, pd_decrypt = Inr, pd_has_cipher = True,
      pd_refresh_token = (\<lambda>_ _ _. Inl OAuthParse), pd_fetch_rate_limits = (\<lambda>_ _ _ _. Inl OAuthParse),
      pd_fetch_usage = (\<lambda>_ _ _ _. Inl OAuthParse), pd_fetch_workspace_name = (\<lambda>_ _ _ _. Inl OAuthParse),
      pd_refresh_token_sha256 = id, pd_url_path = (\<lambda>_. None), pd_url_with_path = (\<lambda>_ path. path),
      pd_jwt_exp = (\<lambda>_. None)\<rparr>"

definition sample_request :: create_upstream_account_request where
  "sample_request = \<lparr>cua_label = ''a'', cua_mode = OpenAiApiKey, cua_base_url = ''u'', cua_bearer_token = ''t'',
     cua_chatgpt_account_id = None, cua_enabled = None, cua_priority = None\<rparr>"

definition sample_pool :: pool_store where
  "sample_pool = snd (create_upstream_account_inner sample_deps 7 0 sample_request (empty_pool True))"

definition sample_due_pool :: pool_store where
  "sample_due_pool = snd (mark_upstream_account_pending_purge_inner sample_deps 7 None 5 sample_pool)"

lemma sample_pool_reachable: "pool_reachable sample_deps sample_pool"
  unfolding sample_pool_def by (rule pool_reachable.step [OF pool_reachable.start pool_step.create])

lemma sample_due_pool_reachable: "pool_reachable sample_deps sample_due_pool"
  unfolding sample_due_pool_def by (rule pool_reachable.step [OF sample_pool_reachable pool_step.pending_purge])


theorem token_invalidated_strikes_witness:
  "hs_pool_state (health_of (fold (report_token_invalidated sample_deps 7 LivePassive 30) [10, 20] sample_pool) 7) =
     PoolPendingPurge"
proof -
  have acc: "map_of (ps_accounts sample_pool) 7 = Some (fst (create_upstream_account_inner sample_deps 7 0 sample_request (empty_pool True)))"
    by code_simp
  have th: "token_invalidated_purge_threshold_for_provider (pd_env sample_deps) (account_auth_provider sample_pool 7) = 2"
    by code_simp
  have first: "hs_token_invalidated_first_at (health_of sample_pool 7) = None" by code_simp
  have win: "\<forall>u \<in> set [20]. u \<le> 10 + seconds (token_invalidated_purge_window_sec_from_env (pd_env sample_deps))"
    by code_simp
  show ?thesis using token_invalidated_strikes [OF acc first win, of LivePassive 30] by (simp add: th Let_def)
qed

theorem purge_pending_correct_witness:
  "pool_reachable sample_deps sample_due_pool \<and>
   map_of (ps_accounts sample_due_pool) 7 \<noteq> None \<and> 
   map_of (ps_accounts (snd (purge_pending_upstream_accounts_inner sample_deps 1000000000000000 sample_due_pool))) 7 = None"
proof -
  have due: "due_ids 1000000000000000 sample_due_pool = {7}"
  proof -
    have "ps_health sample_due_pool = [(7, health_of sample_due_pool 7)]" by code_simp
    moreover have "purge_due 1000000000000000 (health_of sample_due_pool 7)" by code_simp
    ultimately show ?thesis by (auto simp: due_ids_def split: if_splits)
  qed
  have "1 \<le> pending_purge_batch_size_from_env (pd_env sample_deps)" by code_simp
  then have "map_of (ps_accounts (snd (purge_pending_upstream_accounts_inner sample_deps 1000000000000000 sample_due_pool))) 7 = None"
    using purge_pending_correct [OF sample_due_pool_reachable, of 1000000000000000] by (simp add: due Let_def)
  moreover have "map_of (ps_accounts sample_due_pool) 7 \<noteq> None" by code_simp
  ultimately show ?thesis using sample_due_pool_reachable by simp
qed

end
