(* ===== verification/Pool_Lifecycle.thy ===== *)
theory Pool_Lifecycle
  imports Pool_Claims
begin

text \<open>
  The life of OAuth accounts: the refresh of a token and the fate of its family, duplicates, and the
  activation of vault records within the limits of the pool.
\<close>

section \<open>A refresh token that was used twice\<close>

abbreviation purge_all :: "pool_deps \<Rightarrow> string option \<Rightarrow> timestamp \<Rightarrow> uuid list \<Rightarrow> pool_store \<Rightarrow> pool_store" where
  "purge_all d reason now ids s \<equiv>
     fold (\<lambda>i s. snd (mark_upstream_account_pending_purge_inner d i reason now s)) ids s"

lemma purge_all_effect:
  assumes "\<forall>i \<in> set ids. map_of (ps_accounts s) i \<noteq> None"
  shows "\<forall>j. (j \<in> set ids \<longrightarrow> hs_pool_state (health_of (purge_all d reason now ids s) j) = PoolPendingPurge) \<and>
         (j \<notin> set ids \<longrightarrow> health_of (purge_all d reason now ids s) j = health_of s j) \<and>
         map_of (ps_accounts (purge_all d reason now ids s)) j =
           map_option (\<lambda>a. if j \<in> set ids then a\<lparr>ua_enabled := False\<rparr> else a) (map_of (ps_accounts s) j)"
  using assms
proof (induction ids rule: rev_induct)
  case (snoc i ids)
  then obtain a where "map_of (ps_accounts (purge_all d reason now ids s)) i = Some a" by fastforce
  with pending_purge_effect [OF this, where d = d and reason = reason and now = now] snoc show ?case
    by (auto simp: map_option_case split: option.splits)
qed (auto simp: option.map_id0 [unfolded id_def])

text \<open>What a failed refresh does, once the conditions for a refresh are met.\<close>

definition refresh_attempted ::
  "pool_deps \<Rightarrow> bool \<Rightarrow> timestamp \<Rightarrow> oauth_credential_record \<Rightarrow> string \<Rightarrow> bool" where
  "refresh_attempted d force now c refresh_token \<longleftrightarrow>
     \<not> (terminal_invalid c \<and> usable_fallback now c) \<and>
     (force \<or> cr_token_expires_at c \<le> now + seconds oauth_refresh_window_sec) \<and>
     (case cr_refresh_backoff_until c of Some until \<Rightarrow> until \<le> now | None \<Rightarrow> True) \<and>
     pd_has_cipher d \<and> pd_decrypt d (cr_refresh_token_enc c) = Inr refresh_token"

lemma snd_Inr: "snd (case p of (r, s') \<Rightarrow> (Inr r, s')) = snd p"
  by (cases p) simp

lemma refresh_failure_store:
  assumes "account_auth_provider s i = OAuthRefreshToken" "map_of (ps_accounts s) i = Some a"
    "map_of (ps_credentials s) i = Some c" "refresh_attempted d force now c token"
    "pd_refresh_token d now token (Some (ua_base_url a)) = Inl err"
  shows "snd (refresh_oauth_account_inner d i force fam now s) =
     snd (account_pool_state_record_inner now (ua_id a)
       (punish_refresh_failure d i now (refresh_failed now err c)
         (upsert_oauth_credential i (refresh_failed now err c) s)))"
proof -
  have "\<not> (case cr_refresh_backoff_until c of Some until \<Rightarrow> until > now | None \<Rightarrow> False)"
    using assms(4) by (auto simp: refresh_attempted_def split: option.splits)
  with assms(1,4,5) show ?thesis
    unfolding refresh_oauth_account_inner_def Let_def assms(2,3) prod.case option.case
    by (simp add: refresh_attempted_def snd_Inr status_from_store) blast
qed

lemma state_record_health:
  "health_of (snd (account_pool_state_record_inner now i s)) j =
     (if j = i then fst (account_pool_state_record_inner now i s) else health_of s j)"
  by (simp add: account_pool_state_record_inner_def Let_def)

lemma state_record_not_quarantined:
  "hs_pool_state (health_of s i) \<noteq> PoolQuarantine \<Longrightarrow>
   fst (account_pool_state_record_inner now i s) = health_of s i"
  by (simp add: account_pool_state_record_inner_def Let_def)

lemma state_record_accounts [simp]:
  "ps_accounts (snd (account_pool_state_record_inner now i s)) = ps_accounts s"
  by (simp add: account_pool_state_record_inner_def Let_def)

lemma refresh_reuse_effect:
  assumes "pool_reachable d s" "account_auth_provider s i = OAuthRefreshToken"
    "map_of (ps_accounts s) i = Some a" "map_of (ps_credentials s) i = Some c"
    "refresh_attempted d force now c token"
    "pd_refresh_token d now token (Some (ua_base_url a)) = Inl err"
    "oauth_error_code err \<in> {RefreshTokenReused, RefreshTokenRevoked}"
  shows "let s' = snd (refresh_oauth_account_inner d i force fam now s);
             family = {j. \<exists>c'. map_of (ps_credentials s) j = Some c' \<and> cr_token_family_id c' = cr_token_family_id c}
         in (\<forall>j \<in> family. hs_pool_state (health_of s' j) = PoolPendingPurge \<and>
               (\<exists>b. map_of (ps_accounts s') j = Some b \<and> \<not> ua_enabled b)) \<and>
            (\<forall>j. j \<notin> family \<longrightarrow> health_of s' j = health_of s j \<and>
               map_of (ps_accounts s') j = map_of (ps_accounts s) j)"
proof -
  have inv: "pool_inv s" using assms(1) by (rule pool_inv_reachable)
  let ?c = "refresh_failed now err c"
  let ?s1 = "upsert_oauth_credential i ?c s"
  let ?reason = "cr_last_refresh_error_code ?c"
  define family where
    "family = {j. \<exists>c'. map_of (ps_credentials s) j = Some c' \<and> cr_token_family_id c' = cr_token_family_id c}"
  have fam_c: "cr_token_family_id ?c = cr_token_family_id c" "cr_refresh_reused_detected ?c"
    using assms(7) by (auto simp: refresh_failed_def Let_def)
  have ids: "set (family_account_ids (cr_token_family_id c) ?s1) = family"
  proof -
    have "hm_ok (ps_credentials ?s1)"
      using inv by (simp add: pool_inv_def tables_inv_def upsert_oauth_credential_def)
    then have "set (family_account_ids (cr_token_family_id c) ?s1) =
        {j. \<exists>c'. map_of (ps_credentials ?s1) j = Some c' \<and> cr_token_family_id c' = cr_token_family_id c}"
      by (force simp: family_account_ids_def set_map_filter split: if_splits)
    also have "\<dots> = family"
      using assms(4) fam_c(1) by (auto simp: family_def upsert_oauth_credential_def hm_maps)
    finally show ?thesis .
  qed
  have owned: "\<forall>j \<in> family. map_of (ps_accounts ?s1) j \<noteq> None"
    using inv by (auto simp: family_def dest: pool_inv_credential_owner)
  define s2 where "s2 = purge_all d ?reason now (family_account_ids (cr_token_family_id c) ?s1) ?s1"
  have eff: "(j \<in> family \<longrightarrow> hs_pool_state (health_of s2 j) = PoolPendingPurge) \<and>
      (j \<notin> family \<longrightarrow> health_of s2 j = health_of s j) \<and>
      map_of (ps_accounts s2) j =
        map_option (\<lambda>a. if j \<in> family then a\<lparr>ua_enabled := False\<rparr> else a) (map_of (ps_accounts s) j)" for j
    using purge_all_effect [of "family_account_ids (cr_token_family_id c) ?s1" ?s1 d ?reason now] owned
    unfolding s2_def ids by (simp add: health_of_def upsert_oauth_credential_def)
  have "i \<in> family" using assms(4) by (simp add: family_def)
  have run: "snd (refresh_oauth_account_inner d i force fam now s) = snd (account_pool_state_record_inner now i s2)"
    using refresh_failure_store [OF assms(2-6), of fam] pool_inv_account_id [OF inv assms(3)] fam_c
    by (simp add: punish_refresh_failure_def mark_oauth_family_pending_purge_inner_def s2_def)
  have health: "health_of (snd (account_pool_state_record_inner now i s2)) j = health_of s2 j" for j
    using eff [of i] \<open>i \<in> family\<close> by (simp add: state_record_health state_record_not_quarantined)
  show ?thesis
    unfolding Let_def run family_def [symmetric] health state_record_accounts
    using eff owned by (auto simp: option.map_id0 [unfolded id_def] simp del: map_of_eq_Some_iff)
qed

text \<open>A pool with one OAuth account; the service answers the first call and rejects the token afterwards.\<close>

definition sample_token :: oauth_token_info where
  "sample_token = \<lparr>ti_access_token = ''at'', ti_refresh_token = ''rt'', ti_expires_at = 10, ti_email = None,
     ti_chatgpt_account_id = None, ti_chatgpt_user_id = None, ti_chatgpt_plan_type = None,
     ti_chatgpt_account_user_id = Some ''u'', ti_workspace_name = None\<rparr>"

definition oauth_deps :: pool_deps where
  "oauth_deps = sample_deps\<lparr>pd_refresh_token := (\<lambda>t _ _. if t = 0 then Inr sample_token
     else Inl (InvalidRefreshToken RefreshTokenReused ''used''))\<rparr>"

definition sample_import :: import_request where
  "sample_import = \<lparr>ir_label = ''a'', ir_base_url = ''u'', ir_refresh_token = ''rt'', ir_fallback_access_token = None,
     ir_fallback_token_expires_at = None, ir_chatgpt_account_id = None, ir_mode = None, ir_enabled = None,
     ir_priority = None, ir_chatgpt_plan_type = None, ir_source_type = None\<rparr>"

definition oauth_pool :: pool_store where
  "oauth_pool = snd (import_oauth_refresh_token_inner oauth_deps 7 ''f'' 0 sample_import (empty_pool True))"

lemma oauth_pool_reachable: "pool_reachable oauth_deps oauth_pool"
  unfolding oauth_pool_def by (rule pool_reachable.step [OF pool_reachable.start pool_step.import_token])

section \<open>Duplicate accounts\<close>

definition in_group :: "string option \<Rightarrow> pool_store \<Rightarrow> string \<Rightarrow> upstream_account \<Rightarrow> bool" where
  "in_group target s key a \<longleftrightarrow>
     is_oauth_account s a \<and> account_identity s a = Some key \<and> (target = None \<or> target = Some key)"

abbreviation group_list :: "string option \<Rightarrow> pool_store \<Rightarrow> string \<Rightarrow> upstream_account list" where
  "group_list target s key \<equiv> filter (in_group target s key) (map snd (ps_accounts s))"

lemma group_by_identity_map:
  "map_of (group_by_identity target s) key =
     (if group_list target s key = [] then None else Some (group_list target s key))"
proof -
  define step where "step = (\<lambda>account grouped.
             if \<not> is_oauth_account s account then grouped
             else case account_identity s account of
                    None \<Rightarrow> grouped
                  | Some key \<Rightarrow>
                      if target \<noteq> None \<and> target \<noteq> Some key then grouped
                      else hm_insert key
                             ((case map_of grouped key of Some items \<Rightarrow> items | None \<Rightarrow> []) @ [account]) grouped)"
  have "map_of (fold step xs []) key =
      (if filter (in_group target s key) xs = [] then None else Some (filter (in_group target s key) xs))" for xs
  proof (induction xs rule: rev_induct)
    case (snoc x xs)
    have "map_of (step x g) key =
        (if in_group target s key x
         then Some ((case map_of g key of Some items \<Rightarrow> items | None \<Rightarrow> []) @ [x]) else map_of g key)" for g
      by (cases "account_identity s x") (auto simp: step_def in_group_def hm_maps)
    with snoc show ?case by simp
  qed simp
  then show ?thesis unfolding group_by_identity_def step_def .
qed

lemma hm_ok_group_by_identity: "hm_ok (group_by_identity target s)"
proof -
  have "hm_ok (fold (\<lambda>account grouped.
             if \<not> is_oauth_account s account then grouped
             else case account_identity s account of
                    None \<Rightarrow> grouped
                  | Some key \<Rightarrow>
                      if target \<noteq> None \<and> target \<noteq> Some key then grouped
                      else hm_insert key
                             ((case map_of grouped key of Some items \<Rightarrow> items | None \<Rightarrow> []) @ [account]) grouped)
       xs [])" for xs
    by (induction xs rule: rev_induct) (auto split: option.split)
  then show ?thesis unfolding group_by_identity_def .
qed

lemma duplicate_ids_set:
  "i \<in> set (duplicate_account_ids target s) \<longleftrightarrow>
     (\<exists>key a. a \<in> set (drop 1 (newest_first (group_list target s key))) \<and> ua_id a = i)"
proof -
  have entry: "(key, items) \<in> set (group_by_identity target s) \<longleftrightarrow>
      items = group_list target s key \<and> items \<noteq> []" for key items
    using map_of_distinct_Some [OF hm_ok_group_by_identity, of target s key items] group_by_identity_map [of target s key]
    by (auto split: if_splits)
  have ne: "i \<in> ua_id ` set (drop 1 (newest_first xs)) \<Longrightarrow> xs \<noteq> []" for xs by (auto simp: newest_first_def)
  have "i \<in> set (duplicate_account_ids target s) \<longleftrightarrow>
      (\<exists>key items. (key, items) \<in> set (group_by_identity target s) \<and> i \<in> ua_id ` set (drop 1 (newest_first items)))"
    by (force simp: duplicate_account_ids_def)
  also have "\<dots> \<longleftrightarrow> (\<exists>key. i \<in> ua_id ` set (drop 1 (newest_first (group_list target s key))))"
    unfolding entry using ne by blast
  finally show ?thesis by blast
qed

lemma dedupe_tables:
  fixes u v w s
  defines "ids \<equiv> duplicate_account_ids (identity_key u v w) s"
    and "s' \<equiv> snd (dedupe_oauth_accounts_by_identity_inner u v w s)"
  shows "map_of (ps_accounts s') i = (if i \<in> set ids then None else map_of (ps_accounts s) i)"
    and "map_of (ps_auth_providers s') i = (if i \<in> set ids then None else map_of (ps_auth_providers s) i)"
    and "map_of (ps_session_profiles s') i = (if i \<in> set ids then None else map_of (ps_session_profiles s) i)"
  unfolding s'_def ids_def dedupe_oauth_accounts_by_identity_inner_def Let_def
  by (auto simp: account_rows.duplicate_rows provider_rows.duplicate_rows profile_rows.duplicate_rows)

lemma newest_first_cons:
  assumes "xs \<noteq> []"
  obtains x where "newest_first xs = x # drop 1 (newest_first xs)" "x \<in> set xs"
    "\<forall>y \<in> set xs. ua_created_at y < ua_created_at x \<or>
                  (ua_created_at y = ua_created_at x \<and> ua_id y \<le> ua_id x)"
proof -
  obtain x ys where eq: "newest_first xs = x # ys"
    using assms by (metis length_0_conv length_sort list.exhaust newest_first_def)
  have set: "set (newest_first xs) = set xs" by (simp add: newest_first_def)
  have "sorted (map (\<lambda>a. (- ua_created_at a, - int (ua_id a))) (newest_first xs))"
    by (simp add: newest_first_def)
  then have "\<forall>y \<in> set xs. (- ua_created_at x, - int (ua_id x)) \<le> (- ua_created_at y, - int (ua_id y))"
    unfolding set [symmetric] eq by auto
  then show ?thesis using that [of x] eq set by (fastforce simp: less_eq_prod_def)
qed

lemma accounts_by_id:
  assumes "pool_inv s"
  shows "a \<in> set (map snd (ps_accounts s)) \<longleftrightarrow> map_of (ps_accounts s) (ua_id a) = Some a"
proof
  assume "a \<in> set (map snd (ps_accounts s))"
  then obtain i where i: "(i, a) \<in> set (ps_accounts s)" by auto
  then have "ua_id a = i" by (rule pool_inv_member_id [OF assms])
  with i assms show "map_of (ps_accounts s) (ua_id a) = Some a"
    by (auto simp: pool_inv_def tables_inv_def)
next
  assume "map_of (ps_accounts s) (ua_id a) = Some a"
  from map_of_SomeD [OF this] show "a \<in> set (map snd (ps_accounts s))" by force
qed

lemma distinct_accounts: "pool_inv s \<Longrightarrow> distinct (map snd (ps_accounts s))"
proof -
  assume inv: "pool_inv s"
  then have "distinct (ps_accounts s)" by (simp add: pool_inv_def tables_inv_def distinct_map)
  with pool_inv_member_id [OF inv] show ?thesis
    unfolding distinct_map inj_on_def by (metis prod.collapse)
qed

text \<open>The account of a group that is kept, and those that are removed.\<close>

lemma group_survivor:
  assumes inv: "pool_inv s" and a: "in_group target s key a" "map_of (ps_accounts s) (ua_id a) = Some a"
  obtains b where "in_group target s key b" "map_of (ps_accounts s) (ua_id b) = Some b"
    "ua_id b \<notin> set (duplicate_account_ids target s)"
    "\<And>x. in_group target s key x \<Longrightarrow> map_of (ps_accounts s) (ua_id x) = Some x \<Longrightarrow>
       (x \<noteq> b \<longleftrightarrow> ua_id x \<in> set (duplicate_account_ids target s)) \<and>
       (ua_created_at x < ua_created_at b \<or> (ua_created_at x = ua_created_at b \<and> ua_id x \<le> ua_id b))"
proof -
  let ?G = "\<lambda>k. group_list target s k"
  have mem: "x \<in> set (?G k) \<longleftrightarrow> in_group target s k x \<and> map_of (ps_accounts s) (ua_id x) = Some x" for k x
    using accounts_by_id [OF inv, of x] by auto
  have "a \<in> set (?G key)" using a mem by blast
  then obtain b where b: "newest_first (?G key) = b # drop 1 (newest_first (?G key))" "b \<in> set (?G key)"
    and newest: "\<forall>y \<in> set (?G key). ua_created_at y < ua_created_at b \<or>
      (ua_created_at y = ua_created_at b \<and> ua_id y \<le> ua_id b)"
    using newest_first_cons [of "?G key"] by (metis empty_iff list.set(1))
  have "distinct (newest_first (?G key))"
    using distinct_accounts [OF inv] by (simp add: newest_first_def distinct_map_filter)
  then have hd: "b \<notin> set (drop 1 (newest_first (?G key)))" by (subst (asm) b(1)) simp
  have same: "k = key \<and> y = x" if "y \<in> set (drop 1 (newest_first (?G k)))" "ua_id y = ua_id x"
    "in_group target s key x" "map_of (ps_accounts s) (ua_id x) = Some x" for k x y
  proof -
    have "y \<in> set (?G k)" using in_set_dropD [OF that(1)] by (simp add: newest_first_def)
    then have "in_group target s k y" "map_of (ps_accounts s) (ua_id y) = Some y" using mem by blast+
    with that show ?thesis by (auto simp: in_group_def)
  qed
  have removed: "ua_id x \<in> set (duplicate_account_ids target s) \<longleftrightarrow> x \<in> set (drop 1 (newest_first (?G key)))"
    if "in_group target s key x" "map_of (ps_accounts s) (ua_id x) = Some x" for x
    using same [OF _ _ that] unfolding duplicate_ids_set by blast
  have "set (newest_first (?G key)) = set (?G key)" by (simp add: newest_first_def)
  then have cases: "x = b \<or> x \<in> set (drop 1 (newest_first (?G key)))" if "x \<in> set (?G key)" for x
    using that by (metis b(1) set_ConsD)
  show ?thesis
  proof (rule that [of b])
    show "in_group target s key b" "map_of (ps_accounts s) (ua_id b) = Some b" using b(2) mem by blast+
    with hd removed show "ua_id b \<notin> set (duplicate_account_ids target s)" by blast
    show "(x \<noteq> b \<longleftrightarrow> ua_id x \<in> set (duplicate_account_ids target s)) \<and>
       (ua_created_at x < ua_created_at b \<or> (ua_created_at x = ua_created_at b \<and> ua_id x \<le> ua_id b))"
      if "in_group target s key x" "map_of (ps_accounts s) (ua_id x) = Some x" for x
      using removed [OF that] cases [of x] hd newest mem that by blast
  qed
qed

text \<open>
  C27. Removal of duplicates: afterwards no two OAuth accounts of the identity in question (of any identity,
  when none is given) are left; an account is only removed when a newer one of the same identity is kept,
  and the accounts that are kept are unchanged.
\<close>

theorem dedupe_keeps_newest:
  assumes "pool_reachable d s"
  shows "let s' = snd (dedupe_oauth_accounts_by_identity_inner u v w s); target = identity_key u v w
         in (\<forall>a b key. map_of (ps_accounts s') (ua_id a) = Some a \<longrightarrow> map_of (ps_accounts s') (ua_id b) = Some b \<longrightarrow>
               in_group target s' key a \<longrightarrow> in_group target s' key b \<longrightarrow> a = b) \<and>
            (\<forall>i a. map_of (ps_accounts s) i = Some a \<longrightarrow>
               map_of (ps_accounts s') i = Some a \<or>
               map_of (ps_accounts s') i = None \<and>
               (\<exists>b key. in_group target s key a \<and> in_group target s key b \<and>
                  map_of (ps_accounts s') (ua_id b) = Some b \<and>
                  (ua_created_at a < ua_created_at b \<or> (ua_created_at a = ua_created_at b \<and> ua_id a < ua_id b)))) \<and>
            (\<forall>i. map_of (ps_accounts s) i = None \<longrightarrow> map_of (ps_accounts s') i = None)"
proof -
  have inv: "pool_inv s" using assms by (rule pool_inv_reachable)
  define s' where "s' = snd (dedupe_oauth_accounts_by_identity_inner u v w s)"
  define target where "target = identity_key u v w"
  note tabs = dedupe_tables [where u = u and v = v and w = w and s = s, folded s'_def target_def]
  have group: "in_group target s key a \<and> map_of (ps_accounts s) (ua_id a) = Some a \<and>
      ua_id a \<notin> set (duplicate_account_ids target s)"
    if "in_group target s' key a" "map_of (ps_accounts s') (ua_id a) = Some a" for key a
    using that by (auto simp: in_group_def is_oauth_account_def account_identity_def tabs split: if_splits option.splits)
  have unique: "a = b"
    if "map_of (ps_accounts s') (ua_id a) = Some a" "map_of (ps_accounts s') (ua_id b) = Some b"
      "in_group target s' key a" "in_group target s' key b" for a b key
    using group_survivor [OF inv, of target key a] group [OF that(3) that(1)] group [OF that(4) that(2)] by metis
  have replaced: "map_of (ps_accounts s') i = Some a \<or> map_of (ps_accounts s') i = None \<and>
      (\<exists>b key. in_group target s key a \<and> in_group target s key b \<and> map_of (ps_accounts s') (ua_id b) = Some b \<and>
         (ua_created_at a < ua_created_at b \<or> (ua_created_at a = ua_created_at b \<and> ua_id a < ua_id b)))"
    if stored: "map_of (ps_accounts s) i = Some a" for i a
  proof (cases "i \<in> set (duplicate_account_ids target s)")
    case True
    have id: "ua_id a = i" by (rule pool_inv_account_id [OF inv stored])
    obtain key x where x: "x \<in> set (drop 1 (newest_first (group_list target s key)))" "ua_id x = i"
      using True unfolding duplicate_ids_set by blast
    have "x \<in> set (group_list target s key)" using in_set_dropD [OF x(1)] by (simp add: newest_first_def)
    then have grp: "in_group target s key x" "map_of (ps_accounts s) (ua_id x) = Some x"
      using accounts_by_id [OF inv, of x] by auto
    with stored x have "x = a" by simp
    obtain b where b: "in_group target s key b" "map_of (ps_accounts s) (ua_id b) = Some b"
      "ua_id b \<notin> set (duplicate_account_ids target s)" "a \<noteq> b"
      "ua_created_at a < ua_created_at b \<or> (ua_created_at a = ua_created_at b \<and> ua_id a \<le> ua_id b)"
      using group_survivor [OF inv grp] grp True x(2) unfolding \<open>x = a\<close> by metis
    have "ua_id a \<noteq> ua_id b" using b(2,4) stored id by auto
    with b grp True show ?thesis unfolding \<open>x = a\<close> by (auto simp: tabs intro!: exI [of _ b] exI [of _ key])
  qed (simp add: tabs stored)
  show ?thesis
    unfolding Let_def s'_def [symmetric] target_def [symmetric]
    by (intro conjI allI impI) (use unique replaced in \<open>auto simp: tabs simp del: map_of_eq_Some_iff\<close>)
qed

text \<open>The same identity imported twice: two accounts, of which the second is kept.\<close>

definition twin_pool :: pool_store where
  "twin_pool = snd (import_oauth_refresh_token_inner oauth_deps 8 ''g'' 0 sample_import oauth_pool)"

lemma twin_pool_reachable: "pool_reachable oauth_deps twin_pool"
  unfolding twin_pool_def by (rule pool_reachable.step [OF oauth_pool_reachable pool_step.import_token])

theorem dedupe_keeps_newest_witness:
  "length (ps_accounts twin_pool) = 2 \<and>
   map_of (ps_accounts (snd (dedupe_oauth_accounts_by_identity_inner None None None twin_pool))) 7 = None \<and>
   map_of (ps_accounts (snd (dedupe_oauth_accounts_by_identity_inner None None None twin_pool))) 8 \<noteq> None"
proof -
  let ?s' = "snd (dedupe_oauth_accounts_by_identity_inner None None None twin_pool)"
  have two: "length (ps_accounts twin_pool) = 2" "map_of (ps_accounts ?s') 8 \<noteq> None" by code_simp+
  have a: "map_of (ps_accounts twin_pool) 7 = Some (the (map_of (ps_accounts twin_pool) 7))"
    "map_of (ps_accounts ?s') 7 \<noteq> Some (the (map_of (ps_accounts twin_pool) 7))" by code_simp+
  have "map_of (ps_accounts ?s') 7 = None"
    using dedupe_keeps_newest [OF twin_pool_reachable, of None None None, unfolded Let_def] a by blast
  with two show ?thesis by blast
qed

end
