(* ===== verification/Route_Plan_Props.thy ===== *)
theory Route_Plan_Props
  imports Route_Plan Router_Correct
begin

lemma set_sorted_dedup: "set (remdups_adj (sort xs)) = set xs"
  by simp

lemma distinct_sorted_dedup: "distinct (remdups_adj (sort xs))"
proof -
  have "sorted ys \<Longrightarrow> distinct (remdups_adj ys)" for ys :: "'a::linorder list"
    by (induction ys rule: remdups_adj.induct) auto
  then show ?thesis by simp
qed

lemma fold_route_model_blocked:
  "fallback_segments compiled policy = [] \<Longrightarrow> fold (route_model compiled policy) ms acc = acc"
  by (induction ms arbitrary: acc) (auto simp: route_model_def split: prod.splits)

lemma fold_route_model:
  assumes "fallback_segments compiled policy \<noteq> []" "distinct ms"
  shows "fold (route_model compiled policy) ms (routed, policies) =
     (routed @ filter (\<lambda>m. m \<notin> set routed) ms,
      policies @ map (compiled_policy policy (fallback_segments compiled policy))
                   (filter (\<lambda>m. m \<notin> set routed) ms))"
  using assms(2)
proof (induction ms arbitrary: routed policies)
  case (Cons m ms)
  have "filter (\<lambda>x. x \<notin> set (routed @ [m])) ms = filter (\<lambda>x. x \<notin> set routed) ms"
    using Cons.prems by (auto intro: filter_cong)
  with Cons show ?case by (simp add: route_model_def assms(1) Let_def)
qed simp

text \<open>
  The reference: the first policy, in order of priority, that names the model and has a segment with
  accounts; otherwise the default policy.
\<close>

definition serves :: "(uuid, compiled_routing_profile) hash_map \<Rightarrow> string list \<Rightarrow> string \<Rightarrow> model_routing_policy \<Rightarrow> bool" where
  "serves compiled known model policy \<longleftrightarrow>
     \<not> is_default_policy policy \<and> model \<in> set (policy_models known policy) \<and>
     fallback_segments compiled policy \<noteq> []"

definition planned_segments ::
  "(uuid, compiled_routing_profile) hash_map \<Rightarrow> string list \<Rightarrow> model_routing_policy list \<Rightarrow> string \<Rightarrow>
   compiled_routing_profile list" where
  "planned_segments compiled known policies model =
     (case find (serves compiled known model) policies of
        Some policy \<Rightarrow> fallback_segments compiled policy
      | None \<Rightarrow> (case find is_default_policy policies of
                   Some policy \<Rightarrow> fallback_segments compiled policy | None \<Rightarrow> []))"

abbreviation finds_model :: "string \<Rightarrow> compiled_model_routing_policy \<Rightarrow> bool" where
  "finds_model model c \<equiv> model \<in> set (cmp_exact_models c)"

lemma find_append: "find P (xs @ ys) = (case find P xs of Some x \<Rightarrow> Some x | None \<Rightarrow> find P ys)"
  by (induction xs) auto

lemma find_compiled_policy:
  "find (finds_model model) (map (compiled_policy policy segs) ms) =
     (if model \<in> set ms then Some (compiled_policy policy segs model) else None)"
  by (induction ms) (auto simp: compiled_policy_def)

text \<open>What the loop over the policies has done after a prefix of them.\<close>

definition routes_like ::
  "(uuid, compiled_routing_profile) hash_map \<Rightarrow> string list \<Rightarrow> model_routing_policy list \<Rightarrow>
   string list \<times> compiled_model_routing_policy list \<Rightarrow> bool" where
  "routes_like compiled known policies acc \<longleftrightarrow>
     (\<forall>model. (model \<in> set (fst acc) \<longleftrightarrow> find (serves compiled known model) policies \<noteq> None) \<and>
        find (finds_model model) (snd acc) =
          map_option (\<lambda>p. compiled_policy p (fallback_segments compiled p) model)
            (find (serves compiled known model) policies))"

lemma routes_like_step:
  assumes "routes_like compiled known done_policies acc" and policy: "\<not> is_default_policy policy"
  shows "routes_like compiled known (done_policies @ [policy])
           (fold (route_model compiled policy) (policy_models known policy) acc)"
proof (cases "fallback_segments compiled policy = []")
  case True
  then have "find (serves compiled known model) (done_policies @ [policy]) =
      find (serves compiled known model) done_policies" for model
    by (auto simp: find_append serves_def split: option.splits)
  with assms True show ?thesis by (simp add: fold_route_model_blocked routes_like_def)
next
  case False
  obtain routed policies where acc: "acc = (routed, policies)" by (cases acc)
  have "distinct (policy_models known policy)" unfolding policy_models_def by (rule distinct_sorted_dedup)
  from fold_route_model [OF False this] assms(1) policy False show ?thesis
    unfolding acc routes_like_def
    by (auto simp: find_append find_compiled_policy serves_def split: option.splits)
qed

lemma route_explicit_spec: "routes_like compiled known policies (route_explicit compiled known policies)"
proof -
  let ?step = "\<lambda>policy. fold (route_model compiled policy) (policy_models known policy)"
  let ?expl = "filter (\<lambda>p. \<not> is_default_policy p)"
  have "routes_like compiled known (?expl ps) (fold ?step (?expl ps) ([], []))" for ps
  proof (induction ps rule: rev_induct)
    case (snoc p ps)
    then show ?case by (auto simp: routes_like_step)
  qed (simp add: routes_like_def)
  moreover have "find (serves compiled known model) (?expl ps) = find (serves compiled known model) ps" for model ps
    by (induction ps) (auto simp: serves_def)
  ultimately show ?thesis by (simp add: route_explicit_def routes_like_def)
qed

lemma planned_segments_nonempty:
  "seg \<in> set (planned_segments compiled known policies model) \<Longrightarrow>
     crp_account_ids seg \<noteq> [] \<and> (\<exists>i. map_of compiled i = Some seg)"
  by (auto simp: planned_segments_def fallback_segments_def set_map_filter split: option.splits)

text \<open>Looking a model up in the list of compiled policies, with the default policy's entries at the end.\<close>

lemma find_no_prefix:
  "\<forall>c \<in> set cs. cmp_model_prefixes c = [] \<Longrightarrow>
   find (\<lambda>policy. list_ex (\<lambda>pre. prefix pre model) (cmp_model_prefixes policy)) cs = None"
  by (auto simp: find_None_iff)

lemma route_model_prefixes:
  "\<forall>c \<in> set (snd acc). cmp_model_prefixes c = [] \<Longrightarrow>
   \<forall>c \<in> set (snd (route_model compiled policy m acc)). cmp_model_prefixes c = []"
  by (cases acc) (auto simp: route_model_def compiled_policy_def Let_def)

lemma fold_invariant: "P acc \<Longrightarrow> (\<And>x acc. x \<in> set xs \<Longrightarrow> P acc \<Longrightarrow> P (f x acc)) \<Longrightarrow> P (fold f xs acc)"
  by (induction xs arbitrary: acc) auto

lemma compiled_prefixes_empty:
  "\<forall>c \<in> set (snd (route_explicit compiled known policies)). cmp_model_prefixes c = []"
  unfolding route_explicit_def
  by (intro fold_invariant [where P = "\<lambda>acc. \<forall>c \<in> set (snd acc). cmp_model_prefixes c = []"]
      route_model_prefixes) simp_all

lemma candidates_without_prefixes:
  assumes "r_compiled_routing_plan r = Some plan" "trim model \<noteq> []"
    and "find (\<lambda>policy. list_ex (\<lambda>pre. prefix pre (trim model)) (cmp_model_prefixes policy)) (plan_policies plan) = None"
    and "(case find (finds_model (trim model)) (plan_policies plan) of
            Some c \<Rightarrow> cmp_fallback_segments c | None \<Rightarrow> plan_default_route plan) = segs"
  shows "candidate_account_ids_for_model r (Some model) =
     (if concat (map crp_account_ids segs) = [] then None else Some (concat (map crp_account_ids segs)))"
  using assms
  by (cases "find (finds_model (trim model)) (plan_policies plan)")
    (simp_all add: candidate_account_ids_for_model_def Let_def)

definition default_segments ::
  "(uuid, compiled_routing_profile) hash_map \<Rightarrow> model_routing_policy list \<Rightarrow> compiled_routing_profile list" where
  "default_segments compiled policies =
     (case find is_default_policy policies of Some p \<Rightarrow> fallback_segments compiled p | None \<Rightarrow> [])"

lemma candidates_of_compiled_plan:
  assumes plan: "r_compiled_routing_plan r = compile_routing_plan_from_state new_id now accounts traits s"
    and model: "trim model \<noteq> []"
  defines "compiled \<equiv> compile_profiles now accounts traits s"
    and "known \<equiv> known_models traits (source_policies s)"
  shows "candidate_account_ids_for_model r (Some model) =
     (let segs = planned_segments compiled known (source_policies s) (trim model)
      in if segs = [] then None else Some (concat (map crp_account_ids segs)))"
proof -
  obtain routed expl where expl: "route_explicit compiled known (source_policies s) = (routed, expl)"
    by (cases "route_explicit compiled known (source_policies s)")
  define dflt where "dflt = default_segments compiled (source_policies s)"
  define rest where "rest =
     (case find is_default_policy (source_policies s) of
        None \<Rightarrow> []
      | Some p \<Rightarrow> if fallback_segments compiled p = [] then []
                  else map (compiled_policy p (fallback_segments compiled p))
                         (filter (\<lambda>model. model \<notin> set routed) known))"
  have plan': "r_compiled_routing_plan r =
      (if dflt = [] \<and> expl @ rest = [] then None
       else Some \<lparr>plan_version_id = new_id, plan_published_at = now,
              plan_trigger_reason = Some ''in_memory_snapshot'',
              plan_default_route = dflt, plan_policies = expl @ rest\<rparr>)"
    using expl
    unfolding plan compile_routing_plan_from_state_def dflt_def default_segments_def rest_def
      compiled_def known_def Let_def by simp
  have routes: "routes_like compiled known (source_policies s) (routed, expl)"
    using route_explicit_spec [of compiled known "source_policies s"] by (simp add: expl)
  have rest_dflt: "find (finds_model (trim model)) rest = Some c \<Longrightarrow> cmp_fallback_segments c = dflt" for c
    by (auto simp: rest_def dflt_def default_segments_def find_compiled_policy compiled_policy_def
        split: option.splits if_splits)
  have no_prefix: "find (\<lambda>policy. list_ex (\<lambda>pre. prefix pre (trim model)) (cmp_model_prefixes policy)) (expl @ rest) = None"
  proof (rule find_no_prefix)
    show "\<forall>c \<in> set (expl @ rest). cmp_model_prefixes c = []"
      using compiled_prefixes_empty [of compiled known "source_policies s"]
      by (auto simp: expl rest_def compiled_policy_def split: option.splits if_splits)
  qed
  define segs where "segs = planned_segments compiled known (source_policies s) (trim model)"
  have chosen: "(case find (finds_model (trim model)) (expl @ rest) of
        Some c \<Rightarrow> cmp_fallback_segments c | None \<Rightarrow> dflt) = segs"
    using routes rest_dflt
    unfolding routes_like_def segs_def planned_segments_def default_segments_def [symmetric] dflt_def [symmetric]
    by (auto simp: find_append compiled_policy_def split: option.splits)
  have "concat (map crp_account_ids segs) \<noteq> []" if "segs \<noteq> []"
    using that planned_segments_nonempty [of "hd segs" compiled known "source_policies s" "trim model"]
    by (cases segs) (auto simp: segs_def)
  moreover have "segs = []" if "dflt = []" "expl @ rest = []" using chosen that by simp
  moreover have "candidate_account_ids_for_model r (Some model) = None" if "dflt = []" "expl @ rest = []"
    using that by (simp add: candidate_account_ids_for_model_def plan' Let_def)
  moreover have "candidate_account_ids_for_model r (Some model) =
      (if concat (map crp_account_ids segs) = [] then None else Some (concat (map crp_account_ids segs)))"
    if "\<not> (dflt = [] \<and> expl @ rest = [])"
  proof (rule candidates_without_prefixes [OF _ model])
    show "r_compiled_routing_plan r = Some \<lparr>plan_version_id = new_id, plan_published_at = now,
              plan_trigger_reason = Some ''in_memory_snapshot'',
              plan_default_route = dflt, plan_policies = expl @ rest\<rparr>" using that by (simp add: plan')
  qed (use no_prefix chosen in \<open>simp_all cong: option.case_cong\<close>)
  ultimately show ?thesis unfolding segs_def [symmetric] Let_def
    by (cases "dflt = [] \<and> expl @ rest = []") (auto simp del: concat_eq_Nil_conv)
qed

lemma compiled_profile_accounts:
  assumes "map_of (compile_profiles now accounts traits s) j = Some seg" "i \<in> set (crp_account_ids seg)"
  shows "\<exists>a profile. a \<in> set accounts \<and> ua_id a = i \<and> profile \<in> snd ` set (ps_routing_profiles s) \<and>
     rp_enabled profile \<and> profile_matches_account profile a traits \<and> not_blocked now traits i"
proof -
  from assms(1) have "(j, seg) \<in> set (compile_profiles now accounts traits s)" by (rule map_of_SomeD)
  then obtain profile where "profile \<in> snd ` set (ps_routing_profiles s)" "rp_enabled profile"
    "seg = compile_profile now accounts traits profile"
    using set_hm_collect_subset unfolding compile_profiles_def by fastforce
  with assms(2) show ?thesis by (auto simp: compile_profile_def)
qed


definition plan_traits :: "uuid \<Rightarrow> timestamp option \<Rightarrow> account_routing_traits" where
  "plan_traits i blocked = \<lparr>art_account_id = i, art_plan_type = None, art_auth_provider = Some LegacyBearer,
     art_supported_models = [''gpt-5''], art_health_freshness = None, art_last_probe_at = None,
     art_blocked_until = blocked, art_hard_block_reason = None\<rparr>"

definition plan_store :: pool_store where
  "plan_store =
     \<lparr>ps_accounts = [], ps_auth_providers = [], ps_credentials = [], ps_vault = [], ps_session_profiles = [],
      ps_health = [], ps_model_support = [], ps_rate_limit_caches = [],
      ps_routing_profiles = [(5, \<lparr>rp_id = 5, rp_name = ''p'', rp_description = None, rp_enabled = True,
        rp_priority = 0, rp_selector = \<lparr>rps_plan_types = [], rps_modes = [], rps_auth_providers = [],
          rps_include_account_ids = [], rps_exclude_account_ids = []\<rparr>, rp_created_at = 0, rp_updated_at = 0\<rparr>)],
      ps_model_routing_policies = [(6, \<lparr>mrp_id = 6, mrp_name = ''m'', mrp_family = ''f'', mrp_exact_models = [],
        mrp_model_prefixes = [''gpt''], mrp_fallback_profile_ids = [5], mrp_enabled = True, mrp_priority = 0,
        mrp_created_at = 0, mrp_updated_at = 0\<rparr>)],
      ps_event_runtime = False, ps_events = [], ps_revision = 1\<rparr>"


text \<open>
  A model that no account has reported and no policy lists by name is never caught by a prefix rule: the plan
  sends it along the default route, whatever prefixes the policies have.
\<close>

theorem unknown_model_ignores_prefixes:
  assumes "model \<notin> set (known_models traits policies)"
  shows "\<forall>p \<in> set policies. \<not> serves compiled (known_models traits policies) model p"
proof
  fix p assume "p \<in> set policies"
  then have "set (mrp_exact_models p) \<subseteq> set (known_models traits policies)" by (auto simp: known_models_def)
  with assms show "\<not> serves compiled (known_models traits policies) model p"
    by (auto simp: serves_def policy_models_def)
qed

end
