(* ===== verification/Pool_Snapshot.thy ===== *)
theory Pool_Snapshot
  imports Pool_Lifecycle Route_Plan_Props Snapshot_Props
begin

text \<open>
  The snapshot the data plane works with: which accounts of the pool it shows, and which token each of them
  carries.
\<close>

section \<open>Accounts in the snapshot\<close>

definition routable :: "timestamp \<Rightarrow> upstream_account_health_state_record \<Rightarrow> bool" where
  "routable now h \<longleftrightarrow>
     hs_pool_state h = PoolActive \<or>
     (hs_pool_state h = PoolQuarantine \<and> (case hs_quarantine_until h of Some t \<Rightarrow> t \<le> now | None \<Rightarrow> False))"

lemma state_record_routable:
  "hs_pool_state (fst (account_pool_state_record_inner now i s)) = PoolActive \<longleftrightarrow> routable now (health_of s i)"
  "routable now (health_of (snd (account_pool_state_record_inner now i s)) j) \<longleftrightarrow> routable now (health_of s j)"
  by (auto simp: account_pool_state_record_inner_def Let_def routable_def split: option.splits)

lemma retain_active_filter:
  "fst (retain_active now accounts s) = filter (\<lambda>a. routable now (health_of s (ua_id a))) accounts"
proof (induction accounts arbitrary: s)
  case (Cons a accounts)
  obtain h s1 where read: "account_pool_state_record_inner now (ua_id a) s = (h, s1)" by fastforce
  have "hs_pool_state h = PoolActive \<longleftrightarrow> routable now (health_of s (ua_id a))"
    "routable now (health_of s1 j) \<longleftrightarrow> routable now (health_of s j)" for j
    using state_record_routable [of now "ua_id a" s] read by simp_all
  with Cons.IH [of s1] read show ?case by (simp split: prod.split) fastforce
qed simp

text \<open>Removing expired one-time accounts a second time removes nothing.\<close>

lemma remove_one_time_health: "ps_health (fold remove_one_time_account ids s) = ps_health s"
  by (induction ids arbitrary: s) (simp_all add: remove_one_time_account_def)

lemma remove_one_time_profiles:
  "set (ps_session_profiles (fold remove_one_time_account ids s)) =
     {(i, p). (i, p) \<in> set (ps_session_profiles s) \<and> i \<notin> set ids}"
  by (induction ids arbitrary: s) (auto simp: remove_one_time_account_def AList.delete_eq)

lemma map_filter_empty: "List.map_filter f xs = [] \<longleftrightarrow> (\<forall>x \<in> set xs. f x = None)"
  by (induction xs) (auto simp: map_filter_simps split: option.split)

lemma purge_one_time_idem:
  "purge_expired_one_time_accounts_inner now (purge_expired_one_time_accounts_inner now s) =
   purge_expired_one_time_accounts_inner now s"
proof -
  let ?t = "now + seconds oauth_min_valid_sec"
  let ?ids = "expired_one_time_ids ?t s"
  have mem: "(i, p) \<in> set (ps_session_profiles s) \<Longrightarrow> sp_credential_kind p = OneTimeAccessToken \<Longrightarrow>
      sp_token_expires_at p = Some e \<Longrightarrow> e \<le> ?t \<Longrightarrow> i \<in> set ?ids" for i p e
    by (force simp: expired_one_time_ids_def set_map_filter)
  have "expired_one_time_ids ?t (bump_revision (fold remove_one_time_account ?ids s)) = []"
    unfolding expired_one_time_ids_def [of _ "bump_revision _"] map_filter_empty bump_frame
    by (auto simp: remove_one_time_profiles split: option.splits if_splits dest: mem)
  then show ?thesis by (simp add: purge_expired_one_time_accounts_inner_def Let_def)
qed

lemma health_of_purge_one_time: "health_of (purge_expired_one_time_accounts_inner now s) i = health_of s i"
  by (simp add: purge_expired_one_time_accounts_inner_def Let_def health_of_def remove_one_time_health)

lemma snapshot_accounts:
  "sn_accounts (fst (snapshot_inner d new_id now other s)) =
     (let s0 = purge_expired_one_time_accounts_inner now s
      in map (snapshot_account d now s0)
           (filter (\<lambda>a. routable now (health_of s (ua_id a))) (map snd (ps_accounts s0))))"
proof -
  let ?s0 = "purge_expired_one_time_accounts_inner now s"
  obtain active s2 where act: "retain_active now (map snd (ps_accounts ?s0)) ?s0 = (active, s2)" by fastforce
  with retain_active_filter [of now "map snd (ps_accounts ?s0)" ?s0] have
    "active = filter (\<lambda>a. routable now (health_of s (ua_id a))) (map snd (ps_accounts ?s0))"
    by (simp add: health_of_purge_one_time)
  with act show ?thesis
    by (simp add: snapshot_inner_def list_upstream_accounts_inner_def purge_one_time_idem Let_def)
qed

lemma snapshot_account_id [simp]: "ua_id (snapshot_account d now s a) = ua_id a"
  by (auto simp: snapshot_account_def disabled_without_token_def with_decrypted_def Let_def
      split: option.split sum.split)

lemma snapshot_ids_distinct:
  assumes "pool_inv s"
  shows "distinct (map ua_id (sn_accounts (fst (snapshot_inner d new_id now other s))))"
proof -
  let ?s0 = "purge_expired_one_time_accounts_inner now s"
  have inv: "pool_inv ?s0" using assms by (rule pool_inv_purge_one_time)
  have ids: "map ua_id (map snd (ps_accounts ?s0)) = map fst (ps_accounts ?s0)"
    using pool_inv_member_id [OF inv] by auto
  have "distinct (map ua_id (map snd (ps_accounts ?s0)))"
    unfolding ids using inv by (simp add: pool_inv_def tables_inv_def)
  then show ?thesis unfolding snapshot_accounts Let_def by (simp add: comp_def distinct_map_filter)
qed

lemma purge_one_time_kept:
  assumes "map_of (ps_accounts (purge_expired_one_time_accounts_inner now s)) i = Some a"
  shows "map_of (ps_accounts s) i = Some a"
    and "account_auth_provider (purge_expired_one_time_accounts_inner now s) i = account_auth_provider s i"
    and "map_of (ps_credentials (purge_expired_one_time_accounts_inner now s)) i = map_of (ps_credentials s) i"
    and "cache_of (purge_expired_one_time_accounts_inner now s) i = cache_of s i"
  using assms
  by (auto simp: purge_expired_one_time_accounts_inner_def Let_def all_one_time_rows cache_of_def
      account_auth_provider_def split: if_splits)

text \<open>The token and the switch of one OAuth account.\<close>

lemma effective_enabledD:
  assumes "credential_effective_enabled now s a c"
  shows "ua_enabled a" "terminal_invalid c \<Longrightarrow> usable_fallback now c"
    and "\<not> has_active_rate_limit_block now (rlc_expires_at (cache_of s (ua_id a)))
           (rlc_last_error_code (cache_of s (ua_id a))) (rlc_last_error (cache_of s (ua_id a)))"
  using assms
  by (auto simp: credential_effective_enabled_def oauth_effective_enabled_def Let_def terminal_invalid_def
      usable_fallback_def split: if_splits)

lemma snapshot_account_enabled:
  assumes "account_auth_provider s (ua_id a) = OAuthRefreshToken" "ua_enabled (snapshot_account d now s a)"
  shows "\<exists>c. map_of (ps_credentials s) (ua_id a) = Some c \<and> credential_effective_enabled now s a c \<and> pd_has_cipher d \<and>
     (pd_decrypt d (cr_access_token_enc c) = Inr (ua_bearer_token (snapshot_account d now s a)) \<or>
      usable_fallback now c \<and> decrypt_fallback d c = Inr (ua_bearer_token (snapshot_account d now s a)))"
proof (cases "map_of (ps_credentials s) (ua_id a)")
  case None
  with assms show ?thesis by (simp add: snapshot_account_def disabled_without_token_def)
next
  case (Some c)
  have "prefer_fallback now c \<Longrightarrow> usable_fallback now c"
    by (simp add: prefer_fallback_def should_use_access_token_fallback_for_runtime_def usable_fallback_def)
  with assms Some show ?thesis
    by (auto simp: snapshot_account_def Let_def disabled_without_token_def with_decrypted_def
        split: if_splits sum.splits)
qed

text \<open>
  What holds of an account that is served: it is stored, and routable at that moment. An account that is not
  OAuth is served as it is stored. An OAuth account that is enabled is enabled in the pool, not stopped by
  its rate limits, its refresh token is not known to be dead unless a fallback token still holds, and it
  carries the decrypted access token of its own credential, or its own fallback token while that is valid.
\<close>

definition served_ok :: "pool_deps \<Rightarrow> timestamp \<Rightarrow> pool_store \<Rightarrow> upstream_account \<Rightarrow> bool" where
  "served_ok d now s a \<longleftrightarrow>
     (\<exists>a0. map_of (ps_accounts s) (ua_id a) = Some a0 \<and> routable now (health_of s (ua_id a)) \<and>
     (account_auth_provider s (ua_id a) \<noteq> OAuthRefreshToken \<longrightarrow> a = a0) \<and>
     (account_auth_provider s (ua_id a) = OAuthRefreshToken \<longrightarrow> ua_enabled a \<longrightarrow>
        (\<exists>c. map_of (ps_credentials s) (ua_id a) = Some c \<and> ua_enabled a0 \<and>
           \<not> has_active_rate_limit_block now (rlc_expires_at (cache_of s (ua_id a)))
               (rlc_last_error_code (cache_of s (ua_id a))) (rlc_last_error (cache_of s (ua_id a))) \<and>
           (terminal_invalid c \<longrightarrow> usable_fallback now c) \<and>
           (pd_decrypt d (cr_access_token_enc c) = Inr (ua_bearer_token a) \<or>
            usable_fallback now c \<and> decrypt_fallback d c = Inr (ua_bearer_token a)))) \<and>
     (account_auth_provider s (ua_id a) = OAuthRefreshToken \<longrightarrow> \<not> pd_has_cipher d \<longrightarrow>
        \<not> ua_enabled a \<and> ua_bearer_token a = []))"

lemma snapshot_served_ok:
  assumes "pool_reachable d s" "a \<in> set (sn_accounts (fst (snapshot_inner d new_id now other s)))"
  shows "served_ok d now s a"
proof -
  let ?s0 = "purge_expired_one_time_accounts_inner now s"
  have inv: "pool_inv s" using assms(1) by (rule pool_inv_reachable)
  have inv0: "pool_inv ?s0" using inv by (rule pool_inv_purge_one_time)
  from assms(2) obtain a1 where a1: "a = snapshot_account d now ?s0 a1" "a1 \<in> set (map snd (ps_accounts ?s0))"
    "routable now (health_of s (ua_id a1))"
    unfolding snapshot_accounts Let_def by auto
  have id: "ua_id a = ua_id a1" by (simp add: a1(1))
  have stored0: "map_of (ps_accounts ?s0) (ua_id a1) = Some a1" using a1(2) accounts_by_id [OF inv0] by blast
  note kept = purge_one_time_kept [OF stored0]
  have oauth: "\<exists>c. map_of (ps_credentials s) (ua_id a) = Some c \<and> credential_effective_enabled now ?s0 a1 c \<and>
      (pd_decrypt d (cr_access_token_enc c) = Inr (ua_bearer_token a) \<or>
       usable_fallback now c \<and> decrypt_fallback d c = Inr (ua_bearer_token a))"
    if "account_auth_provider s (ua_id a) = OAuthRefreshToken" "ua_enabled a"
    using snapshot_account_enabled [of ?s0 a1 d now] that kept by (auto simp: id a1(1) [symmetric])
  have bare: "\<not> ua_enabled a \<and> ua_bearer_token a = []"
    if "account_auth_provider s (ua_id a1) = OAuthRefreshToken" "\<not> pd_has_cipher d"
    using that kept(2) unfolding a1(1) snapshot_account_def
    by (auto simp: disabled_without_token_def Let_def split: option.splits)
  have plain: "a = a1" if "account_auth_provider s (ua_id a1) \<noteq> OAuthRefreshToken"
    using that kept(2) unfolding a1(1) snapshot_account_def by simp
  have "(\<exists>c. map_of (ps_credentials s) (ua_id a1) = Some c \<and> ua_enabled a1 \<and>
           \<not> has_active_rate_limit_block now (rlc_expires_at (cache_of s (ua_id a1)))
               (rlc_last_error_code (cache_of s (ua_id a1))) (rlc_last_error (cache_of s (ua_id a1))) \<and>
           (terminal_invalid c \<longrightarrow> usable_fallback now c) \<and>
           (pd_decrypt d (cr_access_token_enc c) = Inr (ua_bearer_token a) \<or>
            usable_fallback now c \<and> decrypt_fallback d c = Inr (ua_bearer_token a)))"
    if "account_auth_provider s (ua_id a1) = OAuthRefreshToken" "ua_enabled a"
    using oauth that effective_enabledD [of now ?s0 a1] kept(4) unfolding id by auto
  with kept(1) a1(3) bare plain show ?thesis unfolding served_ok_def id by blast
qed

text \<open>
  C6. From the pool to the request: when the data plane has loaded a snapshot of the pool, every account its
  router picks, for any model, session and exclusions, is an enabled account of that snapshot that the pool
  has active at the moment of the snapshot, and carries a token of its own.
\<close>

theorem routed_account_served:
  assumes "pool_reachable d s" and snap: "snap = fst (snapshot_inner d new_id now other s)"
    and "snapshot_newer snap st" "router_reachable t0 (ac_router st)" "t0 \<le> t"
    and "fst (pick_for_model t model sticky_key excluded avoid (ac_router (apply_snapshot snap st))) = Some a"
  shows "a \<in> set (sn_accounts snap) \<and> ua_enabled a \<and> served_ok d now s a"
proof -
  have "router_reachable t (ac_router (apply_snapshot snap st))"
    using snapshot_ids_distinct [OF pool_inv_reachable [OF assms(1)], of d new_id now other] snap
    by (intro reach_tick [OF reachable_apply_snapshot [OF assms(4)] assms(5)]) simp
  from pick_for_model_available [OF reachable_inv [OF this] assms(6)]
  have found: "find_account (ua_id a) (ac_router (apply_snapshot snap st)) = Some a" "ua_enabled a"
    by (simp_all add: available_def)
  have "r_accounts (ac_router (apply_snapshot snap st)) = sn_accounts snap"
    using assms(3) by (auto simp: apply_snapshot_def snapshot_newer_def notify_route_updated_def
        replace_compiled_routing_plan_def replace_account_traits_def replace_accounts_def Let_def)
  with found(1) have "a \<in> set (sn_accounts snap)" by (auto simp: find_account_def find_Some_iff)
  with found(2) snapshot_served_ok [OF assms(1), of a new_id now other] snap show ?thesis by simp
qed

lemma snapshot_routable:
  assumes "a \<in> set (sn_accounts (fst (snapshot_inner d new_id now other s)))"
  shows "routable now (health_of s (ua_id a))"
  using assms unfolding snapshot_accounts Let_def by auto




text \<open>The snapshot of a pool with one good OAuth account, loaded by a data plane.\<close>

definition live_deps :: pool_deps where
  "live_deps = sample_deps\<lparr>pd_refresh_token := (\<lambda>t _ _.
     if t = 0 then Inr (sample_token\<lparr>ti_expires_at := 1000000000000\<rparr>) else Inl OAuthParse)\<rparr>"

definition live_pool :: pool_store where
  "live_pool = snd (import_oauth_refresh_token_inner live_deps 7 ''f'' 0
     (sample_import\<lparr>ir_fallback_access_token := Some ''ft''\<rparr>) (empty_pool True))"

lemma live_pool_reachable: "pool_reachable live_deps live_pool"
  unfolding live_pool_def by (rule pool_reachable.step [OF pool_reachable.start pool_step.import_token])

theorem routed_account_served_witness:
  "\<exists>a. fst (pick_for_model 20 None None {} False (ac_router (apply_snapshot
         (fst (snapshot_inner live_deps 1 5 (demo_snapshot 0 []) live_pool)) demo_state))) = Some a \<and>
       ua_id a = 7 \<and> ua_bearer_token a = ''at'' \<and> served_ok live_deps 5 live_pool a"
proof -
  let ?snap = "fst (snapshot_inner live_deps 1 5 (demo_snapshot 0 []) live_pool)"
  let ?pick = "fst (pick_for_model 20 None None {} False (ac_router (apply_snapshot ?snap demo_state)))"
  have picked: "?pick = Some (the ?pick)" "ua_id (the ?pick) = 7" "ua_bearer_token (the ?pick) = ''at''"
    by code_simp+
  have newer: "snapshot_newer ?snap demo_state" by code_simp
  have start: "router_reachable 0 (ac_router demo_state)" by (simp add: demo_state_def demo_router_reachable)
  from routed_account_served [OF live_pool_reachable refl newer start _ picked(1)]
  have "served_ok live_deps 5 live_pool (the ?pick)" by simp
  with picked show ?thesis by blast
qed

section \<open>Tokens that should not be served\<close>

text \<open>
  An account whose access token has expired stays enabled as long as it has a usable fallback token, but the
  fallback is preferred only when the refresh token is known to be dead: after a refresh that failed for
  another reason the snapshot serves the expired access token.
\<close>

theorem snapshot_serves_expired_token:
  assumes "account_auth_provider s (ua_id a) = OAuthRefreshToken" "map_of (ps_credentials s) (ua_id a) = Some c"
    and "ua_enabled a" "pd_has_cipher d" "pd_decrypt d (cr_access_token_enc c) = Inr token"
    and "cr_token_expires_at c \<le> now" "usable_fallback now c" "\<not> terminal_invalid c"
    and "\<not> has_active_rate_limit_block now (rlc_expires_at (cache_of s (ua_id a)))
           (rlc_last_error_code (cache_of s (ua_id a))) (rlc_last_error (cache_of s (ua_id a)))"
  shows "ua_enabled (snapshot_account d now s a) \<and> ua_bearer_token (snapshot_account d now s a) = token"
proof -
  have "\<not> prefer_fallback now c"
    using assms(8) by (simp add: prefer_fallback_def should_use_access_token_fallback_for_runtime_def terminal_invalid_def)
  moreover have "credential_effective_enabled now s a c"
    using assms by (auto simp: credential_effective_enabled_def oauth_effective_enabled_def Let_def
        usable_fallback_def terminal_invalid_def)
  ultimately show ?thesis using assms by (simp add: snapshot_account_def Let_def)
qed

text \<open>
  The status view judges an account with a clock that is already advanced by the guard of one minute, which
  the judgement then adds again: an account whose token expires between one and two minutes from now is
  enabled in the snapshot and disabled in the status view.
\<close>

theorem status_disagrees_with_snapshot:
  assumes "account_auth_provider s (ua_id a) = OAuthRefreshToken" "map_of (ps_credentials s) (ua_id a) = Some c"
    and "ua_enabled a" "\<not> has_access_token_fallback c" "\<not> terminal_invalid c"
    and "now + seconds 60 < cr_token_expires_at c" "cr_token_expires_at c \<le> now + seconds 120"
    and "\<not> has_active_rate_limit_block now (rlc_expires_at (cache_of s (ua_id a)))
           (rlc_last_error_code (cache_of s (ua_id a))) (rlc_last_error (cache_of s (ua_id a)))"
  shows "credential_effective_enabled now s a c \<and>
     \<not> os_effective_enabled (fst (oauth_status_from a OAuthRefreshToken (Some c) p now s))"
proof
  show "credential_effective_enabled now s a c"
    using assms by (auto simp: credential_effective_enabled_def oauth_effective_enabled_def Let_def
        terminal_invalid_def oauth_min_valid_sec_def)
  have "\<not> now + seconds 60 + seconds 60 < cr_token_expires_at c"
    using assms(7) by (simp add: seconds_def)
  then show "\<not> os_effective_enabled (fst (oauth_status_from a OAuthRefreshToken (Some c) p now s))"
    using assms(4)
    by (simp add: oauth_status_from_def oauth_effective_enabled_def Let_def has_usable_access_token_fallback_def
        oauth_min_valid_sec_def split: prod.split)
qed

section \<open>Re-importing an account that is to be deleted\<close>

text \<open>
  An upsert of a refresh token that belongs to a stored account renews its credential and switches it on, but
  leaves its pool state: the account stays invisible to the data plane and is deleted when its time comes.
\<close>

definition rescued_pool :: pool_store where
  "rescued_pool = snd (upsert_oauth_refresh_token_inner live_deps 9 ''g'' 0 sample_import
     (snd (mark_upstream_account_pending_purge_inner live_deps 7 None 0 live_pool)))"

theorem upsert_leaves_pending_purge:
  "fst (upsert_oauth_refresh_token_inner live_deps 9 ''g'' 0 sample_import
     (snd (mark_upstream_account_pending_purge_inner live_deps 7 None 0 live_pool))) =
     Inr (the (map_of (ps_accounts rescued_pool) 7), False) \<and>
   ua_enabled (the (map_of (ps_accounts rescued_pool) 7)) \<and>
   sn_accounts (fst (snapshot_inner live_deps 1 5 (demo_snapshot 0 []) rescued_pool)) = [] \<and>
   map_of (ps_accounts (snd (purge_pending_upstream_accounts_inner live_deps 1000000000000000 rescued_pool))) 7 = None"
  by (intro conjI) code_simp+

end
