(* ===== verification/Pool_Bounds.thy ===== *)
theory Pool_Bounds
  imports Pool_Lifecycle
begin

text \<open>
  Limits of the background work: how many accounts an activation pass may add, and when the refresh loop
  comes to an end.
\<close>

section \<open>Activation stays within the cap\<close>

definition account_count :: "pool_store \<Rightarrow> nat" where
  "account_count s = length (ps_accounts s)"

lemma length_update_le: "length (AList.update k v m) \<le> Suc (length m)"
  by (induction m) auto

lemma length_delete_le: "length (AList.delete k m) \<le> length m"
  by (simp add: AList.delete_eq)

lemma count_frame [simp]:
  "account_count (bump_revision s) = account_count s"
  "account_count (update_health i f s) = account_count s"
  "account_count (upsert_oauth_credential i c s) = account_count s"
  "account_count (upsert_session_profile i p s) = account_count s"
  "account_count (s\<lparr>ps_vault := v\<rparr>) = account_count s"
  "account_count (s\<lparr>ps_rate_limit_caches := cs\<rparr>) = account_count s"
  "account_count (emit_account_pool_state_transition_inner now i f' t rc na src m s) = account_count s"
  "account_count (update_vault i g s) = account_count s"
  by (simp_all add: account_count_def update_vault_def split: option.split)

lemma count_active [simp]: "account_count (set_account_pool_state_active_inner i at_time now s) = account_count s"
  by (simp add: set_account_pool_state_active_inner_def Let_def)

lemma count_cache_success [simp]:
  "account_count (persist_rate_limit_cache_success_inner d i limits at_time plan s) = account_count s"
  by (simp add: persist_rate_limit_cache_success_inner_def Let_def split: prod.split option.split)

lemma count_admission [simp]: "account_count (probe_oauth_vault_admission_inner d i now s) = account_count s"
  by (simp add: probe_oauth_vault_admission_inner_def update_oauth_vault_admission_result_def split: option.split)

lemma count_probe_result [simp]: "account_count (record_account_probe_result_inner i at_time out s) = account_count s"
  by (simp add: record_account_probe_result_inner_def)

lemma count_activation_failed [simp]:
  "account_count (mark_oauth_vault_activation_failed_inner i st ec em now s) = account_count s"
  by (simp add: mark_oauth_vault_activation_failed_inner_def)

lemma count_insert: "account_count (s\<lparr>ps_accounts := hm_insert i a (ps_accounts s), ps_auth_providers := ps\<rparr>) \<le> Suc (account_count s)"
  "account_count (s\<lparr>ps_accounts := hm_insert i a (ps_accounts s)\<rparr>) \<le> Suc (account_count s)"
  by (simp_all add: account_count_def length_update_le)

lemma count_dedupe: "account_count (snd (dedupe_oauth_accounts_by_identity_inner u v w s)) \<le> account_count s"
proof -
  have "account_count (fold remove_duplicate_account ids s) \<le> account_count s" for ids s
  proof (induction ids arbitrary: s)
    case (Cons i ids)
    have "account_count (remove_duplicate_account i s) \<le> account_count s"
      by (simp add: account_count_def remove_duplicate_account_def length_delete_le)
    with Cons [of "remove_duplicate_account i s"] show ?case by simp
  qed simp
  then show ?thesis by (simp add: dedupe_oauth_accounts_by_identity_inner_def Let_def)
qed

lemma count_purge_one_time: "account_count (purge_expired_one_time_accounts_inner now s) \<le> account_count s"
proof -
  have "account_count (fold remove_one_time_account ids s) \<le> account_count s" for ids s
  proof (induction ids arbitrary: s)
    case (Cons i ids)
    have "account_count (remove_one_time_account i s) \<le> account_count s"
      by (simp add: account_count_def remove_one_time_account_def length_delete_le)
    with Cons [of "remove_one_time_account i s"] show ?case by simp
  qed simp
  then show ?thesis by (simp add: purge_expired_one_time_accounts_inner_def Let_def)
qed

lemma count_and_then:
  "account_count (snd r) \<le> n \<Longrightarrow> (\<And>x s. account_count s \<le> n \<Longrightarrow> account_count (snd (f x s)) \<le> n) \<Longrightarrow>
   account_count (snd (and_then r f)) \<le> n"
  by (auto simp: and_then_def split: prod.splits sum.splits)

lemma count_import:
  "account_count (snd (import_oauth_refresh_token_with_token_info_inner d i fam now req m url ti s)) \<le> Suc (account_count s)"
  using count_insert
  by (auto simp: import_oauth_refresh_token_with_token_info_inner_def Let_def split: sum.split)

lemma count_upsert: "account_count (snd (upsert_oauth_refresh_token_inner d i fam now req s)) \<le> Suc (account_count s)"
proof -
  have dedupe: "account_count s' \<le> n \<Longrightarrow> account_count (snd (dedupe_oauth_accounts_by_identity_inner u v w s')) \<le> n"
    for s' n u v w using count_dedupe order_trans by blast
  show ?thesis
    unfolding upsert_oauth_refresh_token_inner_def Let_def
    by (auto split: sum.split option.split intro!: count_and_then count_import dedupe count_insert)
qed

lemma count_materialize:
  "account_count (snd (materialize_ready_oauth_vault_record_inner d i item now s)) \<le> Suc (account_count s)"
proof -
  have "account_count (snd (install_ready_account i item c t now matched s)) \<le> Suc (account_count s)" for c t matched
    unfolding install_ready_account_def Let_def by (auto split: option.split intro: count_insert)
  then show ?thesis
    unfolding materialize_ready_oauth_vault_record_inner_def Let_def
    by (auto split: option.split sum.split intro!: count_and_then)
qed

lemma count_settle [simp]: "account_count (snd (settle_activation v now r)) = account_count (snd r)"
  by (auto simp: settle_activation_def Let_def split: prod.split sum.split)

lemma count_activate_candidate:
  "account_count (snd (activate_candidate d i fam v now s)) \<le> Suc (account_count s)"
proof -
  have "account_count (snd (activate_by_refresh d i fam v now s)) \<le> Suc (account_count s)"
    unfolding activate_by_refresh_def
    by (auto split: sum.split option.split intro!: count_and_then count_upsert)
  moreover have "account_count (snd (materialize_ready_oauth_vault_record_inner d i item now
      (probe_oauth_vault_admission_inner d j now s))) \<le> Suc (account_count s)" for item j
    using count_materialize [of d i item now "probe_oauth_vault_admission_inner d j now s"] by simp
  ultimately show ?thesis
    unfolding activate_candidate_def Let_def by (auto split: oauth_vault_record_status.split option.split)
qed

lemma count_activate_candidates:
  "account_count (snd (activate_candidates d ids fams clock k vs n s)) \<le> account_count s + length vs \<and>
   (case fst (activate_candidates d ids fams clock k vs n s) of Inr m \<Rightarrow> m \<le> n + length vs | Inl _ \<Rightarrow> True)"
proof (induction vs arbitrary: k n s)
  case (Cons v vs)
  obtain r s1 where run: "activate_candidate d (ids k) (fams k) v (clock k) s = (r, s1)" by fastforce
  with count_activate_candidate [of d "ids k" "fams k" v "clock k" s] have "account_count s1 \<le> Suc (account_count s)"
    by simp
  then show ?case
    using Cons.IH [of "k + 1" "n + 1" s1] Cons.IH [of "k + 1" n s1]
    by (cases r) (auto simp: run split: sum.splits)
qed simp


section \<open>Retries of a vault record\<close>

definition fail_repeatedly ::
  "uuid \<Rightarrow> oauth_vault_record_status \<Rightarrow> string \<Rightarrow> string \<Rightarrow> timestamp list \<Rightarrow> pool_store \<Rightarrow> pool_store" where
  "fail_repeatedly i status code message ts s =
     fold (\<lambda>t. mark_oauth_vault_activation_failed_inner i status code message t) ts s"

definition may_retry :: "string \<Rightarrow> nat \<Rightarrow> bool" where
  "may_retry code failures \<longleftrightarrow>
     normalize_health_error_code code \<noteq> ''credential_cipher_missing'' \<and>
     normalize_health_error_code code \<noteq> ''credential_decrypt_failed'' \<and>
     (is_fatal_refresh_error_code (Some code) \<longrightarrow> failures < 3)"

lemma fail_repeatedly_record:
  assumes "map_of (ps_vault s) i = Some item" "va_failure_count item = 0" "length ts < 4294967295" "ts \<noteq> []"
  shows "\<exists>item'. map_of (ps_vault (fail_repeatedly i status code message ts s)) i = Some item' \<and>
     va_failure_count item' = length ts \<and>
     va_status item' = (if may_retry code (length ts)
                        then oauth_vault_activation_fallback_status status else VaultFailed) \<and>
     va_retryable item' = may_retry code (length ts) \<and>
     va_backoff_until item' = va_next_attempt_at item' \<and>
     va_next_attempt_at item' = (if may_retry code (length ts)
       then Some (last ts + vault_activation_backoff (length ts)) else None)"
proof -
  let ?run = "\<lambda>ts. fail_repeatedly i status code message ts s"
  have step: "\<exists>item'. map_of (ps_vault (?run (us @ [t]))) i = Some item' \<and>
      item' = fail_activation t status code message x"
    if "map_of (ps_vault (?run us)) i = Some x" for us t x
    using that by (simp add: fail_repeatedly_def mark_oauth_vault_activation_failed_inner_def update_vault_def hm_maps)
  have count: "\<exists>x. map_of (ps_vault (?run us)) i = Some x \<and> va_failure_count x = length us"
    if "length us < 4294967295" for us
    using that
  proof (induction us rule: rev_induct)
    case Nil
    then show ?case using assms(1,2) by (simp add: fail_repeatedly_def)
  next
    case (snoc t us)
    then obtain x where "map_of (ps_vault (?run us)) i = Some x" "va_failure_count x = length us" by auto
    with step [of us x t] snoc.prems show ?case
      by (auto simp: fail_activation_def Let_def sat_succ_u32_def)
  qed
  obtain us t where ts: "ts = us @ [t]" using assms(4) by (metis append_butlast_last_id)
  obtain x where x: "map_of (ps_vault (?run us)) i = Some x" "va_failure_count x = length us"
    using count [of us] assms(3) ts by auto
  have "sat_succ_u32 (length us) = length ts" using assms(3) ts by (simp add: sat_succ_u32_def)
  with step [OF x(1), of t] x(2) show ?thesis
    unfolding ts [symmetric]
    by (auto simp: fail_activation_def Let_def may_retry_def can_retry_fatal_activation_failure_def
        oauth_vault_terminal_auth_retry_limit_def ts)
qed

text \<open>
  A vault record whose activation keeps failing with an error that says its refresh token is dead is tried
  three times: after one or two failures it is due again when its backoff is over, from the third on it is
  marked as failed and no later pass takes it up.
\<close>

theorem activation_retry_budget:
  assumes "map_of (ps_vault s) i = Some item" "va_failure_count item = 0" "length ts < 4294967295" "ts \<noteq> []"
    and "is_fatal_refresh_error_code (Some code)" "status \<in> {VaultReady, VaultNeedsRefresh, VaultQueued}"
  shows "\<exists>item'. map_of (ps_vault (fail_repeatedly i status code message ts s)) i = Some item' \<and>
     (if length ts < 3
      then va_retryable item' \<and> (\<forall>now. activation_due now item' \<longleftrightarrow> last ts + vault_activation_backoff (length ts) \<le> now)
      else va_status item' = VaultFailed \<and> \<not> va_retryable item' \<and> (\<forall>now. \<not> activation_due now item'))"
proof -
  have "may_retry code n \<longleftrightarrow> n < 3" for n
    using assms(5) by (auto simp: may_retry_def is_fatal_refresh_error_code_def)
  with fail_repeatedly_record [OF assms(1-4), of status code message] assms(6) show ?thesis
    by (auto simp: activation_due_def)
qed

text \<open>
  An error that is neither a dead token nor one of the two configuration errors never ends the attempts. The
  code a record gets when its refresh token cannot be decrypted is one of these.
\<close>

theorem undecryptable_record_retried_forever:
  assumes "map_of (ps_vault s) i = Some item" "va_failure_count item = 0" "length ts < 4294967295" "ts \<noteq> []"
    and "status \<in> {VaultReady, VaultNeedsRefresh, VaultQueued}"
  shows "\<exists>item'. map_of (ps_vault (fail_repeatedly i status ''vault_decrypt_failed'' message ts s)) i = Some item' \<and>
     activation_due (last ts + vault_activation_backoff (length ts)) item'"
proof -
  have "may_retry ''vault_decrypt_failed'' n" for n
  proof -
    have "\<not> is_fatal_refresh_error_code (Some ''vault_decrypt_failed'')"
      "normalize_health_error_code ''vault_decrypt_failed'' = ''vault_decrypt_failed''" by code_simp+
    then show ?thesis by (simp add: may_retry_def)
  qed
  with fail_repeatedly_record [OF assms(1-4), of status "''vault_decrypt_failed''" message] assms(5) show ?thesis
    by (auto simp: activation_due_def)
qed

section \<open>The refresh loop\<close>

text \<open>
  A pass that selects a full batch and changes nothing is repeated forever. This is what happens with as many
  accounts as a batch holds whose refresh token is dead and that live on their fallback token: they are
  selected because their access token is old, and the refresh returns without touching them.
\<close>

lemma refresh_loop_stuck:
  assumes "\<And>k. select_expiring (clock k) n (ps_accounts s) s = (ids, s)"
    "\<And>k. refresh_batch d (fam k) (clock k) ids s = s" "ids \<noteq> []" "n \<le> length ids"
  shows "refresh_expiring_loop d clock fam n k s = None"
proof (rule ccontr)
  assume "refresh_expiring_loop d clock fam n k s \<noteq> None"
  then obtain s' where s': "refresh_expiring_loop d clock fam n k s = Some s'" by blast
  define stuck where "stuck = (\<lambda>d' clock' fam' n' s1. d' = d \<and> clock' = clock \<and> fam' = fam \<and> n' = n \<and> s1 = s)"
  have "\<not> stuck d clock fam n s"
  proof (rule refresh_expiring_loop.raw_induct [OF _ s', of "\<lambda>d clock fam n k s s'. \<not> stuck d clock fam n s"])
    fix loop :: "_ \<Rightarrow> _ \<Rightarrow> _ \<Rightarrow> _ \<Rightarrow> _ \<Rightarrow> _ \<Rightarrow> pool_store option" and d' clock' fam' n' k s1 s'
    assume IH: "\<And>d clock fam n k s s'. loop d clock fam n k s = Some s' \<Longrightarrow> \<not> stuck d clock fam n s"
      and run: "(let sel = select_expiring (clock' k) n' (ps_accounts s1) s1
        in if fst sel = [] then Some (snd sel)
           else let s2 = refresh_batch d' (fam' k) (clock' k) (fst sel) (snd sel)
                in if length (fst sel) < n' then Some s2 else loop d' clock' fam' n' (k + 1) s2) = Some s'"
    show "\<not> stuck d' clock' fam' n' s1"
    proof
      assume st: "stuck d' clock' fam' n' s1"
      then have "loop d' clock' fam' n' (k + 1) s1 = Some s'"
        using run assms by (simp add: stuck_def Let_def)
      from IH [OF this] st show False by simp
    qed
  qed
  then show False by (simp add: stuck_def)
qed

definition stuck_deps :: pool_deps where
  "stuck_deps = sample_deps\<lparr>
     pd_env := (\<lambda>name. if name = ''CONTROL_PLANE_OAUTH_REFRESH_BATCH_SIZE'' then Some ''1'' else None),
     pd_refresh_token := (\<lambda>t _ _. if t = 0 then Inr sample_token
       else Inl (InvalidRefreshToken InvalidRefreshTokenCode ''dead''))\<rparr>"

definition stuck_pool :: pool_store where
  "stuck_pool = snd (refresh_oauth_account_inner stuck_deps 7 True ''g'' 5
     (snd (import_oauth_refresh_token_inner stuck_deps 7 ''f'' 0
       (sample_import\<lparr>ir_fallback_access_token := Some ''ft''\<rparr>) (empty_pool True))))"

theorem refresh_expiring_diverges:
  "pool_reachable stuck_deps stuck_pool \<and>
   refresh_expiring_oauth_accounts_inner stuck_deps (\<lambda>_. 1000000000000) (\<lambda>_ _. ''h'') stuck_pool = None"
proof
  show "pool_reachable stuck_deps stuck_pool"
    unfolding stuck_pool_def
    by (rule pool_reachable.step [OF pool_reachable.step [OF pool_reachable.start pool_step.import_token] pool_step.refresh])
  let ?now = "1000000000000"
  have "purge_expired_one_time_accounts_inner ?now stuck_pool = stuck_pool" by code_simp
  moreover have "select_expiring ?now 1 (ps_accounts stuck_pool) stuck_pool = ([7], stuck_pool)" by code_simp
  moreover have "refresh_batch stuck_deps (\<lambda>_. ''h'') ?now [7] stuck_pool = stuck_pool" by code_simp
  moreover have "oauth_refresh_batch_size_from_env (pd_env stuck_deps) = 1" by code_simp
  ultimately show "refresh_expiring_oauth_accounts_inner stuck_deps (\<lambda>_. ?now) (\<lambda>_ _. ''h'') stuck_pool = None"
    unfolding refresh_expiring_oauth_accounts_inner_def by (simp add: refresh_loop_stuck [where ids = "[7]"])
qed

text \<open>The retry budget at work on a concrete record.\<close>

definition queued_pool :: pool_store where
  "queued_pool = snd (queue_oauth_refresh_token_inner sample_deps 3 0 sample_import (empty_pool True))"

theorem activation_retry_budget_witness:
  "\<exists>item'. map_of (ps_vault (fail_repeatedly 3 VaultQueued ''refresh_token_revoked'' [] [1, 2, 3] queued_pool)) 3 = Some item' \<and>
     va_status item' = VaultFailed \<and> \<not> va_retryable item'"
proof -
  let ?item = "the (map_of (ps_vault queued_pool) 3)"
  have "map_of (ps_vault queued_pool) 3 = Some ?item" "va_failure_count ?item = 0" by code_simp+
  moreover have "is_fatal_refresh_error_code (Some ''refresh_token_revoked'')" by code_simp
  ultimately show ?thesis
    using activation_retry_budget [of queued_pool 3 ?item "[1, 2, 3]" "''refresh_token_revoked''" VaultQueued "[]"]
    by auto
qed

end
