(* ===== verification/Builtin_Templates.thy ===== *)
theory Builtin_Templates
  imports Core_Model "HOL-Library.List_Lexorder" "HOL-Library.Char_ord"
begin

text \<open>
  The error texts the gateway ships with (\<^verbatim>\<open>crates/codex-pool-core/src/model.rs\<close>) and the texts an
  administrator puts in their place (\<^verbatim>\<open>merge_localized_error_templates\<close> and
  \<^verbatim>\<open>list_builtin_error_templates_inner\<close> of the control plane's store). Strings are UTF-8: a text that is
  not ASCII is written as its bytes.
\<close>

section \<open>Kinds in order\<close>

text \<open>\<^verbatim>\<open>derive(PartialOrd, Ord)\<close>: the order of the constructors.\<close>

fun template_kind_rank :: "builtin_error_template_kind \<Rightarrow> nat" where
  "template_kind_rank GatewayError = 0"
| "template_kind_rank HeuristicUpstream = 1"

lemma template_kind_rank_inj: "template_kind_rank k = template_kind_rank l \<longleftrightarrow> k = l"
  by (cases k; cases l) simp_all

instantiation builtin_error_template_kind :: linorder
begin

definition less_eq_builtin_error_template_kind ::
  "builtin_error_template_kind \<Rightarrow> builtin_error_template_kind \<Rightarrow> bool" where
  "less_eq_builtin_error_template_kind k l \<longleftrightarrow> template_kind_rank k \<le> template_kind_rank l"

definition less_builtin_error_template_kind ::
  "builtin_error_template_kind \<Rightarrow> builtin_error_template_kind \<Rightarrow> bool" where
  "less_builtin_error_template_kind k l \<longleftrightarrow> template_kind_rank k < template_kind_rank l"

instance
  by standard (auto simp: less_eq_builtin_error_template_kind_def less_builtin_error_template_kind_def
      template_kind_rank_inj)

end

section \<open>The shipped texts\<close>

definition utf8 :: "nat list \<Rightarrow> string" where
  "utf8 bytes = map char_of bytes"

definition localized_templates ::
  "string \<Rightarrow> string \<Rightarrow> string \<Rightarrow> string \<Rightarrow> string \<Rightarrow> localized_error_templates" where
  "localized_templates en zh_cn zh_tw ja ru =
     \<lparr>let_en = Some en, let_zh_cn = Some zh_cn, let_zh_tw = Some zh_tw, let_ja = Some ja, let_ru = Some ru\<rparr>"

definition builtin_template_record ::
  "builtin_error_template_kind \<Rightarrow> string \<Rightarrow> localized_error_templates \<Rightarrow> upstream_error_action option \<Rightarrow>
   upstream_error_retry_scope option \<Rightarrow> builtin_error_template_record" where
  "builtin_template_record kind code templates action retry_scope =
     \<lparr>bet_kind = kind, bet_code = code, bet_templates = templates, bet_default_templates = templates,
      bet_action = action, bet_retry_scope = retry_scope, bet_is_overridden = False, bet_updated_at = None\<rparr>"

abbreviation template_key :: "builtin_error_template_record \<Rightarrow> builtin_error_template_kind \<times> string" where
  "template_key t \<equiv> (bet_kind t, bet_code t)"

definition shipped_templates :: "builtin_error_template_record list" where
  "shipped_templates =
    [ builtin_template_record GatewayError ''invalid_request_body''
        (localized_templates ''Could not parse the request body.''
        (utf8 [232, 175, 183, 230, 177, 130, 228, 189, 147, 232, 167, 163, 230, 158, 144, 229, 164,
           177, 232, 180, 165, 227, 128, 130])
        (utf8 [232, 171, 139, 230, 177, 130, 233, 171, 148, 232, 167, 163, 230, 158, 144, 229, 164,
           177, 230, 149, 151, 227, 128, 130])
        (utf8 [227, 131, 170, 227, 130, 175, 227, 130, 168, 227, 130, 185, 227, 131, 136, 230, 156,
           172, 230, 150, 135, 227, 130, 146, 232, 167, 163, 230, 158, 144, 227, 129, 167, 227, 129,
           141, 227, 129, 190, 227, 129, 155, 227, 130, 147, 227, 129, 167, 227, 129, 151, 227, 129,
           159, 227, 128, 130])
        (utf8 [208, 157, 208, 181, 32, 209, 131, 208, 180, 208, 176, 208, 187, 208, 190, 209, 129,
           209, 140, 32, 209, 128, 208, 176, 208, 183, 208, 190, 208, 177, 209, 128, 208, 176, 209,
           130, 209, 140, 32, 209, 130, 208, 181, 208, 187, 208, 190, 32, 208, 183, 208, 176, 208,
           191, 209, 128, 208, 190, 209, 129, 208, 176, 46]))
        None None,
      builtin_template_record GatewayError ''invalid_request_rate_limited''
        (localized_templates ''Too many invalid requests. Please retry later.''
        (utf8 [230, 151, 160, 230, 149, 136, 232, 175, 183, 230, 177, 130, 232, 191, 135, 229, 164,
           154, 239, 188, 140, 232, 175, 183, 231, 168, 141, 229, 144, 142, 229, 134, 141, 232, 175,
           149, 227, 128, 130])
        (utf8 [231, 132, 161, 230, 149, 136, 232, 171, 139, 230, 177, 130, 233, 129, 142, 229, 164,
           154, 239, 188, 140, 232, 171, 139, 231, 168, 141, 229, 190, 140, 229, 134, 141, 232, 169,
           166, 227, 128, 130])
        (utf8 [231, 132, 161, 229, 138, 185, 227, 129, 170, 227, 131, 170, 227, 130, 175, 227, 130,
           168, 227, 130, 185, 227, 131, 136, 227, 129, 140, 229, 164, 154, 227, 129, 153, 227, 129,
           142, 227, 129, 190, 227, 129, 153, 227, 128, 130, 227, 129, 151, 227, 129, 176, 227, 130,
           137, 227, 129, 143, 227, 129, 151, 227, 129, 166, 227, 129, 139, 227, 130, 137, 229, 134,
           141, 232, 169, 166, 232, 161, 140, 227, 129, 151, 227, 129, 166, 227, 129, 143, 227, 129,
           160, 227, 129, 149, 227, 129, 132, 227, 128, 130])
        (utf8 [208, 161, 208, 187, 208, 184, 209, 136, 208, 186, 208, 190, 208, 188, 32, 208, 188,
           208, 189, 208, 190, 208, 179, 208, 190, 32, 208, 189, 208, 181, 208, 186, 208, 190, 209,
           128, 209, 128, 208, 181, 208, 186, 209, 130, 208, 189, 209, 139, 209, 133, 32, 208, 183,
           208, 176, 208, 191, 209, 128, 208, 190, 209, 129, 208, 190, 208, 178, 44, 32, 208, 191,
           208, 190, 208, 191, 209, 128, 208, 190, 208, 177, 209, 131, 208, 185, 209, 130, 208, 181,
           32, 208, 191, 208, 190, 208, 183, 208, 182, 208, 181, 46]))
        None None,
      builtin_template_record GatewayError ''invalid_upstream_url''
        (localized_templates ''The upstream URL is invalid.''
        (utf8 [228, 184, 138, 230, 184, 184, 229, 156, 176, 229, 157, 128, 230, 151, 160, 230, 149,
           136, 227, 128, 130])
        (utf8 [228, 184, 138, 230, 184, 184, 228, 189, 141, 229, 157, 128, 231, 132, 161, 230, 149,
           136, 227, 128, 130])
        (utf8 [228, 184, 138, 230, 181, 129, 32, 85, 82, 76, 32, 227, 129, 140, 231, 132, 161, 229,
           138, 185, 227, 129, 167, 227, 129, 153, 227, 128, 130])
        (utf8 [208, 157, 208, 181, 208, 186, 208, 190, 209, 128, 209, 128, 208, 181, 208, 186, 209,
           130, 208, 189, 209, 139, 208, 185, 32, 117, 112, 115, 116, 114, 101, 97, 109, 32, 85, 82,
           76, 46]))
        None None,
      builtin_template_record GatewayError ''invalid_websocket_upgrade''
        (localized_templates ''Invalid WebSocket upgrade request.''
        (utf8 [230, 151, 160, 230, 149, 136, 231, 154, 132, 32, 87, 101, 98, 83, 111, 99, 107, 101,
           116, 32, 229, 141, 135, 231, 186, 167, 232, 175, 183, 230, 177, 130, 227, 128, 130])
        (utf8 [231, 132, 161, 230, 149, 136, 231, 154, 132, 32, 87, 101, 98, 83, 111, 99, 107, 101,
           116, 32, 229, 141, 135, 231, 180, 154, 232, 171, 139, 230, 177, 130, 227, 128, 130])
        (utf8 [231, 132, 161, 229, 138, 185, 227, 129, 170, 32, 87, 101, 98, 83, 111, 99, 107, 101,
           116, 32, 227, 130, 162, 227, 131, 131, 227, 131, 151, 227, 130, 176, 227, 131, 172, 227,
           131, 188, 227, 131, 137, 232, 166, 129, 230, 177, 130, 227, 129, 167, 227, 129, 153, 227,
           128, 130])
        (utf8 [208, 157, 208, 181, 208, 186, 208, 190, 209, 128, 209, 128, 208, 181, 208, 186, 209,
           130, 208, 189, 209, 139, 208, 185, 32, 208, 183, 208, 176, 208, 191, 209, 128, 208, 190,
           209, 129, 32, 208, 189, 208, 176, 32, 208, 190, 208, 177, 208, 189, 208, 190, 208, 178,
           208, 187, 208, 181, 208, 189, 208, 184, 208, 181, 32, 87, 101, 98, 83, 111, 99, 107, 101,
           116, 46]))
        None None,
      builtin_template_record GatewayError ''no_upstream_account''
        (localized_templates ''No upstream accounts are currently available.''
        (utf8 [229, 189, 147, 229, 137, 141, 230, 178, 161, 230, 156, 137, 229, 143, 175, 231, 148,
           168, 231, 154, 132, 228, 184, 138, 230, 184, 184, 232, 180, 166, 229, 143, 183, 227, 128,
           130])
        (utf8 [231, 155, 174, 229, 137, 141, 230, 178, 146, 230, 156, 137, 229, 143, 175, 231, 148,
           168, 231, 154, 132, 228, 184, 138, 230, 184, 184, 229, 184, 179, 232, 153, 159, 227, 128,
           130])
        (utf8 [229, 136, 169, 231, 148, 168, 229, 143, 175, 232, 131, 189, 227, 129, 170, 228, 184,
           138, 230, 181, 129, 227, 130, 162, 227, 130, 171, 227, 130, 166, 227, 131, 179, 227, 131,
           136, 227, 129, 140, 227, 129, 130, 227, 130, 138, 227, 129, 190, 227, 129, 155, 227, 130,
           147, 227, 128, 130])
        (utf8 [208, 161, 208, 181, 208, 185, 209, 135, 208, 176, 209, 129, 32, 208, 189, 208, 181,
           209, 130, 32, 208, 180, 208, 190, 209, 129, 209, 130, 209, 131, 208, 191, 208, 189, 209,
           139, 209, 133, 32, 117, 112, 115, 116, 114, 101, 97, 109, 45, 208, 176, 208, 186, 208,
           186, 208, 176, 209, 131, 208, 189, 209, 130, 208, 190, 208, 178, 46]))
        None None,
      builtin_template_record GatewayError ''payload_too_large''
        (localized_templates ''The request body exceeds the server limit.''
        (utf8 [232, 175, 183, 230, 177, 130, 228, 189, 147, 232, 182, 133, 232, 191, 135, 228, 186,
           134, 230, 156, 141, 229, 138, 161, 231, 171, 175, 233, 153, 144, 229, 136, 182, 227, 128,
           130])
        (utf8 [232, 171, 139, 230, 177, 130, 233, 171, 148, 232, 182, 133, 233, 129, 142, 228, 186,
           134, 228, 188, 186, 230, 156, 141, 229, 153, 168, 233, 153, 144, 229, 136, 182, 227, 128,
           130])
        (utf8 [227, 131, 170, 227, 130, 175, 227, 130, 168, 227, 130, 185, 227, 131, 136, 230, 156,
           172, 230, 150, 135, 227, 129, 140, 227, 130, 181, 227, 131, 188, 227, 131, 144, 227, 131,
           188, 229, 136, 182, 233, 153, 144, 227, 130, 146, 232, 182, 133, 227, 129, 136, 227, 129,
           166, 227, 129, 132, 227, 129, 190, 227, 129, 153, 227, 128, 130])
        (utf8 [208, 162, 208, 181, 208, 187, 208, 190, 32, 208, 183, 208, 176, 208, 191, 209, 128,
           208, 190, 209, 129, 208, 176, 32, 208, 191, 209, 128, 208, 181, 208, 178, 209, 139, 209,
           136, 208, 176, 208, 181, 209, 130, 32, 208, 187, 208, 184, 208, 188, 208, 184, 209, 130,
           32, 209, 129, 208, 181, 209, 128, 208, 178, 208, 181, 209, 128, 208, 176, 46]))
        None None,
      builtin_template_record GatewayError ''upstream_transport_error''
        (localized_templates ''The upstream request failed.''
        (utf8 [228, 184, 138, 230, 184, 184, 232, 175, 183, 230, 177, 130, 229, 164, 177, 232, 180,
           165, 227, 128, 130])
        (utf8 [228, 184, 138, 230, 184, 184, 232, 171, 139, 230, 177, 130, 229, 164, 177, 230, 149,
           151, 227, 128, 130])
        (utf8 [228, 184, 138, 230, 181, 129, 227, 131, 170, 227, 130, 175, 227, 130, 168, 227, 130,
           185, 227, 131, 136, 227, 129, 171, 229, 164, 177, 230, 149, 151, 227, 129, 151, 227, 129,
           190, 227, 129, 151, 227, 129, 159, 227, 128, 130])
        (utf8 [208, 158, 209, 136, 208, 184, 208, 177, 208, 186, 208, 176, 32, 208, 183, 208, 176,
           208, 191, 209, 128, 208, 190, 209, 129, 208, 176, 32, 208, 186, 32, 117, 112, 115, 116,
           114, 101, 97, 109, 46]))
        None None,
      builtin_template_record GatewayError ''upstream_websocket_connect_error''
        (localized_templates ''Failed to connect to the upstream WebSocket.''
        (utf8 [232, 191, 158, 230, 142, 165, 228, 184, 138, 230, 184, 184, 32, 87, 101, 98, 83, 111,
           99, 107, 101, 116, 32, 229, 164, 177, 232, 180, 165, 227, 128, 130])
        (utf8 [233, 128, 163, 230, 142, 165, 228, 184, 138, 230, 184, 184, 32, 87, 101, 98, 83, 111,
           99, 107, 101, 116, 32, 229, 164, 177, 230, 149, 151, 227, 128, 130])
        (utf8 [228, 184, 138, 230, 181, 129, 32, 87, 101, 98, 83, 111, 99, 107, 101, 116, 32, 227,
           129, 184, 227, 129, 174, 230, 142, 165, 231, 182, 154, 227, 129, 171, 229, 164, 177, 230,
           149, 151, 227, 129, 151, 227, 129, 190, 227, 129, 151, 227, 129, 159, 227, 128, 130])
        (utf8 [208, 157, 208, 181, 32, 209, 131, 208, 180, 208, 176, 208, 187, 208, 190, 209, 129,
           209, 140, 32, 208, 191, 208, 190, 208, 180, 208, 186, 208, 187, 209, 142, 209, 135, 208,
           184, 209, 130, 209, 140, 209, 129, 209, 143, 32, 208, 186, 32, 117, 112, 115, 116, 114,
           101, 97, 109, 32, 87, 101, 98, 83, 111, 99, 107, 101, 116, 46]))
        None None,
      builtin_template_record GatewayError ''websocket_handshake_error''
        (localized_templates ''The upstream WebSocket handshake failed.''
        (utf8 [228, 184, 138, 230, 184, 184, 32, 87, 101, 98, 83, 111, 99, 107, 101, 116, 32, 230,
           143, 161, 230, 137, 139, 229, 164, 177, 232, 180, 165, 227, 128, 130])
        (utf8 [228, 184, 138, 230, 184, 184, 32, 87, 101, 98, 83, 111, 99, 107, 101, 116, 32, 230,
           143, 161, 230, 137, 139, 229, 164, 177, 230, 149, 151, 227, 128, 130])
        (utf8 [228, 184, 138, 230, 181, 129, 32, 87, 101, 98, 83, 111, 99, 107, 101, 116, 32, 227,
           131, 143, 227, 131, 179, 227, 131, 137, 227, 130, 183, 227, 130, 167, 227, 130, 164, 227,
           130, 175, 227, 129, 171, 229, 164, 177, 230, 149, 151, 227, 129, 151, 227, 129, 190, 227,
           129, 151, 227, 129, 159, 227, 128, 130])
        (utf8 [208, 158, 209, 136, 208, 184, 208, 177, 208, 186, 208, 176, 32, 209, 128, 209, 131,
           208, 186, 208, 190, 208, 191, 208, 190, 208, 182, 208, 176, 209, 130, 208, 184, 209, 143,
           32, 117, 112, 115, 116, 114, 101, 97, 109, 32, 87, 101, 98, 83, 111, 99, 107, 101, 116,
           46]))
        None None,
      builtin_template_record GatewayError ''websocket_upgrade_required''
        (localized_templates ''The upstream requires a WebSocket upgrade.''
        (utf8 [228, 184, 138, 230, 184, 184, 232, 166, 129, 230, 177, 130, 228, 189, 191, 231, 148,
           168, 32, 87, 101, 98, 83, 111, 99, 107, 101, 116, 32, 229, 141, 143, 232, 174, 174, 229,
           141, 135, 231, 186, 167, 227, 128, 130])
        (utf8 [228, 184, 138, 230, 184, 184, 232, 166, 129, 230, 177, 130, 228, 189, 191, 231, 148,
           168, 32, 87, 101, 98, 83, 111, 99, 107, 101, 116, 32, 229, 141, 148, 232, 173, 176, 229,
           141, 135, 231, 180, 154, 227, 128, 130])
        (utf8 [228, 184, 138, 230, 181, 129, 227, 129, 175, 32, 87, 101, 98, 83, 111, 99, 107, 101,
           116, 32, 227, 130, 162, 227, 131, 131, 227, 131, 151, 227, 130, 176, 227, 131, 172, 227,
           131, 188, 227, 131, 137, 227, 130, 146, 232, 166, 129, 230, 177, 130, 227, 129, 151, 227,
           129, 166, 227, 129, 132, 227, 129, 190, 227, 129, 153, 227, 128, 130])
        (utf8 [85, 112, 115, 116, 114, 101, 97, 109, 32, 209, 130, 209, 128, 208, 181, 208, 177,
           209, 131, 208, 181, 209, 130, 32, 208, 190, 208, 177, 208, 189, 208, 190, 208, 178, 208,
           187, 208, 181, 208, 189, 208, 184, 209, 143, 32, 208, 180, 208, 190, 32, 87, 101, 98, 83,
           111, 99, 107, 101, 116, 46]))
        None None,
      builtin_template_record HeuristicUpstream ''quota_exhausted''
        (localized_templates ''The upstream quota is exhausted. Please retry shortly.''
        (utf8 [228, 184, 138, 230, 184, 184, 233, 162, 157, 229, 186, 166, 229, 183, 178, 232, 128,
           151, 229, 176, 189, 239, 188, 140, 232, 175, 183, 231, 168, 141, 229, 144, 142, 233, 135,
           141, 232, 175, 149, 227, 128, 130])
        (utf8 [228, 184, 138, 230, 184, 184, 233, 161, 141, 229, 186, 166, 229, 183, 178, 232, 128,
           151, 231, 155, 161, 239, 188, 140, 232, 171, 139, 231, 168, 141, 229, 190, 140, 233, 135,
           141, 232, 169, 166, 227, 128, 130])
        (utf8 [228, 184, 138, 230, 181, 129, 227, 129, 174, 227, 130, 175, 227, 130, 169, 227, 131,
           188, 227, 130, 191, 227, 129, 140, 229, 176, 189, 227, 129, 141, 227, 129, 166, 227, 129,
           132, 227, 129, 190, 227, 129, 153, 227, 128, 130, 227, 129, 151, 227, 129, 176, 227, 130,
           137, 227, 129, 143, 227, 129, 151, 227, 129, 166, 227, 129, 139, 227, 130, 137, 229, 134,
           141, 232, 169, 166, 232, 161, 140, 227, 129, 151, 227, 129, 166, 227, 129, 143, 227, 129,
           160, 227, 129, 149, 227, 129, 132, 227, 128, 130])
        (utf8 [208, 154, 208, 178, 208, 190, 209, 130, 208, 176, 32, 208, 189, 208, 176, 32, 209,
           129, 209, 130, 208, 190, 209, 128, 208, 190, 208, 189, 208, 181, 32, 208, 176, 208, 191,
           209, 129, 209, 130, 209, 128, 208, 184, 208, 188, 208, 176, 32, 208, 184, 209, 129, 209,
           135, 208, 181, 209, 128, 208, 191, 208, 176, 208, 189, 208, 176, 46, 32, 208, 159, 208,
           190, 208, 178, 209, 130, 208, 190, 209, 128, 208, 184, 209, 130, 208, 181, 32, 208, 191,
           208, 190, 208, 191, 209, 139, 209, 130, 208, 186, 209, 131, 32, 208, 191, 208, 190, 208,
           183, 208, 182, 208, 181, 46]))
        (Some RetryCrossAccount) (Some ScopeCrossAccount),
      builtin_template_record HeuristicUpstream ''unsupported_model''
        (localized_templates ''The requested model is not available.''
        (utf8 [232, 175, 183, 230, 177, 130, 231, 154, 132, 230, 168, 161, 229, 158, 139, 229, 189,
           147, 229, 137, 141, 228, 184, 141, 229, 143, 175, 231, 148, 168, 227, 128, 130])
        (utf8 [232, 171, 139, 230, 177, 130, 231, 154, 132, 230, 168, 161, 229, 158, 139, 231, 155,
           174, 229, 137, 141, 228, 184, 141, 229, 143, 175, 231, 148, 168, 227, 128, 130])
        (utf8 [232, 166, 129, 230, 177, 130, 227, 129, 149, 227, 130, 140, 227, 129, 159, 227, 131,
           162, 227, 131, 135, 227, 131, 171, 227, 129, 175, 231, 143, 190, 229, 156, 168, 229, 136,
           169, 231, 148, 168, 227, 129, 167, 227, 129, 141, 227, 129, 190, 227, 129, 155, 227, 130,
           147, 227, 128, 130])
        (utf8 [208, 151, 208, 176, 208, 191, 209, 128, 208, 190, 209, 136, 208, 181, 208, 189, 208,
           189, 208, 176, 209, 143, 32, 208, 188, 208, 190, 208, 180, 208, 181, 208, 187, 209, 140,
           32, 209, 129, 208, 181, 208, 185, 209, 135, 208, 176, 209, 129, 32, 208, 189, 208, 181,
           208, 180, 208, 190, 209, 129, 209, 130, 209, 131, 208, 191, 208, 189, 208, 176, 46]))
        (Some ReturnFailure) (Some ScopeNone),
      builtin_template_record HeuristicUpstream ''upstream_request_failed''
        (localized_templates ''The upstream request failed. Please retry later.''
        (utf8 [228, 184, 138, 230, 184, 184, 232, 175, 183, 230, 177, 130, 229, 164, 177, 232, 180,
           165, 239, 188, 140, 232, 175, 183, 231, 168, 141, 229, 144, 142, 233, 135, 141, 232, 175,
           149, 227, 128, 130])
        (utf8 [228, 184, 138, 230, 184, 184, 232, 171, 139, 230, 177, 130, 229, 164, 177, 230, 149,
           151, 239, 188, 140, 232, 171, 139, 231, 168, 141, 229, 190, 140, 233, 135, 141, 232, 169,
           166, 227, 128, 130])
        (utf8 [228, 184, 138, 230, 181, 129, 227, 131, 170, 227, 130, 175, 227, 130, 168, 227, 130,
           185, 227, 131, 136, 227, 129, 171, 229, 164, 177, 230, 149, 151, 227, 129, 151, 227, 129,
           190, 227, 129, 151, 227, 129, 159, 227, 128, 130, 227, 129, 151, 227, 129, 176, 227, 130,
           137, 227, 129, 143, 227, 129, 151, 227, 129, 166, 227, 129, 139, 227, 130, 137, 229, 134,
           141, 232, 169, 166, 232, 161, 140, 227, 129, 151, 227, 129, 166, 227, 129, 143, 227, 129,
           160, 227, 129, 149, 227, 129, 132, 227, 128, 130])
        (utf8 [208, 158, 209, 136, 208, 184, 208, 177, 208, 186, 208, 176, 32, 208, 183, 208, 176,
           208, 191, 209, 128, 208, 190, 209, 129, 208, 176, 32, 208, 186, 32, 208, 176, 208, 191,
           209, 129, 209, 130, 209, 128, 208, 184, 208, 188, 209, 131, 46, 32, 208, 159, 208, 190,
           208, 178, 209, 130, 208, 190, 209, 128, 208, 184, 209, 130, 208, 181, 32, 208, 191, 208,
           190, 208, 191, 209, 139, 209, 130, 208, 186, 209, 131, 32, 208, 191, 208, 190, 208, 183,
           208, 182, 208, 181, 46]))
        (Some ReturnFailure) (Some ScopeNone)]"

definition default_builtin_error_templates :: "builtin_error_template_record list" where
  "default_builtin_error_templates = sort_key template_key shipped_templates"

definition default_builtin_error_template ::
  "builtin_error_template_kind \<Rightarrow> string \<Rightarrow> builtin_error_template_record option" where
  "default_builtin_error_template kind code =
     find (\<lambda>t. bet_kind t = kind \<and> bet_code t = code) default_builtin_error_templates"

section \<open>Overrides\<close>

record builtin_error_template_override_record =
  bor_kind :: builtin_error_template_kind
  bor_code :: string
  bor_templates :: localized_error_templates
  bor_updated_at :: timestamp

type_synonym override_table =
  "(builtin_error_template_kind \<times> string, builtin_error_template_override_record) hash_map"

definition or_else :: "'a option \<Rightarrow> 'a option \<Rightarrow> 'a option" where
  "or_else a b = (case a of Some x \<Rightarrow> Some x | None \<Rightarrow> b)"

definition merge_localized_error_templates ::
  "localized_error_templates \<Rightarrow> localized_error_templates \<Rightarrow> localized_error_templates" where
  "merge_localized_error_templates base override =
     \<lparr>let_en = or_else (let_en override) (let_en base),
      let_zh_cn = or_else (let_zh_cn override) (let_zh_cn base),
      let_zh_tw = or_else (let_zh_tw override) (let_zh_tw base),
      let_ja = or_else (let_ja override) (let_ja base),
      let_ru = or_else (let_ru override) (let_ru base)\<rparr>"

definition with_override :: "override_table \<Rightarrow> builtin_error_template_record \<Rightarrow> builtin_error_template_record" where
  "with_override overrides t =
     (case map_of overrides (template_key t) of
        None \<Rightarrow> t
      | Some r \<Rightarrow> t\<lparr>bet_templates := merge_localized_error_templates (bet_default_templates t) (bor_templates r),
                    bet_is_overridden := True, bet_updated_at := Some (bor_updated_at r)\<rparr>)"

definition list_builtin_error_templates_inner :: "override_table \<Rightarrow> builtin_error_template_record list" where
  "list_builtin_error_templates_inner overrides =
     sort_key template_key (map (with_override overrides) default_builtin_error_templates)"

definition list_builtin_error_template_overrides ::
  "override_table \<Rightarrow> builtin_error_template_override_record list" where
  "list_builtin_error_template_overrides overrides =
     sort_key (\<lambda>r. (bor_kind r, bor_code r)) (map snd overrides)"

section \<open>Facts\<close>

lemma shipped_keys:
  "map template_key shipped_templates =
     map (Pair GatewayError)
       [''invalid_request_body'', ''invalid_request_rate_limited'', ''invalid_upstream_url'',
        ''invalid_websocket_upgrade'', ''no_upstream_account'', ''payload_too_large'',
        ''upstream_transport_error'', ''upstream_websocket_connect_error'', ''websocket_handshake_error'',
        ''websocket_upgrade_required''] @
     map (Pair HeuristicUpstream) [''quota_exhausted'', ''unsupported_model'', ''upstream_request_failed'']"
  by (simp add: shipped_templates_def builtin_template_record_def)

lemma shipped_sorted: "sorted_wrt (<) (map template_key shipped_templates)"
  unfolding shipped_keys by code_simp

text \<open>The table is written in order, so that sorting it changes nothing.\<close>

lemma default_is_shipped: "default_builtin_error_templates = shipped_templates"
  unfolding default_builtin_error_templates_def
  by (rule sort_key_id_if_sorted) (rule strict_sorted_imp_sorted [OF shipped_sorted])

lemma with_override_key [simp]: "template_key (with_override overrides t) = template_key t"
  by (simp add: with_override_def split: option.split)

lemma list_builtin_is_map:
  "list_builtin_error_templates_inner overrides = map (with_override overrides) shipped_templates"
  unfolding list_builtin_error_templates_inner_def default_is_shipped
  by (rule sort_key_id_if_sorted)
     (use strict_sorted_imp_sorted [OF shipped_sorted] in \<open>simp add: comp_def\<close>)

lemma list_builtin_keys:
  "map template_key (list_builtin_error_templates_inner overrides) = map template_key shipped_templates"
  by (simp add: list_builtin_is_map comp_def)

end
