(* ===== verification/Store_Admin.thy ===== *)
theory Store_Admin
  imports Route_Plan Builtin_Templates
begin

text \<open>
  The rest of the control plane's in-memory store (\<^verbatim>\<open>store/in_memory_core.rs\<close>, \<^verbatim>\<open>store/trait_impl.rs\<close>):
  tenants, outbound proxies, routing and retry policies, profiles, settings, error templates, and the
  complete snapshot. \<open>control_plane_store\<close> puts the tables of \<^verbatim>\<open>InMemoryStore\<close> around the account pool
  of \<open>Pool_Store\<close>, which also holds the revision counter. The table of rate-limit refresh jobs is left out.
  An operation takes the identifiers and the time it generates as arguments.
\<close>

section \<open>Data\<close>

datatype model_routing_trigger_mode = HybridTrigger | ScheduledOnly | EventOnly

record model_routing_settings =
  mrs_enabled :: bool
  mrs_auto_publish :: bool
  mrs_planner_model_chain :: "string list"
  mrs_trigger_mode :: model_routing_trigger_mode
  mrs_kill_switch :: bool
  mrs_updated_at :: timestamp

datatype routing_strategy = RoundRobin | FillFirst

record routing_policy =
  rpo_tenant_id :: uuid
  rpo_strategy :: routing_strategy
  rpo_max_retries :: nat
  rpo_stream_max_retries :: nat
  rpo_updated_at :: timestamp

record routing_plan_version =
  rpv_id :: uuid
  rpv_reason :: "string option"
  rpv_published_at :: timestamp
  rpv_compiled_plan :: compiled_routing_plan

record control_plane_store =
  cp_tenants :: "(uuid, tenant) hash_map"
  cp_api_keys :: "(uuid, api_key) hash_map"
  cp_api_key_tokens :: "(string, uuid) hash_map"
  cp_pool :: pool_store
  cp_proxy_settings :: outbound_proxy_pool_settings
  cp_proxy_nodes :: "(uuid, outbound_proxy_node) hash_map"
  cp_policies :: "(uuid, routing_policy) hash_map"
  cp_model_routing_settings :: model_routing_settings
  cp_claude_settings :: claude_code_routing_settings
  cp_learning_settings :: ai_error_learning_settings
  cp_error_templates :: "(uuid, upstream_error_template_record) hash_map"
  cp_error_template_index :: "(string, uuid) hash_map"
  cp_builtin_overrides :: override_table
  cp_plan_versions :: "routing_plan_version list"

definition default_model_routing_settings :: "timestamp \<Rightarrow> model_routing_settings" where
  "default_model_routing_settings now =
     \<lparr>mrs_enabled = True, mrs_auto_publish = True, mrs_planner_model_chain = [],
      mrs_trigger_mode = HybridTrigger, mrs_kill_switch = False, mrs_updated_at = now\<rparr>"

definition empty_pool :: pool_store where
  "empty_pool =
     \<lparr>ps_accounts = [], ps_auth_providers = [], ps_credentials = [], ps_vault = [], ps_session_profiles = [],
      ps_health = [], ps_model_support = [], ps_rate_limit_caches = [], ps_routing_profiles = [],
      ps_model_routing_policies = [], ps_event_runtime = False, ps_events = [], ps_revision = 1\<rparr>"

definition new_with_oauth :: "timestamp \<Rightarrow> control_plane_store" where
  "new_with_oauth now =
     \<lparr>cp_tenants = [], cp_api_keys = [], cp_api_key_tokens = [], cp_pool = empty_pool,
      cp_proxy_settings = default_outbound_proxy_pool_settings now, cp_proxy_nodes = [], cp_policies = [],
      cp_model_routing_settings = default_model_routing_settings now,
      cp_claude_settings = default_claude_code_routing_settings now,
      cp_learning_settings = default_ai_error_learning_settings,
      cp_error_templates = [], cp_error_template_index = [], cp_builtin_overrides = [], cp_plan_versions = []\<rparr>"

text \<open>\<^verbatim>\<open>self.revision.fetch_add(1)\<close>.\<close>

definition bump :: "control_plane_store \<Rightarrow> control_plane_store" where
  "bump s = s\<lparr>cp_pool := bump_revision (cp_pool s)\<rparr>"

definition on_pool :: "(pool_store \<Rightarrow> 'a \<times> pool_store) \<Rightarrow> control_plane_store \<Rightarrow> 'a \<times> control_plane_store" where
  "on_pool f s = (case f (cp_pool s) of (r, p) \<Rightarrow> (r, s\<lparr>cp_pool := p\<rparr>))"

section \<open>Tenants\<close>

definition create_tenant_inner :: "uuid \<Rightarrow> timestamp \<Rightarrow> string \<Rightarrow> control_plane_store \<Rightarrow> tenant \<times> control_plane_store" where
  "create_tenant_inner new_id now name s =
     (let t = \<lparr>t_id = new_id, t_name = name, t_created_at = now\<rparr>
      in (t, s\<lparr>cp_tenants := hm_insert new_id t (cp_tenants s)\<rparr>))"

definition list_tenants_inner :: "control_plane_store \<Rightarrow> tenant list" where
  "list_tenants_inner s = map snd (cp_tenants s)"

section \<open>Outbound proxies\<close>

definition update_outbound_proxy_pool_settings ::
  "timestamp \<Rightarrow> bool \<Rightarrow> proxy_fail_mode \<Rightarrow> control_plane_store \<Rightarrow>
   outbound_proxy_pool_settings \<times> control_plane_store" where
  "update_outbound_proxy_pool_settings now enabled fail_mode s =
     (let settings = \<lparr>ops_enabled = enabled, ops_fail_mode = fail_mode, ops_updated_at = now\<rparr>
      in (settings, bump (s\<lparr>cp_proxy_settings := settings\<rparr>)))"

definition list_outbound_proxy_nodes_inner :: "control_plane_store \<Rightarrow> outbound_proxy_node list" where
  "list_outbound_proxy_nodes_inner s =
     sort_key (\<lambda>n. (opn_created_at n, opn_id n)) (map snd (cp_proxy_nodes s))"

record create_proxy_node_request =
  cpn_label :: string
  cpn_proxy_url :: string
  cpn_enabled :: "bool option"
  cpn_weight :: "nat option"

definition create_outbound_proxy_node_inner ::
  "uuid \<Rightarrow> timestamp \<Rightarrow> create_proxy_node_request \<Rightarrow> control_plane_store \<Rightarrow>
   outbound_proxy_node \<times> control_plane_store" where
  "create_outbound_proxy_node_inner new_id now req s =
     (let node = \<lparr>opn_id = new_id, opn_label = cpn_label req, opn_proxy_url = cpn_proxy_url req,
                  opn_enabled = (case cpn_enabled req of Some b \<Rightarrow> b | None \<Rightarrow> True),
                  opn_weight = (case cpn_weight req of Some w \<Rightarrow> w | None \<Rightarrow> 1),
                  opn_last_test_status = None, opn_last_latency_ms = None, opn_last_error = None,
                  opn_last_tested_at = None, opn_created_at = now, opn_updated_at = now\<rparr>
      in (node, bump (s\<lparr>cp_proxy_nodes := hm_insert new_id node (cp_proxy_nodes s)\<rparr>)))"

text \<open>\<^verbatim>\<open>nodes.get_mut(&node_id)\<close>, some assignments, the new revision.\<close>

definition update_proxy_node ::
  "uuid \<Rightarrow> (outbound_proxy_node \<Rightarrow> outbound_proxy_node) \<Rightarrow> control_plane_store \<Rightarrow>
   (string + outbound_proxy_node) \<times> control_plane_store" where
  "update_proxy_node node_id f s =
     (case map_of (cp_proxy_nodes s) node_id of
        None \<Rightarrow> (Inl ''outbound proxy node not found'', s)
      | Some node \<Rightarrow> (Inr (f node), bump (s\<lparr>cp_proxy_nodes := hm_insert node_id (f node) (cp_proxy_nodes s)\<rparr>)))"

record update_proxy_node_request =
  upn_label :: "string option"
  upn_proxy_url :: "string option"
  upn_enabled :: "bool option"
  upn_weight :: "nat option"

definition given :: "'a option \<Rightarrow> 'a \<Rightarrow> 'a" where
  "given new old = (case new of Some x \<Rightarrow> x | None \<Rightarrow> old)"

definition update_outbound_proxy_node_inner ::
  "timestamp \<Rightarrow> uuid \<Rightarrow> update_proxy_node_request \<Rightarrow> control_plane_store \<Rightarrow>
   (string + outbound_proxy_node) \<times> control_plane_store" where
  "update_outbound_proxy_node_inner now node_id req s =
     update_proxy_node node_id
       (\<lambda>node. node\<lparr>opn_label := given (upn_label req) (opn_label node),
                    opn_proxy_url := given (upn_proxy_url req) (opn_proxy_url node),
                    opn_enabled := given (upn_enabled req) (opn_enabled node),
                    opn_weight := given (upn_weight req) (opn_weight node),
                    opn_updated_at := now\<rparr>) s"

definition delete_outbound_proxy_node_inner ::
  "uuid \<Rightarrow> control_plane_store \<Rightarrow> (string + unit) \<times> control_plane_store" where
  "delete_outbound_proxy_node_inner node_id s =
     (if map_of (cp_proxy_nodes s) node_id = None then (Inl ''outbound proxy node not found'', s)
      else (Inr (), bump (s\<lparr>cp_proxy_nodes := hm_remove node_id (cp_proxy_nodes s)\<rparr>)))"

definition record_outbound_proxy_test_result_inner ::
  "timestamp \<Rightarrow> uuid \<Rightarrow> string option \<Rightarrow> nat option \<Rightarrow> string option \<Rightarrow> timestamp option \<Rightarrow>
   control_plane_store \<Rightarrow> (string + outbound_proxy_node) \<times> control_plane_store" where
  "record_outbound_proxy_test_result_inner now node_id status latency_ms error tested_at s =
     update_proxy_node node_id
       (\<lambda>node. node\<lparr>opn_last_test_status := status, opn_last_latency_ms := latency_ms,
                    opn_last_error := error, opn_last_tested_at := tested_at, opn_updated_at := now\<rparr>) s"

section \<open>Routing and retry policies of tenants\<close>

definition store_policy :: "routing_policy \<Rightarrow> control_plane_store \<Rightarrow> routing_policy \<times> control_plane_store" where
  "store_policy policy s =
     (policy, bump (s\<lparr>cp_policies := hm_insert (rpo_tenant_id policy) policy (cp_policies s)\<rparr>))"

definition upsert_routing_policy_inner ::
  "timestamp \<Rightarrow> uuid \<Rightarrow> routing_strategy \<Rightarrow> nat \<Rightarrow> nat \<Rightarrow> control_plane_store \<Rightarrow>
   routing_policy \<times> control_plane_store" where
  "upsert_routing_policy_inner now tenant_id strategy max_retries stream_max_retries s =
     store_policy \<lparr>rpo_tenant_id = tenant_id, rpo_strategy = strategy, rpo_max_retries = max_retries,
                   rpo_stream_max_retries = stream_max_retries, rpo_updated_at = now\<rparr> s"

text \<open>\<^verbatim>\<open>policies.entry(tenant_id).and_modify(...).or_insert_with(...)\<close>.\<close>

definition update_policy ::
  "uuid \<Rightarrow> (routing_policy \<Rightarrow> routing_policy) \<Rightarrow> routing_policy \<Rightarrow> control_plane_store \<Rightarrow>
   routing_policy \<times> control_plane_store" where
  "update_policy tenant_id modify fresh s =
     (let policy = (case map_of (cp_policies s) tenant_id of Some p \<Rightarrow> modify p | None \<Rightarrow> fresh)
      in (policy, bump (s\<lparr>cp_policies := hm_insert tenant_id policy (cp_policies s)\<rparr>)))"

definition upsert_retry_policy_inner ::
  "timestamp \<Rightarrow> uuid \<Rightarrow> nat \<Rightarrow> control_plane_store \<Rightarrow> routing_policy \<times> control_plane_store" where
  "upsert_retry_policy_inner now tenant_id max_retries s =
     update_policy tenant_id
       (\<lambda>p. p\<lparr>rpo_max_retries := max_retries, rpo_updated_at := now\<rparr>)
       \<lparr>rpo_tenant_id = tenant_id, rpo_strategy = RoundRobin, rpo_max_retries = max_retries,
        rpo_stream_max_retries = 0, rpo_updated_at = now\<rparr> s"

definition upsert_stream_retry_policy_inner ::
  "timestamp \<Rightarrow> uuid \<Rightarrow> nat \<Rightarrow> control_plane_store \<Rightarrow> routing_policy \<times> control_plane_store" where
  "upsert_stream_retry_policy_inner now tenant_id stream_max_retries s =
     update_policy tenant_id
       (\<lambda>p. p\<lparr>rpo_stream_max_retries := stream_max_retries, rpo_updated_at := now\<rparr>)
       \<lparr>rpo_tenant_id = tenant_id, rpo_strategy = RoundRobin, rpo_max_retries = 0,
        rpo_stream_max_retries = stream_max_retries, rpo_updated_at = now\<rparr> s"

section \<open>Routing profiles and model policies\<close>

definition list_routing_profiles :: "control_plane_store \<Rightarrow> routing_profile list" where
  "list_routing_profiles s =
     sort_key (\<lambda>p. (- rp_priority p, rp_created_at p)) (map snd (ps_routing_profiles (cp_pool s)))"

record upsert_profile_request =
  upf_id :: "uuid option"
  upf_name :: string
  upf_description :: "string option"
  upf_enabled :: bool
  upf_priority :: int
  upf_selector :: routing_profile_selector

definition upsert_routing_profile ::
  "uuid \<Rightarrow> timestamp \<Rightarrow> upsert_profile_request \<Rightarrow> control_plane_store \<Rightarrow>
   (string + routing_profile) \<times> control_plane_store" where
  "upsert_routing_profile new_id now req s =
     (let fresh = \<lparr>rp_id = given (upf_id req) new_id, rp_name = upf_name req, rp_description = upf_description req,
                   rp_enabled = upf_enabled req, rp_priority = upf_priority req, rp_selector = upf_selector req,
                   rp_created_at = now, rp_updated_at = now\<rparr>;
          table = ps_routing_profiles (cp_pool s);
          stored = (case map_of table (rp_id fresh) of
                      Some old \<Rightarrow> old\<lparr>rp_name := rp_name fresh, rp_description := rp_description fresh,
                                     rp_enabled := rp_enabled fresh, rp_priority := rp_priority fresh,
                                     rp_selector := rp_selector fresh, rp_updated_at := now\<rparr>
                    | None \<Rightarrow> fresh);
          s1 = bump (s\<lparr>cp_pool := (cp_pool s)\<lparr>ps_routing_profiles := hm_insert (rp_id fresh) stored table\<rparr>\<rparr>)
      in (case map_of (ps_routing_profiles (cp_pool s1)) (rp_id fresh) of
            Some p \<Rightarrow> Inr p | None \<Rightarrow> Inl ''routing profile not found after upsert'', s1))"

definition delete_routing_profile :: "uuid \<Rightarrow> control_plane_store \<Rightarrow> (string + unit) \<times> control_plane_store" where
  "delete_routing_profile profile_id s =
     (if map_of (ps_routing_profiles (cp_pool s)) profile_id = None then (Inl ''routing profile not found'', s)
      else (Inr (), bump (s\<lparr>cp_pool := (cp_pool s)\<lparr>ps_routing_profiles :=
              hm_remove profile_id (ps_routing_profiles (cp_pool s))\<rparr>\<rparr>)))"

definition list_model_routing_policies :: "control_plane_store \<Rightarrow> model_routing_policy list" where
  "list_model_routing_policies s =
     sort_key (\<lambda>p. (- mrp_priority p, mrp_created_at p)) (map snd (ps_model_routing_policies (cp_pool s)))"

record upsert_model_policy_request =
  ump_id :: "uuid option"
  ump_name :: string
  ump_family :: string
  ump_exact_models :: "string list"
  ump_model_prefixes :: "string list"
  ump_fallback_profile_ids :: "uuid list"
  ump_enabled :: bool
  ump_priority :: int

definition upsert_model_routing_policy ::
  "uuid \<Rightarrow> timestamp \<Rightarrow> upsert_model_policy_request \<Rightarrow> control_plane_store \<Rightarrow>
   (string + model_routing_policy) \<times> control_plane_store" where
  "upsert_model_routing_policy new_id now req s =
     (let fresh = \<lparr>mrp_id = given (ump_id req) new_id, mrp_name = ump_name req, mrp_family = ump_family req,
                   mrp_exact_models = ump_exact_models req, mrp_model_prefixes = ump_model_prefixes req,
                   mrp_fallback_profile_ids = ump_fallback_profile_ids req, mrp_enabled = ump_enabled req,
                   mrp_priority = ump_priority req, mrp_created_at = now, mrp_updated_at = now\<rparr>;
          table = ps_model_routing_policies (cp_pool s);
          stored = (case map_of table (mrp_id fresh) of
                      Some old \<Rightarrow> old\<lparr>mrp_name := mrp_name fresh, mrp_family := mrp_family fresh,
                                     mrp_exact_models := mrp_exact_models fresh,
                                     mrp_model_prefixes := mrp_model_prefixes fresh,
                                     mrp_fallback_profile_ids := mrp_fallback_profile_ids fresh,
                                     mrp_enabled := mrp_enabled fresh, mrp_priority := mrp_priority fresh,
                                     mrp_updated_at := now\<rparr>
                    | None \<Rightarrow> fresh);
          s1 = bump (s\<lparr>cp_pool := (cp_pool s)\<lparr>ps_model_routing_policies := hm_insert (mrp_id fresh) stored table\<rparr>\<rparr>)
      in (case map_of (ps_model_routing_policies (cp_pool s1)) (mrp_id fresh) of
            Some p \<Rightarrow> Inr p | None \<Rightarrow> Inl ''model routing policy not found after upsert'', s1))"

definition delete_model_routing_policy :: "uuid \<Rightarrow> control_plane_store \<Rightarrow> (string + unit) \<times> control_plane_store" where
  "delete_model_routing_policy policy_id s =
     (if map_of (ps_model_routing_policies (cp_pool s)) policy_id = None
      then (Inl ''model routing policy not found'', s)
      else (Inr (), bump (s\<lparr>cp_pool := (cp_pool s)\<lparr>ps_model_routing_policies :=
              hm_remove policy_id (ps_model_routing_policies (cp_pool s))\<rparr>\<rparr>)))"

section \<open>Settings\<close>

record update_model_routing_settings_request =
  umr_enabled :: bool
  umr_auto_publish :: bool
  umr_planner_model_chain :: "string list"
  umr_trigger_mode :: model_routing_trigger_mode
  umr_kill_switch :: bool

definition update_model_routing_settings ::
  "timestamp \<Rightarrow> update_model_routing_settings_request \<Rightarrow> control_plane_store \<Rightarrow>
   model_routing_settings \<times> control_plane_store" where
  "update_model_routing_settings now req s =
     (let settings = \<lparr>mrs_enabled = umr_enabled req, mrs_auto_publish = umr_auto_publish req,
                      mrs_planner_model_chain = umr_planner_model_chain req,
                      mrs_trigger_mode = umr_trigger_mode req, mrs_kill_switch = umr_kill_switch req,
                      mrs_updated_at = now\<rparr>
      in (settings, bump (s\<lparr>cp_model_routing_settings := settings\<rparr>)))"

definition normalize_optional_model :: "string option \<Rightarrow> string option" where
  "normalize_optional_model value = Option.bind value trim_nonempty"

record update_claude_settings_request =
  ucr_enabled :: bool
  ucr_opus_target_model :: "string option"
  ucr_sonnet_target_model :: "string option"
  ucr_haiku_target_model :: "string option"
  ucr_effort_routing :: "claude_code_effort_routing_settings option"

definition update_claude_code_routing_settings ::
  "timestamp \<Rightarrow> update_claude_settings_request \<Rightarrow> control_plane_store \<Rightarrow>
   claude_code_routing_settings \<times> control_plane_store" where
  "update_claude_code_routing_settings now req s =
     (let settings = \<lparr>ccr_enabled = ucr_enabled req,
                      ccr_opus_target_model = normalize_optional_model (ucr_opus_target_model req),
                      ccr_sonnet_target_model = normalize_optional_model (ucr_sonnet_target_model req),
                      ccr_haiku_target_model = normalize_optional_model (ucr_haiku_target_model req),
                      ccr_effort_routing = given (ucr_effort_routing req) (ccr_effort_routing (cp_claude_settings s)),
                      ccr_updated_at = now\<rparr>
      in (settings, bump (s\<lparr>cp_claude_settings := settings\<rparr>)))"

definition update_upstream_error_learning_settings ::
  "timestamp \<Rightarrow> bool \<Rightarrow> nat \<Rightarrow> nat \<Rightarrow> control_plane_store \<Rightarrow> ai_error_learning_settings \<times> control_plane_store" where
  "update_upstream_error_learning_settings now enabled first_seen_timeout_ms review_hit_threshold s =
     (let settings = \<lparr>ael_enabled = enabled, ael_first_seen_timeout_ms = first_seen_timeout_ms,
                      ael_review_hit_threshold = review_hit_threshold, ael_updated_at = Some now\<rparr>
      in (settings, bump (s\<lparr>cp_learning_settings := settings\<rparr>)))"

section \<open>Error templates\<close>

definition list_upstream_error_templates ::
  "upstream_error_template_status option \<Rightarrow> control_plane_store \<Rightarrow> upstream_error_template_record list" where
  "list_upstream_error_templates status s =
     sort_key (\<lambda>t. (- uet_last_seen_at t, - uet_updated_at t))
       (filter (\<lambda>t. case status of None \<Rightarrow> True | Some st \<Rightarrow> uet_status t = st) (map snd (cp_error_templates s)))"

definition upstream_error_template_by_id ::
  "uuid \<Rightarrow> control_plane_store \<Rightarrow> upstream_error_template_record option" where
  "upstream_error_template_by_id template_id s = map_of (cp_error_templates s) template_id"

definition upstream_error_template_by_fingerprint ::
  "string \<Rightarrow> control_plane_store \<Rightarrow> upstream_error_template_record option" where
  "upstream_error_template_by_fingerprint fingerprint s =
     Option.bind (map_of (cp_error_template_index s) fingerprint) (map_of (cp_error_templates s))"

definition save_upstream_error_template ::
  "upstream_error_template_record \<Rightarrow> control_plane_store \<Rightarrow> upstream_error_template_record \<times> control_plane_store" where
  "save_upstream_error_template template s =
     (template,
      bump (s\<lparr>cp_error_template_index := hm_insert (uet_fingerprint template) (uet_id template) (cp_error_template_index s),
              cp_error_templates := hm_insert (uet_id template) template (cp_error_templates s)\<rparr>))"

definition save_builtin_error_template_override ::
  "builtin_error_template_override_record \<Rightarrow> control_plane_store \<Rightarrow>
   builtin_error_template_override_record \<times> control_plane_store" where
  "save_builtin_error_template_override record s =
     (record, bump (s\<lparr>cp_builtin_overrides :=
                hm_insert (bor_kind record, bor_code record) record (cp_builtin_overrides s)\<rparr>))"

definition delete_builtin_error_template_override ::
  "builtin_error_template_kind \<Rightarrow> string \<Rightarrow> control_plane_store \<Rightarrow> control_plane_store" where
  "delete_builtin_error_template_override kind code s =
     bump (s\<lparr>cp_builtin_overrides := hm_remove (kind, code) (cp_builtin_overrides s)\<rparr>)"

definition builtin_error_template ::
  "builtin_error_template_kind \<Rightarrow> string \<Rightarrow> control_plane_store \<Rightarrow> builtin_error_template_record option" where
  "builtin_error_template kind code s =
     find (\<lambda>t. bet_kind t = kind \<and> bet_code t = code) (list_builtin_error_templates_inner (cp_builtin_overrides s))"

section \<open>Models of an account\<close>

definition record_account_model_support ::
  "uuid \<Rightarrow> string list \<Rightarrow> control_plane_store \<Rightarrow> control_plane_store" where
  "record_account_model_support account_id supported_models s =
     (let normalized = remdups_adj (sort (filter (\<lambda>item. item \<noteq> []) (map trim supported_models)))
      in bump (s\<lparr>cp_pool := (cp_pool s)\<lparr>ps_model_support :=
           hm_insert account_id normalized (ps_model_support (cp_pool s))\<rparr>\<rparr>))"

section \<open>The complete snapshot\<close>

text \<open>
  The parts of a snapshot that are copied from these tables; the accounts, traits, plan and revision come
  from the pool.
\<close>

definition snapshot_settings :: "timestamp \<Rightarrow> control_plane_store \<Rightarrow> data_plane_snapshot" where
  "snapshot_settings now s =
     \<lparr>sn_revision = 0, sn_cursor = 0, sn_accounts = [], sn_account_traits = [], sn_compiled_routing_plan = None,
      sn_ai_error_learning_settings = cp_learning_settings s,
      sn_approved_upstream_error_templates =
        sort_key uet_fingerprint (filter (\<lambda>t. uet_status t = Approved) (map snd (cp_error_templates s))),
      sn_builtin_error_templates = list_builtin_error_templates_inner (cp_builtin_overrides s),
      sn_outbound_proxy_pool_settings = cp_proxy_settings s,
      sn_outbound_proxy_nodes = list_outbound_proxy_nodes_inner s,
      sn_claude_code_routing_settings = cp_claude_settings s, sn_issued_at = now\<rparr>"

definition store_snapshot ::
  "pool_deps \<Rightarrow> uuid \<Rightarrow> timestamp \<Rightarrow> control_plane_store \<Rightarrow> data_plane_snapshot \<times> control_plane_store" where
  "store_snapshot d new_id now s =
     on_pool (snapshot_inner d new_id now (snapshot_settings now s)) s"

end
