(* ===== verification/Api_Keys.thy ===== *)
theory Api_Keys
  imports Store_Admin Auth
begin

text \<open>
  API keys in the control plane: the keyed hash of \<^verbatim>\<open>services/control-plane/src/security.rs\<close>, creation,
  switching and validation of keys in the in-memory store (\<^verbatim>\<open>store/in_memory_core.rs\<close>), the endpoint that
  answers the data plane (\<^verbatim>\<open>app/tail_handlers/policies_snapshot.rs\<close>), and the token lookup of the
  Postgres store (\<^verbatim>\<open>store/postgres/impl_crud/tenant_accounts.rs\<close>). HMAC-SHA256, SHA-256 (both in
  hexadecimal) and Base64 are parameters.
\<close>

section \<open>Hashing of tokens\<close>

record api_key_hmac_key =
  hk_key_id :: string
  hk_secret :: string

record api_key_token_hasher =
  th_active :: api_key_hmac_key
  th_all :: "api_key_hmac_key list"

record hash_functions =
  hf_hmac_sha256 :: "string \<Rightarrow> string \<Rightarrow> string"
  hf_sha256 :: "string \<Rightarrow> string"
  hf_base64_decode :: "string \<Rightarrow> string option"

text \<open>\<^verbatim>\<open>str::split_once(':')\<close>.\<close>

fun split_once :: "char \<Rightarrow> string \<Rightarrow> (string \<times> string) option" where
  "split_once c [] = None"
| "split_once c (x # xs) =
     (if x = c then Some ([], xs)
      else map_option (\<lambda>(left, right). (x # left, right)) (split_once c xs))"

definition is_key_id_char :: "char \<Rightarrow> bool" where
  "is_key_id_char c \<longleftrightarrow>
     (let n = of_char c :: nat
      in 48 \<le> n \<and> n \<le> 57 \<or> 65 \<le> n \<and> n \<le> 90 \<or> 97 \<le> n \<and> n \<le> 122) \<or> c = CHR ''-'' \<or> c = CHR ''_''"

definition parse_hmac_key :: "hash_functions \<Rightarrow> string \<Rightarrow> string + api_key_hmac_key" where
  "parse_hmac_key hf item =
     (case split_once CHR '':'' item of
        None \<Rightarrow> Inl (''invalid api-key hmac key entry: '' @ item)
      | Some (raw_id, secret_b64) \<Rightarrow>
          let key_id = trim raw_id in
          if key_id = [] then Inl ''api-key hmac key id must not be empty''
          else if \<not> list_all is_key_id_char key_id
          then Inl (''api-key hmac key id contains invalid characters: '' @ key_id)
          else case hf_base64_decode hf (trim secret_b64) of
                 None \<Rightarrow> Inl (''failed to decode base64 secret for key id '' @ key_id)
               | Some secret \<Rightarrow>
                   if length secret < 32
                   then Inl (''api-key hmac secret for key id '' @ key_id @ '' must be at least 32 bytes'')
                   else Inr \<lparr>hk_key_id = key_id, hk_secret = secret\<rparr>)"

fun parse_hmac_keys :: "hash_functions \<Rightarrow> string list \<Rightarrow> string + api_key_hmac_key list" where
  "parse_hmac_keys hf [] = Inr []"
| "parse_hmac_keys hf (item # items) =
     (case parse_hmac_key hf item of
        Inl e \<Rightarrow> Inl e
      | Inr key \<Rightarrow> (case parse_hmac_keys hf items of Inl e \<Rightarrow> Inl e | Inr keys \<Rightarrow> Inr (key # keys)))"

definition from_raw_keys :: "hash_functions \<Rightarrow> string \<Rightarrow> string + api_key_token_hasher" where
  "from_raw_keys hf raw =
     (case parse_hmac_keys hf (filter (\<lambda>item. item \<noteq> []) (map trim (split_on CHR '','' raw))) of
        Inl e \<Rightarrow> Inl e
      | Inr [] \<Rightarrow> Inl ''CONTROL_PLANE_API_KEY_HMAC_KEYS must contain at least one key''
      | Inr (key # keys) \<Rightarrow> Inr \<lparr>th_active = key, th_all = key # keys\<rparr>)"

definition hash_with_key :: "hash_functions \<Rightarrow> api_key_hmac_key \<Rightarrow> string \<Rightarrow> string" where
  "hash_with_key hf key token =
     ''hmac-sha256'' @ '':'' @ hk_key_id key @ '':'' @ hf_hmac_sha256 hf (hk_secret key) token"

definition hash_active :: "hash_functions \<Rightarrow> api_key_token_hasher \<Rightarrow> string \<Rightarrow> string" where
  "hash_active hf hasher token = hash_with_key hf (th_active hasher) token"

definition push_new :: "'a \<Rightarrow> 'a list \<Rightarrow> 'a list" where
  "push_new x xs = (if x \<in> set xs then xs else xs @ [x])"

definition hash_candidates :: "hash_functions \<Rightarrow> api_key_token_hasher \<Rightarrow> string \<Rightarrow> string list" where
  "hash_candidates hf hasher token =
     push_new token (push_new (hf_sha256 hf token) (map (\<lambda>key. hash_with_key hf key token) (th_all hasher)))"

section \<open>Keys in the in-memory store\<close>

text \<open>\<^verbatim>\<open>Uuid::simple\<close>: 32 hexadecimal digits.\<close>

fun hex_fixed :: "nat \<Rightarrow> nat \<Rightarrow> string" where
  "hex_fixed 0 n = []"
| "hex_fixed (Suc k) n = hex_fixed k (n div 16) @ [hex_digit (n mod 16)]"

definition plaintext_key :: "uuid \<Rightarrow> string" where
  "plaintext_key u = ''cp_'' @ hex_fixed 32 u"

record validated_principal =
  vp_tenant_id :: uuid
  vp_api_key_id :: uuid
  vp_api_key_group_id :: uuid
  vp_api_key_group_name :: string
  vp_api_key_group_invalid :: bool
  vp_enabled :: bool
  vp_key_ip_allowlist :: "string list"
  vp_key_model_allowlist :: "string list"
  vp_tenant_status :: "string option"
  vp_tenant_expires_at :: "timestamp option"
  vp_balance_microcredits :: "int option"

definition create_api_key_inner ::
  "(string \<Rightarrow> string) \<Rightarrow> uuid \<Rightarrow> uuid \<Rightarrow> timestamp \<Rightarrow> uuid \<Rightarrow> string \<Rightarrow> control_plane_store \<Rightarrow>
   (api_key \<times> string) \<times> control_plane_store" where
  "create_api_key_inner hash token_uuid new_id now tenant_id name s =
     (let plaintext = plaintext_key token_uuid;
          record = \<lparr>ak_id = new_id, ak_tenant_id = tenant_id, ak_name = name,
                    ak_key_prefix = take 12 plaintext, ak_key_hash = hash plaintext,
                    ak_enabled = True, ak_created_at = now\<rparr>
      in ((record, plaintext),
          s\<lparr>cp_api_keys := hm_insert new_id record (cp_api_keys s),
            cp_api_key_tokens := hm_insert (hash plaintext) new_id (cp_api_key_tokens s)\<rparr>))"

definition list_api_keys_inner :: "control_plane_store \<Rightarrow> api_key list" where
  "list_api_keys_inner s = map snd (cp_api_keys s)"

definition set_api_key_enabled_inner ::
  "uuid \<Rightarrow> bool \<Rightarrow> control_plane_store \<Rightarrow> (string + api_key) \<times> control_plane_store" where
  "set_api_key_enabled_inner api_key_id enabled s =
     (case map_of (cp_api_keys s) api_key_id of
        None \<Rightarrow> (Inl ''api key not found'', s)
      | Some key \<Rightarrow>
          let key' = key\<lparr>ak_enabled := enabled\<rparr>
          in (Inr key', s\<lparr>cp_api_keys := hm_insert api_key_id key' (cp_api_keys s)\<rparr>))"

definition principal_of_key :: "api_key \<Rightarrow> validated_principal" where
  "principal_of_key key =
     \<lparr>vp_tenant_id = ak_tenant_id key, vp_api_key_id = ak_id key, vp_api_key_group_id = 0,
      vp_api_key_group_name = ''default'', vp_api_key_group_invalid = False, vp_enabled = ak_enabled key,
      vp_key_ip_allowlist = [], vp_key_model_allowlist = [], vp_tenant_status = Some ''active'',
      vp_tenant_expires_at = None, vp_balance_microcredits = None\<rparr>"

definition validate_api_key_inner ::
  "(string \<Rightarrow> string) \<Rightarrow> string \<Rightarrow> control_plane_store \<Rightarrow> validated_principal option" where
  "validate_api_key_inner hash token s =
     map_option principal_of_key
       (Option.bind (map_of (cp_api_key_tokens s) (hash token)) (map_of (cp_api_keys s)))"

section \<open>The endpoint\<close>

text \<open>
  What the endpoint is configured with: the token of internal services, the edition's capabilities and the
  time for which an answer may be kept. An error is its status.
\<close>

record validate_endpoint =
  ve_internal_auth_token :: string
  ve_capabilities :: system_capabilities
  ve_cache_ttl_sec :: nat

definition cp_require_internal_service_token :: "validate_endpoint \<Rightarrow> header_map \<Rightarrow> status_code + unit" where
  "cp_require_internal_service_token e headers =
     (case header_str headers ''authorization'' of
        None \<Rightarrow> Inl 401
      | Some authorization \<Rightarrow>
          (case or_else (strip_prefix ''Bearer '' authorization) (strip_prefix ''bearer '' authorization) of
             None \<Rightarrow> Inl 401
           | Some token \<Rightarrow> if token \<noteq> ve_internal_auth_token e then Inl 401 else Inr ()))"

definition validate_response :: "validate_endpoint \<Rightarrow> validated_principal \<Rightarrow> validate_api_key_response" where
  "validate_response e p =
     \<lparr>vr_tenant_id = vp_tenant_id p, vr_api_key_id = vp_api_key_id p, vr_enabled = vp_enabled p,
      vr_group = \<lparr>kg_id = vp_api_key_group_id p, kg_name = vp_api_key_group_name p,
                  kg_invalid = vp_api_key_group_invalid p\<rparr>,
      vr_policy = \<lparr>kp_ip_allowlist = vp_key_ip_allowlist p, kp_model_allowlist = vp_key_model_allowlist p\<rparr>,
      vr_tenant_status = vp_tenant_status p, vr_tenant_expires_at = vp_tenant_expires_at p,
      vr_balance_microcredits = visible_balance_microcredits (ve_capabilities e) (vp_balance_microcredits p),
      vr_cache_ttl_sec = ve_cache_ttl_sec e\<rparr>"

definition validate_api_key ::
  "(string \<Rightarrow> string) \<Rightarrow> validate_endpoint \<Rightarrow> header_map \<Rightarrow> string \<Rightarrow> control_plane_store \<Rightarrow>
   status_code + validate_api_key_response" where
  "validate_api_key hash e headers token s =
     (case cp_require_internal_service_token e headers of
        Inl status \<Rightarrow> Inl status
      | Inr _ \<Rightarrow>
          (case validate_api_key_inner hash token s of
             None \<Rightarrow> Inl 401
           | Some p \<Rightarrow> Inr (validate_response e p)))"

text \<open>
  The answer as the data plane receives it when it calls the endpoint with its own internal token; the body
  of an error is not a validation response, so that reading it as one fails.
\<close>

definition not_a_response :: reqwest_error where
  "not_a_response = \<lparr>re_is_connect = False, re_is_timeout = False, re_is_request = False, re_status = None\<rparr>"

definition endpoint_reply ::
  "(string \<Rightarrow> string) \<Rightarrow> validate_endpoint \<Rightarrow> string \<Rightarrow> control_plane_store \<Rightarrow> string \<Rightarrow> validate_reply" where
  "endpoint_reply hash e internal_auth_token s token =
     (case validate_api_key hash e [(''authorization'', ''Bearer '' @ internal_auth_token)] token s of
        Inl status \<Rightarrow> HttpReply status (Inl not_a_response)
      | Inr response \<Rightarrow> HttpReply 200 (Inr response))"

section \<open>The key tables of the Postgres store\<close>

text \<open>
  The rows of \<^verbatim>\<open>api_key_tokens\<close>, whose primary key is the token, and the hashes in \<^verbatim>\<open>api_keys\<close>. A key is
  found by any of its candidate hashes, and a row that is not stored under the active hash is rewritten in a
  transaction with the hash in \<^verbatim>\<open>api_keys\<close>. If the active hash is taken by another row, the first statement
  fails and the transaction leaves both tables alone; the caller logs that and answers all the same.
\<close>

record token_row =
  tk_token :: string
  tk_api_key_id :: uuid

record key_tables =
  kt_tokens :: "token_row list"
  kt_key_hashes :: "(uuid \<times> string) list"

definition find_token_row :: "string list \<Rightarrow> token_row list \<Rightarrow> token_row option" where
  "find_token_row candidates rows = find (\<lambda>r. tk_token r \<in> set candidates) rows"

definition upgrade_tokens :: "uuid \<Rightarrow> string \<Rightarrow> string \<Rightarrow> token_row list \<Rightarrow> token_row list" where
  "upgrade_tokens api_key_id stored_token token_hash =
     map (\<lambda>r. if tk_api_key_id r = api_key_id \<and> tk_token r = stored_token then r\<lparr>tk_token := token_hash\<rparr> else r)"

definition upgrade_key_hashes :: "uuid \<Rightarrow> string list \<Rightarrow> string \<Rightarrow> (uuid \<times> string) list \<Rightarrow> (uuid \<times> string) list" where
  "upgrade_key_hashes api_key_id candidates token_hash =
     map (\<lambda>(i, h). (i, if i = api_key_id \<and> h \<in> set candidates then token_hash else h))"

definition upgrade_api_key_token_hash ::
  "hash_functions \<Rightarrow> api_key_token_hasher \<Rightarrow> uuid \<Rightarrow> string \<Rightarrow> string \<Rightarrow> string \<Rightarrow> key_tables \<Rightarrow>
   (string + bool) \<times> key_tables" where
  "upgrade_api_key_token_hash hf hasher api_key_id stored_token plaintext_token token_hash kt =
     (if stored_token = token_hash then (Inr False, kt)
      else
        let tokens = upgrade_tokens api_key_id stored_token token_hash (kt_tokens kt);
            candidates = hash_candidates hf hasher plaintext_token @
              [''plaintext:'' @ plaintext_token, stored_token];
            key_hashes = upgrade_key_hashes api_key_id candidates token_hash (kt_key_hashes kt)
        in if tokens \<noteq> kt_tokens kt \<and> token_hash \<in> tk_token ` set (kt_tokens kt)
           then (Inl ''failed to upgrade api_key_tokens token hash'', kt)
           else (Inr (tokens \<noteq> kt_tokens kt \<or> key_hashes \<noteq> kt_key_hashes kt),
                 kt\<lparr>kt_tokens := tokens, kt_key_hashes := key_hashes\<rparr>))"

definition fetch_api_key_id_by_token ::
  "hash_functions \<Rightarrow> api_key_token_hasher \<Rightarrow> string \<Rightarrow> key_tables \<Rightarrow> uuid option \<times> key_tables" where
  "fetch_api_key_id_by_token hf hasher token kt =
     (let token_hash = hash_active hf hasher token
      in case find_token_row (hash_candidates hf hasher token) (kt_tokens kt) of
           None \<Rightarrow> (None, kt)
         | Some r \<Rightarrow>
             (Some (tk_api_key_id r),
              if tk_token r \<noteq> token_hash
              then snd (upgrade_api_key_token_hash hf hasher (tk_api_key_id r) (tk_token r) token token_hash kt)
              else kt))"

end
