(* ===== verification/Api_Keys_Props.thy ===== *)
theory Api_Keys_Props
  imports Api_Keys Auth_Props
begin

text \<open>
  From the key table to the request: the store validates exactly the keys it has issued, the middleware of a
  data plane decides by them, and a key that is switched off is refused once the answers given before have
  expired.
\<close>

section \<open>Issued keys\<close>

lemma hex_fixed_length [simp]: "length (hex_fixed k n) = k"
  by (induction k arbitrary: n) simp_all

lemma hex_digit_inj: "a < 16 \<Longrightarrow> b < 16 \<Longrightarrow> hex_digit a = hex_digit b \<Longrightarrow> a = b"
  by (metis hex_value_digit)

lemma hex_fixed_inj: "m < 16 ^ k \<Longrightarrow> n < 16 ^ k \<Longrightarrow> hex_fixed k m = hex_fixed k n \<Longrightarrow> m = n"
proof (induction k arbitrary: m n)
  case (Suc k)
  then have "hex_fixed k (m div 16) = hex_fixed k (n div 16)" "hex_digit (m mod 16) = hex_digit (n mod 16)" by simp_all
  moreover have "m div 16 < 16 ^ k" "n div 16 < 16 ^ k" using Suc.prems by (simp_all add: less_mult_imp_div_less mult.commute)
  ultimately have "m div 16 = n div 16" "m mod 16 = n mod 16"
    using Suc.IH hex_digit_inj [of "m mod 16" "n mod 16"] by simp_all
  then show ?case by (metis div_mult_mod_eq)
qed simp

lemma plaintext_key_inj: "u < 2 ^ 128 \<Longrightarrow> u' < 2 ^ 128 \<Longrightarrow> plaintext_key u = plaintext_key u' \<Longrightarrow> u = u'"
  by (rule hex_fixed_inj [of _ 32]) (simp_all add: plaintext_key_def)

text \<open>What an administrator has issued, as a list of keys with their present state.\<close>

record issued_key =
  ik_token :: string
  ik_id :: uuid
  ik_tenant :: uuid
  ik_enabled :: bool

definition lookup_issued :: "issued_key list \<Rightarrow> string \<Rightarrow> issued_key option" where
  "lookup_issued K token = find (\<lambda>k. ik_token k = token) K"

definition issued_principal :: "issued_key \<Rightarrow> validated_principal" where
  "issued_principal k =
     \<lparr>vp_tenant_id = ik_tenant k, vp_api_key_id = ik_id k, vp_api_key_group_id = 0,
      vp_api_key_group_name = ''default'', vp_api_key_group_invalid = False, vp_enabled = ik_enabled k,
      vp_key_ip_allowlist = [], vp_key_model_allowlist = [], vp_tenant_status = Some ''active'',
      vp_tenant_expires_at = None, vp_balance_microcredits = None\<rparr>"

definition switch_issued :: "uuid \<Rightarrow> bool \<Rightarrow> issued_key list \<Rightarrow> issued_key list" where
  "switch_issued i b = map (\<lambda>k. if ik_id k = i then k\<lparr>ik_enabled := b\<rparr> else k)"

text \<open>
  The stores that arise when the keys of \<open>K\<close> have been issued: identifiers and tokens are fresh, and every
  operation that leaves the two key tables alone may run in between.
\<close>

inductive keys_reachable :: "(string \<Rightarrow> string) \<Rightarrow> issued_key list \<Rightarrow> control_plane_store \<Rightarrow> bool" for hash where
  keys_new: "keys_reachable hash [] (new_with_oauth now)"
| keys_create: "keys_reachable hash K s \<Longrightarrow> new_id \<notin> ik_id ` set K \<Longrightarrow> plaintext_key u \<notin> ik_token ` set K \<Longrightarrow>
    keys_reachable hash (\<lparr>ik_token = plaintext_key u, ik_id = new_id, ik_tenant = t, ik_enabled = True\<rparr> # K)
      (snd (create_api_key_inner hash u new_id now t name s))"
| keys_switch: "keys_reachable hash K s \<Longrightarrow>
    keys_reachable hash (switch_issued i b K) (snd (set_api_key_enabled_inner i b s))"
| keys_other: "keys_reachable hash K s \<Longrightarrow> cp_api_keys s' = cp_api_keys s \<Longrightarrow>
    cp_api_key_tokens s' = cp_api_key_tokens s \<Longrightarrow> keys_reachable hash K s'"

definition key_rows :: "issued_key list \<Rightarrow> control_plane_store \<Rightarrow> bool" where
  "key_rows K s \<longleftrightarrow>
     distinct (map ik_id K) \<and> distinct (map ik_token K) \<and>
     (\<forall>k \<in> set K. \<exists>a. map_of (cp_api_keys s) (ik_id k) = Some a \<and> ak_id a = ik_id k \<and>
        ak_tenant_id a = ik_tenant k \<and> ak_enabled a = ik_enabled k) \<and>
     (\<forall>i a. map_of (cp_api_keys s) i = Some a \<longrightarrow> i \<in> ik_id ` set K)"

definition token_rows :: "(string \<Rightarrow> string) \<Rightarrow> issued_key list \<Rightarrow> control_plane_store \<Rightarrow> bool" where
  "token_rows hash K s \<longleftrightarrow>
     map_of (cp_api_key_tokens s) = map_of (map (\<lambda>k. (hash (ik_token k), ik_id k)) K)"

lemma switch_issued_fields [simp]:
  "map ik_id (switch_issued i b K) = map ik_id K" "map ik_token (switch_issued i b K) = map ik_token K"
  "map (\<lambda>k. (hash (ik_token k), ik_id k)) (switch_issued i b K) = map (\<lambda>k. (hash (ik_token k), ik_id k)) K"
  by (auto simp: switch_issued_def)

lemma switch_issued_ids [simp]: "ik_id ` set (switch_issued i b K) = ik_id ` set K"
  using switch_issued_fields(1) [of i b K] by (metis set_map)

lemma key_rows_reachable: "keys_reachable hash K s \<Longrightarrow> key_rows K s"
proof (induction rule: keys_reachable.induct)
  case (keys_create K s new_id u t now name)
  then show ?case by (auto simp: key_rows_def create_api_key_inner_def Let_def map_of_hm_insert)
next
  case (keys_switch K s i b)
  show ?case
  proof (cases "map_of (cp_api_keys s) i")
    case None
    with keys_switch.IH have "i \<notin> ik_id ` set K" by (auto simp: key_rows_def)
    then have "switch_issued i b K = K" by (auto simp: switch_issued_def intro!: map_idI)
    with None keys_switch.IH show ?thesis by (simp add: set_api_key_enabled_inner_def)
  next
    case (Some a)
    have row: "\<exists>a'. map_of (cp_api_keys (snd (set_api_key_enabled_inner i b s))) (ik_id k) = Some a' \<and>
        ak_id a' = ik_id k \<and> ak_tenant_id a' = ik_tenant k \<and> ak_enabled a' = ik_enabled k"
      if member: "k \<in> set (switch_issued i b K)" for k
    proof -
      from member obtain k0 where "k0 \<in> set K" "k = (if ik_id k0 = i then k0\<lparr>ik_enabled := b\<rparr> else k0)"
        by (auto simp: switch_issued_def)
      with keys_switch.IH Some show ?thesis
        by (force simp: key_rows_def set_api_key_enabled_inner_def Let_def map_of_hm_insert)
    qed
    from keys_switch.IH Some show ?thesis unfolding key_rows_def
      by (intro conjI ballI row)
         (auto simp: set_api_key_enabled_inner_def Let_def map_of_hm_insert split: if_splits)
  qed
qed (auto simp: key_rows_def new_with_oauth_def)

lemma token_rows_reachable:
  "keys_reachable hash K s \<Longrightarrow> token_rows hash K s"
proof (induction rule: keys_reachable.induct)
  case (keys_create K s new_id u t now name)
  then show ?case
    by (auto simp: token_rows_def create_api_key_inner_def Let_def map_of_hm_insert)
next
  case (keys_switch K s i b)
  then show ?case
    by (auto simp: token_rows_def set_api_key_enabled_inner_def Let_def split: option.split)
qed (auto simp: token_rows_def new_with_oauth_def)

lemma lookup_issued_hash:
  assumes "inj_on hash (insert token (ik_token ` set K))"
  shows "map_of (map (\<lambda>k. (hash (ik_token k), ik_id k)) K) (hash token) = map_option ik_id (lookup_issued K token)"
  using assms
proof (induction K)
  case (Cons k K)
  have "hash token = hash (ik_token k) \<longleftrightarrow> ik_token k = token"
    using Cons.prems by (auto simp: inj_on_def)
  moreover have "inj_on hash (insert token (ik_token ` set K))" using Cons.prems by (rule inj_on_subset) auto
  ultimately show ?case using Cons.IH by (simp add: lookup_issued_def)
qed (simp add: lookup_issued_def)

lemma validate_refines_issued:
  assumes "keys_reachable hash K s" "inj_on hash (insert token (ik_token ` set K))"
  shows "validate_api_key_inner hash token s = map_option issued_principal (lookup_issued K token)"
proof (cases "lookup_issued K token")
  case None
  then show ?thesis
    using lookup_issued_hash [OF assms(2)] token_rows_reachable [OF assms(1)]
    by (simp add: validate_api_key_inner_def token_rows_def)
next
  case (Some k)
  then have "k \<in> set K" by (auto simp: lookup_issued_def find_Some_iff)
  with key_rows_reachable [OF assms(1)] obtain a where a: "map_of (cp_api_keys s) (ik_id k) = Some a"
    "ak_id a = ik_id k" "ak_tenant_id a = ik_tenant k" "ak_enabled a = ik_enabled k"
    by (auto simp: key_rows_def)
  then show ?thesis
    using lookup_issued_hash [OF assms(2)] token_rows_reachable [OF assms(1)] Some
    by (simp add: validate_api_key_inner_def token_rows_def principal_of_key_def issued_principal_def)
qed

section \<open>The answers of the endpoint\<close>

text \<open>The data plane calls with the token the endpoint expects.\<close>

definition endpoint_ok :: "validate_endpoint \<Rightarrow> string \<Rightarrow> bool" where
  "endpoint_ok e internal \<longleftrightarrow> internal = ve_internal_auth_token e \<and> list_all visible_byte internal"

lemma bearer_header:
  assumes "list_all visible_byte token"
  shows "header_str [(''authorization'', ''Bearer '' @ token)] ''authorization'' = Some (''Bearer '' @ token)"
proof -
  have "list_all visible_byte ''Bearer ''" by code_simp
  with assms show ?thesis by (simp add: header_str_def header_get_def to_str_def)
qed

lemma strip_bearer: "strip_prefix ''Bearer '' (''Bearer '' @ token) = Some token"
  by (simp add: strip_prefix_Some)

lemma extract_bearer_header:
  "list_all visible_byte token \<Longrightarrow> token \<noteq> [] \<Longrightarrow>
     extract_bearer [(''authorization'', ''Bearer '' @ token)] = Some token"
  unfolding extract_bearer_def by (simp only: bearer_header option.case strip_bearer if_False)

lemma endpoint_reply_ok:
  assumes "endpoint_ok e internal"
  shows "endpoint_reply hash e internal s token =
    (case validate_api_key_inner hash token s of
       None \<Rightarrow> HttpReply 401 (Inl not_a_response)
     | Some p \<Rightarrow> HttpReply 200 (Inr (validate_response e p)))"
proof -
  have tok: "list_all visible_byte internal" "internal = ve_internal_auth_token e"
    using assms unfolding endpoint_ok_def by blast+
  then have "cp_require_internal_service_token e [(''authorization'', ''Bearer '' @ internal)] = Inr ()"
    unfolding cp_require_internal_service_token_def bearer_header [OF tok(1)]
    by (simp only: option.case strip_bearer or_else_def) simp
  then show ?thesis by (simp add: endpoint_reply_def validate_api_key_def split: option.split)
qed

text \<open>
  With a wrong internal token the endpoint answers as for a key that does not exist, whatever the key: the
  data plane reports a valid key as unauthorized and remembers it, and fail-open does not help.
\<close>

lemma endpoint_wrong_internal_token:
  assumes "list_all visible_byte internal" "internal \<noteq> ve_internal_auth_token e"
  shows "endpoint_reply hash e internal s token = HttpReply 401 (Inl not_a_response)"
proof -
  have "cp_require_internal_service_token e [(''authorization'', ''Bearer '' @ internal)] = Inl 401"
    using assms(2) unfolding cp_require_internal_service_token_def bearer_header [OF assms(1)]
    by (simp only: option.case strip_bearer or_else_def) simp
  then show ?thesis by (simp add: endpoint_reply_def validate_api_key_def)
qed

lemma misconfigured_token_denies_keys:
  assumes "list_all visible_byte (av_internal_auth_token v)" "av_internal_auth_token v \<noteq> ve_internal_auth_token e"
    and "st_auth_validator st = Some v" "fst (lookup_cached_token H now token v) = LookupMiss"
  shows "fst (require_api_key_with_extractor H now (endpoint_reply hash e (av_internal_auth_token v) s)
      (Some token) msg st) = Reject 401 ''unauthorized'' ''api key is unauthorized''"
proof (cases rule: validate_cases
    [of now v H token "endpoint_reply hash e (av_internal_auth_token v) s token"])
  case (ask v')
  with assms(3) show ?thesis
    by (simp add: require_api_key_with_extractor_def endpoint_wrong_internal_token [OF assms(1,2)]
        handle_reply_def Let_def)
qed (use assms(4) in auto)

section \<open>Decisions\<close>

definition issued_decision :: "validate_endpoint \<Rightarrow> issued_key list \<Rightarrow> string \<Rightarrow> auth_outcome" where
  "issued_decision e K token =
     (case lookup_issued K token of
        None \<Rightarrow> Reject 401 ''unauthorized'' ''api key is unauthorized''
      | Some k \<Rightarrow>
          if ik_enabled k then Pass (Some (principal_of token (validate_response e (issued_principal k))))
          else Reject 403 ''forbidden'' ''api key is disabled'')"


text \<open>A store with one key, before and after it is switched off.\<close>

definition demo_hmac :: "string \<Rightarrow> string" where
  "demo_hmac token = ''h:'' @ token"

definition demo_key_store :: control_plane_store where
  "demo_key_store = snd (create_api_key_inner demo_hmac 1 2 0 3 ''key'' (new_with_oauth 0))"

definition demo_issued :: issued_key where
  "demo_issued = \<lparr>ik_token = plaintext_key 1, ik_id = 2, ik_tenant = 3, ik_enabled = True\<rparr>"

definition demo_endpoint :: validate_endpoint where
  "demo_endpoint = \<lparr>ve_internal_auth_token = ''s'', ve_capabilities = capabilities_for_edition Personal,
     ve_cache_ttl_sec = 60\<rparr>"

definition demo_auth_state :: "auth_validator \<Rightarrow> auth_state" where
  "demo_auth_state v = \<lparr>st_auth_validator = Some v, st_auth_fail_open = False, st_allowed_api_keys = {},
     st_control_plane_internal_auth_token = ''s''\<rparr>"

abbreviation demo_fresh_validator :: auth_validator where
  "demo_fresh_validator \<equiv> auth_validator_new ''u'' 30 10 ''s''"

lemma demo_endpoint_ok: "endpoint_ok demo_endpoint ''s''" by code_simp


section \<open>Revocation\<close>

text \<open>
  The gateway and the store together: time passes, the store changes in any way, requests are validated
  against the store of that moment or fail on the way, and the caches are managed. \<open>W\<close> has every store and
  every moment at which it was the current one and something happened.
\<close>

inductive gw_reachable ::
  "(string \<Rightarrow> u64) \<Rightarrow> (string \<Rightarrow> string) \<Rightarrow> validate_endpoint \<Rightarrow> instant \<Rightarrow> control_plane_store \<Rightarrow> auth_validator \<Rightarrow>
   (instant \<times> control_plane_store) list \<Rightarrow> bool" for H hash e where
  gw_init: "endpoint_ok e secret \<Longrightarrow>
    gw_reachable H hash e now s (auth_validator_new url ttl_sec negative_ttl_sec secret) [(now, s)]"
| gw_tick: "gw_reachable H hash e now s v W \<Longrightarrow> now \<le> t \<Longrightarrow> gw_reachable H hash e t s v ((t, s) # W)"
| gw_store: "gw_reachable H hash e now s v W \<Longrightarrow> gw_reachable H hash e now s' v ((now, s') # W)"
| gw_request: "gw_reachable H hash e now s v W \<Longrightarrow>
    gw_reachable H hash e now s
      (snd (validate H now token (endpoint_reply hash e (av_internal_auth_token v) s token) v)) W"
| gw_unreachable: "gw_reachable H hash e now s v W \<Longrightarrow>
    gw_reachable H hash e now s (snd (validate H now token (SendFailure err) v)) W"
| gw_evict: "gw_reachable H hash e now s v W \<Longrightarrow> gw_reachable H hash e now s (snd (evict_token H now token v)) W"
| gw_clear: "gw_reachable H hash e now s v W \<Longrightarrow> gw_reachable H hash e now s (snd (clear_cache v)) W"
| gw_total: "gw_reachable H hash e now s v W \<Longrightarrow> gw_reachable H hash e now s (snd (cached_principal_total now v)) W"
| gw_negative_total: "gw_reachable H hash e now s v W \<Longrightarrow>
    gw_reachable H hash e now s (snd (cached_negative_total now v)) W"

definition grants_from :: "(string \<Rightarrow> string) \<Rightarrow> validate_endpoint \<Rightarrow> (instant \<times> control_plane_store) list \<Rightarrow>
    (instant \<times> string \<times> validate_api_key_response) list \<Rightarrow> bool" where
  "grants_from hash e W G \<longleftrightarrow>
     (\<forall>(t, token, payload) \<in> set G. \<exists>s p. (t, s) \<in> set W \<and> validate_api_key_inner hash token s = Some p \<and>
        payload = validate_response e p)"

lemma grants_from_more: "grants_from hash e W G \<Longrightarrow> set W \<subseteq> set W' \<Longrightarrow> grants_from hash e W' G"
  unfolding grants_from_def by fast

lemma internal_token_pieces:
  "av_internal_auth_token (snd (get_cached_principal now k v)) = av_internal_auth_token v"
  "av_internal_auth_token (snd (is_cached_unauthorized now k v)) = av_internal_auth_token v"
  "av_internal_auth_token (snd (handle_reply now k token reply v)) = av_internal_auth_token v"
    apply (simp add: get_cached_principal_def split: option.split)
   apply (simp add: is_cached_unauthorized_def split: option.split)
  apply (simp add: handle_reply_def insert_cache_def insert_negative_cache_def Let_def
      split: validate_reply.split sum.split)
  done

lemma internal_token_validate [simp]:
  "av_internal_auth_token (snd (validate H now token reply v)) = av_internal_auth_token v"
proof -
  let ?k = "hash_api_key_token H token"
  obtain p v1 where 1: "get_cached_principal now ?k v = (p, v1)" by fastforce
  obtain d v2 where 2: "is_cached_unauthorized now ?k v1 = (d, v2)" by fastforce
  have "av_internal_auth_token v1 = av_internal_auth_token v" "av_internal_auth_token v2 = av_internal_auth_token v1"
    using internal_token_pieces(1) [of now ?k v] internal_token_pieces(2) [of now ?k v1] 1 2 by simp_all
  then show ?thesis by (simp add: validate_def Let_def 1 2 internal_token_pieces split: option.split bool.split)
qed

lemma internal_token_const [simp]:
  "av_internal_auth_token (snd (evict_token H now token v)) = av_internal_auth_token v"
  "av_internal_auth_token (snd (clear_cache v)) = av_internal_auth_token v"
  "av_internal_auth_token (snd (cached_principal_total now v)) = av_internal_auth_token v"
  "av_internal_auth_token (snd (cached_negative_total now v)) = av_internal_auth_token v"
  by (simp_all add: evict_token_def evict_key_state clear_cache_def cached_principal_total_def
      cached_negative_total_def Let_def)

lemma validate_step_reachable:
  assumes "auth_reachable H now G D v"
  shows "auth_reachable H now G D (snd (validate H now token reply v)) \<or>
    auth_reachable H now (granted_by now token reply @ G) (denied_by now token reply @ D)
      (snd (validate H now token reply v))"
  using auth_cached [OF assms] auth_asked [OF assms] by blast

lemma gw_reachable_grants:
  "gw_reachable H hash e now s v W \<Longrightarrow>
     (now, s) \<in> set W \<and> endpoint_ok e (av_internal_auth_token v) \<and>
     (\<exists>G D. auth_reachable H now G D v \<and> grants_from hash e W G)"
proof (induction rule: gw_reachable.induct)
  case (gw_init secret now s url ttl_sec negative_ttl_sec)
  then show ?case
    using auth_init by (fastforce simp: grants_from_def auth_validator_new_def)
next
  case (gw_tick now s v W t)
  then show ?case by (meson auth_tick grants_from_more list.set_intros(1) set_subset_Cons)
next
  case (gw_store now s v W s')
  then show ?case by (meson grants_from_more list.set_intros(1) set_subset_Cons)
next
  case (gw_request now s v W token)
  then obtain G D where G: "auth_reachable H now G D v" "grants_from hash e W G" by blast
  let ?reply = "endpoint_reply hash e (av_internal_auth_token v) s token"
  have "grants_from hash e W (granted_by now token ?reply @ G)"
    using gw_request.IH G(2)
    by (auto simp: grants_from_def endpoint_reply_ok split: option.split)
  with G(2) gw_request.IH validate_step_reachable [OF G(1), of token ?reply] show ?case by auto
next
  case (gw_unreachable now s v W token err)
  then obtain G D where G: "auth_reachable H now G D v" "grants_from hash e W G" by blast
  with gw_unreachable.IH validate_step_reachable [OF G(1), of token "SendFailure err"] show ?case by auto
qed (auto intro: auth_evict auth_clear auth_total auth_negative_total)

definition key_enabled :: "(string \<Rightarrow> string) \<Rightarrow> control_plane_store \<Rightarrow> string \<Rightarrow> bool" where
  "key_enabled hash s token \<longleftrightarrow>
     (case validate_api_key_inner hash token s of Some p \<Rightarrow> vp_enabled p | None \<Rightarrow> False)"

lemma response_fields:
  "ap_enabled (principal_of token (validate_response e p)) = vp_enabled p"
  "vr_cache_ttl_sec (validate_response e p) = ve_cache_ttl_sec e"
  by (simp_all add: principal_of_def validate_response_def)

text \<open>
  C21. Revocation takes effect. Once a key has been off for as long as an answer may be kept, no request with
  it passes, however often it was used before: if at no moment of that time a store had the key, or one the
  data plane's hash does not tell from it, switched on, then the request is turned away. Fail-open is off.
\<close>

theorem revoked_key_refused:
  assumes "gw_reachable H hash e now s v W" "st_auth_validator st = Some v" "\<not> st_auth_fail_open st"
    and "life = (if ve_cache_ttl_sec e = 0 then av_default_cache_ttl v else from_secs (ve_cache_ttl_sec e))"
    and "\<And>t s' token'. (t, s') \<in> set W \<Longrightarrow> now < t + life \<Longrightarrow> H token' = H token \<Longrightarrow> \<not> key_enabled hash s' token'"
  shows "\<exists>status code message. fst (require_api_key_with_extractor H now
      (endpoint_reply hash e (av_internal_auth_token v) s) (Some token) msg st) = Reject status code message"
proof -
  let ?service = "endpoint_reply hash e (av_internal_auth_token v) s"
  let ?out = "fst (require_api_key_with_extractor H now ?service (Some token) msg st)"
  obtain G D where G: "auth_reachable H now G D v" "grants_from hash e W G"
    and current: "(now, s) \<in> set W" and ok: "endpoint_ok e (av_internal_auth_token v)"
    using gw_reachable_grants [OF assms(1)] by blast
  have "0 < av_default_cache_ttl v" using auth_reachable_inv [OF G(1)] by (simp add: auth_inv_def auth_ok_def)
  then have life: "0 < life" using assms(4) by (simp add: from_secs_def)
  have "?out \<noteq> Pass q" for q
  proof
    assume "?out = Pass q"
    with require_api_key_passes [OF assms(2), of H now ?service "Some token" msg q] assms(3)
    obtain p where p: "fst (validate H now token (?service token) v) = Inr (Some p)" "ap_enabled p" by auto
    then have "validate H now token (?service token) v =
        (Inr (Some p), snd (validate H now token (?service token) v))" by (metis prod.collapse)
    from validate_authentic [OF G(1) this]
    consider (asked) st payload where "?service token = HttpReply st (Inr payload)" "p = principal_of token payload"
      | (kept) t token' payload where "(t, token', payload) \<in> set G" "H token' = H token"
          "p = principal_of token' payload"
          "now < t + (if vr_cache_ttl_sec payload = 0 then av_default_cache_ttl v
                      else from_secs (vr_cache_ttl_sec payload))"
      by blast
    then show False
    proof cases
      case asked
      then obtain pr where "validate_api_key_inner hash token s = Some pr" "payload = validate_response e pr"
        using endpoint_reply_ok [OF ok, of hash s token] by (auto split: option.splits)
      with asked(2) p(2) have "key_enabled hash s token" by (simp add: key_enabled_def response_fields(1))
      with assms(5) [OF current _ refl] life show False by simp
    next
      case kept
      with G(2) obtain s' pr where "(t, s') \<in> set W" "validate_api_key_inner hash token' s' = Some pr"
        "payload = validate_response e pr" unfolding grants_from_def by fast
      with kept(3,4) p(2) assms(4) have "key_enabled hash s' token'" "now < t + life"
        by (auto simp: key_enabled_def response_fields split: if_splits)
      with assms(5) [OF \<open>(t, s') \<in> set W\<close> _ kept(2)] show False by blast
    qed
  qed
  then show ?thesis by (cases ?out) auto
qed

text \<open>The key is used, switched off after a second, and tried again after 70 seconds.\<close>

definition demo_off_store :: control_plane_store where
  "demo_off_store = snd (set_api_key_enabled_inner 2 False demo_key_store)"

definition demo_used_validator :: auth_validator where
  "demo_used_validator =
     snd (validate demo_hash 0 (plaintext_key 1) (endpoint_reply demo_hmac demo_endpoint
       (av_internal_auth_token demo_fresh_validator) demo_key_store (plaintext_key 1)) demo_fresh_validator)"

lemma demo_off: "\<not> key_enabled demo_hmac demo_off_store token"
  by (simp add: key_enabled_def validate_api_key_inner_def demo_off_store_def demo_key_store_def
      set_api_key_enabled_inner_def create_api_key_inner_def new_with_oauth_def principal_of_key_def Let_def)

lemma demo_gw_reachable:
  "gw_reachable demo_hash demo_hmac demo_endpoint (from_secs 70) demo_off_store demo_used_validator
     [(from_secs 70, demo_off_store), (from_secs 1, demo_off_store), (from_secs 1, demo_key_store),
      (0, demo_key_store)]"
proof -
  have "gw_reachable demo_hash demo_hmac demo_endpoint 0 demo_key_store demo_used_validator [(0, demo_key_store)]"
    unfolding demo_used_validator_def by (rule gw_request [OF gw_init [OF demo_endpoint_ok]])
  then have "gw_reachable demo_hash demo_hmac demo_endpoint (from_secs 1) demo_key_store demo_used_validator
      [(from_secs 1, demo_key_store), (0, demo_key_store)]" by (rule gw_tick) simp
  from gw_tick [OF gw_store [OF this, of demo_off_store], of "from_secs 70"] show ?thesis
    by (simp add: from_secs_def)
qed

theorem revoked_key_refused_witness:
  "\<exists>status code message. fst (require_api_key_with_extractor demo_hash (from_secs 70)
     (endpoint_reply demo_hmac demo_endpoint (av_internal_auth_token demo_used_validator) demo_off_store)
     (Some (plaintext_key 1)) ''m'' (demo_auth_state demo_used_validator)) = Reject status code message"
  by (rule revoked_key_refused [OF demo_gw_reachable _ _ refl])
     (auto simp: demo_auth_state_def demo_off demo_endpoint_def from_secs_def)

section \<open>Stored hashes as tokens\<close>

text \<open>
  The candidates of a token include the token itself, for rows that hold it in plain text. A row that holds a
  hash is therefore found by presenting the hash: whoever reads the table has every key. And the first such
  use rewrites the row to the hash of the hash, so that the token of the rightful owner is no longer found.
\<close>

lemma token_is_candidate: "token \<in> set (hash_candidates hf hasher token)"
  by (simp add: hash_candidates_def push_new_def)

lemma stored_hash_is_a_token:
  assumes "kt_tokens kt = [\<lparr>tk_token = hash_active hf hasher secret, tk_api_key_id = i\<rparr>]"
    and "hash_active hf hasher secret = stored"
    and "hash_active hf hasher stored \<notin> set (stored # hash_candidates hf hasher secret)"
  shows "fst (fetch_api_key_id_by_token hf hasher stored kt) = Some i"
    and "fst (fetch_api_key_id_by_token hf hasher secret (snd (fetch_api_key_id_by_token hf hasher stored kt))) = None"
  using assms token_is_candidate [of stored hf hasher]
  by (auto simp: fetch_api_key_id_by_token_def find_token_row_def upgrade_api_key_token_hash_def
      upgrade_tokens_def Let_def)

end
