(* ===== verification/Sqlite_Store.thy ===== *)
theory Sqlite_Store
  imports Api_Keys Snapshot
begin

text \<open>
  The store of the personal edition (\<^verbatim>\<open>store/sqlite_backed.rs\<close>): the in-memory store, written as a whole
  into one row of a SQLite table. Here: the persisted state, its export and its import, the change feed the
  data plane polls (\<^verbatim>\<open>app/tail_handlers/policies_snapshot.rs\<close>) and the task that feeds the embedded data
  plane of the single binary (\<^verbatim>\<open>single_binary.rs\<close>). How concurrent calls share one write of the row is in
  \<open>Sqlite_Persist\<close>. The rate-limit refresh jobs are left out of the state.
\<close>

section \<open>The database URL\<close>

definition normalize_sqlite_database_url :: "string \<Rightarrow> string" where
  "normalize_sqlite_database_url raw =
     (let trimmed = trim raw in
      if trimmed = [] then ''sqlite://./codex-pool-personal.sqlite?mode=rwc''
      else if prefix ''sqlite:'' trimmed
      then (if str_contains trimmed ''?'' \<or> trimmed = ''sqlite::memory:'' then trimmed
            else trimmed @ ''?mode=rwc'')
      else ''sqlite://'' @ trimmed @ ''?mode=rwc'')"

section \<open>The persisted state\<close>

record sqlite_persisted_store_state =
  sq_tenants :: "(uuid, tenant) hash_map"
  sq_api_keys :: "(uuid, api_key) hash_map"
  sq_api_key_tokens :: "(string, uuid) hash_map"
  sq_accounts :: "(uuid, upstream_account) hash_map"
  sq_account_auth_providers :: "(uuid, upstream_auth_provider) hash_map"
  sq_oauth_credentials :: "(uuid, oauth_credential_record) hash_map"
  sq_oauth_refresh_token_vault :: "(uuid, vault_record) hash_map"
  sq_session_profiles :: "(uuid, session_profile_record) hash_map"
  sq_account_health_states :: "(uuid, upstream_account_health_state_record) hash_map"
  sq_account_model_support :: "(uuid, string list) hash_map"
  sq_oauth_rate_limit_caches :: "(uuid, oauth_rate_limit_cache_record) hash_map"
  sq_outbound_proxy_pool_settings :: outbound_proxy_pool_settings
  sq_outbound_proxy_nodes :: "(uuid, outbound_proxy_node) hash_map"
  sq_policies :: "(uuid, routing_policy) hash_map"
  sq_routing_profiles :: "(uuid, routing_profile) hash_map"
  sq_model_routing_policies :: "(uuid, model_routing_policy) hash_map"
  sq_model_routing_settings :: model_routing_settings
  sq_claude_code_routing_settings :: claude_code_routing_settings
  sq_upstream_error_learning_settings :: ai_error_learning_settings
  sq_upstream_error_templates :: "upstream_error_template_record list"
  sq_builtin_error_template_overrides :: "builtin_error_template_override_record list"
  sq_routing_plan_versions :: "routing_plan_version list"
  sq_revision :: u64

definition export_sqlite_state :: "control_plane_store \<Rightarrow> sqlite_persisted_store_state" where
  "export_sqlite_state s =
     \<lparr>sq_tenants = cp_tenants s, sq_api_keys = cp_api_keys s, sq_api_key_tokens = cp_api_key_tokens s,
      sq_accounts = ps_accounts (cp_pool s), sq_account_auth_providers = ps_auth_providers (cp_pool s),
      sq_oauth_credentials = ps_credentials (cp_pool s), sq_oauth_refresh_token_vault = ps_vault (cp_pool s),
      sq_session_profiles = ps_session_profiles (cp_pool s),
      sq_account_health_states = ps_health (cp_pool s), sq_account_model_support = ps_model_support (cp_pool s),
      sq_oauth_rate_limit_caches = ps_rate_limit_caches (cp_pool s),
      sq_outbound_proxy_pool_settings = cp_proxy_settings s, sq_outbound_proxy_nodes = cp_proxy_nodes s,
      sq_policies = cp_policies s, sq_routing_profiles = ps_routing_profiles (cp_pool s),
      sq_model_routing_policies = ps_model_routing_policies (cp_pool s),
      sq_model_routing_settings = cp_model_routing_settings s,
      sq_claude_code_routing_settings = cp_claude_settings s,
      sq_upstream_error_learning_settings = cp_learning_settings s,
      sq_upstream_error_templates = map snd (cp_error_templates s),
      sq_builtin_error_template_overrides = map snd (cp_builtin_overrides s),
      sq_routing_plan_versions = cp_plan_versions s, sq_revision = max (ps_revision (cp_pool s)) 1\<rparr>"

definition from_sqlite_state :: "sqlite_persisted_store_state \<Rightarrow> control_plane_store" where
  "from_sqlite_state state =
     \<lparr>cp_tenants = sq_tenants state, cp_api_keys = sq_api_keys state,
      cp_api_key_tokens = sq_api_key_tokens state,
      cp_pool =
        \<lparr>ps_accounts = sq_accounts state, ps_auth_providers = sq_account_auth_providers state,
         ps_credentials = sq_oauth_credentials state, ps_vault = sq_oauth_refresh_token_vault state,
         ps_session_profiles = sq_session_profiles state, ps_health = sq_account_health_states state,
         ps_model_support = sq_account_model_support state,
         ps_rate_limit_caches = sq_oauth_rate_limit_caches state,
         ps_routing_profiles = sq_routing_profiles state,
         ps_model_routing_policies = sq_model_routing_policies state,
         ps_event_runtime = False, ps_events = [], ps_revision = max (sq_revision state) 1\<rparr>,
      cp_proxy_settings = sq_outbound_proxy_pool_settings state,
      cp_proxy_nodes = sq_outbound_proxy_nodes state, cp_policies = sq_policies state,
      cp_model_routing_settings = sq_model_routing_settings state,
      cp_claude_settings = sq_claude_code_routing_settings state,
      cp_learning_settings = sq_upstream_error_learning_settings state,
      cp_error_templates = hm_collect (map (\<lambda>r. (uet_id r, r)) (sq_upstream_error_templates state)),
      cp_error_template_index =
        hm_collect (map (\<lambda>r. (uet_fingerprint r, uet_id r)) (sq_upstream_error_templates state)),
      cp_builtin_overrides =
        hm_collect (map (\<lambda>r. ((bor_kind r, bor_code r), r)) (sq_builtin_error_template_overrides state)),
      cp_plan_versions = sq_routing_plan_versions state\<rparr>"

text \<open>
  Opening the database: the text of the row, if there is one, is decoded (\<open>decode\<close> stands for
  \<^verbatim>\<open>serde_json::from_str\<close>); without a row the store starts empty.
\<close>

definition load_state ::
  "(string \<Rightarrow> sqlite_persisted_store_state option) \<Rightarrow> string option \<Rightarrow>
   string + sqlite_persisted_store_state option" where
  "load_state decode row =
     (case row of
        None \<Rightarrow> Inr None
      | Some state_json \<Rightarrow>
          (case decode state_json of
             None \<Rightarrow> Inl ''failed to decode sqlite control-plane state payload''
           | Some state \<Rightarrow> Inr (Some state)))"

definition connect_with_oauth ::
  "(string \<Rightarrow> sqlite_persisted_store_state option) \<Rightarrow> timestamp \<Rightarrow> string option \<Rightarrow> string + control_plane_store" where
  "connect_with_oauth decode now row =
     (case load_state decode row of
        Inl e \<Rightarrow> Inl e
      | Inr (Some state) \<Rightarrow> Inr (from_sqlite_state state)
      | Inr None \<Rightarrow> Inr (new_with_oauth now))"

definition current_revision :: "control_plane_store \<Rightarrow> u64" where
  "current_revision s = max (ps_revision (cp_pool s)) 1"

section \<open>The change feed\<close>

text \<open>The in-memory store has no feed; the SQLite store sends everyone who is behind back to the snapshot.\<close>

definition in_memory_snapshot_events :: "nat \<Rightarrow> string + data_plane_snapshot_events_response" where
  "in_memory_snapshot_events after = Inr \<lparr>evr_cursor = after, evr_high_watermark = after, evr_events = []\<rparr>"

definition sqlite_snapshot_events :: "nat \<Rightarrow> control_plane_store \<Rightarrow> string + data_plane_snapshot_events_response" where
  "sqlite_snapshot_events after s =
     (if after < unat (current_revision s) then Inl ''cursor_gone'' else in_memory_snapshot_events after)"

record snapshot_events_query =
  seq_after :: "nat option"
  seq_limit :: "nat option"
  seq_wait_ms :: "nat option"

text \<open>
  The long poll. Each round asks the store and looks at the clock: a round of \<open>rounds\<close> has the answer of the
  store, the time elapsed when the answer came and the time elapsed when the pause is computed, both in
  milliseconds. The list ends where the observation ends; a poll that is still waiting there has no reply yet.
\<close>

type_synonym poll_observation = "(string + data_plane_snapshot_events_response) \<times> nat \<times> nat"

fun events_loop :: "nat \<Rightarrow> nat \<Rightarrow> nat \<Rightarrow> poll_observation list \<Rightarrow> events_reply option" where
  "events_loop wait_ms cursor high_watermark [] = None"
| "events_loop wait_ms cursor high_watermark ((answer, elapsed, elapsed') # rounds) =
     (case answer of
        Inl message \<Rightarrow> Some (if str_contains message ''cursor_gone'' then CursorGone else EventsError)
      | Inr response \<Rightarrow>
          let cursor' = max cursor (evr_cursor response);
              high_watermark' = max high_watermark (evr_high_watermark response);
              empty = EventsReply \<lparr>evr_cursor = cursor', evr_high_watermark = high_watermark', evr_events = []\<rparr>
          in if wait_ms = 0 \<or> evr_events response \<noteq> [] then Some (EventsReply response)
             else if wait_ms \<le> elapsed then Some empty
             else if wait_ms - elapsed' = 0 then Some empty
             else events_loop wait_ms cursor' high_watermark' rounds)"

definition data_plane_snapshot_events :: "snapshot_events_query \<Rightarrow> poll_observation list \<Rightarrow> events_reply option" where
  "data_plane_snapshot_events query rounds =
     (let after = given (seq_after query) 0;
          wait_ms = clamp (given (seq_wait_ms query) 30000) 0 60000
      in events_loop wait_ms after after rounds)"

section \<open>The embedded data plane\<close>

text \<open>
  One turn of the task that watches the revisions: \<open>revision\<close> is the value the channel holds, \<open>last_revision\<close> the one
  seen before.
\<close>

definition personal_sync_step ::
  "pool_deps \<Rightarrow> uuid \<Rightarrow> timestamp \<Rightarrow> nat \<Rightarrow> nat \<Rightarrow> control_plane_store \<Rightarrow> 'c app_config \<Rightarrow>
   nat \<times> control_plane_store \<times> 'c app_config" where
  "personal_sync_step d new_id now revision last_revision s st =
     (if revision \<le> last_revision then (last_revision, s, st)
      else let (snapshot, s') = store_snapshot d new_id now s
           in (revision, s', apply_snapshot snapshot st))"

end
