(* ===== verification/Sqlite_Store_Props.thy ===== *)
theory Sqlite_Store_Props
  imports Sqlite_Store Pool_Snapshot
begin

text \<open>
  What the personal edition's store promises: a restart gives back the state that was written, and a data
  plane that follows the change feed ends up with the snapshot of the newest revision. Changes that do not
  raise the revision are not followed, which is shown for the end of a quarantine.
\<close>

section \<open>Consistent tables\<close>

text \<open>
  Templates and overrides are stored under their own keys, and the index of fingerprints is the one of the
  templates.
\<close>

definition templates_ok :: "control_plane_store \<Rightarrow> bool" where
  "templates_ok s \<longleftrightarrow>
     hm_ok (cp_error_templates s) \<and> (\<forall>(i, t) \<in> set (cp_error_templates s). uet_id t = i) \<and>
     distinct (map (\<lambda>(_, t). uet_fingerprint t) (cp_error_templates s)) \<and>
     map_of (cp_error_template_index s) = map_of (map (\<lambda>(i, t). (uet_fingerprint t, i)) (cp_error_templates s))"

definition overrides_ok :: "control_plane_store \<Rightarrow> bool" where
  "overrides_ok s \<longleftrightarrow>
     hm_ok (cp_builtin_overrides s) \<and> (\<forall>(k, r) \<in> set (cp_builtin_overrides s). k = (bor_kind r, bor_code r))"

text \<open>
  A template is saved under the identifier it was found with by its fingerprint, or under a new one.
\<close>

definition save_ok :: "upstream_error_template_record \<Rightarrow> control_plane_store \<Rightarrow> bool" where
  "save_ok t s \<longleftrightarrow>
     (case upstream_error_template_by_fingerprint (uet_fingerprint t) s of
        Some old \<Rightarrow> uet_id t = uet_id old
      | None \<Rightarrow> map_of (cp_error_templates s) (uet_id t) = None)"

inductive admin_op :: "control_plane_store \<Rightarrow> control_plane_store \<Rightarrow> bool" where
  step_tenant: "admin_op s (snd (create_tenant_inner i now name s))"
| step_create_key: "admin_op s (snd (create_api_key_inner hash u i now t name s))"
| step_switch_key: "admin_op s (snd (set_api_key_enabled_inner i b s))"
| step_proxy_settings: "admin_op s (snd (update_outbound_proxy_pool_settings now b m s))"
| step_create_node: "admin_op s (snd (create_outbound_proxy_node_inner i now creq s))"
| step_update_node: "admin_op s (snd (update_outbound_proxy_node_inner now i ureq s))"
| step_delete_node: "admin_op s (snd (delete_outbound_proxy_node_inner i s))"
| step_test_node: "admin_op s (snd (record_outbound_proxy_test_result_inner now i st lat err at_time s))"
| step_policy: "admin_op s (snd (upsert_routing_policy_inner now i strategy n k s))"
| step_retry: "admin_op s (snd (upsert_retry_policy_inner now i n s))"
| step_stream_retry: "admin_op s (snd (upsert_stream_retry_policy_inner now i n s))"
| step_profile: "admin_op s (snd (upsert_routing_profile i now preq s))"
| step_delete_profile: "admin_op s (snd (delete_routing_profile i s))"
| step_model_policy: "admin_op s (snd (upsert_model_routing_policy i now mreq s))"
| step_delete_model_policy: "admin_op s (snd (delete_model_routing_policy i s))"
| step_model_settings: "admin_op s (snd (update_model_routing_settings now sreq s))"
| step_claude_settings: "admin_op s (snd (update_claude_code_routing_settings now lreq s))"
| step_learning_settings: "admin_op s (snd (update_upstream_error_learning_settings now b n k s))"
| step_save_template: "save_ok template s \<Longrightarrow> admin_op s (snd (save_upstream_error_template template s))"
| step_save_override: "admin_op s (snd (save_builtin_error_template_override override s))"
| step_delete_override: "admin_op s (delete_builtin_error_template_override kind code s)"
| step_model_support: "admin_op s (record_account_model_support i models s)"

inductive admin_reachable :: "control_plane_store \<Rightarrow> bool" where
  admin_new: "admin_reachable (new_with_oauth now)"
| admin_more: "admin_reachable s \<Longrightarrow> admin_op s s' \<Longrightarrow> admin_reachable s'"
| admin_pool: "admin_reachable s \<Longrightarrow> admin_reachable (s\<lparr>cp_pool := p\<rparr>)"

definition other_step :: "control_plane_store \<Rightarrow> control_plane_store \<Rightarrow> bool" where
  "other_step s s' \<longleftrightarrow>
     cp_error_templates s' = cp_error_templates s \<and> cp_error_template_index s' = cp_error_template_index s \<and>
     cp_builtin_overrides s' = cp_builtin_overrides s"

lemma bump_tables [simp]:
  "cp_error_templates (bump s) = cp_error_templates s" "cp_error_template_index (bump s) = cp_error_template_index s"
  "cp_builtin_overrides (bump s) = cp_builtin_overrides s" "cp_api_keys (bump s) = cp_api_keys s"
  "cp_api_key_tokens (bump s) = cp_api_key_tokens s"
  by (simp_all add: bump_def)

lemmas admin_defs =
  create_tenant_inner_def create_api_key_inner_def
  set_api_key_enabled_inner_def update_outbound_proxy_pool_settings_def create_outbound_proxy_node_inner_def
  update_outbound_proxy_node_inner_def update_proxy_node_def delete_outbound_proxy_node_inner_def
  record_outbound_proxy_test_result_inner_def upsert_routing_policy_inner_def store_policy_def
  upsert_retry_policy_inner_def upsert_stream_retry_policy_inner_def update_policy_def
  upsert_routing_profile_def delete_routing_profile_def upsert_model_routing_policy_def
  delete_model_routing_policy_def update_model_routing_settings_def update_claude_code_routing_settings_def
  update_upstream_error_learning_settings_def record_account_model_support_def Let_def

lemma hm_insert_absent: "k \<notin> fst ` set m \<Longrightarrow> hm_insert k v m = m @ [(k, v)]"
  by (induction m) auto

lemma hm_insert_present:
  "hm_ok m \<Longrightarrow> k \<in> fst ` set m \<Longrightarrow> hm_insert k v m = map (\<lambda>(k', v'). if k' = k then (k, v) else (k', v')) m"
  by (induction m) (auto intro!: map_idI [symmetric] simp: rev_image_eqI)

lemma hm_collect_distinct:
  assumes "distinct (map fst kvs)"
  shows "hm_collect kvs = kvs"
proof -
  have "fold (\<lambda>(k, v) m. hm_insert k v m) kvs m = m @ kvs" if "distinct (map fst (m @ kvs))" for m
    using that
  proof (induction kvs arbitrary: m)
    case (Cons kv kvs)
    obtain k v where kv: "kv = (k, v)" by fastforce
    with Cons.prems have "hm_insert k v m = m @ [(k, v)]" by (intro hm_insert_absent) auto
    with Cons.IH [of "m @ [(k, v)]"] Cons.prems kv show ?case by simp
  qed simp
  from this [of "[]"] assms show ?thesis by (simp add: hm_collect_def)
qed

lemma templates_ok_save:
  assumes "templates_ok s" "save_ok t s"
  shows "templates_ok (snd (save_upstream_error_template t s))"
proof -
  let ?T = "cp_error_templates s" and ?f = "uet_fingerprint t" and ?i = "uet_id t"
  let ?by_print = "map (\<lambda>(i, t). (uet_fingerprint t, i)) ?T"
  from assms(1) have ok: "hm_ok ?T" "\<forall>(i, t) \<in> set ?T. uet_id t = i"
    "distinct (map (\<lambda>(_, t). uet_fingerprint t) ?T)" "map_of (cp_error_template_index s) = map_of ?by_print"
    by (simp_all add: templates_ok_def)
  have fst_by: "map fst ?by_print = map (\<lambda>(_, t). uet_fingerprint t) ?T" by (auto simp: comp_def)
  have saved: "snd (save_upstream_error_template t s) =
      bump (s\<lparr>cp_error_template_index := hm_insert ?f ?i (cp_error_template_index s),
              cp_error_templates := hm_insert ?i t ?T\<rparr>)"
    by (simp add: save_upstream_error_template_def)
  show ?thesis
  proof (cases "map_of ?by_print ?f")
    case None
    then have new_print: "?f \<notin> (\<lambda>(_, t). uet_fingerprint t) ` set ?T"
      by (auto simp: map_of_eq_None_iff image_image case_prod_beta)
    have "map_of ?T ?i = None"
      using assms(2) None ok(4) by (simp add: save_ok_def upstream_error_template_by_fingerprint_def)
    then have "?i \<notin> fst ` set ?T" by (simp add: map_of_eq_None_iff)
    then have ins: "hm_insert ?i t ?T = ?T @ [(?i, t)]" by (rule hm_insert_absent)
    from None have "map_of (hm_insert ?f ?i (cp_error_template_index s)) = map_of (?by_print @ [(?f, ?i)])"
      unfolding update_conv' ok(4) by (auto simp: map_add_def fun_eq_iff split: option.split)
    then show ?thesis
      using ok(1-3) new_print \<open>?i \<notin> fst ` set ?T\<close> unfolding saved templates_ok_def ins
      by (auto simp: case_prod_beta image_iff)
  next
    case (Some j)
    then obtain t0 where t0: "(j, t0) \<in> set ?T" "uet_fingerprint t0 = ?f" by (auto dest!: map_of_SomeD)
    then have "map_of ?T j = Some t0" using ok(1) by simp
    then have i: "?i = j" using assms(2) Some t0(1) ok(2,4)
      by (auto simp: save_ok_def upstream_error_template_by_fingerprint_def)
    have ins: "hm_insert ?i t ?T = map (\<lambda>(k', v'). if k' = j then (j, t) else (k', v')) ?T"
      unfolding i using t0(1) ok(1) by (intro hm_insert_present) force+
    have same: "uet_fingerprint v = ?f" if "(j, v) \<in> set ?T" for v
      using that t0 ok(1) by (metis Some_eq_map_of_iff option.inject)
    have prints: "map (\<lambda>(i, t). (uet_fingerprint t, i)) (hm_insert ?i t ?T) = ?by_print"
      unfolding ins using same by auto
    then have "map fst (map (\<lambda>(i, t). (uet_fingerprint t, i)) (hm_insert ?i t ?T)) = map fst ?by_print" by simp
    then have "map (\<lambda>(_, t). uet_fingerprint t) (hm_insert ?i t ?T) = map (\<lambda>(_, t). uet_fingerprint t) ?T"
      by (simp add: comp_def case_prod_unfold)
    moreover have "map_of (hm_insert ?f ?i (cp_error_template_index s)) = map_of ?by_print"
      unfolding update_conv' ok(4) using Some i by (auto simp: fun_eq_iff)
    moreover have "hm_ok (hm_insert ?i t ?T)" using ok(1) by simp
    moreover have "\<forall>(k, v) \<in> set (hm_insert ?i t ?T). uet_id v = k"
      unfolding ins using ok(2) i by (auto split: if_splits)
    ultimately show ?thesis unfolding saved templates_ok_def using ok(3) prints by simp
  qed
qed

lemma overrides_ok_save:
  "overrides_ok s \<Longrightarrow> overrides_ok (snd (save_builtin_error_template_override r s))"
  "overrides_ok s \<Longrightarrow> overrides_ok (delete_builtin_error_template_override kind code s)"
  using set_hm_insert_subset [of "(bor_kind r, bor_code r)" r "cp_builtin_overrides s"]
    set_hm_remove_subset [of "(kind, code)" "cp_builtin_overrides s"]
  by (auto simp: overrides_ok_def save_builtin_error_template_override_def
      delete_builtin_error_template_override_def)

lemma admin_op_cases:
  assumes "admin_op s s'"
  obtains "other_step s s'"
  | t where "save_ok t s" "s' = snd (save_upstream_error_template t s)"
  | r where "s' = snd (save_builtin_error_template_override r s)"
  | kind code where "s' = delete_builtin_error_template_override kind code s"
  using assms
proof cases
  case (step_save_template t)
  then show ?thesis using that(2) by blast
next
  case (step_save_override r)
  then show ?thesis using that(3) by blast
next
  case (step_delete_override kind code)
  then show ?thesis using that(4) by blast
qed (rule that(1); simp add: other_step_def admin_defs
    split: option.split)+

lemma admin_reachable_ok: "admin_reachable s \<Longrightarrow> templates_ok s \<and> overrides_ok s"
proof (induction rule: admin_reachable.induct)
  case (admin_new now)
  show ?case by (simp add: templates_ok_def overrides_ok_def new_with_oauth_def)
next
  case (admin_more s s')
  from admin_more.hyps(2) show ?case
  proof (cases rule: admin_op_cases)
    case 1
    with admin_more.IH show ?thesis by (simp add: other_step_def templates_ok_def overrides_ok_def)
  next
    case (2 t)
    with admin_more.IH templates_ok_save [of s t] show ?thesis
      by (simp add: overrides_ok_def save_upstream_error_template_def)
  next
    case (3 r)
    with admin_more.IH overrides_ok_save(1) [of s r] show ?thesis
      by (simp add: templates_ok_def save_builtin_error_template_override_def)
  next
    case (4 kind code)
    with admin_more.IH overrides_ok_save(2) [of s kind code] show ?thesis
      by (simp add: templates_ok_def delete_builtin_error_template_override_def)
  qed
next
  case (admin_pool s p)
  then show ?case by (simp add: templates_ok_def overrides_ok_def)
qed

section \<open>Restart\<close>

text \<open>
  What the row does not keep: the runtime of the event log, and the index of fingerprints, which is rebuilt.
\<close>

definition quiet :: "pool_store \<Rightarrow> pool_store" where
  "quiet p = p\<lparr>ps_event_runtime := False, ps_events := []\<rparr>"

definition same_store :: "control_plane_store \<Rightarrow> control_plane_store \<Rightarrow> bool" where
  "same_store s s' \<longleftrightarrow>
     s\<lparr>cp_error_template_index := [], cp_pool := quiet (cp_pool s)\<rparr> =
     s'\<lparr>cp_error_template_index := [], cp_pool := quiet (cp_pool s')\<rparr> \<and>
     map_of (cp_error_template_index s) = map_of (cp_error_template_index s')"

lemma word_max_1: "0 < (r :: u64) \<Longrightarrow> max r 1 = r"
  by (rule max_absorb1) (simp add: word_le_nat_alt word_less_nat_alt)

lemma import_export:
  assumes "templates_ok s" "overrides_ok s" "0 < ps_revision (cp_pool s)"
  shows "same_store (from_sqlite_state (export_sqlite_state s)) s"
proof -
  let ?T = "cp_error_templates s" and ?O = "cp_builtin_overrides s"
  have T: "map (\<lambda>r. (uet_id r, r)) (map snd ?T) = ?T" "map (\<lambda>r. (uet_fingerprint r, uet_id r)) (map snd ?T) =
      map (\<lambda>(i, t). (uet_fingerprint t, i)) ?T"
    using assms(1) by (auto simp: templates_ok_def intro!: map_idI)
  have O: "map (\<lambda>r. ((bor_kind r, bor_code r), r)) (map snd ?O) = ?O"
    using assms(2) by (auto simp: overrides_ok_def intro!: map_idI)
  have "map fst (map (\<lambda>(i, t). (uet_fingerprint t, i)) ?T) = map (\<lambda>(_, t). uet_fingerprint t) ?T"
    by (auto simp: comp_def)
  then have index: "hm_collect (map (\<lambda>(i, t). (uet_fingerprint t, i)) ?T) = map (\<lambda>(i, t). (uet_fingerprint t, i)) ?T"
    using assms(1) by (intro hm_collect_distinct) (simp only: templates_ok_def)
  have tables: "hm_collect ?T = ?T" "hm_collect ?O = ?O"
    using assms(1,2) by (simp_all add: hm_collect_distinct templates_ok_def overrides_ok_def)
  show ?thesis
    unfolding same_store_def from_sqlite_state_def export_sqlite_state_def sqlite_persisted_store_state.simps T O
      index tables
    using assms(1,3) by (simp add: templates_ok_def quiet_def word_max_1)
qed

text \<open>Nothing a data plane or a client sees depends on what is not kept.\<close>

lemma quiet_fields [simp]:
  "ps_accounts (quiet p) = ps_accounts p" "ps_auth_providers (quiet p) = ps_auth_providers p"
  "ps_credentials (quiet p) = ps_credentials p" "ps_session_profiles (quiet p) = ps_session_profiles p"
  "ps_health (quiet p) = ps_health p" "ps_model_support (quiet p) = ps_model_support p"
  "ps_rate_limit_caches (quiet p) = ps_rate_limit_caches p" "ps_routing_profiles (quiet p) = ps_routing_profiles p"
  "ps_model_routing_policies (quiet p) = ps_model_routing_policies p" "ps_revision (quiet p) = ps_revision p"
  by (simp_all add: quiet_def)

lemma quiet_reads [simp]:
  "health_of (quiet p) i = health_of p i" "account_auth_provider (quiet p) i = account_auth_provider p i"
  "cache_of (quiet p) i = cache_of p i" "expired_one_time_ids now (quiet p) = expired_one_time_ids now p"
  by (simp_all add: health_of_def account_auth_provider_def cache_of_def expired_one_time_ids_def)

lemma quiet_steps:
  "bump_revision (quiet p) = quiet (bump_revision p)"
  "update_health i f (quiet p) = quiet (update_health i f p)"
  "remove_one_time_account i (quiet p) = quiet (remove_one_time_account i p)"
  by (simp_all add: bump_revision_def update_health_def remove_one_time_account_def quiet_def health_of_def)

lemma quiet_fold: "fold remove_one_time_account ids (quiet p) = quiet (fold remove_one_time_account ids p)"
  by (induction ids arbitrary: p) (simp_all add: quiet_steps)

lemma quiet_purge:
  "purge_expired_one_time_accounts_inner now (quiet p) = quiet (purge_expired_one_time_accounts_inner now p)"
  by (simp add: purge_expired_one_time_accounts_inner_def Let_def quiet_fold quiet_steps)

lemma quiet_record:
  "account_pool_state_record_inner now i (quiet p) =
     (fst (account_pool_state_record_inner now i p), quiet (snd (account_pool_state_record_inner now i p)))"
  by (simp add: account_pool_state_record_inner_def Let_def quiet_steps)

lemma quiet_retain:
  "retain_active now accounts (quiet p) =
     (fst (retain_active now accounts p), quiet (snd (retain_active now accounts p)))"
  by (induction accounts arbitrary: p) (simp_all add: quiet_record case_prod_beta Let_def)

lemma quiet_compile:
  "snapshot_account d now (quiet p) = snapshot_account d now p"
  "build_account_routing_traits now (quiet p) accounts = build_account_routing_traits now p accounts"
  "compile_routing_plan_from_state i now accounts traits (quiet p) =
   compile_routing_plan_from_state i now accounts traits p"
proof -
  have enabled: "credential_effective_enabled now (quiet p) = credential_effective_enabled now p"
    by (simp add: credential_effective_enabled_def fun_eq_iff)
  show "snapshot_account d now (quiet p) = snapshot_account d now p"
    unfolding snapshot_account_def enabled quiet_fields quiet_reads ..
  show "build_account_routing_traits now (quiet p) accounts = build_account_routing_traits now p accounts"
    unfolding build_account_routing_traits_def by simp
  show "compile_routing_plan_from_state i now accounts traits (quiet p) =
      compile_routing_plan_from_state i now accounts traits p"
    unfolding compile_routing_plan_from_state_def compile_profiles_def source_policies_def by simp
qed

lemma quiet_snapshot:
  "fst (snapshot_inner d i now other (quiet p)) = fst (snapshot_inner d i now other p)"
  by (simp add: snapshot_inner_def list_upstream_accounts_inner_def quiet_purge quiet_retain quiet_compile
      case_prod_beta Let_def)

lemma same_store_seen:
  assumes "same_store s s'"
  shows "fst (store_snapshot d i now s) = fst (store_snapshot d i now s')"
    and "validate_api_key_inner hash token s = validate_api_key_inner hash token s'"
    and "upstream_error_template_by_fingerprint f s = upstream_error_template_by_fingerprint f s'"
    and "ps_vault (cp_pool s) = ps_vault (cp_pool s')"
proof -
  from assms have parts: "cp_pool (s\<lparr>cp_error_template_index := [], cp_pool := quiet (cp_pool s)\<rparr>) =
      cp_pool (s'\<lparr>cp_error_template_index := [], cp_pool := quiet (cp_pool s')\<rparr>)"
    "snapshot_settings now (s\<lparr>cp_error_template_index := [], cp_pool := quiet (cp_pool s)\<rparr>) =
      snapshot_settings now (s'\<lparr>cp_error_template_index := [], cp_pool := quiet (cp_pool s')\<rparr>)"
    "cp_api_keys (s\<lparr>cp_error_template_index := [], cp_pool := quiet (cp_pool s)\<rparr>) =
      cp_api_keys (s'\<lparr>cp_error_template_index := [], cp_pool := quiet (cp_pool s')\<rparr>)"
    "cp_api_key_tokens (s\<lparr>cp_error_template_index := [], cp_pool := quiet (cp_pool s)\<rparr>) =
      cp_api_key_tokens (s'\<lparr>cp_error_template_index := [], cp_pool := quiet (cp_pool s')\<rparr>)"
    "cp_error_templates (s\<lparr>cp_error_template_index := [], cp_pool := quiet (cp_pool s)\<rparr>) =
      cp_error_templates (s'\<lparr>cp_error_template_index := [], cp_pool := quiet (cp_pool s')\<rparr>)"
    by (simp_all add: same_store_def)
  then have pool: "quiet (cp_pool s) = quiet (cp_pool s')"
    and settings: "snapshot_settings now s = snapshot_settings now s'"
    by (simp_all add: snapshot_settings_def list_outbound_proxy_nodes_inner_def)
  have "fst (store_snapshot d i now t) = fst (snapshot_inner d i now (snapshot_settings now t) (quiet (cp_pool t)))" for t
    unfolding quiet_snapshot by (simp add: store_snapshot_def on_pool_def split: prod.split)
  then show "fst (store_snapshot d i now s) = fst (store_snapshot d i now s')"
    using pool settings by simp
  have "ps_vault (quiet p) = ps_vault p" for p by (simp add: quiet_def)
  then show "ps_vault (cp_pool s) = ps_vault (cp_pool s')" using pool by metis
  show "validate_api_key_inner hash token s = validate_api_key_inner hash token s'"
    "upstream_error_template_by_fingerprint f s = upstream_error_template_by_fingerprint f s'"
    using parts(3-5) assms
    by (simp_all add: same_store_def validate_api_key_inner_def upstream_error_template_by_fingerprint_def)
qed



text \<open>The settings of the model router change the revision and nothing else that a data plane sees.\<close>

lemma model_routing_settings_inert:
  "snapshot_settings now (snd (update_model_routing_settings t req s)) = snapshot_settings now s \<and>
   cp_pool (snd (update_model_routing_settings t req s)) = bump_revision (cp_pool s)"
  by (simp add: update_model_routing_settings_def bump_def snapshot_settings_def list_outbound_proxy_nodes_inner_def
      Let_def)

text \<open>
  C22. A restart loses nothing. When the row holds the state of a store, opening the database gives a store with
  the same tables: every later snapshot for the data planes, every answer about an API key, every learned
  error template and the whole inventory of tokens are what they were. The text in the row is assumed to
  decode to the state that was encoded.
\<close>

theorem restart_keeps_state:
  assumes "admin_reachable s" "0 < ps_revision (cp_pool s)" "decode state_json = Some (export_sqlite_state s)"
  shows "\<exists>s'. connect_with_oauth decode now (Some state_json) = Inr s' \<and> same_store s' s \<and>
    (\<forall>d i t. fst (store_snapshot d i t s') = fst (store_snapshot d i t s)) \<and>
    (\<forall>hash token. validate_api_key_inner hash token s' = validate_api_key_inner hash token s) \<and>
    (\<forall>f. upstream_error_template_by_fingerprint f s' = upstream_error_template_by_fingerprint f s) \<and>
    ps_vault (cp_pool s') = ps_vault (cp_pool s)"
proof -
  have "same_store (from_sqlite_state (export_sqlite_state s)) s"
    using admin_reachable_ok [OF assms(1)] assms(2) by (intro import_export) simp_all
  with same_store_seen show ?thesis by (simp add: connect_with_oauth_def load_state_def assms(3))
qed

definition live_store :: control_plane_store where
  "live_store = (new_with_oauth 0)\<lparr>cp_pool := live_pool\<rparr>"

text \<open>The accounts and the revision of a snapshot come from the pool alone.\<close>

lemma store_snapshot_pool:
  fixes other :: data_plane_snapshot
  shows "sn_accounts (fst (store_snapshot d i now s)) = sn_accounts (fst (snapshot_inner d i now other (cp_pool s)))"
    and "sn_revision (fst (store_snapshot d i now s)) = sn_revision (fst (snapshot_inner d i now other (cp_pool s)))"
    and "cp_pool (snd (store_snapshot d i now s)) = snd (snapshot_inner d i now other (cp_pool s))"
  by (simp_all add: store_snapshot_def on_pool_def snapshot_inner_def case_prod_beta Let_def)

lemma live_store_facts: "0 < ps_revision (cp_pool live_store)" "unat (current_revision live_store) = 2"
  "Suc (unat (ps_revision (cp_pool live_store))) < 2 ^ 64"
  "map ua_id (sn_accounts (fst (store_snapshot live_deps 1 5 live_store))) = [7]"
  unfolding store_snapshot_pool(1) [where other = "demo_snapshot 0 []"] by code_simp+

theorem restart_keeps_state_witness:
  "\<exists>s'. connect_with_oauth (\<lambda>_. Some (export_sqlite_state live_store)) 9 (Some ''row'') = Inr s' \<and>
     map ua_id (sn_accounts (fst (store_snapshot live_deps 1 5 s'))) = [7]"
proof -
  have "admin_reachable live_store" unfolding live_store_def by (rule admin_pool [OF admin_new])
  from restart_keeps_state [OF this live_store_facts(1), of "\<lambda>_. Some (export_sqlite_state live_store)" "''row''" 9]
  obtain s' where "connect_with_oauth (\<lambda>_. Some (export_sqlite_state live_store)) 9 (Some ''row'') = Inr s'"
    "fst (store_snapshot live_deps 1 5 s') = fst (store_snapshot live_deps 1 5 live_store)" by auto
  with live_store_facts(4) show ?thesis by auto
qed

section \<open>The feed\<close>

lemma cursor_gone_text: "str_contains ''cursor_gone'' ''cursor_gone''"
  by code_simp

text \<open>The long poll over the SQLite store: an error as soon as the store is ahead, else an empty answer.\<close>

lemma sqlite_poll:
  "events_loop wait_ms cursor cursor (map (\<lambda>(s, e, e'). (sqlite_snapshot_events cursor s, e, e')) obs) =
     (case dropWhile (\<lambda>(s, e, e'). unat (current_revision s) \<le> cursor \<and> e < wait_ms \<and> e' < wait_ms) obs of
        [] \<Rightarrow> None
      | (s, e, e') # _ \<Rightarrow>
          Some (if cursor < unat (current_revision s) then CursorGone
                else EventsReply \<lparr>evr_cursor = cursor, evr_high_watermark = cursor, evr_events = []\<rparr>))"
proof (induction obs)
  case (Cons ob obs)
  obtain s e e' where ob: "ob = (s, e, e')" by (cases ob) auto
  show ?case
  proof (cases "cursor < unat (current_revision s)")
    case True
    then show ?thesis by (simp add: ob sqlite_snapshot_events_def cursor_gone_text)
  next
    case False
    with Cons.IH show ?thesis
      by (simp add: ob sqlite_snapshot_events_def [of cursor s] in_memory_snapshot_events_def Let_def)
  qed
qed simp

lemma retain_active_revision: "ps_revision (snd (retain_active now accounts p)) = ps_revision p"
proof (induction accounts arbitrary: p)
  case (Cons a accounts)
  have "ps_revision (snd (account_pool_state_record_inner now (ua_id a) p)) = ps_revision p"
    by (simp add: account_pool_state_record_inner_def update_health_def Let_def)
  with Cons.IH show ?case by (simp add: case_prod_beta Let_def)
qed simp

lemma snapshot_revision:
  assumes "store_snapshot d i now s = (snap, s')"
  shows "sn_revision snap = unat (current_revision s')" "sn_cursor snap = sn_revision snap"
proof -
  have unat_max: "max (unat (r :: u64)) (Suc 0) = unat (max r 1)" for r
    by (simp add: max_def word_le_nat_alt)
  from assms show "sn_revision snap = unat (current_revision s')" "sn_cursor snap = sn_revision snap"
    by (auto simp: store_snapshot_def on_pool_def snapshot_inner_def current_revision_def unat_max Let_def
        split: prod.splits)
qed

lemma purge_revision:
  "Suc (unat (ps_revision p)) < 2 ^ 64 \<Longrightarrow>
     ps_revision (purge_expired_one_time_accounts_inner now p) \<in> {ps_revision p, ps_revision p + 1} \<and>
     unat (ps_revision p) \<le> unat (ps_revision (purge_expired_one_time_accounts_inner now p))"
proof -
  assume small: "Suc (unat (ps_revision p)) < 2 ^ 64"
  have "ps_revision (fold remove_one_time_account ids p) = ps_revision p" for ids
    by (induction ids arbitrary: p) (simp_all add: remove_one_time_account_def)
  moreover have "unat (ps_revision p + 1) = Suc (unat (ps_revision p))"
    using small by (simp add: unat_word_ariths)
  ultimately show ?thesis
    by (simp add: purge_expired_one_time_accounts_inner_def Let_def bump_revision_def)
qed

lemma snapshot_not_older:
  assumes "store_snapshot d i now s = (snap, s')" "Suc (unat (ps_revision (cp_pool s))) < 2 ^ 64"
  shows "unat (current_revision s) \<le> sn_revision snap"
proof -
  let ?p1 = "purge_expired_one_time_accounts_inner now (cp_pool s)"
  have "cp_pool s' = snd (retain_active now (map snd (ps_accounts ?p1)) ?p1)"
    using assms(1)
    by (auto simp: store_snapshot_def on_pool_def snapshot_inner_def list_upstream_accounts_inner_def Let_def
        purge_one_time_idem split: prod.splits)
  then have "ps_revision (cp_pool s') = ps_revision ?p1" by (simp add: retain_active_revision)
  with purge_revision [OF assms(2), of now] have "ps_revision (cp_pool s) \<le> ps_revision (cp_pool s')"
    by (simp add: word_le_nat_alt)
  then have "current_revision s \<le> current_revision s'" unfolding current_revision_def by (rule max.mono) simp
  then show ?thesis using snapshot_revision(1) [OF assms(1)] by (simp add: word_le_nat_alt)
qed

lemma apply_newer_snapshot:
  assumes "ac_snapshot_revision st < sn_revision snap"
  shows "ac_snapshot_revision (apply_snapshot snap st) = sn_revision snap"
    and "ac_snapshot_cursor (apply_snapshot snap st) = sn_cursor snap"
    and "r_accounts (ac_router (apply_snapshot snap st)) = sn_accounts snap"
  using assms
  by (auto simp: apply_snapshot_def notify_route_updated_def replace_compiled_routing_plan_def
      replace_account_traits_def replace_accounts_def Let_def)

text \<open>
  C23. A data plane that is behind catches up in one round. When its cursor is below the revision of the store,
  the feed answers at once that the cursor is gone, and the round ends with the accounts and the revision of
  the store's snapshot; the store is then not ahead any more, so that the next poll waits.
\<close>

theorem feed_converges:
  assumes "0 < cursor" "ac_snapshot_revision st \<le> cursor" "cursor < unat (current_revision s)"
    and "Suc (unat (ps_revision (cp_pool s))) < 2 ^ 64"
    and "seq_after q = Some cursor" "store_snapshot d i now s = (snap, s')"
  shows "data_plane_snapshot_events q ((sqlite_snapshot_events cursor s, e, e') # obs) = Some CursorGone \<and>
    (\<exists>st'. poll_round initial CursorGone (Some snap) cursor st = (unat (current_revision s'), st', False) \<and>
      ac_snapshot_revision st' = sn_revision snap \<and> r_accounts (ac_router st') = sn_accounts snap \<and>
      sqlite_snapshot_events (unat (current_revision s')) s' \<noteq> Inl ''cursor_gone'')"
proof
  show "data_plane_snapshot_events q ((sqlite_snapshot_events cursor s, e, e') # obs) = Some CursorGone"
    using assms(3,5)
    by (simp add: data_plane_snapshot_events_def given_def sqlite_snapshot_events_def cursor_gone_text Let_def)
  let ?st1 = "st\<lparr>ac_cursor_gone_total := ac_cursor_gone_total st + 1\<rparr>"
  have "ac_snapshot_revision ?st1 < sn_revision snap"
    using assms(2,3) snapshot_not_older [OF assms(6,4)] by simp
  note applied = apply_newer_snapshot [OF this]
  have "poll_round initial CursorGone (Some snap) cursor st =
      (unat (current_revision s'), apply_snapshot snap ?st1, False)"
    using assms(1) applied(2) snapshot_revision [OF assms(6)]
    by (simp add: poll_round_def fetch_full_snapshot_def Let_def)
  with applied show "\<exists>st'. poll_round initial CursorGone (Some snap) cursor st =
      (unat (current_revision s'), st', False) \<and> ac_snapshot_revision st' = sn_revision snap \<and>
      r_accounts (ac_router st') = sn_accounts snap \<and>
      sqlite_snapshot_events (unat (current_revision s')) s' \<noteq> Inl ''cursor_gone''"
    by (auto simp: sqlite_snapshot_events_def in_memory_snapshot_events_def)
qed

theorem feed_converges_witness:
  "data_plane_snapshot_events \<lparr>seq_after = Some 1, seq_limit = None, seq_wait_ms = None\<rparr>
     [(sqlite_snapshot_events 1 live_store, 0, 0)] = Some CursorGone"
proof -
  have "ac_snapshot_revision demo_state \<le> 1" by code_simp
  from feed_converges [OF _ this, of live_store "\<lparr>seq_after = Some 1, seq_limit = None, seq_wait_ms = None\<rparr>"
      live_deps 1 5 "fst (store_snapshot live_deps 1 5 live_store)" "snd (store_snapshot live_deps 1 5 live_store)"
      0 0 "[]"]
  show ?thesis using live_store_facts(2,3) by simp
qed

text \<open>The embedded data plane follows every revision that is announced.\<close>

lemma personal_sync_follows:
  assumes "last_revision < revision" "revision \<le> unat (current_revision s)" "ac_snapshot_revision st < revision"
    and "Suc (unat (ps_revision (cp_pool s))) < 2 ^ 64"
    and "personal_sync_step d i now revision last_revision s st = (last', s', st')"
  shows "last' = revision \<and> revision \<le> ac_snapshot_revision st' \<and>
    r_accounts (ac_router st') = sn_accounts (fst (store_snapshot d i now s))"
proof -
  obtain snap s1 where snap: "store_snapshot d i now s = (snap, s1)" by fastforce
  with snapshot_not_older [OF snap assms(4)] assms(2,3) have "ac_snapshot_revision st < sn_revision snap"
    "revision \<le> sn_revision snap" by simp_all
  with apply_newer_snapshot [OF this(1)] assms(1,5) snap show ?thesis
    by (auto simp: personal_sync_step_def)
qed

section \<open>What is not followed\<close>

text \<open>
  The in-memory store alone has no feed: whatever changes in it, a data plane that has loaded a snapshot gets
  an empty answer and keeps its accounts.
\<close>

lemma in_memory_feed_is_silent:
  assumes "0 < cursor" "in_memory_snapshot_events cursor = Inr resp"
    and "poll_round initial (EventsReply resp) reload cursor st = (cursor', st', paused)"
  shows "ac_router st' = ac_router st" "ac_outbound_proxy_runtime st' = ac_outbound_proxy_runtime st"
  using assms
  by (auto simp: in_memory_snapshot_events_def poll_round_def apply_snapshot_events_def Let_def split: if_splits)

text \<open>A snapshot with the revision the data plane has is not looked at.\<close>

lemma equal_revision_ignored:
  assumes "sn_revision snap = ac_snapshot_revision st" "sn_cursor snap \<le> ac_snapshot_cursor st"
  shows "apply_snapshot snap st = st"
  using assms by (simp add: apply_snapshot_def)

text \<open>
  The end of a quarantine does not raise the revision: a data plane that has loaded a snapshot during the
  quarantine is not told to load another, and would not look at it if it did, although the account is in it.
\<close>

definition cooling_store :: control_plane_store where
  "cooling_store = live_store\<lparr>cp_pool :=
     snd (set_account_pool_state_quarantine_inner 7 0 (Some 10) None 0 live_pool)\<rparr>"

lemma cooling_snapshots:
  "sn_accounts (fst (store_snapshot live_deps 1 5 cooling_store)) = []"
  "map ua_id (sn_accounts (fst (store_snapshot live_deps 1 20 cooling_store))) = [7]"
  "sn_revision (fst (store_snapshot live_deps 1 5 cooling_store)) = 3"
  "sn_revision (fst (store_snapshot live_deps 1 20 cooling_store)) = 3"
  unfolding store_snapshot_pool(1,2) [where other = "demo_snapshot 0 []"] by code_simp+

lemma quarantine_end_not_followed:
  defines "before \<equiv> store_snapshot live_deps 1 5 cooling_store"
    and "after \<equiv> store_snapshot live_deps 1 20 cooling_store"
  shows "sn_accounts (fst before) = [] \<and> map ua_id (sn_accounts (fst after)) = [7] \<and>
    sqlite_snapshot_events (sn_cursor (fst before)) (snd after) \<noteq> Inl ''cursor_gone'' \<and>
    r_accounts (ac_router (apply_snapshot (fst after) (apply_snapshot (fst before) demo_state))) = []"
proof -
  have cursors: "sn_cursor (fst before) = 3" "sn_cursor (fst after) = 3" "unat (current_revision (snd after)) = 3"
    using snapshot_revision [of live_deps 1 5 cooling_store "fst before" "snd before"]
      snapshot_revision [of live_deps 1 20 cooling_store "fst after" "snd after"] cooling_snapshots(3,4)
    by (simp_all add: before_def after_def)
  have "ac_snapshot_revision demo_state < sn_revision (fst before)"
    using cooling_snapshots(3) by (simp add: demo_state_def before_def)
  note applied = apply_newer_snapshot [OF this]
  have "apply_snapshot (fst after) (apply_snapshot (fst before) demo_state) = apply_snapshot (fst before) demo_state"
    using applied cursors cooling_snapshots(3,4) by (intro equal_revision_ignored) (simp_all add: before_def after_def)
  with applied cursors cooling_snapshots(1,2) show ?thesis
    by (simp add: before_def after_def sqlite_snapshot_events_def in_memory_snapshot_events_def)
qed

end
