(* ===== verification/Sqlite_Persist.thy ===== *)
theory Sqlite_Persist
  imports Prelude
begin

text \<open>
  How concurrent calls of the SQLite store share the writing of its row (\<^verbatim>\<open>mark_persist_pending\<close>,
  \<^verbatim>\<open>persist_state_after_write\<close>, \<^verbatim>\<open>persist_state\<close> and \<^verbatim>\<open>persist_if_revision_changed\<close> of
  \<^verbatim>\<open>store/sqlite_backed.rs\<close>). Calls run in parallel; every access to an atomic, to the lock, to one table of
  the in-memory store or to the database is a step of its own, and the steps of different calls interleave in
  any way.

  A table is the list of the changes made to it, each with a name of its own. The export reads the tables one
  after the other, while others change. The generations and the revision are natural numbers: they are 64-bit
  counters that go up by one per call.
\<close>

section \<open>States\<close>

text \<open>
  Which calls persist: those that always do, those that do if the revision has changed since they began, and
  those that do when the operation reports a change.
\<close>

datatype persist_kind = AfterWrite | IfRevisionChanged nat | WhenReported

type_synonym 'w tables = "nat \<Rightarrow> 'w list"

text \<open>Where a call is. The generation, the tables read so far and the revision are its local variables.\<close>

datatype 'w phase =
  Working
| Marked
| Loaded nat
| Queued
| Holding
| Rechecked nat
| Exporting nat nat "'w tables"
| Exported nat "'w tables" nat
| Stored nat nat
| Announcing nat
| Returned bool

record 'w call =
  ca_kind :: persist_kind
  ca_phase :: "'w phase"
  ca_writes :: "(nat \<times> 'w) list"
  ca_bumped :: bool
  ca_mark :: "nat option"

record 'w persist_state =
  pc_tables :: "'w tables"
  pc_revision :: nat
  pc_generation :: nat
  pc_persisted_generation :: nat
  pc_lock :: "nat option"
  pc_row :: "'w tables"
  pc_row_writes :: nat
  pc_announced :: nat
  pc_calls :: "nat \<rightharpoonup> 'w call"

text \<open>The maps and values of \<^verbatim>\<open>SqlitePersistedStoreState\<close>, without the revision, which is read last.\<close>

definition table_count :: nat where
  "table_count = 23"

definition set_call :: "nat \<Rightarrow> 'w call \<Rightarrow> 'w persist_state \<Rightarrow> 'w persist_state" where
  "set_call p k c = c\<lparr>pc_calls := (pc_calls c)(p \<mapsto> k)\<rparr>"

definition initial_state :: "'w tables \<Rightarrow> nat \<Rightarrow> 'w persist_state" where
  "initial_state tables revision =
     \<lparr>pc_tables = tables, pc_revision = revision, pc_generation = max revision 1,
      pc_persisted_generation = max revision 1, pc_lock = None, pc_row = tables, pc_row_writes = 0,
      pc_announced = max revision 1, pc_calls = Map.empty\<rparr>"

section \<open>Steps\<close>

definition begin_call :: "nat \<Rightarrow> persist_kind \<Rightarrow> 'w persist_state \<Rightarrow> 'w persist_state" where
  "begin_call p kind c =
     set_call p \<lparr>ca_kind = kind, ca_phase = Working, ca_writes = [], ca_bumped = False, ca_mark = None\<rparr> c"

definition write_table :: "nat \<Rightarrow> 'w call \<Rightarrow> nat \<Rightarrow> 'w \<Rightarrow> 'w persist_state \<Rightarrow> 'w persist_state" where
  "write_table p k t w c =
     set_call p (k\<lparr>ca_writes := (t, w) # ca_writes k\<rparr>)
       (c\<lparr>pc_tables := (pc_tables c)(t := pc_tables c t @ [w])\<rparr>)"

definition write_revision :: "nat \<Rightarrow> 'w call \<Rightarrow> 'w persist_state \<Rightarrow> 'w persist_state" where
  "write_revision p k c = set_call p (k\<lparr>ca_bumped := True\<rparr>) (c\<lparr>pc_revision := pc_revision c + 1\<rparr>)"

definition return_call :: "bool \<Rightarrow> nat \<Rightarrow> 'w call \<Rightarrow> 'w persist_state \<Rightarrow> 'w persist_state" where
  "return_call ok p k c = set_call p (k\<lparr>ca_phase := Returned ok\<rparr>) c"

definition mark_persist_pending :: "nat \<Rightarrow> 'w call \<Rightarrow> 'w persist_state \<Rightarrow> 'w persist_state" where
  "mark_persist_pending p k c =
     set_call p (k\<lparr>ca_phase := Marked, ca_mark := Some (pc_generation c + 1)\<rparr>)
       (c\<lparr>pc_generation := pc_generation c + 1\<rparr>)"

text \<open>The end of the operation, by the kind of the call.\<close>

definition persist_after :: "bool \<Rightarrow> nat \<Rightarrow> 'w call \<Rightarrow> 'w persist_state \<Rightarrow> 'w persist_state" where
  "persist_after reported p k c =
     (case ca_kind k of
        AfterWrite \<Rightarrow> mark_persist_pending p k c
      | IfRevisionChanged before \<Rightarrow>
          if max (pc_revision c) 1 \<noteq> before then mark_persist_pending p k c else return_call True p k c
      | WhenReported \<Rightarrow> if reported then mark_persist_pending p k c else return_call True p k c)"

text \<open>One step of \<^verbatim>\<open>persist_state\<close>; \<open>db_ok\<close> says whether the statement succeeds when it is the one to run.\<close>

definition persist_state_step :: "bool \<Rightarrow> nat \<Rightarrow> 'w call \<Rightarrow> 'w persist_state \<Rightarrow> 'w persist_state" where
  "persist_state_step db_ok p k c =
     (case ca_phase k of
        Marked \<Rightarrow> set_call p (k\<lparr>ca_phase := Loaded (pc_generation c)\<rparr>) c
      | Loaded pending \<Rightarrow>
          if pending \<le> pc_persisted_generation c then return_call True p k c
          else set_call p (k\<lparr>ca_phase := Queued\<rparr>) c
      | Queued \<Rightarrow>
          if pc_lock c = None then set_call p (k\<lparr>ca_phase := Holding\<rparr>) (c\<lparr>pc_lock := Some p\<rparr>) else c
      | Holding \<Rightarrow> set_call p (k\<lparr>ca_phase := Rechecked (pc_generation c)\<rparr>) c
      | Rechecked pending \<Rightarrow>
          if pending \<le> pc_persisted_generation c then return_call True p k (c\<lparr>pc_lock := None\<rparr>)
          else set_call p (k\<lparr>ca_phase := Exporting pending 0 (\<lambda>_. [])\<rparr>) c
      | Exporting pending j buf \<Rightarrow>
          if j < table_count
          then set_call p (k\<lparr>ca_phase := Exporting pending (j + 1) (buf(j := pc_tables c j))\<rparr>) c
          else set_call p (k\<lparr>ca_phase := Exported pending buf (max (pc_revision c) 1)\<rparr>) c
      | Exported pending buf revision \<Rightarrow>
          if db_ok
          then set_call p (k\<lparr>ca_phase := Stored pending revision\<rparr>)
                 (c\<lparr>pc_row := buf, pc_row_writes := pc_row_writes c + 1\<rparr>)
          else return_call False p k (c\<lparr>pc_lock := None\<rparr>)
      | Stored pending revision \<Rightarrow>
          set_call p (k\<lparr>ca_phase := Announcing revision\<rparr>) (c\<lparr>pc_persisted_generation := pending\<rparr>)
      | Announcing revision \<Rightarrow> return_call True p k (c\<lparr>pc_announced := revision, pc_lock := None\<rparr>)
      | Working \<Rightarrow> c
      | Returned ok \<Rightarrow> c)"

definition kind_ok :: "persist_kind \<Rightarrow> 'w persist_state \<Rightarrow> bool" where
  "kind_ok kind c \<longleftrightarrow> (case kind of IfRevisionChanged before \<Rightarrow> before = max (pc_revision c) 1 | _ \<Rightarrow> True)"

inductive persist_step :: "'w persist_state \<Rightarrow> 'w persist_state \<Rightarrow> bool" where
  step_begin: "pc_calls c p = None \<Longrightarrow> kind_ok kind c \<Longrightarrow> persist_step c (begin_call p kind c)"
| step_write: "pc_calls c p = Some k \<Longrightarrow> ca_phase k = Working \<Longrightarrow> t < table_count \<Longrightarrow>
    persist_step c (write_table p k t w c)"
| step_bump: "pc_calls c p = Some k \<Longrightarrow> ca_phase k = Working \<Longrightarrow> persist_step c (write_revision p k c)"
| step_fail: "pc_calls c p = Some k \<Longrightarrow> ca_phase k = Working \<Longrightarrow> persist_step c (return_call False p k c)"
| step_after: "pc_calls c p = Some k \<Longrightarrow> ca_phase k = Working \<Longrightarrow> persist_step c (persist_after reported p k c)"
| step_persist: "pc_calls c p = Some k \<Longrightarrow> persist_step c (persist_state_step db_ok p k c)"

inductive persist_reachable :: "'w persist_state \<Rightarrow> bool" where
  persist_start: "0 < revision \<Longrightarrow> persist_reachable (initial_state tables revision)"
| persist_more: "persist_reachable c \<Longrightarrow> persist_step c c' \<Longrightarrow> persist_reachable c'"

section \<open>The invariant\<close>

text \<open>\<open>covered g j R c\<close>: of the calls that have counted themselves up to generation \<open>g\<close>, \<open>R\<close> has every change to a
  table below \<open>j\<close>.\<close>

definition covered :: "nat \<Rightarrow> nat \<Rightarrow> 'w tables \<Rightarrow> 'w persist_state \<Rightarrow> bool" where
  "covered g j R c \<longleftrightarrow>
     (\<forall>p k m t w. pc_calls c p = Some k \<longrightarrow> ca_mark k = Some m \<longrightarrow> m \<le> g \<longrightarrow> (t, w) \<in> set (ca_writes k) \<longrightarrow>
        t < j \<longrightarrow> w \<in> set (R t))"

definition mark_le :: "'w call \<Rightarrow> nat \<Rightarrow> bool" where
  "mark_le k g \<longleftrightarrow> (\<exists>m. ca_mark k = Some m \<and> m \<le> g)"

definition pending_ok :: "'w call \<Rightarrow> nat \<Rightarrow> 'w persist_state \<Rightarrow> bool" where
  "pending_ok k g c \<longleftrightarrow> mark_le k g \<and> g \<le> pc_generation c \<and> pc_persisted_generation c < g"

definition announce_ok :: "nat \<Rightarrow> 'w persist_state \<Rightarrow> bool" where
  "announce_ok r c \<longleftrightarrow> pc_announced c \<le> r \<and> r \<le> max (pc_revision c) 1"

definition phase_ok :: "nat \<Rightarrow> 'w call \<Rightarrow> 'w persist_state \<Rightarrow> bool" where
  "phase_ok p k c \<longleftrightarrow>
     (case ca_phase k of
        Working \<Rightarrow> ca_mark k = None
      | Marked \<Rightarrow> mark_le k (pc_generation c)
      | Loaded g \<Rightarrow> mark_le k g \<and> g \<le> pc_generation c
      | Queued \<Rightarrow> mark_le k (pc_generation c)
      | Holding \<Rightarrow> pc_lock c = Some p \<and> mark_le k (pc_generation c)
      | Rechecked g \<Rightarrow> pc_lock c = Some p \<and> mark_le k g \<and> g \<le> pc_generation c
      | Exporting g j buf \<Rightarrow> pc_lock c = Some p \<and> pending_ok k g c \<and> j \<le> table_count \<and> covered g j buf c
      | Exported g buf r \<Rightarrow>
          pc_lock c = Some p \<and> pending_ok k g c \<and> covered g table_count buf c \<and> announce_ok r c
      | Stored g r \<Rightarrow>
          pc_lock c = Some p \<and> pending_ok k g c \<and> covered g table_count (pc_row c) c \<and> announce_ok r c
      | Announcing r \<Rightarrow> pc_lock c = Some p \<and> mark_le k (pc_persisted_generation c) \<and> announce_ok r c
      | Returned ok \<Rightarrow> ok \<longrightarrow> ca_mark k \<noteq> None \<longrightarrow> mark_le k (pc_persisted_generation c))"

text \<open>A call that had to count itself has done so by the time it returns.\<close>

definition must_persist :: "'w call \<Rightarrow> bool" where
  "must_persist k \<longleftrightarrow>
     (case ca_kind k of AfterWrite \<Rightarrow> True | IfRevisionChanged _ \<Rightarrow> ca_bumped k | WhenReported \<Rightarrow> False)"

definition kind_inv :: "'w call \<Rightarrow> 'w persist_state \<Rightarrow> bool" where
  "kind_inv k c \<longleftrightarrow>
     (case ca_kind k of
        IfRevisionChanged before \<Rightarrow> before \<le> max (pc_revision c) 1 \<and> (ca_bumped k \<longrightarrow> before < max (pc_revision c) 1)
      | _ \<Rightarrow> True) \<and>
     (must_persist k \<longrightarrow> ca_phase k \<in> {Working, Returned False} \<or> ca_mark k \<noteq> None)"

definition call_ok :: "nat \<Rightarrow> 'w call \<Rightarrow> 'w persist_state \<Rightarrow> bool" where
  "call_ok p k c \<longleftrightarrow>
     (\<forall>(t, w) \<in> set (ca_writes k). t < table_count \<and> w \<in> set (pc_tables c t)) \<and> phase_ok p k c \<and> kind_inv k c"

definition persist_inv :: "'w persist_state \<Rightarrow> bool" where
  "persist_inv c \<longleftrightarrow>
     0 < pc_revision c \<and> pc_persisted_generation c \<le> pc_generation c \<and> pc_announced c \<le> pc_revision c \<and>
     covered (pc_persisted_generation c) table_count (pc_row c) c \<and>
     (\<forall>p k. pc_calls c p = Some k \<longrightarrow> call_ok p k c)"

lemma covered_record [simp]:
  "covered g j R (c\<lparr>pc_tables := x1\<rparr>) = covered g j R c" "covered g j R (c\<lparr>pc_revision := x2\<rparr>) = covered g j R c"
  "covered g j R (c\<lparr>pc_generation := x3\<rparr>) = covered g j R c"
  "covered g j R (c\<lparr>pc_persisted_generation := x4\<rparr>) = covered g j R c"
  "covered g j R (c\<lparr>pc_lock := x5\<rparr>) = covered g j R c"
  "covered g j R (c\<lparr>pc_row := x6, pc_row_writes := x7\<rparr>) = covered g j R c"
  "covered g j R (c\<lparr>pc_announced := x8, pc_lock := x5\<rparr>) = covered g j R c"
  by (simp_all add: covered_def)

lemma set_call_fields [simp]:
  "pc_tables (set_call p k c) = pc_tables c" "pc_revision (set_call p k c) = pc_revision c"
  "pc_generation (set_call p k c) = pc_generation c"
  "pc_persisted_generation (set_call p k c) = pc_persisted_generation c"
  "pc_lock (set_call p k c) = pc_lock c" "pc_row (set_call p k c) = pc_row c"
  "pc_announced (set_call p k c) = pc_announced c" "pc_row_writes (set_call p k c) = pc_row_writes c"
  "pc_calls (set_call p k c) = (pc_calls c)(p \<mapsto> k)"
  by (simp_all add: set_call_def)

text \<open>A step of one call keeps what is covered: it changes no mark and no change of a call that has one, and a
  mark that is set is above all generations so far.\<close>

lemma covered_set_call:
  assumes "covered g j R c"
    and "case pc_calls c p of
           Some k0 \<Rightarrow> ca_mark k = ca_mark k0 \<and> ca_writes k = ca_writes k0 \<or> ca_mark k0 = None \<and> (\<forall>m. ca_mark k = Some m \<longrightarrow> g < m)
         | None \<Rightarrow> ca_mark k = None"
  shows "covered g j R (set_call p k c)"
  using assms by (fastforce simp: covered_def split: option.splits)

lemma call_ok_others:
  assumes "call_ok q k c" "\<And>t. set (pc_tables c t) \<subseteq> set (pc_tables c' t)"
    and "pc_generation c \<le> pc_generation c'" "pc_persisted_generation c \<le> pc_persisted_generation c'"
    and "pc_revision c \<le> pc_revision c'"
    and "pc_lock c = Some q \<Longrightarrow> pc_lock c' = pc_lock c \<and> pc_persisted_generation c' = pc_persisted_generation c \<and>
           pc_row c' = pc_row c \<and> pc_announced c' = pc_announced c"
    and "\<And>g j R. g \<le> pc_generation c \<Longrightarrow> covered g j R c \<Longrightarrow> covered g j R c'"
  shows "call_ok q k c'"
proof -
  have mono: "mark_le k g \<Longrightarrow> g \<le> g' \<Longrightarrow> mark_le k g'" for g g' by (auto simp: mark_le_def)
  have "phase_ok q k c'"
  proof (cases "pc_lock c = Some q")
    case True
    with assms(1,6) mono [OF _ assms(3)] mono [OF _ assms(4)] assms(3,5,7) show ?thesis
      by (auto simp: call_ok_def phase_ok_def pending_ok_def announce_ok_def max_def split: phase.splits if_splits)
  next
    case False
    with assms(1) mono [OF _ assms(3)] mono [OF _ assms(4)] assms(3) show ?thesis
      by (auto simp: call_ok_def phase_ok_def split: phase.splits)
  qed
  moreover have "kind_inv k c'"
    using assms(1,5) by (auto simp: call_ok_def kind_inv_def split: persist_kind.splits)
  ultimately show ?thesis using assms(1,2) by (fastforce simp: call_ok_def)
qed

lemma persist_invI:
  assumes "persist_inv c" "\<And>t. set (pc_tables c t) \<subseteq> set (pc_tables c' t)"
    and "pc_generation c \<le> pc_generation c'" "pc_persisted_generation c \<le> pc_persisted_generation c'"
    and "pc_persisted_generation c' \<le> pc_generation c'" "pc_revision c \<le> pc_revision c'"
    and "pc_announced c' \<le> pc_revision c'" "covered (pc_persisted_generation c') table_count (pc_row c') c'"
    and "\<And>q. q \<noteq> p \<Longrightarrow> pc_calls c' q = pc_calls c q"
    and "\<And>q. q \<noteq> p \<Longrightarrow> pc_lock c = Some q \<Longrightarrow> pc_lock c' = pc_lock c \<and>
           pc_persisted_generation c' = pc_persisted_generation c \<and>
           pc_row c' = pc_row c \<and> pc_announced c' = pc_announced c"
    and "\<And>g j R. g \<le> pc_generation c \<Longrightarrow> covered g j R c \<Longrightarrow> covered g j R c'"
    and "\<And>k. pc_calls c' p = Some k \<Longrightarrow> call_ok p k c'"
  shows "persist_inv c'"
proof -
  have "call_ok q k c'" if "pc_calls c' q = Some k" for q k
  proof (cases "q = p")
    case False
    with that assms(9) have "pc_calls c q = Some k" by simp
    with assms(1) have "call_ok q k c" by (simp add: persist_inv_def)
    then show ?thesis
      using assms(2-4,6,10,11) False by (intro call_ok_others [of q k c c']) blast+
  qed (use that assms(12) in simp)
  with assms show ?thesis by (auto simp: persist_inv_def)
qed

lemma persist_invD:
  assumes "persist_inv c"
  shows "0 < pc_revision c" "pc_persisted_generation c \<le> pc_generation c" "pc_announced c \<le> pc_revision c"
    "covered (pc_persisted_generation c) table_count (pc_row c) c"
  using assms by (simp_all add: persist_inv_def)

lemma persist_inv_call: "persist_inv c \<Longrightarrow> pc_calls c p = Some k \<Longrightarrow> call_ok p k c"
  by (simp add: persist_inv_def)

text \<open>Steps that only move the call itself.\<close>

lemma persist_inv_set_call:
  assumes "persist_inv c" "pc_calls c p = Some k" "ca_mark k' = ca_mark k" "ca_writes k' = ca_writes k"
    and "ca_kind k' = ca_kind k" "ca_bumped k' = ca_bumped k" "phase_ok p k' (set_call p k' c)"
    and "must_persist k \<Longrightarrow> ca_mark k = None \<Longrightarrow> ca_phase k' \<in> {Working, Returned False}"
  shows "persist_inv (set_call p k' c)"
proof -
  have keep: "covered g j R c \<Longrightarrow> covered g j R (set_call p k' c)" for g j R
    by (rule covered_set_call) (use assms(2-4) in simp_all)
  have "must_persist k' = must_persist k" using assms(5,6) by (simp add: must_persist_def split: persist_kind.split)
  then have "call_ok p k' (set_call p k' c)"
    using persist_inv_call [OF assms(1,2)] assms(3-8)
    by (auto simp: call_ok_def kind_inv_def split: persist_kind.splits)
  then show ?thesis
    by (intro persist_invI [where c = c and p = p, OF assms(1) _ _ _ _ _ _ _ _ _ keep])
       (use persist_invD [OF assms(1)] keep in \<open>simp_all\<close>)
qed

lemma call_ok_phase: "call_ok p k c \<Longrightarrow> phase_ok p k c"
  by (simp add: call_ok_def)

lemma phase_ok_set_call:
  assumes "pc_calls c p = Some k" "ca_mark k' = ca_mark k" "ca_writes k' = ca_writes k"
  shows "phase_ok p k' c \<Longrightarrow> phase_ok p k' (set_call p k' c)"
proof -
  have keep: "covered g j R c \<Longrightarrow> covered g j R (set_call p k' c)" for g j R
    by (rule covered_set_call) (use assms in simp_all)
  show "phase_ok p k' c \<Longrightarrow> phase_ok p k' (set_call p k' c)"
    using keep by (auto simp: phase_ok_def pending_ok_def announce_ok_def split: phase.splits)
qed

lemma covered_next:
  assumes "persist_inv c" "covered g j buf c"
  shows "covered g (Suc j) (buf(j := pc_tables c j)) c"
  unfolding covered_def
proof (intro allI impI)
  fix p k m t w
  assume *: "pc_calls c p = Some k" "ca_mark k = Some m" "m \<le> g" "(t, w) \<in> set (ca_writes k)" "t < Suc j"
  show "w \<in> set ((buf(j := pc_tables c j)) t)"
  proof (cases "t = j")
    case True
    with persist_inv_call [OF assms(1) *(1)] *(4) show ?thesis by (auto simp: call_ok_def)
  next
    case False
    with assms(2) * show ?thesis by (auto simp: covered_def)
  qed
qed

lemma persist_inv_begin:
  assumes "persist_inv c" "pc_calls c p = None" "kind_ok kind c"
  shows "persist_inv (begin_call p kind c)"
proof -
  have keep: "covered g j R c \<Longrightarrow> covered g j R (begin_call p kind c)" for g j R
    unfolding begin_call_def by (rule covered_set_call) (use assms(2) in simp_all)
  have "call_ok p k (begin_call p kind c)" if "pc_calls (begin_call p kind c) p = Some k" for k
    using that assms(3)
    by (auto simp: begin_call_def call_ok_def phase_ok_def kind_inv_def kind_ok_def split: persist_kind.splits)
  note call = this
  have row: "covered (pc_persisted_generation c) table_count (pc_row c) (begin_call p kind c)"
    by (intro keep persist_invD [OF assms(1)])
  show ?thesis
    by (rule persist_invI [where c = c and p = p, OF assms(1) _ _ _ _ _ _ _ _ _ keep call])
       (use persist_invD(1-3) [OF assms(1)] row in \<open>simp_all add: begin_call_def\<close>)
qed

lemma persist_inv_write:
  assumes "persist_inv c" "pc_calls c p = Some k" "ca_phase k = Working" "t < table_count"
  shows "persist_inv (write_table p k t w c)"
proof -
  have ok: "call_ok p k c" using assms(1,2) by (rule persist_inv_call)
  then have unmarked: "ca_mark k = None" using assms(3) by (simp add: call_ok_def phase_ok_def)
  have keep: "covered g j R c \<Longrightarrow> covered g j R (write_table p k t w c)" for g j R
    unfolding write_table_def by (rule covered_set_call) (use assms(2) unmarked in simp_all)
  have "call_ok p k' (write_table p k t w c)" if "pc_calls (write_table p k t w c) p = Some k'" for k'
    using that ok assms(3,4)
    by (auto simp: write_table_def call_ok_def phase_ok_def kind_inv_def must_persist_def mark_le_def
        split: persist_kind.splits)
  note call = this
  have row: "covered (pc_persisted_generation c) table_count (pc_row c) (write_table p k t w c)"
    by (intro keep persist_invD [OF assms(1)])
  show ?thesis
    by (rule persist_invI [where c = c and p = p, OF assms(1) _ _ _ _ _ _ _ _ _ keep call])
       (use persist_invD(1-3) [OF assms(1)] row in \<open>simp_all add: write_table_def subset_iff\<close>)
qed

lemma persist_inv_bump:
  assumes "persist_inv c" "pc_calls c p = Some k" "ca_phase k = Working"
  shows "persist_inv (write_revision p k c)"
proof -
  have ok: "call_ok p k c" using assms(1,2) by (rule persist_inv_call)
  have keep: "covered g j R c \<Longrightarrow> covered g j R (write_revision p k c)" for g j R
    unfolding write_revision_def by (rule covered_set_call) (use assms(2) in simp_all)
  have rev: "0 < pc_revision c" using assms(1) by (simp add: persist_inv_def)
  have "call_ok p k' (write_revision p k c)" if "pc_calls (write_revision p k c) p = Some k'" for k'
    using that ok assms(3) rev
    by (auto simp: write_revision_def call_ok_def phase_ok_def kind_inv_def must_persist_def mark_le_def
        split: persist_kind.splits)
  note call = this
  have row: "covered (pc_persisted_generation c) table_count (pc_row c) (write_revision p k c)"
    by (intro keep persist_invD [OF assms(1)])
  show ?thesis
    by (rule persist_invI [where c = c and p = p, OF assms(1) _ _ _ _ _ _ _ _ _ keep call])
       (use persist_invD(1-3) [OF assms(1)] row in \<open>simp_all add: write_revision_def subset_iff\<close>)
qed

lemma persist_inv_mark:
  assumes "persist_inv c" "pc_calls c p = Some k" "ca_phase k = Working"
  shows "persist_inv (mark_persist_pending p k c)"
proof -
  have ok: "call_ok p k c" using assms(1,2) by (rule persist_inv_call)
  then have unmarked: "ca_mark k = None" using assms(3) by (simp add: call_ok_def phase_ok_def)
  have keep: "g \<le> pc_generation c \<Longrightarrow> covered g j R c \<Longrightarrow> covered g j R (mark_persist_pending p k c)" for g j R
    unfolding mark_persist_pending_def by (rule covered_set_call) (use assms(2) unmarked in simp_all)
  have "call_ok p k' (mark_persist_pending p k c)" if "pc_calls (mark_persist_pending p k c) p = Some k'" for k'
    using that ok assms(3)
    by (auto simp: mark_persist_pending_def call_ok_def phase_ok_def kind_inv_def must_persist_def mark_le_def
        split: persist_kind.splits)
  note call = this
  have row: "covered (pc_persisted_generation c) table_count (pc_row c) (mark_persist_pending p k c)"
    by (intro keep persist_invD [OF assms(1)])
  show ?thesis
    by (rule persist_invI [where c = c and p = p, OF assms(1) _ _ _ _ _ _ _ _ _ keep call])
       (use persist_invD(1-3) [OF assms(1)] row in \<open>simp_all add: mark_persist_pending_def subset_iff\<close>)
qed

lemma persist_inv_after:
  assumes "persist_inv c" "pc_calls c p = Some k" "ca_phase k = Working"
  shows "persist_inv (persist_after reported p k c)"
proof -
  have unmarked: "ca_mark k = None"
    using persist_inv_call [OF assms(1,2)] assms(3) by (simp add: call_ok_def phase_ok_def)
  have kind: "kind_inv k c" using persist_inv_call [OF assms(1,2)] by (simp add: call_ok_def)
  have returns: "persist_inv (return_call True p k c)" if "\<not> must_persist k"
    unfolding return_call_def using assms that unmarked
    by (intro persist_inv_set_call [where k = k]) (simp_all add: phase_ok_def)
  have unbumped: "\<not> must_persist k" if "ca_kind k = IfRevisionChanged (max (pc_revision c) 1)"
    using that kind by (auto simp: kind_inv_def must_persist_def)
  have unreported: "\<not> must_persist k" if "ca_kind k = WhenReported" using that by (simp add: must_persist_def)
  from persist_inv_mark [OF assms] returns unbumped unreported show ?thesis
    by (auto simp: persist_after_def split: persist_kind.split)
qed

lemma covered_less: "covered g j R c \<Longrightarrow> g' \<le> g \<Longrightarrow> covered g' j R c"
  unfolding covered_def by (meson le_trans)

lemma covered_phase:
  assumes "pc_calls c p = Some k" "covered g j R c" "pc_calls c' = (pc_calls c)(p \<mapsto> k\<lparr>ca_phase := x\<rparr>)"
  shows "covered g j R c'"
  using assms by (auto simp: covered_def)

text \<open>Steps of the call that has the lock, or takes it, may change what the lock protects.\<close>

lemma persist_inv_locked:
  assumes "persist_inv c" "pc_calls c p = Some k" "ca_mark k' = ca_mark k" "ca_writes k' = ca_writes k"
    and "ca_kind k' = ca_kind k" "ca_bumped k' = ca_bumped k" "pc_lock c \<in> {None, Some p}"
    and "c' = set_call p k' (c\<lparr>pc_lock := l, pc_persisted_generation := g, pc_row := R, pc_row_writes := n,
           pc_announced := r\<rparr>)"
    and "pc_persisted_generation c \<le> g" "g \<le> pc_generation c" "r \<le> pc_revision c"
    and "covered g table_count R c" "phase_ok p k' c'"
    and "must_persist k \<Longrightarrow> ca_mark k = None \<Longrightarrow> ca_phase k' \<in> {Working, Returned False}"
  shows "persist_inv c'"
proof -
  let ?d = "c\<lparr>pc_lock := l, pc_persisted_generation := g, pc_row := R, pc_row_writes := n, pc_announced := r\<rparr>"
  have same: "covered g' j R' ?d = covered g' j R' c" for g' j R' by (simp add: covered_def)
  have keep: "covered g' j R' c \<Longrightarrow> covered g' j R' c'" for g' j R'
    unfolding assms(8) by (rule covered_set_call) (use assms(2-4) same in simp_all)
  have "must_persist k' = must_persist k" using assms(5,6) by (simp add: must_persist_def split: persist_kind.split)
  then have call: "call_ok p k' c'"
    using persist_inv_call [OF assms(1,2)] assms(3-6,13,14)
    by (auto simp: call_ok_def kind_inv_def assms(8) split: persist_kind.splits)
  show ?thesis
    by (rule persist_invI [where c = c and p = p, OF assms(1) _ _ _ _ _ _ _ _ _ keep])
       (use persist_invD(1-3) [OF assms(1)] keep [OF assms(12)] call assms(7,9,10,11) in \<open>auto simp: assms(8)\<close>)
qed

lemma persist_inv_release:
  assumes "persist_inv c" "pc_calls c p = Some k" "pc_lock c = Some p" "r \<le> pc_revision c"
    and "ok \<Longrightarrow> mark_le k (pc_persisted_generation c)" "ca_mark k \<noteq> None"
  shows "persist_inv (return_call ok p k (c\<lparr>pc_announced := r, pc_lock := None\<rparr>))"
  by (rule persist_inv_locked [OF assms(1,2), where k' = "k\<lparr>ca_phase := Returned ok\<rparr>" and l = None and g = "pc_persisted_generation c" and R = "pc_row c"
        and n = "pc_row_writes c" and r = r])
     (use assms persist_invD [OF assms(1)] in \<open>auto simp: return_call_def phase_ok_def mark_le_def\<close>)

lemma persist_inv_persist:
  assumes "persist_inv c" "pc_calls c p = Some k"
  shows "persist_inv (persist_state_step db_ok p k c)"
proof -
  note inv = persist_invD [OF assms(1)]
  have ph: "phase_ok p k c" using persist_inv_call [OF assms] by (rule call_ok_phase)
  have move: "persist_inv (set_call p (k\<lparr>ca_phase := x\<rparr>) c)"
    if "phase_ok p (k\<lparr>ca_phase := x\<rparr>) c" "ca_mark k \<noteq> None" for x
    using assms that
    by (intro persist_inv_set_call [where k = k] phase_ok_set_call [OF assms(2)]) simp_all
  have release: "persist_inv (return_call True p k (c\<lparr>pc_lock := None\<rparr>))"
    if "pc_lock c = Some p" "mark_le k (pc_persisted_generation c)"
    using persist_inv_release [OF assms that(1), of "pc_announced c" True] that(2) inv(3) by (auto simp: mark_le_def)
  show ?thesis
  proof (cases "ca_phase k")
    case Marked
    with ph move show ?thesis by (auto simp: persist_state_step_def phase_ok_def mark_le_def)
  next
    case (Loaded g)
    with ph move show ?thesis
      by (fastforce simp: persist_state_step_def phase_ok_def mark_le_def return_call_def)
  next
    case Queued
    have "persist_inv (set_call p (k\<lparr>ca_phase := Holding\<rparr>) (c\<lparr>pc_lock := Some p\<rparr>))" if "pc_lock c = None"
      by (rule persist_inv_locked [OF assms, where k' = "k\<lparr>ca_phase := Holding\<rparr>" and l = "Some p"
            and g = "pc_persisted_generation c" and R = "pc_row c" and n = "pc_row_writes c" and r = "pc_announced c"])
         (use that ph Queued inv in \<open>auto simp: phase_ok_def mark_le_def\<close>)
    with Queued assms(1) show ?thesis by (simp add: persist_state_step_def)
  next
    case Holding
    with ph move show ?thesis by (auto simp: persist_state_step_def phase_ok_def mark_le_def)
  next
    case (Rechecked g)
    have "covered g 0 (\<lambda>_. []) c" by (simp add: covered_def)
    with Rechecked ph move release show ?thesis
      by (fastforce simp: persist_state_step_def phase_ok_def mark_le_def pending_ok_def)
  next
    case (Exporting g j buf)
    with ph have "covered g j buf c" by (simp add: phase_ok_def)
    then have "covered g (Suc j) (buf(j := pc_tables c j)) c" by (rule covered_next [OF assms(1)])
    with Exporting ph inv(1,3) move show ?thesis
      by (auto simp: persist_state_step_def phase_ok_def pending_ok_def mark_le_def announce_ok_def)
  next
    case (Exported g buf r)
    then have e: "pc_lock c = Some p" "pending_ok k g c" "covered g table_count buf c" "announce_ok r c"
      using ph by (simp_all add: phase_ok_def)
    have "persist_inv (set_call p (k\<lparr>ca_phase := Stored g r\<rparr>)
        (c\<lparr>pc_lock := pc_lock c, pc_persisted_generation := pc_persisted_generation c, pc_row := buf,
           pc_row_writes := pc_row_writes c + 1, pc_announced := pc_announced c\<rparr>))"
      by (rule persist_inv_locked [OF assms, where k' = "k\<lparr>ca_phase := Stored g r\<rparr>", OF _ _ _ _ _ refl])
         (use e inv covered_less [OF e(3), of "pc_persisted_generation c"]
          in \<open>auto simp: phase_ok_def pending_ok_def announce_ok_def mark_le_def
                intro: covered_phase [OF assms(2) e(3)]\<close>)
    moreover have "persist_inv (return_call False p k (c\<lparr>pc_lock := None\<rparr>))"
      using persist_inv_release [OF assms e(1), of "pc_announced c" False] inv(3) e(2)
      by (auto simp: pending_ok_def mark_le_def)
    ultimately show ?thesis using Exported by (simp add: persist_state_step_def)
  next
    case (Stored g r)
    then have e: "pc_lock c = Some p" "pending_ok k g c" "covered g table_count (pc_row c) c" "announce_ok r c"
      using ph by (simp_all add: phase_ok_def)
    have "persist_inv (set_call p (k\<lparr>ca_phase := Announcing r\<rparr>)
        (c\<lparr>pc_lock := pc_lock c, pc_persisted_generation := g, pc_row := pc_row c,
           pc_row_writes := pc_row_writes c, pc_announced := pc_announced c\<rparr>))"
      by (rule persist_inv_locked [OF assms, where k' = "k\<lparr>ca_phase := Announcing r\<rparr>", OF _ _ _ _ _ refl])
         (use e inv in \<open>auto simp: phase_ok_def pending_ok_def announce_ok_def mark_le_def\<close>)
    with Stored show ?thesis by (simp add: persist_state_step_def)
  next
    case (Announcing r)
    then have "pc_lock c = Some p" "mark_le k (pc_persisted_generation c)" "announce_ok r c"
      using ph by (simp_all add: phase_ok_def)
    with persist_inv_release [OF assms, of r True] inv(1) Announcing show ?thesis
      by (auto simp: persist_state_step_def announce_ok_def mark_le_def)
  qed (use assms(1) in \<open>simp_all add: persist_state_step_def\<close>)
qed

lemma persist_inv_fail:
  assumes "persist_inv c" "pc_calls c p = Some k" "ca_phase k = Working"
  shows "persist_inv (return_call False p k c)"
  unfolding return_call_def using assms
  by (intro persist_inv_set_call [where k = k]) (simp_all add: phase_ok_def)

theorem persist_step_inv: "persist_step c c' \<Longrightarrow> persist_inv c \<Longrightarrow> persist_inv c'"
  by (induction rule: persist_step.induct)
     (auto intro: persist_inv_begin persist_inv_write persist_inv_bump persist_inv_fail persist_inv_after
       persist_inv_persist)

lemma persist_reachable_inv: "persist_reachable c \<Longrightarrow> persist_inv c"
proof (induction rule: persist_reachable.induct)
  case (persist_start revision tables)
  then show ?case by (simp add: persist_inv_def initial_state_def covered_def)
qed (rule persist_step_inv)

section \<open>Properties\<close>


text \<open>Runs that are written down as a list of actions; an action that is not possible does nothing.\<close>

datatype 'w action =
  Begin nat persist_kind | Write nat nat 'w | Bump nat | After nat | Persist nat

fun act :: "'w action \<Rightarrow> 'w persist_state \<Rightarrow> 'w persist_state" where
  "act (Begin p kind) c = (if pc_calls c p = None \<and> kind_ok kind c then begin_call p kind c else c)"
| "act (Write p t w) c =
     (case pc_calls c p of
        Some k \<Rightarrow> (case ca_phase k of Working \<Rightarrow> if t < table_count then write_table p k t w c else c | _ \<Rightarrow> c)
      | None \<Rightarrow> c)"
| "act (Bump p) c =
     (case pc_calls c p of
        Some k \<Rightarrow> (case ca_phase k of Working \<Rightarrow> write_revision p k c | _ \<Rightarrow> c) | None \<Rightarrow> c)"
| "act (After p) c =
     (case pc_calls c p of
        Some k \<Rightarrow> (case ca_phase k of Working \<Rightarrow> persist_after True p k c | _ \<Rightarrow> c) | None \<Rightarrow> c)"
| "act (Persist p) c =
     (case pc_calls c p of Some k \<Rightarrow> persist_state_step True p k c | None \<Rightarrow> c)"

lemma act_reachable: "persist_reachable c \<Longrightarrow> persist_reachable (act a c)"
  by (cases a) (auto intro: persist_more persist_step.intros split: option.split phase.split)

lemma run_reachable: "persist_reachable c \<Longrightarrow> persist_reachable (fold act as c)"
  by (induction as arbitrary: c) (simp_all add: act_reachable)

text \<open>One call alone: it writes, counts itself, takes the lock, exports all tables and returns.\<close>

definition lone_run :: "string persist_state" where
  "lone_run = fold act ([Begin 1 AfterWrite, Write 1 0 ''account'', Bump 1, After 1] @ replicate 33 (Persist 1))
     (initial_state (\<lambda>_. []) 1)"


text \<open>
  The export is not a moment's picture. While call 2 exports, call 1 changes table 0, which is already read, and
  then table 1, which is not: the row has the second change and not the first. The first call has not returned
  and will write the row again, but a crash before that leaves a state no call has produced.
\<close>

definition torn_run :: "string persist_state" where
  "torn_run = fold act ([Begin 1 AfterWrite, Begin 2 AfterWrite, After 2] @ replicate 6 (Persist 2) @
     [Write 1 0 ''account'', Write 1 1 ''provider''] @ replicate 24 (Persist 2))
     (initial_state (\<lambda>_. []) 1)"

lemma export_can_be_torn:
  "persist_reachable torn_run \<and> ''provider'' \<in> set (pc_row torn_run 1) \<and> ''account'' \<notin> set (pc_row torn_run 0)"
proof -
  have "persist_reachable torn_run" unfolding torn_run_def by (intro run_reachable persist_start) simp
  moreover have "pc_row torn_run 1 = [''provider'']" "pc_row torn_run 0 = []" by code_simp+
  ultimately show ?thesis by simp
qed

text \<open>
  Writes are shared: the row is written at most once for every call that counted itself. Between the write and
  the new persisted generation the write is one ahead.
\<close>

definition is_stored :: "'w call \<Rightarrow> bool" where
  "is_stored k \<longleftrightarrow> (case ca_phase k of Stored g r \<Rightarrow> True | _ \<Rightarrow> False)"

definition storing :: "'w persist_state \<Rightarrow> bool" where
  "storing c \<longleftrightarrow> (\<exists>p k. pc_calls c p = Some k \<and> is_stored k)"

definition writes_ok :: "nat \<Rightarrow> 'w persist_state \<Rightarrow> bool" where
  "writes_ok g0 c \<longleftrightarrow>
     pc_row_writes c + g0 \<le> pc_persisted_generation c + (if storing c then 1 else 0)"

lemma storing_set_call:
  assumes "\<And>k. pc_calls c p = Some k \<Longrightarrow> \<not> is_stored k"
  shows "storing (set_call p k' c) = (storing c \<or> is_stored k')"
  using assms unfolding storing_def by (auto simp: set_call_def) (metis option.inject)

lemma storing_record [simp]:
  "storing (c\<lparr>pc_tables := x1\<rparr>) = storing c" "storing (c\<lparr>pc_revision := x2\<rparr>) = storing c"
  "storing (c\<lparr>pc_generation := x3\<rparr>) = storing c" "storing (c\<lparr>pc_lock := x5\<rparr>) = storing c"
  "storing (c\<lparr>pc_row := x6, pc_row_writes := x7\<rparr>) = storing c"
  "storing (c\<lparr>pc_announced := x8\<rparr>) = storing c"
  by (simp_all add: storing_def)

lemma stored_holds_lock:
  assumes "persist_inv c" "storing c"
  shows "\<exists>p k. pc_lock c = Some p \<and> pc_calls c p = Some k \<and> is_stored k \<and>
    pc_persisted_generation c < pc_generation c"
proof -
  obtain p k where k: "pc_calls c p = Some k" "is_stored k" using assms(2) by (auto simp: storing_def)
  then obtain g r where "ca_phase k = Stored g r" by (auto simp: is_stored_def split: phase.splits)
  then have "pc_lock c = Some p \<and> pending_ok k g c"
    using persist_inv_call [OF assms(1) k(1)] by (simp add: call_ok_def phase_ok_def)
  with k show ?thesis by (auto simp: pending_ok_def)
qed

lemma writes_ok_persist:
  assumes "persist_inv c" "writes_ok g0 c" "pc_calls c p = Some k"
  shows "writes_ok g0 (persist_state_step db_ok p k c)"
proof (cases "is_stored k")
  case True
  then obtain g r where stored: "ca_phase k = Stored g r" by (auto simp: is_stored_def split: phase.splits)
  have "storing c" using assms(3) True by (auto simp: storing_def)
  moreover have "pc_persisted_generation c < g"
    using persist_inv_call [OF assms(1,3)] stored by (simp add: call_ok_def phase_ok_def pending_ok_def)
  ultimately show ?thesis using assms(2) stored by (simp add: writes_ok_def persist_state_step_def)
next
  case False
  have new: "storing (set_call p k' d) = (storing d \<or> is_stored k')" if "pc_calls d p = Some k" for k' d
    using storing_set_call [of d p k'] that False by simp
  have "\<not> storing c" if "ca_phase k = Exported g buf r" for g buf r
  proof
    assume "storing c"
    then obtain q kq where "pc_lock c = Some q" "pc_calls c q = Some kq" "is_stored kq"
      using stored_holds_lock [OF assms(1)] by blast
    moreover have "pc_lock c = Some p"
      using persist_inv_call [OF assms(1,3)] that by (simp add: call_ok_def phase_ok_def)
    ultimately show False using assms(3) False by simp
  qed
  with assms(2,3) False new show ?thesis
    by (auto simp: writes_ok_def persist_state_step_def return_call_def is_stored_def split: phase.splits if_splits)
qed

lemma storing_working:
  "pc_calls c p = Some k \<Longrightarrow> ca_phase k = Working \<Longrightarrow> storing (set_call p k' c) = (storing c \<or> is_stored k')"
  by (rule storing_set_call) (simp add: is_stored_def)

lemma writes_ok_step:
  assumes "persist_step c c'" "persist_inv c" "writes_ok g0 c"
  shows "writes_ok g0 c'"
  using assms(1)
proof cases
  case (step_persist p k db_ok)
  then show ?thesis using writes_ok_persist [OF assms(2,3)] by simp
next
  case (step_begin p kind)
  then show ?thesis using storing_set_call [of c p] assms(3) by (simp add: writes_ok_def begin_call_def is_stored_def)
next
  case (step_write p k t w)
  then show ?thesis using storing_working [of _ p k] assms(3) by (simp add: writes_ok_def write_table_def is_stored_def)
next
  case (step_bump p k)
  then show ?thesis using storing_working [of _ p k] assms(3) by (simp add: writes_ok_def write_revision_def is_stored_def)
next
  case (step_fail p k)
  then show ?thesis using storing_working [of _ p k] assms(3) by (simp add: writes_ok_def return_call_def is_stored_def)
next
  case (step_after p k reported)
  then show ?thesis
    using storing_working [of _ p k] assms(3)
    by (auto simp: writes_ok_def persist_after_def mark_persist_pending_def return_call_def is_stored_def
        split: persist_kind.split)
qed

lemma row_writes_bounded:
  assumes "persist_step\<^sup>*\<^sup>* (initial_state tables revision) c" "0 < revision"
  shows "pc_row_writes c + revision \<le> pc_generation c"
proof -
  have "max revision 1 = revision" using assms(2) by simp
  then have start: "persist_inv (initial_state tables revision) \<and> writes_ok revision (initial_state tables revision)"
    using persist_reachable_inv [OF persist_start [OF assms(2)]]
    by (simp add: writes_ok_def initial_state_def storing_def)
  from assms(1) have "persist_inv c \<and> writes_ok revision c"
    by (induction rule: rtranclp_induct) (use start writes_ok_step persist_step_inv in blast)+
  with stored_holds_lock [of c] persist_invD(2) [of c] show ?thesis
    by (auto simp: writes_ok_def split: if_splits)
qed

end
