(* ===== verification/Rate_Limit_Jobs.thy ===== *)
theory Rate_Limit_Jobs
  imports Pool_Health "HOL-Library.List_Lexorder" "HOL-Library.Char_ord"
begin

text \<open>
  The refresh of rate limits (\<^verbatim>\<open>store/oauth_ops.rs\<close> and \<^verbatim>\<open>store/trait_impl.rs\<close>): the accounts that can be
  asked, a batch of requests, the pass over the entries that are due, and the jobs an operator starts, with
  their progress. A batch is run in order; \<open>clock k\<close> has the moments of batch \<open>k\<close>, the first for its
  start and one for each target. The throughput is kept as a fraction.
\<close>

section \<open>Targets\<close>

record rate_limit_refresh_target =
  rt_account_id :: uuid
  rt_base_url :: string
  rt_chatgpt_account_id :: "string option"
  rt_token_source :: rate_limit_token_source

definition rate_limit_refresh_batch_size_from_env :: "env \<Rightarrow> nat" where
  "rate_limit_refresh_batch_size_from_env env =
     env_setting parse_u64 env ''CONTROL_PLANE_RATE_LIMIT_REFRESH_BATCH_SIZE'' 200 1 2000"

definition build_rate_limit_refresh_target_inner ::
  "upstream_account \<Rightarrow> upstream_auth_provider \<Rightarrow> oauth_credential_record option \<Rightarrow>
   session_profile_record option \<Rightarrow> oauth_rate_limit_cache_record option \<Rightarrow> timestamp \<Rightarrow> bool \<Rightarrow>
   rate_limit_refresh_target option" where
  "build_rate_limit_refresh_target_inner account provider credential session_profile cache now due_only =
     (case build_live_rate_limit_token_source_inner account provider credential session_profile now of
        None \<Rightarrow> None
      | Some token_source \<Rightarrow>
          if due_only \<and> (case cache of None \<Rightarrow> False
                        | Some entry \<Rightarrow> (case rlc_expires_at entry of None \<Rightarrow> False
                                                                  | Some expires_at \<Rightarrow> expires_at > now))
          then None
          else Some \<lparr>rt_account_id = ua_id account, rt_base_url = ua_base_url account,
                     rt_chatgpt_account_id = ua_chatgpt_account_id account, rt_token_source = token_source\<rparr>)"

text \<open>\<^verbatim>\<open>account.id <= cursor\<close>, for a cursor that may be absent.\<close>

definition behind_cursor :: "uuid option \<Rightarrow> uuid \<Rightarrow> bool" where
  "behind_cursor after_id i = (case after_id of None \<Rightarrow> False | Some cursor \<Rightarrow> i \<le> cursor)"

definition refresh_target_of :: "timestamp \<Rightarrow> bool \<Rightarrow> pool_store \<Rightarrow> upstream_account \<Rightarrow> rate_limit_refresh_target option" where
  "refresh_target_of now due_only s account =
     (case map_of (ps_auth_providers s) (ua_id account) of
        None \<Rightarrow> None
      | Some provider \<Rightarrow>
          build_rate_limit_refresh_target_inner account provider
            (map_of (ps_credentials s) (ua_id account)) (map_of (ps_session_profiles s) (ua_id account))
            (map_of (ps_rate_limit_caches s) (ua_id account)) now due_only)"

definition load_rate_limit_refresh_targets ::
  "uuid option \<Rightarrow> nat \<Rightarrow> bool \<Rightarrow> timestamp \<Rightarrow> pool_store \<Rightarrow> rate_limit_refresh_target list" where
  "load_rate_limit_refresh_targets after_id limit due_only now s =
     take limit (sort_key rt_account_id
       (List.map_filter
          (\<lambda>account. if behind_cursor after_id (ua_id account) then None
                     else refresh_target_of now due_only s account)
          (map snd (ps_accounts s))))"

definition count_rate_limit_refresh_targets :: "timestamp \<Rightarrow> pool_store \<Rightarrow> nat" where
  "count_rate_limit_refresh_targets now s =
     length (List.map_filter
       (\<lambda>account. case map_of (ps_auth_providers s) (ua_id account) of
          None \<Rightarrow> None
        | Some provider \<Rightarrow>
            build_rate_limit_refresh_target_inner account provider
              (map_of (ps_credentials s) (ua_id account)) (map_of (ps_session_profiles s) (ua_id account))
              None now False)
       (map snd (ps_accounts s)))"

section \<open>A batch\<close>

definition fetch_live_rate_limits_result ::
  "pool_deps \<Rightarrow> timestamp \<Rightarrow> rate_limit_refresh_target \<Rightarrow> (string \<times> string) + oauth_usage_snapshot" where
  "fetch_live_rate_limits_result d now target =
     (let token = (case rt_token_source target of
                     EncryptedAccessToken access_token_enc \<Rightarrow>
                       if \<not> pd_has_cipher d
                       then Inl (''credential_cipher_missing'', ''oauth credential cipher is not configured'')
                       else (case pd_decrypt d access_token_enc of
                               Inl err \<Rightarrow> Inl (''credential_decrypt_failed'', err)
                             | Inr access_token \<Rightarrow> Inr access_token)
                   | BearerToken access_token \<Rightarrow> Inr access_token)
      in case token of
           Inl e \<Rightarrow> Inl e
         | Inr access_token \<Rightarrow>
             if trim access_token = [] then Inr \<lparr>us_rate_limits = [], us_chatgpt_plan_type = None\<rparr>
             else (case pd_fetch_usage d now access_token (Some (rt_base_url target)) (rt_chatgpt_account_id target) of
                     Inl err \<Rightarrow> Inl (oauth_error_code_str (oauth_error_code err), oauth_error_text err)
                   | Inr usage \<Rightarrow> Inr usage))"

record refresh_batch_stats =
  bs_processed :: nat
  bs_success :: nat
  bs_failed :: nat
  bs_error_counts :: "(string, nat) hash_map"

definition sat_add_u64 :: "nat \<Rightarrow> nat \<Rightarrow> nat" where
  "sat_add_u64 a b = min (a + b) u64_max"

definition refresh_target :: "pool_deps \<Rightarrow> timestamp \<Rightarrow> rate_limit_refresh_target \<Rightarrow> pool_store \<Rightarrow>
    string option \<times> pool_store" where
  "refresh_target d now target s =
     (case fetch_live_rate_limits_result d now target of
        Inr usage \<Rightarrow>
          (None, persist_rate_limit_cache_success_inner d (rt_account_id target) (us_rate_limits usage) now
                   (us_chatgpt_plan_type usage) s)
      | Inl (error_code, error_message) \<Rightarrow>
          (case persist_rate_limit_cache_failure_inner d (rt_account_id target) error_code error_message now s of
             (stored, s1) \<Rightarrow> (Some stored, s1)))"

fun refresh_targets :: "pool_deps \<Rightarrow> (nat \<Rightarrow> timestamp) \<Rightarrow> nat \<Rightarrow> rate_limit_refresh_target list \<Rightarrow> pool_store \<Rightarrow>
    string option list \<times> pool_store" where
  "refresh_targets d clock j [] s = ([], s)"
| "refresh_targets d clock j (target # targets) s =
     (case refresh_target d (clock (j + 1)) target s of
        (result, s1) \<Rightarrow>
          (case refresh_targets d clock (j + 1) targets s1 of (results, s2) \<Rightarrow> (result # results, s2)))"

definition count_result :: "string option \<Rightarrow> refresh_batch_stats \<Rightarrow> refresh_batch_stats" where
  "count_result result stats =
     (case result of
        None \<Rightarrow> stats\<lparr>bs_success := sat_add_u64 (bs_success stats) 1\<rparr>
      | Some error_code \<Rightarrow>
          stats\<lparr>bs_failed := sat_add_u64 (bs_failed stats) 1,
                bs_error_counts := hm_insert error_code
                  ((case map_of (bs_error_counts stats) error_code of None \<Rightarrow> 0 | Some n \<Rightarrow> n) + 1)
                  (bs_error_counts stats)\<rparr>)"

definition refresh_rate_limit_targets_batch ::
  "pool_deps \<Rightarrow> (nat \<Rightarrow> timestamp) \<Rightarrow> rate_limit_refresh_target list \<Rightarrow> pool_store \<Rightarrow>
   refresh_batch_stats \<times> pool_store" where
  "refresh_rate_limit_targets_batch d clock targets s =
     (case refresh_targets d clock 0 targets s of
        (results, s1) \<Rightarrow>
          (fold count_result results
             \<lparr>bs_processed = length results, bs_success = 0, bs_failed = 0, bs_error_counts = []\<rparr>, s1))"

definition emit_rate_limit_refresh_batch_summary_inner ::
  "timestamp \<Rightarrow> string \<Rightarrow> nat \<Rightarrow> refresh_batch_stats \<Rightarrow> pool_store \<Rightarrow> pool_store" where
  "emit_rate_limit_refresh_batch_summary_inner started_at source fetched stats s =
     emit_system_event_inner
       \<lparr>se_ts = started_at, se_event_type = ''rate_limit_refresh_batch_completed'',
        se_severity = (if bs_failed stats > 0 then SeverityWarn else SeverityInfo),
        se_source = source, se_account_id = None, se_account_label = None, se_auth_provider = None,
        se_operator_state_from = None, se_operator_state_to = None, se_reason_class = None,
        se_reason_code = Some ''rate_limit_refresh_batch_completed'', se_next_action_at = None,
        se_message = Some
          (''rate-limit refresh scanned '' @ to_decimal fetched @ '' targets ('' @
           to_decimal (bs_success stats) @ '' ok / '' @ to_decimal (bs_failed stats) @ '' failed)'')\<rparr> s"

section \<open>The pass over entries that are due\<close>

text \<open>The loop goes on as long as a batch is full; it is a partial function, since nothing else bounds it.\<close>

partial_function (option) refresh_due_loop ::
  "pool_deps \<Rightarrow> (nat \<Rightarrow> nat \<Rightarrow> timestamp) \<Rightarrow> nat \<Rightarrow> nat \<Rightarrow> pool_store \<Rightarrow> (nat \<times> pool_store) option" where
  "refresh_due_loop d clock k refreshed_total s =
     (let batch_size = rate_limit_refresh_batch_size_from_env (pd_env d);
          targets = load_rate_limit_refresh_targets None batch_size True (clock k 0) s
      in if targets = [] then Some (refreshed_total, s)
         else (case refresh_rate_limit_targets_batch d (clock k) targets s of
                 (stats, s1) \<Rightarrow>
                   let s2 = emit_rate_limit_refresh_batch_summary_inner (clock k 0)
                              ''control_plane.rate_limit_refresh'' (length targets) stats s1;
                       refreshed = sat_add_u64 refreshed_total (bs_processed stats)
                   in if length targets < batch_size then Some (refreshed, s2)
                      else refresh_due_loop d clock (k + 1) refreshed s2))"

definition refresh_due_oauth_rate_limit_caches ::
  "pool_deps \<Rightarrow> (nat \<Rightarrow> nat \<Rightarrow> timestamp) \<Rightarrow> pool_store \<Rightarrow> (nat \<times> pool_store) option" where
  "refresh_due_oauth_rate_limit_caches d clock s = refresh_due_loop d clock 0 0 s"

section \<open>Jobs\<close>

datatype refresh_job_status = JobQueued | JobRunning | JobCompleted | JobFailed

record refresh_error_summary =
  re_error_code :: string
  re_count :: nat

record refresh_job_summary =
  rj_job_id :: uuid
  rj_status :: refresh_job_status
  rj_total :: nat
  rj_processed :: nat
  rj_success_count :: nat
  rj_failed_count :: nat
  rj_started_at :: "timestamp option"
  rj_finished_at :: "timestamp option"
  rj_created_at :: timestamp
  rj_throughput_per_min :: "(nat \<times> int) option"
  rj_error_summary :: "refresh_error_summary list"

record refresh_jobs_store =
  js_jobs :: "(uuid, refresh_job_summary) hash_map"
  js_pool :: pool_store

definition is_active_job :: "refresh_job_summary \<Rightarrow> bool" where
  "is_active_job job \<longleftrightarrow> rj_status job \<in> {JobQueued, JobRunning}"

text \<open>The count of an error code in a summary, added to in place or put at the end.\<close>

fun add_error_count :: "string \<Rightarrow> nat \<Rightarrow> refresh_error_summary list \<Rightarrow> refresh_error_summary list" where
  "add_error_count code n [] = [\<lparr>re_error_code = code, re_count = n\<rparr>]"
| "add_error_count code n (e # es) =
     (if re_error_code e = code then e\<lparr>re_count := sat_add_u64 (re_count e) n\<rparr> # es
      else e # add_error_count code n es)"

definition recover_job :: "timestamp \<Rightarrow> refresh_job_summary \<Rightarrow> refresh_job_summary" where
  "recover_job now job =
     (if rj_status job \<noteq> JobRunning then job
      else job\<lparr>rj_status := JobFailed, rj_finished_at := Some now,
               rj_error_summary := add_error_count ''job_recovered_after_restart'' 1 (rj_error_summary job)\<rparr>)"

definition recover_oauth_rate_limit_refresh_jobs ::
  "timestamp \<Rightarrow> refresh_jobs_store \<Rightarrow> nat \<times> refresh_jobs_store" where
  "recover_oauth_rate_limit_refresh_jobs now js =
     (length (filter (\<lambda>(i, job). rj_status job = JobRunning) (js_jobs js)),
      js\<lparr>js_jobs := map (\<lambda>(i, job). (i, recover_job now job)) (js_jobs js)\<rparr>)"

definition newest_active_job :: "(uuid, refresh_job_summary) hash_map \<Rightarrow> refresh_job_summary option" where
  "newest_active_job jobs =
     (case sort_key (\<lambda>job. (rj_created_at job, rj_job_id job)) (filter is_active_job (map snd jobs)) of
        [] \<Rightarrow> None
      | active \<Rightarrow> Some (last active))"

definition create_oauth_rate_limit_refresh_job ::
  "uuid \<Rightarrow> timestamp \<Rightarrow> refresh_jobs_store \<Rightarrow> refresh_job_summary \<times> refresh_jobs_store" where
  "create_oauth_rate_limit_refresh_job new_id now js =
     (case newest_active_job (js_jobs js) of
        Some existing \<Rightarrow> (existing, js)
      | None \<Rightarrow>
          let summary = \<lparr>rj_job_id = new_id, rj_status = JobQueued,
                         rj_total = count_rate_limit_refresh_targets now (js_pool js), rj_processed = 0,
                         rj_success_count = 0, rj_failed_count = 0, rj_started_at = None, rj_finished_at = None,
                         rj_created_at = now, rj_throughput_per_min = None, rj_error_summary = []\<rparr>
          in (summary, js\<lparr>js_jobs := hm_insert new_id summary (js_jobs js)\<rparr>))"

definition oauth_rate_limit_refresh_job :: "uuid \<Rightarrow> refresh_jobs_store \<Rightarrow> string + refresh_job_summary" where
  "oauth_rate_limit_refresh_job job_id js =
     (case map_of (js_jobs js) job_id of None \<Rightarrow> Inl ''job not found'' | Some job \<Rightarrow> Inr job)"

definition update_job ::
  "uuid \<Rightarrow> (refresh_job_summary \<Rightarrow> refresh_job_summary) \<Rightarrow> refresh_jobs_store \<Rightarrow>
   (string + unit) \<times> refresh_jobs_store" where
  "update_job job_id f js =
     (case map_of (js_jobs js) job_id of
        None \<Rightarrow> (Inl ''job not found'', js)
      | Some job \<Rightarrow> (Inr (), js\<lparr>js_jobs := hm_insert job_id (f job) (js_jobs js)\<rparr>))"

definition add_progress :: "refresh_batch_stats \<Rightarrow> refresh_job_summary \<Rightarrow> refresh_job_summary" where
  "add_progress stats job =
     job\<lparr>rj_processed := sat_add_u64 (rj_processed job) (bs_processed stats),
         rj_success_count := sat_add_u64 (rj_success_count job) (bs_success stats),
         rj_failed_count := sat_add_u64 (rj_failed_count job) (bs_failed stats),
         rj_error_summary :=
           sort_key (\<lambda>e. (- int (re_count e), re_error_code e))
             (fold (\<lambda>(code, n). add_error_count code n) (bs_error_counts stats) (rj_error_summary job))\<rparr>"

definition append_rate_limit_refresh_job_progress ::
  "uuid \<Rightarrow> refresh_batch_stats \<Rightarrow> refresh_jobs_store \<Rightarrow> (string + unit) \<times> refresh_jobs_store" where
  "append_rate_limit_refresh_job_progress job_id stats = update_job job_id (add_progress stats)"

definition throughput :: "timestamp \<Rightarrow> refresh_job_summary \<Rightarrow> (nat \<times> int) option" where
  "throughput finished_at job =
     (case rj_started_at job of
        None \<Rightarrow> None
      | Some started_at \<Rightarrow>
          let elapsed_sec = (finished_at - started_at) div seconds 1
          in if elapsed_sec \<le> 0 then None else Some (rj_processed job * 60, elapsed_sec))"

definition finish_rate_limit_refresh_job ::
  "uuid \<Rightarrow> refresh_job_status \<Rightarrow> timestamp \<Rightarrow> refresh_jobs_store \<Rightarrow> (string + unit) \<times> refresh_jobs_store" where
  "finish_rate_limit_refresh_job job_id status finished_at =
     update_job job_id (\<lambda>job. job\<lparr>rj_status := status, rj_finished_at := Some finished_at,
                                   rj_throughput_per_min := throughput finished_at job\<rparr>)"

definition mark_rate_limit_refresh_job_failed ::
  "uuid \<Rightarrow> string \<Rightarrow> timestamp \<Rightarrow> refresh_jobs_store \<Rightarrow> (string + unit) \<times> refresh_jobs_store" where
  "mark_rate_limit_refresh_job_failed job_id error_code finished_at =
     update_job job_id (\<lambda>job. job\<lparr>rj_status := JobFailed,
                                   rj_failed_count := sat_add_u64 (rj_failed_count job) 1,
                                   rj_error_summary := add_error_count error_code 1 (rj_error_summary job),
                                   rj_finished_at := Some finished_at,
                                   rj_throughput_per_min := throughput finished_at job\<rparr>)"

definition start_job :: "nat \<Rightarrow> timestamp \<Rightarrow> refresh_job_summary \<Rightarrow> refresh_job_summary" where
  "start_job all_targets now job =
     job\<lparr>rj_status := JobRunning, rj_total := all_targets, rj_processed := 0, rj_success_count := 0,
         rj_failed_count := 0, rj_started_at := Some now, rj_finished_at := None,
         rj_throughput_per_min := None, rj_error_summary := []\<rparr>"

text \<open>One batch of a job: its targets, and the state with the progress noted.\<close>

definition job_batch ::
  "pool_deps \<Rightarrow> uuid \<Rightarrow> (nat \<Rightarrow> timestamp) \<Rightarrow> rate_limit_refresh_target list \<Rightarrow> refresh_jobs_store \<Rightarrow>
   (string + unit) \<times> refresh_jobs_store" where
  "job_batch d job_id clock targets js =
     (case refresh_rate_limit_targets_batch d clock targets (js_pool js) of
        (stats, s1) \<Rightarrow>
          append_rate_limit_refresh_job_progress job_id stats
            (js\<lparr>js_pool := emit_rate_limit_refresh_batch_summary_inner (clock 0)
                  ''control_plane.rate_limit_refresh_job'' (length targets) stats s1\<rparr>))"

lemma refresh_target_accounts: "ps_accounts (snd (refresh_target d now t s)) = ps_accounts s"
  by (simp add: refresh_target_def persist_rate_limit_cache_success_inner_def
      persist_rate_limit_cache_failure_inner_def upsert_session_profile_def bump_revision_def case_prod_beta Let_def
      split: sum.split option.split prod.split)

lemma refresh_targets_accounts: "ps_accounts (snd (refresh_targets d clock j ts s)) = ps_accounts s"
  by (induction ts arbitrary: j s) (simp_all add: case_prod_beta refresh_target_accounts)

lemma batch_accounts: "ps_accounts (snd (refresh_rate_limit_targets_batch d clock ts s)) = ps_accounts s"
  by (simp add: refresh_rate_limit_targets_batch_def case_prod_beta refresh_targets_accounts)

lemma update_job_pool [simp]: "js_pool (snd (update_job i f js)) = js_pool js"
  by (simp add: update_job_def split: option.split)

lemma job_batch_accounts: "ps_accounts (js_pool (snd (job_batch d i clock ts js))) = ps_accounts (js_pool js)"
  by (simp add: job_batch_def case_prod_beta append_rate_limit_refresh_job_progress_def batch_accounts
      emit_rate_limit_refresh_batch_summary_inner_def emit_system_event_inner_def)

lemma refresh_target_of_id: "refresh_target_of now due s a = Some t \<Longrightarrow> rt_account_id t = ua_id a"
  by (auto simp: refresh_target_of_def build_rate_limit_refresh_target_inner_def split: option.splits if_splits)

lemma loaded_target:
  assumes "t \<in> set (load_rate_limit_refresh_targets after_id limit due_only now s)"
  obtains a where "a \<in> snd ` set (ps_accounts s)" "ua_id a = rt_account_id t" "\<not> behind_cursor after_id (ua_id a)"
    "refresh_target_of now due_only s a = Some t"
proof -
  have "t \<in> set (List.map_filter (\<lambda>account. if behind_cursor after_id (ua_id account) then None
      else refresh_target_of now due_only s account) (map snd (ps_accounts s)))"
    using in_set_takeD [OF assms [unfolded load_rate_limit_refresh_targets_def]] by simp
  then obtain a where "a \<in> snd ` set (ps_accounts s)" "\<not> behind_cursor after_id (ua_id a)"
    "refresh_target_of now due_only s a = Some t"
    by (force simp: map_filter_def split: if_splits)
  with refresh_target_of_id show ?thesis by (metis that)
qed

lemma cursor_advances:
  assumes "a \<in> set A" "\<not> behind_cursor cursor (ua_id a)"
  shows "length (filter (\<lambda>b. \<not> behind_cursor (Some (ua_id a)) (ua_id b)) A) <
    length (filter (\<lambda>b. \<not> behind_cursor cursor (ua_id b)) A)"
proof -
  let ?P = "\<lambda>b. \<not> behind_cursor cursor (ua_id b)" and ?Q = "\<lambda>b. \<not> behind_cursor (Some (ua_id a)) (ua_id b)"
  have "filter ?Q A = filter ?Q (filter ?P A)"
    using assms(2) by (auto simp: behind_cursor_def split: option.splits intro!: filter_cong)
  moreover have "a \<in> set (filter ?P A)" "\<not> ?Q a" using assms by (auto simp: behind_cursor_def)
  ultimately show ?thesis by (metis length_filter_less)
qed

function refresh_job_loop ::
  "pool_deps \<Rightarrow> uuid \<Rightarrow> (nat \<Rightarrow> nat \<Rightarrow> timestamp) \<Rightarrow> nat \<Rightarrow> uuid option \<Rightarrow> refresh_jobs_store \<Rightarrow>
   (string + unit) \<times> refresh_jobs_store" where
  "refresh_job_loop d job_id clock k cursor js =
     (let batch_size = rate_limit_refresh_batch_size_from_env (pd_env d);
          targets = load_rate_limit_refresh_targets cursor batch_size False (clock k 0) (js_pool js)
      in if targets = [] then (Inr (), js)
         else (case job_batch d job_id (clock k) targets js of
                 (Inl e, js1) \<Rightarrow> (Inl e, js1)
               | (Inr _, js1) \<Rightarrow>
                   if length targets < batch_size then (Inr (), js1)
                   else refresh_job_loop d job_id clock (k + 1) (Some (rt_account_id (last targets))) js1))"
  by pat_completeness auto

termination
proof (relation "measure (\<lambda>(d, job_id, clock, k, cursor, js).
    length (filter (\<lambda>a. \<not> behind_cursor cursor (ua_id a)) (map snd (ps_accounts (js_pool js)))))",
    goal_cases)
  case (2 d job_id clock k cursor js batch_size targets p js1)
  have "ps_accounts (js_pool js1) = ps_accounts (js_pool js)"
    using job_batch_accounts [of d job_id "clock k" targets js] 2 by (metis snd_conv)
  moreover have "last targets \<in> set (load_rate_limit_refresh_targets cursor batch_size False (clock k 0) (js_pool js))"
    using 2 by simp
  then obtain a where "a \<in> set (map snd (ps_accounts (js_pool js)))" "ua_id a = rt_account_id (last targets)"
    "\<not> behind_cursor cursor (ua_id a)" by (rule loaded_target) simp
  ultimately show ?case using cursor_advances [of a "map snd (ps_accounts (js_pool js))" cursor] by simp
qed simp

declare refresh_job_loop.simps [simp del]

text \<open>
  The whole job: the targets are counted and the job is started, the batches run, and the job is finished or,
  after an error, marked as failed.
\<close>

definition run_oauth_rate_limit_refresh_job ::
  "pool_deps \<Rightarrow> uuid \<Rightarrow> timestamp \<Rightarrow> (nat \<Rightarrow> nat \<Rightarrow> timestamp) \<Rightarrow> timestamp \<Rightarrow> refresh_jobs_store \<Rightarrow>
   (string + unit) \<times> refresh_jobs_store" where
  "run_oauth_rate_limit_refresh_job d job_id now clock finished_at js =
     (let all_targets = count_rate_limit_refresh_targets now (js_pool js)
      in case map_of (js_jobs js) job_id of
           None \<Rightarrow> (Inl ''job not found'', js)
         | Some job \<Rightarrow>
             if rj_status job \<noteq> JobQueued then (Inr (), js)
             else
               let js0 = js\<lparr>js_jobs := hm_insert job_id (start_job all_targets now job) (js_jobs js)\<rparr>;
                   (result, js1) =
                     (case refresh_job_loop d job_id clock 0 None js0 of
                        (Inl e, js') \<Rightarrow> (Inl e, js')
                      | (Inr _, js') \<Rightarrow> finish_rate_limit_refresh_job job_id JobCompleted finished_at js')
               in (case result of
                     Inr _ \<Rightarrow> (Inr (), js1)
                   | Inl e \<Rightarrow> (Inl e, snd (mark_rate_limit_refresh_job_failed job_id ''internal_error'' finished_at js1))))"

section \<open>Refresh when an account was seen working\<close>

definition maybe_refresh_oauth_rate_limit_cache_on_seen_ok ::
  "pool_deps \<Rightarrow> uuid \<Rightarrow> timestamp \<Rightarrow> (nat \<Rightarrow> timestamp) \<Rightarrow> pool_store \<Rightarrow> pool_store" where
  "maybe_refresh_oauth_rate_limit_cache_on_seen_ok d account_id now clock s =
     (let cache = cache_of s account_id
      in case (map_of (ps_accounts s) account_id, map_of (ps_auth_providers s) account_id) of
           (Some account, Some provider) \<Rightarrow>
             if \<not> ua_enabled account then s
             else
               let signals =
                     (case provider of
                        OAuthRefreshToken \<Rightarrow>
                          map_option (\<lambda>c. (Some (cr_token_expires_at c), cr_last_refresh_status c,
                                           cr_refresh_reused_detected c, cr_last_refresh_error_code c))
                            (map_of (ps_credentials s) account_id)
                      | LegacyBearer \<Rightarrow>
                          (case map_of (ps_session_profiles s) account_id of
                             None \<Rightarrow> None
                           | Some profile \<Rightarrow>
                               if ua_mode account \<noteq> CodexOauth \<or> sp_credential_kind profile \<noteq> OneTimeAccessToken
                               then None
                               else Some (sp_token_expires_at profile, RefreshNever, False, None)))
               in (case signals of
                     None \<Rightarrow> s
                   | Some (token_expires_at, last_refresh_status, reused, last_refresh_error_code) \<Rightarrow>
                       if \<not> should_refresh_rate_limit_cache_on_seen_ok now token_expires_at last_refresh_status
                              reused last_refresh_error_code (rlc_expires_at cache) (rlc_last_error_code cache)
                              (rlc_last_error cache)
                       then s
                       else (case build_rate_limit_refresh_target_inner account provider
                                    (map_of (ps_credentials s) account_id)
                                    (map_of (ps_session_profiles s) account_id) (Some cache) now False of
                               None \<Rightarrow> s
                             | Some target \<Rightarrow> snd (refresh_rate_limit_targets_batch d clock [target] s)))
         | _ \<Rightarrow> s)"

end
