(* ===== verification/Rate_Limit_Jobs_Props.thy ===== *)
theory Rate_Limit_Jobs_Props
  imports Rate_Limit_Jobs Pool_Snapshot "HOL-Library.Multiset"
begin

text \<open>
  What the refresh of rate limits promises: a job asks every account that can be asked exactly once and counts
  what it did, at most one job is active, and the pass over due entries ends when it is faster than the
  entries expire.
\<close>

section \<open>What a refresh leaves alone\<close>

definition askable :: "timestamp \<Rightarrow> pool_store \<Rightarrow> upstream_account \<Rightarrow> bool" where
  "askable now s a \<longleftrightarrow> refresh_target_of now False s a \<noteq> None"

definition cached_past :: "timestamp \<Rightarrow> pool_store \<Rightarrow> uuid \<Rightarrow> bool" where
  "cached_past t s i \<longleftrightarrow> (\<exists>c e. map_of (ps_rate_limit_caches s) i = Some c \<and> rlc_expires_at c = Some e \<and> t < e)"

text \<open>\<open>only_refreshed I s s'\<close>: from \<open>s\<close> to \<open>s'\<close> only entries of accounts in \<open>I\<close> were written.\<close>

definition only_refreshed :: "uuid set \<Rightarrow> pool_store \<Rightarrow> pool_store \<Rightarrow> bool" where
  "only_refreshed I s s' \<longleftrightarrow>
     ps_accounts s' = ps_accounts s \<and> (\<forall>now a. askable now s' a = askable now s a) \<and>
     (\<forall>i. i \<notin> I \<longrightarrow> map_of (ps_rate_limit_caches s') i = map_of (ps_rate_limit_caches s) i)"

lemma only_refreshed_refl: "only_refreshed {} s s"
  by (simp add: only_refreshed_def)

lemma only_refreshed_trans: "only_refreshed I s s' \<Longrightarrow> only_refreshed J s' s'' \<Longrightarrow> only_refreshed (I \<union> J) s s''"
  by (simp add: only_refreshed_def)

lemma only_refreshed_mono: "only_refreshed I s s' \<Longrightarrow> I \<subseteq> J \<Longrightarrow> only_refreshed J s s'"
  unfolding only_refreshed_def by blast

lemma askable_unfold:
  "askable now s a \<longleftrightarrow> (\<exists>p. map_of (ps_auth_providers s) (ua_id a) = Some p \<and>
     build_live_rate_limit_token_source_inner a p (map_of (ps_credentials s) (ua_id a))
       (map_of (ps_session_profiles s) (ua_id a)) now \<noteq> None)"
  by (auto simp: askable_def refresh_target_of_def build_rate_limit_refresh_target_inner_def split: option.splits)

lemma token_source_plan:
  assumes "sp_credential_kind p' = sp_credential_kind p" "sp_token_expires_at p' = sp_token_expires_at p"
  shows "build_live_rate_limit_token_source_inner a q c (Some p') now = build_live_rate_limit_token_source_inner a q c (Some p) now"
  using assms by (cases q) (simp_all add: build_live_rate_limit_token_source_inner_def)

text \<open>The state after a successful answer, field by field.\<close>

lemma success_state:
  "ps_accounts (persist_rate_limit_cache_success_inner d i limits t plan s) = ps_accounts s"
  "ps_auth_providers (persist_rate_limit_cache_success_inner d i limits t plan s) = ps_auth_providers s"
  "ps_credentials (persist_rate_limit_cache_success_inner d i limits t plan s) = ps_credentials s"
  "ps_session_profiles (persist_rate_limit_cache_success_inner d i limits t plan s) =
     (case (Option.bind plan trim_nonempty, map_of (ps_session_profiles s) i) of
        (Some p, Some profile) \<Rightarrow> hm_insert i (profile\<lparr>sp_chatgpt_plan_type := Some p\<rparr>) (ps_session_profiles s)
      | _ \<Rightarrow> ps_session_profiles s)"
  "ps_rate_limit_caches (persist_rate_limit_cache_success_inner d i limits t plan s) = hm_insert i
     \<lparr>rlc_rate_limits = limits, rlc_fetched_at = Some t,
      rlc_expires_at = Some (case fst (derive_rate_limit_block limits t) of Some b \<Rightarrow> b
                             | None \<Rightarrow> t + seconds (rate_limit_cache_ttl_sec_from_env (pd_env d))),
      rlc_last_error_code = snd (derive_rate_limit_block limits t),
      rlc_last_error = map_option rate_limit_block_message (snd (derive_rate_limit_block limits t))\<rparr>
     (ps_rate_limit_caches s)"
  by (simp_all add: persist_rate_limit_cache_success_inner_def upsert_session_profile_def bump_revision_def Let_def
      case_prod_beta split: option.split)

lemma only_refreshed_success:
  "only_refreshed {i} s (persist_rate_limit_cache_success_inner d i limits t plan s)"
proof -
  let ?P = "map_of (ps_session_profiles s)"
    and ?P' = "map_of (ps_session_profiles (persist_rate_limit_cache_success_inner d i limits t plan s))"
  have plan: "?P' j = ?P j \<or> (\<exists>p q. ?P j = Some p \<and> ?P' j = Some (p\<lparr>sp_chatgpt_plan_type := q\<rparr>))" for j
    by (cases "Option.bind plan trim_nonempty"; cases "?P i") (auto simp: success_state(4) map_of_hm_insert)
  have "build_live_rate_limit_token_source_inner a p c (?P' j) now = build_live_rate_limit_token_source_inner a p c (?P j) now"
    for a p c j now
  proof (cases "?P' j = ?P j")
    case False
    with plan [of j] obtain profile q where "?P j = Some profile" "?P' j = Some (profile\<lparr>sp_chatgpt_plan_type := q\<rparr>)" by blast
    then show ?thesis by (simp only:) (rule token_source_plan; simp)
  qed simp
  then have "askable now (persist_rate_limit_cache_success_inner d i limits t plan s) a = askable now s a" for now a
    unfolding askable_unfold success_state(2,3) by simp
  then show ?thesis by (simp add: only_refreshed_def success_state map_of_hm_insert)
qed

lemma only_refreshed_failure:
  "only_refreshed {i} s (snd (persist_rate_limit_cache_failure_inner d i code message t s))"
  by (auto simp: only_refreshed_def askable_unfold persist_rate_limit_cache_failure_inner_def bump_revision_def Let_def map_of_hm_insert)

lemma only_refreshed_target: "only_refreshed {rt_account_id target} s (snd (refresh_target d now target s))"
  by (auto simp: refresh_target_def only_refreshed_success case_prod_beta only_refreshed_failure split: sum.split)

lemma only_refreshed_targets: "only_refreshed (rt_account_id ` set ts) s (snd (refresh_targets d clock j ts s))"
proof (induction ts arbitrary: j s)
  case (Cons t ts)
  from only_refreshed_trans [OF only_refreshed_target Cons.IH] show ?case by (auto simp: case_prod_beta)
qed (simp add: only_refreshed_refl)

lemma only_refreshed_emit: "only_refreshed I s s' \<Longrightarrow> only_refreshed I s (emit_rate_limit_refresh_batch_summary_inner t src n st s')"
  by (simp add: only_refreshed_def askable_unfold emit_rate_limit_refresh_batch_summary_inner_def emit_system_event_inner_def)

section \<open>Counting\<close>

lemma results_length: "length (fst (refresh_targets d clock j ts s)) = length ts"
  by (induction ts arbitrary: j s) (simp_all add: case_prod_beta)

definition error_total :: "refresh_error_summary list \<Rightarrow> nat" where
  "error_total es = sum_list (map re_count es)"

lemma sum_hm_insert:
  "sum_list (map snd (hm_insert k v xs)) + (case map_of xs k of None \<Rightarrow> 0 | Some n \<Rightarrow> n) = sum_list (map snd xs) + (v :: nat)"
  by (induction xs) (auto split: option.splits)

lemma count_results:
  assumes "bs_success st + bs_failed st + length rs \<le> u64_max" "sum_list (map snd (bs_error_counts st)) = bs_failed st"
  shows "bs_processed (fold count_result rs st) = bs_processed st \<and>
    bs_success (fold count_result rs st) + bs_failed (fold count_result rs st) = bs_success st + bs_failed st + length rs \<and>
    sum_list (map snd (bs_error_counts (fold count_result rs st))) = bs_failed (fold count_result rs st)"
  using assms
proof (induction rs arbitrary: st)
  case (Cons r rs)
  let ?st = "count_result r st"
  have "bs_success ?st + bs_failed ?st = bs_success st + bs_failed st + 1" "bs_processed ?st = bs_processed st"
    using Cons.prems(1) by (simp_all add: count_result_def sat_add_u64_def split: option.split)
  moreover have "sum_list (map snd (bs_error_counts ?st)) = bs_failed ?st"
  proof (cases r)
    case (Some code)
    have "sum_list (map snd (hm_insert code (Suc n) (bs_error_counts st))) = Suc (bs_failed st)"
      if "n = (case map_of (bs_error_counts st) code of None \<Rightarrow> 0 | Some n \<Rightarrow> n)" for n
      using that sum_hm_insert [of code "Suc n" "bs_error_counts st"] Cons.prems(2) by simp
    with Some Cons.prems(1) show ?thesis by (simp add: count_result_def sat_add_u64_def)
  qed (use Cons.prems in \<open>simp add: count_result_def\<close>)
  ultimately show ?case using Cons.IH [of ?st] Cons.prems(1) by simp
qed simp

lemma error_total_add:
  "error_total es + n \<le> u64_max \<Longrightarrow> error_total (add_error_count code n es) = error_total es + n"
proof (induction code n es rule: add_error_count.induct)
  case (2 code n e es)
  then show ?case by (auto simp: error_total_def sat_add_u64_def)
qed (simp add: error_total_def)

lemma error_total_fold:
  "error_total es + sum_list (map snd cs) \<le> u64_max \<Longrightarrow>
   error_total (fold (\<lambda>(code, n). add_error_count code n) cs es) = error_total es + sum_list (map snd cs)"
  by (induction cs arbitrary: es) (auto simp: error_total_add)

lemma error_total_sort: "error_total (sort_key f es) = error_total es"
proof -
  have "mset (map re_count (sort_key f es)) = mset (map re_count es)" by (simp add: mset_map)
  then show ?thesis unfolding error_total_def by (metis sum_mset_sum_list)
qed

text \<open>The counts of a job fit together, and \<open>n\<close> targets have been processed.\<close>

definition counts :: "nat \<Rightarrow> refresh_job_summary \<Rightarrow> bool" where
  "counts n job \<longleftrightarrow> rj_processed job = n \<and> rj_success_count job + rj_failed_count job = n \<and>
     error_total (rj_error_summary job) = rj_failed_count job"

lemma counts_progress:
  assumes "counts n job" "n + length ts \<le> u64_max"
  shows "counts (n + length ts) (add_progress (fst (refresh_rate_limit_targets_batch d clock ts s)) job)"
proof -
  let ?rs = "fst (refresh_targets d clock 0 ts s)"
  let ?st = "fst (refresh_rate_limit_targets_batch d clock ts s)"
  have st: "?st = fold count_result ?rs \<lparr>bs_processed = length ?rs, bs_success = 0, bs_failed = 0, bs_error_counts = []\<rparr>"
    by (simp add: refresh_rate_limit_targets_batch_def case_prod_beta)
  have facts: "bs_processed ?st = length ts" "bs_success ?st + bs_failed ?st = length ts"
    "sum_list (map snd (bs_error_counts ?st)) = bs_failed ?st"
    unfolding st using assms(2) count_results [of "\<lparr>bs_processed = length ?rs, bs_success = 0, bs_failed = 0, bs_error_counts = []\<rparr>" ?rs]
    by (simp_all add: results_length)
  have "error_total (rj_error_summary job) + sum_list (map snd (bs_error_counts ?st)) \<le> u64_max"
    using assms facts by (simp add: counts_def)
  with assms facts show ?thesis
    by (simp add: counts_def add_progress_def error_total_sort error_total_fold sat_add_u64_def)
qed


section \<open>The targets of a batch\<close>

lemma account_ids_distinct:
  assumes "pool_inv s"
  shows "distinct (map ua_id (map snd (ps_accounts s)))"
proof -
  have ids: "map ua_id (map snd (ps_accounts s)) = map fst (ps_accounts s)"
    using assms by (auto simp: pool_inv_def tables_inv_def linked_def)
  show ?thesis unfolding ids using assms by (simp add: pool_inv_def tables_inv_def)
qed

lemma loaded_targets:
  fixes limit after_id due now s
  defines "ts \<equiv> load_rate_limit_refresh_targets after_id limit due now s"
  assumes inv: "pool_inv s"
  shows "sorted_wrt (<) (map rt_account_id ts)"
    and "\<And>a t. a \<in> snd ` set (ps_accounts s) \<Longrightarrow> \<not> behind_cursor after_id (ua_id a) \<Longrightarrow>
      refresh_target_of now due s a = Some t \<Longrightarrow>
      t \<in> set ts \<or> (length ts = limit \<and> (\<forall>t' \<in> set ts. rt_account_id t' < ua_id a))"
proof -
  define f where "f = (\<lambda>account. if behind_cursor after_id (ua_id account) then None else refresh_target_of now due s account)"
  define all where "all = sort_key rt_account_id (List.map_filter f (map snd (ps_accounts s)))"
  have "distinct (map ua_id (map snd (ps_accounts s)))" using inv by (rule account_ids_distinct)
  moreover have "distinct (map rt_account_id (List.map_filter f xs))" if "distinct (map ua_id xs)" for xs
    using that
  proof (induction xs)
    case (Cons x xs)
    have "rt_account_id ` set (List.map_filter f xs) \<subseteq> ua_id ` set xs"
      by (auto simp: f_def map_filter_def refresh_target_of_id split: if_splits)
    with Cons show ?case
      by (auto simp: f_def List.map_filter_simps refresh_target_of_id split: option.split)
  qed (simp add: List.map_filter_simps)
  ultimately have "distinct (map rt_account_id (List.map_filter f (map snd (ps_accounts s))))" by blast
  then have "distinct (map rt_account_id all)"
    unfolding all_def by (simp add: distinct_map)
  then have strict: "sorted_wrt (<) (map rt_account_id all)"
    by (simp add: strict_sorted_iff all_def)
  have ts: "ts = take limit all" by (simp add: ts_def load_rate_limit_refresh_targets_def all_def f_def)
  have split: "map rt_account_id all = map rt_account_id ts @ map rt_account_id (drop limit all)"
    unfolding ts by (metis append_take_drop_id map_append)
  with strict show "sorted_wrt (<) (map rt_account_id ts)" by (simp add: sorted_wrt_append)
  fix a t assume a: "a \<in> snd ` set (ps_accounts s)" "\<not> behind_cursor after_id (ua_id a)" "refresh_target_of now due s a = Some t"
  then have "t \<in> set all" by (force simp: all_def f_def map_filter_def)
  then have "t \<in> set ts \<or> t \<in> set (drop limit all)" unfolding ts by (metis Un_iff append_take_drop_id set_append)
  moreover have "length ts = limit \<and> (\<forall>t' \<in> set ts. rt_account_id t' < ua_id a)" if "t \<in> set (drop limit all)"
  proof
    show "length ts = limit" using that unfolding ts by (cases "limit < length all") auto
    show "\<forall>t' \<in> set ts. rt_account_id t' < ua_id a"
      using strict [unfolded split] that refresh_target_of_id [OF a(3)] by (fastforce simp: sorted_wrt_append)
  qed
  ultimately show "t \<in> set ts \<or> (length ts = limit \<and> (\<forall>t' \<in> set ts. rt_account_id t' < ua_id a))" by blast
qed

section \<open>A batch of a job\<close>

lemma failure_state:
  "ps_rate_limit_caches (snd (persist_rate_limit_cache_failure_inner d i code message t s)) = hm_insert i
     ((cache_of s i)\<lparr>rlc_fetched_at := (if rlc_rate_limits (cache_of s i) = [] then None else rlc_fetched_at (cache_of s i)),
        rlc_expires_at := Some (t + seconds (rate_limit_failure_backoff_seconds (pd_env d) code message)),
        rlc_last_error_code := Some (fst (persist_rate_limit_cache_failure_inner d i code message t s)),
        rlc_last_error := Some (truncate_error_message message)\<rparr>) (ps_rate_limit_caches s)"
  by (simp add: persist_rate_limit_cache_failure_inner_def bump_revision_def Let_def)

lemma rate_limit_lives: "30 \<le> rate_limit_cache_ttl_sec_from_env env" "5 \<le> rate_limit_failure_backoff_seconds env code message"
  using env_setting_bounds [of 30 86400 parse_i64 env "''CONTROL_PLANE_RATE_LIMIT_CACHE_TTL_SEC''" 180]
    env_setting_bounds [of 5 3600 parse_i64 env "''CONTROL_PLANE_RATE_LIMIT_REFRESH_ERROR_BACKOFF_SEC''" 60]
  by (simp_all add: rate_limit_cache_ttl_sec_from_env_def rate_limit_failure_backoff_seconds_def
      rate_limit_refresh_error_backoff_sec_from_env_def)

lemma target_cached: "cached_past now (snd (refresh_target d now target s)) (rt_account_id target)"
proof (cases "fetch_live_rate_limits_result d now target")
  case (Inl e)
  have "0 < seconds (rate_limit_failure_backoff_seconds (pd_env d) (fst e) (snd e))"
    using rate_limit_lives(2) [of "pd_env d" "fst e" "snd e"] by simp
  with Inl show ?thesis
    by (simp add: refresh_target_def case_prod_beta cached_past_def failure_state map_of_hm_insert)
next
  case (Inr usage)
  have "now < now + seconds (rate_limit_cache_ttl_sec_from_env (pd_env d))" using rate_limit_lives(1) [of "pd_env d"] by simp
  moreover have "now < b" if "fst (derive_rate_limit_block (us_rate_limits usage) now) = Some b" for b
    using that derive_rate_limit_block_after_now by (metis prod.collapse)
  ultimately show ?thesis using Inr
    by (auto simp: refresh_target_def cached_past_def success_state map_of_hm_insert split: option.split)
qed

lemma cached_past_kept: "only_refreshed I s s' \<Longrightarrow> i \<notin> I \<Longrightarrow> cached_past t s' i = cached_past t s i"
  by (simp add: only_refreshed_def cached_past_def)

lemma targets_cached:
  assumes "\<And>m target s. cached_past (E m) (snd (refresh_target d (clock m) target s)) (rt_account_id target)"
  shows "i \<in> rt_account_id ` set ts \<Longrightarrow> \<exists>m. cached_past (E m) (snd (refresh_targets d clock j ts s)) i"
proof (induction ts arbitrary: j s)
  case (Cons u ts)
  show ?case
  proof (cases "i \<in> rt_account_id ` set ts")
    case True
    then show ?thesis by (simp add: case_prod_beta Cons.IH)
  next
    case False
    with Cons.prems assms [of "Suc j" u s] show ?thesis
      by (auto simp: case_prod_beta cached_past_kept [OF only_refreshed_targets])
  qed
qed simp

lemma pool_inv_refresh_targets: "pool_inv s \<Longrightarrow> pool_inv (snd (refresh_targets d clock j ts s))"
proof (induction ts arbitrary: j s)
  case (Cons t ts)
  have "pool_inv (snd (refresh_target d (clock (Suc j)) t s))"
    using pool_inv_cache_success pool_inv_cache_failure Cons.prems
    by (auto simp: refresh_target_def case_prod_beta split: sum.split)
  with Cons.IH show ?case by (simp add: case_prod_beta)
qed simp

lemma job_batch_spec:
  assumes "pool_inv (js_pool js)" "map_of (js_jobs js) job_id = Some job" "counts n job" "n + length ts \<le> u64_max"
  obtains js' where "job_batch d job_id clock ts js = (Inr (), js')" "pool_inv (js_pool js')"
    "js_jobs js' = hm_insert job_id (add_progress (fst (refresh_rate_limit_targets_batch d clock ts (js_pool js))) job) (js_jobs js)"
    "only_refreshed (rt_account_id ` set ts) (js_pool js) (js_pool js')"
    "\<forall>i \<in> rt_account_id ` set ts. \<exists>m. cached_past (clock m) (js_pool js') i"
proof -
  let ?s = "js_pool js"
  let ?st = "fst (refresh_rate_limit_targets_batch d clock ts ?s)"
  let ?s1 = "snd (refresh_targets d clock 0 ts ?s)"
  let ?e = "emit_rate_limit_refresh_batch_summary_inner (clock 0) ''control_plane.rate_limit_refresh_job'' (length ts) ?st ?s1"
  have "cached_past t ?e i = cached_past t ?s1 i" for t i
    using cached_past_kept [OF only_refreshed_emit [OF only_refreshed_refl]] by simp
  then have "\<forall>i \<in> rt_account_id ` set ts. \<exists>m. cached_past (clock m) ?e i"
    using targets_cached [of clock d clock, OF target_cached] by simp
  moreover have "only_refreshed (rt_account_id ` set ts) ?s ?e" by (intro only_refreshed_emit only_refreshed_targets)
  moreover have "pool_inv ?e" unfolding emit_rate_limit_refresh_batch_summary_inner_def
    by (intro pool_inv_emit pool_inv_refresh_targets assms(1))
  ultimately show ?thesis
    using assms(2) by (intro that [of "js\<lparr>js_pool := ?e, js_jobs := hm_insert job_id (add_progress ?st job) (js_jobs js)\<rparr>"])
      (auto simp: job_batch_def case_prod_beta append_rate_limit_refresh_job_progress_def update_job_def
        refresh_rate_limit_targets_batch_def)
qed

section \<open>The loop of a job\<close>

text \<open>
  What the loop does from a cursor on: it asks the accounts \<open>ids\<close>, each once and in order, among them all that
  can be asked throughout.
\<close>

definition asked_from :: "uuid option \<Rightarrow> (nat \<Rightarrow> nat \<Rightarrow> timestamp) \<Rightarrow> pool_store \<Rightarrow> uuid list \<Rightarrow> bool" where
  "asked_from cursor clock s ids \<longleftrightarrow>
     sorted_wrt (<) ids \<and>
     (\<forall>i \<in> set ids. \<not> behind_cursor cursor i \<and>
        (\<exists>a \<in> snd ` set (ps_accounts s). ua_id a = i \<and> (\<exists>k. askable (clock k 0) s a))) \<and>
     (\<forall>a \<in> snd ` set (ps_accounts s). \<not> behind_cursor cursor (ua_id a) \<longrightarrow>
        (\<forall>k. askable (clock k 0) s a) \<longrightarrow> ua_id a \<in> set ids)"

definition beyond :: "uuid option \<Rightarrow> pool_store \<Rightarrow> uuid set" where
  "beyond cursor s = {i \<in> ua_id ` snd ` set (ps_accounts s). \<not> behind_cursor cursor i}"

lemma finite_beyond [simp]: "finite (beyond cursor s)"
  by (simp add: beyond_def)

lemma loaded_beyond:
  assumes "t \<in> set (load_rate_limit_refresh_targets cursor limit False now s)"
  shows "rt_account_id t \<in> beyond cursor s"
    and "\<exists>a \<in> snd ` set (ps_accounts s). ua_id a = rt_account_id t \<and> askable now s a"
proof -
  from assms obtain a where "a \<in> snd ` set (ps_accounts s)" "ua_id a = rt_account_id t" "\<not> behind_cursor cursor (ua_id a)"
    "refresh_target_of now False s a = Some t" by (rule loaded_target)
  then show "rt_account_id t \<in> beyond cursor s"
    "\<exists>a \<in> snd ` set (ps_accounts s). ua_id a = rt_account_id t \<and> askable now s a"
    unfolding beyond_def askable_def by (force, force)
qed

lemma last_is_max: "sorted_wrt (<) xs \<Longrightarrow> x \<in> set xs \<Longrightarrow> x \<le> last (xs :: uuid list)"
  by (induction xs) (auto simp: less_le)

lemma batch_size_pos: "0 < rate_limit_refresh_batch_size_from_env env"
  using env_setting_bounds [of 1 2000 parse_u64 env _ 200] by (simp add: rate_limit_refresh_batch_size_from_env_def Suc_le_eq)

lemma asked_one_batch:
  assumes "pool_inv s" "length (load_rate_limit_refresh_targets cursor limit False (clock k 0) s) < limit"
  shows "asked_from cursor clock s (map rt_account_id (load_rate_limit_refresh_targets cursor limit False (clock k 0) s))"
proof -
  let ?ts = "load_rate_limit_refresh_targets cursor limit False (clock k 0) s"
  note loaded = loaded_targets [where after_id = cursor and limit = limit and due = False and now = "clock k 0", OF assms(1)]
  have "ua_id a \<in> rt_account_id ` set ?ts"
    if a: "a \<in> snd ` set (ps_accounts s)" "\<not> behind_cursor cursor (ua_id a)" "\<forall>k. askable (clock k 0) s a" for a
  proof -
    from a(3) obtain t where "refresh_target_of (clock k 0) False s a = Some t" by (auto simp: askable_def)
    with loaded(2) [OF a(1,2) this] assms(2) refresh_target_of_id show ?thesis by force
  qed
  then show ?thesis
    unfolding asked_from_def using loaded(1) loaded_beyond by (fastforce simp: beyond_def)
qed

lemma asked_next_batch:
  fixes cursor limit clock k s
  defines "ts \<equiv> load_rate_limit_refresh_targets cursor limit False (clock k 0) s"
  assumes "pool_inv s" "ts \<noteq> []" "only_refreshed I s s'" "asked_from (Some (rt_account_id (last ts))) clock s' ids"
  shows "asked_from cursor clock s (map rt_account_id ts @ ids)"
proof -
  note loaded = loaded_targets [where after_id = cursor and limit = limit and due = False and now = "clock k 0", OF assms(2), folded ts_def]
  let ?l = "rt_account_id (last ts)"
  have same: "ps_accounts s' = ps_accounts s" "askable t s' a = askable t s a" for t a
    using assms(4) by (auto simp: only_refreshed_def)
  have upto: "rt_account_id t \<le> ?l" if "t \<in> set ts" for t
    using last_is_max [OF loaded(1)] that assms(3) by (auto simp: last_map)
  have last: "\<not> behind_cursor cursor ?l"
    using loaded_beyond(1) [of "last ts" cursor limit "clock k 0" s] assms(3) by (auto simp: ts_def beyond_def)
  have next_ids: "?l < i \<and> \<not> behind_cursor cursor i \<and>
      (\<exists>a \<in> snd ` set (ps_accounts s). ua_id a = i \<and> (\<exists>k. askable (clock k 0) s a))" if "i \<in> set ids" for i
    using assms(5) that last unfolding asked_from_def same by (auto simp: behind_cursor_def split: option.splits)
  have "sorted_wrt (<) (map rt_account_id ts @ ids)"
    using loaded(1) assms(5) upto next_ids unfolding asked_from_def sorted_wrt_append by fastforce
  moreover have "\<not> behind_cursor cursor i \<and> (\<exists>a \<in> snd ` set (ps_accounts s). ua_id a = i \<and> (\<exists>k. askable (clock k 0) s a))"
    if "i \<in> set (map rt_account_id ts @ ids)" for i
    using that next_ids loaded_beyond [of _ cursor limit "clock k 0" s, folded ts_def] by (fastforce simp: beyond_def)
  moreover have "ua_id a \<in> set (map rt_account_id ts @ ids)"
    if a: "a \<in> snd ` set (ps_accounts s)" "\<not> behind_cursor cursor (ua_id a)" "\<forall>k. askable (clock k 0) s a" for a
  proof -
    from a(3) obtain t where t: "refresh_target_of (clock k 0) False s a = Some t" by (auto simp: askable_def)
    from loaded(2) [OF a(1,2) t]
    show ?thesis
    proof
      assume "t \<in> set ts"
      with refresh_target_of_id [OF t] show ?thesis by force
    next
      assume "length ts = limit \<and> (\<forall>t' \<in> set ts. rt_account_id t' < ua_id a)"
      with assms(3) have "\<not> behind_cursor (Some ?l) (ua_id a)" by (auto simp: behind_cursor_def not_le)
      with a assms(5) show ?thesis unfolding asked_from_def same by auto
    qed
  qed
  ultimately show ?thesis unfolding asked_from_def by blast
qed

lemma room_after_batch:
  fixes cursor limit now s
  defines "ts \<equiv> load_rate_limit_refresh_targets cursor limit False now s"
  assumes "pool_inv s" "ts \<noteq> []" "ps_accounts s' = ps_accounts s"
  shows "length ts + card (beyond (Some (rt_account_id (last ts))) s') \<le> card (beyond cursor s)"
proof -
  let ?ids = "map rt_account_id ts" and ?next = "beyond (Some (rt_account_id (last ts))) s'"
  have sorted: "sorted_wrt (<) ?ids"
    using loaded_targets(1) [where after_id = cursor and limit = limit and due = False and now = now, OF assms(2)]
    by (simp add: ts_def)
  have sub: "set ?ids \<subseteq> beyond cursor s" using loaded_beyond(1) by (auto simp: ts_def)
  have "set ?ids \<inter> ?next = {}" "?next \<subseteq> beyond cursor s"
    using last_is_max [OF sorted] assms(3) subsetD [OF sub, of "rt_account_id (last ts)"]
    by (auto simp: beyond_def assms(4) behind_cursor_def last_map split: option.splits)
  then have "card (set ?ids) + card ?next \<le> card (beyond cursor s)"
    using sub card_mono [of "beyond cursor s" "set ?ids \<union> ?next"] by (simp add: card_Un_disjoint)
  then show ?thesis using distinct_card [of ?ids] sorted by (simp add: strict_sorted_iff)
qed

lemma job_loop:
  assumes "pool_inv (js_pool js)" "map_of (js_jobs js) job_id = Some job" "counts n job"
    and "n + card (beyond cursor (js_pool js)) \<le> u64_max"
  shows "\<exists>ids js' job'. refresh_job_loop d job_id clock k cursor js = (Inr (), js') \<and>
    map_of (js_jobs js') = (map_of (js_jobs js))(job_id \<mapsto> job') \<and> counts (n + length ids) job' \<and>
    rj_total job' = rj_total job \<and>
    asked_from cursor clock (js_pool js) ids \<and> only_refreshed (set ids) (js_pool js) (js_pool js') \<and>
    (\<forall>i \<in> set ids. \<exists>k m. cached_past (clock k m) (js_pool js') i)"
  using assms
proof (induction d job_id clock k cursor js arbitrary: n job rule: refresh_job_loop.induct)
  case (1 d job_id clock k cursor js)
  let ?s = "js_pool js" and ?size = "rate_limit_refresh_batch_size_from_env (pd_env d)"
  define ts where "ts = load_rate_limit_refresh_targets cursor ?size False (clock k 0) ?s"
  let ?ids = "map rt_account_id ts" and ?l = "rt_account_id (last ts)"
  show ?case
  proof (cases "ts = []")
    case True
    then have "refresh_job_loop d job_id clock k cursor js = (Inr (), js)"
      by (subst refresh_job_loop.simps) (simp add: ts_def)
    moreover have "asked_from cursor clock ?s []"
      using asked_one_batch [OF 1(2), of cursor ?size clock k] True batch_size_pos by (simp add: ts_def)
    ultimately show ?thesis using 1(3,4) only_refreshed_refl by (intro exI [of _ "[]"] exI [of _ js] exI [of _ job]) auto
  next
    case False
    have room: "n + length ts + card (beyond (Some ?l) s') \<le> u64_max" if "ps_accounts s' = ps_accounts ?s" for s'
      using room_after_batch [OF 1(2) _ that, of cursor ?size "clock k 0", folded ts_def] False 1(5) by simp
    from room [of ?s] have "n + length ts \<le> u64_max" by simp
    then obtain js1 where b: "job_batch d job_id (clock k) ts js = (Inr (), js1)" "pool_inv (js_pool js1)"
      "js_jobs js1 = hm_insert job_id (add_progress (fst (refresh_rate_limit_targets_batch d (clock k) ts ?s)) job) (js_jobs js)"
      "only_refreshed (rt_account_id ` set ts) ?s (js_pool js1)"
      "\<forall>i \<in> rt_account_id ` set ts. \<exists>m. cached_past (clock k m) (js_pool js1) i"
      by (rule job_batch_spec [OF 1(2-4)])
    let ?job1 = "add_progress (fst (refresh_rate_limit_targets_batch d (clock k) ts ?s)) job"
    have job1: "counts (n + length ts) ?job1" "rj_total ?job1 = rj_total job"
      using counts_progress [OF 1(4)] \<open>n + length ts \<le> u64_max\<close> by (simp_all add: add_progress_def)
    have jobs1: "map_of (js_jobs js1) = (map_of (js_jobs js))(job_id \<mapsto> ?job1)" by (simp add: b(3) fun_eq_iff map_of_hm_insert)
    show ?thesis
    proof (cases "length ts < ?size")
      case True
      have "refresh_job_loop d job_id clock k cursor js = (Inr (), js1)"
        using False True b(1) by (subst refresh_job_loop.simps) (simp add: ts_def [symmetric] Let_def)
      moreover have "asked_from cursor clock ?s ?ids" using asked_one_batch [OF 1(2)] True by (simp add: ts_def)
      moreover have "\<forall>i \<in> set ?ids. \<exists>k m. cached_past (clock k m) (js_pool js1) i" using b(5) by fastforce
      ultimately show ?thesis using job1 jobs1 b(4)
        by (intro exI [of _ ?ids] exI [of _ js1] exI [of _ ?job1]) simp
    next
      case full: False
      have step: "refresh_job_loop d job_id clock k cursor js = refresh_job_loop d job_id clock (k + 1) (Some ?l) js1"
        using False full b(1) by (subst refresh_job_loop.simps) (simp add: ts_def [symmetric] Let_def)
      have "n + length ts + card (beyond (Some ?l) (js_pool js1)) \<le> u64_max"
        using room b(4) by (simp add: only_refreshed_def)
      note room1 = this
      have "\<exists>ids js' job'. refresh_job_loop d job_id clock (k + 1) (Some ?l) js1 = (Inr (), js') \<and>
        map_of (js_jobs js') = (map_of (js_jobs js1))(job_id \<mapsto> job') \<and> counts (n + length ts + length ids) job' \<and>
        rj_total job' = rj_total ?job1 \<and>
        asked_from (Some ?l) clock (js_pool js1) ids \<and> only_refreshed (set ids) (js_pool js1) (js_pool js') \<and>
        (\<forall>i \<in> set ids. \<exists>k m. cached_past (clock k m) (js_pool js') i)"
        using b(1,2) False full room1 job1(1) jobs1 by (intro 1(1) [OF refl ts_def]) auto
      then obtain ids js' job' where r: "refresh_job_loop d job_id clock (k + 1) (Some ?l) js1 = (Inr (), js')"
        "map_of (js_jobs js') = (map_of (js_jobs js1))(job_id \<mapsto> job')" "counts (n + length ts + length ids) job'"
        "rj_total job' = rj_total ?job1" "asked_from (Some ?l) clock (js_pool js1) ids"
        "only_refreshed (set ids) (js_pool js1) (js_pool js')"
        "\<forall>i \<in> set ids. \<exists>k m. cached_past (clock k m) (js_pool js') i" by blast
      have "asked_from cursor clock ?s (?ids @ ids)"
        using asked_next_batch [OF 1(2), of cursor ?size clock k "rt_account_id ` set ts" "js_pool js1" ids, folded ts_def]
          False b(4) r(5) by blast
      moreover have "only_refreshed (set (?ids @ ids)) ?s (js_pool js')" using only_refreshed_trans [OF b(4) r(6)] by simp
      moreover have "\<forall>i \<in> set (?ids @ ids). \<exists>k m. cached_past (clock k m) (js_pool js') i"
      proof
        fix i assume "i \<in> set (?ids @ ids)"
        then show "\<exists>k m. cached_past (clock k m) (js_pool js') i"
          using r(7) b(5) cached_past_kept [OF r(6), of i] by (cases "i \<in> set ids") fastforce+
      qed
      ultimately show ?thesis using step r(1-4) jobs1 job1(2)
        by (intro exI [of _ "?ids @ ids"] exI [of _ js'] exI [of _ job']) (simp add: add.assoc)
    qed
  qed
qed

section \<open>The count of targets\<close>

lemma token_source_earlier:
  assumes "build_live_rate_limit_token_source_inner a p c profile t \<noteq> None" "t' \<le> t"
  shows "build_live_rate_limit_token_source_inner a p c profile t' \<noteq> None"
  using assms by (cases p; cases c; cases profile)
    (auto simp: build_live_rate_limit_token_source_inner_def split: if_splits option.splits)

lemma askable_earlier: "askable t s a \<Longrightarrow> t' \<le> t \<Longrightarrow> askable t' s a"
  unfolding askable_unfold using token_source_earlier by metis

lemma count_is_card:
  assumes "pool_inv s"
  shows "count_rate_limit_refresh_targets now s = card {i. \<exists>a \<in> snd ` set (ps_accounts s). ua_id a = i \<and> askable now s a}"
proof -
  let ?A = "map snd (ps_accounts s)"
  have "distinct (map ua_id ?A)" using assms by (rule account_ids_distinct)
  then have "distinct (map ua_id (filter (askable now s) ?A))" by (rule distinct_map_filter)
  from distinct_card [OF this]
  have "length (filter (askable now s) ?A) = card (ua_id ` set (filter (askable now s) ?A))" by simp
  moreover have "ua_id ` set (filter (askable now s) ?A) = {i. \<exists>a \<in> snd ` set (ps_accounts s). ua_id a = i \<and> askable now s a}"
    by force
  moreover have "(case map_of (ps_auth_providers s) (ua_id a) of None \<Rightarrow> None
      | Some provider \<Rightarrow> build_rate_limit_refresh_target_inner a provider (map_of (ps_credentials s) (ua_id a))
          (map_of (ps_session_profiles s) (ua_id a)) None now False) = refresh_target_of now False s a" for a
    by (simp add: refresh_target_of_def build_rate_limit_refresh_target_inner_def split: option.split)
  then have "count_rate_limit_refresh_targets now s = length (filter (askable now s) ?A)"
    by (simp add: count_rate_limit_refresh_targets_def map_filter_def askable_def comp_def)
  ultimately show ?thesis by simp
qed

section \<open>Jobs run to the end\<close>

text \<open>
  C30. A refresh job asks every account once. Running a queued job always succeeds and leaves it completed. The
  accounts it has asked are in order without repetition; each of them could be asked at the start of a batch,
  and every account that can be asked throughout is among them. Their entries have been renewed, the
  entries of all other accounts are as before. The job has counted them: successes and failures add up to the
  number processed, the counts by error add up to the failures, and if no batch is earlier than the start,
  there are no more than announced.
\<close>

theorem refresh_job_complete:
  assumes "pool_reachable e (js_pool js)" "length (ps_accounts (js_pool js)) \<le> u64_max"
    and "map_of (js_jobs js) job_id = Some job" "rj_status job = JobQueued"
  shows "\<exists>ids js' job'. run_oauth_rate_limit_refresh_job d job_id now clock finished_at js = (Inr (), js') \<and>
    map_of (js_jobs js') job_id = Some job' \<and> rj_status job' = JobCompleted \<and>
    asked_from None clock (js_pool js) ids \<and>
    (\<forall>i. if i \<in> set ids then \<exists>k m. cached_past (clock k m) (js_pool js') i
         else map_of (ps_rate_limit_caches (js_pool js')) i = map_of (ps_rate_limit_caches (js_pool js)) i) \<and>
    rj_processed job' = length ids \<and> rj_success_count job' + rj_failed_count job' = length ids \<and>
    error_total (rj_error_summary job') = rj_failed_count job' \<and>
    ((\<forall>k. now \<le> clock k 0) \<longrightarrow> rj_processed job' \<le> rj_total job')"
proof -
  let ?total = "count_rate_limit_refresh_targets now (js_pool js)"
  let ?js = "js\<lparr>js_jobs := hm_insert job_id (start_job ?total now job) (js_jobs js)\<rparr>"
  have inv: "pool_inv (js_pool js)" using assms(1) by (rule pool_inv_reachable)
  have "card (beyond None (js_pool ?js)) \<le> length (ps_accounts (js_pool js))"
    using card_image_le [of "set (ps_accounts (js_pool js))" "ua_id \<circ> snd"] card_length [of "ps_accounts (js_pool js)"]
    by (simp add: beyond_def behind_cursor_def image_comp)
  with assms(2) have "\<exists>ids js1 job1. refresh_job_loop d job_id clock 0 None ?js = (Inr (), js1) \<and>
    map_of (js_jobs js1) = (map_of (js_jobs ?js))(job_id \<mapsto> job1) \<and> counts (0 + length ids) job1 \<and>
    rj_total job1 = rj_total (start_job ?total now job) \<and>
    asked_from None clock (js_pool ?js) ids \<and> only_refreshed (set ids) (js_pool ?js) (js_pool js1) \<and>
    (\<forall>i \<in> set ids. \<exists>k m. cached_past (clock k m) (js_pool js1) i)"
    by (intro job_loop) (simp_all add: inv map_of_hm_insert counts_def start_job_def error_total_def)
  then obtain ids js1 job1 where r: "refresh_job_loop d job_id clock 0 None ?js = (Inr (), js1)"
    "map_of (js_jobs js1) = (map_of (js_jobs ?js))(job_id \<mapsto> job1)" "counts (length ids) job1" "rj_total job1 = ?total"
    "asked_from None clock (js_pool js) ids" "only_refreshed (set ids) (js_pool js) (js_pool js1)"
    "\<forall>i \<in> set ids. \<exists>k m. cached_past (clock k m) (js_pool js1) i" by (auto simp: start_job_def)
  let ?job = "job1\<lparr>rj_status := JobCompleted, rj_finished_at := Some finished_at, rj_throughput_per_min := throughput finished_at job1\<rparr>"
  let ?js' = "js1\<lparr>js_jobs := hm_insert job_id ?job (js_jobs js1)\<rparr>"
  have "run_oauth_rate_limit_refresh_job d job_id now clock finished_at js = (Inr (), ?js')"
    using assms(3,4) r(1,2) by (simp add: run_oauth_rate_limit_refresh_job_def finish_rate_limit_refresh_job_def update_job_def Let_def)
  moreover have "\<forall>i. if i \<in> set ids then \<exists>k m. cached_past (clock k m) (js_pool ?js') i
      else map_of (ps_rate_limit_caches (js_pool ?js')) i = map_of (ps_rate_limit_caches (js_pool js)) i"
    using r(6,7) by (simp add: only_refreshed_def)
  moreover have "length ids \<le> ?total" if "\<forall>k. now \<le> clock k 0"
  proof -
    have "distinct ids" using r(5) by (simp add: asked_from_def strict_sorted_iff)
    moreover have "set ids \<subseteq> {i. \<exists>a \<in> snd ` set (ps_accounts (js_pool js)). ua_id a = i \<and> askable now (js_pool js) a}"
      using r(5) that askable_earlier unfolding asked_from_def by fast
    ultimately show ?thesis
      unfolding count_is_card [OF inv] using card_mono [of "{i. \<exists>a \<in> snd ` set (ps_accounts (js_pool js)). ua_id a = i \<and> askable now (js_pool js) a}" "set ids"]
      by (simp add: distinct_card)
  qed
  ultimately show ?thesis using r(3-5) by (intro exI [of _ ids] exI [of _ ?js'] exI [of _ ?job])
      (simp add: map_of_hm_insert counts_def)
qed

section \<open>One job at a time\<close>

text \<open>
  The histories of the job table. Jobs are created with fresh identifiers, and the parts of a running job (its
  start, the progress of its batches, its end) interleave with everything else.
\<close>

inductive jobs_reachable :: "refresh_jobs_store \<Rightarrow> bool" where
  jobs_new: "jobs_reachable \<lparr>js_jobs = [], js_pool = s\<rparr>"
| jobs_pool: "jobs_reachable js \<Longrightarrow> jobs_reachable (js\<lparr>js_pool := s\<rparr>)"
| jobs_create: "jobs_reachable js \<Longrightarrow> map_of (js_jobs js) new_id = None \<Longrightarrow>
    jobs_reachable (snd (create_oauth_rate_limit_refresh_job new_id now js))"
| jobs_start: "jobs_reachable js \<Longrightarrow> map_of (js_jobs js) i = Some job \<Longrightarrow> rj_status job = JobQueued \<Longrightarrow>
    jobs_reachable (js\<lparr>js_jobs := hm_insert i (start_job n now job) (js_jobs js)\<rparr>)"
| jobs_progress: "jobs_reachable js \<Longrightarrow> jobs_reachable (snd (append_rate_limit_refresh_job_progress i stats js))"
| jobs_finish: "jobs_reachable js \<Longrightarrow> jobs_reachable (snd (finish_rate_limit_refresh_job i JobCompleted now js))"
| jobs_fail: "jobs_reachable js \<Longrightarrow> jobs_reachable (snd (mark_rate_limit_refresh_job_failed i code now js))"
| jobs_recover: "jobs_reachable js \<Longrightarrow> jobs_reachable (snd (recover_oauth_rate_limit_refresh_jobs now js))"

definition active_ids :: "refresh_jobs_store \<Rightarrow> uuid set" where
  "active_ids js = {i. \<exists>job. map_of (js_jobs js) i = Some job \<and> is_active_job job}"

lemma active_ids_update:
  assumes "\<And>job. map_of (js_jobs js) i = Some job \<Longrightarrow> is_active_job (f job) \<Longrightarrow> is_active_job job"
  shows "active_ids (snd (update_job i f js)) \<subseteq> active_ids js"
  using assms by (auto simp: active_ids_def update_job_def map_of_hm_insert split: option.splits if_splits)

lemma newest_active_None: "newest_active_job jobs = None \<longleftrightarrow> (\<forall>job \<in> snd ` set jobs. \<not> is_active_job job)"
proof -
  let ?xs = "filter is_active_job (map snd jobs)"
  have "newest_active_job jobs = None \<longleftrightarrow> sort_key (\<lambda>job. (rj_created_at job, rj_job_id job)) ?xs = []"
    unfolding newest_active_job_def by (simp only: list.case_eq_if) simp
  also have "\<dots> \<longleftrightarrow> ?xs = []" by (metis length_0_conv length_sort)
  finally show ?thesis by (simp add: filter_empty_conv)
qed

lemma active_step:
  "active_ids (snd (append_rate_limit_refresh_job_progress i stats js)) \<subseteq> active_ids js"
  "active_ids (snd (finish_rate_limit_refresh_job i JobCompleted now js)) \<subseteq> active_ids js"
  "active_ids (snd (mark_rate_limit_refresh_job_failed i code now js)) \<subseteq> active_ids js"
  "active_ids (snd (recover_oauth_rate_limit_refresh_jobs now js)) \<subseteq> active_ids js"
proof -
  show "active_ids (snd (append_rate_limit_refresh_job_progress i stats js)) \<subseteq> active_ids js"
    unfolding append_rate_limit_refresh_job_progress_def
    by (rule active_ids_update) (simp add: is_active_job_def add_progress_def)
  show "active_ids (snd (finish_rate_limit_refresh_job i JobCompleted now js)) \<subseteq> active_ids js"
    unfolding finish_rate_limit_refresh_job_def by (rule active_ids_update) (simp add: is_active_job_def)
  show "active_ids (snd (mark_rate_limit_refresh_job_failed i code now js)) \<subseteq> active_ids js"
    unfolding mark_rate_limit_refresh_job_failed_def by (rule active_ids_update) (simp add: is_active_job_def)
  show "active_ids (snd (recover_oauth_rate_limit_refresh_jobs now js)) \<subseteq> active_ids js"
    by (auto simp: active_ids_def recover_oauth_rate_limit_refresh_jobs_def map_of_map recover_job_def is_active_job_def
        split: if_splits)
qed

lemma active_unique: "jobs_reachable js \<Longrightarrow> i \<in> active_ids js \<Longrightarrow> j \<in> active_ids js \<Longrightarrow> i = j"
proof (induction rule: jobs_reachable.induct)
  case (jobs_create js new_id now)
  show ?case
  proof (cases "newest_active_job (js_jobs js)")
    case None
    then have "map_of (js_jobs js) k = Some job \<Longrightarrow> \<not> is_active_job job" for k job
      unfolding newest_active_None by (force dest: map_of_SomeD)
    then have "active_ids (snd (create_oauth_rate_limit_refresh_job new_id now js)) \<subseteq> {new_id}"
      using None by (auto simp: create_oauth_rate_limit_refresh_job_def Let_def active_ids_def map_of_hm_insert split: if_splits)
    with jobs_create.prems show ?thesis by blast
  qed (use jobs_create in \<open>simp add: create_oauth_rate_limit_refresh_job_def\<close>)
next
  case (jobs_start js k job n now)
  then have "active_ids (js\<lparr>js_jobs := hm_insert k (start_job n now job) (js_jobs js)\<rparr>) = active_ids js"
    by (auto simp: active_ids_def map_of_hm_insert start_job_def is_active_job_def)
  with jobs_start show ?case by simp
next
  case (jobs_pool js s)
  then show ?case by (simp add: active_ids_def)
next
  case (jobs_new s)
  then show ?case by (simp add: active_ids_def)
qed (use active_step in blast)+

lemma jobs_keys: "jobs_reachable js \<Longrightarrow> hm_ok (js_jobs js)"
proof (induction rule: jobs_reachable.induct)
  case (jobs_recover js now)
  then show ?case by (simp add: recover_oauth_rate_limit_refresh_jobs_def comp_def case_prod_beta)
qed (auto simp: create_oauth_rate_limit_refresh_job_def append_rate_limit_refresh_job_progress_def
    finish_rate_limit_refresh_job_def mark_rate_limit_refresh_job_failed_def update_job_def Let_def split: option.split)

text \<open>A run is made of the steps of the histories.\<close>

lemma jobs_reachable_loop: "jobs_reachable js \<Longrightarrow> jobs_reachable (snd (refresh_job_loop d i clock k cursor js))"
proof (induction d i clock k cursor js rule: refresh_job_loop.induct)
  case (1 d i clock k cursor js)
  let ?size = "rate_limit_refresh_batch_size_from_env (pd_env d)"
  define ts where "ts = load_rate_limit_refresh_targets cursor ?size False (clock k 0) (js_pool js)"
  obtain r js1 where b: "job_batch d i (clock k) ts js = (r, js1)" by fastforce
  have "jobs_reachable (snd (job_batch d i (clock k) ts js))"
    unfolding job_batch_def case_prod_beta by (intro jobs_progress jobs_pool 1(2))
  with b have "jobs_reachable js1" by simp
  show ?case
  proof (cases r)
    case (Inl e)
    with b 1(2) \<open>jobs_reachable js1\<close> show ?thesis
      by (subst refresh_job_loop.simps) (simp add: ts_def [symmetric] Let_def)
  next
    case (Inr u)
    then have "jobs_reachable (snd (refresh_job_loop d i clock (k + 1) (Some (rt_account_id (last ts))) js1))"
      if "ts \<noteq> []" "\<not> length ts < ?size"
      using 1(1) [OF refl ts_def] that b \<open>jobs_reachable js1\<close> by simp
    with Inr b 1(2) \<open>jobs_reachable js1\<close> show ?thesis
      by (subst refresh_job_loop.simps) (simp add: ts_def [symmetric] Let_def)
  qed
qed

lemma jobs_reachable_run:
  assumes "jobs_reachable js"
  shows "jobs_reachable (snd (run_oauth_rate_limit_refresh_job d i now clock t js))"
proof -
  have "jobs_reachable (snd (refresh_job_loop d i clock 0 None (js\<lparr>js_jobs := hm_insert i (start_job n now job) (js_jobs js)\<rparr>)))"
    if "map_of (js_jobs js) i = Some job" "rj_status job = JobQueued" for job n
    by (intro jobs_reachable_loop jobs_start assms that)
  then show ?thesis
    using jobs_finish jobs_fail assms unfolding run_oauth_rate_limit_refresh_job_def Let_def
    by (auto simp: case_prod_beta split: option.split sum.split)
qed

text \<open>
  When a job is active, a request for another one gets it back; after a restart no job is left running.
\<close>

lemma create_returns_active:
  assumes "jobs_reachable js" "i \<in> active_ids js"
  shows "create_oauth_rate_limit_refresh_job new_id now js = (the (map_of (js_jobs js) i), js)"
proof -
  obtain job where job: "map_of (js_jobs js) i = Some job" "is_active_job job" using assms(2) by (auto simp: active_ids_def)
  let ?xs = "sort_key (\<lambda>job. (rj_created_at job, rj_job_id job)) (filter is_active_job (map snd (js_jobs js)))"
  have "job \<in> set ?xs" using job map_of_SomeD [OF job(1)] by force
  then have "newest_active_job (js_jobs js) = Some (last ?xs)"
    unfolding newest_active_job_def by (cases ?xs) simp_all
  moreover have "last ?xs = job"
  proof -
    have "last ?xs \<in> set ?xs" using \<open>job \<in> set ?xs\<close> by (cases ?xs) simp_all
    then obtain j where j: "(j, last ?xs) \<in> set (js_jobs js)" "is_active_job (last ?xs)" by auto
    then have "map_of (js_jobs js) j = Some (last ?xs)" using jobs_keys [OF assms(1)] by simp
    moreover from this j(2) have "j \<in> active_ids js" by (auto simp: active_ids_def)
    ultimately show ?thesis using active_unique [OF assms(1) _ assms(2), of j] job(1) by simp
  qed
  ultimately show ?thesis using job by (simp add: create_oauth_rate_limit_refresh_job_def)
qed

section \<open>The pass over due entries\<close>

text \<open>
  Every moment of the pass is at most \<open>T\<close>, and what is written at any of them lasts beyond \<open>T\<close>: the time
  to live, the pause after an error, and every block an upstream reports.
\<close>

definition pass_before :: "pool_deps \<Rightarrow> (nat \<Rightarrow> nat \<Rightarrow> timestamp) \<Rightarrow> timestamp \<Rightarrow> bool" where
  "pass_before d clock T \<longleftrightarrow>
     (\<forall>k m. clock k m \<le> T \<and> T < clock k m + seconds (rate_limit_cache_ttl_sec_from_env (pd_env d)) \<and>
        (\<forall>code message. T < clock k m + seconds (rate_limit_failure_backoff_seconds (pd_env d) code message)) \<and>
        (\<forall>token url account usage until. pd_fetch_usage d (clock k m) token url account = Inr usage \<longrightarrow>
           fst (derive_rate_limit_block (us_rate_limits usage) (clock k m)) = Some until \<longrightarrow> T < until))"

lemma target_cached_past:
  assumes "pass_before d clock T"
  shows "cached_past T (snd (refresh_target d (clock k m) target s)) (rt_account_id target)"
proof (cases "fetch_live_rate_limits_result d (clock k m) target")
  case (Inl e)
  with assms show ?thesis
    by (simp add: refresh_target_def case_prod_beta cached_past_def failure_state map_of_hm_insert pass_before_def)
next
  case (Inr usage)
  have "T < b" if "fst (derive_rate_limit_block (us_rate_limits usage) (clock k m)) = Some b" for b
  proof (cases "us_rate_limits usage = []")
    case True
    with that show ?thesis
      by (simp add: derive_rate_limit_block_def find_blocked_until_for_window_def List.map_filter_simps max_by_key_def)
  next
    case False
    with Inr obtain token url account where "pd_fetch_usage d (clock k m) token url account = Inr usage"
      by (auto simp: fetch_live_rate_limits_result_def Let_def split: sum.splits if_splits rate_limit_token_source.splits)
    with assms that show ?thesis unfolding pass_before_def by blast
  qed
  with Inr assms show ?thesis
    by (auto simp: refresh_target_def cached_past_def success_state map_of_hm_insert pass_before_def split: option.split)
qed

definition open_ids :: "timestamp \<Rightarrow> pool_store \<Rightarrow> uuid set" where
  "open_ids T s = {i \<in> ua_id ` snd ` set (ps_accounts s). \<not> cached_past T s i}"

lemma due_target_open:
  assumes "t \<in> set (load_rate_limit_refresh_targets after_id limit True now s)" "now \<le> T"
  shows "rt_account_id t \<in> open_ids T s"
proof -
  from assms(1) obtain a where "a \<in> snd ` set (ps_accounts s)" "ua_id a = rt_account_id t"
    "refresh_target_of now True s a = Some t" by (rule loaded_target)
  moreover from this have "\<not> cached_past now s (rt_account_id t)"
    by (auto simp: refresh_target_of_def build_rate_limit_refresh_target_inner_def cached_past_def split: option.splits if_splits)
  ultimately show ?thesis using assms(2) by (force simp: open_ids_def cached_past_def)
qed

lemma open_ids_after:
  assumes "only_refreshed I s s1" "\<forall>i \<in> I. cached_past T s1 i"
  shows "open_ids T s1 = open_ids T s - I"
proof -
  have "cached_past T s1 i \<longleftrightarrow> i \<in> I \<or> cached_past T s i" for i
    using assms(2) cached_past_kept [OF assms(1), of i T] by blast
  then show ?thesis using assms(1) by (auto simp: open_ids_def only_refreshed_def)
qed

lemma batch_closes:
  fixes limit clock k s d
  defines "ts \<equiv> load_rate_limit_refresh_targets None limit True (clock k 0) s"
    and "s1 \<equiv> snd (refresh_rate_limit_targets_batch d (clock k) (load_rate_limit_refresh_targets None limit True (clock k 0) s) s)"
  assumes "pool_inv s" "pass_before d clock T"
  shows "only_refreshed (rt_account_id ` set ts) s s1" "pool_inv s1"
    and "\<forall>i \<in> rt_account_id ` set ts. cached_past T s1 i" "card (open_ids T s1) + length ts = card (open_ids T s)"
    and "bs_processed (fst (refresh_rate_limit_targets_batch d (clock k) ts s)) = length ts"
proof -
  have s1: "s1 = snd (refresh_targets d (clock k) 0 ts s)"
    by (simp add: s1_def ts_def refresh_rate_limit_targets_batch_def case_prod_beta)
  show only: "only_refreshed (rt_account_id ` set ts) s s1" unfolding s1 by (rule only_refreshed_targets)
  show "pool_inv s1" unfolding s1 by (intro pool_inv_refresh_targets assms(3))
  show cached: "\<forall>i \<in> rt_account_id ` set ts. cached_past T s1 i"
    using targets_cached [of "\<lambda>_. T" d "clock k", OF target_cached_past [OF assms(4)]] unfolding s1 by blast
  have "rt_account_id ` set ts \<subseteq> open_ids T s"
    using due_target_open [of _ None limit "clock k 0" s T] assms(4) by (auto simp: ts_def pass_before_def)
  moreover have "open_ids T s1 = open_ids T s - rt_account_id ` set ts"
    using only cached by (rule open_ids_after)
  moreover have "card (rt_account_id ` set ts) = length ts"
    using loaded_targets(1) [where after_id = None and limit = limit and due = True and now = "clock k 0", OF assms(3)]
      distinct_card [of "map rt_account_id ts"] by (simp add: ts_def strict_sorted_iff)
  ultimately show "card (open_ids T s1) + length ts = card (open_ids T s)"
    using card_Diff_subset [of "rt_account_id ` set ts" "open_ids T s"]
      card_mono [of "open_ids T s" "rt_account_id ` set ts"] by (simp add: open_ids_def)
  have "bs_processed (fold count_result rs st) = bs_processed st" for rs st
    by (induction rs arbitrary: st) (simp_all add: count_result_def split: option.split)
  then show "bs_processed (fst (refresh_rate_limit_targets_batch d (clock k) ts s)) = length ts"
    by (simp add: refresh_rate_limit_targets_batch_def case_prod_beta results_length)
qed

lemma nothing_due:
  assumes "pool_inv s" "length (load_rate_limit_refresh_targets None limit True now s) < limit"
    and "a \<in> snd ` set (ps_accounts s)" "askable now s a"
    and "ua_id a \<notin> rt_account_id ` set (load_rate_limit_refresh_targets None limit True now s)"
  shows "cached_past now s (ua_id a)"
proof (rule ccontr)
  assume open_now: "\<not> ?thesis"
  from assms(4) obtain t where "refresh_target_of now False s a = Some t" by (auto simp: askable_def)
  with open_now have "refresh_target_of now True s a = Some t"
    by (auto simp: refresh_target_of_def build_rate_limit_refresh_target_inner_def cached_past_def split: option.splits)
  from loaded_targets(2) [where after_id = None and limit = limit and due = True and now = now, OF assms(1,3) _ this]
    assms(2,5) refresh_target_of_id [OF this] show False by (force simp: behind_cursor_def)
qed

lemma due_loop_ends:
  assumes "pool_inv s" "pass_before d clock T"
  shows "\<exists>n s'. refresh_due_loop d clock k r s = Some (n, s') \<and> n \<le> r + card (open_ids T s) \<and>
    only_refreshed (open_ids T s) s s' \<and>
    (\<exists>m. \<forall>a \<in> snd ` set (ps_accounts s). askable (clock m 0) s a \<longrightarrow> cached_past (clock m 0) s' (ua_id a))"
  using assms(1)
proof (induction "card (open_ids T s)" arbitrary: k r s rule: less_induct)
  case less
  let ?size = "rate_limit_refresh_batch_size_from_env (pd_env d)"
  define ts where "ts = load_rate_limit_refresh_targets None ?size True (clock k 0) s"
  define b where "b = refresh_rate_limit_targets_batch d (clock k) ts s"
  define s2 where "s2 = emit_rate_limit_refresh_batch_summary_inner (clock k 0) ''control_plane.rate_limit_refresh'' (length ts) (fst b) (snd b)"
  note closes = batch_closes [where limit = ?size and k = k, OF less.prems assms(2), folded ts_def, folded b_def]
  let ?I = "rt_account_id ` set ts"
  have sub: "?I \<subseteq> open_ids T s"
    using due_target_open [of _ None ?size "clock k 0" s T] assms(2) by (auto simp: ts_def pass_before_def)
  have only: "only_refreshed ?I s s2" unfolding s2_def by (intro only_refreshed_emit closes)
  have emit: "only_refreshed {} (snd b) s2" unfolding s2_def by (intro only_refreshed_emit only_refreshed_refl)
  have cached: "\<forall>i \<in> ?I. cached_past T s2 i" "card (open_ids T s2) + length ts = card (open_ids T s)"
    using closes(3,4) emit cached_past_kept [OF emit] by (simp_all add: open_ids_def only_refreshed_def)
  have inv2: "pool_inv s2" unfolding s2_def emit_rate_limit_refresh_batch_summary_inner_def by (intro pool_inv_emit closes)
  have unfold: "refresh_due_loop d clock k r s =
    (if ts = [] then Some (r, s) else if length ts < ?size then Some (sat_add_u64 r (length ts), s2)
     else refresh_due_loop d clock (k + 1) (sat_add_u64 r (length ts)) s2)"
    by (subst refresh_due_loop.simps)
       (simp add: Let_def ts_def [symmetric] b_def [symmetric] case_prod_beta s2_def [symmetric] closes(5))
  show ?case
  proof (cases "length ts < ?size")
    case True
    have rest: "cached_past (clock k 0) s2 (ua_id a)" if "a \<in> snd ` set (ps_accounts s)" "askable (clock k 0) s a" for a
    proof (cases "ua_id a \<in> ?I")
      case True
      moreover have "clock k 0 \<le> T" using assms(2) by (simp add: pass_before_def)
      ultimately show ?thesis using cached(1) by (force simp: cached_past_def)
    next
      case False
      then show ?thesis
        using nothing_due [OF less.prems] that \<open>length ts < ?size\<close> cached_past_kept [OF only] by (simp add: ts_def)
    qed
    have "only_refreshed (open_ids T s) s s2" using only sub by (rule only_refreshed_mono)
    moreover have "sat_add_u64 r (length ts) \<le> r + card (open_ids T s)" using cached(2) by (simp add: sat_add_u64_def)
    moreover have "only_refreshed (open_ids T s) s s" by (simp add: only_refreshed_def)
    moreover have "\<forall>a \<in> snd ` set (ps_accounts s). askable (clock k 0) s a \<longrightarrow> cached_past (clock k 0) s (ua_id a)" if "ts = []"
      using nothing_due [OF less.prems, of ?size] True that by (simp add: ts_def)
    ultimately show ?thesis unfolding unfold using rest True by (cases "ts = []") auto
  next
    case False
    with batch_size_pos have "ts \<noteq> []" by (metis list.size(3))
    then have "card (open_ids T s2) < card (open_ids T s)" using cached(2) by (cases ts) simp_all
    from less.hyps [OF this inv2, of "k + 1" "sat_add_u64 r (length ts)"] obtain n s' m where
      r: "refresh_due_loop d clock (k + 1) (sat_add_u64 r (length ts)) s2 = Some (n, s')"
      "n \<le> sat_add_u64 r (length ts) + card (open_ids T s2)" "only_refreshed (open_ids T s2) s2 s'"
      "\<forall>a \<in> snd ` set (ps_accounts s2). askable (clock m 0) s2 a \<longrightarrow> cached_past (clock m 0) s' (ua_id a)" by blast
    have "n \<le> r + card (open_ids T s)" using r(2) cached(2) by (simp add: sat_add_u64_def)
    moreover have "open_ids T s2 \<subseteq> open_ids T s"
      using open_ids_after [OF only cached(1)] by blast
    then have "only_refreshed (open_ids T s) s s'"
      using only_refreshed_mono [OF only_refreshed_trans [OF only r(3)]] sub by simp
    moreover have "\<forall>a \<in> snd ` set (ps_accounts s). askable (clock m 0) s a \<longrightarrow> cached_past (clock m 0) s' (ua_id a)"
      using r(4) only by (simp add: only_refreshed_def)
    ultimately show ?thesis unfolding unfold using r(1) False \<open>ts \<noteq> []\<close> by auto
  qed
qed

text \<open>
  C31. The pass over due entries ends when it is fast enough. If every moment of the pass lies before the end of
  every entry it writes (the time to live, the pause after an error, and the blocks upstreams report), the pass
  ends. It has asked each account at most once; entries that last beyond the pass it has left alone; and at
  the start of its last batch every account that can be asked has an entry that has not expired.
\<close>

theorem refresh_due_ends:
  assumes "pool_reachable e s" "pass_before d clock T"
  shows "\<exists>n s'. refresh_due_oauth_rate_limit_caches d clock s = Some (n, s') \<and> n \<le> length (ps_accounts s) \<and>
    (\<forall>i. cached_past T s i \<longrightarrow> map_of (ps_rate_limit_caches s') i = map_of (ps_rate_limit_caches s) i) \<and>
    (\<exists>m. \<forall>a \<in> snd ` set (ps_accounts s). askable (clock m 0) s a \<longrightarrow> cached_past (clock m 0) s' (ua_id a))"
proof -
  from due_loop_ends [OF pool_inv_reachable [OF assms(1)] assms(2), of 0 0] obtain n s' where
    r: "refresh_due_loop d clock 0 0 s = Some (n, s')" "n \<le> card (open_ids T s)" "only_refreshed (open_ids T s) s s'"
    "\<exists>m. \<forall>a \<in> snd ` set (ps_accounts s). askable (clock m 0) s a \<longrightarrow> cached_past (clock m 0) s' (ua_id a)" by auto
  have "card (open_ids T s) \<le> card (ua_id ` snd ` set (ps_accounts s))" by (rule card_mono) (auto simp: open_ids_def)
  also have "\<dots> \<le> length (ps_accounts s)"
    by (metis card_image_le card_length finite_imageI image_set length_map list.set_map order_trans List.finite_set)
  finally show ?thesis using r by (auto simp: refresh_due_oauth_rate_limit_caches_def only_refreshed_def open_ids_def)
qed

section \<open>A pool with one account\<close>

lemma live_account: "\<exists>a \<in> snd ` set (ps_accounts live_pool). ua_id a = 7 \<and> askable 5 live_pool a"
  by code_simp

definition live_jobs :: refresh_jobs_store where
  "live_jobs = snd (create_oauth_rate_limit_refresh_job 3 0 \<lparr>js_jobs = [], js_pool = live_pool\<rparr>)"

theorem refresh_job_complete_witness:
  "\<exists>js' job'. run_oauth_rate_limit_refresh_job live_deps 3 1 (\<lambda>_ _. 5) 9 live_jobs = (Inr (), js') \<and>
     map_of (js_jobs js') 3 = Some job' \<and> rj_status job' = JobCompleted \<and> 1 \<le> rj_processed job'"
proof -
  have pool: "js_pool live_jobs = live_pool"
    by (simp add: live_jobs_def create_oauth_rate_limit_refresh_job_def newest_active_job_def Let_def)
  have "length (ps_accounts live_pool) \<le> u64_max" by code_simp
  moreover obtain job where "map_of (js_jobs live_jobs) 3 = Some job" "rj_status job = JobQueued"
    by (simp add: live_jobs_def create_oauth_rate_limit_refresh_job_def newest_active_job_def Let_def)
  ultimately obtain ids js' job' where r:
    "run_oauth_rate_limit_refresh_job live_deps 3 1 (\<lambda>_ _. 5) 9 live_jobs = (Inr (), js')"
    "map_of (js_jobs js') 3 = Some job'" "rj_status job' = JobCompleted"
    "asked_from None (\<lambda>_ _. 5) live_pool ids" "rj_processed job' = length ids"
    using refresh_job_complete [of live_deps live_jobs 3 job live_deps 1 "\<lambda>_ _. 5" 9] live_pool_reachable
    unfolding pool by blast
  from live_account r(4) have "7 \<in> set ids" unfolding asked_from_def by (force simp: behind_cursor_def)
  then have "1 \<le> length ids" by (cases ids) simp_all
  with r show ?thesis by auto
qed

lemma live_pass: "pass_before live_deps (\<lambda>_ _. 5) 5"
proof -
  have "0 < rate_limit_cache_ttl_sec_from_env env" "0 < rate_limit_failure_backoff_seconds env code message" for env code message
    using rate_limit_lives [of env] by (auto intro: less_le_trans [of 0 "5 :: int"] less_le_trans [of 0 "30 :: int"])
  then show ?thesis by (simp add: pass_before_def live_deps_def sample_deps_def)
qed

theorem refresh_due_ends_witness:
  "\<exists>n s'. refresh_due_oauth_rate_limit_caches live_deps (\<lambda>_ _. 5) live_pool = Some (n, s') \<and> n \<le> 1 \<and> cached_past 5 s' 7"
proof -
  have "length (ps_accounts live_pool) = 1" by code_simp
  with refresh_due_ends [OF live_pool_reachable live_pass] live_account show ?thesis by fastforce
qed

end
