(* ===== verification/Error_Learning_Client.thy ===== *)
theory Error_Learning_Client
  imports Snapshot Upstream_Errors Builtin_Templates
begin

text \<open>
  Error learning in the data plane (\<^verbatim>\<open>proxy/error_learning.rs\<close>): the language of a request, the texts of the
  gateway in it, what of an upstream error may leave the gateway, the fingerprint of an error, and the
  resolution of an error against approved templates or the control plane. The regular expressions, the
  JSON parser and the printer are parameters.
\<close>

section \<open>The language of a request\<close>

abbreviation default_error_locale :: string where
  "default_error_locale \<equiv> ''en''"

definition starts_with :: "string \<Rightarrow> string \<Rightarrow> bool" where
  "starts_with p s \<longleftrightarrow> take (length p) s = p"

definition canonicalize_locale :: "string \<Rightarrow> string option" where
  "canonicalize_locale raw =
     (if trim raw = [] then None
      else let normalized = to_ascii_lowercase (map (\<lambda>c. if c = CHR ''_'' then CHR ''-'' else c) (trim raw))
           in if starts_with ''zh-tw'' normalized \<or> starts_with ''zh-hant'' normalized then Some ''zh-TW''
              else if starts_with ''zh'' normalized then Some ''zh-CN''
              else if starts_with ''ja'' normalized then Some ''ja''
              else if starts_with ''ru'' normalized then Some ''ru''
              else if starts_with ''en'' normalized then Some ''en''
              else None)"

definition locale_from_accept_language :: "string \<Rightarrow> string option" where
  "locale_from_accept_language raw =
     first_some (map (\<lambda>entry. canonicalize_locale (hd (split_on CHR '';'' entry))) (split_on CHR '','' raw))"

definition detect_locale_from_headers :: "header_map \<Rightarrow> string option" where
  "detect_locale_from_headers headers =
     first_some
       (map (\<lambda>name. Option.bind (header_str headers name) canonicalize_locale)
          [''x-codex-locale'', ''x-user-locale'', ''content-language''] @
        [Option.bind (header_str headers ''accept-language'') locale_from_accept_language])"

text \<open>The code points of a text in UTF-8.\<close>

definition char_width :: "nat \<Rightarrow> nat" where
  "char_width b = (if b < 0x80 then 1 else if b < 0xE0 then 2 else if b < 0xF0 then 3 else 4)"

definition lead_bits :: "nat \<Rightarrow> nat" where
  "lead_bits b = (if b < 0x80 then b else if b < 0xE0 then b mod 0x20 else if b < 0xF0 then b mod 0x10 else b mod 0x08)"

fun code_points :: "string \<Rightarrow> nat list" where
  "code_points [] = []"
| "code_points (c # cs) =
     fold (\<lambda>d n. n * 0x40 + byte d mod 0x40) (take (char_width (byte c) - 1) cs) (lead_bits (byte c)) #
     code_points (drop (char_width (byte c) - 1) cs)"

definition has_char_in :: "nat \<Rightarrow> nat \<Rightarrow> string \<Rightarrow> bool" where
  "has_char_in lo hi text \<longleftrightarrow> list_ex (\<lambda>p. lo \<le> p \<and> p \<le> hi) (code_points text)"

definition detect_locale_from_text :: "string \<Rightarrow> string option" where
  "detect_locale_from_text text =
     (let trimmed = trim text
      in if trimmed = [] then None
         else if has_char_in 0x3040 0x30FF trimmed then Some ''ja''
         else if has_char_in 0x0400 0x04FF trimmed then Some ''ru''
         else if has_char_in 0x4E00 0x9FFF trimmed then Some ''zh-CN''
         else None)"

text \<open>
  The loops of the source stop when the sample is full; since a call on a full sample returns it unchanged,
  going on makes no difference.
\<close>

lemma json_member_size: "map_of members key = Some item \<Longrightarrow> size item < size (JObject members)"
  by (induction members) (auto split: if_splits)

lemma json_item_size: "item \<in> set items \<Longrightarrow> size item < size (JArray items)"
  by (simp add: less_Suc_eq_le size_list_estimation')

function collect_request_text_sample :: "nat \<Rightarrow> json \<Rightarrow> string \<Rightarrow> string" where
  "collect_request_text_sample max_chars value sample =
     (if chars_count sample \<ge> max_chars then sample
      else case value of
             JString text \<Rightarrow> sample @ take_chars (max_chars - chars_count sample) text @ '' ''
           | JArray items \<Rightarrow> fold (collect_request_text_sample max_chars) items sample
           | JObject members \<Rightarrow>
               fold (\<lambda>key sample. case map_of members key of
                       None \<Rightarrow> sample
                     | Some item \<Rightarrow> collect_request_text_sample max_chars item sample)
                 [''instructions'', ''input'', ''text'', ''content'', ''messages'', ''prompt''] sample
           | _ \<Rightarrow> sample)"
  by pat_completeness auto

termination
  by (relation "measure (\<lambda>(m, value, s). size value)") (use json_member_size json_item_size in auto)

definition detect_locale_from_request_body :: "(string \<Rightarrow> json option) \<Rightarrow> string \<Rightarrow> string option" where
  "detect_locale_from_request_body parse body =
     (if body = [] then None
      else case parse body of
             None \<Rightarrow> None
           | Some value \<Rightarrow> detect_locale_from_text (collect_request_text_sample 512 value []))"

definition detect_request_locale :: "(string \<Rightarrow> json option) \<Rightarrow> header_map \<Rightarrow> string \<Rightarrow> string" where
  "detect_request_locale parse headers body =
     (case detect_locale_from_headers headers of
        Some l \<Rightarrow> l
      | None \<Rightarrow>
          (case detect_locale_from_request_body parse body of
             Some l \<Rightarrow> l
           | None \<Rightarrow> default_error_locale))"

section \<open>Texts\<close>

definition template_in :: "localized_error_templates \<Rightarrow> string \<Rightarrow> string option" where
  "template_in templates l =
     (if l = ''zh-CN'' then let_zh_cn templates
      else if l = ''zh-TW'' then let_zh_tw templates
      else if l = ''ja'' then let_ja templates
      else if l = ''ru'' then let_ru templates
      else let_en templates)"

definition canonical_or_default :: "string \<Rightarrow> string" where
  "canonical_or_default l = (case canonicalize_locale l of Some c \<Rightarrow> c | None \<Rightarrow> default_error_locale)"

definition localized_message_from_template :: "upstream_error_template_record \<Rightarrow> string \<Rightarrow> string option" where
  "localized_message_from_template template l = template_in (uet_templates template) (canonical_or_default l)"

definition localized_message_from_template_like :: "builtin_error_template_record \<Rightarrow> string \<Rightarrow> string option" where
  "localized_message_from_template_like template l = template_in (bet_templates template) (canonical_or_default l)"

definition localized_message_from_builtin_template :: "'c app_config \<Rightarrow> string \<Rightarrow> string \<Rightarrow> string option" where
  "localized_message_from_builtin_template st code l =
     Option.bind (map_of (ac_builtin_templates st) (builtin_error_template_key GatewayError code))
       (\<lambda>template. localized_message_from_template_like template l)"

definition gateway_messages :: "(string \<times> (string \<times> string) list) list" where
  "gateway_messages =
     [(''zh-CN'',
        [(''payload_too_large'', utf8 [232, 175, 183, 230, 177, 130, 228, 189, 147, 232, 182, 133, 232,
            191, 135, 228, 186, 134, 230, 156, 141, 229, 138, 161, 231, 171, 175, 233, 153, 144, 229,
            136, 182, 227, 128, 130]),
         (''invalid_request_body'', utf8 [232, 175, 183, 230, 177, 130, 228, 189, 147, 232, 167, 163,
            230, 158, 144, 229, 164, 177, 232, 180, 165, 227, 128, 130]),
         (''no_upstream_account'', utf8 [229, 189, 147, 229, 137, 141, 230, 178, 161, 230, 156, 137,
            229, 143, 175, 231, 148, 168, 231, 154, 132, 228, 184, 138, 230, 184, 184, 232, 180, 166,
            229, 143, 183, 227, 128, 130]),
         (''invalid_upstream_url'', utf8 [228, 184, 138, 230, 184, 184, 229, 156, 176, 229, 157, 128,
            230, 151, 160, 230, 149, 136, 227, 128, 130]),
         (''upstream_transport_error'', utf8 [228, 184, 138, 230, 184, 184, 232, 175, 183, 230, 177,
            130, 229, 164, 177, 232, 180, 165, 227, 128, 130]),
         (''proxy_unavailable'', utf8 [229, 189, 147, 229, 137, 141, 233, 133, 141, 231, 189, 174, 231,
            154, 132, 229, 135, 186, 229, 143, 163, 228, 187, 163, 231, 144, 134, 228, 184, 141, 229,
            143, 175, 231, 148, 168, 227, 128, 130]),
         (''invalid_websocket_upgrade'', utf8 [230, 151, 160, 230, 149, 136, 231, 154, 132, 32, 87, 101,
            98, 83, 111, 99, 107, 101, 116, 32, 229, 141, 135, 231, 186, 167, 232, 175, 183, 230, 177,
            130, 227, 128, 130]),
         (''upstream_websocket_connect_error'', utf8 [232, 191, 158, 230, 142, 165, 228, 184, 138, 230,
            184, 184, 32, 87, 101, 98, 83, 111, 99, 107, 101, 116, 32, 229, 164, 177, 232, 180, 165,
            227, 128, 130]),
         (''websocket_upgrade_required'', utf8 [228, 184, 138, 230, 184, 184, 232, 166, 129, 230, 177,
            130, 228, 189, 191, 231, 148, 168, 32, 87, 101, 98, 83, 111, 99, 107, 101, 116, 32, 229,
            141, 143, 232, 174, 174, 229, 141, 135, 231, 186, 167, 227, 128, 130]),
         (''websocket_handshake_error'', utf8 [228, 184, 138, 230, 184, 184, 32, 87, 101, 98, 83, 111,
            99, 107, 101, 116, 32, 230, 143, 161, 230, 137, 139, 229, 164, 177, 232, 180, 165, 227, 128,
            130]),
         (''invalid_request_rate_limited'', utf8 [230, 151, 160, 230, 149, 136, 232, 175, 183, 230, 177,
            130, 232, 191, 135, 229, 164, 154, 239, 188, 140, 232, 175, 183, 231, 168, 141, 229, 144,
            142, 229, 134, 141, 232, 175, 149, 227, 128, 130])]),
      (''zh-TW'',
        [(''payload_too_large'', utf8 [232, 171, 139, 230, 177, 130, 233, 171, 148, 232, 182, 133, 233,
            129, 142, 228, 186, 134, 228, 188, 186, 230, 156, 141, 229, 153, 168, 233, 153, 144, 229,
            136, 182, 227, 128, 130]),
         (''invalid_request_body'', utf8 [232, 171, 139, 230, 177, 130, 233, 171, 148, 232, 167, 163,
            230, 158, 144, 229, 164, 177, 230, 149, 151, 227, 128, 130]),
         (''no_upstream_account'', utf8 [231, 155, 174, 229, 137, 141, 230, 178, 146, 230, 156, 137,
            229, 143, 175, 231, 148, 168, 231, 154, 132, 228, 184, 138, 230, 184, 184, 229, 184, 179,
            232, 153, 159, 227, 128, 130]),
         (''invalid_upstream_url'', utf8 [228, 184, 138, 230, 184, 184, 228, 189, 141, 229, 157, 128,
            231, 132, 161, 230, 149, 136, 227, 128, 130]),
         (''upstream_transport_error'', utf8 [228, 184, 138, 230, 184, 184, 232, 171, 139, 230, 177,
            130, 229, 164, 177, 230, 149, 151, 227, 128, 130]),
         (''proxy_unavailable'', utf8 [231, 155, 174, 229, 137, 141, 232, 168, 173, 229, 174, 154, 231,
            154, 132, 229, 135, 186, 229, 143, 163, 228, 187, 163, 231, 144, 134, 228, 184, 141, 229,
            143, 175, 231, 148, 168, 227, 128, 130]),
         (''invalid_websocket_upgrade'', utf8 [231, 132, 161, 230, 149, 136, 231, 154, 132, 32, 87, 101,
            98, 83, 111, 99, 107, 101, 116, 32, 229, 141, 135, 231, 180, 154, 232, 171, 139, 230, 177,
            130, 227, 128, 130]),
         (''upstream_websocket_connect_error'', utf8 [233, 128, 163, 230, 142, 165, 228, 184, 138, 230,
            184, 184, 32, 87, 101, 98, 83, 111, 99, 107, 101, 116, 32, 229, 164, 177, 230, 149, 151,
            227, 128, 130]),
         (''websocket_upgrade_required'', utf8 [228, 184, 138, 230, 184, 184, 232, 166, 129, 230, 177,
            130, 228, 189, 191, 231, 148, 168, 32, 87, 101, 98, 83, 111, 99, 107, 101, 116, 32, 229,
            141, 148, 232, 173, 176, 229, 141, 135, 231, 180, 154, 227, 128, 130]),
         (''websocket_handshake_error'', utf8 [228, 184, 138, 230, 184, 184, 32, 87, 101, 98, 83, 111,
            99, 107, 101, 116, 32, 230, 143, 161, 230, 137, 139, 229, 164, 177, 230, 149, 151, 227, 128,
            130]),
         (''invalid_request_rate_limited'', utf8 [231, 132, 161, 230, 149, 136, 232, 171, 139, 230, 177,
            130, 233, 129, 142, 229, 164, 154, 239, 188, 140, 232, 171, 139, 231, 168, 141, 229, 190,
            140, 229, 134, 141, 232, 169, 166, 227, 128, 130])]),
      (''ja'',
        [(''payload_too_large'', utf8 [227, 131, 170, 227, 130, 175, 227, 130, 168, 227, 130, 185, 227,
            131, 136, 230, 156, 172, 230, 150, 135, 227, 129, 140, 227, 130, 181, 227, 131, 188, 227,
            131, 144, 227, 131, 188, 229, 136, 182, 233, 153, 144, 227, 130, 146, 232, 182, 133, 227,
            129, 136, 227, 129, 166, 227, 129, 132, 227, 129, 190, 227, 129, 153, 227, 128, 130]),
         (''invalid_request_body'', utf8 [227, 131, 170, 227, 130, 175, 227, 130, 168, 227, 130, 185,
            227, 131, 136, 230, 156, 172, 230, 150, 135, 227, 130, 146, 232, 167, 163, 230, 158, 144,
            227, 129, 167, 227, 129, 141, 227, 129, 190, 227, 129, 155, 227, 130, 147, 227, 129, 167,
            227, 129, 151, 227, 129, 159, 227, 128, 130]),
         (''no_upstream_account'', utf8 [229, 136, 169, 231, 148, 168, 229, 143, 175, 232, 131, 189,
            227, 129, 170, 228, 184, 138, 230, 181, 129, 227, 130, 162, 227, 130, 171, 227, 130, 166,
            227, 131, 179, 227, 131, 136, 227, 129, 140, 227, 129, 130, 227, 130, 138, 227, 129, 190,
            227, 129, 155, 227, 130, 147, 227, 128, 130]),
         (''invalid_upstream_url'', utf8 [228, 184, 138, 230, 181, 129, 32, 85, 82, 76, 32, 227, 129,
            140, 231, 132, 161, 229, 138, 185, 227, 129, 167, 227, 129, 153, 227, 128, 130]),
         (''upstream_transport_error'', utf8 [228, 184, 138, 230, 181, 129, 227, 131, 170, 227, 130,
            175, 227, 130, 168, 227, 130, 185, 227, 131, 136, 227, 129, 171, 229, 164, 177, 230, 149,
            151, 227, 129, 151, 227, 129, 190, 227, 129, 151, 227, 129, 159, 227, 128, 130]),
         (''proxy_unavailable'', utf8 [232, 168, 173, 229, 174, 154, 227, 129, 149, 227, 130, 140, 227,
            129, 159, 227, 130, 162, 227, 130, 166, 227, 131, 136, 227, 131, 144, 227, 130, 166, 227,
            131, 179, 227, 131, 137, 227, 131, 151, 227, 131, 173, 227, 130, 173, 227, 130, 183, 227,
            129, 175, 231, 143, 190, 229, 156, 168, 229, 136, 169, 231, 148, 168, 227, 129, 167, 227,
            129, 141, 227, 129, 190, 227, 129, 155, 227, 130, 147, 227, 128, 130]),
         (''invalid_websocket_upgrade'', utf8 [231, 132, 161, 229, 138, 185, 227, 129, 170, 32, 87, 101,
            98, 83, 111, 99, 107, 101, 116, 32, 227, 130, 162, 227, 131, 131, 227, 131, 151, 227, 130,
            176, 227, 131, 172, 227, 131, 188, 227, 131, 137, 232, 166, 129, 230, 177, 130, 227, 129,
            167, 227, 129, 153, 227, 128, 130]),
         (''upstream_websocket_connect_error'', utf8 [228, 184, 138, 230, 181, 129, 32, 87, 101, 98, 83,
            111, 99, 107, 101, 116, 32, 227, 129, 184, 227, 129, 174, 230, 142, 165, 231, 182, 154, 227,
            129, 171, 229, 164, 177, 230, 149, 151, 227, 129, 151, 227, 129, 190, 227, 129, 151, 227,
            129, 159, 227, 128, 130]),
         (''websocket_upgrade_required'', utf8 [228, 184, 138, 230, 181, 129, 227, 129, 175, 32, 87,
            101, 98, 83, 111, 99, 107, 101, 116, 32, 227, 130, 162, 227, 131, 131, 227, 131, 151, 227,
            130, 176, 227, 131, 172, 227, 131, 188, 227, 131, 137, 227, 130, 146, 232, 166, 129, 230,
            177, 130, 227, 129, 151, 227, 129, 166, 227, 129, 132, 227, 129, 190, 227, 129, 153, 227,
            128, 130]),
         (''websocket_handshake_error'', utf8 [228, 184, 138, 230, 181, 129, 32, 87, 101, 98, 83, 111,
            99, 107, 101, 116, 32, 227, 131, 143, 227, 131, 179, 227, 131, 137, 227, 130, 183, 227, 130,
            167, 227, 130, 164, 227, 130, 175, 227, 129, 171, 229, 164, 177, 230, 149, 151, 227, 129,
            151, 227, 129, 190, 227, 129, 151, 227, 129, 159, 227, 128, 130]),
         (''invalid_request_rate_limited'', utf8 [231, 132, 161, 229, 138, 185, 227, 129, 170, 227, 131,
            170, 227, 130, 175, 227, 130, 168, 227, 130, 185, 227, 131, 136, 227, 129, 140, 229, 164,
            154, 227, 129, 153, 227, 129, 142, 227, 129, 190, 227, 129, 153, 227, 128, 130, 227, 129,
            151, 227, 129, 176, 227, 130, 137, 227, 129, 143, 227, 129, 151, 227, 129, 166, 227, 129,
            139, 227, 130, 137, 229, 134, 141, 232, 169, 166, 232, 161, 140, 227, 129, 151, 227, 129,
            166, 227, 129, 143, 227, 129, 160, 227, 129, 149, 227, 129, 132, 227, 128, 130])]),
      (''ru'',
        [(''payload_too_large'', utf8 [208, 162, 208, 181, 208, 187, 208, 190, 32, 208, 183, 208, 176,
            208, 191, 209, 128, 208, 190, 209, 129, 208, 176, 32, 208, 191, 209, 128, 208, 181, 208,
            178, 209, 139, 209, 136, 208, 176, 208, 181, 209, 130, 32, 208, 187, 208, 184, 208, 188,
            208, 184, 209, 130, 32, 209, 129, 208, 181, 209, 128, 208, 178, 208, 181, 209, 128, 208,
            176, 46]),
         (''invalid_request_body'', utf8 [208, 157, 208, 181, 32, 209, 131, 208, 180, 208, 176, 208,
            187, 208, 190, 209, 129, 209, 140, 32, 209, 128, 208, 176, 208, 183, 208, 190, 208, 177,
            209, 128, 208, 176, 209, 130, 209, 140, 32, 209, 130, 208, 181, 208, 187, 208, 190, 32, 208,
            183, 208, 176, 208, 191, 209, 128, 208, 190, 209, 129, 208, 176, 46]),
         (''no_upstream_account'', utf8 [208, 161, 208, 181, 208, 185, 209, 135, 208, 176, 209, 129, 32,
            208, 189, 208, 181, 209, 130, 32, 208, 180, 208, 190, 209, 129, 209, 130, 209, 131, 208,
            191, 208, 189, 209, 139, 209, 133, 32, 117, 112, 115, 116, 114, 101, 97, 109, 45, 208, 176,
            208, 186, 208, 186, 208, 176, 209, 131, 208, 189, 209, 130, 208, 190, 208, 178, 46]),
         (''invalid_upstream_url'', utf8 [208, 157, 208, 181, 208, 186, 208, 190, 209, 128, 209, 128,
            208, 181, 208, 186, 209, 130, 208, 189, 209, 139, 208, 185, 32, 117, 112, 115, 116, 114,
            101, 97, 109, 32, 85, 82, 76, 46]),
         (''upstream_transport_error'', utf8 [208, 158, 209, 136, 208, 184, 208, 177, 208, 186, 208,
            176, 32, 208, 183, 208, 176, 208, 191, 209, 128, 208, 190, 209, 129, 208, 176, 32, 208, 186,
            32, 117, 112, 115, 116, 114, 101, 97, 109, 46]),
         (''proxy_unavailable'', utf8 [208, 157, 208, 176, 209, 129, 209, 130, 209, 128, 208, 190, 208,
            181, 208, 189, 208, 189, 209, 139, 208, 185, 32, 208, 184, 209, 129, 209, 133, 208, 190,
            208, 180, 209, 143, 209, 137, 208, 184, 208, 185, 32, 208, 191, 209, 128, 208, 190, 208,
            186, 209, 129, 208, 184, 32, 209, 129, 208, 181, 208, 185, 209, 135, 208, 176, 209, 129, 32,
            208, 189, 208, 181, 208, 180, 208, 190, 209, 129, 209, 130, 209, 131, 208, 191, 208, 181,
            208, 189, 46]),
         (''invalid_websocket_upgrade'', utf8 [208, 157, 208, 181, 208, 186, 208, 190, 209, 128, 209,
            128, 208, 181, 208, 186, 209, 130, 208, 189, 209, 139, 208, 185, 32, 208, 183, 208, 176,
            208, 191, 209, 128, 208, 190, 209, 129, 32, 208, 189, 208, 176, 32, 208, 190, 208, 177, 208,
            189, 208, 190, 208, 178, 208, 187, 208, 181, 208, 189, 208, 184, 208, 181, 32, 87, 101, 98,
            83, 111, 99, 107, 101, 116, 46]),
         (''upstream_websocket_connect_error'', utf8 [208, 157, 208, 181, 32, 209, 131, 208, 180, 208,
            176, 208, 187, 208, 190, 209, 129, 209, 140, 32, 208, 191, 208, 190, 208, 180, 208, 186,
            208, 187, 209, 142, 209, 135, 208, 184, 209, 130, 209, 140, 209, 129, 209, 143, 32, 208,
            186, 32, 117, 112, 115, 116, 114, 101, 97, 109, 32, 87, 101, 98, 83, 111, 99, 107, 101, 116,
            46]),
         (''websocket_upgrade_required'', utf8 [85, 112, 115, 116, 114, 101, 97, 109, 32, 209, 130, 209,
            128, 208, 181, 208, 177, 209, 131, 208, 181, 209, 130, 32, 208, 190, 208, 177, 208, 189,
            208, 190, 208, 178, 208, 187, 208, 181, 208, 189, 208, 184, 209, 143, 32, 208, 180, 208,
            190, 32, 87, 101, 98, 83, 111, 99, 107, 101, 116, 46]),
         (''websocket_handshake_error'', utf8 [208, 158, 209, 136, 208, 184, 208, 177, 208, 186, 208,
            176, 32, 209, 128, 209, 131, 208, 186, 208, 190, 208, 191, 208, 190, 208, 182, 208, 176,
            209, 130, 208, 184, 209, 143, 32, 117, 112, 115, 116, 114, 101, 97, 109, 32, 87, 101, 98,
            83, 111, 99, 107, 101, 116, 46]),
         (''invalid_request_rate_limited'', utf8 [208, 161, 208, 187, 208, 184, 209, 136, 208, 186, 208,
            190, 208, 188, 32, 208, 188, 208, 189, 208, 190, 208, 179, 208, 190, 32, 208, 189, 208, 181,
            208, 186, 208, 190, 209, 128, 209, 128, 208, 181, 208, 186, 209, 130, 208, 189, 209, 139,
            209, 133, 32, 208, 183, 208, 176, 208, 191, 209, 128, 208, 190, 209, 129, 208, 190, 208,
            178, 44, 32, 208, 191, 208, 190, 208, 191, 209, 128, 208, 190, 208, 177, 209, 131, 208, 185,
            209, 130, 208, 181, 32, 208, 191, 208, 190, 208, 183, 208, 182, 208, 181, 46])])]"

definition localized_gateway_message :: "string \<Rightarrow> string \<Rightarrow> string \<Rightarrow> string" where
  "localized_gateway_message code l fallback =
     (case map_of gateway_messages (canonical_or_default l) of
        None \<Rightarrow> fallback
      | Some messages \<Rightarrow> (case map_of messages code of None \<Rightarrow> fallback | Some text \<Rightarrow> text))"

definition localized_gateway_message_with_state :: "'c app_config \<Rightarrow> string \<Rightarrow> string \<Rightarrow> string \<Rightarrow> string" where
  "localized_gateway_message_with_state st code l fallback =
     (case localized_message_from_builtin_template st code l of
        Some text \<Rightarrow> text
      | None \<Rightarrow> localized_gateway_message code l fallback)"

section \<open>What may leave the gateway\<close>

text \<open>The patterns, each as the replacement of all its matches by its placeholder.\<close>

record redactions =
  rd_email :: "string \<Rightarrow> string"
  rd_uuid :: "string \<Rightarrow> string"
  rd_request_id :: "string \<Rightarrow> string"
  rd_model :: "string \<Rightarrow> string"
  rd_number :: "string \<Rightarrow> string"
  rd_whitespace :: "string \<Rightarrow> string"

text \<open>\<^verbatim>\<open>str::replace\<close> for a pattern that is not empty: matches from the left, without overlaps.\<close>

function str_replace :: "string \<Rightarrow> string \<Rightarrow> string \<Rightarrow> string" where
  "str_replace p r s =
     (if p \<noteq> [] \<and> starts_with p s then r @ str_replace p r (drop (length p) s)
      else case s of [] \<Rightarrow> [] | c # cs \<Rightarrow> c # str_replace p r cs)"
  by pat_completeness auto

termination
proof (relation "measure (\<lambda>(p, r, s). length s)", goal_cases)
  case (2 p r s)
  then have "s \<noteq> []" "p \<noteq> []" by (auto simp: starts_with_def)
  then show ?case by simp
qed simp_all

declare str_replace.simps [simp del]

definition apply_redactions :: "redactions \<Rightarrow> string \<Rightarrow> string" where
  "apply_redactions rd s =
     rd_whitespace rd (trim (rd_number rd (rd_model rd (rd_request_id rd (rd_uuid rd (rd_email rd s))))))"

definition sanitize_upstream_error_text :: "redactions \<Rightarrow> string option \<Rightarrow> string \<Rightarrow> string" where
  "sanitize_upstream_error_text rd model text =
     apply_redactions rd
       (case Option.bind model trim_nonempty of
          None \<Rightarrow> trim text
        | Some m \<Rightarrow> str_replace m ''{model}'' (trim text))"

definition is_sensitive_upstream_error_key :: "string \<Rightarrow> bool" where
  "is_sensitive_upstream_error_key key \<longleftrightarrow>
     to_ascii_lowercase (trim key) \<in> set
       [''input'', ''prompt'', ''messages'', ''instructions'', ''content'', ''text'', ''arguments'', ''args'',
        ''user_prompt'', ''conversation'', ''history'', ''tool_input'', ''tool_output'', ''tool_calls'',
        ''response'', ''completion'', ''raw_input'', ''raw_prompt'', ''file'', ''files'', ''attachment'',
        ''attachments'']"

abbreviation sanitized_upstream_raw_max_depth :: nat where
  "sanitized_upstream_raw_max_depth \<equiv> 6"

abbreviation sanitized_upstream_raw_max_items :: nat where
  "sanitized_upstream_raw_max_items \<equiv> 12"

text \<open>
  The first argument is the number of levels left, \<open>MAX_DEPTH - depth\<close>. An object of \<^verbatim>\<open>serde_json\<close> has its
  members in the order of their keys.
\<close>

fun sanitize_upstream_error_json_value ::
  "nat \<Rightarrow> redactions \<Rightarrow> string option \<Rightarrow> string option \<Rightarrow> json \<Rightarrow> json" where
  "sanitize_upstream_error_json_value levels rd model key value =
     (if (case key of None \<Rightarrow> False | Some k \<Rightarrow> is_sensitive_upstream_error_key k) then JString ''[redacted]''
      else case levels of
             0 \<Rightarrow> JString ''[truncated]''
           | Suc n \<Rightarrow>
               (case value of
                  JObject members \<Rightarrow>
                    let kept = map (\<lambda>(k, child). (k, sanitize_upstream_error_json_value n rd model (Some k) child))
                                 (take sanitized_upstream_raw_max_items (sort_key fst members))
                    in JObject (if length members > sanitized_upstream_raw_max_items
                                then sort_key fst (hm_insert ''_truncated'' (JBool True) kept) else kept)
                | JArray items \<Rightarrow>
                    JArray (map (sanitize_upstream_error_json_value n rd model None)
                              (take sanitized_upstream_raw_max_items items) @
                            (if length items > sanitized_upstream_raw_max_items
                             then [JString ''[truncated]''] else []))
                | JString text \<Rightarrow> JString (sanitize_upstream_error_text rd model text)
                | _ \<Rightarrow> value))"

declare sanitize_upstream_error_json_value.simps [simp del]

definition truncate_upstream_error_text :: "string \<Rightarrow> string" where
  "truncate_upstream_error_text value =
     (if chars_count value > 2048 then take_chars 2048 value @ ''...[truncated]'' else value)"

definition sanitize_upstream_error_raw ::
  "redactions \<Rightarrow> (string \<Rightarrow> json option) \<Rightarrow> (json \<Rightarrow> string) \<Rightarrow> string option \<Rightarrow> string option \<Rightarrow> string option" where
  "sanitize_upstream_error_raw rd parse print model raw =
     map_option (\<lambda>raw. truncate_upstream_error_text
         (case parse raw of
            Some value \<Rightarrow> print (sanitize_upstream_error_json_value sanitized_upstream_raw_max_depth rd model None value)
          | None \<Rightarrow> sanitize_upstream_error_text rd model raw))
       (Option.bind raw trim_nonempty)"

definition normalize_upstream_error_fingerprint ::
  "redactions \<Rightarrow> string \<Rightarrow> nat \<Rightarrow> string \<Rightarrow> string option \<Rightarrow> string" where
  "normalize_upstream_error_fingerprint rd provider status message model =
     (let normalized = to_ascii_lowercase (trim message);
          normalized = (case Option.bind model trim_nonempty of
                          None \<Rightarrow> normalized
                        | Some m \<Rightarrow> str_replace (to_ascii_lowercase m) ''{model}'' normalized)
      in to_ascii_lowercase (trim provider) @ '':'' @ to_decimal status @ '':'' @ apply_redactions rd normalized)"

section \<open>Resolution\<close>

record resolve_request =
  rr_fingerprint :: string
  rr_provider :: string
  rr_normalized_status_code :: nat
  rr_normalized_upstream_message :: string
  rr_sanitized_upstream_raw :: "string option"
  rr_target_locale :: string
  rr_model :: "string option"

definition message_in_or_default :: "upstream_error_template_record \<Rightarrow> string \<Rightarrow> string option" where
  "message_in_or_default template l =
     or_else (localized_message_from_template template l) (localized_message_from_template template default_error_locale)"

definition resolution_of :: "string \<Rightarrow> upstream_error_template_record \<Rightarrow> string \<Rightarrow> learned_template_resolution" where
  "resolution_of fingerprint template message =
     \<lparr>lt_semantic_error_code = uet_semantic_error_code template, lt_localized_message = message,
      lt_action = uet_action template, lt_retry_scope = uet_retry_scope template, lt_fingerprint = fingerprint\<rparr>"

text \<open>\<open>reply\<close> is the template of a successful answer of the control plane, \<open>None\<close> any failure of the call.\<close>

definition resolve_template_via_control_plane ::
  "(nat \<Rightarrow> resolve_request \<Rightarrow> upstream_error_template_record option) \<Rightarrow> nat \<Rightarrow> resolve_request \<Rightarrow>
   learned_template_resolution option" where
  "resolve_template_via_control_plane call timeout_ms payload =
     (case call (clamp timeout_ms 100 10000) payload of
        None \<Rightarrow> None
      | Some template \<Rightarrow>
          map_option (resolution_of (uet_fingerprint template) template)
            (message_in_or_default template (rr_target_locale payload)))"

definition should_attempt_ai_error_learning :: "upstream_error_context \<Rightarrow> bool" where
  "should_attempt_ai_error_learning ctx \<longleftrightarrow>
     uec_class ctx = UnknownClass \<or>
     (uec_class ctx = NonRetryableClient \<and> uec_error_code ctx = None \<and>
      (case uec_raw_error ctx of None \<Rightarrow> False | Some raw \<Rightarrow> trim raw \<noteq> []))"

definition learning_message :: "upstream_error_context \<Rightarrow> string option \<Rightarrow> string" where
  "learning_message ctx sanitized_raw =
     (case or_else (uec_error_message ctx) (or_else (uec_error_code ctx) sanitized_raw) of
        Some m \<Rightarrow> m | None \<Rightarrow> ''unknown upstream error'')"

definition learning_request ::
  "redactions \<Rightarrow> (string \<Rightarrow> json option) \<Rightarrow> (json \<Rightarrow> string) \<Rightarrow> string \<Rightarrow> upstream_error_context \<Rightarrow> string \<Rightarrow>
   string option \<Rightarrow> resolve_request" where
  "learning_request rd parse print provider ctx l model =
     (let sanitized_raw = sanitize_upstream_error_raw rd parse print model (uec_raw_error ctx);
          message = learning_message ctx sanitized_raw
      in \<lparr>rr_fingerprint = normalize_upstream_error_fingerprint rd provider (uec_status ctx) message model,
          rr_provider = trim provider, rr_normalized_status_code = uec_status ctx,
          rr_normalized_upstream_message = message, rr_sanitized_upstream_raw = sanitized_raw,
          rr_target_locale = canonical_or_default l, rr_model = model\<rparr>)"

definition resolve_upstream_error_learning ::
  "redactions \<Rightarrow> (string \<Rightarrow> json option) \<Rightarrow> (json \<Rightarrow> string) \<Rightarrow>
   (nat \<Rightarrow> resolve_request \<Rightarrow> upstream_error_template_record option) \<Rightarrow> string option \<Rightarrow> string \<Rightarrow>
   upstream_error_context \<Rightarrow> string \<Rightarrow> string option \<Rightarrow> 'c app_config \<Rightarrow> learned_template_resolution option" where
  "resolve_upstream_error_learning rd parse print call control_plane_base_url provider ctx l model st =
     (let payload = learning_request rd parse print provider ctx l model;
          fingerprint = rr_fingerprint payload
      in case map_of (ac_approved_templates st) fingerprint of
           Some template \<Rightarrow> map_option (resolution_of fingerprint template) (message_in_or_default template l)
         | None \<Rightarrow>
             if \<not> ael_enabled (ac_ai_error_learning_settings st) then None
             else if \<not> should_attempt_ai_error_learning ctx then None
             else if control_plane_base_url = None then None
             else resolve_template_via_control_plane call
                    (ael_first_seen_timeout_ms (ac_ai_error_learning_settings st)) payload)"

definition apply_upstream_error_learning ::
  "redactions \<Rightarrow> (string \<Rightarrow> json option) \<Rightarrow> (json \<Rightarrow> string) \<Rightarrow>
   (nat \<Rightarrow> resolve_request \<Rightarrow> upstream_error_template_record option) \<Rightarrow> string option \<Rightarrow> string \<Rightarrow> string \<Rightarrow>
   string option \<Rightarrow> 'c app_config \<Rightarrow> upstream_error_context \<Rightarrow> upstream_error_context" where
  "apply_upstream_error_learning rd parse print call control_plane_base_url provider l model st ctx =
     ctx\<lparr>uec_learned_resolution :=
           resolve_upstream_error_learning rd parse print call control_plane_base_url provider ctx l model st\<rparr>"

end
