(* ===== verification/Error_Learning.thy ===== *)
theory Error_Learning
  imports Api_Keys Error_Learning_Client
begin

text \<open>
  Error learning in the control plane: the generation of a template for an error it has not seen
  (\<^verbatim>\<open>upstream_error_learning.rs\<close>), by a language model or by rules, and the handlers by which data planes
  resolve errors and operators review templates (\<^verbatim>\<open>app/core_handlers/ai_error_learning.rs\<close>). The language
  model and the JSON parser are parameters; the choice of an outbound proxy for the call and the audit log
  are left out. Handlers take the result of the administrator's authentication as an argument.
\<close>

section \<open>Languages of a template\<close>

datatype template_locale = LocaleEn | LocaleZhCn | LocaleZhTw | LocaleJa | LocaleRu

text \<open>The \<^verbatim>\<open>match\<close> that three functions of the sources share.\<close>

definition locale_of :: "string \<Rightarrow> template_locale option" where
  "locale_of l =
     (if l = ''en'' then Some LocaleEn
      else if l \<in> set [''zh-CN'', ''zh_cn'', ''zh-cn''] then Some LocaleZhCn
      else if l \<in> set [''zh-TW'', ''zh_tw'', ''zh-tw''] then Some LocaleZhTw
      else if l = ''ja'' then Some LocaleJa
      else if l = ''ru'' then Some LocaleRu
      else None)"

definition locale_template :: "localized_error_templates \<Rightarrow> string \<Rightarrow> string option" where
  "locale_template templates l =
     (case locale_of l of
        Some LocaleEn \<Rightarrow> let_en templates
      | Some LocaleZhCn \<Rightarrow> let_zh_cn templates
      | Some LocaleZhTw \<Rightarrow> let_zh_tw templates
      | Some LocaleJa \<Rightarrow> let_ja templates
      | Some LocaleRu \<Rightarrow> let_ru templates
      | None \<Rightarrow> None)"

definition assign_locale_template ::
  "string \<Rightarrow> string \<Rightarrow> localized_error_templates \<Rightarrow> localized_error_templates" where
  "assign_locale_template l value templates =
     (case locale_of l of
        Some LocaleEn \<Rightarrow> templates\<lparr>let_en := Some value\<rparr>
      | Some LocaleZhCn \<Rightarrow> templates\<lparr>let_zh_cn := Some value\<rparr>
      | Some LocaleZhTw \<Rightarrow> templates\<lparr>let_zh_tw := Some value\<rparr>
      | Some LocaleJa \<Rightarrow> templates\<lparr>let_ja := Some value\<rparr>
      | Some LocaleRu \<Rightarrow> templates\<lparr>let_ru := Some value\<rparr>
      | None \<Rightarrow> templates)"

definition locale_is_present :: "localized_error_templates \<Rightarrow> string \<Rightarrow> bool" where
  "locale_is_present templates l \<longleftrightarrow> locale_template templates l \<noteq> None"

definition all_supported_error_template_locales :: "string list" where
  "all_supported_error_template_locales = [''en'', ''zh-CN'', ''zh-TW'', ''ja'', ''ru'']"

definition no_templates :: localized_error_templates where
  "no_templates = \<lparr>let_en = None, let_zh_cn = None, let_zh_tw = None, let_ja = None, let_ru = None\<rparr>"

definition overlay_templates ::
  "localized_error_templates \<Rightarrow> localized_error_templates \<Rightarrow> localized_error_templates" where
  "overlay_templates target generated =
     \<lparr>let_en = or_else (let_en generated) (let_en target),
      let_zh_cn = or_else (let_zh_cn generated) (let_zh_cn target),
      let_zh_tw = or_else (let_zh_tw generated) (let_zh_tw target),
      let_ja = or_else (let_ja generated) (let_ja target),
      let_ru = or_else (let_ru generated) (let_ru target)\<rparr>"

definition fallback_message_for_locale :: "string \<Rightarrow> string \<Rightarrow> string" where
  "fallback_message_for_locale semantic_error_code l =
     (case Option.bind (default_builtin_error_template HeuristicUpstream semantic_error_code)
             (\<lambda>template. locale_template (bet_templates template) l) of
        Some message \<Rightarrow> message
      | None \<Rightarrow>
          if l = ''zh-CN'' then
            utf8 [228, 184, 138, 230, 184, 184, 232, 175, 183, 230, 177, 130, 230, 154, 130, 230, 151, 182,
             228, 184, 141, 229, 143, 175, 231, 148, 168, 227, 128, 130]
          else if l = ''zh-TW'' then
            utf8 [228, 184, 138, 230, 184, 184, 232, 171, 139, 230, 177, 130, 230, 154, 171, 230, 153, 130,
             228, 184, 141, 229, 143, 175, 231, 148, 168, 227, 128, 130]
          else if l = ''ja'' then
            utf8 [228, 184, 138, 230, 181, 129, 227, 131, 170, 227, 130, 175, 227, 130, 168, 227, 130, 185,
             227, 131, 136, 227, 129, 175, 231, 143, 190, 229, 156, 168, 229, 136, 169, 231,
             148, 168, 227, 129, 167, 227, 129, 141, 227, 129, 190, 227, 129, 155, 227, 130,
             147, 227, 128, 130]
          else if l = ''ru'' then
            utf8 [208, 151, 208, 176, 208, 191, 209, 128, 208, 190, 209, 129, 32, 208, 186, 32, 208, 176,
             208, 191, 209, 129, 209, 130, 209, 128, 208, 184, 208, 188, 209, 131, 32, 209, 129,
             208, 181, 208, 185, 209, 135, 208, 176, 209, 129, 32, 208, 189, 208, 181, 208, 180,
             208, 190, 209, 129, 209, 130, 209, 131, 208, 191, 208, 181, 208, 189, 46]
          else ''The upstream request is currently unavailable.'')"

definition fill_missing_templates ::
  "string list \<Rightarrow> string \<Rightarrow> localized_error_templates \<Rightarrow> localized_error_templates" where
  "fill_missing_templates locales semantic_error_code =
     fold (\<lambda>l templates.
             if locale_template templates l \<noteq> None then templates
             else assign_locale_template l (fallback_message_for_locale semantic_error_code l) templates) locales"

definition fill_missing_from_source ::
  "string list \<Rightarrow> localized_error_templates \<Rightarrow> localized_error_templates \<Rightarrow> localized_error_templates" where
  "fill_missing_from_source locales source =
     fold (\<lambda>l templates.
             if locale_template templates l \<noteq> None then templates
             else case locale_template source l of
                    Some value \<Rightarrow> assign_locale_template l value templates
                  | None \<Rightarrow> templates) locales"

section \<open>Generation\<close>

record template_generation_context =
  tg_fingerprint :: string
  tg_provider :: string
  tg_normalized_status_code :: nat
  tg_normalized_upstream_message :: string
  tg_sanitized_upstream_raw :: "string option"
  tg_model :: "string option"

record generated_template =
  gt_semantic_error_code :: string
  gt_action :: upstream_error_action
  gt_retry_scope :: upstream_error_retry_scope
  gt_templates :: localized_error_templates

record learning_runtime =
  lr_base_url :: "string option"
  lr_api_key :: "string option"
  lr_model :: string
  lr_timeout_ms :: nat
  lr_force_fallback :: bool
  lr_max_new_fingerprints_per_minute :: nat
  lr_new_fingerprint_timestamps :: "instant list"

definition nonempty_var :: "env \<Rightarrow> string \<Rightarrow> string option" where
  "nonempty_var env name = (case env name of Some v \<Rightarrow> if trim v = [] then None else Some v | None \<Rightarrow> None)"

definition from_env_inner :: "env \<Rightarrow> string \<Rightarrow> learning_runtime" where
  "from_env_inner env default_base_url =
     \<lparr>lr_base_url = or_else (nonempty_var env ''AI_ERROR_LEARNING_BASE_URL'') (Some default_base_url),
      lr_api_key = nonempty_var env ''AI_ERROR_LEARNING_API_KEY'',
      lr_model = (case nonempty_var env ''AI_ERROR_LEARNING_MODEL'' of Some m \<Rightarrow> m | None \<Rightarrow> ''gpt-5.2-codex''),
      lr_timeout_ms = env_setting parse_u64 env ''AI_ERROR_LEARNING_TIMEOUT_MS'' 2000 100 10000,
      lr_force_fallback =
        (case env ''AI_ERROR_LEARNING_FORCE_FALLBACK'' of
           Some raw \<Rightarrow> trim raw \<in> set [''1'', ''true'', ''TRUE'', ''yes'', ''on''] | None \<Rightarrow> False),
      lr_max_new_fingerprints_per_minute =
        env_setting parse_u64 env ''AI_ERROR_LEARNING_MAX_NEW_FINGERPRINTS_PER_MINUTE'' 20 1 1000,
      lr_new_fingerprint_timestamps = []\<rparr>"

definition heuristic_classification ::
  "template_generation_context \<Rightarrow> string \<times> upstream_error_action \<times> upstream_error_retry_scope" where
  "heuristic_classification ctx =
     (let message = to_ascii_lowercase (tg_normalized_upstream_message ctx @ '' '' @
                      (case tg_sanitized_upstream_raw ctx of Some raw \<Rightarrow> raw | None \<Rightarrow> []))
      in if tg_normalized_status_code ctx = 400 \<and> str_contains message ''model'' \<and>
            contains_any message [''does not exist'', ''not found'', ''not supported'', ''unsupported'']
         then (''unsupported_model'', ReturnFailure, ScopeNone)
         else if tg_normalized_status_code ctx = 429 \<or>
                 contains_any message [''rate limit'', ''too many requests'', ''usage limit'']
         then (''quota_exhausted'', RetryCrossAccount, ScopeCrossAccount)
         else (''upstream_request_failed'', ReturnFailure, ScopeNone))"

definition heuristic_template :: "template_generation_context \<Rightarrow> string list \<Rightarrow> generated_template" where
  "heuristic_template ctx locales =
     (case heuristic_classification ctx of
        (semantic_error_code, action, retry_scope) \<Rightarrow>
          \<lparr>gt_semantic_error_code = semantic_error_code, gt_action = action, gt_retry_scope = retry_scope,
           gt_templates = fill_missing_templates locales semantic_error_code no_templates\<rparr>)"

fun as_array :: "json \<Rightarrow> json list option" where
  "as_array (JArray items) = Some items"
| "as_array _ = None"

fun as_object :: "json \<Rightarrow> (string \<times> json) list option" where
  "as_object (JObject members) = Some members"
| "as_object _ = None"

definition text_part :: "json \<Rightarrow> string" where
  "text_part part =
     (if Option.bind (json_get part ''type'') as_str = Some ''text''
      then (case Option.bind (json_get part ''text'') as_str of Some text \<Rightarrow> text | None \<Rightarrow> [])
      else [])"

definition extract_completion_content :: "json \<Rightarrow> string option" where
  "extract_completion_content payload =
     (case Option.bind (json_get payload ''choices'') as_array of
        Some (choice # _) \<Rightarrow>
          (case json_path choice [''message'', ''content''] of
             None \<Rightarrow> None
           | Some content \<Rightarrow>
               (case as_str content of
                  Some text \<Rightarrow> Some text
                | None \<Rightarrow>
                    (case as_array content of
                       None \<Rightarrow> None
                     | Some parts \<Rightarrow>
                         let merged = concat (map text_part parts)
                         in if trim merged = [] then None else Some merged)))
      | _ \<Rightarrow> None)"

definition map_templates_from_object :: "(string \<times> json) list \<Rightarrow> localized_error_templates" where
  "map_templates_from_object members =
     fold (\<lambda>(key, value) templates.
             case Option.bind (as_str value) trim_nonempty of
               None \<Rightarrow> templates
             | Some text \<Rightarrow> assign_locale_template key text templates)
       (sort_key fst members) no_templates"

text \<open>How \<^verbatim>\<open>serde\<close> reads an enumeration: the name, or an object with the name and a null.\<close>

fun enum_tag :: "json \<Rightarrow> string option" where
  "enum_tag (JString tag) = Some tag"
| "enum_tag (JObject [(tag, JNull)]) = Some tag"
| "enum_tag _ = None"

definition action_of_json :: "json \<Rightarrow> upstream_error_action option" where
  "action_of_json value =
     (case enum_tag value of
        None \<Rightarrow> None
      | Some tag \<Rightarrow> map_of [(''return_failure'', ReturnFailure), (''retry_same_account'', RetrySameAccount),
                           (''retry_cross_account'', RetryCrossAccount)] tag)"

definition retry_scope_of_json :: "json \<Rightarrow> upstream_error_retry_scope option" where
  "retry_scope_of_json value =
     (case enum_tag value of
        None \<Rightarrow> None
      | Some tag \<Rightarrow> map_of [(''none'', ScopeNone), (''same_account'', ScopeSameAccount),
                           (''cross_account'', ScopeCrossAccount)] tag)"

text \<open>\<open>reply\<close> is the decoded body of a successful answer of the language model.\<close>

definition try_generate_remote ::
  "(string \<Rightarrow> json option) \<Rightarrow> json option \<Rightarrow> template_generation_context \<Rightarrow> string list \<Rightarrow> generated_template option" where
  "try_generate_remote parse reply ctx locales =
     (case Option.bind (Option.bind reply extract_completion_content) parse of
        None \<Rightarrow> None
      | Some parsed \<Rightarrow>
          (case heuristic_classification ctx of
             (code0, action0, scope0) \<Rightarrow>
               let code = (case Option.bind (Option.bind (json_get parsed ''semantic_error_code'') as_str) trim_nonempty of
                             Some c \<Rightarrow> c | None \<Rightarrow> code0);
                   action = (case Option.bind (json_get parsed ''action'') action_of_json of Some a \<Rightarrow> a | None \<Rightarrow> action0);
                   scope = (case Option.bind (json_get parsed ''retry_scope'') retry_scope_of_json of
                              Some r \<Rightarrow> r | None \<Rightarrow> scope0);
                   templates = (case Option.bind (json_get parsed ''templates'') as_object of
                                  Some members \<Rightarrow> map_templates_from_object members | None \<Rightarrow> no_templates)
               in Some \<lparr>gt_semantic_error_code = code, gt_action = action, gt_retry_scope = scope,
                        gt_templates = fill_missing_templates locales code templates\<rparr>))"

definition reserve_new_fingerprint_slot :: "instant \<Rightarrow> learning_runtime \<Rightarrow> bool \<times> learning_runtime" where
  "reserve_new_fingerprint_slot now rt =
     (let timestamps = dropWhile (\<lambda>ts. ts < now - from_secs 60) (lr_new_fingerprint_timestamps rt)
      in if lr_max_new_fingerprints_per_minute rt \<le> length timestamps
         then (False, rt\<lparr>lr_new_fingerprint_timestamps := timestamps\<rparr>)
         else (True, rt\<lparr>lr_new_fingerprint_timestamps := timestamps @ [now]\<rparr>))"

type_synonym language_model = "template_generation_context \<Rightarrow> string list \<Rightarrow> json option"

definition generate_for_locales ::
  "language_model \<Rightarrow> (string \<Rightarrow> json option) \<Rightarrow> instant \<Rightarrow> template_generation_context \<Rightarrow> string list \<Rightarrow> bool \<Rightarrow>
   learning_runtime \<Rightarrow> generated_template \<times> learning_runtime" where
  "generate_for_locales remote parse now ctx locales is_new_fingerprint rt =
     (let (use_remote, rt1) =
            (if lr_force_fallback rt \<or> lr_api_key rt = None \<or> lr_base_url rt = None then (False, rt)
             else if is_new_fingerprint then reserve_new_fingerprint_slot now rt
             else (True, rt))
      in case (if use_remote then try_generate_remote parse (remote ctx locales) ctx locales else None) of
           Some generated \<Rightarrow> (generated, rt1)
         | None \<Rightarrow> (heuristic_template ctx locales, rt1))"

definition try_rewrite_builtin_templates_remote ::
  "(string \<Rightarrow> json option) \<Rightarrow> json option \<Rightarrow> builtin_error_template_record \<Rightarrow> string list \<Rightarrow>
   localized_error_templates option" where
  "try_rewrite_builtin_templates_remote parse reply template locales =
     map_option (\<lambda>parsed.
         fill_missing_from_source locales (bet_default_templates template)
           (overlay_templates (bet_templates template)
             (case Option.bind (json_get parsed ''templates'') as_object of
                Some members \<Rightarrow> map_templates_from_object members | None \<Rightarrow> no_templates)))
       (Option.bind (Option.bind reply extract_completion_content) parse)"

definition rewrite_builtin_templates ::
  "(builtin_error_template_record \<Rightarrow> json option) \<Rightarrow> (string \<Rightarrow> json option) \<Rightarrow> builtin_error_template_record \<Rightarrow>
   string list \<Rightarrow> learning_runtime \<Rightarrow> localized_error_templates" where
  "rewrite_builtin_templates remote parse template locales rt =
     (case (if lr_force_fallback rt \<or> lr_api_key rt = None \<or> lr_base_url rt = None then None
            else try_rewrite_builtin_templates_remote parse (remote template) template locales) of
        Some generated \<Rightarrow> generated
      | None \<Rightarrow> fill_missing_from_source locales (bet_default_templates template) (bet_templates template))"

section \<open>Resolving an error\<close>

definition context_from_resolve_request :: "resolve_request \<Rightarrow> template_generation_context" where
  "context_from_resolve_request req =
     \<lparr>tg_fingerprint = rr_fingerprint req, tg_provider = rr_provider req,
      tg_normalized_status_code = rr_normalized_status_code req,
      tg_normalized_upstream_message = rr_normalized_upstream_message req,
      tg_sanitized_upstream_raw = rr_sanitized_upstream_raw req, tg_model = rr_model req\<rparr>"

definition is_generic_upstream_sample :: "string \<Rightarrow> bool" where
  "is_generic_upstream_sample sample \<longleftrightarrow>
     to_ascii_lowercase (trim sample) \<in> set
       [''unknown upstream error'', ''unknown upstream request failure'', ''upstream request failed'']"

definition representative_sample_from_resolve_request :: "resolve_request \<Rightarrow> string" where
  "representative_sample_from_resolve_request req =
     (let normalized = trim (rr_normalized_upstream_message req)
      in if normalized \<noteq> [] \<and> \<not> is_generic_upstream_sample normalized then normalized
         else case Option.bind (rr_sanitized_upstream_raw req) trim_nonempty of
                Some raw \<Rightarrow> raw
              | None \<Rightarrow> normalized)"

definition apply_builtin_heuristic_template_if_known ::
  "control_plane_store \<Rightarrow> upstream_error_template_record \<Rightarrow> upstream_error_template_record" where
  "apply_builtin_heuristic_template_if_known s template =
     (case builtin_error_template HeuristicUpstream (uet_semantic_error_code template) s of
        None \<Rightarrow> template
      | Some builtin \<Rightarrow>
          template\<lparr>uet_action := (case bet_action builtin of Some a \<Rightarrow> a | None \<Rightarrow> uet_action template),
                   uet_retry_scope := (case bet_retry_scope builtin of Some r \<Rightarrow> r | None \<Rightarrow> uet_retry_scope template),
                   uet_templates := bet_templates builtin\<rparr>)"

definition new_template ::
  "uuid \<Rightarrow> timestamp \<Rightarrow> resolve_request \<Rightarrow> generated_template \<Rightarrow> upstream_error_template_record" where
  "new_template new_id now req generated =
     \<lparr>uet_id = new_id, uet_fingerprint = rr_fingerprint req, uet_provider = rr_provider req,
      uet_normalized_status_code = rr_normalized_status_code req,
      uet_semantic_error_code = gt_semantic_error_code generated, uet_action = gt_action generated,
      uet_retry_scope = gt_retry_scope generated, uet_status = ProvisionalLive,
      uet_templates = gt_templates generated,
      uet_representative_samples = [representative_sample_from_resolve_request req], uet_hit_count = 0,
      uet_first_seen_at = now, uet_last_seen_at = now, uet_updated_at = now\<rparr>"

definition count_hit :: "timestamp \<Rightarrow> string \<Rightarrow> upstream_error_template_record \<Rightarrow> upstream_error_template_record" where
  "count_hit now sample template =
     template\<lparr>uet_hit_count := min (uet_hit_count template + 1) u64_max,
              uet_last_seen_at := now, uet_updated_at := now,
              uet_representative_samples :=
                (let samples = uet_representative_samples template
                 in if sample \<notin> set samples \<and> length samples < 3 then samples @ [sample] else samples)\<rparr>"

definition add_generated ::
  "control_plane_store \<Rightarrow> generated_template \<Rightarrow> upstream_error_template_record \<Rightarrow> upstream_error_template_record" where
  "add_generated s generated template =
     apply_builtin_heuristic_template_if_known s
       (template\<lparr>uet_semantic_error_code :=
                   (if trim (uet_semantic_error_code template) = [] then gt_semantic_error_code generated
                    else uet_semantic_error_code template),
                 uet_action := gt_action generated, uet_retry_scope := gt_retry_scope generated,
                 uet_templates := overlay_templates (uet_templates template) (gt_templates generated)\<rparr>)"

definition review_when_due ::
  "ai_error_learning_settings \<Rightarrow> upstream_error_template_record \<Rightarrow> upstream_error_template_record" where
  "review_when_due settings template =
     (if uet_status template = ProvisionalLive \<and> ael_review_hit_threshold settings \<le> uet_hit_count template
      then template\<lparr>uet_status := ReviewPending\<rparr> else template)"

text \<open>
  What a request makes of the state it reads: the template to save and whether it is new. The handler holds
  the lock of the fingerprint from before the reading until after the saving; the two calls of the language
  model happen in between.
\<close>

definition resolve_template ::
  "language_model \<Rightarrow> (string \<Rightarrow> json option) \<Rightarrow> uuid \<Rightarrow> instant \<Rightarrow> timestamp \<Rightarrow> resolve_request \<Rightarrow>
   control_plane_store \<Rightarrow> learning_runtime \<Rightarrow> (upstream_error_template_record \<times> bool) \<times> learning_runtime" where
  "resolve_template remote parse new_id tick now req s rt =
     (let ctx = context_from_resolve_request req;
          sample = representative_sample_from_resolve_request req;
          (template, created, rt1) =
            (case upstream_error_template_by_fingerprint (rr_fingerprint req) s of
               Some existing \<Rightarrow> (existing, False, rt)
             | None \<Rightarrow>
                 let (generated, rt1) = generate_for_locales remote parse tick ctx [rr_target_locale req] True rt
                 in (apply_builtin_heuristic_template_if_known s (new_template new_id now req generated), True, rt1));
          template = count_hit now sample template;
          (template, rt2) =
            (if \<not> locale_is_present (uet_templates template) (rr_target_locale req) \<and> uet_status template \<noteq> Rejected
             then let (generated, rt2) = generate_for_locales remote parse tick ctx [rr_target_locale req] False rt1
                  in (add_generated s generated template, rt2)
             else (template, rt1))
      in ((review_when_due (cp_learning_settings s) template, created), rt2))"

definition internal_resolve_upstream_error_template ::
  "validate_endpoint \<Rightarrow> language_model \<Rightarrow> (string \<Rightarrow> json option) \<Rightarrow> uuid \<Rightarrow> instant \<Rightarrow> timestamp \<Rightarrow> header_map \<Rightarrow>
   resolve_request option \<Rightarrow> control_plane_store \<times> learning_runtime \<Rightarrow>
   (status_code + upstream_error_template_record \<times> bool) \<times> control_plane_store \<times> learning_runtime" where
  "internal_resolve_upstream_error_template e remote parse new_id tick now headers payload st =
     (case cp_require_internal_service_token e headers of
        Inl status \<Rightarrow> (Inl status, st)
      | Inr _ \<Rightarrow>
          (case payload of
             None \<Rightarrow> (Inl 400, st)
           | Some req \<Rightarrow>
               (case resolve_template remote parse new_id tick now req (fst st) (snd st) of
                  ((template, created), rt1) \<Rightarrow>
                    (Inr (template, created), snd (save_upstream_error_template template (fst st)), rt1))))"

section \<open>Review\<close>

definition for_admin :: "status_code + unit \<Rightarrow> 'a \<Rightarrow> status_code + 'a" where
  "for_admin admin answer = (case admin of Inl status \<Rightarrow> Inl status | Inr _ \<Rightarrow> Inr answer)"

definition get_admin_upstream_error_learning_settings ::
  "status_code + unit \<Rightarrow> control_plane_store \<Rightarrow> status_code + ai_error_learning_settings" where
  "get_admin_upstream_error_learning_settings admin s = for_admin admin (cp_learning_settings s)"

definition list_admin_upstream_error_templates ::
  "status_code + unit \<Rightarrow> upstream_error_template_status option \<Rightarrow> control_plane_store \<Rightarrow>
   status_code + upstream_error_template_record list" where
  "list_admin_upstream_error_templates admin status s = for_admin admin (list_upstream_error_templates status s)"

definition list_admin_builtin_error_templates ::
  "status_code + unit \<Rightarrow> control_plane_store \<Rightarrow> status_code + builtin_error_template_record list" where
  "list_admin_builtin_error_templates admin s =
     for_admin admin (list_builtin_error_templates_inner (cp_builtin_overrides s))"

text \<open>The payload holds the switch, the timeout and the threshold.\<close>

definition update_admin_upstream_error_learning_settings ::
  "status_code + unit \<Rightarrow> (bool \<times> nat \<times> nat) option \<Rightarrow> timestamp \<Rightarrow> control_plane_store \<Rightarrow>
   (status_code + ai_error_learning_settings) \<times> control_plane_store" where
  "update_admin_upstream_error_learning_settings admin payload now s =
     (case (admin, payload) of
        (Inl status, _) \<Rightarrow> (Inl status, s)
      | (Inr _, None) \<Rightarrow> (Inl 400, s)
      | (Inr _, Some (enabled, timeout_ms, threshold)) \<Rightarrow>
          (case update_upstream_error_learning_settings now enabled timeout_ms threshold s of
             (settings, s1) \<Rightarrow> (Inr settings, s1)))"

definition with_template ::
  "status_code + unit \<Rightarrow> uuid \<Rightarrow> (upstream_error_template_record \<Rightarrow> upstream_error_template_record) \<Rightarrow>
   control_plane_store \<Rightarrow> (status_code + upstream_error_template_record) \<times> control_plane_store" where
  "with_template admin template_id f s =
     (case admin of
        Inl status \<Rightarrow> (Inl status, s)
      | Inr _ \<Rightarrow>
          (case upstream_error_template_by_id template_id s of
             None \<Rightarrow> (Inl 404, s)
           | Some template \<Rightarrow>
               (case save_upstream_error_template (f template) s of (saved, s1) \<Rightarrow> (Inr saved, s1))))"

record update_template_request =
  ut_semantic_error_code :: string
  ut_action :: upstream_error_action
  ut_retry_scope :: upstream_error_retry_scope
  ut_templates :: localized_error_templates

definition update_admin_upstream_error_template ::
  "status_code + unit \<Rightarrow> uuid \<Rightarrow> update_template_request option \<Rightarrow> timestamp \<Rightarrow> control_plane_store \<Rightarrow>
   (status_code + upstream_error_template_record) \<times> control_plane_store" where
  "update_admin_upstream_error_template admin template_id payload now s =
     (case (admin, payload) of
        (Inr _, None) \<Rightarrow> (Inl 400, s)
      | (Inl status, _) \<Rightarrow> (Inl status, s)
      | (Inr _, Some req) \<Rightarrow>
          with_template admin template_id
            (\<lambda>t. t\<lparr>uet_semantic_error_code := ut_semantic_error_code req, uet_action := ut_action req,
                   uet_retry_scope := ut_retry_scope req, uet_templates := ut_templates req,
                   uet_updated_at := now\<rparr>) s)"

definition approve_admin_upstream_error_template ::
  "status_code + unit \<Rightarrow> uuid \<Rightarrow> timestamp \<Rightarrow> control_plane_store \<Rightarrow>
   (status_code + upstream_error_template_record) \<times> control_plane_store" where
  "approve_admin_upstream_error_template admin template_id now =
     with_template admin template_id (\<lambda>t. t\<lparr>uet_status := Approved, uet_updated_at := now\<rparr>)"

definition reject_admin_upstream_error_template ::
  "status_code + unit \<Rightarrow> uuid \<Rightarrow> timestamp \<Rightarrow> control_plane_store \<Rightarrow>
   (status_code + upstream_error_template_record) \<times> control_plane_store" where
  "reject_admin_upstream_error_template admin template_id now =
     with_template admin template_id (\<lambda>t. t\<lparr>uet_status := Rejected, uet_updated_at := now\<rparr>)"

definition template_generation_context_from_record :: "upstream_error_template_record \<Rightarrow> template_generation_context" where
  "template_generation_context_from_record template =
     \<lparr>tg_fingerprint = uet_fingerprint template, tg_provider = uet_provider template,
      tg_normalized_status_code = uet_normalized_status_code template,
      tg_normalized_upstream_message =
        (case uet_representative_samples template of sample # _ \<Rightarrow> sample | [] \<Rightarrow> uet_fingerprint template),
      tg_sanitized_upstream_raw = None, tg_model = None\<rparr>"

definition rewrite_admin_upstream_error_template ::
  "status_code + unit \<Rightarrow> language_model \<Rightarrow> (string \<Rightarrow> json option) \<Rightarrow> instant \<Rightarrow> uuid \<Rightarrow> timestamp \<Rightarrow> learning_runtime \<Rightarrow>
   control_plane_store \<Rightarrow> (status_code + upstream_error_template_record) \<times> control_plane_store" where
  "rewrite_admin_upstream_error_template admin remote parse tick template_id now rt =
     with_template admin template_id
       (\<lambda>t. let generated = fst (generate_for_locales remote parse tick
                  (template_generation_context_from_record t) all_supported_error_template_locales False rt)
            in t\<lparr>uet_semantic_error_code := gt_semantic_error_code generated, uet_action := gt_action generated,
                 uet_retry_scope := gt_retry_scope generated, uet_templates := gt_templates generated,
                 uet_updated_at := now\<rparr>)"

definition parse_builtin_error_template_kind :: "string \<Rightarrow> builtin_error_template_kind option" where
  "parse_builtin_error_template_kind raw =
     (if trim raw = ''gateway_error'' then Some GatewayError
      else if trim raw = ''heuristic_upstream'' then Some HeuristicUpstream
      else None)"

definition with_builtin_template ::
  "status_code + unit \<Rightarrow> string \<Rightarrow> string \<Rightarrow>
   (builtin_error_template_kind \<Rightarrow> builtin_error_template_record \<Rightarrow> control_plane_store \<Rightarrow> control_plane_store) \<Rightarrow>
   control_plane_store \<Rightarrow> (status_code + builtin_error_template_record) \<times> control_plane_store" where
  "with_builtin_template admin template_kind template_code f s =
     (case admin of
        Inl status \<Rightarrow> (Inl status, s)
      | Inr _ \<Rightarrow>
          (case parse_builtin_error_template_kind template_kind of
             None \<Rightarrow> (Inl 400, s)
           | Some kind \<Rightarrow>
               (case builtin_error_template kind template_code s of
                  None \<Rightarrow> (Inl 404, s)
                | Some template \<Rightarrow>
                    let s1 = f kind template s
                    in (case builtin_error_template kind template_code s1 of
                          None \<Rightarrow> (Inl 404, s1)
                        | Some updated \<Rightarrow> (Inr updated, s1)))))"

definition override_with ::
  "localized_error_templates \<Rightarrow> timestamp \<Rightarrow> builtin_error_template_kind \<Rightarrow> builtin_error_template_record \<Rightarrow>
   control_plane_store \<Rightarrow> control_plane_store" where
  "override_with templates now kind template s =
     snd (save_builtin_error_template_override
       \<lparr>bor_kind = kind, bor_code = bet_code template, bor_templates = templates, bor_updated_at = now\<rparr> s)"

text \<open>A payload that cannot be read is refused after the kind has been checked.\<close>

definition update_admin_builtin_error_template ::
  "status_code + unit \<Rightarrow> string \<Rightarrow> string \<Rightarrow> localized_error_templates option \<Rightarrow> timestamp \<Rightarrow> control_plane_store \<Rightarrow>
   (status_code + builtin_error_template_record) \<times> control_plane_store" where
  "update_admin_builtin_error_template admin template_kind template_code payload now s =
     (case payload of
        None \<Rightarrow> (case admin of Inl status \<Rightarrow> (Inl status, s) | Inr _ \<Rightarrow> (Inl 400, s))
      | Some templates \<Rightarrow> with_builtin_template admin template_kind template_code (override_with templates now) s)"

definition rewrite_admin_builtin_error_template ::
  "status_code + unit \<Rightarrow> (builtin_error_template_record \<Rightarrow> json option) \<Rightarrow> (string \<Rightarrow> json option) \<Rightarrow> string \<Rightarrow> string \<Rightarrow>
   timestamp \<Rightarrow> learning_runtime \<Rightarrow> control_plane_store \<Rightarrow>
   (status_code + builtin_error_template_record) \<times> control_plane_store" where
  "rewrite_admin_builtin_error_template admin remote parse template_kind template_code now rt =
     with_builtin_template admin template_kind template_code
       (\<lambda>kind template. override_with
          (rewrite_builtin_templates remote parse template all_supported_error_template_locales rt) now kind template)"

definition reset_admin_builtin_error_template ::
  "status_code + unit \<Rightarrow> string \<Rightarrow> string \<Rightarrow> control_plane_store \<Rightarrow>
   (status_code + builtin_error_template_record) \<times> control_plane_store" where
  "reset_admin_builtin_error_template admin template_kind template_code =
     with_builtin_template admin template_kind template_code
       (\<lambda>kind template. delete_builtin_error_template_override kind template_code)"

end
