(* ===== verification/Error_Learning_Props.thy ===== *)
theory Error_Learning_Props
  imports Error_Learning Sqlite_Store_Props Snapshot_Props
begin

text \<open>
  What error learning promises: the tables of templates keep their shape under every handler, requests count
  each error once and never undo an operator's verdict, and a user gets the text of an unknown error in the
  language of the request. Three ways in which a verdict or an edit of an operator is lost are shown at the
  end.
\<close>

section \<open>Looking up what was saved\<close>

lemma found_by_fingerprint:
  assumes "templates_ok s" "upstream_error_template_by_fingerprint f s = Some t"
  shows "uet_fingerprint t = f" "map_of (cp_error_templates s) (uet_id t) = Some t"
proof -
  from assms(2) obtain i where i: "map_of (cp_error_template_index s) f = Some i" "map_of (cp_error_templates s) i = Some t"
    by (auto simp: upstream_error_template_by_fingerprint_def bind_eq_Some_conv)
  with assms(1) obtain t' where t': "(i, t') \<in> set (cp_error_templates s)" "uet_fingerprint t' = f"
    by (auto simp: templates_ok_def dest!: map_of_SomeD)
  with i(2) assms(1) have "t' = t" by (simp add: templates_ok_def)
  moreover have "uet_id t = i" using assms(1) map_of_SomeD [OF i(2)] by (auto simp: templates_ok_def)
  ultimately show "uet_fingerprint t = f" "map_of (cp_error_templates s) (uet_id t) = Some t" using t' i(2) by simp_all
qed

lemma found_by_id:
  assumes "templates_ok s" "upstream_error_template_by_id i s = Some t"
  shows "uet_id t = i" "upstream_error_template_by_fingerprint (uet_fingerprint t) s = Some t"
proof -
  from assms(2) have t: "map_of (cp_error_templates s) i = Some t" by (simp add: upstream_error_template_by_id_def)
  then have "(i, t) \<in> set (cp_error_templates s)" by (rule map_of_SomeD)
  then have "map_of (map (\<lambda>(i, t). (uet_fingerprint t, i)) (cp_error_templates s)) (uet_fingerprint t) = Some i"
    using assms(1) by (intro map_of_is_SomeI) (force simp: templates_ok_def comp_def case_prod_unfold)+
  with t assms(1) show "upstream_error_template_by_fingerprint (uet_fingerprint t) s = Some t"
    by (simp add: upstream_error_template_by_fingerprint_def templates_ok_def)
  from \<open>(i, t) \<in> _\<close> assms(1) show "uet_id t = i" by (auto simp: templates_ok_def)
qed

lemma found_after_save:
  assumes "templates_ok s" "save_ok t s"
  shows "upstream_error_template_by_fingerprint f (snd (save_upstream_error_template t s)) =
    (if f = uet_fingerprint t then Some t else upstream_error_template_by_fingerprint f s)"
proof (cases "f = uet_fingerprint t")
  case True
  then show ?thesis
    by (simp add: save_upstream_error_template_def upstream_error_template_by_fingerprint_def update_conv')
next
  case False
  have "uet_id t \<noteq> i" if i: "map_of (cp_error_template_index s) f = Some i" for i
  proof
    assume id: "uet_id t = i"
    from i assms(1) obtain t0 where "(i, t0) \<in> set (cp_error_templates s)" "uet_fingerprint t0 = f"
      by (auto simp: templates_ok_def dest!: map_of_SomeD)
    with assms(1) have t0: "map_of (cp_error_templates s) i = Some t0" by (simp add: templates_ok_def)
    then show False
    proof (cases "upstream_error_template_by_fingerprint (uet_fingerprint t) s")
      case None
      with assms(2) id t0 show ?thesis by (simp add: save_ok_def)
    next
      case (Some old)
      with assms(2) id have "uet_id old = i" by (simp add: save_ok_def)
      with found_by_fingerprint [OF assms(1) Some] t0 \<open>uet_fingerprint t0 = f\<close> False show ?thesis by simp
    qed
  qed
  with False show ?thesis
    by (cases "map_of (cp_error_template_index s) f")
       (auto simp: save_upstream_error_template_def upstream_error_template_by_fingerprint_def update_conv')
qed

section \<open>What a request changes\<close>

text \<open>The shape of a template: what every handler but the operator's verdict keeps.\<close>

definition frame :: "upstream_error_template_record \<Rightarrow> uuid \<times> string \<times> nat \<times> upstream_error_template_status \<times> string list \<times> nat" where
  "frame t = (uet_id t, uet_fingerprint t, uet_hit_count t, uet_status t, uet_representative_samples t,
     uet_normalized_status_code t)"

lemma frame_builtin [simp]: "frame (apply_builtin_heuristic_template_if_known s t) = frame t"
  by (simp add: apply_builtin_heuristic_template_if_known_def frame_def split: option.split)

lemma frame_generated [simp]: "frame (add_generated s generated t) = frame t"
  by (simp add: add_generated_def) (simp add: frame_def)

lemma frame_eqD:
  assumes "frame t = frame t'"
  shows "uet_id t = uet_id t'" "uet_fingerprint t = uet_fingerprint t'" "uet_hit_count t = uet_hit_count t'"
    "uet_status t = uet_status t'" "uet_representative_samples t = uet_representative_samples t'"
    "uet_normalized_status_code t = uet_normalized_status_code t'"
  using assms by (simp_all add: frame_def)

definition next_status ::
  "nat \<Rightarrow> nat \<Rightarrow> upstream_error_template_status \<Rightarrow> upstream_error_template_status" where
  "next_status threshold hits status =
     (if status = ProvisionalLive \<and> threshold \<le> hits then ReviewPending else status)"

definition base_template ::
  "uuid \<Rightarrow> timestamp \<Rightarrow> resolve_request \<Rightarrow> control_plane_store \<Rightarrow> generated_template \<Rightarrow> upstream_error_template_record" where
  "base_template new_id now req s generated =
     (case upstream_error_template_by_fingerprint (rr_fingerprint req) s of
        Some t \<Rightarrow> t | None \<Rightarrow> new_template new_id now req generated)"

lemma resolve_frame:
  assumes "resolve_template remote parse new_id tick now req s rt = ((t, created), rt')"
  obtains generated where
    "frame t = (case count_hit now (representative_sample_from_resolve_request req)
        (base_template new_id now req s generated) of
          t1 \<Rightarrow> frame (t1\<lparr>uet_status := next_status (ael_review_hit_threshold (cp_learning_settings s))
                 (uet_hit_count t1) (uet_status t1)\<rparr>))"
    "created \<longleftrightarrow> upstream_error_template_by_fingerprint (rr_fingerprint req) s = None"
proof -
  have count: "frame (count_hit now sample x) = frame (count_hit now sample y)" if "frame x = frame y" for sample x y
    using frame_eqD [OF that] by (simp add: frame_def count_hit_def)
  have review: "frame (review_when_due settings x) =
      frame (y\<lparr>uet_status := next_status (ael_review_hit_threshold settings) (uet_hit_count y) (uet_status y)\<rparr>)"
    if "frame x = frame y" for settings x y
    using frame_eqD [OF that] by (simp add: frame_def review_when_due_def next_status_def)
  show ?thesis
  proof (cases "upstream_error_template_by_fingerprint (rr_fingerprint req) s")
    case None
    obtain generated rt1 where g: "generate_for_locales remote parse tick (context_from_resolve_request req)
        [rr_target_locale req] True rt = (generated, rt1)" by fastforce
    show ?thesis
      apply (rule that [of generated])
      using assms None unfolding resolve_template_def base_template_def
      by (auto simp: g Let_def case_prod_unfold intro!: review count split: if_splits)
  next
    case (Some old)
    show ?thesis
      apply (rule that)
      using assms Some unfolding resolve_template_def base_template_def
      by (auto simp: Let_def case_prod_unfold intro!: review count split: if_splits)
  qed
qed

definition tally :: "string \<Rightarrow> control_plane_store \<Rightarrow> nat \<times> upstream_error_template_status" where
  "tally f s =
     (case upstream_error_template_by_fingerprint f s of
        None \<Rightarrow> (0, ProvisionalLive) | Some t \<Rightarrow> (uet_hit_count t, uet_status t))"

definition counted ::
  "nat \<Rightarrow> nat \<times> upstream_error_template_status \<Rightarrow> nat \<times> upstream_error_template_status" where
  "counted threshold = (\<lambda>(hits, status).
     let hits = min (hits + 1) u64_max in (hits, next_status threshold hits status))"

text \<open>The type of a stored template.\<close>

definition template_typed :: "upstream_error_template_record \<Rightarrow> bool" where
  "template_typed t \<longleftrightarrow>
     1 \<le> uet_hit_count t \<and> uet_hit_count t \<le> u64_max \<and> uet_normalized_status_code t < 2 ^ 16 \<and>
     uet_representative_samples t \<noteq> [] \<and> length (uet_representative_samples t) \<le> 3 \<and>
     distinct (uet_representative_samples t)"

lemma resolve_effect:
  assumes "templates_ok s" "map_of (cp_error_templates s) new_id = None"
    and "resolve_template remote parse new_id tick now req s rt = ((t, created), rt')"
  shows "save_ok t s" "uet_fingerprint t = rr_fingerprint req"
    "uet_id t = new_id \<or> map_of (cp_error_templates s) (uet_id t) \<noteq> None"
    "(uet_hit_count t, uet_status t) =
       counted (ael_review_hit_threshold (cp_learning_settings s)) (tally (rr_fingerprint req) s)"
    "(\<And>old. upstream_error_template_by_fingerprint (rr_fingerprint req) s = Some old \<Longrightarrow> template_typed old) \<Longrightarrow>
       rr_normalized_status_code req < 2 ^ 16 \<Longrightarrow> template_typed t"
proof -
  let ?f = "rr_fingerprint req"
  from resolve_frame [OF assms(3)] obtain generated where frame: "frame t =
      (case count_hit now (representative_sample_from_resolve_request req) (base_template new_id now req s generated) of
          t1 \<Rightarrow> frame (t1\<lparr>uet_status := next_status (ael_review_hit_threshold (cp_learning_settings s))
                 (uet_hit_count t1) (uet_status t1)\<rparr>))" by metis
  note t = frame_eqD [OF frame [unfolded Let_def], simplified]
  have "uet_fingerprint (base_template new_id now req s generated) = ?f"
    using found_by_fingerprint(1) [OF assms(1)] by (auto simp: base_template_def new_template_def split: option.split)
  with t show f: "uet_fingerprint t = ?f" by (simp add: count_hit_def)
  show "uet_id t = new_id \<or> map_of (cp_error_templates s) (uet_id t) \<noteq> None"
    using t found_by_fingerprint(2) [OF assms(1)]
    by (auto simp: base_template_def count_hit_def new_template_def split: option.split)
  show "save_ok t s" using t f assms(2)
    by (auto simp: save_ok_def base_template_def count_hit_def new_template_def split: option.split)
  show "(uet_hit_count t, uet_status t) =
      counted (ael_review_hit_threshold (cp_learning_settings s)) (tally ?f s)"
    using t by (simp add: counted_def tally_def base_template_def count_hit_def new_template_def Let_def
        split: option.split)
  show "template_typed t" if "\<And>old. upstream_error_template_by_fingerprint ?f s = Some old \<Longrightarrow> template_typed old"
    "rr_normalized_status_code req < 2 ^ 16"
    using t that by (auto simp: template_typed_def base_template_def count_hit_def new_template_def u64_max_def
        Let_def split: option.splits if_splits)
qed

section \<open>Reachable states\<close>

text \<open>
  The service from its start: requests of data planes and of operators in any order, each with any credentials,
  and every other operation of the store, which leaves the templates alone. A new identifier is one that no
  template has; the status of a request is read as \<^verbatim>\<open>u16\<close>.
\<close>

inductive learning_step ::
  "control_plane_store \<times> learning_runtime \<Rightarrow> control_plane_store \<times> learning_runtime \<Rightarrow> bool" where
  step_resolve: "map_of (cp_error_templates (fst st)) new_id = None \<Longrightarrow>
     (\<And>req. payload = Some req \<Longrightarrow> rr_normalized_status_code req < 2 ^ 16) \<Longrightarrow>
     learning_step st (snd (internal_resolve_upstream_error_template e remote parse new_id tick now headers payload st))"
| step_settings: "learning_step (s, rt)
     (snd (update_admin_upstream_error_learning_settings admin settings now s), rt)"
| step_update: "learning_step (s, rt) (snd (update_admin_upstream_error_template admin template_id update now s), rt)"
| step_approve: "learning_step (s, rt) (snd (approve_admin_upstream_error_template admin template_id now s), rt)"
| step_reject: "learning_step (s, rt) (snd (reject_admin_upstream_error_template admin template_id now s), rt)"
| step_rewrite: "learning_step (s, rt)
     (snd (rewrite_admin_upstream_error_template admin remote parse tick template_id now rt s), rt)"
| step_update_builtin: "learning_step (s, rt) (snd (update_admin_builtin_error_template admin kind code override now s), rt)"
| step_rewrite_builtin: "learning_step (s, rt)
     (snd (rewrite_admin_builtin_error_template admin remote_builtin parse kind code now rt s), rt)"
| step_reset_builtin: "learning_step (s, rt) (snd (reset_admin_builtin_error_template admin kind code s), rt)"
| step_store: "admin_op s s' \<Longrightarrow> other_step s s' \<Longrightarrow> learning_step (s, rt) (s', rt)"
| step_pool: "learning_step (s, rt) (s\<lparr>cp_pool := p\<rparr>, rt)"

inductive learning_reachable :: "control_plane_store \<times> learning_runtime \<Rightarrow> bool" where
  learning_start: "learning_reachable (new_with_oauth now, from_env_inner env default_base_url)"
| learning_more: "learning_reachable st \<Longrightarrow> learning_step st st' \<Longrightarrow> learning_reachable st'"

definition slots_ok :: "learning_runtime \<Rightarrow> bool" where
  "slots_ok rt \<longleftrightarrow> length (lr_new_fingerprint_timestamps rt) \<le> lr_max_new_fingerprints_per_minute rt"

definition learning_ok :: "control_plane_store \<times> learning_runtime \<Rightarrow> bool" where
  "learning_ok st \<longleftrightarrow>
     templates_ok (fst st) \<and> (\<forall>(i, t) \<in> set (cp_error_templates (fst st)). template_typed t) \<and> slots_ok (snd st)"

lemma slots_generate: "slots_ok rt \<Longrightarrow> slots_ok (snd (generate_for_locales remote parse now ctx locales new rt))"
proof -
  assume ok: "slots_ok rt"
  have "slots_ok (snd (reserve_new_fingerprint_slot now rt))"
    using ok length_dropWhile_le [of "\<lambda>ts. ts < now - from_secs 60" "lr_new_fingerprint_timestamps rt"]
    by (auto simp: slots_ok_def reserve_new_fingerprint_slot_def Let_def)
  with ok show ?thesis
    by (auto simp: generate_for_locales_def Let_def case_prod_unfold split: option.split)
qed

lemma slots_resolve: "slots_ok rt \<Longrightarrow> slots_ok (snd (resolve_template remote parse new_id tick now req s rt))"
  using slots_generate by (auto simp: resolve_template_def Let_def case_prod_unfold split: option.split)

lemma typed_save:
  assumes "templates_ok s" "save_ok t s" "template_typed t"
    and "\<forall>(i, t) \<in> set (cp_error_templates s). template_typed t"
  shows "\<forall>(i, t) \<in> set (cp_error_templates (snd (save_upstream_error_template t s))). template_typed t"
  using assms(3,4) set_hm_insert_subset [of "uet_id t" t "cp_error_templates s"]
  by (auto simp: save_upstream_error_template_def)

lemma typed_found:
  assumes "learning_ok (s, rt)" "upstream_error_template_by_fingerprint f s = Some t"
  shows "template_typed t"
  using assms by (force simp: learning_ok_def upstream_error_template_by_fingerprint_def bind_eq_Some_conv dest: map_of_SomeD)

text \<open>What an operator does to a template keeps its frame, but for the status.\<close>

lemma with_template_ok:
  assumes "learning_ok (s, rt)"
    and "\<And>t. uet_id (g t) = uet_id t \<and> uet_fingerprint (g t) = uet_fingerprint t \<and> template_typed (g t) = template_typed t"
  shows "learning_ok (snd (with_template admin template_id g s), rt)"
proof (cases "\<exists>u t. admin = Inr u \<and> upstream_error_template_by_id template_id s = Some t")
  case True
  then obtain u t where t: "admin = Inr u" "upstream_error_template_by_id template_id s = Some t" by blast
  have ok: "templates_ok s" using assms(1) by (simp add: learning_ok_def)
  note found = found_by_id [OF ok t(2)]
  have "save_ok (g t) s" using assms(2) [of t] found by (simp add: save_ok_def)
  moreover have "template_typed (g t)" using assms(2) [of t] typed_found [OF assms(1) found(2)] by simp
  ultimately show ?thesis
    using t assms(1) templates_ok_save [OF ok] typed_save [OF ok]
    by (simp add: with_template_def learning_ok_def split_beta)
next
  case False
  then show ?thesis using assms(1) by (auto simp: with_template_def split: sum.split option.split)
qed

lemma with_builtin_ok:
  assumes "learning_ok (s, rt)"
    and "\<And>k t s. cp_error_templates (f k t s) = cp_error_templates s \<and>
      cp_error_template_index (f k t s) = cp_error_template_index s"
  shows "learning_ok (snd (with_builtin_template admin kind code f s), rt)"
  using assms by (simp add: with_builtin_template_def learning_ok_def templates_ok_def Let_def
      split: sum.split option.split)

lemmas operator_defs =
  update_admin_upstream_error_template_def approve_admin_upstream_error_template_def
  reject_admin_upstream_error_template_def rewrite_admin_upstream_error_template_def

lemmas builtin_operator_defs =
  update_admin_builtin_error_template_def rewrite_admin_builtin_error_template_def
  reset_admin_builtin_error_template_def override_with_def save_builtin_error_template_override_def
  delete_builtin_error_template_override_def

lemma resolve_handler_ok:
  assumes "learning_ok st" "map_of (cp_error_templates (fst st)) new_id = None"
    and "\<And>req. payload = Some req \<Longrightarrow> rr_normalized_status_code req < 2 ^ 16"
  shows "learning_ok (snd (internal_resolve_upstream_error_template e remote parse new_id tick now headers payload st))"
proof -
  obtain s rt where st: "st = (s, rt)" by fastforce
  have ok: "templates_ok s" using assms(1) by (simp add: st learning_ok_def)
  have "learning_ok (snd (save_upstream_error_template t s), rt')"
    if "resolve_template remote parse new_id tick now req s rt = ((t, created), rt')" "payload = Some req"
    for t created rt' req
  proof -
    note effect = resolve_effect [OF ok _ that(1)]
    have "template_typed t"
      using effect(5) assms(2,3) that(2) typed_found [OF assms(1) [unfolded st]] by (simp add: st)
    moreover have "slots_ok rt'"
      using slots_resolve [of rt remote parse new_id tick now req s] that(1) assms(1) by (simp add: st learning_ok_def)
    ultimately show ?thesis
      using effect(1) assms(1,2) templates_ok_save [OF ok] typed_save [OF ok] by (simp add: st learning_ok_def)
  qed
  with assms(1) show ?thesis
    by (auto simp: st internal_resolve_upstream_error_template_def split: sum.split option.split prod.split)
qed

lemma learning_step_ok:
  assumes "learning_step st st'" "learning_ok st"
  shows "learning_ok st'"
  using assms
proof cases
  case (step_resolve new_id payload e remote parse tick now headers)
  then show ?thesis using resolve_handler_ok assms(2) by simp
next
  case (step_store s s' rt)
  then show ?thesis using assms(2) by (simp add: learning_ok_def other_step_def templates_ok_def)
next
  case (step_pool s rt p)
  then show ?thesis using assms(2) by (simp add: learning_ok_def templates_ok_def)
next
  case (step_settings s rt admin settings now)
  then show ?thesis using assms(2)
    by (simp add: update_admin_upstream_error_learning_settings_def update_upstream_error_learning_settings_def
        learning_ok_def templates_ok_def Let_def split: sum.split option.split prod.split)
next
  case (step_update s rt admin template_id update now)
  then show ?thesis using assms(2)
    by (auto simp: operator_defs template_typed_def intro!: with_template_ok split: sum.split option.split)
qed (use assms(2) in \<open>auto simp: operator_defs builtin_operator_defs template_typed_def Let_def
      intro!: with_template_ok with_builtin_ok split: sum.split option.split\<close>)+

lemma learning_reachable_ok: "learning_reachable st \<Longrightarrow> learning_ok st"
proof (induction rule: learning_reachable.induct)
  case (learning_start now env url)
  show ?case by (simp add: learning_ok_def templates_ok_def new_with_oauth_def slots_ok_def from_env_inner_def)
next
  case (learning_more st st')
  then show ?case using learning_step_ok by blast
qed

text \<open>
  C32. The tables of learned errors keep their type. In every state the service reaches, whatever data planes and
  operators sent in whatever order, templates stand under their own identifiers, no two templates have the
  same fingerprint, the index finds exactly the stored templates, every template has been hit between once and
  \<open>2\<^sup>6\<^sup>4 - 1\<close> times and keeps one to three different samples, and no more than the configured number of calls of
  the language model for new errors is on record.
\<close>

theorem learned_templates_typed:
  assumes "learning_reachable (s, rt)"
  shows "distinct (map fst (cp_error_templates s)) \<and>
    (\<forall>(i, t) \<in> set (cp_error_templates s).
       uet_id t = i \<and> upstream_error_template_by_fingerprint (uet_fingerprint t) s = Some t \<and> template_typed t) \<and>
    (\<forall>f t. upstream_error_template_by_fingerprint f s = Some t \<longrightarrow>
       uet_fingerprint t = f \<and> (uet_id t, t) \<in> set (cp_error_templates s)) \<and>
    length (lr_new_fingerprint_timestamps rt) \<le> lr_max_new_fingerprints_per_minute rt"
proof -
  have ok: "learning_ok (s, rt)" by (rule learning_reachable_ok [OF assms])
  then have tables: "templates_ok s" by (simp add: learning_ok_def)
  have "uet_id t = i \<and> upstream_error_template_by_fingerprint (uet_fingerprint t) s = Some t \<and> template_typed t"
    if "(i, t) \<in> set (cp_error_templates s)" for i t
  proof -
    from that tables have "upstream_error_template_by_id i s = Some t"
      by (simp add: upstream_error_template_by_id_def templates_ok_def)
    from found_by_id [OF tables this] show ?thesis using that ok by (auto simp: learning_ok_def)
  qed
  moreover have "uet_fingerprint t = f \<and> (uet_id t, t) \<in> set (cp_error_templates s)"
    if "upstream_error_template_by_fingerprint f s = Some t" for f t
    using found_by_fingerprint [OF tables that] map_of_SomeD by metis
  ultimately show ?thesis using ok tables by (auto simp: learning_ok_def slots_ok_def templates_ok_def)
qed

definition demo_resolve :: resolve_request where
  "demo_resolve = \<lparr>rr_fingerprint = ''openai:418:odd'', rr_provider = ''openai'', rr_normalized_status_code = 418,
     rr_normalized_upstream_message = ''odd'', rr_sanitized_upstream_raw = None, rr_target_locale = ''ja'',
     rr_model = None\<rparr>"

definition demo_service :: "control_plane_store \<times> learning_runtime" where
  "demo_service = (new_with_oauth 0, from_env_inner (\<lambda>_. None) ''https://model'')"

definition demo_internal :: validate_endpoint where
  "demo_internal = \<lparr>ve_internal_auth_token = ''s'', ve_capabilities = capabilities_for_edition Personal,
     ve_cache_ttl_sec = 60\<rparr>"

definition demo_answered :: "control_plane_store \<times> learning_runtime" where
  "demo_answered = snd (internal_resolve_upstream_error_template demo_internal (\<lambda>_ _. None) (\<lambda>_. None) 7 0 0
     [(''authorization'', ''Bearer s'')] (Some demo_resolve) demo_service)"

lemma demo_token: "cp_require_internal_service_token demo_internal [(''authorization'', ''Bearer s'')] = Inr ()"
  by code_simp

lemma demo_fresh: "map_of (cp_error_templates (fst demo_service)) i = None"
  by (simp add: demo_service_def new_with_oauth_def)

lemma demo_reachable: "learning_reachable demo_service" "learning_reachable demo_answered"
proof -
  show start: "learning_reachable demo_service" unfolding demo_service_def by (rule learning_start)
  show "learning_reachable demo_answered" unfolding demo_answered_def
    by (rule learning_more [OF start], rule step_resolve) (simp_all add: demo_fresh demo_resolve_def)
qed

lemma demo_stored: "\<exists>t. upstream_error_template_by_fingerprint ''openai:418:odd'' (fst demo_answered) = Some t"
proof -
  obtain s rt where service: "demo_service = (s, rt)" by fastforce
  obtain t created rt' where r: "resolve_template (\<lambda>_ _. None) (\<lambda>_. None) 7 0 0 demo_resolve s rt = ((t, created), rt')"
    by (metis surj_pair)
  have ok: "templates_ok s" using learning_reachable_ok [OF demo_reachable(1)] by (simp add: service learning_ok_def)
  note effect = resolve_effect [OF ok _ r]
  have "map_of (cp_error_templates s) 7 = None" using demo_fresh [of 7] by (simp add: service)
  moreover have "fst demo_answered = snd (save_upstream_error_template t s)"
    by (simp add: demo_answered_def internal_resolve_upstream_error_template_def demo_token service r)
  moreover have "rr_fingerprint demo_resolve = ''openai:418:odd''" by (simp add: demo_resolve_def)
  ultimately show ?thesis using effect(1,2) found_after_save [OF ok, of t] by simp
qed

theorem learned_templates_typed_witness:
  "distinct (map fst (cp_error_templates (fst demo_answered))) \<and>
   (\<exists>t. upstream_error_template_by_fingerprint ''openai:418:odd'' (fst demo_answered) = Some t \<and>
      (uet_id t, t) \<in> set (cp_error_templates (fst demo_answered)) \<and> template_typed t)"
  using learned_templates_typed [of "fst demo_answered" "snd demo_answered"] demo_reachable(2) demo_stored by fastforce

section \<open>Traffic\<close>

type_synonym resolve_call = "uuid \<times> instant \<times> timestamp \<times> resolve_request"

definition traffic ::
  "validate_endpoint \<Rightarrow> language_model \<Rightarrow> (string \<Rightarrow> json option) \<Rightarrow> header_map \<Rightarrow> resolve_call list \<Rightarrow>
   control_plane_store \<times> learning_runtime \<Rightarrow> control_plane_store \<times> learning_runtime" where
  "traffic e remote parse headers =
     fold (\<lambda>(new_id, tick, now, req) st.
       snd (internal_resolve_upstream_error_template e remote parse new_id tick now headers (Some req) st))"

abbreviation calls_for :: "string \<Rightarrow> resolve_call list \<Rightarrow> nat" where
  "calls_for f calls \<equiv> length (filter (\<lambda>(_, _, _, req). rr_fingerprint req = f) calls)"

definition fresh_ids :: "resolve_call list \<Rightarrow> control_plane_store \<Rightarrow> bool" where
  "fresh_ids calls s \<longleftrightarrow>
     distinct (map fst calls) \<and> (\<forall>call \<in> set calls. map_of (cp_error_templates s) (fst call) = None)"

lemma settings_save [simp]:
  "cp_learning_settings (snd (save_upstream_error_template t s)) = cp_learning_settings s"
  by (simp add: save_upstream_error_template_def bump_def)

lemma traffic_tally:
  assumes "cp_require_internal_service_token e headers = Inr ()" "templates_ok s" "fresh_ids calls s"
  shows "tally f (fst (traffic e remote parse headers calls (s, rt))) =
    (counted (ael_review_hit_threshold (cp_learning_settings s)) ^^ calls_for f calls) (tally f s)"
  using assms(2,3)
proof (induction calls arbitrary: s rt)
  case Nil
  then show ?case by (simp add: traffic_def)
next
  case (Cons call calls)
  obtain new_id tick now req where call: "call = (new_id, tick, now, req)" by (cases call) auto
  obtain t created rt' where r: "resolve_template remote parse new_id tick now req s rt = ((t, created), rt')"
    by (metis surj_pair)
  let ?s = "snd (save_upstream_error_template t s)"
  have step: "traffic e remote parse headers (call # calls) (s, rt) = traffic e remote parse headers calls (?s, rt')"
    by (simp add: traffic_def call internal_resolve_upstream_error_template_def assms(1) r)
  from Cons.prems(2) have fresh: "map_of (cp_error_templates s) new_id = None" by (simp add: fresh_ids_def call)
  note effect = resolve_effect [OF Cons.prems(1) fresh r]
  have "fresh_ids calls ?s" using Cons.prems(2) effect(3)
    by (force simp: fresh_ids_def call save_upstream_error_template_def update_conv')
  moreover have "templates_ok ?s" by (rule templates_ok_save [OF Cons.prems(1) effect(1)])
  moreover have "tally f ?s = (if f = rr_fingerprint req
      then counted (ael_review_hit_threshold (cp_learning_settings s)) (tally f s) else tally f s)"
    using effect(2,4) by (simp add: tally_def found_after_save [OF Cons.prems(1) effect(1)])
  ultimately show ?case using Cons.IH [of ?s rt'] unfolding step by (simp add: call funpow_swap1)
qed

lemma counted_funpow:
  assumes "hits \<le> u64_max"
  shows "(counted threshold ^^ n) (hits, status) =
    (if n = 0 then (hits, status) else (min (hits + n) u64_max, next_status threshold (min (hits + n) u64_max) status))"
proof (induction n)
  case (Suc n)
  then show ?case using assms by (cases "n = 0") (auto simp: counted_def next_status_def Let_def min_def)
qed simp



section \<open>Languages\<close>

abbreviation supported :: "string \<Rightarrow> bool" where
  "supported l \<equiv> l \<in> set all_supported_error_template_locales"

lemma supported_canonical: "supported (canonical_or_default l)"
  by (simp add: canonical_or_default_def canonicalize_locale_def all_supported_error_template_locales_def Let_def)

lemma canonical_supported: "supported l \<Longrightarrow> canonical_or_default l = l"
proof -
  have "list_all (\<lambda>l. canonical_or_default l = l) all_supported_error_template_locales" by code_simp
  then show "supported l \<Longrightarrow> canonical_or_default l = l" by (simp add: list_all_iff)
qed

lemma template_in_supported: "supported l \<Longrightarrow> template_in templates l = locale_template templates l"
  by (auto simp: all_supported_error_template_locales_def template_in_def locale_template_def locale_of_def)

lemma supported_known: "supported l \<Longrightarrow> locale_of l \<noteq> None"
  by (auto simp: all_supported_error_template_locales_def locale_of_def)

lemma locale_template_assign: "locale_of l \<noteq> None \<Longrightarrow> locale_template (assign_locale_template l v templates) l = Some v"
  by (auto simp: locale_template_def assign_locale_template_def split: option.split template_locale.split)

lemma locale_template_overlay:
  "locale_template (overlay_templates target generated) l =
     or_else (locale_template generated l) (locale_template target l)"
  by (auto simp: locale_template_def overlay_templates_def or_else_def split: option.split template_locale.split)

lemma generated_present:
  assumes "supported l"
  shows "locale_template (gt_templates (fst (generate_for_locales remote parse tick ctx [l] new rt))) l \<noteq> None"
proof -
  have fill: "locale_template (fill_missing_templates [l] code templates) l \<noteq> None" for code templates
    using supported_known [OF assms] by (simp add: fill_missing_templates_def locale_template_assign)
  have "locale_template (gt_templates g) l \<noteq> None" if "try_generate_remote parse reply ctx [l] = Some g" for reply g
    using that fill by (auto simp: try_generate_remote_def Let_def split: option.splits prod.splits)
  moreover have "locale_template (gt_templates (heuristic_template ctx [l])) l \<noteq> None"
    using fill by (simp add: heuristic_template_def split_beta)
  ultimately show ?thesis by (auto simp: generate_for_locales_def Let_def case_prod_unfold split: option.split)
qed

definition complete :: "localized_error_templates \<Rightarrow> bool" where
  "complete templates \<longleftrightarrow> list_all (\<lambda>l. locale_template templates l \<noteq> None) all_supported_error_template_locales"

lemma complete_localized [simp]: "complete (localized_templates en zh_cn zh_tw ja ru)"
  by (simp add: localized_templates_def complete_def locale_template_def locale_of_def
      all_supported_error_template_locales_def)

lemma complete_shipped: "list_all (\<lambda>t. complete (bet_templates t) \<and> complete (bet_default_templates t)) shipped_templates"
  by (simp add: shipped_templates_def builtin_template_record_def)

lemma complete_merge: "complete base \<Longrightarrow> complete (merge_localized_error_templates base override)"
  by (simp add: complete_def all_supported_error_template_locales_def locale_template_def locale_of_def
      merge_localized_error_templates_def or_else_def split: option.split)

lemma builtin_complete:
  assumes "builtin_error_template kind code s = Some builtin"
  shows "complete (bet_templates builtin)"
proof -
  have found: "x \<in> set xs" if "find P xs = Some x" for P xs and x :: builtin_error_template_record
    using that unfolding find_Some_iff by (metis nth_mem)
  from assms have "builtin \<in> set (map (with_override (cp_builtin_overrides s)) shipped_templates)"
    unfolding builtin_error_template_def list_builtin_is_map by (rule found)
  then obtain t where t: "t \<in> set shipped_templates" "builtin = with_override (cp_builtin_overrides s) t"
    unfolding set_map by blast
  then have "complete (bet_templates t)" "complete (bet_default_templates t)"
    using complete_shipped by (simp_all add: list_all_iff)
  then show ?thesis using t(2) complete_merge by (simp add: with_override_def split: option.split)
qed

lemma present_builtin:
  assumes "supported l" "locale_template (uet_templates t) l \<noteq> None"
  shows "locale_template (uet_templates (apply_builtin_heuristic_template_if_known s t)) l \<noteq> None"
  using assms builtin_complete
  by (force simp: apply_builtin_heuristic_template_if_known_def complete_def list_all_iff split: option.split)

lemma present_generated:
  assumes "supported l" "locale_template (gt_templates generated) l \<noteq> None"
  shows "locale_template (uet_templates (add_generated s generated t)) l \<noteq> None"
  unfolding add_generated_def
  by (rule present_builtin [OF assms(1)]) (use assms(2) in \<open>auto simp: locale_template_overlay or_else_def\<close>)

lemma resolve_present:
  assumes "supported (rr_target_locale req)"
    and "resolve_template remote parse new_id tick now req s rt = ((t, created), rt')"
    and "snd (tally (rr_fingerprint req) s) \<noteq> Rejected"
  shows "locale_template (uet_templates t) (rr_target_locale req) \<noteq> None"
proof -
  let ?l = "rr_target_locale req"
  have review: "uet_templates (review_when_due settings x) = uet_templates x" for settings x
    by (simp add: review_when_due_def)
  have hit: "uet_templates (count_hit now sample x) = uet_templates x" "uet_status (count_hit now sample x) = uet_status x"
    for sample x by (simp_all add: count_hit_def)
  have new: "uet_status (apply_builtin_heuristic_template_if_known s (new_template new_id now req g)) \<noteq> Rejected" for g
    using frame_eqD(4) [OF frame_builtin] by (simp add: new_template_def)
  show ?thesis
    using assms(2,3) generated_present [OF assms(1)] present_generated [OF assms(1)] new
    by (force simp: resolve_template_def Let_def case_prod_unfold locale_is_present_def review hit tally_def
        split: option.splits if_splits)
qed

section \<open>Both planes\<close>

text \<open>The template that a data plane receives when it asks this control plane in this state.\<close>

definition asked ::
  "validate_endpoint \<Rightarrow> language_model \<Rightarrow> (string \<Rightarrow> json option) \<Rightarrow> uuid \<Rightarrow> instant \<Rightarrow> timestamp \<Rightarrow> header_map \<Rightarrow>
   control_plane_store \<times> learning_runtime \<Rightarrow> nat \<Rightarrow> resolve_request \<Rightarrow> upstream_error_template_record option" where
  "asked e remote parse new_id tick now headers st timeout_ms req =
     (case fst (internal_resolve_upstream_error_template e remote parse new_id tick now headers (Some req) st) of
        Inl _ \<Rightarrow> None | Inr (template, _) \<Rightarrow> Some template)"

definition asks :: "string option \<Rightarrow> upstream_error_context \<Rightarrow> 'c app_config \<Rightarrow> string \<Rightarrow> bool" where
  "asks url ctx config fingerprint \<longleftrightarrow>
     map_of (ac_approved_templates config) fingerprint = None \<and> ael_enabled (ac_ai_error_learning_settings config) \<and>
     should_attempt_ai_error_learning ctx \<and> url \<noteq> None"

lemma resolve_asks:
  assumes "asks url ctx config (rr_fingerprint (learning_request rd parse print provider ctx l model))"
  shows "resolve_upstream_error_learning rd parse print call url provider ctx l model config =
    resolve_template_via_control_plane call (ael_first_seen_timeout_ms (ac_ai_error_learning_settings config))
      (learning_request rd parse print provider ctx l model)"
  using assms by (auto simp: asks_def resolve_upstream_error_learning_def Let_def)

lemma request_locale [simp]: "rr_target_locale (learning_request rd parse print provider ctx l model) = canonical_or_default l"
  by (simp add: learning_request_def Let_def)

text \<open>
  C33. A user gets the text of an unknown error in the language of the request. When a data plane asks the control
  plane about an error whose template no operator has rejected, it gets a resolution: its text is the one the
  control plane has stored for the fingerprint in the user's language, new or old, written by the language
  model, the rules or an operator; code, action and scope are those of the stored template.
\<close>

theorem unknown_error_localised:
  fixes url :: "string option" and config :: "'c app_config"
  assumes "templates_ok s" "map_of (cp_error_templates s) new_id = None"
    and "cp_require_internal_service_token e headers = Inr ()"
    and "asks url ctx config (rr_fingerprint req)" "req = learning_request rd parse print provider ctx l model"
    and "snd (tally (rr_fingerprint req) s) \<noteq> Rejected"
  shows "\<exists>r t. resolve_upstream_error_learning rd parse print (asked e remote parse' new_id tick now headers (s, rt))
        url provider ctx l model config = Some r \<and>
      upstream_error_template_by_fingerprint (rr_fingerprint req) (fst (snd
        (internal_resolve_upstream_error_template e remote parse' new_id tick now headers (Some req) (s, rt)))) = Some t \<and>
      locale_template (uet_templates t) (canonical_or_default l) = Some (lt_localized_message r) \<and>
      lt_semantic_error_code r = uet_semantic_error_code t \<and> lt_action r = uet_action t \<and>
      lt_retry_scope r = uet_retry_scope t \<and> lt_fingerprint r = rr_fingerprint req"
proof -
  obtain t created rt' where res: "resolve_template remote parse' new_id tick now req s rt = ((t, created), rt')"
    by (metis surj_pair)
  have handler: "internal_resolve_upstream_error_template e remote parse' new_id tick now headers (Some req) (s, rt) =
      (Inr (t, created), snd (save_upstream_error_template t s), rt')"
    by (simp add: internal_resolve_upstream_error_template_def assms(3) res)
  note effect = resolve_effect [OF assms(1,2) res]
  have target: "rr_target_locale req = canonical_or_default l" by (simp add: assms(5))
  obtain m where m: "locale_template (uet_templates t) (canonical_or_default l) = Some m"
    using resolve_present [OF _ res assms(6)] supported_canonical [of l] by (auto simp: target)
  then have "message_in_or_default t (canonical_or_default l) = Some m"
    by (simp add: message_in_or_default_def localized_message_from_template_def canonical_supported
        supported_canonical template_in_supported or_else_def)
  then have "resolve_upstream_error_learning rd parse print (asked e remote parse' new_id tick now headers (s, rt))
      url provider ctx l model config = Some (resolution_of (uet_fingerprint t) t m)"
    using resolve_asks [OF assms(4) [unfolded assms(5)], folded assms(5)]
    by (simp add: resolve_template_via_control_plane_def asked_def handler target)
  moreover have "upstream_error_template_by_fingerprint (rr_fingerprint req) (snd (save_upstream_error_template t s)) = Some t"
    using found_after_save [OF assms(1) effect(1)] effect(2) by simp
  ultimately show ?thesis using m effect(2) by (simp add: handler resolution_of_def)
qed

definition demo_config :: "unit app_config" where
  "demo_config = demo_state\<lparr>ac_approved_templates := [],
     ac_ai_error_learning_settings := \<lparr>ael_enabled = True, ael_first_seen_timeout_ms = 2000,
       ael_review_hit_threshold = 10, ael_updated_at = None\<rparr>\<rparr>"

definition demo_unknown :: upstream_error_context where
  "demo_unknown = \<lparr>uec_upstream_status = 418, uec_status = 418, uec_error_code = None, uec_error_message = Some ''odd'',
     uec_raw_error = None, uec_retry_after = None, uec_upstream_request_id = None, uec_class = UnknownClass,
     uec_learned_resolution = None\<rparr>"

definition plain_redactions :: redactions where
  "plain_redactions =
     \<lparr>rd_email = id, rd_uuid = id, rd_request_id = id, rd_model = id, rd_number = id, rd_whitespace = id\<rparr>"

theorem unknown_error_localised_witness:
  "\<exists>r. resolve_upstream_error_learning plain_redactions (\<lambda>_. None) (\<lambda>_. [])
      (asked demo_internal (\<lambda>_ _. None) (\<lambda>_. None) 7 0 0 [(''authorization'', ''Bearer s'')] demo_service)
      (Some ''http://control'') ''openai'' demo_unknown ''ja-JP'' None demo_config = Some r"
proof -
  obtain s rt where service: "demo_service = (s, rt)" by fastforce
  let ?req = "learning_request plain_redactions (\<lambda>_. None) (\<lambda>_. []) ''openai'' demo_unknown ''ja-JP'' None"
  have "templates_ok s" using learning_reachable_ok [OF demo_reachable(1)] by (simp add: service learning_ok_def)
  moreover have "asks (Some ''http://control'') demo_unknown demo_config (rr_fingerprint ?req)"
    by (simp add: asks_def demo_config_def should_attempt_ai_error_learning_def demo_unknown_def)
  moreover have "snd (tally (rr_fingerprint ?req) s) \<noteq> Rejected"
    using service by (auto simp: demo_service_def new_with_oauth_def tally_def upstream_error_template_by_fingerprint_def)
  moreover have "map_of (cp_error_templates s) 7 = None" using demo_fresh [of 7] by (simp add: service)
  ultimately show ?thesis
    using unknown_error_localised [of s 7 demo_internal "[(''authorization'', ''Bearer s'')]" "Some ''http://control''"
        demo_unknown demo_config ?req] demo_token unfolding service by blast
qed

section \<open>Verdicts that are lost\<close>

text \<open>
  A rejected template is served as before: rejecting it changes neither the text nor the action that data
  planes apply.
\<close>

lemma rejected_template_served:
  assumes "cp_require_internal_service_token e headers = Inr ()"
    and "upstream_error_template_by_fingerprint (rr_fingerprint req) s = Some t" "uet_status t = Rejected"
  shows "resolve_template_via_control_plane (asked e remote parse new_id tick now headers (s, rt)) timeout_ms req =
    map_option (resolution_of (uet_fingerprint t) t) (message_in_or_default t (rr_target_locale req))"
proof -
  obtain t' created rt' where res: "resolve_template remote parse new_id tick now req s rt = ((t', created), rt')"
    by (metis surj_pair)
  then have "uet_templates t' = uet_templates t \<and> uet_semantic_error_code t' = uet_semantic_error_code t \<and>
      uet_action t' = uet_action t \<and> uet_retry_scope t' = uet_retry_scope t \<and> uet_fingerprint t' = uet_fingerprint t"
    using assms(2,3) by (auto simp: resolve_template_def Let_def count_hit_def review_when_due_def split: if_splits)
  then show ?thesis
    by (simp add: resolve_template_via_control_plane_def asked_def internal_resolve_upstream_error_template_def
        assms(1) res resolution_of_def [abs_def] message_in_or_default_def localized_message_from_template_def)
qed

text \<open>
  An operator's edit is undone by the next request in a language that the edited template lacks: where the code
  of the template is one of the built-in ones, all its texts become the built-in ones and the action becomes
  the built-in action, also for an approved template.
\<close>

lemma operator_edit_overwritten:
  assumes "upstream_error_template_by_fingerprint (rr_fingerprint req) s = Some t" "uet_status t = Approved"
    and "locale_template (uet_templates t) (rr_target_locale req) = None"
    and "builtin_error_template HeuristicUpstream (uet_semantic_error_code t) s = Some builtin"
    and "trim (uet_semantic_error_code t) \<noteq> []" "bet_action builtin = Some action"
    and "resolve_template remote parse new_id tick now req s rt = ((t', created), rt')"
  shows "uet_status t' = Approved \<and> uet_templates t' = bet_templates builtin \<and> uet_action t' = action"
  using assms by (auto simp: resolve_template_def Let_def count_hit_def review_when_due_def add_generated_def
      apply_builtin_heuristic_template_if_known_def locale_is_present_def case_prod_unfold)

text \<open>
  A rejection during a request is lost. The handlers of operators do not take the lock of the fingerprint: a
  request that read the template before the rejection saves it after it with the status it had.
\<close>

lemma rejection_lost:
  assumes "templates_ok s" "upstream_error_template_by_id i s = Some t" "uet_status t = Approved"
    and "rr_fingerprint req = uet_fingerprint t"
    and "resolve_template remote parse new_id tick now req s rt = ((t', created), rt')"
    and "s1 = snd (reject_admin_upstream_error_template (Inr ()) i now' s)"
  shows "snd (tally (uet_fingerprint t) s1) = Rejected"
    and "snd (tally (uet_fingerprint t) (snd (save_upstream_error_template t' s1))) = Approved"
proof -
  note found = found_by_id [OF assms(1,2)]
  let ?r = "t\<lparr>uet_status := Rejected, uet_updated_at := now'\<rparr>"
  have s1: "s1 = snd (save_upstream_error_template ?r s)"
    by (simp add: assms(2,6) reject_admin_upstream_error_template_def with_template_def split_beta)
  have save: "save_ok ?r s" using found by (simp add: save_ok_def)
  note lookup = found_after_save [OF assms(1) save, folded s1]
  then show "snd (tally (uet_fingerprint t) s1) = Rejected" by (simp add: tally_def)
  from resolve_frame [OF assms(5)] found(2) assms(3,4)
  have t': "uet_fingerprint t' = uet_fingerprint t" "uet_id t' = uet_id t" "uet_status t' = Approved"
    by (auto simp: frame_def base_template_def count_hit_def next_status_def)
  have "save_ok t' s1" using t' lookup by (simp add: save_ok_def)
  moreover have "templates_ok s1" unfolding s1 by (rule templates_ok_save [OF assms(1) save])
  ultimately show "snd (tally (uet_fingerprint t) (snd (save_upstream_error_template t' s1))) = Approved"
    using t' by (simp add: tally_def found_after_save)
qed

end
