(* ===== verification/Error_Privacy.thy ===== *)
theory Error_Privacy
  imports Error_Learning_Client
begin

text \<open>
  What an upstream error tells the control plane about the user: nothing that stands below a sensitive key of
  an error body, in a text of bounded length. The message of the error, however, is passed on as it is.
\<close>

section \<open>The public part of a value\<close>

lemma member_size: "p \<in> set members \<Longrightarrow> size (snd p) < size (JObject members)"
  by (induction members) auto

function public_view :: "json \<Rightarrow> json" where
  "public_view (JObject members) =
     JObject (map (\<lambda>p. (fst p, if is_sensitive_upstream_error_key (fst p) then JNull else public_view (snd p))) members)"
| "public_view (JArray items) = JArray (map public_view items)"
| "public_view JNull = JNull"
| "public_view (JBool b) = JBool b"
| "public_view (JInt i) = JInt i"
| "public_view (JFloat f) = JFloat f"
| "public_view (JString s) = JString s"
  by pat_completeness auto

termination
  by (relation "measure size") (use member_size json_item_size in auto)

lemma insort_key_map: "(\<And>p. fst (g p) = fst p) \<Longrightarrow> insort_key fst (g x) (map g xs) = map g (insort_key fst x xs)"
  by (induction xs) simp_all

lemma sort_key_map: "(\<And>p. fst (g p) = fst p) \<Longrightarrow> sort_key fst (map g xs) = map g (sort_key fst xs)"
  by (induction xs) (simp_all add: insort_key_map)

abbreviation hidden_key :: "string option \<Rightarrow> bool" where
  "hidden_key key \<equiv> (case key of None \<Rightarrow> False | Some k \<Rightarrow> is_sensitive_upstream_error_key k)"

lemma sanitize_hidden: "hidden_key key \<Longrightarrow> sanitize_upstream_error_json_value n rd model key w = JString ''[redacted]''"
  by (subst sanitize_upstream_error_json_value.simps) simp

lemma sanitize_public:
  "sanitize_upstream_error_json_value n rd model key (public_view w) = sanitize_upstream_error_json_value n rd model key w"
proof (induction n arbitrary: key w)
  case 0
  then show ?case by (cases "hidden_key key")
    (simp add: sanitize_hidden, subst (1 2) sanitize_upstream_error_json_value.simps, simp)
next
  case (Suc n)
  let ?f = "\<lambda>(k, child). (k, sanitize_upstream_error_json_value n rd model (Some k) child)"
  show ?case
  proof (cases "hidden_key key \<or> (\<exists>i f b t. w \<in> {JNull, JBool b, JInt i, JFloat f, JString t})")
    case True
    then show ?thesis by (auto simp: sanitize_hidden)
  next
    case False
    then consider members where "w = JObject members" | items where "w = JArray items" by (cases w) auto
    then show ?thesis
    proof cases
      case (1 members)
      let ?g = "\<lambda>p. (fst p, if is_sensitive_upstream_error_key (fst p) then JNull else public_view (snd p))"
      have "?f (?g p) = ?f p" for p using Suc.IH by (cases p) (simp add: sanitize_hidden)
      then have all: "map ?f (sort_key fst (map ?g members)) = map ?f (sort_key fst members)"
        by (simp only: sort_key_map [of ?g] list.map_comp comp_def fst_conv)
      then have "map ?f (take k (sort_key fst (map ?g members))) = map ?f (take k (sort_key fst members))" for k
        by (simp only: take_map [symmetric])
      with all False show ?thesis
        unfolding 1 public_view.simps
        by (subst (1 2) sanitize_upstream_error_json_value.simps) (simp add: Let_def)
    next
      case (2 items)
      with False Suc.IH show ?thesis
        by (subst (1 2) sanitize_upstream_error_json_value.simps) (simp add: take_map)
    qed
  qed
qed

lemma chars_count_take: "chars_count (take_chars n s) \<le> n"
  by (induction n s rule: take_chars.induct) (auto simp: chars_count_def in_range_def byte_def split: nat.split)

lemma chars_count_append: "chars_count (s @ t) = chars_count s + chars_count t"
  by (simp add: chars_count_def)

lemma truncated_length: "chars_count (truncate_upstream_error_text t) \<le> 2062"
proof -
  have "chars_count ''...[truncated]'' = 14" by code_simp
  then show ?thesis
    using chars_count_take [of 2048 t] by (simp add: truncate_upstream_error_text_def chars_count_append)
qed

text \<open>
  C35. What a user wrote does not leave with an error. Two error bodies in JSON that differ only below keys such
  as \<^verbatim>\<open>input\<close>, \<^verbatim>\<open>messages\<close> or \<^verbatim>\<open>content\<close>, at any depth, are sanitised to the same text: nothing of what stands
  there can be told from the result. Every sanitised text has at most 2048 characters and the mark of its
  truncation.
\<close>

theorem sanitized_error_hides_content:
  assumes "trim_nonempty raw = Some r" "parse r = Some w" "trim_nonempty raw' = Some r'" "parse r' = Some w'"
    and "public_view w = public_view w'"
  shows "\<exists>text. sanitize_upstream_error_raw rd parse print model (Some raw) = Some text \<and>
    sanitize_upstream_error_raw rd parse print model (Some raw') = Some text \<and> chars_count text \<le> 2062"
proof -
  have "sanitize_upstream_error_json_value n rd model None w = sanitize_upstream_error_json_value n rd model None w'" for n
    using sanitize_public assms(5) by metis
  with assms(1-4) truncated_length show ?thesis by (simp add: sanitize_upstream_error_raw_def)
qed

definition demo_redactions :: redactions where
  "demo_redactions = \<lparr>rd_email = id, rd_uuid = id, rd_request_id = id, rd_model = id, rd_number = id, rd_whitespace = id\<rparr>"

fun demo_print :: "json \<Rightarrow> string" where
  "demo_print (JObject ((k, JString v) # _)) = k @ ''='' @ v"
| "demo_print _ = []"

definition demo_parse_body :: "string \<Rightarrow> json option" where
  "demo_parse_body r = Some (JObject [(''input'', JString r)])"

theorem sanitized_error_hides_content_witness:
  "\<exists>text. sanitize_upstream_error_raw demo_redactions demo_parse_body demo_print None (Some ''secret'') = Some text \<and>
     sanitize_upstream_error_raw demo_redactions demo_parse_body demo_print None (Some ''other'') = Some text \<and>
     chars_count text \<le> 2062"
proof -
  have "trim_nonempty ''secret'' = Some ''secret''" "trim_nonempty ''other'' = Some ''other''" by code_simp+
  moreover have "is_sensitive_upstream_error_key ''input''" by code_simp
  ultimately show ?thesis
    using sanitized_error_hides_content [of "''secret''" "''secret''" demo_parse_body _ "''other''" "''other''"]
    by (simp add: demo_parse_body_def)
qed

text \<open>
  The message of the error is not sanitised: it reaches the control plane, and from there the language model,
  word for word.
\<close>

lemma error_message_forwarded_verbatim:
  assumes "uec_error_message ctx = Some message" "uec_class ctx = UnknownClass"
    and "map_of (ac_approved_templates st)
      (normalize_upstream_error_fingerprint rd provider (uec_status ctx) message model) = None"
    and "ael_enabled (ac_ai_error_learning_settings st)" "url \<noteq> None"
  shows "\<exists>timeout req. resolve_upstream_error_learning rd parse print call url provider ctx l model st =
      resolve_template_via_control_plane call timeout req \<and> rr_normalized_upstream_message req = message"
proof -
  let ?req = "learning_request rd parse print provider ctx l model"
  have req: "rr_normalized_upstream_message ?req = message" "rr_fingerprint ?req =
      normalize_upstream_error_fingerprint rd provider (uec_status ctx) message model"
    using assms(1) by (simp_all add: learning_request_def learning_message_def or_else_def)
  from assms(2-5) have "resolve_upstream_error_learning rd parse print call url provider ctx l model st =
      resolve_template_via_control_plane call (ael_first_seen_timeout_ms (ac_ai_error_learning_settings st)) ?req"
    by (auto simp: resolve_upstream_error_learning_def req(2) should_attempt_ai_error_learning_def)
  with req(1) show ?thesis by blast
qed

end
