(* ===== verification/Spec2Isabelle.thy ===== *)
theory Spec2Isabelle
  imports Router_Correct Routing_Cache Auth_Props Ledger_Claims Snapshot_Props Request_Guard_Props Proxy_Loop_Correct
    Pool_Snapshot Pool_Bounds Api_Keys_Props Sqlite_Store_Props Sqlite_Persist
    Rate_Limit_Jobs_Props Error_Learning_Props Error_Privacy
begin

text \<open>
  Verification of Codex-Pool, a gateway that serves many clients from a pool of upstream accounts. The
  program has a data plane (\<^verbatim>\<open>services/data-plane\<close>), which authenticates clients, chooses an account for each
  request, proxies it with retries and failover and meters it, and a control plane
  (\<^verbatim>\<open>services/control-plane\<close>), which keeps accounts, API keys, prices and the credit ledger and sends
  configuration snapshots to the data plane. Shared types are in \<^verbatim>\<open>crates/codex-pool-core\<close>.

  \<^bold>\<open>How the model is built.\<close> Every operation is a function with the state it changes as argument and result:
  structs are records, enums datatypes, errors values of a sum type. An operation takes the clock as
  argument (\<open>now\<close>) and reads it once; locks make the operations of one structure atomic, and a concurrent
  history is a sequence of operations. A \<^verbatim>\<open>HashMap\<close> is an association list with distinct keys, whose
  order stands for the iteration order that Rust leaves open. Strings are their UTF-8 bytes. Counters and
  cursors are 64-bit words and wrap; amounts of money are integers with the saturating operations of
  \<^verbatim>\<open>i64\<close> and \<^verbatim>\<open>i128\<close> written out. Services, databases, third-party libraries and the answers of
  upstreams are parameters or inputs of a step.

  \<^bold>\<open>Theories.\<close>
  \<^item> \<^verbatim>\<open>Prelude\<close>, \<^verbatim>\<open>Http\<close>, \<^verbatim>\<open>Json\<close>, \<^verbatim>\<open>Ttl_Store\<close>: shared vocabulary: durations, saturating
    arithmetic, \<^verbatim>\<open>str\<close> operations, hash maps, headers and status codes, JSON values, lossy UTF-8
    decoding, and the locale \<^verbatim>\<open>expiring_store\<close>, the contract of every table whose entries expire. It is
    interpreted for the in-memory routing cache (affinity and health) and for unavailable proxies.
  \<^item> \<^verbatim>\<open>Core_Model\<close>: \<^verbatim>\<open>crates/codex-pool-core\<close>: the data model, the snapshot contract and the product
    editions.
  \<^item> \<^verbatim>\<open>Router\<close>, \<^verbatim>\<open>Router_Props\<close>, \<^verbatim>\<open>Sticky_Policy\<close>, \<^verbatim>\<open>Router_Correct\<close>: \<^verbatim>\<open>router.rs\<close>, the whole
    \<^verbatim>\<open>RoundRobinRouter\<close>. The two selection policies (rotation over all accounts, ordered candidates of
    a routing plan) share the affinity logic through a locale of \<^verbatim>\<open>Sticky_Policy\<close>. Shown: soundness and
    completeness of a selection, affinity, avoidance of accounts of other sessions, fairness of the rotation,
    ejection and recovery, and the invariant of all reachable states.
  \<^item> \<^verbatim>\<open>Routing_Cache\<close>: \<^verbatim>\<open>routing_cache.rs\<close>, the in-memory, Redis and hybrid caches, with what an
    outage of Redis can and cannot change.
  \<^item> \<^verbatim>\<open>Auth\<close>, \<^verbatim>\<open>Auth_Props\<close>: \<^verbatim>\<open>auth.rs\<close> and \<^verbatim>\<open>auth/validator.rs\<close>, the cache of validated keys:
    who passes, and that every grant and denial rests on an answer of the control plane.
  \<^item> \<^verbatim>\<open>Cost\<close>, \<^verbatim>\<open>Pricing\<close>: \<^verbatim>\<open>cost.rs\<close>, \<^verbatim>\<open>tenant/billing_core.rs\<close> and the price rules: rounding, monotony,
    multipliers, choice of the price band.
  \<^item> \<^verbatim>\<open>Ledger\<close>, \<^verbatim>\<open>Ledger_Props\<close>, \<^verbatim>\<open>Ledger_Correct\<close>, \<^verbatim>\<open>Ledger_Claims\<close>: the credit ledger of
    \<^verbatim>\<open>tenant/\<close>: authorize, capture, release, reconcile, recharge and daily rewards as transactions over
    tables. Shown: the invariant of every history (no overdraft, the balance is the sum of the ledger, reserved
    money is accounted for), exact charges, finality, idempotent retries, atomic failures.
  \<^item> \<^verbatim>\<open>Outbound_Proxy\<close>: selection and health of outbound proxies, \<^verbatim>\<open>outbound_proxy_runtime.rs\<close>.
  \<^item> \<^verbatim>\<open>Snapshot\<close>, \<^verbatim>\<open>Snapshot_Props\<close>: \<^verbatim>\<open>snapshot.rs\<close>: loading snapshots, applying events and the polling
    loop. The configuration a data plane has is refined to an abstract view: events lead to the same
    view as the later snapshot.
  \<^item> \<^verbatim>\<open>Upstream_Errors\<close>, \<^verbatim>\<open>Upstream_Errors_Props\<close>: the error part of \<^verbatim>\<open>proxy/request_utils.rs\<close>: error
    contexts, classes, decisions, ejection times, recovery.
  \<^item> \<^verbatim>\<open>Request_Guard\<close>, \<^verbatim>\<open>Request_Guard_Props\<close>: the guard against repeated invalid requests, against the
    history of failures.
  \<^item> \<^verbatim>\<open>Failover\<close>, \<^verbatim>\<open>Proxy_Loop\<close>, \<^verbatim>\<open>Proxy_Loop_Props\<close>, \<^verbatim>\<open>Proxy_Loop_Correct\<close>: the loop of
    \<^verbatim>\<open>proxy_handler\<close> in \<^verbatim>\<open>proxy/entry.rs\<close> over router, routing cache, proxies, guard and billing, as a state
    machine whose steps are the passes of the outer and the inner loop, with other requests
    interfering between steps. Shown: the billing protocol, the choice of accounts, an answer in bounded time after
    the deadline, and the ejection of accounts that are given up.
  \<^item> \<^verbatim>\<open>Pool_Signals\<close>, \<^verbatim>\<open>Pool_Store\<close>, \<^verbatim>\<open>Pool_Health\<close>, \<^verbatim>\<open>Pool_Vault\<close>, \<^verbatim>\<open>Pool_Tokens\<close>,
    \<^verbatim>\<open>Pool_Activation\<close>: the account pool of the control plane, the in-memory store of
    \<^verbatim>\<open>store/defs.rs\<close>, \<^verbatim>\<open>store/in_memory_core.rs\<close>, \<^verbatim>\<open>store/family_snapshot.rs\<close> and
    \<^verbatim>\<open>store/oauth_ops.rs\<close>: settings and error signals; the tables; pool states, live results, purges,
    families, probes and patrols; the vault of refresh tokens with admission and retries; import, upsert
    and refresh of tokens; activation of vault records. A batch the code runs concurrently is run in
    order.
  \<^item> \<^verbatim>\<open>Pool_Props\<close>, \<^verbatim>\<open>Pool_Claims\<close>, \<^verbatim>\<open>Pool_Lifecycle\<close>, \<^verbatim>\<open>Pool_Bounds\<close>: the invariant of the tables in
    every history of the pool (the relation \<^verbatim>\<open>pool_step\<close> has a rule for each operation), the strike
    rule, deletion, families of reused tokens, duplicates, and the limits of activation and retries. The
    tables that hang on accounts share the locales \<^verbatim>\<open>account_table\<close> and \<^verbatim>\<open>one_time_table\<close>.
  \<^item> \<^verbatim>\<open>Route_Plan\<close>, \<^verbatim>\<open>Route_Plan_Props\<close>, \<^verbatim>\<open>Pool_Snapshot\<close>: the compilation of routing plans and the
    snapshot of the pool, against a reference and composed with the router: what the data plane
    picks after loading a snapshot.
  \<^item> \<^verbatim>\<open>Builtin_Templates\<close>, \<^verbatim>\<open>Store_Admin\<close>: the other tables of the in-memory store: tenants, proxy nodes,
    routing profiles and policies, settings, error templates with the texts the program ships, and the
    complete snapshot.
  \<^item> \<^verbatim>\<open>Api_Keys\<close>, \<^verbatim>\<open>Api_Keys_Props\<close>: \<^verbatim>\<open>security.rs\<close>, the key tables and the validation endpoint, composed with
    the authentication of the data plane: exactly the issued keys that are switched on pass, and a key that
    is switched off is refused once earlier answers have expired.
  \<^item> \<^verbatim>\<open>Sqlite_Store\<close>, \<^verbatim>\<open>Sqlite_Store_Props\<close>: \<^verbatim>\<open>store/sqlite_backed.rs\<close>, the row that holds the store, and
    the feed by which data planes follow it: a restart keeps the state, a change of the snapshot raises
    the revision, and a data plane that polls gets the snapshot of a newer revision.
  \<^item> \<^verbatim>\<open>Sqlite_Persist\<close>: the protocol by which concurrent calls share the writing of the row, as a step relation
    over single accesses to atomics, lock, tables and database: success is reported only for
    changes that are in the row.
  \<^item> \<^verbatim>\<open>Rate_Limit_Jobs\<close>, \<^verbatim>\<open>Rate_Limit_Jobs_Props\<close>: the refresh of rate limits in \<^verbatim>\<open>store/oauth_ops.rs\<close> and
    \<^verbatim>\<open>store/trait_impl.rs\<close>: batches by cursor, the pass over due entries and the jobs operators start. A
    job asks every account once; the pass ends when it is faster than its entries expire.
  \<^item> \<^verbatim>\<open>Error_Learning_Client\<close>, \<^verbatim>\<open>Error_Privacy\<close>: \<^verbatim>\<open>proxy/error_learning.rs\<close>: the language of a request, texts of
    the gateway, sanitised errors, fingerprints and the resolution of an error. Nothing below a sensitive
    key leaves the data plane.
  \<^item> \<^verbatim>\<open>Error_Learning\<close>, \<^verbatim>\<open>Error_Learning_Props\<close>: \<^verbatim>\<open>upstream_error_learning.rs\<close> and the handlers of
    \<^verbatim>\<open>core_handlers/ai_error_learning.rs\<close>: the type of the tables in every reachable state, counting and
    review, and the text a user gets across both planes.

  \<^bold>\<open>Bounds.\<close> The loops of the sources are recursions that terminate, so no fuel is needed, with three exceptions:
  the request loop is a step function, and \<^verbatim>\<open>answered_after_deadline\<close> bounds its steps; the loops over
  expiring tokens and over due rate limits are partial functions, because they need not end
  (\<^verbatim>\<open>refresh_expiring_diverges\<close>, \<^verbatim>\<open>refresh_due_ends\<close>).
  Completeness and fairness of the rotation assume that the 64-bit cursor does not wrap during a call: the
  index then jumps. Instants are unbounded; where the addition of a duration would overflow in Rust, a
  finding says so. The generations and the revision of \<^verbatim>\<open>Sqlite_Persist\<close> are natural numbers: they are 64-bit
  counters that go up by one per call.

  \<^bold>\<open>Not modelled.\<close> Websocket proxying, the reading and adapting of requests before the loop, token counting of
  replies and streams, floating-point reserve estimates, the alive ring in Redis (an input of the
  loop), logs and metrics, and of the control plane the SQL of the PostgreSQL store (the lookup of keys apart), the
  client of the identity provider, import jobs, the admin interface and usage
  reports. They are input and output, SQL or text around the modelled state.
\<close>

end
